(* ===== verification/DD_Prelude.thy ===== *)
theory DD_Prelude
  imports Main "HOL-Library.Word"
begin

text \<open>
  Shared vocabulary of the development: bytes and C's \<open>size_t\<close>, the value that stands for
  undefined behaviour (\<open>fault\<close>), sequencing of computations that may fault (\<open>rbind\<close>),
  bounds-checked blocks of memory (C arrays) with \<open>memcpy\<close>, and the little-endian codec of
  integers that a C struct in memory uses on the program's platforms.
\<close>

named_theorems block_simps \<open>reading and writing blocks\<close>

type_synonym byte = "8 word"
type_synonym size_t = "64 word"

section \<open>Faults\<close>

text \<open>
  The program is C++: an access outside an object, through a null pointer, or to an object that
  is gone has no defined result, nor has a call through a pointer to a function of another type. A model function returns \<open>Inl\<close> of the fault there, so a
  theorem with \<open>Inr\<close> in its conclusion says that the code stays defined.
\<close>

datatype fault = OutOfBounds | NullPointer | DeadObject | IllTyped

type_synonym 'a result = "fault + 'a"

definition rbind :: "'e + 'a \<Rightarrow> ('a \<Rightarrow> 'e + 'b) \<Rightarrow> 'e + 'b" where
  "rbind m f = (case m of Inl e \<Rightarrow> Inl e | Inr x \<Rightarrow> f x)"

lemma rbind_Inl [simp]: "rbind (Inl e) f = Inl e"
  by (simp add: rbind_def)

lemma rbind_Inr [simp]: "rbind (Inr x) f = f x"
  by (simp add: rbind_def)

lemma rbind_Inr_right [simp]: "rbind m Inr = m"
  by (cases m) auto

lemma rbind_eq_InrE:
  assumes "rbind m f = Inr y"
  obtains x where "m = Inr x" "f x = Inr y"
  using assms by (cases m) auto

lemma rbind_assoc: "rbind (rbind m f) g = rbind m (\<lambda>x. rbind (f x) g)"
  by (cases m) auto

lemma rbind_cong [fundef_cong]:
  "m = m' \<Longrightarrow> (\<And>x. m' = Inr x \<Longrightarrow> f x = g x) \<Longrightarrow> rbind m f = rbind m' g"
  by (cases m') auto

section \<open>Conversions between C integers\<close>

text \<open>
  \<open>szt\<close> is the conversion of a signed 64-bit value (\<open>ssize_t\<close>) to \<open>size_t\<close>, as a number:
  reduction modulo \<open>2 ^ 64\<close>.
\<close>

definition szt :: "int \<Rightarrow> nat" where
  "szt i = nat (i mod 2 ^ 64)"

lemma szt_nonneg [simp]: "0 \<le> i \<Longrightarrow> i < 2 ^ 64 \<Longrightarrow> szt i = nat i"
  by (simp add: szt_def)

lemma szt_of_nat [simp]: "n < 2 ^ 64 \<Longrightarrow> szt (int n) = n"
  by (simp add: szt_def)

lemma unat_of_nat_size [simp]: "n < 2 ^ 64 \<Longrightarrow> unat (of_nat n :: size_t) = n"
  by (simp add: unat_of_nat take_bit_nat_eq_self)

lemma sint_small: "unat (x :: size_t) < 2 ^ 63 \<Longrightarrow> sint x = int (unat x)"
proof -
  assume "unat x < 2 ^ 63"
  then have "int (unat x) < 2 ^ 63" by (metis of_nat_less_numeral_power_cancel_iff)
  then have "uint x < 2 ^ 63" by simp
  moreover have "- (2 ^ 63) \<le> uint x"
    by (rule order_trans [of _ 0]) simp_all
  ultimately have "signed_take_bit 63 (uint x) = uint x"
    by (intro signed_take_bit_int_eq_self)
  then show ?thesis by (simp add: sint_uint)
qed

section \<open>Blocks of memory\<close>

text \<open>
  A block is an array object: its size and its contents. Reading or writing outside it is a
  fault. No C++ object is larger than \<open>PTRDIFF_MAX\<close>, so an access that reaches beyond that
  is outside every object.
\<close>

definition PTRDIFF_MAX :: nat where
  "PTRDIFF_MAX = 2 ^ 63 - 1"

record block =
  bsize :: nat
  bdata :: "nat \<Rightarrow> byte"

definition in_block :: "block \<Rightarrow> nat \<Rightarrow> nat \<Rightarrow> bool" where
  "in_block b off n \<longleftrightarrow> off + n \<le> bsize b \<and> off + n \<le> PTRDIFF_MAX"

definition peek :: "block \<Rightarrow> nat \<Rightarrow> nat \<Rightarrow> byte list" where
  "peek b off n = map (\<lambda>i. bdata b (off + i)) [0..<n]"

definition poke :: "block \<Rightarrow> nat \<Rightarrow> byte list \<Rightarrow> block" where
  "poke b off bs =
     b\<lparr>bdata := (\<lambda>i. if off \<le> i \<and> i < off + length bs then bs ! (i - off) else bdata b i)\<rparr>"

definition load_bytes :: "block \<Rightarrow> nat \<Rightarrow> nat \<Rightarrow> byte list result" where
  "load_bytes b off n = (if in_block b off n then Inr (peek b off n) else Inl OutOfBounds)"

definition store_bytes :: "block \<Rightarrow> nat \<Rightarrow> byte list \<Rightarrow> block result" where
  "store_bytes b off bs =
     (if in_block b off (length bs) then Inr (poke b off bs) else Inl OutOfBounds)"

definition memcpy :: "block \<Rightarrow> nat \<Rightarrow> block \<Rightarrow> nat \<Rightarrow> nat \<Rightarrow> block result" where
  "memcpy dst doff src soff n = rbind (load_bytes src soff n) (store_bytes dst doff)"

lemma length_peek [simp]: "length (peek b off n) = n"
  by (simp add: peek_def)

lemma bsize_poke [simp]: "bsize (poke b off bs) = bsize b"
  by (simp add: poke_def)

lemma in_block_poke [simp]: "in_block (poke b off bs) i n = in_block b i n"
  by (simp add: in_block_def)

lemma load_bytes_in [block_simps]: "in_block b off n \<Longrightarrow> load_bytes b off n = Inr (peek b off n)"
  by (simp add: load_bytes_def)

lemma store_bytes_in [block_simps]:
  "in_block b off (length bs) \<Longrightarrow> store_bytes b off bs = Inr (poke b off bs)"
  by (simp add: store_bytes_def)

lemma memcpy_in [block_simps]:
  "in_block src soff n \<Longrightarrow> in_block dst doff n \<Longrightarrow>
   memcpy dst doff src soff n = Inr (poke dst doff (peek src soff n))"
  by (simp add: memcpy_def load_bytes_def store_bytes_def)

lemma peek_append: "peek b off (m + n) = peek b off m @ peek b (off + m) n"
  by (rule nth_equalityI) (auto simp: peek_def nth_append)

lemma peek_poke_same: "n = length bs \<Longrightarrow> peek (poke b off bs) off n = bs"
  by (rule nth_equalityI) (auto simp: peek_def poke_def)

lemma peek_poke_before: "i + n \<le> off \<Longrightarrow> peek (poke b off bs) i n = peek b i n"
  by (rule nth_equalityI) (auto simp: peek_def poke_def)

lemma peek_poke_extend: "peek (poke b off bs) 0 (off + length bs) = peek b 0 off @ bs"
  by (simp add: peek_append peek_poke_same peek_poke_before)

lemma peek_0 [simp]: "peek b off 0 = []"
  by (simp add: peek_def)

lemma take_peek: "m \<le> n \<Longrightarrow> take m (peek b off n) = peek b off m"
  by (rule nth_equalityI) (auto simp: peek_def)

lemma drop_peek: "drop m (peek b off n) = peek b (off + m) (n - m)"
  by (rule nth_equalityI) (auto simp: peek_def ac_simps)

section \<open>Little-endian integers\<close>

primrec le_bytes :: "nat \<Rightarrow> nat \<Rightarrow> byte list" where
  "le_bytes 0 x = []"
| "le_bytes (Suc n) x = of_nat (x mod 256) # le_bytes n (x div 256)"

primrec le_value :: "byte list \<Rightarrow> nat" where
  "le_value [] = 0"
| "le_value (b # bs) = unat b + 256 * le_value bs"

lemma length_le_bytes [simp]: "length (le_bytes n x) = n"
  by (induction n arbitrary: x) auto

lemma unat_byte_of_nat: "x < 256 \<Longrightarrow> unat (of_nat x :: byte) = x"
  by (simp add: unat_of_nat take_bit_nat_eq_self)

lemma le_value_le_bytes: "x < 256 ^ n \<Longrightarrow> le_value (le_bytes n x) = x"
proof (induction n arbitrary: x)
  case 0
  then show ?case by simp
next
  case (Suc n)
  then have "x div 256 < 256 ^ n"
    by (simp add: less_mult_imp_div_less mult.commute)
  then show ?case
    using Suc.IH [of "x div 256"] by (simp add: unat_byte_of_nat)
qed

lemma le_value_bound: "le_value bs < 256 ^ length bs"
proof (induction bs)
  case Nil
  show ?case by simp
next
  case (Cons b bs)
  have "unat b < 256" using unsigned_less [where ?'a = nat, of b] by simp
  with Cons.IH show ?case by simp
qed

lemma le_bytes_le_value: "le_bytes (length bs) (le_value bs) = bs"
proof (induction bs)
  case Nil
  show ?case by simp
next
  case (Cons b bs)
  have b: "unat b < 256" using unsigned_less [where ?'a = nat, of b] by simp
  then have "(unat b + 256 * le_value bs) mod 256 = unat b"
    and "(unat b + 256 * le_value bs) div 256 = le_value bs"
    by simp_all
  with Cons.IH show ?case by simp
qed

section \<open>Splitting a list into chunks\<close>

lemma append_past:
  assumes "xs @ ys = us @ vs" "length us \<le> length xs"
  shows "xs = us @ drop (length us) xs" and "drop (length us) xs @ ys = vs"
proof -
  have "us = take (length us) (xs @ ys)" by (simp add: assms(1))
  then have us: "us = take (length us) xs" using assms(2) by simp
  then show xs: "xs = us @ drop (length us) xs" by (metis append_take_drop_id)
  have "us @ drop (length us) xs @ ys = us @ vs"
    using assms(1) xs by (metis append.assoc)
  then show "drop (length us) xs @ ys = vs" by simp
qed

function chunks_of :: "nat \<Rightarrow> 'a list \<Rightarrow> 'a list list" where
  "chunks_of n xs = (if n = 0 \<or> xs = [] then [] else take n xs # chunks_of n (drop n xs))"
  by pat_completeness auto
termination
  by (relation "measure (\<lambda>(n, xs). length xs)") auto

declare chunks_of.simps [simp del]

lemma chunks_of_Nil [simp]: "chunks_of n [] = []"
  by (simp add: chunks_of.simps)

lemma chunks_of_step: "0 < n \<Longrightarrow> xs \<noteq> [] \<Longrightarrow> chunks_of n xs = take n xs # chunks_of n (drop n xs)"
  by (simp add: chunks_of.simps [of n xs])

lemma concat_chunks_of: "0 < n \<Longrightarrow> concat (chunks_of n xs) = xs"
proof (induction n xs rule: chunks_of.induct)
  case (1 n xs)
  then show ?case by (cases "xs = []") (simp_all add: chunks_of_step)
qed

lemma chunks_of_lengths: "c \<in> set (chunks_of n xs) \<Longrightarrow> 0 < length c \<and> length c \<le> n"
proof (induction n xs rule: chunks_of.induct)
  case (1 n xs)
  then show ?case by (cases "n = 0 \<or> xs = []") (auto simp: chunks_of.simps [of n xs])
qed

lemma concat_take_chunks_of: "0 < n \<Longrightarrow> concat (take k (chunks_of n xs)) = take (k * n) xs"
proof (induction n xs arbitrary: k rule: chunks_of.induct)
  case (1 n xs)
  show ?case
  proof (cases "xs = [] \<or> k = 0")
    case True
    then show ?thesis by auto
  next
    case False
    then obtain j where k: "k = Suc j" by (cases k) auto
    have "take (n + j * n) xs = take n xs @ take (j * n) (drop n xs)"
      by (rule take_add)
    with 1 False show ?thesis by (simp add: k chunks_of_step)
  qed
qed

lemma length_chunks_of: "0 < n \<Longrightarrow> length (chunks_of n xs) = (length xs + n - 1) div n"
proof (induction n xs rule: chunks_of.induct)
  case (1 n xs)
  show ?case
  proof (cases "xs = []")
    case True
    with 1 show ?thesis by simp
  next
    case False
    have "(length xs + n - 1) div n = Suc ((length xs - n + n - 1) div n)"
    proof (cases "n \<le> length xs")
      case True
      then have "length xs + n - 1 = (length xs - n + n - 1) + n" using "1.prems" by simp
      then show ?thesis using "1.prems" by (metis div_add_self2 Suc_eq_plus1 not_gr_zero)
    next
      case small: False
      have "n \<le> length xs + n - 1" using False by (cases xs) auto
      with small have "(length xs + n - 1) div n = 1" using "1.prems"
        by (intro div_nat_eqI) auto
      with small "1.prems" show ?thesis by simp
    qed
    with 1 False show ?thesis by (simp add: chunks_of_step)
  qed
qed

lemma unat_of_nat_32: "n < 2 ^ 32 \<Longrightarrow> unat (of_nat n :: 32 word) = n"
  by (simp add: unat_of_nat take_bit_nat_eq_self)

end
