(* ===== verification/Command_Transport.thy ===== *)
theory Command_Transport
  imports DD_Prelude
begin

text \<open>
  \<open>CommandTransport\<close> of \<open>src/common/dawn_command_transport.cpp\<close>: the owner of a connected
  socket. This theory holds the part of the operating system the program uses (descriptors,
  \<open>send\<close>, \<open>shutdown\<close>, \<open>close\<close>, \<open>fsync\<close>), the store of transport objects, the
  constructor, the destructor and \<open>Send\<close>. The receiving side is in the theory
  \<open>Command_Receiver\<close>.
\<close>

section \<open>The operating system\<close>

text \<open>
  What a call of \<open>send\<close> does is the kernel's choice: \<open>send_script\<close> gives the outcome of the
  \<open>k\<close>-th call, either the number of bytes it accepts (POSIX: at most the number offered) or
  \<open>-1\<close> with \<open>errno\<close>. \<open>tx fd\<close> are the bytes the kernel has accepted on a descriptor,
  in order, \<open>fds\<close> the open descriptors, and \<open>syslog\<close> the calls without a result that the
  code uses.
\<close>

datatype send_outcome = Accepts nat | SendFails int

text \<open>
  Addresses as they are passed to \<open>connect\<close> and \<open>bind\<close>: the bytes of \<open>sun_path\<close>, an IPv4 address and
  port in host order, or one that the resolver returned.
\<close>

datatype sockaddr = Unix_path "byte list" | Inet "32 word" "16 word" | Resolved nat

datatype syscall = Shutdown int | Close int | Fsync int | Connect int sockaddr | Bind int sockaddr | Listen int int

record transport =
  mConnfd :: int

text \<open>
  Transport objects live on the heap: \<open>SendBuffer\<close>, \<open>runtime.cmdt\<close> and the threads hold
  pointers to the same object, so the objects are kept in a store (address to object).
\<close>

type_synonym addr = nat

record world =
  transports :: "addr \<Rightarrow> transport option"
  next_addr :: addr
  tx :: "int \<Rightarrow> byte list"
  fds :: "int list"
  send_script :: "nat \<Rightarrow> send_outcome"
  sends :: nat
  syslog :: "syscall list"

definition sys_log :: "syscall \<Rightarrow> world \<Rightarrow> world" where
  "sys_log c w = w\<lparr>syslog := syslog w @ [c]\<rparr>"

definition sys_close :: "int \<Rightarrow> world \<Rightarrow> world" where
  "sys_close fd w = sys_log (Close fd) (w\<lparr>fds := removeAll fd (fds w)\<rparr>)"

text \<open>The result of \<open>send\<close>, \<open>errno\<close> (meaningful when the result is negative), the new state.\<close>

definition sys_send :: "int \<Rightarrow> byte list \<Rightarrow> world \<Rightarrow> int \<times> int \<times> world" where
  "sys_send fd bs w =
     (case send_script w (sends w) of
        Accepts k \<Rightarrow>
          (int (min k (length bs)), 0,
           w\<lparr>tx := (tx w)(fd := tx w fd @ take k bs), sends := Suc (sends w)\<rparr>)
      | SendFails e \<Rightarrow> (- 1, e, w\<lparr>sends := Suc (sends w)\<rparr>))"

section \<open>Construction and destruction\<close>

definition new_CommandTransport :: "int \<Rightarrow> world \<Rightarrow> addr \<times> world" where
  "new_CommandTransport connfd w =
     (next_addr w,
      w\<lparr>transports := (transports w)(next_addr w \<mapsto> \<lparr>mConnfd = connfd\<rparr>),
        next_addr := Suc (next_addr w)\<rparr>)"

text \<open>
  The destructor. \<open>mConnfd = -1\<close> is a store into an object whose lifetime ends with the destructor;
  every later use of the object is undefined, a \<open>DeadObject\<close> here, also where the destructor is
  called explicitly and the memory stays allocated (\<open>finaliseWebGPUDD\<close>).
\<close>

definition destroy_CommandTransport :: "addr \<Rightarrow> world \<Rightarrow> world result" where
  "destroy_CommandTransport p w =
     (case transports w p of
        None \<Rightarrow> Inl DeadObject
      | Some t \<Rightarrow>
          (let w1 = (if mConnfd t \<ge> 0
                     then sys_close (mConnfd t) (sys_log (Shutdown (mConnfd t)) w)
                     else w)
           in Inr (w1\<lparr>transports := (transports w1)(p := None)\<rparr>)))"

section \<open>Send\<close>

definition SEND_BUF :: nat where
  "SEND_BUF = 65536"

text \<open>The size of the next chunk: what is left, at most the size of \<open>send_buf\<close>.\<close>

definition send_chunksz :: "size_t \<Rightarrow> size_t \<Rightarrow> size_t" where
  "send_chunksz sz soff =
     (let chunksz = sz - soff in if chunksz > of_nat SEND_BUF then of_nat SEND_BUF else chunksz)"

text \<open>
  The loop of \<open>Send\<close>: \<open>Some e\<close> when it returns early with \<open>e\<close>, \<open>None\<close> when it runs to
  its end. The contents of the caller's array are the block \<open>buf\<close>, \<open>soff\<close> and \<open>sz\<close> are
  \<open>size_t\<close>. It stops because an access beyond the array faults before \<open>soff\<close> can wrap.
\<close>

function send_loop :: "int \<Rightarrow> block \<Rightarrow> size_t \<Rightarrow> size_t \<Rightarrow> world \<Rightarrow> (int option \<times> world) result" where
  "send_loop fd buf sz soff w =
     (if soff < sz then
        (case load_bytes buf (unat soff) (unat (send_chunksz sz soff)) of
           Inl f \<Rightarrow> Inl f
         | Inr chunk \<Rightarrow>
             (let (nsent, errno, w') = sys_send fd chunk w
              in if nsent < 0 then Inr (Some (- errno), w')
                 else send_loop fd buf sz (soff + of_nat SEND_BUF) w'))
      else Inr (None, w))"
  by pat_completeness auto

lemma unat_send_chunksz:
  "soff < sz \<Longrightarrow> unat (send_chunksz sz soff) = min SEND_BUF (unat sz - unat soff)"
  by (auto simp: send_chunksz_def Let_def SEND_BUF_def word_less_nat_alt unat_sub
      word_le_nat_alt)

lemma soff_step:
  assumes "soff < sz" and "in_block buf (unat soff) (unat (send_chunksz sz soff))"
  shows "unat (soff + of_nat SEND_BUF) = unat soff + SEND_BUF"
proof -
  have "unat soff + min SEND_BUF (unat sz - unat soff) \<le> PTRDIFF_MAX"
    using assms by (simp add: in_block_def unat_send_chunksz)
  then have "unat soff + SEND_BUF < 2 ^ 64"
    using assms(1)
    by (auto simp: PTRDIFF_MAX_def SEND_BUF_def word_less_nat_alt min_def split: if_splits)
  then show ?thesis
    by (simp add: SEND_BUF_def unat_word_ariths)
qed

termination send_loop
proof (relation "measure (\<lambda>(fd, buf, sz, soff, w). unat sz - unat soff)", goal_cases)
  case 1
  then show ?case by simp
next
  case (2 fd buf sz soff w chunk r nsent s errno w')
  then have "unat (soff + of_nat SEND_BUF) = unat soff + SEND_BUF"
    by (intro soff_step [of soff sz buf]) (auto simp: load_bytes_def split: if_splits)
  with 2 show ?case by (simp add: SEND_BUF_def word_less_nat_alt)
qed

declare send_loop.simps [simp del]

definition CommandTransport_Send :: "addr \<Rightarrow> block \<Rightarrow> size_t \<Rightarrow> world \<Rightarrow> (int \<times> world) result" where
  "CommandTransport_Send p buf sz w =
     (case transports w p of
        None \<Rightarrow> Inl DeadObject
      | Some t \<Rightarrow>
          if mConnfd t < 0 then Inr (0, w)
          else rbind (send_loop (mConnfd t) buf sz 0 w)
                 (\<lambda>(early, w'). case early of
                    Some e \<Rightarrow> Inr (e, w')
                  | None \<Rightarrow> Inr (0, sys_log (Fsync (mConnfd t)) w')))"

section \<open>What Send does\<close>

text \<open>
  The reference: the kernel is offered the chunks of a byte string one after the other, and
  the first failure ends the transmission. A chunk that is accepted in part is not offered
  again.
\<close>

primrec send_chunks :: "int \<Rightarrow> byte list list \<Rightarrow> world \<Rightarrow> int option \<times> world" where
  "send_chunks fd [] w = (None, w)"
| "send_chunks fd (c # cs) w =
     (let (nsent, errno, w') = sys_send fd c w
      in if nsent < 0 then (Some (- errno), w') else send_chunks fd cs w')"

lemma send_loop_chunks:
  "in_block buf 0 (unat sz) \<Longrightarrow>
   send_loop fd buf sz soff w =
     Inr (send_chunks fd (chunks_of SEND_BUF (peek buf (unat soff) (unat sz - unat soff))) w)"
proof (induction fd buf sz soff w rule: send_loop.induct)
  case (1 fd buf sz soff w)
  show ?case
  proof (cases "soff < sz")
    case False
    then show ?thesis
      by (simp add: send_loop.simps [of fd buf sz soff w] word_less_nat_alt)
  next
    case True
    let ?rest = "peek buf (unat soff) (unat sz - unat soff)"
    have lt: "unat soff < unat sz" using True by (simp add: word_less_nat_alt)
    have c: "unat (send_chunksz sz soff) = min SEND_BUF (unat sz - unat soff)"
      using True by (rule unat_send_chunksz)
    have ib: "in_block buf (unat soff) (unat (send_chunksz sz soff))"
      using "1.prems" lt by (auto simp: c in_block_def min_def)
    have tk: "peek buf (unat soff) (unat (send_chunksz sz soff)) = take SEND_BUF ?rest"
      by (simp add: c peek_def take_map min_def)
    have dr: "drop SEND_BUF ?rest
        = peek buf (unat (soff + of_nat SEND_BUF)) (unat sz - unat (soff + of_nat SEND_BUF))"
      using soff_step [OF True ib] by (simp add: drop_peek)
    have ne: "?rest \<noteq> []" using lt by (simp add: peek_def)
    have cs: "chunks_of SEND_BUF ?rest = take SEND_BUF ?rest # chunks_of SEND_BUF (drop SEND_BUF ?rest)"
      using ne by (intro chunks_of_step) (simp_all add: SEND_BUF_def)
    show ?thesis
      using "1.IH" [OF True load_bytes_in [OF ib]] "1.prems" True
      unfolding cs dr
      by (simp add: send_loop.simps [of fd buf sz soff w] load_bytes_in [OF ib] tk Let_def
          split: prod.splits)
  qed
qed

lemma CommandTransport_Send_open:
  assumes "transports w p = Some t" "0 \<le> mConnfd t" "in_block buf 0 (unat sz)"
  shows "CommandTransport_Send p buf sz w =
     (case send_chunks (mConnfd t) (chunks_of SEND_BUF (peek buf 0 (unat sz))) w of
        (Some e, w') \<Rightarrow> Inr (e, w')
      | (None, w') \<Rightarrow> Inr (0, sys_log (Fsync (mConnfd t)) w'))"
  using assms by (simp add: CommandTransport_Send_def send_loop_chunks split: option.splits prod.splits)

text \<open>A socket whose kernel takes every chunk whole, as a blocking socket without signals does.\<close>

definition accepts_all :: "world \<Rightarrow> bool" where
  "accepts_all w \<longleftrightarrow> (\<forall>k. \<exists>n. send_script w k = Accepts n \<and> SEND_BUF \<le> n)"

definition sent :: "int \<Rightarrow> byte list \<Rightarrow> nat \<Rightarrow> world \<Rightarrow> world" where
  "sent fd bs calls w = w\<lparr>tx := (tx w)(fd := tx w fd @ bs), sends := sends w + calls\<rparr>"

lemma send_chunks_accepted:
  assumes "\<And>i. i < length cs \<Longrightarrow> \<exists>n. send_script w (sends w + i) = Accepts n \<and> SEND_BUF \<le> n"
    and "\<And>c. c \<in> set cs \<Longrightarrow> length c \<le> SEND_BUF"
  shows "send_chunks fd (cs @ ds) w = send_chunks fd ds (sent fd (concat cs) (length cs) w)"
  using assms
proof (induction cs arbitrary: w)
  case Nil
  then show ?case by (simp add: sent_def)
next
  case (Cons c cs)
  obtain n where n: "send_script w (sends w) = Accepts n" "SEND_BUF \<le> n"
    using Cons.prems(1) [of 0] by auto
  have c: "length c \<le> n" using Cons.prems(2) [of c] n(2) by simp
  let ?w = "sent fd c 1 w"
  have "\<And>i. i < length cs \<Longrightarrow> \<exists>n. send_script ?w (sends ?w + i) = Accepts n \<and> SEND_BUF \<le> n"
    using Cons.prems(1) by (force simp: sent_def)
  then have "send_chunks fd (cs @ ds) ?w = send_chunks fd ds (sent fd (concat cs) (length cs) ?w)"
    using Cons.prems(2) by (intro Cons.IH) auto
  with n c show ?case by (simp add: sys_send_def sent_def)
qed

lemma Send_accepted:
  assumes "transports w p = Some t" "0 \<le> mConnfd t" "in_block buf 0 (unat sz)" "accepts_all w"
  shows "CommandTransport_Send p buf sz w =
     Inr (0, sys_log (Fsync (mConnfd t))
       (sent (mConnfd t) (peek buf 0 (unat sz)) ((unat sz + 65535) div 65536) w))"
proof -
  let ?cs = "chunks_of SEND_BUF (peek buf 0 (unat sz))"
  have "send_chunks (mConnfd t) (?cs @ []) w
      = send_chunks (mConnfd t) [] (sent (mConnfd t) (concat ?cs) (length ?cs) w)"
    using assms(4) by (intro send_chunks_accepted) (auto simp: accepts_all_def dest: chunks_of_lengths)
  with assms show ?thesis
    by (simp add: CommandTransport_Send_open concat_chunks_of length_chunks_of SEND_BUF_def add.commute)
qed

text \<open>
  C15: With a kernel that takes whole chunks, \<open>Send\<close> on an open transport returns 0, puts exactly
  the \<open>sz\<close> bytes of the caller's array on the connection, in order and nothing else, in
  \<open>ceil(sz / 65536)\<close> calls of \<open>send\<close>, and ends with an \<open>fsync\<close>.
\<close>

theorem Send_transmits:
  assumes "transports w p = Some t" "0 \<le> mConnfd t" "in_block buf 0 (unat sz)" "accepts_all w"
  shows "CommandTransport_Send p buf sz w =
     Inr (0, sys_log (Fsync (mConnfd t))
       (sent (mConnfd t) (peek buf 0 (unat sz)) ((unat sz + 65535) div 65536) w))"
  using assms by (rule Send_accepted)

text \<open>
  When the \<open>k\<close>-th \<open>send\<close> of a call fails with \<open>errno\<close> \<open>e\<close>, \<open>Send\<close> returns \<open>-e\<close> at once: exactly
  the first \<open>k * 65536\<close> bytes have gone out, nothing after them, and there is no \<open>fsync\<close>.
\<close>

theorem Send_stops_at_error:
  assumes "transports w p = Some t" "0 \<le> mConnfd t" "in_block buf 0 (unat sz)"
    and "k * 65536 < unat sz"
    and "\<And>i. i < k \<Longrightarrow> \<exists>n. send_script w (sends w + i) = Accepts n \<and> 65536 \<le> n"
    and "send_script w (sends w + k) = SendFails e"
  shows "CommandTransport_Send p buf sz w =
     Inr (- e, sent (mConnfd t) (peek buf 0 (k * 65536)) (Suc k) w)"
proof -
  let ?cs = "chunks_of SEND_BUF (peek buf 0 (unat sz))"
  have len: "k < length ?cs"
    using assms(4) by (simp add: length_chunks_of SEND_BUF_def less_eq_div_iff_mult_less_eq flip: Suc_le_eq)
  then have split: "?cs = take k ?cs @ ?cs ! k # drop (Suc k) ?cs"
    by (rule id_take_nth_drop)
  have "send_chunks (mConnfd t) ?cs w
      = send_chunks (mConnfd t) (?cs ! k # drop (Suc k) ?cs)
          (sent (mConnfd t) (concat (take k ?cs)) (length (take k ?cs)) w)"
    using assms(5) len
    by (subst split, intro send_chunks_accepted)
       (auto simp: SEND_BUF_def dest!: in_set_takeD dest: chunks_of_lengths)
  moreover have "concat (take k ?cs) = peek buf 0 (k * 65536)"
    using assms(4) by (simp add: concat_take_chunks_of SEND_BUF_def take_peek)
  ultimately show ?thesis
    using assms len by (simp add: CommandTransport_Send_open sys_send_def sent_def)
qed

text \<open>
  The result of a partial \<open>send\<close> is not looked at: when the kernel takes only \<open>n\<close> bytes of a
  message of at most 65536 bytes, \<open>Send\<close> still returns 0 and the rest of the message is
  never sent.
\<close>

theorem Send_loses_rest_of_partial_send:
  assumes "transports w p = Some t" "0 \<le> mConnfd t" "in_block buf 0 (unat sz)"
    and "0 < unat sz" "unat sz \<le> 65536" "n \<le> unat sz"
    and "send_script w (sends w) = Accepts n"
  shows "CommandTransport_Send p buf sz w =
     Inr (0, sys_log (Fsync (mConnfd t)) (sent (mConnfd t) (peek buf 0 n) 1 w))"
proof -
  have "peek buf 0 (unat sz) \<noteq> []" using assms(4) by (simp add: peek_def)
  then have "chunks_of SEND_BUF (peek buf 0 (unat sz)) = [peek buf 0 (unat sz)]"
    using assms(5) by (simp add: chunks_of_step SEND_BUF_def)
  with assms show ?thesis
    by (simp add: CommandTransport_Send_open sys_send_def sent_def take_peek)
qed

text \<open>
  The destructor shuts the socket down and closes it exactly once, and ends the life of the object:
  a second destruction and a \<open>Send\<close> are uses of a dead object.
\<close>

theorem destroy_closes_once:
  assumes "transports w p = Some t" "0 \<le> mConnfd t"
  shows "\<exists>w'. destroy_CommandTransport p w = Inr w'
      \<and> transports w' p = None
      \<and> mConnfd t \<notin> set (fds w')
      \<and> syslog w' = syslog w @ [Shutdown (mConnfd t), Close (mConnfd t)]
      \<and> tx w' = tx w
      \<and> destroy_CommandTransport p w' = Inl DeadObject
      \<and> CommandTransport_Send p buf sz w' = Inl DeadObject"
  using assms
  by (simp add: destroy_CommandTransport_def CommandTransport_Send_def sys_close_def sys_log_def Let_def)

section \<open>Witnesses\<close>

text \<open>A world with one open transport (object 0, descriptor 3) and a given script.\<close>

definition demo_world :: "(nat \<Rightarrow> send_outcome) \<Rightarrow> world" where
  "demo_world script =
     \<lparr>transports = [0 \<mapsto> \<lparr>mConnfd = 3\<rparr>], next_addr = 1, tx = (\<lambda>_. []), fds = [3],
      send_script = script, sends = 0, syslog = []\<rparr>"

definition demo_block :: block where
  "demo_block = \<lparr>bsize = 2000000, bdata = (\<lambda>i. of_nat i)\<rparr>"

lemma Send_transmits_witness:
  "\<exists>w'. CommandTransport_Send 0 demo_block 100000 (demo_world (\<lambda>_. Accepts 70000)) = Inr (0, w')
     \<and> sends w' = 2 \<and> length (tx w' 3) = 100000"
proof -
  let ?w = "demo_world (\<lambda>_. Accepts 70000)"
  have "CommandTransport_Send 0 demo_block 100000 ?w =
     Inr (0, sys_log (Fsync 3) (sent 3 (peek demo_block 0 100000) ((100000 + 65535) div 65536) ?w))"
    using Send_transmits [of ?w 0 "\<lparr>mConnfd = 3\<rparr>" demo_block 100000]
    by (simp add: demo_world_def demo_block_def in_block_def PTRDIFF_MAX_def accepts_all_def
        SEND_BUF_def)
  then show ?thesis
    by (simp add: sys_log_def sent_def demo_world_def)
qed

lemma Send_stops_at_error_witness:
  "\<exists>w'. CommandTransport_Send 0 demo_block 100000
        (demo_world (\<lambda>k. if k = 1 then SendFails 32 else Accepts 65536)) = Inr (- 32, w')
     \<and> length (tx w' 3) = 65536"
proof -
  let ?w = "demo_world (\<lambda>k. if k = 1 then SendFails 32 else Accepts 65536)"
  have "CommandTransport_Send 0 demo_block 100000 ?w =
     Inr (- 32, sent 3 (peek demo_block 0 (1 * 65536)) (Suc 1) ?w)"
    using Send_stops_at_error [of ?w 0 "\<lparr>mConnfd = 3\<rparr>" demo_block 100000 1 32]
    by (simp add: demo_world_def demo_block_def in_block_def PTRDIFF_MAX_def)
  then show ?thesis
    by (simp add: sent_def demo_world_def)
qed

lemma Send_loses_rest_of_partial_send_witness:
  "\<exists>w'. CommandTransport_Send 0 demo_block 4 (demo_world (\<lambda>_. Accepts 1)) = Inr (0, w')
     \<and> tx w' 3 = [0]"
proof -
  let ?w = "demo_world (\<lambda>_. Accepts 1)"
  have "CommandTransport_Send 0 demo_block 4 ?w =
     Inr (0, sys_log (Fsync 3) (sent 3 (peek demo_block 0 1) 1 ?w))"
    using Send_loses_rest_of_partial_send [of ?w 0 "\<lparr>mConnfd = 3\<rparr>" demo_block 4 1]
    by (simp add: demo_world_def demo_block_def in_block_def PTRDIFF_MAX_def)
  then show ?thesis
    by (simp add: sys_log_def sent_def demo_world_def peek_def demo_block_def)
qed

lemma destroy_closes_once_witness:
  "\<exists>w'. destroy_CommandTransport 0 (demo_world (\<lambda>_. Accepts 1)) = Inr w' \<and> 3 \<notin> set (fds w')
     \<and> destroy_CommandTransport 0 w' = Inl DeadObject"
  using destroy_closes_once [of "demo_world (\<lambda>_. Accepts 1)" 0 "\<lparr>mConnfd = 3\<rparr>" demo_block 4]
  by (auto simp: demo_world_def)

end
