(* ===== verification/Command_Buffer.thy ===== *)
theory Command_Buffer
  imports Command_Transport
begin

text \<open>
  \<open>SendBuffer\<close> and \<open>RecvBuffer\<close> of \<open>src/common/dawn_command_buffer.h\<close> and \<open>.cpp\<close>: the two
  command serializers through which Dawn's wire client and wire server write commands. The
  first frames commands with a type-length header and sends a batch when it is flushed, the
  second collects the payloads of a batch and hands it to the command handler when it is
  flushed. Both implement Dawn's \<open>CommandSerializer\<close> interface, here a locale.
\<close>

section \<open>Type-length headers\<close>

record command_tlv =
  tlv_type :: "32 word"
  tlv_len :: size_t

text \<open>The struct is packed: 4 bytes of \<open>type\<close>, 8 bytes of \<open>len\<close>, no padding.\<close>

definition TLV_SZ :: nat where
  "TLV_SZ = 12"

definition encode_tlv :: "command_tlv \<Rightarrow> byte list" where
  "encode_tlv c = le_bytes 4 (unat (tlv_type c)) @ le_bytes 8 (unat (tlv_len c))"

definition decode_tlv :: "byte list \<Rightarrow> command_tlv" where
  "decode_tlv bs =
     \<lparr>tlv_type = of_nat (le_value (take 4 bs)), tlv_len = of_nat (le_value (take 8 (drop 4 bs)))\<rparr>"

text \<open>What a fixed-width codec promises, and what follows for a stream that starts with a code.\<close>

locale fixed_codec =
  fixes enc :: "'a \<Rightarrow> byte list" and dec :: "byte list \<Rightarrow> 'a" and width :: nat
  assumes enc_length: "length (enc x) = width"
    and dec_enc: "dec (enc x) = x"
    and enc_dec: "length bs = width \<Longrightarrow> enc (dec bs) = bs"
begin

lemma dec_prefix: "dec (take width (enc x @ rest)) = x"
  by (simp add: enc_length dec_enc)

lemma drop_code: "drop width (enc x @ rest) = rest"
  by (simp add: enc_length)

lemma enc_inj: "enc x @ r = enc y @ s \<longleftrightarrow> x = y \<and> r = s"
  by (metis append_eq_append_conv dec_enc enc_length)

lemma enc_onto: "length bs = width \<Longrightarrow> \<exists>x. enc x = bs"
  using enc_dec by blast

end

interpretation tlv: fixed_codec encode_tlv decode_tlv TLV_SZ
proof
  fix c :: command_tlv
  show "length (encode_tlv c) = TLV_SZ"
    by (simp add: encode_tlv_def TLV_SZ_def)
  have "unat (tlv_type c) < 256 ^ 4" "unat (tlv_len c) < 256 ^ 8"
    using unsigned_less [where ?'a = nat, of "tlv_type c"]
      unsigned_less [where ?'a = nat, of "tlv_len c"] by simp_all
  then show "decode_tlv (encode_tlv c) = c"
    by (simp add: encode_tlv_def decode_tlv_def le_value_le_bytes)
next
  fix bs :: "byte list"
  assume len: "length bs = TLV_SZ"
  let ?t = "take 4 bs" and ?l = "take 8 (drop 4 bs)"
  have l: "length ?t = 4" "length ?l = 8" and bs: "bs = ?t @ ?l"
    using len by (auto simp: TLV_SZ_def)
  have "le_value ?t < 2 ^ 32" "le_value ?l < 2 ^ 64"
    using le_value_bound [of ?t] le_value_bound [of ?l] unfolding l by simp_all
  then have "unat (of_nat (le_value ?t) :: 32 word) = le_value ?t"
    and "unat (of_nat (le_value ?l) :: size_t) = le_value ?l"
    by (simp_all add: unat_of_nat take_bit_nat_eq_self)
  then have "encode_tlv (decode_tlv bs) = le_bytes (length ?t) (le_value ?t) @ le_bytes (length ?l) (le_value ?l)"
    by (simp only: encode_tlv_def decode_tlv_def command_tlv.simps l)
  also have "\<dots> = bs"
    by (simp only: le_bytes_le_value flip: bs)
  finally show "encode_tlv (decode_tlv bs) = bs" .
qed

lemma length_encode_tlv [simp]: "length (encode_tlv c) = 12"
  using tlv.enc_length [of c] by (simp add: TLV_SZ_def)

section \<open>SendBuffer\<close>

definition BUFFER_SIZE :: nat where
  "BUFFER_SIZE = 2000000"

record SendBuffer =
  s_mTransport :: "addr option"
  s_mOffset :: size_t
  s_mBuffer :: block

text \<open>The members after construction; the contents of the array are not initialised.\<close>

definition new_SendBuffer :: "(nat \<Rightarrow> byte) \<Rightarrow> SendBuffer" where
  "new_SendBuffer junk =
     \<lparr>s_mTransport = None, s_mOffset = 0, s_mBuffer = \<lparr>bsize = BUFFER_SIZE, bdata = junk\<rparr>\<rparr>"

definition SendBuffer_SetTransport :: "addr \<Rightarrow> SendBuffer \<Rightarrow> SendBuffer" where
  "SendBuffer_SetTransport p sb = sb\<lparr>s_mTransport := Some p\<rparr>"

definition SendBuffer_GetMaximumAllocationSize :: size_t where
  "SendBuffer_GetMaximumAllocationSize = of_nat BUFFER_SIZE - 2 * of_nat TLV_SZ"

definition SendBuffer_Flush :: "SendBuffer \<Rightarrow> world \<Rightarrow> (bool \<times> SendBuffer \<times> world) result" where
  "SendBuffer_Flush sb w =
     (if s_mOffset sb \<le> 0 then Inr (True, sb, w)
      else rbind (store_bytes (s_mBuffer sb) (unat (s_mOffset sb))
                   (encode_tlv \<lparr>tlv_type = 2, tlv_len = 0\<rparr>))
        (\<lambda>buf. let off = s_mOffset sb + of_nat TLV_SZ
          in case s_mTransport sb of
               None \<Rightarrow> Inl NullPointer
             | Some p \<Rightarrow>
                 rbind (CommandTransport_Send p buf off w)
                   (\<lambda>(r, w'). Inr (r = 0, sb\<lparr>s_mBuffer := buf, s_mOffset := 0\<rparr>, w'))))"

lemma SendBuffer_Flush_offset:
  "SendBuffer_Flush sb w = Inr (ok, sb', w') \<Longrightarrow> s_mOffset sb' = 0"
  by (auto simp: SendBuffer_Flush_def Let_def rbind_def split: if_splits sum.splits option.splits)

text \<open>
  \<open>GetCmdSpace\<close> returns a pointer into the buffer (as an offset) or null; the arithmetic is on
  \<open>size_t\<close> and wraps. It calls itself after a flush, which empties the buffer.
\<close>

function SendBuffer_GetCmdSpace ::
  "size_t \<Rightarrow> SendBuffer \<Rightarrow> world \<Rightarrow> (nat option \<times> SendBuffer \<times> world) result" where
  "SendBuffer_GetCmdSpace sz sb w =
     (if sz + 2 * of_nat TLV_SZ > of_nat BUFFER_SIZE then Inr (None, sb, w)
      else if of_nat BUFFER_SIZE - sz - 2 * of_nat TLV_SZ < s_mOffset sb then
        rbind (SendBuffer_Flush sb w)
          (\<lambda>(ok, sb', w').
             if \<not> ok then Inr (None, sb', w') else SendBuffer_GetCmdSpace sz sb' w')
      else rbind (store_bytes (s_mBuffer sb) (unat (s_mOffset sb))
                   (encode_tlv \<lparr>tlv_type = 1, tlv_len = sz\<rparr>))
          (\<lambda>buf. Inr (Some (unat (s_mOffset sb) + TLV_SZ),
             sb\<lparr>s_mBuffer := buf, s_mOffset := s_mOffset sb + (sz + of_nat TLV_SZ)\<rparr>, w)))"
  by pat_completeness auto
termination
proof (relation "measure (\<lambda>(sz, sb, w). unat (s_mOffset sb))", goal_cases)
  case 1
  then show ?case by simp
next
  case (2 sz sb w x ok y sb' w')
  then have "s_mOffset sb' = 0"
    by (auto intro: SendBuffer_Flush_offset)
  moreover have "0 < s_mOffset sb"
    using "2"(2) by (metis word_neq_0_conv word_not_simps(1))
  ultimately show ?case
    by (simp add: word_less_nat_alt)
qed

declare SendBuffer_GetCmdSpace.simps [simp del]

section \<open>RecvBuffer\<close>

text \<open>
  The handler is an object of Dawn (or the server's \<open>DDWGPUServer\<close>): a parameter \<open>hc\<close> that
  takes the object's address, the bytes handed over and the state \<open>'h\<close> behind it, and says
  whether it returned a non-null pointer.
\<close>

type_synonym 'h handler = "addr \<Rightarrow> byte list \<Rightarrow> 'h \<Rightarrow> (bool \<times> 'h) result"

record RecvBuffer =
  r_mHandler :: "addr option"
  r_mOffset :: size_t
  r_mBuffer :: block

definition new_RecvBuffer :: "(nat \<Rightarrow> byte) \<Rightarrow> RecvBuffer" where
  "new_RecvBuffer junk =
     \<lparr>r_mHandler = None, r_mOffset = 0, r_mBuffer = \<lparr>bsize = BUFFER_SIZE, bdata = junk\<rparr>\<rparr>"

definition RecvBuffer_SetHandler :: "addr \<Rightarrow> RecvBuffer \<Rightarrow> RecvBuffer" where
  "RecvBuffer_SetHandler a rb = rb\<lparr>r_mHandler := Some a\<rparr>"

definition RecvBuffer_GetMaximumAllocationSize :: size_t where
  "RecvBuffer_GetMaximumAllocationSize = of_nat BUFFER_SIZE - 2 * of_nat TLV_SZ"

definition RecvBuffer_Flush :: "'h handler \<Rightarrow> RecvBuffer \<Rightarrow> 'h \<Rightarrow> (bool \<times> RecvBuffer \<times> 'h) result" where
  "RecvBuffer_Flush hc rb h =
     (case r_mHandler rb of
        None \<Rightarrow> Inl NullPointer
      | Some a \<Rightarrow>
          rbind (load_bytes (r_mBuffer rb) 0 (unat (r_mOffset rb)))
            (\<lambda>bs. rbind (hc a bs h)
              (\<lambda>(success, h'). Inr (success, rb\<lparr>r_mOffset := 0\<rparr>, h'))))"

lemma RecvBuffer_Flush_offset:
  "RecvBuffer_Flush hc rb h = Inr (ok, rb', h') \<Longrightarrow> r_mOffset rb' = 0"
  by (auto simp: RecvBuffer_Flush_def rbind_def split: sum.splits option.splits)

function RecvBuffer_GetCmdSpace ::
  "'h handler \<Rightarrow> size_t \<Rightarrow> RecvBuffer \<Rightarrow> 'h \<Rightarrow> (nat option \<times> RecvBuffer \<times> 'h) result" where
  "RecvBuffer_GetCmdSpace hc sz rb h =
     (if sz > of_nat BUFFER_SIZE then Inr (None, rb, h)
      else if of_nat BUFFER_SIZE - sz < r_mOffset rb then
        rbind (RecvBuffer_Flush hc rb h)
          (\<lambda>(ok, rb', h').
             if \<not> ok then Inr (None, rb', h') else RecvBuffer_GetCmdSpace hc sz rb' h')
      else Inr (Some (unat (r_mOffset rb)), rb\<lparr>r_mOffset := r_mOffset rb + sz\<rparr>, h))"
  by pat_completeness auto
termination
proof (relation "measure (\<lambda>(hc, sz, rb, h). unat (r_mOffset rb))", goal_cases)
  case 1
  then show ?case by simp
next
  case (2 hc sz rb h x ok y rb' h')
  then have "r_mOffset rb' = 0"
    by (auto intro: RecvBuffer_Flush_offset)
  moreover have "0 < r_mOffset rb"
    using "2"(2) by (metis word_neq_0_conv word_not_simps(1))
  ultimately show ?case
    by (simp add: word_less_nat_alt)
qed

declare RecvBuffer_GetCmdSpace.simps [simp del]

section \<open>The invariants of the two buffers\<close>

text \<open>
  Behind the offset of a \<open>SendBuffer\<close> there is always room for the header that ends the batch;
  the offset of a \<open>RecvBuffer\<close> stays inside the array.
\<close>

definition SB_inv :: "SendBuffer \<Rightarrow> bool" where
  "SB_inv sb \<longleftrightarrow> bsize (s_mBuffer sb) = BUFFER_SIZE \<and> unat (s_mOffset sb) + TLV_SZ \<le> BUFFER_SIZE"

definition RB_inv :: "RecvBuffer \<Rightarrow> bool" where
  "RB_inv rb \<longleftrightarrow> bsize (r_mBuffer rb) = BUFFER_SIZE \<and> unat (r_mOffset rb) \<le> BUFFER_SIZE"

lemmas buffer_consts = BUFFER_SIZE_def TLV_SZ_def PTRDIFF_MAX_def

lemma SB_inv_new [simp]: "SB_inv (new_SendBuffer junk)"
  by (simp add: SB_inv_def new_SendBuffer_def buffer_consts)

lemma RB_inv_new [simp]: "RB_inv (new_RecvBuffer junk)"
  by (simp add: RB_inv_def new_RecvBuffer_def)

lemma unat_size_add:
  "unat (x :: size_t) + n < 2 ^ 64 \<Longrightarrow> unat (x + of_nat n) = unat x + n"
  by (simp add: unat_word_ariths unat_of_nat take_bit_nat_eq_self)

text \<open>The guards of \<open>GetCmdSpace\<close> as statements on numbers.\<close>

lemma SB_too_large:
  "BUFFER_SIZE < unat (sz :: size_t) + 24 \<Longrightarrow> unat sz + 24 < 2 ^ 64 \<Longrightarrow>
   of_nat BUFFER_SIZE < sz + 2 * of_nat TLV_SZ"
  using unat_size_add [of sz 24] by (simp add: buffer_consts word_less_nat_alt)

lemma SB_not_too_large:
  "unat (sz :: size_t) + 24 \<le> BUFFER_SIZE \<Longrightarrow> \<not> of_nat BUFFER_SIZE < sz + 2 * of_nat TLV_SZ"
  using unat_size_add [of sz 24] by (simp add: buffer_consts word_less_nat_alt)

lemma SB_no_room:
  assumes "unat (sz :: size_t) + 24 \<le> BUFFER_SIZE"
  shows "of_nat BUFFER_SIZE - sz - 2 * of_nat TLV_SZ < off \<longleftrightarrow> BUFFER_SIZE < unat off + unat sz + 24"
proof -
  have "unat (of_nat BUFFER_SIZE - sz - 2 * of_nat TLV_SZ) = BUFFER_SIZE - unat sz - 24"
    using assms by (simp add: buffer_consts unat_sub word_le_nat_alt)
  then show ?thesis using assms by (auto simp: word_less_nat_alt)
qed

lemma RB_no_room:
  assumes "unat (sz :: size_t) \<le> BUFFER_SIZE"
  shows "of_nat BUFFER_SIZE - sz < off \<longleftrightarrow> BUFFER_SIZE < unat off + unat sz"
proof -
  have "unat (of_nat BUFFER_SIZE - sz) = BUFFER_SIZE - unat sz"
    using assms by (simp add: buffer_consts unat_sub word_le_nat_alt)
  then show ?thesis using assms by (auto simp: word_less_nat_alt)
qed

end
