(* ===== verification/Buffer_Laws.thy ===== *)
theory Buffer_Laws
  imports Command_Buffer
begin

text \<open>
  What the two command buffers guarantee: the behaviour of \<open>GetCmdSpace\<close> and \<open>Flush\<close> on every
  branch, the contents of a \<open>SendBuffer\<close> as a sequence of frames, and the contract of Dawn's
  \<open>CommandSerializer\<close> interface as a locale, interpreted for both classes.
\<close>

section \<open>SendBuffer: the operations on every branch\<close>

lemma GetCmdSpace_too_large:
  "BUFFER_SIZE < unat sz + 24 \<Longrightarrow> unat sz + 24 < 2 ^ 64 \<Longrightarrow>
   SendBuffer_GetCmdSpace sz sb w = Inr (None, sb, w)"
  by (simp add: SendBuffer_GetCmdSpace.simps [of sz sb w] SB_too_large)

lemma GetCmdSpace_fits:
  assumes "SB_inv sb" "unat (s_mOffset sb) + unat sz + 24 \<le> BUFFER_SIZE"
  shows "SendBuffer_GetCmdSpace sz sb w =
    Inr (Some (unat (s_mOffset sb) + 12),
      sb\<lparr>s_mBuffer := poke (s_mBuffer sb) (unat (s_mOffset sb)) (encode_tlv \<lparr>tlv_type = 1, tlv_len = sz\<rparr>),
         s_mOffset := of_nat (unat (s_mOffset sb) + unat sz + 12)\<rparr>, w)"
proof -
  have "in_block (s_mBuffer sb) (unat (s_mOffset sb)) 12"
    using assms by (simp add: in_block_def SB_inv_def buffer_consts)
  moreover have "\<not> of_nat BUFFER_SIZE < sz + 2 * of_nat TLV_SZ"
    using assms(2) by (intro SB_not_too_large) simp
  moreover have "\<not> of_nat BUFFER_SIZE - sz - 2 * of_nat TLV_SZ < s_mOffset sb"
    using assms(2) by (simp add: SB_no_room)
  moreover have "s_mOffset sb + (sz + of_nat TLV_SZ) = of_nat (unat (s_mOffset sb) + unat sz + 12)"
    by (simp add: TLV_SZ_def)
  ultimately show ?thesis
    by (simp only: SendBuffer_GetCmdSpace.simps [of sz sb w] if_False store_bytes_in length_encode_tlv
        rbind_Inr) (simp add: TLV_SZ_def)
qed

lemma GetCmdSpace_no_room:
  assumes "unat sz + 24 \<le> BUFFER_SIZE" "BUFFER_SIZE < unat (s_mOffset sb) + unat sz + 24"
  shows "SendBuffer_GetCmdSpace sz sb w =
    rbind (SendBuffer_Flush sb w)
      (\<lambda>(ok, sb', w'). if \<not> ok then Inr (None, sb', w') else SendBuffer_GetCmdSpace sz sb' w')"
  using SB_not_too_large [OF assms(1)] SB_no_room [OF assms(1), of "s_mOffset sb"] assms(2)
  by (simp only: SendBuffer_GetCmdSpace.simps [of sz sb w] if_False if_True)

definition flush_mark :: "byte list" where
  "flush_mark = encode_tlv \<lparr>tlv_type = 2, tlv_len = 0\<rparr>"

lemma length_flush_mark [simp]: "length flush_mark = 12"
  by (simp add: flush_mark_def)

lemma Flush_empty [simp]: "s_mOffset sb = 0 \<Longrightarrow> SendBuffer_Flush sb w = Inr (True, sb, w)"
  by (simp add: SendBuffer_Flush_def)

lemma Flush_pending:
  assumes "SB_inv sb" "s_mOffset sb \<noteq> 0" "s_mTransport sb = Some p"
  shows "SendBuffer_Flush sb w =
    (let buf = poke (s_mBuffer sb) (unat (s_mOffset sb)) flush_mark
     in rbind (CommandTransport_Send p buf (s_mOffset sb + 12) w)
          (\<lambda>(r, w'). Inr (r = 0, sb\<lparr>s_mBuffer := buf, s_mOffset := 0\<rparr>, w')))"
proof -
  have "in_block (s_mBuffer sb) (unat (s_mOffset sb)) 12"
    using assms(1) by (simp add: in_block_def SB_inv_def buffer_consts)
  then show ?thesis
    using assms(2,3) by (simp add: SendBuffer_Flush_def block_simps flush_mark_def TLV_SZ_def Let_def)
qed

lemma SB_inv_Flush:
  assumes "SB_inv sb" "SendBuffer_Flush sb w = Inr (ok, sb', w')"
  shows "SB_inv sb' \<and> s_mOffset sb' = 0 \<and> s_mTransport sb' = s_mTransport sb"
  using assms
  by (auto simp: SendBuffer_Flush_def SB_inv_def store_bytes_def Let_def rbind_def buffer_consts
      split: if_splits sum.splits option.splits)

lemma SB_inv_GetCmdSpace:
  assumes "SB_inv sb" "unat sz + 24 < 2 ^ 64" "SendBuffer_GetCmdSpace sz sb w = Inr (r, sb', w')"
  shows "SB_inv sb' \<and> (\<forall>p. r = Some p \<longrightarrow> 12 \<le> p \<and> p + unat sz = unat (s_mOffset sb'))"
  using assms
proof (induction sz sb w rule: SendBuffer_GetCmdSpace.induct)
  case (1 sz sb w)
  consider (large) "BUFFER_SIZE < unat sz + 24"
    | (fits) "unat (s_mOffset sb) + unat sz + 24 \<le> BUFFER_SIZE"
    | (full) "unat sz + 24 \<le> BUFFER_SIZE" "BUFFER_SIZE < unat (s_mOffset sb) + unat sz + 24"
    by linarith
  then show ?case
  proof cases
    case large
    with 1 show ?thesis by (simp add: GetCmdSpace_too_large)
  next
    case fits
    then have b: "unat (s_mOffset sb) + unat sz + 12 < 2 ^ 64" "TLV_SZ = 12"
      by (simp_all add: buffer_consts)
    from fits "1.prems" show ?thesis
      by (auto simp add: GetCmdSpace_fits SB_inv_def b unat_of_nat_size [OF b(1)] simp del: of_nat_add)
  next
    case full
    from "1.prems"(3) obtain ok sb1 w1 where fl: "SendBuffer_Flush sb w = Inr (ok, sb1, w1)"
      unfolding GetCmdSpace_no_room [OF full] by (auto elim!: rbind_eq_InrE)
    have inv1: "SB_inv sb1" using SB_inv_Flush [OF "1.prems"(1) fl] by simp
    have "SB_inv sb' \<and> (\<forall>p. r = Some p \<longrightarrow> 12 \<le> p \<and> p + unat sz = unat (s_mOffset sb'))"
      if ok and rec: "SendBuffer_GetCmdSpace sz sb1 w1 = Inr (r, sb', w')"
    proof (rule "1.IH" [OF _ _ fl refl refl])
      show "\<not> of_nat BUFFER_SIZE < sz + 2 * of_nat TLV_SZ"
        using full by (intro SB_not_too_large)
      show "of_nat BUFFER_SIZE - sz - 2 * of_nat TLV_SZ < s_mOffset sb"
        using full by (simp add: SB_no_room)
    qed (use that inv1 "1.prems" in simp_all)
    with "1.prems"(3) inv1 show ?thesis
      unfolding GetCmdSpace_no_room [OF full] by (auto simp: fl split: if_splits)
  qed
qed

section \<open>RecvBuffer: the operations on every branch\<close>

lemma RB_GetCmdSpace_too_large:
  "BUFFER_SIZE < unat sz \<Longrightarrow> RecvBuffer_GetCmdSpace hc sz rb h = Inr (None, rb, h)"
  by (simp add: RecvBuffer_GetCmdSpace.simps [of hc sz rb h] word_less_nat_alt buffer_consts)

lemma RB_size_ok: "unat (sz :: size_t) \<le> BUFFER_SIZE \<Longrightarrow> \<not> of_nat BUFFER_SIZE < sz"
  by (simp add: word_less_nat_alt buffer_consts)

lemma RB_GetCmdSpace_fits:
  assumes "unat (r_mOffset rb) + unat sz \<le> BUFFER_SIZE"
  shows "RecvBuffer_GetCmdSpace hc sz rb h =
    Inr (Some (unat (r_mOffset rb)), rb\<lparr>r_mOffset := of_nat (unat (r_mOffset rb) + unat sz)\<rparr>, h)"
proof -
  have "\<not> of_nat BUFFER_SIZE - sz < r_mOffset rb" "\<not> of_nat BUFFER_SIZE < sz"
    using assms RB_size_ok [of sz] by (simp_all add: RB_no_room)
  then show ?thesis
    by (simp add: RecvBuffer_GetCmdSpace.simps [of hc sz rb h])
qed

lemma RB_GetCmdSpace_no_room:
  assumes "unat sz \<le> BUFFER_SIZE" "BUFFER_SIZE < unat (r_mOffset rb) + unat sz"
  shows "RecvBuffer_GetCmdSpace hc sz rb h =
    rbind (RecvBuffer_Flush hc rb h)
      (\<lambda>(ok, rb', h'). if \<not> ok then Inr (None, rb', h')
         else Inr (Some 0, rb'\<lparr>r_mOffset := sz\<rparr>, h'))"
proof -
  have "RecvBuffer_GetCmdSpace hc sz rb h = rbind (RecvBuffer_Flush hc rb h)
      (\<lambda>(ok, rb', h'). if \<not> ok then Inr (None, rb', h') else RecvBuffer_GetCmdSpace hc sz rb' h')"
    using RB_size_ok [OF assms(1)] RB_no_room [OF assms(1), of "r_mOffset rb"] assms(2)
    by (simp only: RecvBuffer_GetCmdSpace.simps [of hc sz rb h] if_False if_True)
  also have "\<dots> = rbind (RecvBuffer_Flush hc rb h)
      (\<lambda>(ok, rb', h'). if \<not> ok then Inr (None, rb', h')
         else Inr (Some 0, rb'\<lparr>r_mOffset := sz\<rparr>, h'))"
    using assms(1)
    by (intro rbind_cong) (auto dest!: RecvBuffer_Flush_offset simp: RB_GetCmdSpace_fits)
  finally show ?thesis .
qed

lemma RB_Flush_hands_over:
  assumes "RB_inv rb" "r_mHandler rb = Some a"
  shows "RecvBuffer_Flush hc rb h =
    rbind (hc a (peek (r_mBuffer rb) 0 (unat (r_mOffset rb))) h)
      (\<lambda>(ok, h'). Inr (ok, rb\<lparr>r_mOffset := 0\<rparr>, h'))"
proof -
  have "in_block (r_mBuffer rb) 0 (unat (r_mOffset rb))"
    using assms(1) by (simp add: in_block_def RB_inv_def buffer_consts)
  with assms(2) show ?thesis by (simp add: RecvBuffer_Flush_def block_simps)
qed

lemma RB_inv_Flush:
  assumes "RB_inv rb" "RecvBuffer_Flush hc rb h = Inr (ok, rb', h')"
  shows "RB_inv rb' \<and> r_mOffset rb' = 0 \<and> r_mHandler rb' = r_mHandler rb \<and> r_mBuffer rb' = r_mBuffer rb"
  using assms
  by (auto simp: RecvBuffer_Flush_def RB_inv_def rbind_def split: sum.splits option.splits)

lemma RB_inv_GetCmdSpace:
  assumes "RB_inv rb" "RecvBuffer_GetCmdSpace hc sz rb h = Inr (r, rb', h')"
  shows "RB_inv rb' \<and> (\<forall>p. r = Some p \<longrightarrow> p + unat sz = unat (r_mOffset rb'))"
proof -
  consider (large) "BUFFER_SIZE < unat sz"
    | (fits) "unat (r_mOffset rb) + unat sz \<le> BUFFER_SIZE"
    | (full) "unat sz \<le> BUFFER_SIZE" "BUFFER_SIZE < unat (r_mOffset rb) + unat sz"
    by linarith
  then show ?thesis
  proof cases
    case large
    with assms show ?thesis by (simp add: RB_GetCmdSpace_too_large)
  next
    case fits
    then have b: "unat (r_mOffset rb) + unat sz < 2 ^ 64" by (simp add: buffer_consts)
    from fits assms show ?thesis
      by (auto simp add: RB_GetCmdSpace_fits RB_inv_def unat_of_nat_size [OF b] simp del: of_nat_add)
  next
    case full
    with assms show ?thesis
      by (auto simp: RB_GetCmdSpace_no_room RB_inv_def dest!: RB_inv_Flush [OF assms(1)]
          elim!: rbind_eq_InrE split: if_splits)
  qed
qed

section \<open>The CommandSerializer interface\<close>

text \<open>
  Dawn's wire code talks to either buffer through \<open>GetCmdSpace\<close> and \<open>Flush\<close> only. \<open>serve\<close> runs
  any sequence of such calls and returns the regions (offset, size) handed out.
\<close>

datatype request = Space size_t | Flush_now

fun serve :: "(size_t \<Rightarrow> 'b \<Rightarrow> 'w \<Rightarrow> (nat option \<times> 'b \<times> 'w) result) \<Rightarrow>
    ('b \<Rightarrow> 'w \<Rightarrow> (bool \<times> 'b \<times> 'w) result) \<Rightarrow> request list \<Rightarrow> 'b \<Rightarrow> 'w \<Rightarrow>
    ((nat \<times> nat) list \<times> 'b \<times> 'w) result" where
  "serve gs fl [] b w = Inr ([], b, w)"
| "serve gs fl (Space sz # rs) b w =
     rbind (gs sz b w) (\<lambda>(r, b', w').
       rbind (serve gs fl rs b' w') (\<lambda>(out, b'', w'').
         Inr ((case r of None \<Rightarrow> out | Some p \<Rightarrow> (p, unat sz) # out), b'', w'')))"
| "serve gs fl (Flush_now # rs) b w = rbind (fl b w) (\<lambda>(ok, b', w'). serve gs fl rs b' w')"

fun request_size :: "request \<Rightarrow> nat" where
  "request_size (Space sz) = unat sz"
| "request_size Flush_now = 0"

locale command_serializer =
  fixes get_space :: "size_t \<Rightarrow> 'b \<Rightarrow> 'w \<Rightarrow> (nat option \<times> 'b \<times> 'w) result"
    and flush :: "'b \<Rightarrow> 'w \<Rightarrow> (bool \<times> 'b \<times> 'w) result"
    and used :: "'b \<Rightarrow> nat" and inv :: "'b \<Rightarrow> bool" and cap :: nat and limit :: nat
  assumes used_cap: "inv b \<Longrightarrow> used b \<le> cap"
    and flush_law: "inv b \<Longrightarrow> flush b w = Inr (ok, b', w') \<Longrightarrow> inv b' \<and> used b' = 0"
    and space_law: "inv b \<Longrightarrow> unat sz \<le> limit \<Longrightarrow> get_space sz b w = Inr (r, b', w') \<Longrightarrow>
          inv b' \<and> (\<forall>p. r = Some p \<longrightarrow> p + unat sz = used b')"
begin

lemma region_inside:
  "inv b \<Longrightarrow> unat sz \<le> limit \<Longrightarrow> get_space sz b w = Inr (Some p, b', w') \<Longrightarrow> p + unat sz \<le> cap"
  using space_law used_cap by metis

lemma serve_sound:
  assumes "inv b" "\<And>q. q \<in> set rs \<Longrightarrow> request_size q \<le> limit"
    and "serve get_space flush rs b w = Inr (out, b', w')"
  shows "inv b' \<and> (\<forall>(p, n) \<in> set out. p + n \<le> cap)"
  using assms
proof (induction rs arbitrary: b w out)
  case Nil
  then show ?case by simp
next
  case (Cons q rs)
  show ?case
  proof (cases q)
    case (Space sz)
    with Cons.prems(3) obtain r b1 w1 out1 where
      g: "get_space sz b w = Inr (r, b1, w1)" and s: "serve get_space flush rs b1 w1 = Inr (out1, b', w')"
      and out: "out = (case r of None \<Rightarrow> out1 | Some p \<Rightarrow> (p, unat sz) # out1)"
      by (auto elim!: rbind_eq_InrE)
    have sz: "unat sz \<le> limit" using Cons.prems(2) [of q] Space by simp
    have "inv b1" using space_law [OF Cons.prems(1) sz g] by simp
    then have "inv b' \<and> (\<forall>(p, n) \<in> set out1. p + n \<le> cap)"
      using Cons.prems(2) by (intro Cons.IH [OF _ _ s]) auto
    with out g show ?thesis
      using region_inside [OF Cons.prems(1) sz] by (auto split: option.splits)
  next
    case Flush_now
    with Cons.prems(3) obtain ok b1 w1 where
      g: "flush b w = Inr (ok, b1, w1)" and s: "serve get_space flush rs b1 w1 = Inr (out, b', w')"
      by (auto elim!: rbind_eq_InrE)
    show ?thesis
      using Cons.prems flush_law [OF Cons.prems(1) g] by (intro Cons.IH [OF _ _ s]) auto
  qed
qed

end

text \<open>A serializer whose back end is in place never runs into undefined behaviour.\<close>

locale live_serializer = command_serializer +
  fixes ready :: "'b \<Rightarrow> 'w \<Rightarrow> bool"
  assumes flush_live: "inv b \<Longrightarrow> ready b w \<Longrightarrow> \<exists>ok b' w'. flush b w = Inr (ok, b', w') \<and> ready b' w'"
    and space_live: "inv b \<Longrightarrow> unat sz \<le> limit \<Longrightarrow> ready b w \<Longrightarrow>
          \<exists>r b' w'. get_space sz b w = Inr (r, b', w') \<and> ready b' w'"
begin

lemma serve_live:
  assumes "inv b" "ready b w" "\<And>q. q \<in> set rs \<Longrightarrow> request_size q \<le> limit"
  shows "\<exists>out b' w'. serve get_space flush rs b w = Inr (out, b', w')"
  using assms
proof (induction rs arbitrary: b w)
  case Nil
  then show ?case by simp
next
  case (Cons q rs)
  show ?case
  proof (cases q)
    case (Space sz)
    have sz: "unat sz \<le> limit" using Cons.prems(3) [of q] Space by simp
    obtain r b1 w1 where g: "get_space sz b w = Inr (r, b1, w1)" "ready b1 w1"
      using space_live [OF Cons.prems(1) sz Cons.prems(2)] by blast
    have "inv b1" using space_law [OF Cons.prems(1) sz g(1)] by simp
    then have "\<exists>out b' w'. serve get_space flush rs b1 w1 = Inr (out, b', w')"
      using g(2) Cons.prems(3) by (intro Cons.IH) auto
    with g Space show ?thesis by auto
  next
    case Flush_now
    obtain ok b1 w1 where g: "flush b w = Inr (ok, b1, w1)" "ready b1 w1"
      using flush_live [OF Cons.prems(1,2)] by blast
    have "inv b1" using flush_law [OF Cons.prems(1) g(1)] by simp
    then have "\<exists>out b' w'. serve get_space flush rs b1 w1 = Inr (out, b', w')"
      using g(2) Cons.prems(3) by (intro Cons.IH) auto
    with g Flush_now show ?thesis by auto
  qed
qed

end

definition SB_ready :: "SendBuffer \<Rightarrow> world \<Rightarrow> bool" where
  "SB_ready sb w \<longleftrightarrow> (case s_mTransport sb of None \<Rightarrow> False | Some p \<Rightarrow> transports w p \<noteq> None)"

definition RB_ready :: "'h handler \<Rightarrow> RecvBuffer \<Rightarrow> 'h \<Rightarrow> bool" where
  "RB_ready hc rb h \<longleftrightarrow>
     (case r_mHandler rb of None \<Rightarrow> False | Some a \<Rightarrow> (\<forall>bs h'. \<exists>r. hc a bs h' = Inr r))"

lemma transports_send_chunks: "transports (snd (send_chunks fd cs w)) = transports w"
proof (induction cs arbitrary: w)
  case (Cons c cs)
  then show ?case by (auto simp: sys_send_def split: send_outcome.splits)
qed simp

lemma Send_live:
  assumes "transports w p \<noteq> None" "in_block buf 0 (unat sz)"
  shows "\<exists>r w'. CommandTransport_Send p buf sz w = Inr (r, w') \<and> transports w' = transports w"
proof -
  obtain t where t: "transports w p = Some t" using assms(1) by blast
  show ?thesis
  proof (cases "mConnfd t < 0")
    case True
    with t show ?thesis by (simp add: CommandTransport_Send_def)
  next
    case False
    then show ?thesis
      using transports_send_chunks [of "mConnfd t" "chunks_of SEND_BUF (peek buf 0 (unat sz))" w]
      by (auto simp: CommandTransport_Send_open [OF t _ assms(2)] sys_log_def
          split: prod.splits option.splits)
  qed
qed

lemma SB_end_in_block:
  "SB_inv sb \<Longrightarrow> bsize b = BUFFER_SIZE \<Longrightarrow> in_block b 0 (unat (s_mOffset sb + 12))"
  using unat_size_add [of "s_mOffset sb" 12] by (simp add: SB_inv_def in_block_def buffer_consts)

lemma SB_Flush_live:
  assumes "SB_inv sb" "SB_ready sb w"
  shows "\<exists>ok sb' w'. SendBuffer_Flush sb w = Inr (ok, sb', w') \<and> SB_ready sb' w'"
proof (cases "s_mOffset sb = 0")
  case True
  with assms show ?thesis by auto
next
  case False
  obtain p where p: "s_mTransport sb = Some p" "transports w p \<noteq> None"
    using assms(2) by (auto simp: SB_ready_def split: option.splits)
  let ?buf = "poke (s_mBuffer sb) (unat (s_mOffset sb)) flush_mark"
  have "in_block ?buf 0 (unat (s_mOffset sb + 12))"
    using assms(1) by (intro SB_end_in_block) (simp_all add: SB_inv_def)
  from Send_live [OF p(2) this] show ?thesis
    using p by (auto simp: Flush_pending [OF assms(1) False p(1)] Let_def SB_ready_def)
qed

lemma SB_GetCmdSpace_live:
  assumes "SB_inv sb" "unat sz + 24 < 2 ^ 64" "SB_ready sb w"
  shows "\<exists>r sb' w'. SendBuffer_GetCmdSpace sz sb w = Inr (r, sb', w') \<and> SB_ready sb' w'"
proof -
  consider (large) "BUFFER_SIZE < unat sz + 24"
    | (fits) "unat (s_mOffset sb) + unat sz + 24 \<le> BUFFER_SIZE"
    | (full) "unat sz + 24 \<le> BUFFER_SIZE" "BUFFER_SIZE < unat (s_mOffset sb) + unat sz + 24"
    by linarith
  then show ?thesis
  proof cases
    case large
    with assms show ?thesis by (simp add: GetCmdSpace_too_large)
  next
    case fits
    with assms show ?thesis by (simp add: GetCmdSpace_fits SB_ready_def)
  next
    case full
    obtain ok sb1 w1 where fl: "SendBuffer_Flush sb w = Inr (ok, sb1, w1)" "SB_ready sb1 w1"
      using SB_Flush_live [OF assms(1,3)] by blast
    have "SB_inv sb1" "s_mOffset sb1 = 0" using SB_inv_Flush [OF assms(1) fl(1)] by simp_all
    with full fl show ?thesis
      by (simp add: GetCmdSpace_no_room GetCmdSpace_fits SB_ready_def)
  qed
qed

interpretation sb: live_serializer SendBuffer_GetCmdSpace SendBuffer_Flush
  "\<lambda>sb. unat (s_mOffset sb)" SB_inv "BUFFER_SIZE - TLV_SZ" "2 ^ 64 - 25" SB_ready
proof unfold_locales
  fix sb :: SendBuffer and w ok sb' w'
  show "SB_inv sb \<Longrightarrow> unat (s_mOffset sb) \<le> BUFFER_SIZE - TLV_SZ"
    by (simp add: SB_inv_def buffer_consts)
  show "SB_inv sb \<Longrightarrow> SendBuffer_Flush sb w = Inr (ok, sb', w') \<Longrightarrow>
      SB_inv sb' \<and> unat (s_mOffset sb') = 0"
    by (drule (1) SB_inv_Flush) simp
  show "SB_inv sb \<Longrightarrow> SB_ready sb w \<Longrightarrow>
      \<exists>ok b' w'. SendBuffer_Flush sb w = Inr (ok, b', w') \<and> SB_ready b' w'"
    by (rule SB_Flush_live)
next
  fix sb :: SendBuffer and w and sz :: size_t and r sb' w'
  assume inv: "SB_inv sb" and "unat sz \<le> 2 ^ 64 - 25"
  then have sz: "unat sz + 24 < 2 ^ 64" by simp
  show "SB_inv sb' \<and> (\<forall>p. r = Some p \<longrightarrow> p + unat sz = unat (s_mOffset sb'))"
    if "SendBuffer_GetCmdSpace sz sb w = Inr (r, sb', w')"
    using SB_inv_GetCmdSpace [OF inv sz that] by simp
  show "\<exists>r b' w'. SendBuffer_GetCmdSpace sz sb w = Inr (r, b', w') \<and> SB_ready b' w'"
    if "SB_ready sb w"
    using SB_GetCmdSpace_live [OF inv sz that] .
qed

lemma RB_Flush_live:
  assumes "RB_inv rb" "RB_ready hc rb h"
  shows "\<exists>ok rb' h'. RecvBuffer_Flush hc rb h = Inr (ok, rb', h') \<and> RB_ready hc rb' h'"
proof -
  obtain a where a: "r_mHandler rb = Some a" "\<And>bs h'. \<exists>r. hc a bs h' = Inr r"
    using assms(2) by (auto simp: RB_ready_def split: option.splits)
  obtain ok h' where "hc a (peek (r_mBuffer rb) 0 (unat (r_mOffset rb))) h = Inr (ok, h')"
    using a(2) by (metis surj_pair)
  with a show ?thesis
    by (simp add: RB_Flush_hands_over [OF assms(1) a(1)] RB_ready_def)
qed

lemma RB_GetCmdSpace_live:
  assumes "RB_inv rb" "RB_ready hc rb h"
  shows "\<exists>r rb' h'. RecvBuffer_GetCmdSpace hc sz rb h = Inr (r, rb', h') \<and> RB_ready hc rb' h'"
proof -
  consider (large) "BUFFER_SIZE < unat sz"
    | (fits) "unat (r_mOffset rb) + unat sz \<le> BUFFER_SIZE"
    | (full) "unat sz \<le> BUFFER_SIZE" "BUFFER_SIZE < unat (r_mOffset rb) + unat sz"
    by linarith
  then show ?thesis
  proof cases
    case full
    with RB_Flush_live [OF assms] show ?thesis
      by (auto simp: RB_GetCmdSpace_no_room RB_ready_def)
  qed (use assms in \<open>simp_all add: RB_GetCmdSpace_too_large RB_GetCmdSpace_fits RB_ready_def\<close>)
qed

interpretation rb: live_serializer "RecvBuffer_GetCmdSpace hc" "RecvBuffer_Flush hc"
  "\<lambda>rb. unat (r_mOffset rb)" RB_inv BUFFER_SIZE "2 ^ 64" "RB_ready hc" for hc
proof unfold_locales
  fix rb :: RecvBuffer and h ok rb' h'
  show "RB_inv rb \<Longrightarrow> unat (r_mOffset rb) \<le> BUFFER_SIZE"
    by (simp add: RB_inv_def)
  show "RB_inv rb \<Longrightarrow> RecvBuffer_Flush hc rb h = Inr (ok, rb', h') \<Longrightarrow>
      RB_inv rb' \<and> unat (r_mOffset rb') = 0"
    by (drule (1) RB_inv_Flush) simp
  show "RB_inv rb \<Longrightarrow> RB_ready hc rb h \<Longrightarrow>
      \<exists>ok b' w'. RecvBuffer_Flush hc rb h = Inr (ok, b', w') \<and> RB_ready hc b' w'"
    by (rule RB_Flush_live)
qed (simp_all add: RB_inv_GetCmdSpace RB_GetCmdSpace_live)

section \<open>The batch in a SendBuffer\<close>

text \<open>
  Dawn asks for the space of a command and then writes the command there. \<open>put_command\<close> is that
  use of the interface; \<open>False\<close> when it got a null pointer. Between two flushes the buffer
  holds the frames of the commands put in, in order (\<open>holds\<close>).
\<close>

definition put_command :: "byte list \<Rightarrow> SendBuffer \<Rightarrow> world \<Rightarrow> (bool \<times> SendBuffer \<times> world) result" where
  "put_command bs sb w =
     rbind (SendBuffer_GetCmdSpace (of_nat (length bs)) sb w)
       (\<lambda>(r, sb', w'). case r of
          None \<Rightarrow> Inr (False, sb', w')
        | Some p \<Rightarrow> rbind (store_bytes (s_mBuffer sb') p bs)
            (\<lambda>buf. Inr (True, sb'\<lparr>s_mBuffer := buf\<rparr>, w')))"

definition frame :: "byte list \<Rightarrow> byte list" where
  "frame bs = encode_tlv \<lparr>tlv_type = 1, tlv_len = of_nat (length bs)\<rparr> @ bs"

definition frames :: "byte list list \<Rightarrow> byte list" where
  "frames ps = concat (map frame ps)"

definition batch_bytes :: "byte list list \<Rightarrow> byte list" where
  "batch_bytes ps = frames ps @ flush_mark"

definition holds :: "SendBuffer \<Rightarrow> byte list list \<Rightarrow> bool" where
  "holds sb ps \<longleftrightarrow> SB_inv sb \<and> unat (s_mOffset sb) = length (frames ps)
     \<and> peek (s_mBuffer sb) 0 (length (frames ps)) = frames ps"

lemma frames_simps [simp]: "frames [] = []" "frames (ps @ qs) = frames ps @ frames qs"
    "frames [bs] = frame bs"
  by (simp_all add: frames_def)

lemma length_frame [simp]: "length (frame bs) = length bs + 12"
  by (simp add: frame_def)

lemma holds_Nil: "SB_inv sb \<Longrightarrow> s_mOffset sb = 0 \<Longrightarrow> holds sb []"
  by (simp add: holds_def)

lemma holds_room: "holds sb ps \<Longrightarrow> length (frames ps) + 12 \<le> BUFFER_SIZE"
  by (simp add: holds_def SB_inv_def TLV_SZ_def)

lemma put_command_fits:
  assumes "holds sb ps" "length (frames ps) + length bs + 24 \<le> BUFFER_SIZE"
  shows "\<exists>sb'. put_command bs sb w = Inr (True, sb', w) \<and> holds sb' (ps @ [bs])
           \<and> s_mTransport sb' = s_mTransport sb"
proof -
  let ?off = "length (frames ps)" and ?c = "encode_tlv \<lparr>tlv_type = 1, tlv_len = of_nat (length bs)\<rparr>"
  have inv: "SB_inv sb" and off: "unat (s_mOffset sb) = ?off"
    and pk: "peek (s_mBuffer sb) 0 ?off = frames ps"
    using assms(1) by (simp_all add: holds_def)
  have lt: "length bs < 2 ^ 64" "?off + length bs + 12 < 2 ^ 64" "?off + length bs + 12 \<le> PTRDIFF_MAX"
    using assms(2) by (simp_all add: buffer_consts)
  let ?b = "poke (s_mBuffer sb) ?off ?c" and ?b' = "poke (poke (s_mBuffer sb) ?off ?c) (?off + 12) bs"
  let ?sb = "sb\<lparr>s_mBuffer := ?b', s_mOffset := of_nat (?off + length bs + 12)\<rparr>"
  have "in_block ?b (?off + 12) (length bs)"
    using assms(2) inv lt by (simp add: in_block_def SB_inv_def)
  then have "put_command bs sb w = Inr (True, ?sb, w)"
    using GetCmdSpace_fits [OF inv, of "of_nat (length bs)" w] assms(2) lt(1)
    by (simp add: put_command_def off block_simps)
  moreover have "peek ?b' 0 (?off + 12 + length bs) = frames ps @ ?c @ bs"
    using peek_poke_extend [of ?b "?off + 12" bs] peek_poke_extend [of "s_mBuffer sb" ?off ?c]
    by (simp add: pk)
  then have "peek ?b' 0 (?off + length bs + 12) = frames (ps @ [bs])"
    by (simp add: frame_def ac_simps)
  moreover have "length (frames (ps @ [bs])) = ?off + length bs + 12" by simp
  moreover have "unat (of_nat (?off + length bs + 12) :: size_t) = ?off + length bs + 12"
    using lt(2) by (rule unat_of_nat_size)
  ultimately have "holds ?sb (ps @ [bs])"
    using assms(2) inv unfolding holds_def SB_inv_def by (simp add: TLV_SZ_def add.assoc del: of_nat_add)
  with \<open>put_command bs sb w = Inr (True, ?sb, w)\<close> show ?thesis by force
qed

lemma put_command_no_room:
  assumes "holds sb ps" "length bs + 24 \<le> BUFFER_SIZE"
    and "BUFFER_SIZE < length (frames ps) + length bs + 24"
    and "SendBuffer_Flush sb w = Inr (True, sb1, w1)"
  shows "put_command bs sb w = put_command bs sb1 w1"
proof -
  have l: "unat (of_nat (length bs) :: size_t) = length bs"
    using assms(2) by (intro unat_of_nat_size) (simp add: buffer_consts)
  have "SendBuffer_GetCmdSpace (of_nat (length bs)) sb w = SendBuffer_GetCmdSpace (of_nat (length bs)) sb1 w1"
    using GetCmdSpace_no_room [of "of_nat (length bs)" sb w] assms by (simp add: holds_def l)
  then show ?thesis by (simp add: put_command_def)
qed

text \<open>A buffer whose transport is an open connection on descriptor \<open>fd\<close> that takes every chunk.\<close>

definition connected :: "SendBuffer \<Rightarrow> int \<Rightarrow> world \<Rightarrow> bool" where
  "connected sb fd w \<longleftrightarrow> 0 \<le> fd \<and> accepts_all w \<and>
     (case s_mTransport sb of None \<Rightarrow> False | Some p \<Rightarrow> transports w p = Some \<lparr>mConnfd = fd\<rparr>)"

text \<open>The world after one flush has put the bytes \<open>bs\<close> on the connection.\<close>

definition flushed :: "int \<Rightarrow> byte list \<Rightarrow> world \<Rightarrow> world" where
  "flushed fd bs w = sys_log (Fsync fd) (sent fd bs ((length bs + 65535) div 65536) w)"

lemma tx_flushed [simp]: "tx (flushed fd bs w) fd = tx w fd @ bs"
  by (simp add: flushed_def sys_log_def sent_def)

lemma connected_flushed [simp]: "connected sb fd (flushed fd' bs w) = connected sb fd w"
  by (simp add: connected_def flushed_def sys_log_def sent_def accepts_all_def split: option.split)

lemma connected_transport: "s_mTransport sb' = s_mTransport sb \<Longrightarrow> connected sb' fd w = connected sb fd w"
  by (simp add: connected_def)

lemma Flush_batch:
  assumes "holds sb ps" "ps \<noteq> []" "connected sb fd w"
  shows "\<exists>sb'. SendBuffer_Flush sb w = Inr (True, sb', flushed fd (batch_bytes ps) w)
           \<and> holds sb' [] \<and> s_mTransport sb' = s_mTransport sb"
proof -
  let ?off = "length (frames ps)" and ?b = "poke (s_mBuffer sb) (length (frames ps)) flush_mark"
  have inv: "SB_inv sb" and off: "unat (s_mOffset sb) = ?off"
    and pk: "peek (s_mBuffer sb) 0 ?off = frames ps"
    using assms(1) by (simp_all add: holds_def)
  obtain p where p: "s_mTransport sb = Some p" "transports w p = Some \<lparr>mConnfd = fd\<rparr>"
      "0 \<le> fd" "accepts_all w"
    using assms(3) by (auto simp: connected_def split: option.splits)
  have "0 < ?off" using assms(2) by (cases ps) (auto simp: frames_def)
  then have nz: "s_mOffset sb \<noteq> 0" using off by (metis less_irrefl unat_0)
  have end_off: "unat (s_mOffset sb + 12) = ?off + 12"
    using unat_size_add [of "s_mOffset sb" 12] holds_room [OF assms(1)] off by (simp add: buffer_consts)
  have "in_block ?b 0 (unat (s_mOffset sb + 12))"
    using inv by (intro SB_end_in_block) (simp_all add: SB_inv_def)
  from Send_accepted [OF p(2) _ this p(4)] p(3)
  have "CommandTransport_Send p ?b (s_mOffset sb + 12) w = Inr (0, flushed fd (batch_bytes ps) w)"
    using peek_poke_extend [of "s_mBuffer sb" ?off flush_mark]
    by (simp add: end_off pk batch_bytes_def flushed_def)
  moreover have "holds (sb\<lparr>s_mBuffer := ?b, s_mOffset := 0\<rparr>) []"
    using inv by (intro holds_Nil) (simp_all add: SB_inv_def TLV_SZ_def)
  ultimately show ?thesis
    by (simp add: Flush_pending [OF inv nz p(1)] off Let_def)
qed

lemma SB_Flush_connected:
  assumes "SB_inv sb" "connected sb fd w"
  shows "\<exists>sb' w'. SendBuffer_Flush sb w = Inr (True, sb', w') \<and> connected sb' fd w'"
proof (cases "s_mOffset sb = 0")
  case True
  with assms show ?thesis by auto
next
  case False
  obtain p where p: "s_mTransport sb = Some p" "transports w p = Some \<lparr>mConnfd = fd\<rparr>"
      "0 \<le> fd" "accepts_all w"
    using assms(2) by (auto simp: connected_def split: option.splits)
  let ?b = "poke (s_mBuffer sb) (unat (s_mOffset sb)) flush_mark"
  have "in_block ?b 0 (unat (s_mOffset sb + 12))"
    using assms(1) by (intro SB_end_in_block) (simp_all add: SB_inv_def)
  from Send_accepted [OF p(2) _ this p(4)] p(3) show ?thesis
    using p
    by (simp add: Flush_pending [OF assms(1) False p(1)] connected_def Let_def sys_log_def sent_def
        accepts_all_def)
qed

section \<open>Properties\<close>

text \<open>
  \<open>Flush\<close> of a \<open>SendBuffer\<close> that holds the commands \<open>ps\<close> (at least one), on an open connection:
  it returns \<open>true\<close>, the connection has received exactly the framed commands in order
  followed by the end-of-batch header, and the buffer is empty again.
\<close>

theorem Flush_sends_batch:
  assumes "holds sb ps" "ps \<noteq> []" "connected sb fd w"
  shows "\<exists>sb' w'. SendBuffer_Flush sb w = Inr (True, sb', w')
           \<and> tx w' fd = tx w fd @ concat (map frame ps) @ encode_tlv \<lparr>tlv_type = 2, tlv_len = 0\<rparr>
           \<and> holds sb' []"
  using Flush_batch [OF assms]
  by (auto simp: batch_bytes_def frames_def flush_mark_def)

text \<open>What a successful \<open>GetCmdSpace\<close> leaves: the header of the command behind the old contents.\<close>

definition space_opened :: "size_t \<Rightarrow> SendBuffer \<Rightarrow> SendBuffer \<Rightarrow> bool" where
  "space_opened sz sb sb' \<longleftrightarrow>
     unat (s_mOffset sb') = unat (s_mOffset sb) + unat sz + 12
     \<and> peek (s_mBuffer sb') 0 (unat (s_mOffset sb) + 12)
         = peek (s_mBuffer sb) 0 (unat (s_mOffset sb)) @ encode_tlv \<lparr>tlv_type = 1, tlv_len = sz\<rparr>"

lemma GetCmdSpace_opens:
  assumes "SB_inv sb" "unat (s_mOffset sb) + unat sz + 24 \<le> 2000000"
  shows "\<exists>sb'. SendBuffer_GetCmdSpace sz sb w = Inr (Some (unat (s_mOffset sb) + 12), sb', w)
           \<and> space_opened sz sb sb'"
proof -
  have "unat (of_nat (unat (s_mOffset sb) + unat sz + 12) :: size_t) = unat (s_mOffset sb) + unat sz + 12"
    using assms(2) by (intro unat_of_nat_size) simp
  then show ?thesis
    using assms GetCmdSpace_fits [of sb sz w]
      peek_poke_extend [of "s_mBuffer sb" "unat (s_mOffset sb)" "encode_tlv \<lparr>tlv_type = 1, tlv_len = sz\<rparr>"]
    by (simp add: BUFFER_SIZE_def space_opened_def del: of_nat_add)
qed

text \<open>
  \<open>GetCmdSpace\<close> of a \<open>SendBuffer\<close> in full, for every size that does not wrap: null and no change
  for a size above the maximum; the place behind the next header when there is room for
  the command and the end-of-batch header; otherwise a flush first, null if the flush fails,
  and the place behind the first header if it succeeds.
\<close>

theorem SendBuffer_GetCmdSpace_cases:
  assumes "SB_inv sb" "unat sz + 24 < 2 ^ 64"
  shows "(1999976 < unat sz \<longrightarrow> SendBuffer_GetCmdSpace sz sb w = Inr (None, sb, w))
    \<and> (unat (s_mOffset sb) + unat sz + 24 \<le> 2000000 \<longrightarrow>
        (\<exists>sb'. SendBuffer_GetCmdSpace sz sb w = Inr (Some (unat (s_mOffset sb) + 12), sb', w)
           \<and> space_opened sz sb sb'))
    \<and> (unat sz \<le> 1999976 \<and> 2000000 < unat (s_mOffset sb) + unat sz + 24 \<longrightarrow>
        (case SendBuffer_Flush sb w of
           Inl f \<Rightarrow> SendBuffer_GetCmdSpace sz sb w = Inl f
         | Inr (False, sb1, w1) \<Rightarrow> SendBuffer_GetCmdSpace sz sb w = Inr (None, sb1, w1)
         | Inr (True, sb1, w1) \<Rightarrow>
             (\<exists>sb'. SendBuffer_GetCmdSpace sz sb w = Inr (Some 12, sb', w1)
                \<and> s_mOffset sb1 = 0 \<and> space_opened sz sb1 sb')))"
proof (intro conjI impI)
  show "SendBuffer_GetCmdSpace sz sb w = Inr (None, sb, w)" if "1999976 < unat sz"
    using that assms by (intro GetCmdSpace_too_large) (simp_all add: BUFFER_SIZE_def)
  show "\<exists>sb'. SendBuffer_GetCmdSpace sz sb w = Inr (Some (unat (s_mOffset sb) + 12), sb', w)
      \<and> space_opened sz sb sb'" if "unat (s_mOffset sb) + unat sz + 24 \<le> 2000000"
    using GetCmdSpace_opens [OF assms(1) that] .
  show "case SendBuffer_Flush sb w of
           Inl f \<Rightarrow> SendBuffer_GetCmdSpace sz sb w = Inl f
         | Inr (False, sb1, w1) \<Rightarrow> SendBuffer_GetCmdSpace sz sb w = Inr (None, sb1, w1)
         | Inr (True, sb1, w1) \<Rightarrow>
             (\<exists>sb'. SendBuffer_GetCmdSpace sz sb w = Inr (Some 12, sb', w1)
                \<and> s_mOffset sb1 = 0 \<and> space_opened sz sb1 sb')"
    if full: "unat sz \<le> 1999976 \<and> 2000000 < unat (s_mOffset sb) + unat sz + 24"
  proof (cases "SendBuffer_Flush sb w")
    case (Inl f)
    with full show ?thesis by (simp add: GetCmdSpace_no_room BUFFER_SIZE_def)
  next
    case (Inr r)
    obtain ok sb1 w1 where r: "r = (ok, sb1, w1)" by (metis surj_pair)
    have "SB_inv sb1" "s_mOffset sb1 = 0"
      using SB_inv_Flush [OF assms(1) Inr [unfolded r]] by simp_all
    with full show ?thesis
      using GetCmdSpace_opens [of sb1 sz w1]
      by (cases ok) (simp_all add: GetCmdSpace_no_room BUFFER_SIZE_def Inr r)
  qed
qed

lemma SendBuffer_GetCmdSpace_cases_witness:
  "\<exists>sb'. SendBuffer_GetCmdSpace 4 (new_SendBuffer (\<lambda>_. 0)) (demo_world (\<lambda>_. Accepts 65536))
       = Inr (Some 12, sb', demo_world (\<lambda>_. Accepts 65536))
     \<and> unat (s_mOffset sb') = 16"
proof -
  have "unat (s_mOffset (new_SendBuffer (\<lambda>_. 0))) = 0" by (simp add: new_SendBuffer_def)
  then show ?thesis
    using SendBuffer_GetCmdSpace_cases [of "new_SendBuffer (\<lambda>_. 0)" 4 "demo_world (\<lambda>_. Accepts 65536)"]
    by (auto simp: space_opened_def)
qed

text \<open>
  \<open>GetMaximumAllocationSize\<close> is exact: with an open connection, \<open>GetCmdSpace\<close> gives space for a
  request (of a size that does not wrap) if and only if it is at most that maximum.
\<close>

theorem SendBuffer_maximum_exact:
  assumes "SB_inv sb" "connected sb fd w" "unat sz + 24 < 2 ^ 64"
  shows "(\<exists>p sb' w'. SendBuffer_GetCmdSpace sz sb w = Inr (Some p, sb', w'))
           \<longleftrightarrow> sz \<le> SendBuffer_GetMaximumAllocationSize"
proof -
  have m: "sz \<le> SendBuffer_GetMaximumAllocationSize \<longleftrightarrow> unat sz \<le> 1999976"
    by (simp add: SendBuffer_GetMaximumAllocationSize_def buffer_consts word_le_nat_alt)
  show ?thesis
  proof (cases "unat sz \<le> 1999976")
    case False
    with assms have "SendBuffer_GetCmdSpace sz sb w = Inr (None, sb, w)"
      by (intro GetCmdSpace_too_large) (simp_all add: BUFFER_SIZE_def)
    with False m show ?thesis by simp
  next
    case True
    obtain sb1 w1 where fl: "SendBuffer_Flush sb w = Inr (True, sb1, w1)"
      using SB_Flush_connected [OF assms(1,2)] by blast
    have "\<exists>p sb' w'. SendBuffer_GetCmdSpace sz sb w = Inr (Some p, sb', w')"
      using True fl SB_inv_Flush [OF assms(1) fl]
      by (cases "unat (s_mOffset sb) + unat sz + 24 \<le> BUFFER_SIZE")
         (simp_all add: GetCmdSpace_fits assms(1) GetCmdSpace_no_room BUFFER_SIZE_def)
    with True m show ?thesis by simp
  qed
qed

lemma demo_SB_connected: "connected (SendBuffer_SetTransport 0 (new_SendBuffer junk)) 3 (demo_world (\<lambda>_. Accepts 65536))"
  by (simp add: connected_def SendBuffer_SetTransport_def demo_world_def accepts_all_def SEND_BUF_def)

lemma SB_inv_SetTransport [simp]: "SB_inv (SendBuffer_SetTransport p sb) = SB_inv sb"
  by (simp add: SB_inv_def SendBuffer_SetTransport_def)

lemma SendBuffer_maximum_exact_witness:
  "\<exists>p sb' w'. SendBuffer_GetCmdSpace 1999976 (SendBuffer_SetTransport 0 (new_SendBuffer (\<lambda>_. 0)))
     (demo_world (\<lambda>_. Accepts 65536)) = Inr (Some p, sb', w')"
  using SendBuffer_maximum_exact [OF _ demo_SB_connected [of "\<lambda>_. 0"], of 1999976]
  by (simp add: SendBuffer_GetMaximumAllocationSize_def buffer_consts)

text \<open>
  C20: The size check of \<open>GetCmdSpace\<close> adds on \<open>size_t\<close>: for the 24 largest sizes the sum wraps, the
  check passes, and with room for two headers the caller gets a non-null pointer to a region
  that no buffer can contain, while the offset moves backwards.
\<close>

theorem SendBuffer_size_check_wraps:
  assumes "SB_inv sb" "unat (s_mOffset sb) + 24 \<le> 2000000" "2 ^ 64 - 24 \<le> unat sz"
  shows "\<exists>buf. SendBuffer_GetCmdSpace sz sb w =
      Inr (Some (unat (s_mOffset sb) + 12), sb\<lparr>s_mBuffer := buf, s_mOffset := s_mOffset sb + sz + 12\<rparr>, w)
    \<and> \<not> in_block buf (unat (s_mOffset sb) + 12) (unat sz)"
proof -
  have "unat sz < 2 ^ 64" using unsigned_less [where ?'a = nat, of sz] by simp
  then obtain k where "unat sz + k = 2 ^ 64" "1 \<le> k" by (metis less_imp_add_positive Suc_le_eq One_nat_def)
  moreover from this have k: "k \<le> 24" using assms(3) by linarith
  ultimately have "of_nat (unat sz) + of_nat k = (of_nat (2 ^ 64) :: size_t)"
    by (metis of_nat_add)
  then have "sz + of_nat k = 0" by simp
  then have sz: "sz = - of_nat k" by (simp only: eq_neg_iff_add_eq_0)
  have "unat (sz + 24) = 24 - k"
  proof -
    have "sz + 24 = of_nat (24 - k)"
      using k by (subst sz) (simp only: of_nat_diff of_nat_numeral, simp)
    moreover have "unat (of_nat (24 - k) :: size_t) = 24 - k"
      by (intro unat_of_nat_size) simp
    ultimately show ?thesis by metis
  qed
  then have "\<not> of_nat BUFFER_SIZE < sz + 2 * of_nat TLV_SZ"
    by (simp add: buffer_consts word_less_nat_alt)
  moreover have "\<not> of_nat BUFFER_SIZE - sz - 2 * of_nat TLV_SZ < s_mOffset sb"
  proof -
    have "of_nat BUFFER_SIZE - sz - 2 * of_nat TLV_SZ = (of_nat (1999976 + k) :: size_t)"
      by (subst sz) (simp only: buffer_consts of_nat_add of_nat_numeral, simp)
    moreover have "unat (of_nat (1999976 + k) :: size_t) = 1999976 + k"
      by (intro unat_of_nat_size) (use k in simp)
    ultimately have "unat (of_nat BUFFER_SIZE - sz - 2 * of_nat TLV_SZ) = 1999976 + k" by metis
    then show ?thesis
      using assms(2) unfolding word_less_nat_alt by linarith
  qed
  moreover have "in_block (s_mBuffer sb) (unat (s_mOffset sb)) 12"
    using assms by (simp add: in_block_def SB_inv_def buffer_consts)
  ultimately have "SendBuffer_GetCmdSpace sz sb w =
      Inr (Some (unat (s_mOffset sb) + 12),
        sb\<lparr>s_mBuffer := poke (s_mBuffer sb) (unat (s_mOffset sb)) (encode_tlv \<lparr>tlv_type = 1, tlv_len = sz\<rparr>),
           s_mOffset := s_mOffset sb + sz + 12\<rparr>, w)"
    by (simp only: SendBuffer_GetCmdSpace.simps [of sz sb w] if_False store_bytes_in length_encode_tlv
        rbind_Inr) (simp add: TLV_SZ_def algebra_simps)
  moreover have "\<not> in_block b (unat (s_mOffset sb) + 12) (unat sz)" for b
    using assms(3) by (simp add: in_block_def PTRDIFF_MAX_def)
  ultimately show ?thesis by auto
qed

lemma SendBuffer_size_check_wraps_witness:
  "\<exists>sb'. SendBuffer_GetCmdSpace (- 24) (new_SendBuffer (\<lambda>_. 0)) (demo_world (\<lambda>_. Accepts 65536))
       = Inr (Some 12, sb', demo_world (\<lambda>_. Accepts 65536))"
  using SendBuffer_size_check_wraps [of "new_SendBuffer (\<lambda>_. 0)" "- 24" "demo_world (\<lambda>_. Accepts 65536)"]
  by (auto simp: new_SendBuffer_def SB_inv_def buffer_consts)

text \<open>
  C12: Memory safety of the sender: with a live transport, any sequence of \<open>GetCmdSpace\<close> (sizes that
  do not wrap) and \<open>Flush\<close> calls on a new \<open>SendBuffer\<close> stays defined, whatever the kernel
  does, and every region handed out ends at least 12 bytes before the end of the array.
\<close>

theorem SendBuffer_memory_safe:
  assumes "transports w p \<noteq> None" "\<And>q. q \<in> set rs \<Longrightarrow> request_size q \<le> 2 ^ 64 - 25"
  shows "\<exists>out sb' w'. serve SendBuffer_GetCmdSpace SendBuffer_Flush rs
             (SendBuffer_SetTransport p (new_SendBuffer junk)) w = Inr (out, sb', w')
           \<and> (\<forall>(q, n) \<in> set out. q + n + 12 \<le> 2000000)"
proof -
  let ?sb = "SendBuffer_SetTransport p (new_SendBuffer junk)"
  have inv: "SB_inv ?sb" by simp
  have "SB_ready ?sb w" using assms(1) by (simp add: SB_ready_def SendBuffer_SetTransport_def)
  with inv obtain out sb' w' where s: "serve SendBuffer_GetCmdSpace SendBuffer_Flush rs ?sb w = Inr (out, sb', w')"
    using sb.serve_live [OF inv _ assms(2)] by blast
  with sb.serve_sound [OF inv assms(2) s] show ?thesis
    by (fastforce simp: buffer_consts)
qed

lemma SendBuffer_memory_safe_witness:
  "\<exists>out sb' w'. serve SendBuffer_GetCmdSpace SendBuffer_Flush [Space 4, Flush_now, Space 1999976]
       (SendBuffer_SetTransport 0 (new_SendBuffer (\<lambda>_. 0))) (demo_world (\<lambda>_. SendFails 32)) = Inr (out, sb', w')"
proof -
  have "\<exists>out sb' w'. serve SendBuffer_GetCmdSpace SendBuffer_Flush [Space 4, Flush_now, Space 1999976]
       (SendBuffer_SetTransport 0 (new_SendBuffer (\<lambda>_. 0))) (demo_world (\<lambda>_. SendFails 32)) = Inr (out, sb', w')
      \<and> (\<forall>(q, n) \<in> set out. q + n + 12 \<le> 2000000)"
    by (rule SendBuffer_memory_safe) (auto simp: demo_world_def)
  then show ?thesis by blast
qed



end
