(* ===== verification/Command_Receiver.thy ===== *)
theory Command_Receiver
  imports Buffer_Laws
begin

text \<open>
  \<open>CommandTransport::Recv\<close> of \<open>src/common/dawn_command_transport.cpp\<close>: the loop of the receive
  thread, which cuts the byte stream of the connection back into commands. The kernel may
  deliver the stream in pieces of any size; a header or a payload may be spread over any
  number of them.
\<close>

section \<open>The state of the loop\<close>

text \<open>
  The local variables of \<open>Recv\<close>. \<open>cmd\<close> is the storage of the header being assembled (12 bytes),
  \<open>cmd_buf\<close> the pointer into the buffer (an offset) or null; \<open>ssize_t\<close> variables are \<open>int\<close>.
\<close>

definition RECV_BUF :: nat where
  "RECV_BUF = 65536"

record recv_locals =
  recv_buf :: block
  recv_cmd :: bool
  cmd :: block
  cmd_len :: int
  cmd_len_left :: int
  hdr_len_left :: int
  cmd_buf :: "nat option"
  bytes_left :: int

text \<open>On entry only \<open>recv_cmd\<close> and \<open>hdr_len_left\<close> are initialised; the rest is what was on the stack.\<close>

definition recv_entry :: "recv_locals \<Rightarrow> recv_locals" where
  "recv_entry stack = stack\<lparr>recv_cmd := False, hdr_len_left := int TLV_SZ\<rparr>"

definition stack_ok :: "recv_locals \<Rightarrow> bool" where
  "stack_ok l \<longleftrightarrow> bsize (recv_buf l) = RECV_BUF \<and> bsize (cmd l) = TLV_SZ"

datatype after = Continue | Break

section \<open>The body of the inner loop\<close>

text \<open>Copying \<open>n\<close> bytes, from where the unread part of the piece begins, into the header.\<close>

definition fill_header :: "int \<Rightarrow> int \<Rightarrow> recv_locals \<Rightarrow> block result" where
  "fill_header nread n l =
     memcpy (cmd l) (szt (int TLV_SZ - hdr_len_left l)) (recv_buf l) (szt (nread - bytes_left l)) (szt n)"

definition recv_header_part :: "int \<Rightarrow> recv_locals \<Rightarrow> recv_locals result" where
  "recv_header_part nread l =
     rbind (fill_header nread (bytes_left l) l)
       (\<lambda>c. Inr (l\<lparr>cmd := c, hdr_len_left := hdr_len_left l - bytes_left l\<rparr>))"

text \<open>A complete header that is not a flush: space for the command, and what is there of it.\<close>

definition recv_command :: "'h handler \<Rightarrow> int \<Rightarrow> size_t \<Rightarrow> recv_locals \<Rightarrow> RecvBuffer \<Rightarrow> 'h \<Rightarrow>
    (recv_locals \<times> RecvBuffer \<times> 'h) result" where
  "recv_command hc nread len l rb h =
     rbind (RecvBuffer_GetCmdSpace hc len rb h) (\<lambda>(p, rb', h').
       let (ncmdbytes, more) =
             (if bytes_left l \<ge> sint len then (sint len, False) else (bytes_left l, True))
       in case p of
            None \<Rightarrow> Inl NullPointer
          | Some d \<Rightarrow>
              rbind (memcpy (r_mBuffer rb') d (recv_buf l) (szt (nread - bytes_left l)) (szt ncmdbytes))
                (\<lambda>b. Inr (l\<lparr>recv_cmd := more, cmd_buf := p, cmd_len := sint len,
                           cmd_len_left := sint len - ncmdbytes, bytes_left := bytes_left l - ncmdbytes\<rparr>,
                         rb'\<lparr>r_mBuffer := b\<rparr>, h')))"

definition recv_header_end :: "'h handler \<Rightarrow> int \<Rightarrow> recv_locals \<Rightarrow> RecvBuffer \<Rightarrow> 'h \<Rightarrow>
    (recv_locals \<times> RecvBuffer \<times> 'h) result" where
  "recv_header_end hc nread l rb h =
     rbind (fill_header nread (hdr_len_left l) l) (\<lambda>c.
       let l' = l\<lparr>cmd := c, bytes_left := bytes_left l - hdr_len_left l, hdr_len_left := int TLV_SZ\<rparr>;
           hdr = decode_tlv (peek c 0 TLV_SZ)
       in if tlv_type hdr = 2
          then rbind (RecvBuffer_Flush hc rb h) (\<lambda>(ignored, rb', h'). Inr (l', rb', h'))
          else recv_command hc nread (tlv_len hdr) l' rb h)"

text \<open>The rest of a command, at the start of a later piece.\<close>

definition recv_rest :: "int \<Rightarrow> recv_locals \<Rightarrow> RecvBuffer \<Rightarrow> (recv_locals \<times> RecvBuffer) result" where
  "recv_rest nread l rb =
     (let (ncmdbytes, more) =
            (if nread \<ge> cmd_len_left l then (cmd_len_left l, False) else (nread, True))
      in case cmd_buf l of
           None \<Rightarrow> Inl NullPointer
         | Some d \<Rightarrow>
             rbind (memcpy (r_mBuffer rb) (szt (int d + cmd_len l - cmd_len_left l))
                      (recv_buf l) 0 (szt ncmdbytes))
               (\<lambda>b. Inr (l\<lparr>recv_cmd := more, bytes_left := bytes_left l - ncmdbytes,
                          cmd_len_left := cmd_len_left l - ncmdbytes\<rparr>,
                        rb\<lparr>r_mBuffer := b\<rparr>)))"

definition recv_body :: "'h handler \<Rightarrow> int \<Rightarrow> recv_locals \<Rightarrow> RecvBuffer \<Rightarrow> 'h \<Rightarrow>
    (after \<times> recv_locals \<times> RecvBuffer \<times> 'h) result" where
  "recv_body hc nread l rb h =
     (if \<not> recv_cmd l then
        if bytes_left l < hdr_len_left l
        then rbind (recv_header_part nread l) (\<lambda>l'. Inr (Break, l', rb, h))
        else rbind (recv_header_end hc nread l rb h) (\<lambda>(l', rb', h'). Inr (Continue, l', rb', h'))
      else rbind (recv_rest nread l rb) (\<lambda>(l', rb'). Inr (Continue, l', rb', h)))"

section \<open>The loops\<close>

text \<open>The inner loop; \<open>None\<close> if it does not end.\<close>

partial_function (option) recv_inner :: "'h handler \<Rightarrow> int \<Rightarrow> recv_locals \<Rightarrow> RecvBuffer \<Rightarrow> 'h \<Rightarrow>
    (recv_locals \<times> RecvBuffer \<times> 'h) result option" where
  "recv_inner hc nread l rb h =
     (if bytes_left l > 0 then
        (case recv_body hc nread l rb h of
           Inl f \<Rightarrow> Some (Inl f)
         | Inr (a, l', rb', h') \<Rightarrow>
             (case a of Break \<Rightarrow> Some (Inr (l', rb', h'))
              | Continue \<Rightarrow> recv_inner hc nread l' rb' h'))
      else Some (Inr (l, rb, h)))"

text \<open>One piece of the stream: \<open>recv\<close> stores it at the front of \<open>recv_buf\<close>, the inner loop eats it.\<close>

definition recv_piece :: "'h handler \<Rightarrow> recv_locals \<times> RecvBuffer \<times> 'h \<Rightarrow> byte list \<Rightarrow>
    (recv_locals \<times> RecvBuffer \<times> 'h) result option" where
  "recv_piece hc c bs =
     (case c of (l, rb, h) \<Rightarrow>
        case store_bytes (recv_buf l) 0 bs of
          Inl f \<Rightarrow> Some (Inl f)
        | Inr b \<Rightarrow>
            recv_inner hc (int (length bs)) (l\<lparr>recv_buf := b, bytes_left := int (length bs)\<rparr>) rb h)"

text \<open>
  The outer loop, over what successive calls of \<open>recv\<close> deliver: a piece of the stream (empty at
  the end of the stream) or \<open>-1\<close> with \<open>errno\<close>. When the script ends the thread is blocked in
  \<open>recv\<close>.
\<close>

datatype recv_event = Delivers "byte list" | RecvFails int

definition EAGAIN :: int where "EAGAIN = 11"

definition EWOULDBLOCK :: int where "EWOULDBLOCK = 11"

datatype 'h recv_outcome =
    Blocked "recv_locals \<times> RecvBuffer \<times> 'h"
  | Returns int "recv_locals \<times> RecvBuffer \<times> 'h"
  | Undefined fault
  | Spins

fun recv_outer :: "'h handler \<Rightarrow> recv_event list \<Rightarrow> recv_locals \<times> RecvBuffer \<times> 'h \<Rightarrow> 'h recv_outcome" where
  "recv_outer hc [] c = Blocked c"
| "recv_outer hc (RecvFails e # es) c =
     (if e = EAGAIN \<or> e = EWOULDBLOCK then recv_outer hc es c else Returns (- e) c)"
| "recv_outer hc (Delivers bs # es) c =
     (if length bs = 0 then Returns 0 c
      else case recv_piece hc c bs of
             None \<Rightarrow> Spins
           | Some (Inl f) \<Rightarrow> Undefined f
           | Some (Inr c') \<Rightarrow> recv_outer hc es c')"

definition CommandTransport_Recv :: "'h handler \<Rightarrow> recv_event list \<Rightarrow> recv_locals \<Rightarrow> RecvBuffer \<Rightarrow> 'h \<Rightarrow>
    'h recv_outcome" where
  "CommandTransport_Recv hc es stack rb h = recv_outer hc es (recv_entry stack, rb, h)"

end
