(* ===== verification/Stream_Parser.thy ===== *)
theory Stream_Parser
  imports Command_Receiver
begin

text \<open>
  The specification of the receiving side: a parser that takes the stream one byte at a time.
  It does not know how the kernel cuts the stream into pieces. The theory
  \<open>Receiver_Refinement\<close> shows that \<open>Recv\<close> implements it. The locale \<open>piecewise\<close> states what it
  means for a program that eats pieces to implement a byte machine, and what follows.
\<close>

section \<open>Byte machines and programs that eat pieces\<close>

fun run_bytes :: "('s \<Rightarrow> byte \<Rightarrow> 's result) \<Rightarrow> 's \<Rightarrow> byte list \<Rightarrow> 's result" where
  "run_bytes step s [] = Inr s"
| "run_bytes step s (b # bs) = rbind (step s b) (\<lambda>s'. run_bytes step s' bs)"

lemma run_bytes_append:
  "run_bytes step s (xs @ ys) = rbind (run_bytes step s xs) (\<lambda>s'. run_bytes step s' ys)"
  by (induction xs arbitrary: s) (simp_all add: rbind_assoc)

fun run_pieces :: "('c \<Rightarrow> byte list \<Rightarrow> 'c result option) \<Rightarrow> 'c \<Rightarrow> byte list list \<Rightarrow> 'c result option" where
  "run_pieces eat c [] = Some (Inr c)"
| "run_pieces eat c (p # ps) =
     (case eat c p of
        None \<Rightarrow> None
      | Some (Inl f) \<Rightarrow> Some (Inl f)
      | Some (Inr c') \<Rightarrow> run_pieces eat c' ps)"

locale piecewise =
  fixes step :: "'s \<Rightarrow> byte \<Rightarrow> 's result"
    and eat :: "'c \<Rightarrow> byte list \<Rightarrow> 'c result option"
    and rel :: "'c \<Rightarrow> 's \<Rightarrow> bool" and max_piece :: nat
  assumes eat_implements:
    "rel c s \<Longrightarrow> 0 < length p \<Longrightarrow> length p \<le> max_piece \<Longrightarrow>
     \<exists>r. eat c p = Some r \<and> rel_sum (=) rel r (run_bytes step s p)"
begin

lemma pieces_implement:
  assumes "rel c s" "\<And>p. p \<in> set ps \<Longrightarrow> 0 < length p \<and> length p \<le> max_piece"
  shows "\<exists>r. run_pieces eat c ps = Some r \<and> rel_sum (=) rel r (run_bytes step s (concat ps))"
  using assms
proof (induction ps arbitrary: c s)
  case Nil
  then show ?case by simp
next
  case (Cons p ps)
  obtain r where r: "eat c p = Some r" and rs: "rel_sum (=) rel r (run_bytes step s p)"
    using eat_implements [OF Cons.prems(1), of p] Cons.prems(2) [of p] by auto
  from rs show ?case
  proof (cases rule: rel_sum.cases)
    case (1 f g)
    with r show ?thesis by (simp add: run_bytes_append)
  next
    case (2 c' s')
    obtain r' where "run_pieces eat c' ps = Some r'" "rel_sum (=) rel r' (run_bytes step s' (concat ps))"
      using Cons.IH [of c' s'] 2 Cons.prems(2) by auto
    with r 2 show ?thesis by (simp add: run_bytes_append)
  qed
qed

lemma pieces_defined:
  assumes "rel c s" "\<And>p. p \<in> set ps \<Longrightarrow> 0 < length p \<and> length p \<le> max_piece"
    and "run_bytes step s (concat ps) = Inr s'"
  shows "\<exists>c'. run_pieces eat c ps = Some (Inr c') \<and> rel c' s'"
proof -
  obtain r where r: "run_pieces eat c ps = Some r" "rel_sum (=) rel r (Inr s')"
    using pieces_implement [OF assms(1,2)] assms(3) by fastforce
  from r(2) show ?thesis
    using r(1) by (cases rule: rel_sum.cases) auto
qed

end

section \<open>The parser of the command stream\<close>

text \<open>
  Header bytes seen so far, payload bytes still missing, the payloads of the current batch, and
  the state behind the command handler.
\<close>

record 'h parser =
  p_hdr :: "byte list"
  p_left :: nat
  p_batch :: "byte list"
  p_state :: 'h

type_synonym 'h consumer = "byte list \<Rightarrow> 'h \<Rightarrow> (bool \<times> 'h) result"

definition deliver :: "'h consumer \<Rightarrow> 'h parser \<Rightarrow> (bool \<times> 'h parser) result" where
  "deliver ha s =
     rbind (ha (p_batch s) (p_state s)) (\<lambda>(ok, h'). Inr (ok, s\<lparr>p_batch := [], p_state := h'\<rparr>))"

definition open_command :: "'h consumer \<Rightarrow> nat \<Rightarrow> 'h parser \<Rightarrow> 'h parser result" where
  "open_command ha len s =
     (if BUFFER_SIZE < len then Inl NullPointer
      else if BUFFER_SIZE < length (p_batch s) + len
      then rbind (deliver ha s) (\<lambda>(ok, s'). if ok then Inr (s'\<lparr>p_left := len\<rparr>) else Inl NullPointer)
      else Inr (s\<lparr>p_left := len\<rparr>))"

definition header_done :: "'h consumer \<Rightarrow> byte list \<Rightarrow> 'h parser \<Rightarrow> 'h parser result" where
  "header_done ha bs s =
     (let hdr = decode_tlv bs; s' = s\<lparr>p_hdr := []\<rparr>
      in if tlv_type hdr = 2 then rbind (deliver ha s') (\<lambda>(ok, s''). Inr s'')
         else open_command ha (unat (tlv_len hdr)) s')"

definition feed :: "'h consumer \<Rightarrow> 'h parser \<Rightarrow> byte \<Rightarrow> 'h parser result" where
  "feed ha s b =
     (if p_left s = 0 then
        let bs = p_hdr s @ [b]
        in if length bs < TLV_SZ then Inr (s\<lparr>p_hdr := bs\<rparr>) else header_done ha bs s
      else Inr (s\<lparr>p_batch := p_batch s @ [b], p_left := p_left s - 1\<rparr>))"

lemma feed_header_part:
  "p_left s = 0 \<Longrightarrow> length (p_hdr s) + length bs < TLV_SZ \<Longrightarrow>
   run_bytes (feed ha) s bs = Inr (s\<lparr>p_hdr := p_hdr s @ bs\<rparr>)"
  by (induction bs arbitrary: s) (simp_all add: feed_def)

lemma header_done_hdr: "header_done ha bs (s\<lparr>p_hdr := x\<rparr>) = header_done ha bs s"
  by (simp add: header_done_def)

lemma feed_header_end:
  assumes "p_left s = 0" "length (p_hdr s) + length bs = TLV_SZ" "bs \<noteq> []"
  shows "run_bytes (feed ha) s bs = header_done ha (p_hdr s @ bs) s"
proof -
  obtain cs b where bs: "bs = cs @ [b]" using assms(3) by (cases bs rule: rev_exhaust) auto
  have "run_bytes (feed ha) s cs = Inr (s\<lparr>p_hdr := p_hdr s @ cs\<rparr>)"
    using assms(1,2) by (intro feed_header_part) (simp_all add: bs)
  then show ?thesis
    using assms by (simp add: bs run_bytes_append feed_def header_done_hdr)
qed

lemma feed_payload:
  "length bs \<le> p_left s \<Longrightarrow>
   run_bytes (feed ha) s bs = Inr (s\<lparr>p_batch := p_batch s @ bs, p_left := p_left s - length bs\<rparr>)"
proof (induction bs arbitrary: s)
  case (Cons b bs)
  then have "feed ha s b = Inr (s\<lparr>p_batch := p_batch s @ [b], p_left := p_left s - 1\<rparr>)"
    by (simp add: feed_def)
  with Cons show ?case by simp
qed simp

end
