(* ===== verification/Receiver_Refinement.thy ===== *)
theory Receiver_Refinement
  imports Stream_Parser
begin

text \<open>
  \<open>Recv\<close> implements the byte parser: whatever the pieces, the loop ends, it faults exactly when
  the parser faults, and otherwise its variables represent the parser's state.
\<close>

section \<open>The representation\<close>

definition recv_rel :: "addr \<Rightarrow> recv_locals \<times> RecvBuffer \<times> 'h \<Rightarrow> 'h parser \<Rightarrow> bool" where
  "recv_rel a c s \<longleftrightarrow> (case c of (l, rb, h) \<Rightarrow>
     stack_ok l \<and> RB_inv rb \<and> r_mHandler rb = Some a \<and> p_state s = h
     \<and> length (p_hdr s) < TLV_SZ
     \<and> hdr_len_left l = int TLV_SZ - int (length (p_hdr s))
     \<and> peek (cmd l) 0 (length (p_hdr s)) = p_hdr s
     \<and> unat (r_mOffset rb) = length (p_batch s) + p_left s
     \<and> peek (r_mBuffer rb) 0 (length (p_batch s)) = p_batch s
     \<and> recv_cmd l = (0 < p_left s)
     \<and> (0 < p_left s \<longrightarrow> p_hdr s = [] \<and> cmd_len_left l = int (p_left s)
          \<and> (\<exists>d. cmd_buf l = Some d \<and> int d + cmd_len l = int (length (p_batch s) + p_left s))))"

definition parser_start :: "'h \<Rightarrow> 'h parser" where
  "parser_start h = \<lparr>p_hdr = [], p_left = 0, p_batch = [], p_state = h\<rparr>"

text \<open>
  The inner loop in the middle of a piece of \<open>N\<close> bytes of which \<open>n\<close> are unread. A command that is
  still incomplete is continued at the start of a piece only.
\<close>

definition mid_piece :: "addr \<Rightarrow> nat \<Rightarrow> nat \<Rightarrow> block \<Rightarrow> recv_locals \<times> RecvBuffer \<times> 'h \<Rightarrow> 'h parser \<Rightarrow> bool" where
  "mid_piece a N n b c s \<longleftrightarrow>
     recv_rel a c s \<and> n \<le> N \<and> N \<le> RECV_BUF \<and> bytes_left (fst c) = int n \<and> recv_buf (fst c) = b
     \<and> (recv_cmd (fst c) \<longrightarrow> n = N \<or> n = 0)"

section \<open>One pass through the body\<close>

lemma fill_header_ok:
  assumes "mid_piece a N n b (l, rb, h) s" "k \<le> n" "length (p_hdr s) + k \<le> TLV_SZ"
  shows "\<exists>c. fill_header (int N) (int k) l = Inr c \<and> bsize c = TLV_SZ
           \<and> peek c 0 (length (p_hdr s) + k) = p_hdr s @ peek b (N - n) k"
proof -
  let ?i = "length (p_hdr s)"
  have f: "bsize (recv_buf l) = RECV_BUF" "bsize (cmd l) = TLV_SZ" "peek (cmd l) 0 ?i = p_hdr s"
      "hdr_len_left l = int TLV_SZ - int ?i" "bytes_left l = int n" "recv_buf l = b"
      "n \<le> N" "N \<le> RECV_BUF"
    using assms(1) by (auto simp: mid_piece_def recv_rel_def stack_ok_def)
  have "szt (int TLV_SZ - hdr_len_left l) = ?i" "szt (int N - bytes_left l) = N - n" "szt (int k) = k"
    using f assms(2,3) by (simp_all add: RECV_BUF_def TLV_SZ_def nat_diff_distrib)
  moreover have "in_block (cmd l) ?i k" "in_block b (N - n) k"
    using f assms(2,3) by (auto simp: in_block_def RECV_BUF_def TLV_SZ_def PTRDIFF_MAX_def)
  ultimately show ?thesis
    using f peek_poke_extend [of "cmd l" ?i "peek b (N - n) k"]
    by (simp add: fill_header_def block_simps)
qed

lemma recv_header_part_ok:
  assumes "mid_piece a N n b (l, rb, h) s" "\<not> recv_cmd l" "int n < hdr_len_left l"
  shows "\<exists>l'. recv_header_part (int N) l = Inr l'
           \<and> rel_sum (=) (recv_rel a) (Inr (l', rb, h)) (run_bytes (feed ha) s (peek b (N - n) n))"
proof -
  have f: "hdr_len_left l = int TLV_SZ - int (length (p_hdr s))" "p_left s = 0" "bytes_left l = int n"
    using assms(1,2) by (auto simp: mid_piece_def recv_rel_def)
  then have lt: "length (p_hdr s) + n < TLV_SZ" using assms(3) by simp
  obtain c where c: "fill_header (int N) (int n) l = Inr c" "bsize c = TLV_SZ"
      "peek c 0 (length (p_hdr s) + n) = p_hdr s @ peek b (N - n) n"
    using fill_header_ok [OF assms(1) order_refl] lt by auto
  have "run_bytes (feed ha) s (peek b (N - n) n) = Inr (s\<lparr>p_hdr := p_hdr s @ peek b (N - n) n\<rparr>)"
    using f lt by (intro feed_header_part) simp_all
  then show ?thesis
    using assms(1) c f lt
    by (auto simp: recv_header_part_def mid_piece_def recv_rel_def stack_ok_def)
qed

text \<open>A buffer that represents the parser between two commands.\<close>

definition batch_rel :: "addr \<Rightarrow> RecvBuffer \<Rightarrow> 'h \<Rightarrow> 'h parser \<Rightarrow> bool" where
  "batch_rel a rb h s \<longleftrightarrow>
     RB_inv rb \<and> r_mHandler rb = Some a \<and> p_state s = h \<and> p_left s = 0
     \<and> unat (r_mOffset rb) = length (p_batch s) \<and> peek (r_mBuffer rb) 0 (length (p_batch s)) = p_batch s"

lemma Flush_delivers:
  assumes "batch_rel a rb h s"
  shows "rel_sum (=) (\<lambda>(ok, rb', h') (ok', s'). ok = ok' \<and> batch_rel a rb' h' s'
             \<and> r_mOffset rb' = 0 \<and> p_batch s' = [] \<and> p_hdr s' = p_hdr s)
           (RecvBuffer_Flush hc rb h) (deliver (hc a) s)"
proof -
  have "RecvBuffer_Flush hc rb h =
      rbind (hc a (p_batch s) h) (\<lambda>(ok, h'). Inr (ok, rb\<lparr>r_mOffset := 0\<rparr>, h'))"
    using assms by (simp add: RB_Flush_hands_over batch_rel_def)
  then show ?thesis
    using assms by (cases "hc a (p_batch s) h") (auto simp: deliver_def batch_rel_def RB_inv_def)
qed

lemma GetCmdSpace_opens_command:
  assumes "batch_rel a rb h s"
  shows "case RecvBuffer_GetCmdSpace hc len rb h of
      Inl f \<Rightarrow> open_command (hc a) (unat len) s = Inl f
    | Inr (None, rb', h') \<Rightarrow> open_command (hc a) (unat len) s = Inl NullPointer
    | Inr (Some d, rb', h') \<Rightarrow>
        (\<exists>s'. open_command (hc a) (unat len) s = Inr (s'\<lparr>p_left := unat len\<rparr>)
           \<and> batch_rel a (rb'\<lparr>r_mOffset := of_nat d\<rparr>) h' s' \<and> d = length (p_batch s')
           \<and> unat (r_mOffset rb') = d + unat len \<and> RB_inv rb' \<and> p_hdr s' = p_hdr s)"
proof -
  have off: "unat (r_mOffset rb) = length (p_batch s)" and inv: "RB_inv rb"
    using assms by (simp_all add: batch_rel_def)
  consider (large) "BUFFER_SIZE < unat len"
    | (fits) "length (p_batch s) + unat len \<le> BUFFER_SIZE"
    | (full) "unat len \<le> BUFFER_SIZE" "BUFFER_SIZE < length (p_batch s) + unat len"
    by linarith
  then show ?thesis
  proof cases
    case large
    then show ?thesis by (simp add: RB_GetCmdSpace_too_large open_command_def)
  next
    case fits
    have "unat (of_nat (length (p_batch s) + unat len) :: size_t) = length (p_batch s) + unat len"
      using fits by (intro unat_of_nat_size) (simp add: BUFFER_SIZE_def)
    moreover have "of_nat (length (p_batch s)) = r_mOffset rb" using off [symmetric] by simp
    ultimately show ?thesis
      using fits assms inv
      by (simp add: RB_GetCmdSpace_fits off open_command_def RB_inv_def batch_rel_def del: of_nat_add)
        (rule exI [of _ s], simp)
  next
    case full
    have g: "RecvBuffer_GetCmdSpace hc len rb h = rbind (RecvBuffer_Flush hc rb h)
      (\<lambda>(ok, rb', h'). if \<not> ok then Inr (None, rb', h') else Inr (Some 0, rb'\<lparr>r_mOffset := len\<rparr>, h'))"
      using full off by (intro RB_GetCmdSpace_no_room) simp_all
    have o: "open_command (hc a) (unat len) s = rbind (deliver (hc a) s)
      (\<lambda>(ok, s'). if ok then Inr (s'\<lparr>p_left := unat len\<rparr>) else Inl NullPointer)"
      using full by (simp add: open_command_def)
    from Flush_delivers [OF assms, of hc] show ?thesis
      unfolding g o
      by (cases rule: rel_sum.cases) (use full in \<open>fastforce simp: batch_rel_def RB_inv_def\<close>)+
  qed
qed

lemma recv_rel_batch: "recv_rel a (l, rb, h) s \<Longrightarrow> p_left s = 0 \<Longrightarrow> batch_rel a rb h s"
  by (simp add: recv_rel_def batch_rel_def)

lemma recv_command_ok:
  assumes "mid_piece a N m b (l, rb, h) s" "p_left s = 0" "p_hdr s = []"
  defines "k \<equiv> \<lambda>len. min m (unat len)"
  shows "rel_sum (=) (mid_piece a N (m - k len) b)
           (recv_command hc (int N) len l rb h)
           (rbind (open_command (hc a) (unat len) s)
              (\<lambda>s'. run_bytes (feed (hc a)) s' (peek b (N - m) (k len))))"
proof -
  have f: "stack_ok l" "hdr_len_left l = int TLV_SZ" "bytes_left l = int m" "recv_buf l = b"
      "m \<le> N" "N \<le> RECV_BUF" "bsize b = RECV_BUF"
    using assms(1,3) by (auto simp: mid_piece_def recv_rel_def stack_ok_def)
  have rel: "batch_rel a rb h s" using assms(1,2) by (auto simp: mid_piece_def recv_rel_batch)
  show ?thesis
  proof (cases "RecvBuffer_GetCmdSpace hc len rb h")
    case (Inl e)
    then show ?thesis
      using GetCmdSpace_opens_command [OF rel, of hc len] by (simp add: recv_command_def)
  next
    case (Inr r)
    obtain p rb' h' where r: "r = (p, rb', h')" by (metis surj_pair)
    show ?thesis
    proof (cases p)
      case None
      then show ?thesis
        using GetCmdSpace_opens_command [OF rel, of hc len]
        by (simp add: recv_command_def Inr r Let_def split: prod.split)
    next
      case (Some d)
      obtain s' where s': "open_command (hc a) (unat len) s = Inr (s'\<lparr>p_left := unat len\<rparr>)"
        and br: "batch_rel a (rb'\<lparr>r_mOffset := of_nat d\<rparr>) h' s'" "d = length (p_batch s')"
          "unat (r_mOffset rb') = d + unat len" "RB_inv rb'" "p_hdr s' = []"
        using GetCmdSpace_opens_command [OF rel, of hc len] assms(3) by (auto simp: Inr r Some)
      have lim: "d + unat len \<le> BUFFER_SIZE" using br(3,4) by (simp add: RB_inv_def)
      then have "unat len < 2 ^ 63" by (simp add: BUFFER_SIZE_def)
      then have sl: "sint len = int (unat len)" by (rule sint_small)
      have "(if int m \<ge> int u then (int u, False) else (int m, True)) = (int (min m u), \<not> u \<le> m)" for u
        by auto
      then have pr: "(if int m \<ge> sint len then (sint len, False) else (int m, True))
          = (int (k len), \<not> unat len \<le> m)"
        unfolding k_def sl .
      have kl: "k len \<le> m" "k len \<le> unat len" "k len < 2 ^ 64" "N - m < 2 ^ 64"
        using f(5,6) lim by (simp_all add: k_def RECV_BUF_def buffer_consts min_def)
      have "in_block b (N - m) (k len)" "in_block (r_mBuffer rb') d (k len)"
        using f kl lim br(4) by (auto simp: in_block_def RECV_BUF_def RB_inv_def buffer_consts)
      then have cp: "memcpy (r_mBuffer rb') d b (N - m) (k len)
          = Inr (poke (r_mBuffer rb') d (peek b (N - m) (k len)))"
        by (rule memcpy_in)
      have sz: "szt (int N - int m) = N - m" using f(5,6) by (simp add: RECV_BUF_def nat_diff_distrib)
      have res: "recv_command hc (int N) len l rb h =
        Inr (l\<lparr>recv_cmd := \<not> unat len \<le> m, cmd_buf := Some d, cmd_len := int (unat len),
               cmd_len_left := int (unat len - k len), bytes_left := int (m - k len)\<rparr>,
             rb'\<lparr>r_mBuffer := poke (r_mBuffer rb') d (peek b (N - m) (k len))\<rparr>, h')"
        using kl f cp sz
        unfolding recv_command_def Inr r Some rbind_Inr prod.case option.case Let_def f(3) pr
        by (simp add: sl)
      have par: "run_bytes (feed (hc a)) (s'\<lparr>p_left := unat len\<rparr>) (peek b (N - m) (k len)) =
        Inr (s'\<lparr>p_batch := p_batch s' @ peek b (N - m) (k len), p_left := unat len - k len\<rparr>)"
        using kl by (subst feed_payload) simp_all
      have pk: "peek (poke (r_mBuffer rb') d (peek b (N - m) (k len))) 0 (d + k len)
          = p_batch s' @ peek b (N - m) (k len)"
        using peek_poke_extend [of "r_mBuffer rb'" d "peek b (N - m) (k len)"] br
        by (simp add: batch_rel_def)
      show ?thesis
        unfolding res s' rbind_Inr par
        using f br pk kl assms(1)
        by (simp add: mid_piece_def recv_rel_def stack_ok_def batch_rel_def RB_inv_def TLV_SZ_def)
           (auto simp: k_def min_def)
    qed
  qed
qed

text \<open>The two kinds of pass that go on: some bytes are eaten, and the parser agrees on them.\<close>

definition eats :: "'h handler \<Rightarrow> addr \<Rightarrow> nat \<Rightarrow> nat \<Rightarrow> block \<Rightarrow>
    (recv_locals \<times> RecvBuffer \<times> 'h) result \<Rightarrow> 'h parser \<Rightarrow> bool" where
  "eats hc a N n b r s \<longleftrightarrow>
     (\<exists>m. 0 < m \<and> m \<le> n \<and>
        rel_sum (=) (mid_piece a N (n - m) b) r (run_bytes (feed (hc a)) s (peek b (N - n) m)))"

lemma recv_header_end_ok:
  assumes "mid_piece a N n b (l, rb, h) s" "\<not> recv_cmd l" "hdr_len_left l \<le> int n"
  shows "eats hc a N n b (recv_header_end hc (int N) l rb h) s"
proof -
  define hl where "hl = TLV_SZ - length (p_hdr s)"
  have f: "hdr_len_left l = int hl" "p_left s = 0" "bytes_left l = int n" "recv_buf l = b"
      "0 < hl" "hl \<le> n" "length (p_hdr s) + hl = TLV_SZ" "n \<le> N" "stack_ok l" "N \<le> RECV_BUF"
    using assms by (auto simp: mid_piece_def recv_rel_def hl_def)
  obtain c where c: "fill_header (int N) (int hl) l = Inr c" "bsize c = TLV_SZ"
      "peek c 0 TLV_SZ = p_hdr s @ peek b (N - n) hl"
    using fill_header_ok [OF assms(1) f(6)] f(7) by auto
  define bs where "bs = p_hdr s @ peek b (N - n) hl"
  define l' where "l' = l\<lparr>cmd := c, bytes_left := int (n - hl), hdr_len_left := int TLV_SZ\<rparr>"
  define s' where "s' = s\<lparr>p_hdr := []\<rparr>"
  have mid: "mid_piece a N (n - hl) b (l', rb, h) s'"
    using assms(1,2) c f
    by (auto simp: l'_def s'_def mid_piece_def recv_rel_def stack_ok_def TLV_SZ_def)
  have p0: "p_left s' = 0" using f(2) by (simp add: s'_def)
  have par: "run_bytes (feed (hc a)) s (peek b (N - n) (hl + k)) =
      rbind (header_done (hc a) bs s) (\<lambda>t. run_bytes (feed (hc a)) t (peek b (N - (n - hl)) k))" for k
  proof -
    have "peek b (N - n) hl \<noteq> []" using f(5) by (simp add: peek_def)
    moreover have "N - (n - hl) = N - n + hl" using f by simp
    ultimately show ?thesis
      using f feed_header_end [of s "peek b (N - n) hl" "hc a"]
      by (simp add: peek_append run_bytes_append bs_def)
  qed
  have eq: "recv_header_end hc (int N) l rb h =
      (if tlv_type (decode_tlv bs) = 2
       then rbind (RecvBuffer_Flush hc rb h) (\<lambda>(ignored, rb', h'). Inr (l', rb', h'))
       else recv_command hc (int N) (tlv_len (decode_tlv bs)) l' rb h)"
    using c(1,3) f(1,3,6) by (simp add: recv_header_end_def l'_def bs_def Let_def)
  show ?thesis
  proof (cases "tlv_type (decode_tlv bs) = 2")
    case True
    have "batch_rel a rb h s'" using mid by (auto simp: mid_piece_def s'_def f(2) intro: recv_rel_batch)
    from Flush_delivers [OF this, of hc]
    have "rel_sum (=) (mid_piece a N (n - hl) b) (recv_header_end hc (int N) l rb h)
        (header_done (hc a) bs s)"
      using True mid p0
      by (cases rule: rel_sum.cases)
         (auto simp: eq header_done_def s'_def [symmetric] mid_piece_def recv_rel_def batch_rel_def)
    then show ?thesis
      unfolding eats_def using f par [of 0] by (intro exI [of _ hl]) simp
  next
    case False
    let ?k = "min (n - hl) (unat (tlv_len (decode_tlv bs)))"
    have "rel_sum (=) (mid_piece a N (n - hl - ?k) b) (recv_header_end hc (int N) l rb h)
        (rbind (header_done (hc a) bs s) (\<lambda>t. run_bytes (feed (hc a)) t (peek b (N - (n - hl)) ?k)))"
      using recv_command_ok [OF mid, where hc = hc and len = "tlv_len (decode_tlv bs)"] False f(2)
      by (simp add: eq header_done_def s'_def)
    then show ?thesis
      unfolding eats_def using f par [of ?k] by (intro exI [of _ "hl + ?k"]) auto
  qed
qed

lemma recv_rest_ok:
  assumes "mid_piece a N n b (l, rb, h) s" "recv_cmd l" "0 < n"
  shows "eats hc a N n b (rbind (recv_rest (int N) l rb) (\<lambda>(l', rb'). Inr (l', rb', h))) s"
proof -
  define k where "k = min N (p_left s)"
  obtain d where f: "p_hdr s = []" "0 < p_left s" "cmd_len_left l = int (p_left s)" "bytes_left l = int N"
      "cmd_buf l = Some d" "int d + cmd_len l = int (length (p_batch s)) + int (p_left s)"
      "recv_buf l = b" "n = N" "N \<le> RECV_BUF" "bsize b = RECV_BUF" "RB_inv rb"
      "unat (r_mOffset rb) = length (p_batch s) + p_left s"
      "peek (r_mBuffer rb) 0 (length (p_batch s)) = p_batch s"
    using assms by (auto simp: mid_piece_def recv_rel_def stack_ok_def)
  have at: "int d + cmd_len l - int (p_left s) = int (length (p_batch s))" using f(6) by simp
  have pr: "(if int N \<ge> cmd_len_left l then (cmd_len_left l, False) else (int N, True))
      = (int k, \<not> p_left s \<le> N)"
    unfolding f(3) k_def by auto
  have kl: "0 < k" "k \<le> N" "k \<le> p_left s" "k < 2 ^ 64" "length (p_batch s) < 2 ^ 64"
    using f assms(3) by (simp_all add: k_def RECV_BUF_def RB_inv_def buffer_consts)
  have "in_block b 0 k" "in_block (r_mBuffer rb) (length (p_batch s)) k"
    using f kl by (auto simp: in_block_def RECV_BUF_def RB_inv_def buffer_consts)
  then have cp: "memcpy (r_mBuffer rb) (length (p_batch s)) b 0 k
      = Inr (poke (r_mBuffer rb) (length (p_batch s)) (peek b 0 k))"
    by (rule memcpy_in)
  have res: "recv_rest (int N) l rb =
      Inr (l\<lparr>recv_cmd := \<not> p_left s \<le> N, bytes_left := int (N - k), cmd_len_left := int (p_left s - k)\<rparr>,
        rb\<lparr>r_mBuffer := poke (r_mBuffer rb) (length (p_batch s)) (peek b 0 k)\<rparr>)"
    using kl cp unfolding recv_rest_def pr unfolding Let_def prod.case f(3,4,5,7) option.case at
    by simp
  have par: "run_bytes (feed (hc a)) s (peek b 0 k) =
      Inr (s\<lparr>p_batch := p_batch s @ peek b 0 k, p_left := p_left s - k\<rparr>)"
    using kl by (subst feed_payload) simp_all
  have pk: "peek (poke (r_mBuffer rb) (length (p_batch s)) (peek b 0 k)) 0 (length (p_batch s) + k)
      = p_batch s @ peek b 0 k"
    using peek_poke_extend [of "r_mBuffer rb" "length (p_batch s)" "peek b 0 k"] f by simp
  have "mid_piece a N (n - k) b
      (l\<lparr>recv_cmd := \<not> p_left s \<le> N, bytes_left := int (N - k), cmd_len_left := int (p_left s - k)\<rparr>,
        rb\<lparr>r_mBuffer := poke (r_mBuffer rb) (length (p_batch s)) (peek b 0 k)\<rparr>, h)
      (s\<lparr>p_batch := p_batch s @ peek b 0 k, p_left := p_left s - k\<rparr>)"
    using assms(1) f pk kl
    by (simp add: mid_piece_def recv_rel_def stack_ok_def RB_inv_def TLV_SZ_def) (auto simp: k_def min_def)
  then show ?thesis
    unfolding eats_def using kl f(8) by (intro exI [of _ k]) (simp add: res par)
qed

section \<open>The loops\<close>

text \<open>A pass that eats bytes and goes on: the rest of the piece is the induction hypothesis.\<close>

lemma go_on:
  assumes IH: "\<And>m l rb h s. m < n \<Longrightarrow> mid_piece a N m b (l, rb, h) s \<Longrightarrow>
      \<exists>r. recv_inner hc (int N) l rb h = Some r
        \<and> rel_sum (=) (recv_rel a) r (run_bytes (feed (hc a)) s (peek b (N - m) m))"
    and body: "recv_body hc (int N) l rb h = rbind r0 (\<lambda>c. Inr (Continue, c))"
    and eats: "eats hc a N n b r0 s"
    and left: "0 < bytes_left l" and le: "n \<le> N"
  shows "\<exists>r. recv_inner hc (int N) l rb h = Some r
           \<and> rel_sum (=) (recv_rel a) r (run_bytes (feed (hc a)) s (peek b (N - n) n))"
proof -
  obtain m where m: "0 < m" "m \<le> n" and
    rs: "rel_sum (=) (mid_piece a N (n - m) b) r0 (run_bytes (feed (hc a)) s (peek b (N - n) m))"
    using eats by (auto simp: eats_def)
  have "peek b (N - n) n = peek b (N - n) m @ peek b (N - (n - m)) (n - m)"
    using peek_append [of b "N - n" m "n - m"] m le by simp
  then have sp: "run_bytes (feed (hc a)) s (peek b (N - n) n) =
      rbind (run_bytes (feed (hc a)) s (peek b (N - n) m))
        (\<lambda>t. run_bytes (feed (hc a)) t (peek b (N - (n - m)) (n - m)))"
    by (simp add: run_bytes_append)
  from rs show ?thesis
  proof (cases rule: rel_sum.cases)
    case (1 f g)
    with left show ?thesis by (simp add: recv_inner.simps [of hc _ l] body sp)
  next
    case (2 c t)
    obtain l' rb' h' where c: "c = (l', rb', h')" by (metis surj_pair)
    have "n - m < n" using m by simp
    from IH [OF this 2(3) [unfolded c]] show ?thesis
      using left 2 by (simp add: recv_inner.simps [of hc _ l] body sp c)
  qed
qed

lemma recv_inner_implements:
  assumes "mid_piece a N n b (l, rb, h) s"
  shows "\<exists>r. recv_inner hc (int N) l rb h = Some r
           \<and> rel_sum (=) (recv_rel a) r (run_bytes (feed (hc a)) s (peek b (N - n) n))"
  using assms
proof (induction n arbitrary: l rb h s rule: less_induct)
  case (less n)
  have left: "bytes_left l = int n" and rel: "recv_rel a (l, rb, h) s"
    using less.prems by (simp_all add: mid_piece_def)
  consider (none) "n = 0" | (part) "0 < n" "\<not> recv_cmd l" "int n < hdr_len_left l"
    | (header) "0 < n" "\<not> recv_cmd l" "hdr_len_left l \<le> int n" | (rest) "0 < n" "recv_cmd l"
    by linarith
  then show ?case
  proof cases
    case none
    with left rel show ?thesis by (simp add: recv_inner.simps [of hc _ l])
  next
    case part
    then show ?thesis
      using recv_header_part_ok [OF less.prems part(2,3), of "hc a"] left
      by (auto simp: recv_inner.simps [of hc _ l] recv_body_def)
  next
    case header
    have body: "recv_body hc (int N) l rb h =
        rbind (recv_header_end hc (int N) l rb h) (\<lambda>c. Inr (Continue, c))"
      using header left by (simp add: recv_body_def case_prod_unfold)
    show ?thesis
      by (rule go_on [OF _ body recv_header_end_ok [OF less.prems header(2,3)]], erule (1) less.IH)
         (use header left less.prems in \<open>simp_all add: mid_piece_def\<close>)
  next
    case rest
    have body: "recv_body hc (int N) l rb h =
        rbind (rbind (recv_rest (int N) l rb) (\<lambda>(l', rb'). Inr (l', rb', h))) (\<lambda>c. Inr (Continue, c))"
      using rest by (simp add: recv_body_def case_prod_unfold rbind_assoc)
    show ?thesis
      by (rule go_on [OF _ body recv_rest_ok [OF less.prems rest(2,1)]], erule (1) less.IH)
         (use rest left less.prems in \<open>simp_all add: mid_piece_def\<close>)
  qed
qed

lemma recv_piece_implements:
  assumes "recv_rel a c s" "0 < length bs" "length bs \<le> RECV_BUF"
  shows "\<exists>r. recv_piece hc c bs = Some r \<and> rel_sum (=) (recv_rel a) r (run_bytes (feed (hc a)) s bs)"
proof -
  obtain l rb h where c: "c = (l, rb, h)" by (metis surj_pair)
  let ?b = "poke (recv_buf l) 0 bs"
  let ?l = "l\<lparr>recv_buf := ?b, bytes_left := int (length bs)\<rparr>"
  have "in_block (recv_buf l) 0 (length bs)"
    using assms by (simp add: c recv_rel_def stack_ok_def in_block_def RECV_BUF_def PTRDIFF_MAX_def)
  then have st: "store_bytes (recv_buf l) 0 bs = Inr ?b" by (rule store_bytes_in)
  have "mid_piece a (length bs) (length bs) ?b (?l, rb, h) s"
    using assms by (simp add: c mid_piece_def recv_rel_def stack_ok_def)
  from recv_inner_implements [OF this, of hc] show ?thesis
    by (simp add: recv_piece_def c st peek_poke_same)
qed

interpretation recv: piecewise "feed (hc a)" "recv_piece hc" "recv_rel a" RECV_BUF for hc a
  by unfold_locales (rule recv_piece_implements)

lemma recv_rel_start:
  "stack_ok stack \<Longrightarrow>
   recv_rel a (recv_entry stack, RecvBuffer_SetHandler a (new_RecvBuffer junk), h) (parser_start h)"
  by (simp add: recv_rel_def stack_ok_def recv_entry_def parser_start_def RecvBuffer_SetHandler_def
      new_RecvBuffer_def RB_inv_def TLV_SZ_def)

lemma recv_outer_pieces:
  "(\<And>p. p \<in> set ps \<Longrightarrow> 0 < length p) \<Longrightarrow>
   recv_outer hc (map Delivers ps @ es) c =
     (case run_pieces (recv_piece hc) c ps of
        None \<Rightarrow> Spins
      | Some (Inl f) \<Rightarrow> Undefined f
      | Some (Inr c') \<Rightarrow> recv_outer hc es c')"
proof (induction ps arbitrary: c)
  case (Cons p ps)
  have "p \<noteq> []" using Cons.prems [of p] by auto
  then show ?case
    using Cons by (auto split: option.split sum.split)
qed simp

section \<open>Properties\<close>

text \<open>What the operating system can deliver in one \<open>recv\<close> that is not the end of the stream.\<close>

definition pieces_ok :: "byte list list \<Rightarrow> bool" where
  "pieces_ok ps \<longleftrightarrow> (\<forall>p \<in> set ps. 0 < length p \<and> length p \<le> 65536)"

definition fresh_receiver :: "addr \<Rightarrow> (nat \<Rightarrow> byte) \<Rightarrow> RecvBuffer" where
  "fresh_receiver a junk = RecvBuffer_SetHandler a (new_RecvBuffer junk)"

text \<open>The observable result of a run: the handler's state, or the fault.\<close>

fun handler_view :: "'h recv_outcome \<Rightarrow> 'h result option" where
  "handler_view (Blocked c) = Some (Inr (snd (snd c)))"
| "handler_view (Returns e c) = Some (Inr (snd (snd c)))"
| "handler_view (Undefined f) = Some (Inl f)"
| "handler_view Spins = None"

lemma Recv_pieces:
  assumes "stack_ok stack" "pieces_ok ps"
  shows "case run_bytes (feed (hc a)) (parser_start h) (concat ps) of
      Inl f \<Rightarrow> CommandTransport_Recv hc (map Delivers ps @ es) stack (fresh_receiver a junk) h = Undefined f
    | Inr s \<Rightarrow> \<exists>c. CommandTransport_Recv hc (map Delivers ps @ es) stack (fresh_receiver a junk) h
                   = recv_outer hc es c \<and> recv_rel a c s"
proof -
  let ?c = "(recv_entry stack, fresh_receiver a junk, h)"
  have ok: "\<And>p. p \<in> set ps \<Longrightarrow> 0 < length p \<and> length p \<le> RECV_BUF"
    using assms(2) by (simp add: pieces_ok_def RECV_BUF_def)
  have "recv_rel a ?c (parser_start h)"
    unfolding fresh_receiver_def by (rule recv_rel_start [OF assms(1)])
  from recv.pieces_implement [OF this, of ps hc] ok obtain r
    where r: "run_pieces (recv_piece hc) ?c ps = Some r"
      and rs: "rel_sum (=) (recv_rel a) r (run_bytes (feed (hc a)) (parser_start h) (concat ps))"
    by metis
  have "CommandTransport_Recv hc (map Delivers ps @ es) stack (fresh_receiver a junk) h =
      (case r of Inl f \<Rightarrow> Undefined f | Inr c' \<Rightarrow> recv_outer hc es c')"
    using recv_outer_pieces [of ps hc es ?c, OF conjunct1 [OF ok]] by (simp add: CommandTransport_Recv_def r)
  with rs show ?thesis by (cases r; cases "run_bytes (feed (hc a)) (parser_start h) (concat ps)") auto
qed

lemma Recv_accepted:
  assumes "stack_ok stack" "pieces_ok ps"
    and "run_bytes (feed (hc a)) (parser_start h) (concat ps) = Inr s"
  shows "\<exists>c. CommandTransport_Recv hc (map Delivers ps @ es) stack (fresh_receiver a junk) h
               = recv_outer hc es c \<and> recv_rel a c s"
  using Recv_pieces [OF assms(1,2), where hc = hc and a = a and h = h and es = es and junk = junk] assms(3) by simp

lemma recv_rel_state: "recv_rel a c s \<Longrightarrow> snd (snd c) = p_state s"
  by (auto simp: recv_rel_def)

lemma Recv_parser_view:
  assumes "stack_ok stack" "pieces_ok ps"
  shows "handler_view (CommandTransport_Recv hc (map Delivers ps) stack (fresh_receiver a junk) h)
       = Some (map_sum id p_state (run_bytes (feed (hc a)) (parser_start h) (concat ps)))"
  using Recv_pieces [OF assms, where hc = hc and a = a and h = h and es = "[]" and junk = junk]
  by (auto split: sum.splits dest: recv_rel_state)

text \<open>
  C5: \<open>Recv\<close> implements the byte parser. For every way the kernel cuts a stream into pieces, every
  content of the uninitialised stack and buffer and every handler: if the parser accepts the
  stream then the thread is blocked in \<open>recv\<close> again, in a state that represents the parser's
  state (handler state, batch and missing bytes alike); if the parser faults, so does \<open>Recv\<close>.
\<close>

theorem Recv_implements_parser:
  assumes "stack_ok stack" "pieces_ok ps"
  shows "case run_bytes (feed (hc a)) (parser_start h) (concat ps) of
      Inl f \<Rightarrow> CommandTransport_Recv hc (map Delivers ps) stack (fresh_receiver a junk) h = Undefined f
    | Inr s \<Rightarrow> \<exists>c. CommandTransport_Recv hc (map Delivers ps) stack (fresh_receiver a junk) h = Blocked c
                 \<and> recv_rel a c s"
  using Recv_pieces [OF assms, where hc = hc and a = a and h = h and es = "[]" and junk = junk]
  by (simp split: sum.splits)

text \<open>
  Fragmentation does not matter. Two receive threads that see the same stream, cut into
  different pieces, drive their handlers to the same state, or fault alike.
\<close>

theorem Recv_fragmentation_independent:
  assumes "stack_ok stack" "stack_ok stack'" "pieces_ok ps" "pieces_ok qs" "concat ps = concat qs"
  shows "handler_view (CommandTransport_Recv hc (map Delivers ps) stack (fresh_receiver a junk) h)
       = handler_view (CommandTransport_Recv hc (map Delivers qs) stack' (fresh_receiver a junk') h)"
  using Recv_parser_view [OF assms(1,3)] Recv_parser_view [OF assms(2,4)] assms(5) by metis

text \<open>
  Events after which the thread is still in its loop, and the stream they carry. A \<open>recv\<close> of the
  kernel never delivers more than it was asked for.
\<close>

fun goes_on :: "recv_event \<Rightarrow> bool" where
  "goes_on (Delivers bs) \<longleftrightarrow> 0 < length bs \<and> length bs \<le> 65536"
| "goes_on (RecvFails e) \<longleftrightarrow> e = EAGAIN"

fun event_fits :: "recv_event \<Rightarrow> bool" where
  "event_fits (Delivers bs) \<longleftrightarrow> length bs \<le> 65536"
| "event_fits (RecvFails e) \<longleftrightarrow> True"

fun event_bytes :: "recv_event \<Rightarrow> byte list" where
  "event_bytes (Delivers bs) = bs"
| "event_bytes (RecvFails e) = []"

definition stream_of :: "recv_event list \<Rightarrow> byte list" where
  "stream_of es = concat (map event_bytes es)"

lemma recv_outer_never_spins:
  "recv_rel a c s \<Longrightarrow> \<forall>e \<in> set es. event_fits e \<Longrightarrow> recv_outer hc es c \<noteq> Spins"
proof (induction es arbitrary: c s)
  case (Cons e es)
  show ?case
  proof (cases e)
    case (Delivers bs)
    show ?thesis
    proof (cases "bs = []")
      case True
      with Delivers show ?thesis by simp
    next
      case False
      then obtain r where r: "recv_piece hc c bs = Some r"
        and rel: "rel_sum (=) (recv_rel a) r (run_bytes (feed (hc a)) s bs)"
        using recv_piece_implements [OF Cons.prems(1), of bs hc] Cons.prems(2) Delivers
        by (auto simp: RECV_BUF_def)
      show ?thesis
        using False Delivers r rel Cons.IH Cons.prems(2)
        by (auto elim!: rel_sum.cases)
    qed
  next
    case (RecvFails x)
    with Cons show ?thesis by auto
  qed
qed simp

lemma recv_outer_goes_on:
  "recv_rel a c s \<Longrightarrow> \<forall>e \<in> set es. goes_on e \<Longrightarrow>
   run_bytes (feed (hc a)) s (stream_of es) = Inr s' \<Longrightarrow>
   \<exists>c'. recv_rel a c' s' \<and> (\<forall>es'. recv_outer hc (es @ es') c = recv_outer hc es' c')"
proof (induction es arbitrary: c s)
  case Nil
  then have "recv_rel a c s'" by (simp add: stream_of_def)
  then show ?case by (intro exI [of _ c]) simp
next
  case (Cons e es)
  show ?case
  proof (cases e)
    case (Delivers bs)
    have ok: "0 < length bs" "length bs \<le> RECV_BUF"
      using Cons.prems(2) Delivers by (simp_all add: RECV_BUF_def)
    obtain s1 where s1: "run_bytes (feed (hc a)) s bs = Inr s1"
        "run_bytes (feed (hc a)) s1 (stream_of es) = Inr s'"
      using Cons.prems(3) Delivers by (auto simp: stream_of_def run_bytes_append elim!: rbind_eq_InrE)
    obtain c1 where "recv_piece hc c bs = Some (Inr c1)" "recv_rel a c1 s1"
      using recv_piece_implements [OF Cons.prems(1) ok, of hc] s1(1)
      by (auto elim!: rel_sum.cases)
    with Cons.IH [OF this(2) _ s1(2)] Cons.prems(2) Delivers ok show ?thesis by auto
  next
    case (RecvFails x)
    with Cons show ?thesis by (auto simp: stream_of_def)
  qed
qed

lemma recv_rel_fresh:
  "stack_ok stack \<Longrightarrow> recv_rel a (recv_entry stack, fresh_receiver a junk, h) (parser_start h)"
  unfolding fresh_receiver_def by (rule recv_rel_start)

text \<open>
  C13: \<open>Recv\<close> never hangs in its inner loop: whatever bytes arrive in whatever pieces and whatever
  the handler does, every piece is consumed in finitely many iterations.
\<close>

theorem Recv_never_spins:
  assumes "stack_ok stack" "\<forall>e \<in> set es. event_fits e"
  shows "CommandTransport_Recv hc es stack (fresh_receiver a junk) h \<noteq> Spins"
  using recv_outer_never_spins [OF recv_rel_fresh [OF assms(1)] assms(2)]
  by (simp add: CommandTransport_Recv_def)

text \<open>
  C14: How \<open>Recv\<close> ends. After any sequence of pieces and \<open>EAGAIN\<close>s whose stream the parser accepts
  it is blocked in the state that represents the parser's, with the handler called exactly for
  what the parser has delivered; from there the end of the stream makes it return 0 and any
  other error makes it return \<open>-errno\<close>, in that same state: ending calls the handler no more.
\<close>

theorem Recv_ends:
  assumes "stack_ok stack" "\<forall>e \<in> set es. goes_on e"
    and "run_bytes (feed (hc a)) (parser_start h) (stream_of es) = Inr s"
  shows "\<exists>c. recv_rel a c s \<and> snd (snd c) = p_state s
    \<and> CommandTransport_Recv hc es stack (fresh_receiver a junk) h = Blocked c
    \<and> CommandTransport_Recv hc (es @ [Delivers []]) stack (fresh_receiver a junk) h = Returns 0 c
    \<and> (\<forall>e. e \<noteq> 11 \<longrightarrow>
        CommandTransport_Recv hc (es @ [RecvFails e]) stack (fresh_receiver a junk) h = Returns (- e) c)"
proof -
  obtain c where rel: "recv_rel a c s"
    and run: "\<And>es'. recv_outer hc (es @ es') (recv_entry stack, fresh_receiver a junk, h) = recv_outer hc es' c"
    using recv_outer_goes_on [where hc = hc, OF recv_rel_fresh [OF assms(1), of a junk h] assms(2,3)]
    by metis
  show ?thesis
    using rel recv_rel_state [OF rel] run [of "[]"] run [of "[Delivers []]"] run [of "[RecvFails e]" for e]
    by (intro exI [of _ c]) (simp add: CommandTransport_Recv_def EAGAIN_def EWOULDBLOCK_def)
qed

text \<open>
  C16: The result of \<open>GetCmdSpace\<close> is not checked in \<open>Recv\<close>: at a command boundary, the 12 bytes of
  a header with a length above the size of the buffer (in any pieces, after any accepted
  stream) make the thread copy through a null pointer.
\<close>

theorem Recv_oversize_header_null:
  assumes "stack_ok stack" "pieces_ok ps" "pieces_ok qs"
    and "run_bytes (feed (hc a)) (parser_start h) (concat ps) = Inr s" "p_hdr s = []" "p_left s = 0"
    and "concat qs = encode_tlv hdr" "tlv_type hdr \<noteq> 2" "2000000 < unat (tlv_len hdr)"
  shows "CommandTransport_Recv hc (map Delivers (ps @ qs)) stack (fresh_receiver a junk) h
           = Undefined NullPointer"
proof -
  have "run_bytes (feed (hc a)) s (encode_tlv hdr) = header_done (hc a) (encode_tlv hdr) s"
    using assms(5,6) feed_header_end [of s "encode_tlv hdr" "hc a"]
    by (simp add: TLV_SZ_def flip: length_greater_0_conv)
  also have "\<dots> = Inl NullPointer"
    using assms(8,9) by (simp add: header_done_def tlv.dec_enc open_command_def BUFFER_SIZE_def)
  finally have "run_bytes (feed (hc a)) (parser_start h) (concat (ps @ qs)) = Inl NullPointer"
    by (simp add: run_bytes_append assms(4,7))
  moreover have "pieces_ok (ps @ qs)"
    using assms(2,3) by (auto simp: pieces_ok_def)
  ultimately show ?thesis
    using Recv_pieces [OF assms(1), of "ps @ qs", where hc = hc and a = a and h = h and es = "[]" and junk = junk] by simp
qed

section \<open>Witnesses\<close>

text \<open>A handler that keeps what it was given, and a stream of one command and the end of its batch.\<close>

definition demo_handler :: "byte list list handler" where
  "demo_handler a bs h = Inr (True, h @ [bs])"

definition demo_stack :: recv_locals where
  "demo_stack = \<lparr>recv_buf = \<lparr>bsize = 65536, bdata = (\<lambda>_. 7)\<rparr>, recv_cmd = True,
     cmd = \<lparr>bsize = 12, bdata = (\<lambda>_. 9)\<rparr>, cmd_len = - 5, cmd_len_left = 4, hdr_len_left = 3,
     cmd_buf = None, bytes_left = 8\<rparr>"

definition demo_stream :: "byte list" where
  "demo_stream = [1,0,0,0, 3,0,0,0,0,0,0,0, 65,66,67, 2,0,0,0, 0,0,0,0,0,0,0,0]"

lemma stack_ok_demo [simp]: "stack_ok demo_stack"
  by (simp add: stack_ok_def demo_stack_def RECV_BUF_def TLV_SZ_def)

lemma demo_parse:
  "run_bytes (feed (demo_handler a)) (parser_start []) demo_stream = Inr (parser_start [[65, 66, 67]])"
  by (simp add: demo_stream_def feed_def parser_start_def header_done_def decode_tlv_def TLV_SZ_def
      open_command_def deliver_def demo_handler_def BUFFER_SIZE_def)

lemma Recv_implements_parser_witness:
  "\<exists>c. CommandTransport_Recv demo_handler (map Delivers [take 5 demo_stream, drop 5 demo_stream]) demo_stack
         (fresh_receiver 1 (\<lambda>_. 0)) [] = Blocked c
     \<and> recv_rel 1 c (parser_start [[65, 66, 67]])"
  using Recv_implements_parser [of demo_stack "[take 5 demo_stream, drop 5 demo_stream]" demo_handler 1
      "\<lambda>_. 0" "[]"] demo_parse [of 1]
  by (simp add: pieces_ok_def demo_stream_def)

lemma Recv_fragmentation_independent_witness:
  "handler_view (CommandTransport_Recv demo_handler (map Delivers [demo_stream]) demo_stack (fresh_receiver 1 (\<lambda>_. 0)) [])
   = handler_view (CommandTransport_Recv demo_handler (map Delivers (map (\<lambda>b. [b]) demo_stream)) demo_stack
       (fresh_receiver 1 (\<lambda>_. 5)) [])"
  by (rule Recv_fragmentation_independent) (simp_all add: pieces_ok_def demo_stream_def)

lemma Recv_never_spins_witness:
  "CommandTransport_Recv demo_handler [Delivers demo_stream, RecvFails 11, Delivers [9]] demo_stack
     (fresh_receiver 1 (\<lambda>_. 0)) [] \<noteq> Spins"
  by (rule Recv_never_spins) (simp_all add: demo_stream_def)

lemma Recv_ends_witness:
  "\<exists>c. recv_rel 1 c (parser_start [[65, 66, 67]])
     \<and> CommandTransport_Recv demo_handler [RecvFails 11, Delivers demo_stream, RecvFails 104] demo_stack
          (fresh_receiver 1 (\<lambda>_. 0)) [] = Returns (- 104) c"
proof -
  have "\<forall>e \<in> set [RecvFails 11, Delivers demo_stream]. goes_on e"
    by (simp add: demo_stream_def EAGAIN_def)
  from Recv_ends [OF stack_ok_demo this, where hc = demo_handler and a = 1 and h = "[]" and
      s = "parser_start [[65, 66, 67]]" and junk = "\<lambda>_. 0"]
  show ?thesis using demo_parse [of 1] by (auto simp: stream_of_def)
qed

lemma Recv_oversize_header_null_witness:
  "CommandTransport_Recv demo_handler (map Delivers ([demo_stream] @ [encode_tlv \<lparr>tlv_type = 1, tlv_len = 2000001\<rparr>]))
     demo_stack (fresh_receiver 1 (\<lambda>_. 0)) [] = Undefined NullPointer"
  by (rule Recv_oversize_header_null [of _ _ _ _ _ _ "parser_start [[65, 66, 67]]"])
     (simp_all add: pieces_ok_def demo_parse, simp_all add: demo_stream_def parser_start_def)

end
