(* ===== verification/Wire_Link.thy ===== *)
theory Wire_Link
  imports Receiver_Refinement
begin

text \<open>
  Both ends of a connection together: a \<open>SendBuffer\<close> on one side, \<open>Recv\<close> with a \<open>RecvBuffer\<close> on
  the other. The sender is refined to an abstract queue of batches; the bytes it puts on the
  connection are parsed back by the receiver, so that the handler sees exactly those batches,
  in order, however the kernel cuts the stream.
\<close>

section \<open>The sender as a queue of batches\<close>

text \<open>What Dawn's wire code does with a serializer: put a command, or flush.\<close>

datatype wire_op = Put "byte list" | Flush_op

definition wire_step :: "wire_op \<Rightarrow> SendBuffer \<Rightarrow> world \<Rightarrow> (bool \<times> SendBuffer \<times> world) result" where
  "wire_step q sb w = (case q of Put bs \<Rightarrow> put_command bs sb w | Flush_op \<Rightarrow> SendBuffer_Flush sb w)"

fun wire_run :: "wire_op list \<Rightarrow> SendBuffer \<Rightarrow> world \<Rightarrow> (bool list \<times> SendBuffer \<times> world) result" where
  "wire_run [] sb w = Inr ([], sb, w)"
| "wire_run (q # qs) sb w =
     rbind (wire_step q sb w) (\<lambda>(ok, sb', w').
       rbind (wire_run qs sb' w') (\<lambda>(oks, sb'', w''). Inr (ok # oks, sb'', w'')))"

lemma wire_run_append:
  "wire_run (os @ ps) sb w = rbind (wire_run os sb w) (\<lambda>(oks, sb', w').
     rbind (wire_run ps sb' w') (\<lambda>(oks', sb'', w''). Inr (oks @ oks', sb'', w'')))"
  by (induction os arbitrary: sb w) (simp_all add: rbind_assoc case_prod_unfold)

text \<open>
  The specification: the batches already sent, the commands of the open batch. A command that
  does not fit into the open batch closes it first; one above the maximum is refused.
\<close>

record sender =
  q_sent :: "byte list list list"
  q_open :: "byte list list"

definition queue_flush :: "sender \<Rightarrow> sender" where
  "queue_flush q = (if q_open q = [] then q else \<lparr>q_sent = q_sent q @ [q_open q], q_open = []\<rparr>)"

fun queue_step :: "wire_op \<Rightarrow> sender \<Rightarrow> bool \<times> sender" where
  "queue_step (Put bs) q =
     (if 1999976 < length bs then (False, q)
      else let q' = (if 2000000 < length (frames (q_open q)) + length bs + 24 then queue_flush q else q)
           in (True, q'\<lparr>q_open := q_open q' @ [bs]\<rparr>))"
| "queue_step Flush_op q = (True, queue_flush q)"

fun queue_run :: "wire_op list \<Rightarrow> sender \<Rightarrow> bool list \<times> sender" where
  "queue_run [] q = ([], q)"
| "queue_run (o1 # os) q =
     (case queue_step o1 q of (ok, q') \<Rightarrow> case queue_run os q' of (oks, q'') \<Rightarrow> (ok # oks, q''))"

definition queue_start :: sender where
  "queue_start = \<lparr>q_sent = [], q_open = []\<rparr>"

text \<open>No C++ object has a size that makes the checks of \<open>GetCmdSpace\<close> wrap.\<close>

fun op_ok :: "wire_op \<Rightarrow> bool" where
  "op_ok (Put bs) \<longleftrightarrow> length bs \<le> PTRDIFF_MAX"
| "op_ok Flush_op \<longleftrightarrow> True"

definition batch_ok :: "byte list list \<Rightarrow> bool" where
  "batch_ok ps \<longleftrightarrow> ps \<noteq> [] \<and> length (frames ps) + 12 \<le> 2000000"

definition stream_bytes :: "byte list list list \<Rightarrow> byte list" where
  "stream_bytes bs = concat (map batch_bytes bs)"

lemma stream_bytes_simps [simp]:
  "stream_bytes [] = []" "stream_bytes (b # bs) = batch_bytes b @ stream_bytes bs"
  "stream_bytes (bs @ cs) = stream_bytes bs @ stream_bytes cs"
  by (simp_all add: stream_bytes_def)

definition sender_rel :: "int \<Rightarrow> byte list \<Rightarrow> SendBuffer \<times> world \<Rightarrow> sender \<Rightarrow> bool" where
  "sender_rel fd before c q \<longleftrightarrow> (case c of (sb, w) \<Rightarrow>
     holds sb (q_open q) \<and> connected sb fd w \<and> tx w fd = before @ stream_bytes (q_sent q)
     \<and> (\<forall>b \<in> set (q_sent q). batch_ok b))"

lemma sender_flush:
  assumes "sender_rel fd before (sb, w) q"
  shows "\<exists>sb' w'. SendBuffer_Flush sb w = Inr (True, sb', w') \<and> sender_rel fd before (sb', w') (queue_flush q)"
proof (cases "q_open q = []")
  case True
  then have "s_mOffset sb = 0"
    using assms by (simp add: sender_rel_def holds_def unat_eq_0)
  with True assms show ?thesis by (simp add: queue_flush_def)
next
  case False
  have h: "holds sb (q_open q)" and c: "connected sb fd w" using assms by (simp_all add: sender_rel_def)
  obtain sb' where sb': "SendBuffer_Flush sb w = Inr (True, sb', flushed fd (batch_bytes (q_open q)) w)"
      "holds sb' []" "s_mTransport sb' = s_mTransport sb"
    using Flush_batch [OF h False c] by blast
  then have "connected sb' fd (flushed fd (batch_bytes (q_open q)) w)"
    using c connected_transport [OF sb'(3)] by simp
  with False assms sb' show ?thesis
    using holds_room [OF h]
    by (simp add: queue_flush_def sender_rel_def batch_ok_def BUFFER_SIZE_def)
qed

lemma put_command_too_large:
  assumes "1999976 < length bs" "length bs \<le> PTRDIFF_MAX"
  shows "put_command bs sb w = Inr (False, sb, w)"
proof -
  have "unat (of_nat (length bs) :: size_t) = length bs"
    using assms(2) by (intro unat_of_nat_size) (simp add: PTRDIFF_MAX_def)
  then have "SendBuffer_GetCmdSpace (of_nat (length bs)) sb w = Inr (None, sb, w)"
    using assms by (intro GetCmdSpace_too_large) (simp_all add: BUFFER_SIZE_def PTRDIFF_MAX_def)
  then show ?thesis by (simp add: put_command_def)
qed

lemma sender_put_fits:
  assumes "sender_rel fd before (sb, w) q" "length (frames (q_open q)) + length bs + 24 \<le> 2000000"
  shows "\<exists>sb'. put_command bs sb w = Inr (True, sb', w)
           \<and> sender_rel fd before (sb', w) (q\<lparr>q_open := q_open q @ [bs]\<rparr>)"
proof -
  obtain sb' where "put_command bs sb w = Inr (True, sb', w)" "holds sb' (q_open q @ [bs])"
      "s_mTransport sb' = s_mTransport sb"
    using put_command_fits [of sb "q_open q" bs w] assms by (auto simp: sender_rel_def BUFFER_SIZE_def)
  with assms(1) connected_transport [of sb' sb fd w] show ?thesis
    by (simp add: sender_rel_def)
qed

lemma sender_step:
  assumes "sender_rel fd before (sb, w) q" "op_ok o1"
  shows "\<exists>sb' w'. wire_step o1 sb w = Inr (fst (queue_step o1 q), sb', w')
           \<and> sender_rel fd before (sb', w') (snd (queue_step o1 q))"
proof (cases o1)
  case Flush_op
  with sender_flush [OF assms(1)] show ?thesis by (auto simp: wire_step_def)
next
  case (Put bs)
  consider (large) "1999976 < length bs"
    | (fits) "length (frames (q_open q)) + length bs + 24 \<le> 2000000"
    | (full) "length bs \<le> 1999976" "2000000 < length (frames (q_open q)) + length bs + 24"
    by linarith
  then show ?thesis
  proof cases
    case large
    with assms Put show ?thesis by (auto simp: wire_step_def put_command_too_large)
  next
    case fits
    with sender_put_fits [OF assms(1) fits] Put show ?thesis by (simp add: wire_step_def) blast
  next
    case full
    then have ne: "q_open q \<noteq> []" by auto
    obtain sb1 w1 where fl: "SendBuffer_Flush sb w = Inr (True, sb1, w1)"
        and r1: "sender_rel fd before (sb1, w1) (queue_flush q)"
      using sender_flush [OF assms(1)] by blast
    have "put_command bs sb w = put_command bs sb1 w1"
      using assms(1) full by (intro put_command_no_room [OF _ _ _ fl]) (auto simp: sender_rel_def BUFFER_SIZE_def)
    moreover have "q_open (queue_flush q) = []" using ne by (simp add: queue_flush_def)
    ultimately show ?thesis
      using sender_put_fits [OF r1, of bs] full Put by (auto simp: wire_step_def Let_def)
  qed
qed

lemma sender_run:
  "sender_rel fd before (sb, w) q \<Longrightarrow> \<forall>p \<in> set os. op_ok p \<Longrightarrow>
   \<exists>sb' w'. wire_run os sb w = Inr (fst (queue_run os q), sb', w')
     \<and> sender_rel fd before (sb', w') (snd (queue_run os q))"
proof (induction os arbitrary: sb w q)
  case (Cons p os)
  obtain ok q1 where q1: "queue_step p q = (ok, q1)" by fastforce
  then obtain sb1 w1 where s: "wire_step p sb w = Inr (ok, sb1, w1)" "sender_rel fd before (sb1, w1) q1"
    using sender_step [OF Cons.prems(1), of p] Cons.prems(2) by auto
  obtain sb2 w2 where "wire_run os sb1 w1 = Inr (fst (queue_run os q1), sb2, w2)"
      "sender_rel fd before (sb2, w2) (snd (queue_run os q1))"
    using Cons.IH [OF s(2)] Cons.prems(2) by auto
  with s q1 show ?case by (simp add: case_prod_unfold)
qed simp

section \<open>The receiver on a stream of batches\<close>

text \<open>The reference for the receiving side: one call of the handler per batch, in order.\<close>

fun handle_all :: "'h consumer \<Rightarrow> byte list list \<Rightarrow> 'h \<Rightarrow> 'h result" where
  "handle_all ha [] h = Inr h"
| "handle_all ha (b # bs) h = rbind (ha b h) (\<lambda>(ok, h'). handle_all ha bs h')"

definition between :: "'h parser \<Rightarrow> bool" where
  "between s \<longleftrightarrow> p_hdr s = [] \<and> p_left s = 0"

lemma p_state_start [simp]: "p_state (parser_start h) = h"
  by (simp add: parser_start_def)

lemma feed_header:
  "between s \<Longrightarrow> run_bytes (feed ha) s (encode_tlv c) = header_done ha (encode_tlv c) s"
  using feed_header_end [of s "encode_tlv c" ha]
  by (simp add: between_def TLV_SZ_def flip: length_greater_0_conv)

lemma no_header_bytes: "p_hdr s = [] \<Longrightarrow> s\<lparr>p_hdr := []\<rparr> = s"
  by (cases s) simp

lemma feed_flush_mark:
  "between s \<Longrightarrow> run_bytes (feed ha) s flush_mark = rbind (deliver ha s) (\<lambda>(ok, s'). Inr s')"
  by (simp add: flush_mark_def feed_header header_done_def tlv.dec_enc between_def no_header_bytes)

lemma feed_frame_header:
  assumes "between s" "length (p_batch s) + length bs \<le> 2000000"
  shows "run_bytes (feed ha) s (encode_tlv \<lparr>tlv_type = 1, tlv_len = of_nat (length bs)\<rparr>)
       = Inr (s\<lparr>p_left := length bs\<rparr>)"
proof -
  have "unat (of_nat (length bs) :: size_t) = length bs"
    using assms(2) by (intro unat_of_nat_size) simp
  with assms show ?thesis
    by (simp add: feed_header header_done_def tlv.dec_enc open_command_def BUFFER_SIZE_def between_def)
qed

lemma feed_frame:
  assumes "between s" "length (p_batch s) + length bs \<le> 2000000"
  shows "run_bytes (feed ha) s (frame bs) = Inr (s\<lparr>p_batch := p_batch s @ bs\<rparr>)"
  using assms by (simp add: frame_def run_bytes_append feed_frame_header feed_payload between_def)

lemma frames_Cons: "frames (b # bs) = frame b @ frames bs"
  by (simp add: frames_def)

lemma feed_frames:
  "between s \<Longrightarrow> length (p_batch s) + length (concat ps) \<le> 2000000 \<Longrightarrow>
   run_bytes (feed ha) s (frames ps) = Inr (s\<lparr>p_batch := p_batch s @ concat ps\<rparr>)"
  by (induction ps arbitrary: s) (simp_all add: frames_Cons run_bytes_append feed_frame between_def)

lemma payload_length: "length (concat ps) \<le> length (frames ps)"
  by (induction ps) (simp_all add: frames_Cons)

lemma feed_batch:
  assumes "batch_ok ps"
  shows "run_bytes (feed ha) (parser_start h) (batch_bytes ps)
       = rbind (ha (concat ps) h) (\<lambda>(ok, h'). Inr (parser_start h'))"
proof -
  have "length (concat ps) \<le> 2000000"
    using assms payload_length [of ps] by (simp add: batch_ok_def)
  then show ?thesis
    by (simp add: batch_bytes_def run_bytes_append feed_frames feed_flush_mark between_def
        parser_start_def deliver_def rbind_assoc case_prod_unfold)
qed

lemma feed_batches:
  "\<forall>b \<in> set bs. batch_ok b \<Longrightarrow>
   run_bytes (feed ha) (parser_start h) (stream_bytes bs)
     = rbind (handle_all ha (map concat bs) h) (\<lambda>h'. Inr (parser_start h'))"
  by (induction bs arbitrary: h)
     (simp_all add: feed_batch run_bytes_append rbind_assoc case_prod_unfold)

text \<open>A batch that has not arrived completely has not reached the handler.\<close>

lemma feed_frames_prefix:
  "between s \<Longrightarrow> length (p_batch s) + length (concat ps) \<le> 2000000 \<Longrightarrow>
   xs @ ys = frames ps @ take 11 flush_mark \<Longrightarrow>
   \<exists>s'. run_bytes (feed ha) s xs = Inr s' \<and> p_state s' = p_state s"
proof (induction ps arbitrary: s xs)
  case Nil
  then have "length xs + length ys = 11" by (simp flip: length_append)
  with Nil show ?case
    by (subst feed_header_part) (auto simp: between_def TLV_SZ_def)
next
  case (Cons b ps)
  have fits: "length (p_batch s) + length b \<le> 2000000" using Cons.prems(2) by simp
  let ?hdr = "encode_tlv \<lparr>tlv_type = 1, tlv_len = of_nat (length b)\<rparr>"
  have split: "xs @ ys = ?hdr @ (b @ frames ps @ take 11 flush_mark)"
    using Cons.prems(3) by (simp add: frames_Cons frame_def)
  consider (hdr) "length xs < 12" | (body) "12 \<le> length xs" "length xs < 12 + length b"
    | (past) "12 + length b \<le> length xs" by linarith
  then show ?case
  proof cases
    case hdr
    with Cons.prems(1) show ?thesis
      by (subst feed_header_part) (auto simp: between_def TLV_SZ_def)
  next
    case body
    have "xs = take (length xs) (?hdr @ b @ frames ps @ take 11 flush_mark)"
      by (metis split append_eq_conv_conj)
    then have xs: "xs = ?hdr @ take (length xs - 12) b" using body by simp
    let ?s = "s\<lparr>p_left := length b\<rparr>"
    have "run_bytes (feed ha) s xs = run_bytes (feed ha) ?s (take (length xs - 12) b)"
      by (subst xs) (simp add: run_bytes_append feed_frame_header [OF Cons.prems(1) fits])
    with body show ?thesis by (simp add: feed_payload)
  next
    case past
    have "xs @ ys = frame b @ frames ps @ take 11 flush_mark"
      using Cons.prems(3) by (simp add: frames_Cons)
    note xs = append_past [OF this]
    have "xs = frame b @ drop (length (frame b)) xs" using past by (intro xs(1)) simp
    moreover obtain s' where "run_bytes (feed ha) (s\<lparr>p_batch := p_batch s @ b\<rparr>) (drop (length (frame b)) xs) = Inr s'"
        "p_state s' = p_state s"
      using Cons.IH [OF _ _ xs(2), of "s\<lparr>p_batch := p_batch s @ b\<rparr>"] Cons.prems(1,2) past
      by (auto simp: between_def)
    ultimately show ?thesis
      by (metis run_bytes_append feed_frame [OF Cons.prems(1) fits] rbind_Inr)
  qed
qed

lemma feed_stream_prefix:
  "\<forall>b \<in> set bs. batch_ok b \<Longrightarrow> xs @ ys = stream_bytes bs \<Longrightarrow>
   \<exists>k \<le> length bs. map_sum id p_state (run_bytes (feed ha) (parser_start h) xs)
     = handle_all ha (take k (map concat bs)) h"
proof (induction bs arbitrary: h xs)
  case Nil
  then show ?case by (simp add: parser_start_def)
next
  case (Cons b bs)
  have ok: "batch_ok b" using Cons.prems(1) by simp
  show ?case
  proof (cases "length xs < length (batch_bytes b)")
    case True
    have "xs = take (length xs) (batch_bytes b @ stream_bytes bs)"
      using Cons.prems(2) by (metis append_eq_conv_conj stream_bytes_simps(2))
    then have xs: "xs = take (length xs) (batch_bytes b)" using True by simp
    have "batch_bytes b = frames b @ take 11 flush_mark @ drop 11 flush_mark"
      by (simp add: batch_bytes_def)
    then have "take (length (frames b) + 11) (batch_bytes b) = frames b @ take 11 flush_mark" by simp
    moreover have "length xs \<le> length (frames b) + 11" using True by (simp add: batch_bytes_def)
    ultimately have "xs @ drop (length xs) (frames b @ take 11 flush_mark) = frames b @ take 11 flush_mark"
      using xs by (metis append_take_drop_id min.absorb1 take_take)
    moreover have "length (concat b) \<le> 2000000"
      using ok payload_length [of b] by (simp add: batch_ok_def)
    ultimately obtain s' where "run_bytes (feed ha) (parser_start h) xs = Inr s'" "p_state s' = h"
      using feed_frames_prefix [of "parser_start h" b xs _ ha]
      by (auto simp: between_def parser_start_def)
    then show ?thesis by (intro exI [of _ 0]) simp
  next
    case False
    define zs where "zs = drop (length (batch_bytes b)) xs"
    have zs: "xs = batch_bytes b @ zs" "zs @ ys = stream_bytes bs"
      using append_past [of xs ys "batch_bytes b" "stream_bytes bs"] Cons.prems(2) False
      by (simp_all add: zs_def)
    show ?thesis
    proof (cases "ha (concat b) h")
      case (Inl f)
      then show ?thesis
        using zs(1) ok by (intro exI [of _ 1]) (simp add: run_bytes_append feed_batch)
    next
      case (Inr r)
      have "\<forall>b \<in> set bs. batch_ok b" using Cons.prems(1) by simp
      from Cons.IH [OF this zs(2), of "snd r"] obtain k where "k \<le> length bs"
          "map_sum id p_state (run_bytes (feed ha) (parser_start (snd r)) zs)
            = handle_all ha (take k (map concat bs)) (snd r)"
        by blast
      with Inr zs(1) ok show ?thesis
        by (intro exI [of _ "Suc k"]) (simp add: run_bytes_append feed_batch case_prod_unfold id_def)
    qed
  qed
qed

section \<open>Properties\<close>

lemma sender_start:
  "holds sb [] \<Longrightarrow> connected sb fd w \<Longrightarrow> sender_rel fd (tx w fd) (sb, w) queue_start"
  by (simp add: sender_rel_def queue_start_def)

text \<open>
  C9: On a healthy connection, whose kernel takes every chunk that \<open>send\<close> offers whole, the sending
  side is a queue of batches. Any sequence of commands and flushes on an empty \<open>SendBuffer\<close>
  returns the results of the queue, leaves the commands of the open batch in the buffer and has
  put on the connection exactly the closed batches, each as its framed commands and the
  end-of-batch header. (A failed or partial \<open>send\<close> loses the batch: \<open>Flush_failure_drops_batch\<close>
  below and \<open>Send_loses_rest_of_partial_send\<close>.)
\<close>

theorem Sender_refines_queue:
  assumes "holds sb []" "connected sb fd w" "\<forall>p \<in> set os. op_ok p"
    and "queue_run os queue_start = (oks, q)"
  shows "\<exists>sb' w'. wire_run os sb w = Inr (oks, sb', w') \<and> holds sb' (q_open q)
           \<and> tx w' fd = tx w fd @ stream_bytes (q_sent q)"
  using sender_run [OF sender_start [OF assms(1,2)] assms(3)] assms(4)
  by (auto simp: sender_rel_def)

lemma wire_stream:
  assumes "holds sb []" "connected sb fd w" "tx w fd = []" "\<forall>p \<in> set os. op_ok p"
    and "wire_run os sb w = Inr (oks, sb', w')"
  shows "tx w' fd = stream_bytes (q_sent (snd (queue_run os queue_start)))
       \<and> (\<forall>b \<in> set (q_sent (snd (queue_run os queue_start))). batch_ok b)"
  using sender_run [OF sender_start [OF assms(1,2)] assms(4)] assms(3,5)
  by (auto simp: sender_rel_def)

text \<open>
  C4: Both ends together, over a healthy connection whose kernel takes every chunk that \<open>send\<close>
  offers whole. When everything the sender has put on the connection has arrived, in whatever
  pieces, the receiving handler has been called exactly once for each batch the
  sender closed, in order, with the concatenation of the batch's commands.
\<close>

theorem Wire_end_to_end:
  assumes "holds sb []" "connected sb fd w" "tx w fd = []" "\<forall>p \<in> set os. op_ok p"
    and "wire_run os sb w = Inr (oks, sb', w')"
    and "stack_ok stack" "pieces_ok ps" "concat ps = tx w' fd"
  shows "handler_view (CommandTransport_Recv hc (map Delivers ps) stack (fresh_receiver a junk) h)
       = Some (handle_all (hc a) (map concat (q_sent (snd (queue_run os queue_start)))) h)"
proof -
  let ?bs = "q_sent (snd (queue_run os queue_start))"
  have "concat ps = stream_bytes ?bs" "\<forall>b \<in> set ?bs. batch_ok b"
    using wire_stream [OF assms(1-5)] assms(8) by simp_all
  then show ?thesis
    by (cases "handle_all (hc a) (map concat ?bs) h")
       (simp_all add: Recv_parser_view [OF assms(6,7)] feed_batches)
qed

text \<open>
  C10: On a healthy connection, whose kernel takes every chunk that \<open>send\<close> offers whole, the
  receiver is never ahead of the sender and never skips. Whatever prefix of the stream has
  arrived, the handler has been called for the first \<open>k\<close> closed batches, for some \<open>k\<close>, and
  for nothing else: no partial batch, none twice, none out of order.
\<close>

theorem Wire_prefix_of_batches:
  assumes "holds sb []" "connected sb fd w" "tx w fd = []" "\<forall>p \<in> set os. op_ok p"
    and "wire_run os sb w = Inr (oks, sb', w')"
    and "stack_ok stack" "pieces_ok ps" "concat ps @ in_flight = tx w' fd"
  shows "\<exists>k \<le> length (q_sent (snd (queue_run os queue_start))).
     handler_view (CommandTransport_Recv hc (map Delivers ps) stack (fresh_receiver a junk) h)
       = Some (handle_all (hc a) (take k (map concat (q_sent (snd (queue_run os queue_start))))) h)"
proof -
  let ?bs = "q_sent (snd (queue_run os queue_start))"
  have "concat ps @ in_flight = stream_bytes ?bs" "\<forall>b \<in> set ?bs. batch_ok b"
    using wire_stream [OF assms(1-5)] assms(8) by simp_all
  with feed_stream_prefix [of ?bs "concat ps" in_flight "hc a" h] show ?thesis
    by (simp add: Recv_parser_view [OF assms(6,7)])
qed

fun payload :: "wire_op \<Rightarrow> byte list" where
  "payload (Put bs) = bs"
| "payload Flush_op = []"

fun within_maximum :: "wire_op \<Rightarrow> bool" where
  "within_maximum (Put bs) \<longleftrightarrow> of_nat (length bs) \<le> SendBuffer_GetMaximumAllocationSize \<and> length bs \<le> PTRDIFF_MAX"
| "within_maximum Flush_op \<longleftrightarrow> True"

lemma within_maximum_bound:
  assumes "within_maximum (Put bs)"
  shows "length bs \<le> 1999976"
proof -
  have "length bs < 2 ^ 64" using assms by (simp add: PTRDIFF_MAX_def)
  then have "unat (of_nat (length bs) :: size_t) = length bs" by (rule unat_of_nat_size)
  moreover have "unat (of_nat (length bs) :: size_t) \<le> unat SendBuffer_GetMaximumAllocationSize"
    using assms by (simp add: word_le_nat_alt)
  ultimately show ?thesis
    by (simp add: SendBuffer_GetMaximumAllocationSize_def buffer_consts)
qed

definition queue_payload :: "sender \<Rightarrow> byte list" where
  "queue_payload q = concat (map concat (q_sent q)) @ concat (q_open q)"

lemma queue_step_payload:
  "within_maximum p \<Longrightarrow> queue_payload (snd (queue_step p q)) = queue_payload q @ payload p"
  using within_maximum_bound
  by (cases p) (force simp: queue_payload_def queue_flush_def Let_def simp del: within_maximum.simps)+

lemma queue_run_payload:
  "\<forall>p \<in> set os. within_maximum p \<Longrightarrow>
   queue_payload (snd (queue_run os q)) = queue_payload q @ concat (map payload os)"
proof (induction os arbitrary: q)
  case (Cons p os)
  obtain ok q' where q': "queue_step p q = (ok, q')" by fastforce
  with queue_step_payload [of p q] Cons show ?case by (simp add: case_prod_unfold)
qed simp

lemma queue_run_append:
  "snd (queue_run (os @ ps) q) = snd (queue_run ps (snd (queue_run os q)))"
  by (induction os arbitrary: q) (simp_all add: case_prod_unfold)

lemma handle_all_collect:
  "handle_all (\<lambda>bs h. Inr (True, h @ bs)) bss h = Inr (h @ concat bss)"
  by (induction bss arbitrary: h) simp_all

lemma wire_nothing_lost:
  assumes "holds sb []" "connected sb fd w" "tx w fd = []" "\<forall>p \<in> set os. within_maximum p"
    and "wire_run (os @ [Flush_op]) sb w = Inr (oks, sb', w')"
    and "stack_ok stack" "pieces_ok ps" "concat ps = tx w' fd"
  shows "handler_view (CommandTransport_Recv (\<lambda>a bs h. Inr (True, h @ bs)) (map Delivers ps) stack
           (fresh_receiver a junk) [])
       = Some (Inr (concat (map payload os)))"
proof -
  let ?q = "snd (queue_run (os @ [Flush_op]) queue_start)"
  have "\<forall>p \<in> set (os @ [Flush_op]). op_ok p"
  proof
    fix p
    assume "p \<in> set (os @ [Flush_op])"
    with assms(4) show "op_ok p" by (cases p) auto
  qed
  then have "concat ps = stream_bytes (q_sent ?q)" "\<forall>b \<in> set (q_sent ?q). batch_ok b"
    using wire_stream [OF assms(1-3) _ assms(5)] assms(8) by auto
  moreover have "queue_payload ?q = concat (map payload os)"
    using queue_run_payload [of "os @ [Flush_op]" queue_start] assms(4)
    by (simp add: queue_payload_def queue_start_def)
  moreover have "q_open ?q = []"
    by (simp add: queue_run_append queue_flush_def)
  ultimately show ?thesis
    by (simp add: Recv_parser_view [OF assms(6,7)] feed_batches handle_all_collect queue_payload_def)
qed

text \<open>
  C6: Nothing is lost or made up on a healthy connection: a handler that keeps all bytes it is
  given ends with exactly the bytes of the commands put into the sender, in order, once the
  sender has flushed and the stream has arrived.
\<close>

theorem Wire_nothing_lost:
  assumes "holds sb []" "connected sb fd w" "tx w fd = []" "\<forall>p \<in> set os. within_maximum p"
    and "wire_run (os @ [Flush_op]) sb w = Inr (oks, sb', w')"
    and "stack_ok stack" "pieces_ok ps" "concat ps = tx w' fd"
  shows "handler_view (CommandTransport_Recv (\<lambda>a bs h. Inr (True, h @ bs)) (map Delivers ps) stack
           (fresh_receiver a junk) [])
       = Some (Inr (concat (map payload os)))"
  using assms by (rule wire_nothing_lost)

text \<open>
  C19: \<open>Flush\<close> cannot tell a closed connection from an open one: \<open>Send\<close> returns \<open>false\<close>, that is 0,
  for a transport without a descriptor, and \<open>Flush\<close> takes 0 for success. It reports \<open>true\<close>,
  nothing reaches any connection, and the commands are gone from the buffer.
\<close>

theorem Flush_on_closed_reports_success:
  assumes "holds sb ps" "ps \<noteq> []" "s_mTransport sb = Some p" "transports w p = Some t" "mConnfd t < 0"
  shows "\<exists>sb'. SendBuffer_Flush sb w = Inr (True, sb', w) \<and> holds sb' []"
proof -
  have inv: "SB_inv sb" and off: "unat (s_mOffset sb) = length (frames ps)"
    using assms(1) by (simp_all add: holds_def)
  have "0 < length (frames ps)" using assms(2) by (cases ps) (auto simp: frames_Cons)
  then have nz: "s_mOffset sb \<noteq> 0" using off by (metis less_irrefl unat_0)
  have "SB_inv (sb\<lparr>s_mBuffer := poke (s_mBuffer sb) (unat (s_mOffset sb)) flush_mark, s_mOffset := 0\<rparr>)"
    using inv by (simp add: SB_inv_def buffer_consts)
  then show ?thesis
    using assms(4,5)
    by (simp add: Flush_pending [OF inv nz assms(3)] Let_def CommandTransport_Send_def holds_Nil)
qed

text \<open>
  C23: A failed \<open>send\<close> loses the batch: when the first \<open>send\<close> of a flush fails, \<open>Flush\<close> returns
  \<open>false\<close>, no byte has reached the connection, and the commands are gone from the buffer all
  the same, so a second flush reports success without sending anything.
\<close>

theorem Flush_failure_drops_batch:
  assumes "holds sb ps" "ps \<noteq> []" "s_mTransport sb = Some p" "transports w p = Some t" "0 \<le> mConnfd t"
    and "send_script w (sends w) = SendFails e" "0 < e"
  shows "\<exists>sb' w'. SendBuffer_Flush sb w = Inr (False, sb', w') \<and> tx w' = tx w
           \<and> SendBuffer_Flush sb' w' = Inr (True, sb', w')"
proof -
  have inv: "SB_inv sb" and off: "unat (s_mOffset sb) = length (frames ps)"
    using assms(1) by (simp_all add: holds_def)
  have "0 < length (frames ps)" using assms(2) by (cases ps) (auto simp: frames_Cons)
  then have nz: "s_mOffset sb \<noteq> 0" using off by (metis less_irrefl unat_0)
  let ?b = "poke (s_mBuffer sb) (unat (s_mOffset sb)) flush_mark"
  have blk: "in_block ?b 0 (unat (s_mOffset sb + 12))"
    using inv by (intro SB_end_in_block) (simp_all add: SB_inv_def)
  have "unat (s_mOffset sb + 12) \<noteq> 0"
    using unat_size_add [of "s_mOffset sb" 12] inv by (simp add: SB_inv_def buffer_consts)
  then have "peek ?b 0 (unat (s_mOffset sb + 12)) \<noteq> []" by (metis length_peek list.size(3))
  from chunks_of_step [OF _ this, of SEND_BUF] assms(6,7)
  have "CommandTransport_Send p ?b (s_mOffset sb + 12) w = Inr (- e, w\<lparr>sends := Suc (sends w)\<rparr>)"
    by (simp add: CommandTransport_Send_open [OF assms(4,5) blk] SEND_BUF_def sys_send_def)
  then show ?thesis
    using assms(7) by (simp add: Flush_pending [OF inv nz assms(3)] Let_def)
qed

section \<open>Witnesses\<close>

definition demo_sender :: SendBuffer where
  "demo_sender = SendBuffer_SetTransport 0 (new_SendBuffer (\<lambda>_. 0))"

definition demo_link :: world where
  "demo_link = demo_world (\<lambda>_. Accepts 65536)"

definition demo_ops :: "wire_op list" where
  "demo_ops = [Put [65, 66], Put [], Flush_op, Put [67], Flush_op]"

lemma demo_sender_ok: "holds demo_sender []" "connected demo_sender 3 demo_link" "tx demo_link 3 = []"
  unfolding demo_sender_def demo_link_def
  by (auto intro!: holds_Nil demo_SB_connected) (simp_all add: SendBuffer_SetTransport_def
      new_SendBuffer_def demo_world_def)

lemma demo_queue:
  "queue_run demo_ops queue_start
     = ([True, True, True, True, True], \<lparr>q_sent = [[[65, 66], []], [[67]]], q_open = []\<rparr>)"
  by (simp add: demo_ops_def queue_start_def queue_flush_def)

lemma demo_ops_ok: "\<forall>p \<in> set demo_ops. op_ok p"
  by (simp add: demo_ops_def PTRDIFF_MAX_def)

lemma demo_run:
  obtains oks sb' w' where "wire_run demo_ops demo_sender demo_link = Inr (oks, sb', w')"
  using sender_run [OF sender_start [OF demo_sender_ok(1,2)] demo_ops_ok] by blast

lemma pieces_ok_chunks: "0 < n \<Longrightarrow> n \<le> 65536 \<Longrightarrow> pieces_ok (chunks_of n bs)"
  by (auto simp: pieces_ok_def dest: chunks_of_lengths)

lemma demo_batch_bytes:
  "frame [65] @ encode_tlv \<lparr>tlv_type = 2, tlv_len = 0\<rparr> = [1,0,0,0, 1,0,0,0,0,0,0,0, 65, 2,0,0,0, 0,0,0,0,0,0,0,0]"
  by code_simp

lemma Flush_sends_batch_witness:
  "\<exists>sb sb' w'. holds sb [[65]] \<and> SendBuffer_Flush sb demo_link = Inr (True, sb', w')
     \<and> tx w' 3 = [1,0,0,0, 1,0,0,0,0,0,0,0, 65, 2,0,0,0, 0,0,0,0,0,0,0,0]"
proof -
  obtain sb where sb: "holds sb [[65]]" "s_mTransport sb = s_mTransport demo_sender"
    using put_command_fits [OF demo_sender_ok(1), of "[65]"] by (auto simp: BUFFER_SIZE_def)
  have "connected sb 3 demo_link"
    using demo_sender_ok(2) connected_transport [OF sb(2)] by simp
  from Flush_sends_batch [OF sb(1) _ this] obtain sb' w' where "SendBuffer_Flush sb demo_link = Inr (True, sb', w')"
      "tx w' 3 = tx demo_link 3 @ frame [65] @ encode_tlv \<lparr>tlv_type = 2, tlv_len = 0\<rparr>"
    by auto
  with sb(1) demo_sender_ok(3) show ?thesis
    unfolding demo_batch_bytes by fastforce
qed

lemma Sender_refines_queue_witness:
  "\<exists>sb' w'. wire_run demo_ops demo_sender demo_link = Inr ([True, True, True, True, True], sb', w')
     \<and> tx w' 3 = stream_bytes [[[65, 66], []], [[67]]]"
  using Sender_refines_queue [OF demo_sender_ok(1,2) demo_ops_ok demo_queue] demo_sender_ok(3) by auto

lemma Wire_end_to_end_witness:
  "\<exists>oks sb' w'. wire_run demo_ops demo_sender demo_link = Inr (oks, sb', w')
     \<and> handler_view (CommandTransport_Recv demo_handler (map Delivers (chunks_of 5 (tx w' 3))) demo_stack
          (fresh_receiver 1 (\<lambda>_. 0)) []) = Some (Inr [[65, 66], [67]])"
proof -
  obtain oks sb' w' where run: "wire_run demo_ops demo_sender demo_link = Inr (oks, sb', w')" by (rule demo_run)
  have ps: "pieces_ok (chunks_of 5 (tx w' 3))" by (rule pieces_ok_chunks) simp_all
  have "concat (chunks_of 5 (tx w' 3)) = tx w' 3" by (rule concat_chunks_of) simp
  from Wire_end_to_end [OF demo_sender_ok demo_ops_ok run stack_ok_demo ps this, of demo_handler 1 "\<lambda>_. 0" "[]"] run
  show ?thesis by (simp add: demo_queue demo_handler_def)
qed

lemma Wire_prefix_of_batches_witness:
  "\<exists>oks sb' w' k. wire_run demo_ops demo_sender demo_link = Inr (oks, sb', w')
     \<and> handler_view (CommandTransport_Recv demo_handler (map Delivers (chunks_of 5 (take 40 (tx w' 3)))) demo_stack
          (fresh_receiver 1 (\<lambda>_. 0)) []) = Some (handle_all (demo_handler 1) (take k [[65, 66], [67]]) [])"
proof -
  obtain oks sb' w' where run: "wire_run demo_ops demo_sender demo_link = Inr (oks, sb', w')" by (rule demo_run)
  have ps: "pieces_ok (chunks_of 5 (take 40 (tx w' 3)))" by (rule pieces_ok_chunks) simp_all
  have "concat (chunks_of 5 (take 40 (tx w' 3))) @ drop 40 (tx w' 3) = tx w' 3" by (simp add: concat_chunks_of)
  from Wire_prefix_of_batches [OF demo_sender_ok demo_ops_ok run stack_ok_demo ps this, of demo_handler 1 "\<lambda>_. 0" "[]"] run
  show ?thesis by (auto simp: demo_queue)
qed

lemma Wire_nothing_lost_witness:
  "\<exists>oks sb' w'. wire_run (demo_ops @ [Flush_op]) demo_sender demo_link = Inr (oks, sb', w')
     \<and> handler_view (CommandTransport_Recv (\<lambda>a bs h. Inr (True, h @ bs)) (map Delivers (chunks_of 7 (tx w' 3)))
          demo_stack (fresh_receiver 1 (\<lambda>_. 0)) []) = Some (Inr [65, 66, 67])"
proof -
  have ok: "\<forall>p \<in> set (demo_ops @ [Flush_op]). op_ok p" using demo_ops_ok by auto
  obtain oks sb' w' where run: "wire_run (demo_ops @ [Flush_op]) demo_sender demo_link = Inr (oks, sb', w')"
    using sender_run [OF sender_start [OF demo_sender_ok(1,2)] ok] by blast
  have max: "\<forall>p \<in> set demo_ops. within_maximum p"
    by (simp add: demo_ops_def PTRDIFF_MAX_def SendBuffer_GetMaximumAllocationSize_def buffer_consts word_le_nat_alt)
  have ps: "pieces_ok (chunks_of 7 (tx w' 3))" by (rule pieces_ok_chunks) simp_all
  have "concat (chunks_of 7 (tx w' 3)) = tx w' 3" by (rule concat_chunks_of) simp
  from Wire_nothing_lost [OF demo_sender_ok max run stack_ok_demo ps this, of 1 "\<lambda>_. 0"] run
  show ?thesis by (simp add: demo_ops_def)
qed

lemma Flush_on_closed_reports_success_witness:
  "\<exists>sb sb' w. holds sb [[65]] \<and> SendBuffer_Flush sb w = Inr (True, sb', w) \<and> holds sb' []"
proof -
  obtain sb where sb: "holds sb [[65]]" "s_mTransport sb = s_mTransport demo_sender"
    using put_command_fits [OF demo_sender_ok(1), of "[65]"] by (auto simp: BUFFER_SIZE_def)
  have "s_mTransport sb = Some 0" by (simp add: sb demo_sender_def SendBuffer_SetTransport_def)
  then have "\<exists>sb'. SendBuffer_Flush sb (demo_link\<lparr>transports := [0 \<mapsto> \<lparr>mConnfd = - 1\<rparr>]\<rparr>)
      = Inr (True, sb', demo_link\<lparr>transports := [0 \<mapsto> \<lparr>mConnfd = - 1\<rparr>]\<rparr>) \<and> holds sb' []"
    by (intro Flush_on_closed_reports_success [OF sb(1), of 0 _ "\<lparr>mConnfd = - 1\<rparr>"]) simp_all
  with sb(1) show ?thesis by blast
qed

lemma Flush_failure_drops_batch_witness:
  "\<exists>sb sb' w'. holds sb [[65]] \<and> SendBuffer_Flush sb (demo_world (\<lambda>_. SendFails 32)) = Inr (False, sb', w')
     \<and> tx w' = (\<lambda>_. []) \<and> SendBuffer_Flush sb' w' = Inr (True, sb', w')"
proof -
  obtain sb where sb: "holds sb [[65]]" "s_mTransport sb = s_mTransport demo_sender"
    using put_command_fits [OF demo_sender_ok(1), of "[65]"] by (auto simp: BUFFER_SIZE_def)
  have "s_mTransport sb = Some 0" by (simp add: sb demo_sender_def SendBuffer_SetTransport_def)
  from Flush_failure_drops_batch [OF sb(1) _ this, of "demo_world (\<lambda>_. SendFails 32)" "\<lparr>mConnfd = 3\<rparr>" 32] sb(1)
  show ?thesis by (auto simp: demo_world_def)
qed

end
