(* ===== verification/Sockets.thy ===== *)
theory Sockets
  imports Wire_Link
begin

text \<open>
  How connections come about: \<open>client::connect_tcp\<close> and \<open>client::connect_unix\<close> of
  \<open>src/client/dawn_client.cpp\<close>, and the two command servers of \<open>src/server/dawn_server.h\<close> and
  \<open>.cpp\<close>. The results of the system calls are the kernel's choice: each function takes them in a
  script. Descriptors that a call opens are recorded in the world, so that a leak is visible.
\<close>

section \<open>System calls and strings\<close>

text \<open>A call that opens a descriptor: the descriptor, or an error.\<close>

datatype fd_outcome = Opens nat | FdFails int

definition sys_open :: "fd_outcome \<Rightarrow> world \<Rightarrow> int \<times> int \<times> world" where
  "sys_open r w =
     (case r of
        Opens fd \<Rightarrow> (int fd, 0, w\<lparr>fds := fds w @ [int fd]\<rparr>)
      | FdFails e \<Rightarrow> (- 1, e, w))"

text \<open>A call without a descriptor: \<open>None\<close> for success, or \<open>errno\<close>. The call itself is logged.\<close>

definition sys_call :: "syscall \<Rightarrow> int option \<Rightarrow> world \<Rightarrow> int \<times> int \<times> world" where
  "sys_call c r w =
     (case r of None \<Rightarrow> (0, 0, sys_log c w) | Some e \<Rightarrow> (- 1, e, sys_log c w))"

text \<open>The characters of a C string: those before the first \<open>NUL\<close>.\<close>

definition c_str :: "byte list \<Rightarrow> byte list" where
  "c_str bs = takeWhile (\<lambda>b. b \<noteq> 0) bs"

text \<open>\<open>strncpy\<close> writes exactly \<open>n\<close> characters: at most \<open>n\<close> of the string, then \<open>NUL\<close>s.\<close>

definition strncpy :: "block \<Rightarrow> byte list \<Rightarrow> nat \<Rightarrow> block result" where
  "strncpy dst s n =
     store_bytes dst 0 (take n (c_str s) @ replicate (n - length (c_str s)) 0)"

definition SUN_PATH :: nat where
  "SUN_PATH = 108"

text \<open>\<open>sun_path\<close> after the \<open>memset\<close> of the \<open>sockaddr_un\<close>.\<close>

definition zero_path :: block where
  "zero_path = \<lparr>bsize = SUN_PATH, bdata = (\<lambda>_. 0)\<rparr>"

definition unix_addr :: "block \<Rightarrow> sockaddr" where
  "unix_addr b = Unix_path (peek b 0 SUN_PATH)"

text \<open>The name the kernel uses: a path without a \<open>NUL\<close> runs to the end of the array.\<close>

fun path_name :: "sockaddr \<Rightarrow> byte list" where
  "path_name (Unix_path bs) = c_str bs"
| "path_name (Inet a p) = []"
| "path_name (Resolved k) = []"

lemma min_plus_rest [simp]: "min m n + (n - m) = (n :: nat)"
  by simp

lemma length_c_str: "length (c_str bs) \<le> length bs"
  by (simp add: c_str_def length_takeWhile_le)

lemma c_str_padded: "c_str (take n (c_str s) @ replicate k 0) = take n (c_str s)"
proof -
  have "\<forall>b \<in> set (take n (c_str s)). b \<noteq> 0"
    by (auto simp: c_str_def dest!: in_set_takeD set_takeWhileD)
  then have "takeWhile (\<lambda>b. b \<noteq> 0) (take n (c_str s) @ replicate k 0) = take n (c_str s)"
    by (subst takeWhile_append2) (auto simp: takeWhile_replicate)
  then show ?thesis by (simp only: c_str_def)
qed

lemma peek_zero: "peek zero_path i n = replicate n 0"
  by (rule nth_equalityI) (simp_all add: peek_def zero_path_def)

lemma peek_poke_after:
  "length bs \<le> n \<Longrightarrow> peek (poke b 0 bs) 0 n = bs @ peek b (length bs) (n - length bs)"
  by (rule nth_equalityI) (auto simp: peek_def poke_def nth_append)

lemma strncpy_path:
  assumes "n \<le> SUN_PATH"
  shows "\<exists>b. strncpy zero_path s n = Inr b
           \<and> peek b 0 SUN_PATH = take n (c_str s) @ replicate (SUN_PATH - length (take n (c_str s))) 0"
proof -
  let ?src = "take n (c_str s) @ replicate (n - length (c_str s)) 0"
  have "in_block zero_path 0 (length ?src)"
    using assms by (simp add: in_block_def zero_path_def SUN_PATH_def PTRDIFF_MAX_def)
  then have "strncpy zero_path s n = Inr (poke zero_path 0 ?src)"
    unfolding strncpy_def by (rule store_bytes_in)
  moreover have "peek (poke zero_path 0 ?src) 0 SUN_PATH = ?src @ replicate (SUN_PATH - n) 0"
    using assms peek_poke_after [of ?src SUN_PATH zero_path] by (simp add: peek_zero)
  moreover have "n - length (c_str s) + (SUN_PATH - n) = SUN_PATH - min (length (c_str s)) n"
    using assms by simp
  ultimately show ?thesis
    by (simp flip: replicate_add)
qed

lemma strncpy_overflow: "SUN_PATH < n \<Longrightarrow> strncpy zero_path s n = Inl OutOfBounds"
  by (simp add: strncpy_def store_bytes_def in_block_def zero_path_def)

lemma strncpy_defined: "(\<exists>b. strncpy zero_path s n = Inr b) \<longleftrightarrow> n \<le> SUN_PATH"
  using strncpy_path [of n s] strncpy_overflow [of n s] by (cases "n \<le> SUN_PATH") auto

section \<open>The client's side\<close>

text \<open>The results of \<open>getaddrinfo\<close>: its code and the list it leaves, if it sets it at all.\<close>

record tcp_script =
  tcp_socket :: fd_outcome
  tcp_gai :: int
  tcp_addrs :: "nat option"
  tcp_connect :: "int option"

definition connect_tcp :: "tcp_script \<Rightarrow> byte list \<Rightarrow> byte list \<Rightarrow> world \<Rightarrow> (addr option \<times> world) result" where
  "connect_tcp k host port w =
     (let (connfd, errno, w1) = sys_open (tcp_socket k) w
      in if connfd < 0 then Inr (None, w1)
         else if tcp_gai k < 0 then Inr (None, w1)
         else case tcp_addrs k of
                None \<Rightarrow> Inl NullPointer
              | Some a \<Rightarrow>
                  (let (ret, errno, w2) = sys_call (Connect connfd (Resolved a)) (tcp_connect k) w1
                   in if ret < 0 then Inr (None, w2)
                      else let (p, w3) = new_CommandTransport connfd w2 in Inr (Some p, w3)))"

record unix_script =
  unix_socket :: fd_outcome
  unix_connect :: "int option"

definition connect_unix :: "unix_script \<Rightarrow> byte list \<Rightarrow> world \<Rightarrow> (addr option \<times> world) result" where
  "connect_unix k socketPath w =
     (let (connfd, errno, w1) = sys_open (unix_socket k) w
      in if connfd < 0 then Inr (None, w1)
         else rbind (strncpy zero_path socketPath (SUN_PATH - 1)) (\<lambda>path.
           let (ret, errno, w2) = sys_call (Connect connfd (unix_addr path)) (unix_connect k) w1
           in if ret < 0 then Inr (None, w2)
              else let (p, w3) = new_CommandTransport connfd w2 in Inr (Some p, w3)))"

section \<open>TCPCommandServer\<close>

record TCPCommandServerConfig =
  cfg_addr :: int
  cfg_port :: int

record tcp_server_script =
  ts_socket :: fd_outcome
  ts_bind :: "int option"
  ts_listen :: "int option"
  ts_accept :: fd_outcome

record TCPCommandServer =
  t_mListenfd :: int

definition new_TCPCommandServer :: TCPCommandServer where
  "new_TCPCommandServer = \<lparr>t_mListenfd = - 1\<rparr>"

definition INADDR_LOOPBACK :: "32 word" where
  "INADDR_LOOPBACK = 0x7F000001"

definition TCP_init_impl :: "tcp_server_script \<Rightarrow> TCPCommandServerConfig \<Rightarrow> TCPCommandServer \<Rightarrow> world \<Rightarrow>
    (int \<times> TCPCommandServer \<times> world) result" where
  "TCP_init_impl k cfg srv w =
     (let (listenfd, e1, w1) = sys_open (ts_socket k) w
      in if listenfd < 0 then Inr (- e1, srv, w1)
         else let (r2, e2, w2) = sys_call (Bind listenfd (Inet INADDR_LOOPBACK 8080)) (ts_bind k) w1
              in if r2 < 0 then Inr (- e2, srv, w2)
                 else let (r3, e3, w3) = sys_call (Listen listenfd 1) (ts_listen k) w2
                      in if r3 < 0 then Inr (- e3, srv, w3)
                         else Inr (0, srv\<lparr>t_mListenfd := listenfd\<rparr>, w3))"

definition TCP_accept_impl :: "tcp_server_script \<Rightarrow> TCPCommandServer \<Rightarrow> world \<Rightarrow>
    (addr option \<times> TCPCommandServer \<times> world) result" where
  "TCP_accept_impl k srv w =
     (let (connfd, e, w1) = sys_open (ts_accept k) w
      in if connfd < 0 then Inr (None, srv, w1)
         else let (p, w2) = new_CommandTransport connfd w1 in Inr (Some p, srv, w2))"

definition destroy_TCPCommandServer :: "TCPCommandServer \<Rightarrow> world \<Rightarrow> TCPCommandServer \<times> world" where
  "destroy_TCPCommandServer srv w =
     (if t_mListenfd srv \<ge> 0 then (srv\<lparr>t_mListenfd := - 1\<rparr>, sys_close (t_mListenfd srv) w) else (srv, w))"

section \<open>FDPassingCommandServer\<close>

text \<open>
  \<open>recvmsg\<close> on the control socket: an error, or a message (also at the end of the stream). The
  message may carry a control header: \<open>SCM_RIGHTS\<close> with a descriptor that the kernel has just
  installed, or another one, whose data is any number. The code does not look at the type.
\<close>

datatype control = Rights nat | Other_data int

datatype recvmsg_outcome = RecvmsgFails int | Message "control option"

fun control_int :: "control \<Rightarrow> int" where
  "control_int (Rights fd) = int fd"
| "control_int (Other_data i) = i"

fun installs :: "control \<Rightarrow> world \<Rightarrow> world" where
  "installs (Rights fd) w = w\<lparr>fds := fds w @ [int fd]\<rparr>"
| "installs (Other_data i) w = w"

record fd_server_script =
  fs_socket :: fd_outcome
  fs_connect :: "int option"
  fs_recvmsg :: recvmsg_outcome

record FDPassingCommandServer =
  f_mListenfd :: int

definition new_FDPassingCommandServer :: FDPassingCommandServer where
  "new_FDPassingCommandServer = \<lparr>f_mListenfd = - 1\<rparr>"

definition FD_init_impl :: "fd_server_script \<Rightarrow> byte list \<Rightarrow> FDPassingCommandServer \<Rightarrow> world \<Rightarrow>
    (int \<times> FDPassingCommandServer \<times> world) result" where
  "FD_init_impl k ctlSocket srv w =
     (let (connfd, e1, w1) = sys_open (fs_socket k) w
      in if connfd < 0 then Inr (- e1, srv, w1)
         else rbind (strncpy zero_path ctlSocket (length ctlSocket)) (\<lambda>path.
           let (ret, e2, w2) = sys_call (Connect connfd (unix_addr path)) (fs_connect k) w1
           in if ret < 0 then Inr (- e2, srv, w2)
              else Inr (0, srv\<lparr>f_mListenfd := connfd\<rparr>, w2)))"

definition FD_accept_impl :: "fd_server_script \<Rightarrow> FDPassingCommandServer \<Rightarrow> world \<Rightarrow>
    (addr option \<times> FDPassingCommandServer \<times> world) result" where
  "FD_accept_impl k srv w =
     (case fs_recvmsg k of
        RecvmsgFails e \<Rightarrow> Inr (None, srv, w)
      | Message None \<Rightarrow> Inl NullPointer
      | Message (Some c) \<Rightarrow>
          (let (ret, e, w2) = sys_send (f_mListenfd srv) [0xFD] (installs c w)
           in if ret < 0 then Inr (None, srv, w2)
              else let (p, w3) = new_CommandTransport (control_int c) w2 in Inr (Some p, srv, w3)))"

definition destroy_FDPassingCommandServer :: "FDPassingCommandServer \<Rightarrow> world \<Rightarrow> FDPassingCommandServer \<times> world" where
  "destroy_FDPassingCommandServer srv w =
     (if f_mListenfd srv \<ge> 0 then (srv\<lparr>f_mListenfd := - 1\<rparr>, sys_close (f_mListenfd srv) w) else (srv, w))"

section \<open>The CommandServer interface\<close>

text \<open>
  \<open>CommandServer\<close> is a class template: \<open>Init\<close> and \<open>Accept\<close> forward to the derived class. The
  locale states what a derived class promises about its listening descriptor, and proves what
  a server program may rely on. \<open>sane\<close> says that the kernel's script has a nonzero \<open>errno\<close> for
  every failure.
\<close>

locale command_server =
  fixes init :: "'k \<Rightarrow> 'cfg \<Rightarrow> 's \<Rightarrow> world \<Rightarrow> (int \<times> 's \<times> world) result"
    and acpt :: "'k \<Rightarrow> 's \<Rightarrow> world \<Rightarrow> (addr option \<times> 's \<times> world) result"
    and destroy :: "'s \<Rightarrow> world \<Rightarrow> 's \<times> world"
    and listenfd :: "'s \<Rightarrow> int" and sane :: "'k \<Rightarrow> bool"
  assumes init_ok: "sane k \<Longrightarrow> init k cfg s w = Inr (0, s', w') \<Longrightarrow>
        0 \<le> listenfd s' \<and> fds w' = fds w @ [listenfd s'] \<and> transports w' = transports w"
    and init_error: "sane k \<Longrightarrow> init k cfg s w = Inr (r, s', w') \<Longrightarrow> r \<noteq> 0 \<Longrightarrow>
        s' = s \<and> r < 0 \<and> transports w' = transports w"
    and accept_some: "acpt k s w = Inr (Some p, s', w') \<Longrightarrow>
        s' = s \<and> p = next_addr w \<and> set (fds w) \<subseteq> set (fds w')
        \<and> (\<exists>fd. transports w' = (transports w)(p \<mapsto> \<lparr>mConnfd = fd\<rparr>))"
    and destroy_open: "0 \<le> listenfd s \<Longrightarrow>
        listenfd (fst (destroy s w)) = - 1 \<and> snd (destroy s w) = sys_close (listenfd s) w"
    and destroy_closed: "listenfd s < 0 \<Longrightarrow> destroy s w = (s, w)"
begin

lemma destroy_idempotent:
  "destroy s w = (s', w') \<Longrightarrow> destroy s' w' = (s', w')"
  using destroy_open [of s w] destroy_closed [of s w] destroy_closed [of s' w']
  by (cases "0 \<le> listenfd s") auto

lemma lifecycle:
  assumes "sane k" "init k cfg s w = Inr (0, s1, w1)" "acpt k s1 w1 = Inr (Some p, s2, w2)"
    and "destroy s2 w2 = (s3, w3)"
  shows "listenfd s1 \<in> set (fds w2) \<and> listenfd s1 \<notin> set (fds w3)
    \<and> transports w3 p \<noteq> None \<and> destroy s3 w3 = (s3, w3)"
proof -
  have i: "0 \<le> listenfd s1" "listenfd s1 \<in> set (fds w1)"
    using init_ok [OF assms(1,2)] by auto
  have a: "s2 = s1" "set (fds w1) \<subseteq> set (fds w2)" "transports w2 p \<noteq> None"
    using accept_some [OF assms(3)] by auto
  have "w3 = sys_close (listenfd s1) w2"
    using destroy_open [of s2 w2] assms(4) i a by simp
  with i a destroy_idempotent [OF assms(4)] show ?thesis
    by (auto simp: sys_close_def sys_log_def)
qed

end

fun sane_open :: "fd_outcome \<Rightarrow> bool" where
  "sane_open (Opens fd) \<longleftrightarrow> True"
| "sane_open (FdFails e) \<longleftrightarrow> 0 < e"

fun sane_call :: "int option \<Rightarrow> bool" where
  "sane_call None \<longleftrightarrow> True"
| "sane_call (Some e) \<longleftrightarrow> 0 < e"

definition sane_tcp :: "tcp_server_script \<Rightarrow> bool" where
  "sane_tcp k \<longleftrightarrow> sane_open (ts_socket k) \<and> sane_call (ts_bind k) \<and> sane_call (ts_listen k)"

definition sane_fd :: "fd_server_script \<Rightarrow> bool" where
  "sane_fd k \<longleftrightarrow> sane_open (fs_socket k) \<and> sane_call (fs_connect k)"

lemmas socket_defs = sys_open_def sys_call_def sys_log_def Let_def new_CommandTransport_def

interpretation tcp: command_server TCP_init_impl TCP_accept_impl destroy_TCPCommandServer
  t_mListenfd sane_tcp
proof unfold_locales
  fix k cfg s w s' w' r
  show "sane_tcp k \<Longrightarrow> TCP_init_impl k cfg s w = Inr (0, s', w') \<Longrightarrow>
      0 \<le> t_mListenfd s' \<and> fds w' = fds w @ [t_mListenfd s'] \<and> transports w' = transports w"
    by (auto simp: TCP_init_impl_def socket_defs sane_tcp_def split: fd_outcome.splits option.splits if_splits)
  show "sane_tcp k \<Longrightarrow> TCP_init_impl k cfg s w = Inr (r, s', w') \<Longrightarrow> r \<noteq> 0 \<Longrightarrow>
      s' = s \<and> r < 0 \<and> transports w' = transports w"
    by (auto simp: TCP_init_impl_def socket_defs sane_tcp_def split: fd_outcome.splits option.splits if_splits)
qed (auto simp: TCP_accept_impl_def destroy_TCPCommandServer_def socket_defs
    split: fd_outcome.splits if_splits)

lemma sys_send_world:
  "sys_send fd bs w = (r, e, w') \<Longrightarrow>
   fds w' = fds w \<and> transports w' = transports w \<and> next_addr w' = next_addr w"
  by (auto simp: sys_send_def split: send_outcome.splits)

lemma installs_world [simp]:
  "transports (installs c w) = transports w" "next_addr (installs c w) = next_addr w"
  "set (fds w) \<subseteq> set (fds (installs c w))"
  by (cases c; auto)+

lemma FD_accept_some:
  assumes "FD_accept_impl k srv w = Inr (Some p, srv', w')"
  shows "srv' = srv \<and> p = next_addr w \<and> set (fds w) \<subseteq> set (fds w')
    \<and> (\<exists>fd. transports w' = (transports w)(p \<mapsto> \<lparr>mConnfd = fd\<rparr>))"
proof -
  obtain c where c: "fs_recvmsg k = Message (Some c)"
    using assms by (auto simp: FD_accept_impl_def split: recvmsg_outcome.splits option.splits)
  obtain ret e w2 where s: "sys_send (f_mListenfd srv) [0xFD] (installs c w) = (ret, e, w2)"
    by (metis surj_pair)
  have "srv' = srv" "p = next_addr w2" "fds w' = fds w2"
      "transports w' = (transports w2)(next_addr w2 \<mapsto> \<lparr>mConnfd = control_int c\<rparr>)"
    using assms c s by (auto simp: FD_accept_impl_def new_CommandTransport_def split: if_splits)
  then show ?thesis
    using sys_send_world [OF s] installs_world(3) [of w c] by auto
qed

interpretation fdp: command_server FD_init_impl FD_accept_impl destroy_FDPassingCommandServer
  f_mListenfd sane_fd
proof unfold_locales
  fix k cfg s w s' w' r
  show "sane_fd k \<Longrightarrow> FD_init_impl k cfg s w = Inr (0, s', w') \<Longrightarrow>
      0 \<le> f_mListenfd s' \<and> fds w' = fds w @ [f_mListenfd s'] \<and> transports w' = transports w"
    by (auto simp: FD_init_impl_def socket_defs sane_fd_def elim!: rbind_eq_InrE
        split: fd_outcome.splits option.splits if_splits)
  show "sane_fd k \<Longrightarrow> FD_init_impl k cfg s w = Inr (r, s', w') \<Longrightarrow> r \<noteq> 0 \<Longrightarrow>
      s' = s \<and> r < 0 \<and> transports w' = transports w"
    by (auto simp: FD_init_impl_def socket_defs sane_fd_def elim!: rbind_eq_InrE
        split: fd_outcome.splits option.splits if_splits)
next
  fix k s w p s' w'
  show "FD_accept_impl k s w = Inr (Some p, s', w') \<Longrightarrow>
      s' = s \<and> p = next_addr w \<and> set (fds w) \<subseteq> set (fds w')
      \<and> (\<exists>fd. transports w' = (transports w)(p \<mapsto> \<lparr>mConnfd = fd\<rparr>))"
    by (rule FD_accept_some)
qed (auto simp: destroy_FDPassingCommandServer_def)

section \<open>Properties\<close>

text \<open>
  \<open>connect_unix\<close> in full, once the socket is open: it connects to the path cut to 107
  characters (so the address is always \<open>NUL\<close>-terminated, and a longer path silently names
  another socket); on success the result is a transport that owns the descriptor; when
  \<open>connect\<close> fails the result is null and the descriptor stays open.
\<close>

theorem connect_unix_outcome:
  assumes "unix_socket k = Opens fd"
  shows "\<exists>a w2. path_name a = take 107 (c_str socketPath)
    \<and> w2 = w\<lparr>fds := fds w @ [int fd], syslog := syslog w @ [Connect (int fd) a]\<rparr>
    \<and> connect_unix k socketPath w =
        (case unix_connect k of
           None \<Rightarrow> Inr (Some (next_addr w),
             w2\<lparr>transports := (transports w)(next_addr w \<mapsto> \<lparr>mConnfd = int fd\<rparr>), next_addr := Suc (next_addr w)\<rparr>)
         | Some e \<Rightarrow> Inr (None, w2))"
proof -
  obtain b where b: "strncpy zero_path socketPath 107 = Inr b"
      "peek b 0 108 = take 107 (c_str socketPath) @ replicate (108 - length (take 107 (c_str socketPath))) 0"
    using strncpy_path [of 107 socketPath] by (auto simp: SUN_PATH_def)
  have "path_name (unix_addr b) = take 107 (c_str socketPath)"
    by (simp only: unix_addr_def path_name.simps SUN_PATH_def b(2) c_str_padded)
  moreover have "connect_unix k socketPath w =
      (let w2 = w\<lparr>fds := fds w @ [int fd], syslog := syslog w @ [Connect (int fd) (unix_addr b)]\<rparr>
       in case unix_connect k of
           None \<Rightarrow> Inr (Some (next_addr w),
             w2\<lparr>transports := (transports w)(next_addr w \<mapsto> \<lparr>mConnfd = int fd\<rparr>), next_addr := Suc (next_addr w)\<rparr>)
         | Some e \<Rightarrow> Inr (None, w2))"
    using assms b(1) by (simp add: connect_unix_def socket_defs SUN_PATH_def split: option.split)
  ultimately show ?thesis by (auto simp: Let_def)
qed

text \<open>
  \<open>init_impl\<close> of the FD-passing server copies as many bytes as the path has: it stays defined
  exactly for paths of at most 108 bytes, one longer writes outside \<open>sun_path\<close>.
\<close>

theorem FD_init_path_bound:
  assumes "fs_socket k = Opens fd"
  shows "(\<exists>r. FD_init_impl k ctlSocket srv w = Inr r) \<longleftrightarrow> length ctlSocket \<le> 108"
proof -
  have "(\<exists>r. FD_init_impl k ctlSocket srv w = Inr r) \<longleftrightarrow>
      (\<exists>b. strncpy zero_path ctlSocket (length ctlSocket) = Inr b)"
    using assms
    by (cases "strncpy zero_path ctlSocket (length ctlSocket)")
       (auto simp: FD_init_impl_def socket_defs split: option.split)
  then show ?thesis by (simp add: strncpy_defined SUN_PATH_def)
qed

text \<open>
  \<open>accept_impl\<close> of the FD-passing server in full: null when \<open>recvmsg\<close> fails; a null dereference
  when the message carries no control header (as at the end of the stream); otherwise the
  acknowledgement byte \<open>0xFD\<close> goes out, and the result is a transport on the passed
  descriptor, or null, with the descriptor left open, when the acknowledgement fails.
\<close>

theorem FD_accept_cases:
  "(case fs_recvmsg k of
      RecvmsgFails e \<Rightarrow> FD_accept_impl k srv w = Inr (None, srv, w)
    | Message None \<Rightarrow> FD_accept_impl k srv w = Inl NullPointer
    | Message (Some c) \<Rightarrow>
        (case send_script w (sends w) of
           SendFails e \<Rightarrow> (\<exists>w'. FD_accept_impl k srv w = Inr (None, srv, w')
             \<and> tx w' = tx w \<and> fds w' = fds (installs c w) \<and> transports w' = transports w)
         | Accepts n \<Rightarrow> (\<exists>w'. FD_accept_impl k srv w = Inr (Some (next_addr w), srv, w')
             \<and> tx w' = (tx w)(f_mListenfd srv := tx w (f_mListenfd srv) @ take n [0xFD])
             \<and> fds w' = fds (installs c w)
             \<and> transports w' = (transports w)(next_addr w \<mapsto> \<lparr>mConnfd = control_int c\<rparr>))))"
proof -
  have [simp]: "send_script (installs c w) = send_script w" "sends (installs c w) = sends w"
      "tx (installs c w) = tx w" for c
    by (cases c; simp)+
  show ?thesis
    by (auto simp: FD_accept_impl_def sys_send_def Let_def new_CommandTransport_def
        split: recvmsg_outcome.splits option.splits send_outcome.splits)
qed

text \<open>
  The TCP server does not look at its configuration: whatever address and port it is given, it
  binds 127.0.0.1:8080 and listens with a backlog of one, and if either call fails it returns
  \<open>-errno\<close> and leaves the socket open and unrecorded.
\<close>

theorem TCP_init_ignores_config:
  assumes "ts_socket k = Opens fd"
  shows "\<forall>cfg. TCP_init_impl k cfg srv w =
    (let w1 = w\<lparr>fds := fds w @ [int fd], syslog := syslog w @ [Bind (int fd) (Inet 0x7F000001 8080)]\<rparr>;
         w2 = w1\<lparr>syslog := syslog w1 @ [Listen (int fd) 1]\<rparr>
     in case ts_bind k of
          Some e \<Rightarrow> Inr (- e, srv, w1)
        | None \<Rightarrow> (case ts_listen k of
                    Some e \<Rightarrow> Inr (- e, srv, w2)
                  | None \<Rightarrow> Inr (0, srv\<lparr>t_mListenfd := int fd\<rparr>, w2)))"
  using assms by (simp add: TCP_init_impl_def socket_defs INADDR_LOOPBACK_def split: option.split)

text \<open>
  Life of a server: once \<open>Init\<close> has succeeded and \<open>Accept\<close> has produced a connection, the
  destructor closes the control socket and nothing else, a second run of it does nothing, and
  the connection survives.
\<close>

theorem FD_server_lifecycle:
  assumes "sane_fd k" "FD_init_impl k path new_FDPassingCommandServer w = Inr (0, s1, w1)"
    and "FD_accept_impl k s1 w1 = Inr (Some p, s2, w2)"
    and "destroy_FDPassingCommandServer s2 w2 = (s3, w3)"
  shows "f_mListenfd s1 \<in> set (fds w2) \<and> f_mListenfd s1 \<notin> set (fds w3)
    \<and> transports w3 p \<noteq> None \<and> destroy_FDPassingCommandServer s3 w3 = (s3, w3)"
  using assms by (rule fdp.lifecycle)

section \<open>Witnesses\<close>

definition no_world :: world where
  "no_world = \<lparr>transports = Map.empty, next_addr = 5, tx = (\<lambda>_. []), fds = [0, 1, 2],
     send_script = (\<lambda>_. Accepts 1), sends = 0, syslog = []\<rparr>"

definition demo_fd_script :: fd_server_script where
  "demo_fd_script = \<lparr>fs_socket = Opens 3, fs_connect = None, fs_recvmsg = Message (Some (Rights 4))\<rparr>"

lemma connect_unix_outcome_witness:
  "\<exists>a w'. path_name a = take 107 (c_str (replicate 200 47))
     \<and> connect_unix \<lparr>unix_socket = Opens 3, unix_connect = Some 111\<rparr> (replicate 200 47) no_world = Inr (None, w')
     \<and> fds w' = [0, 1, 2, 3]"
  using connect_unix_outcome [of "\<lparr>unix_socket = Opens 3, unix_connect = Some 111\<rparr>" 3 "replicate 200 47" no_world]
  by (auto simp: no_world_def)

lemma FD_init_path_bound_witness:
  "\<not> (\<exists>r. FD_init_impl demo_fd_script (replicate 109 47) new_FDPassingCommandServer no_world = Inr r)"
  using FD_init_path_bound [of demo_fd_script 3 "replicate 109 47" new_FDPassingCommandServer no_world]
  by (simp add: demo_fd_script_def)

lemma TCP_init_ignores_config_witness:
  "TCP_init_impl \<lparr>ts_socket = Opens 3, ts_bind = Some 98, ts_listen = None, ts_accept = Opens 4\<rparr>
     \<lparr>cfg_addr = 0, cfg_port = 9000\<rparr> new_TCPCommandServer no_world
   = Inr (- 98, new_TCPCommandServer,
       no_world\<lparr>fds := [0, 1, 2, 3], syslog := [Bind 3 (Inet 0x7F000001 8080)]\<rparr>)"
  using TCP_init_ignores_config [of "\<lparr>ts_socket = Opens 3, ts_bind = Some 98, ts_listen = None, ts_accept = Opens 4\<rparr>" 3
      new_TCPCommandServer no_world]
  by (simp add: no_world_def)

lemma FD_server_lifecycle_witness:
  "\<exists>s1 w1 s2 w2 s3 w3. FD_init_impl demo_fd_script [47, 97] new_FDPassingCommandServer no_world = Inr (0, s1, w1)
     \<and> FD_accept_impl demo_fd_script s1 w1 = Inr (Some 5, s2, w2)
     \<and> destroy_FDPassingCommandServer s2 w2 = (s3, w3)
     \<and> f_mListenfd s1 \<in> set (fds w2) \<and> f_mListenfd s1 \<notin> set (fds w3)"
proof -
  obtain b where b: "strncpy zero_path [47, 97] 2 = Inr b"
    using strncpy_defined [of "[47, 97]" 2] by (auto simp: SUN_PATH_def)
  obtain s1 w1 where i: "FD_init_impl demo_fd_script [47, 97] new_FDPassingCommandServer no_world = Inr (0, s1, w1)"
      "next_addr w1 = 5" "send_script w1 = (\<lambda>_. Accepts 1)"
    using b by (simp add: FD_init_impl_def demo_fd_script_def socket_defs no_world_def numeral_2_eq_2)
  obtain s2 w2 where a: "FD_accept_impl demo_fd_script s1 w1 = Inr (Some 5, s2, w2)"
    using i(2,3) by (simp add: FD_accept_impl_def demo_fd_script_def sys_send_def new_CommandTransport_def)
  obtain s3 w3 where d: "destroy_FDPassingCommandServer s2 w2 = (s3, w3)" by fastforce
  have "sane_fd demo_fd_script" by (simp add: sane_fd_def demo_fd_script_def)
  from FD_server_lifecycle [OF this i(1) a d] i(1) a d show ?thesis by metis
qed

end
