(* ===== verification/Server_Main.thy ===== *)
theory Server_Main
  imports Sockets
begin

text \<open>
  The server program, \<open>src/server/webgpu_server.cpp\<close>: the handler \<open>DDWGPUServer\<close>, which runs
  Dawn's wire server on a batch and then flushes its replies, and \<open>main\<close>, which takes one
  connection from the control socket and serves it.
\<close>

section \<open>DDWGPUServer\<close>

text \<open>
  Dawn's wire server is not part of the repository: a parameter. It handles a batch, may write
  replies through its serializer (the server's \<open>SendBuffer\<close>), and says whether it returned a
  non-null pointer. Its own state is \<open>'d\<close>.
\<close>

type_synonym 'd backend =
  "byte list \<Rightarrow> 'd \<Rightarrow> SendBuffer \<Rightarrow> world \<Rightarrow> (bool \<times> 'd \<times> SendBuffer \<times> world) result"

definition DDWGPUServer_HandleCommands :: "'d backend \<Rightarrow> ('d \<times> SendBuffer \<times> world) handler" where
  "DDWGPUServer_HandleCommands mSrv a commands h =
     (case h of (d, mBuf, w) \<Rightarrow>
        rbind (mSrv commands d mBuf w) (\<lambda>(ret, d', mBuf', w').
          rbind (SendBuffer_Flush mBuf' w') (\<lambda>(ignored, mBuf'', w'').
            Inr (ret, d', mBuf'', w''))))"

section \<open>main\<close>

definition ascii :: "string \<Rightarrow> byte list" where
  "ascii s = map of_char s"

text \<open>\<open>strncmp (a, b, n) == 0\<close> for C strings.\<close>

definition strncmp_eq :: "byte list \<Rightarrow> byte list \<Rightarrow> nat \<Rightarrow> bool" where
  "strncmp_eq a b n \<longleftrightarrow> take n (c_str a) = take n (c_str b)"

record run_script =
  rs_sockets :: fd_server_script
  rs_no_instance :: bool
  rs_send_junk :: "nat \<Rightarrow> byte"
  rs_recv_junk :: "nat \<Rightarrow> byte"
  rs_stack :: recv_locals
  rs_events :: "recv_event list"

datatype 'd main_outcome =
    Exits int world
  | Serving "'d \<times> SendBuffer \<times> world"
  | Crashes fault
  | Hangs

text \<open>The address of \<open>ddsrv\<close>, a local variable of \<open>main\<close>.\<close>

definition DDSRV :: addr where
  "DDSRV = 0"

text \<open>
  The receive thread runs \<open>Recv\<close> on the accepted transport and \<open>main\<close> joins it; when \<open>main\<close> returns,
  the destructor of \<open>tcs\<close> runs. A null transport is dereferenced when \<open>Recv\<close> reads \<open>mConnfd\<close>.
  \<open>inject\<close> is the wire server's \<open>InjectInstance\<close>.
\<close>

definition server_main :: "'d backend \<Rightarrow> ('d \<Rightarrow> 'd) \<Rightarrow> 'd \<Rightarrow> byte list list \<Rightarrow> run_script \<Rightarrow> world \<Rightarrow> 'd main_outcome" where
  "server_main mSrv inject d argv k w =
     (if length argv < 3 then Exits 1 w
      else if \<not> strncmp_eq (argv ! 1) (ascii ''handle-fd'') 9 then Exits 1 w
      else if rs_no_instance k then Exits (- 1) w
      else case FD_init_impl (rs_sockets k) (c_str (argv ! 2)) new_FDPassingCommandServer w of
             Inl f \<Rightarrow> Crashes f
           | Inr (ret, tcs, w1) \<Rightarrow>
               if ret \<noteq> 0 then Exits ret (snd (destroy_FDPassingCommandServer tcs w1))
               else (case FD_accept_impl (rs_sockets k) tcs w1 of
                       Inl f \<Rightarrow> Crashes f
                     | Inr (None, tcs, w2) \<Rightarrow> Crashes NullPointer
                     | Inr (Some tcsc, tcs, w2) \<Rightarrow>
                         (let c2sBuf = RecvBuffer_SetHandler DDSRV (new_RecvBuffer (rs_recv_junk k));
                              s2cBuf = SendBuffer_SetTransport tcsc (new_SendBuffer (rs_send_junk k))
                          in case CommandTransport_Recv (DDWGPUServer_HandleCommands mSrv) (rs_events k) (rs_stack k)
                                    c2sBuf (inject d, s2cBuf, w2) of
                               Blocked (l, rb, h) \<Rightarrow> Serving h
                             | Returns e (l, rb, d', sb, w3) \<Rightarrow> Exits 0 (snd (destroy_FDPassingCommandServer tcs w3))
                             | Undefined f \<Rightarrow> Crashes f
                             | Spins \<Rightarrow> Hangs)))"

section \<open>A backend that answers\<close>

text \<open>
  A wire server whose replies to a batch are a function of the batch and its state, and which
  puts them into the serializer one after the other.
\<close>

definition answering :: "(byte list \<Rightarrow> 'd \<Rightarrow> byte list list \<times> 'd) \<Rightarrow> 'd backend" where
  "answering reply bs d sb w =
     (case reply bs d of (rs, d') \<Rightarrow>
        rbind (wire_run (map Put rs) sb w) (\<lambda>(oks, sb', w'). Inr (True, d', sb', w')))"

text \<open>The batches that go back: those of a queue that takes the replies and is then flushed.\<close>

definition reply_batches :: "byte list list \<Rightarrow> byte list list list" where
  "reply_batches rs = q_sent (snd (queue_run (map Put rs @ [Flush_op]) queue_start))"

fun answers :: "(byte list \<Rightarrow> 'd \<Rightarrow> byte list list \<times> 'd) \<Rightarrow> byte list list \<Rightarrow> 'd \<Rightarrow> byte list list list \<times> 'd" where
  "answers reply [] d = ([], d)"
| "answers reply (b # bs) d =
     (case reply b d of (rs, d') \<Rightarrow> case answers reply bs d' of (out, d'') \<Rightarrow> (reply_batches rs @ out, d''))"

text \<open>
  The replies one by one, and what Dawn's serializer guarantees: it splits a longer message, so that
  no reply exceeds \<open>GetMaximumAllocationSize\<close>. Then the batches hold all of the replies, in order.
\<close>

fun all_replies :: "(byte list \<Rightarrow> 'd \<Rightarrow> byte list list \<times> 'd) \<Rightarrow> byte list list \<Rightarrow> 'd \<Rightarrow> byte list list" where
  "all_replies reply [] d = []"
| "all_replies reply (b # bs) d = (case reply b d of (rs, d') \<Rightarrow> rs @ all_replies reply bs d')"

definition reply_sizes_ok :: "(byte list \<Rightarrow> 'd \<Rightarrow> byte list list \<times> 'd) \<Rightarrow> bool" where
  "reply_sizes_ok reply \<longleftrightarrow> (\<forall>bs d. \<forall>r \<in> set (fst (reply bs d)). length r \<le> 1999976)"

lemma reply_size:
  "reply_sizes_ok reply \<Longrightarrow> reply bs d = (rs, d') \<Longrightarrow> \<forall>r \<in> set rs. length r \<le> 1999976"
  unfolding reply_sizes_ok_def by (metis fst_conv)

definition queue_commands :: "sender \<Rightarrow> byte list list" where
  "queue_commands q = concat (q_sent q) @ q_open q"

lemma queue_flush_commands: "queue_commands (queue_flush q) = queue_commands q"
  by (simp add: queue_commands_def queue_flush_def)

lemma queue_put_commands:
  "length bs \<le> 1999976 \<Longrightarrow> queue_commands (snd (queue_step (Put bs) q)) = queue_commands q @ [bs]"
  by (simp add: queue_commands_def queue_flush_def Let_def)

lemma queue_puts_commands:
  "\<forall>r \<in> set rs. length r \<le> 1999976 \<Longrightarrow>
   queue_commands (snd (queue_run (map Put rs) q)) = queue_commands q @ rs"
proof (induction rs arbitrary: q)
  case (Cons r rs)
  then have "queue_commands (snd (queue_step (Put r) q)) = queue_commands q @ [r]"
    by (intro queue_put_commands) simp
  with Cons show ?case by (simp add: case_prod_unfold del: queue_step.simps)
qed simp

lemma reply_batches_all:
  assumes "\<forall>r \<in> set rs. length r \<le> 1999976"
  shows "concat (reply_batches rs) = rs"
proof -
  let ?q = "snd (queue_run (map Put rs @ [Flush_op]) queue_start)"
  have "queue_commands ?q = rs"
    using queue_puts_commands [OF assms, of queue_start]
    by (simp add: queue_run_append queue_flush_commands) (simp add: queue_commands_def queue_start_def)
  moreover have "q_open ?q = []" by (simp add: queue_run_append queue_flush_def)
  ultimately show ?thesis by (simp add: queue_commands_def reply_batches_def)
qed

lemma answers_all:
  "reply_sizes_ok reply \<Longrightarrow> concat (fst (answers reply bs d)) = all_replies reply bs d"
proof (induction bs arbitrary: d)
  case (Cons b bs)
  obtain rs d' where rd: "reply b d = (rs, d')" by fastforce
  from reply_batches_all [OF reply_size [OF Cons.prems rd]] Cons.IH [OF Cons.prems, of d'] rd show ?case
    by (simp add: case_prod_unfold)
qed simp

lemma small_PTRDIFF: "length (r :: byte list) \<le> 1999976 \<Longrightarrow> length r \<le> PTRDIFF_MAX"
  by (simp add: PTRDIFF_MAX_def)

lemma HandleCommands_answers:
  assumes "reply_sizes_ok reply" "holds sb []" "connected sb fd w" "reply bs d = (rs, d')"
  shows "\<exists>sb' w'. DDWGPUServer_HandleCommands (answering reply) a bs (d, sb, w) = Inr (True, d', sb', w')
           \<and> holds sb' [] \<and> connected sb' fd w' \<and> tx w' fd = tx w fd @ stream_bytes (reply_batches rs)"
proof -
  let ?os = "map Put rs @ [Flush_op]"
  have "\<forall>p \<in> set ?os. op_ok p"
    using reply_size [OF assms(1,4)] small_PTRDIFF by auto
  from sender_run [OF sender_start [OF assms(2,3)] this] obtain sb' w' where
    r: "wire_run ?os sb w = Inr (fst (queue_run ?os queue_start), sb', w')"
      "sender_rel fd (tx w fd) (sb', w') (snd (queue_run ?os queue_start))"
    by blast
  have "q_open (snd (queue_run ?os queue_start)) = []"
    by (simp add: queue_run_append queue_flush_def)
  then have end_state: "holds sb' [] \<and> connected sb' fd w' \<and> tx w' fd = tx w fd @ stream_bytes (reply_batches rs)"
    using r(2) by (simp add: sender_rel_def reply_batches_def)
  obtain oks sb1 w1 where "wire_run (map Put rs) sb w = Inr (oks, sb1, w1)"
    and "\<exists>ok. SendBuffer_Flush sb1 w1 = Inr (ok, sb', w')"
    using r(1) by (auto simp: wire_run_append wire_step_def elim!: rbind_eq_InrE)
  with end_state assms(4) show ?thesis
    by (auto simp: DDWGPUServer_HandleCommands_def answering_def)
qed

lemma handle_all_answers:
  assumes "reply_sizes_ok reply" "holds sb []" "connected sb fd w"
  shows "\<exists>sb' w'. handle_all (DDWGPUServer_HandleCommands (answering reply) a) bs (d, sb, w)
             = Inr (snd (answers reply bs d), sb', w')
           \<and> holds sb' [] \<and> connected sb' fd w' \<and> tx w' fd = tx w fd @ stream_bytes (fst (answers reply bs d))"
  using assms(2,3)
proof (induction bs arbitrary: d sb w)
  case (Cons b bs)
  obtain rs d' where rd: "reply b d = (rs, d')" by fastforce
  obtain sb1 w1 where 1: "DDWGPUServer_HandleCommands (answering reply) a b (d, sb, w) = Inr (True, d', sb1, w1)"
      "holds sb1 []" "connected sb1 fd w1" "tx w1 fd = tx w fd @ stream_bytes (reply_batches rs)"
    using HandleCommands_answers [OF assms(1) Cons.prems rd] by blast
  from Cons.IH [OF 1(2,3), of d'] 1(1,4) rd show ?case
    by (auto simp: case_prod_unfold)
qed auto

lemma holds_fresh: "holds (SendBuffer_SetTransport p (new_SendBuffer junk)) []"
  by (rule holds_Nil) (simp, simp add: SendBuffer_SetTransport_def new_SendBuffer_def)

lemma reply_batches_ok:
  assumes "\<forall>r \<in> set rs. length r \<le> 1999976"
  shows "\<forall>b \<in> set (reply_batches rs). batch_ok b"
proof -
  let ?os = "map Put rs @ [Flush_op]"
  have "\<forall>p \<in> set ?os. op_ok p" using assms small_PTRDIFF by auto
  from sender_run [OF sender_start [OF holds_fresh demo_SB_connected] this] show ?thesis
    by (auto simp: sender_rel_def reply_batches_def)
qed

lemma answers_ok:
  "reply_sizes_ok reply \<Longrightarrow> \<forall>b \<in> set (fst (answers reply bs d)). batch_ok b"
proof (induction bs arbitrary: d)
  case (Cons b bs)
  obtain rs d' where rd: "reply b d = (rs, d')" by fastforce
  from reply_batches_ok [OF reply_size [OF Cons.prems rd]] Cons.IH [OF Cons.prems, of d'] rd show ?case
    by (auto simp: case_prod_unfold)
qed simp

lemma server_starts:
  assumes "argv = [prog, ascii ''handle-fd'', path]" "\<not> rs_no_instance k" "length path \<le> 108"
    and "rs_sockets k = \<lparr>fs_socket = Opens cfd, fs_connect = None, fs_recvmsg = Message (Some (Rights fd))\<rparr>"
    and "accepts_all w" "tx w (int fd) = []" "cfd \<noteq> fd"
  obtains w2 where
    "server_main mSrv inject d argv k w =
       (case CommandTransport_Recv (DDWGPUServer_HandleCommands mSrv) (rs_events k) (rs_stack k)
             (fresh_receiver DDSRV (rs_recv_junk k))
             (inject d, SendBuffer_SetTransport (next_addr w) (new_SendBuffer (rs_send_junk k)), w2) of
          Blocked (l, rb, h) \<Rightarrow> Serving h
        | Returns e (l, rb, d', sb, w3) \<Rightarrow>
            Exits 0 (snd (destroy_FDPassingCommandServer \<lparr>f_mListenfd = int cfd\<rparr> w3))
        | Undefined f \<Rightarrow> Crashes f | Spins \<Rightarrow> Hangs)"
    "accepts_all w2" "tx w2 (int fd) = []" "transports w2 (next_addr w) = Some \<lparr>mConnfd = int fd\<rparr>"
proof -
  have "length (c_str path) \<le> 108" using assms(3) length_c_str [of path] by simp
  then obtain b where b: "strncpy zero_path (c_str path) (length (c_str path)) = Inr b"
    using strncpy_defined [of "c_str path" "length (c_str path)"] by (auto simp: SUN_PATH_def)
  let ?srv = "\<lparr>f_mListenfd = int cfd\<rparr>"
  let ?w1 = "w\<lparr>fds := fds w @ [int cfd], syslog := syslog w @ [Connect (int cfd) (unix_addr b)]\<rparr>"
  have i: "FD_init_impl (rs_sockets k) (c_str path) new_FDPassingCommandServer w = Inr (0, ?srv, ?w1)"
    using b by (simp add: FD_init_impl_def assms(4) socket_defs new_FDPassingCommandServer_def)
  obtain n where n: "send_script w (sends w) = Accepts n" using assms(5) by (auto simp: accepts_all_def)
  obtain w2 where a: "FD_accept_impl (rs_sockets k) ?srv ?w1 = Inr (Some (next_addr w), ?srv, w2)"
      "send_script w2 = send_script w" "tx w2 (int fd) = []"
      "transports w2 (next_addr w) = Some \<lparr>mConnfd = int fd\<rparr>"
    using n assms(6,7) by (simp add: FD_accept_impl_def assms(4) sys_send_def new_CommandTransport_def)
  have "accepts_all w2" using assms(5) a(2) by (simp add: accepts_all_def)
  moreover have "server_main mSrv inject d argv k w =
       (case CommandTransport_Recv (DDWGPUServer_HandleCommands mSrv) (rs_events k) (rs_stack k)
             (fresh_receiver DDSRV (rs_recv_junk k))
             (inject d, SendBuffer_SetTransport (next_addr w) (new_SendBuffer (rs_send_junk k)), w2) of
          Blocked (l, rb, h) \<Rightarrow> Serving h
        | Returns e (l, rb, d', sb, w3) \<Rightarrow> Exits 0 (snd (destroy_FDPassingCommandServer ?srv w3))
        | Undefined f \<Rightarrow> Crashes f | Spins \<Rightarrow> Hangs)"
    using assms(1,2) i a(1)
    by (simp add: server_main_def strncmp_eq_def fresh_receiver_def Let_def)
  ultimately show ?thesis using that a(3,4) by blast
qed

lemma server_session:
  assumes "argv = [prog, ascii ''handle-fd'', path]" "\<not> rs_no_instance k" "length path \<le> 108"
    and "rs_sockets k = \<lparr>fs_socket = Opens cfd, fs_connect = None, fs_recvmsg = Message (Some (Rights fd))\<rparr>"
    and "accepts_all w" "tx w (int fd) = []" "cfd \<noteq> fd"
    and "stack_ok (rs_stack k)" "reply_sizes_ok reply" "\<forall>b \<in> set bs. batch_ok b"
    and "pieces_ok ps" "concat ps = stream_bytes bs" "rs_events k = map Delivers ps @ [Delivers []]"
  shows "\<exists>w'. server_main (answering reply) inject d argv k w = Exits 0 w'
           \<and> tx w' (int fd) = stream_bytes (fst (answers reply (map concat bs) (inject d)))
           \<and> int cfd \<notin> set (fds w')"
proof -
  let ?hc = "DDWGPUServer_HandleCommands (answering reply)"
  let ?sb = "SendBuffer_SetTransport (next_addr w) (new_SendBuffer (rs_send_junk k))"
  obtain w2 where run: "server_main (answering reply) inject d argv k w =
       (case CommandTransport_Recv ?hc (rs_events k) (rs_stack k) (fresh_receiver DDSRV (rs_recv_junk k))
             (inject d, ?sb, w2) of
          Blocked (l, rb, h) \<Rightarrow> Serving h
        | Returns e (l, rb, d', sb, w3) \<Rightarrow>
            Exits 0 (snd (destroy_FDPassingCommandServer \<lparr>f_mListenfd = int cfd\<rparr> w3))
        | Undefined f \<Rightarrow> Crashes f | Spins \<Rightarrow> Hangs)"
    and w2: "accepts_all w2" "tx w2 (int fd) = []" "transports w2 (next_addr w) = Some \<lparr>mConnfd = int fd\<rparr>"
    using server_starts [OF assms(1-7), of "answering reply" inject d] by blast
  have c: "connected ?sb (int fd) w2"
    using w2 by (simp add: connected_def SendBuffer_SetTransport_def)
  obtain sb' w' where h: "handle_all (?hc DDSRV) (map concat bs) (inject d, ?sb, w2)
        = Inr (snd (answers reply (map concat bs) (inject d)), sb', w')"
      "tx w' (int fd) = stream_bytes (fst (answers reply (map concat bs) (inject d)))"
    using handle_all_answers [OF assms(9) holds_fresh c] w2(2) by force
  let ?s = "parser_start (snd (answers reply (map concat bs) (inject d)), sb', w')"
  have "run_bytes (feed (?hc DDSRV)) (parser_start (inject d, ?sb, w2)) (concat ps) = Inr ?s"
    by (simp add: assms(12) feed_batches [OF assms(10)] h)
  from Recv_accepted [where hc = ?hc, OF assms(8,11) this, of "[Delivers []]" "rs_recv_junk k"] obtain c where
    c: "CommandTransport_Recv ?hc (rs_events k) (rs_stack k) (fresh_receiver DDSRV (rs_recv_junk k)) (inject d, ?sb, w2)
        = Returns 0 c" "recv_rel DDSRV c ?s"
    by (auto simp: assms(13))
  obtain l rb where "c = (l, rb, snd (answers reply (map concat bs) (inject d)), sb', w')"
    using recv_rel_state [OF c(2)] by (cases c) auto
  with c(1) h(2) run show ?thesis
    by (simp add: destroy_FDPassingCommandServer_def sys_close_def sys_log_def)
qed

lemma request_reply:
  assumes "argv = [prog, ascii ''handle-fd'', path]" "\<not> rs_no_instance k" "length path \<le> 108"
    and "rs_sockets k = \<lparr>fs_socket = Opens cfd, fs_connect = None, fs_recvmsg = Message (Some (Rights fd))\<rparr>"
    and "accepts_all w" "tx w (int fd) = []" "cfd \<noteq> fd"
    and "stack_ok (rs_stack k)" "reply_sizes_ok reply"
    and "pieces_ok ps" "concat ps = tx cw' cfd'" "rs_events k = map Delivers ps @ [Delivers []]"
    and "holds sb []" "connected sb cfd' cw" "tx cw cfd' = []" "\<forall>p \<in> set os. op_ok p"
    and "wire_run os sb cw = Inr (oks, sb', cw')"
    and "server_main (answering reply) inject d argv k w = Exits 0 w'"
    and "stack_ok stack" "pieces_ok qs" "concat qs = tx w' (int fd)"
  shows "handler_view (CommandTransport_Recv hc (map Delivers qs) stack (fresh_receiver a junk) h)
       = Some (handle_all (hc a) (map concat (fst (answers reply
           (map concat (q_sent (snd (queue_run os queue_start)))) (inject d)))) h)"
proof -
  let ?bs = "q_sent (snd (queue_run os queue_start))"
  let ?out = "fst (answers reply (map concat ?bs) (inject d))"
  have bs: "tx cw' cfd' = stream_bytes ?bs" "\<forall>b \<in> set ?bs. batch_ok b"
    using wire_stream [OF assms(13-17)] by simp_all
  have "tx w' (int fd) = stream_bytes ?out"
    using server_session [OF assms(1-9) bs(2) assms(10) _ assms(12), of inject d] assms(11,18) bs(1)
    by simp
  then have "run_bytes (feed (hc a)) (parser_start h) (concat qs)
      = rbind (handle_all (hc a) (map concat ?out) h) (\<lambda>h'. Inr (parser_start h'))"
    by (simp add: assms(21) feed_batches [OF answers_ok [OF assms(9)]])
  then show ?thesis
    by (cases "handle_all (hc a) (map concat ?out) h") (simp_all add: Recv_parser_view [OF assms(19,20)])
qed

section \<open>Properties\<close>


text \<open>
  C3: Requests and replies, over two healthy connections (the kernel takes every chunk that \<open>send\<close>
  offers whole). A client runs any commands and flushes; the server serves the stream that
  results, with a wire server whose replies are a function of the batches and within the
  serializer's maximum; the client's receive thread reads the server's stream. Both streams are
  cut into pieces at will. The client's handler then gets exactly the batches of replies, in
  order, to the batches that the client closed; together they hold all the replies.
\<close>

theorem Request_reply_round_trip:
  assumes "argv = [prog, ascii ''handle-fd'', path]" "\<not> rs_no_instance k" "length path \<le> 108"
    and "rs_sockets k = \<lparr>fs_socket = Opens cfd, fs_connect = None, fs_recvmsg = Message (Some (Rights fd))\<rparr>"
    and "accepts_all w" "tx w (int fd) = []" "cfd \<noteq> fd"
    and "stack_ok (rs_stack k)" "reply_sizes_ok reply"
    and "pieces_ok ps" "concat ps = tx cw' cfd'" "rs_events k = map Delivers ps @ [Delivers []]"
    and "holds sb []" "connected sb cfd' cw" "tx cw cfd' = []" "\<forall>p \<in> set os. op_ok p"
    and "wire_run os sb cw = Inr (oks, sb', cw')"
    and "server_main (answering reply) inject d argv k w = Exits 0 w'"
    and "stack_ok stack" "pieces_ok qs" "concat qs = tx w' (int fd)"
  shows "handler_view (CommandTransport_Recv hc (map Delivers qs) stack (fresh_receiver a junk) h)
       = Some (handle_all (hc a) (map concat (fst (answers reply
           (map concat (q_sent (snd (queue_run os queue_start)))) (inject d)))) h)
     \<and> concat (fst (answers reply (map concat (q_sent (snd (queue_run os queue_start)))) (inject d)))
       = all_replies reply (map concat (q_sent (snd (queue_run os queue_start)))) (inject d)"
  by (intro conjI request_reply [OF assms] answers_all [OF assms(9)])

text \<open>
  After every batch the server's buffer is empty, whatever the wire server did and even when
  the connection is broken: nothing of a reply waits for the next batch. What the handler
  returns is the wire server's result; the result of the flush is dropped.
\<close>

theorem Server_flushes_after_each_batch:
  assumes "mSrv bs d sb w = Inr (ret, d', sb1, w1)" "SB_inv sb1" "SB_ready sb1 w1"
  shows "\<exists>sb' w'. DDWGPUServer_HandleCommands mSrv a bs (d, sb, w) = Inr (ret, d', sb', w')
           \<and> s_mOffset sb' = 0 \<and> SB_inv sb' \<and> SB_ready sb' w'"
proof -
  obtain ok sb' w' where fl: "SendBuffer_Flush sb1 w1 = Inr (ok, sb', w')" "SB_ready sb' w'"
    using SB_Flush_live [OF assms(2,3)] by blast
  with SB_inv_Flush [OF assms(2) fl(1)] assms(1) show ?thesis
    by (simp add: DDWGPUServer_HandleCommands_def)
qed

text \<open>
  The usage text above \<open>main\<close> documents the commands \<open>serve-fd\<close>, \<open>serve-tcp\<close> and \<open>serve-vsock\<close>;
  \<open>main\<close> accepts none of them: it exits with 1 before it does anything.
\<close>

theorem Documented_commands_rejected:
  "c \<in> {''serve-fd'', ''serve-tcp'', ''serve-vsock''} \<Longrightarrow>
   server_main mSrv inject d [prog, ascii c, arg] k w = Exits 1 w"
  by (auto simp: server_main_def strncmp_eq_def ascii_def c_str_def)

text \<open>
  The result of \<open>Accept\<close> is not checked: when the control socket fails in \<open>recvmsg\<close>, the server
  starts its receive thread on a null transport.
\<close>

theorem Server_null_transport:
  assumes "argv = [prog, ascii ''handle-fd'', path]" "\<not> rs_no_instance k" "length path \<le> 108"
    and "rs_sockets k = \<lparr>fs_socket = Opens cfd, fs_connect = None, fs_recvmsg = RecvmsgFails e\<rparr>"
  shows "server_main mSrv inject d argv k w = Crashes NullPointer"
proof -
  have "length (c_str path) \<le> 108" using assms(3) length_c_str [of path] by simp
  then obtain b where b: "strncpy zero_path (c_str path) (length (c_str path)) = Inr b"
    using strncpy_defined [of "c_str path" "length (c_str path)"] by (auto simp: SUN_PATH_def)
  with assms show ?thesis
    by (simp add: server_main_def strncmp_eq_def FD_init_impl_def FD_accept_impl_def socket_defs)
qed

section \<open>Witnesses\<close>

text \<open>A wire server that answers each batch with the batch and counts, and a session with it.\<close>

definition echo :: "byte list \<Rightarrow> nat \<Rightarrow> byte list list \<times> nat" where
  "echo bs d = ([take 1000 bs], Suc d)"

definition demo_run_script :: "recv_event list \<Rightarrow> run_script" where
  "demo_run_script es =
     \<lparr>rs_sockets = \<lparr>fs_socket = Opens 3, fs_connect = None, fs_recvmsg = Message (Some (Rights 4))\<rparr>,
      rs_no_instance = False, rs_send_junk = (\<lambda>_. 1), rs_recv_junk = (\<lambda>_. 2), rs_stack = demo_stack,
      rs_events = es\<rparr>"

definition server_world :: world where
  "server_world = no_world\<lparr>send_script := (\<lambda>_. Accepts 65536)\<rparr>"

definition demo_argv :: "byte list list" where
  "demo_argv = [[120], ascii ''handle-fd'', ascii ''/s'']"

lemma echo_ok: "reply_sizes_ok echo"
  by (auto simp: reply_sizes_ok_def echo_def intro: order_trans [of _ 1000])

lemma server_world_ok: "accepts_all server_world" "tx server_world (int 4) = []"
  by (simp_all add: server_world_def no_world_def accepts_all_def SEND_BUF_def)

lemma demo_reply_batches: "reply_batches [[65, 66]] = [[[65, 66]]]" "reply_batches [[67]] = [[[67]]]"
  by (simp_all add: reply_batches_def queue_start_def queue_flush_def)

lemma demo_argv_ok: "demo_argv = [[120], ascii ''handle-fd'', ascii ''/s'']" "length (ascii ''/s'') \<le> 108"
  by (simp_all add: demo_argv_def ascii_def)



lemma Request_reply_round_trip_witness:
  "\<exists>oks sb' cw' w'. wire_run demo_ops demo_sender demo_link = Inr (oks, sb', cw')
     \<and> server_main (answering echo) Suc 0 demo_argv
          (demo_run_script (map Delivers (chunks_of 9 (tx cw' 3)) @ [Delivers []])) server_world = Exits 0 w'
     \<and> handler_view (CommandTransport_Recv demo_handler (map Delivers (chunks_of 4 (tx w' 4))) demo_stack
          (fresh_receiver 1 (\<lambda>_. 0)) []) = Some (Inr [[65, 66], [67]])"
proof -
  obtain oks sb' cw' where run: "wire_run demo_ops demo_sender demo_link = Inr (oks, sb', cw')" by (rule demo_run)
  let ?ps = "chunks_of 9 (tx cw' 3)"
  let ?k = "demo_run_script (map Delivers ?ps @ [Delivers []])"
  have bs: "tx cw' 3 = stream_bytes [[[65, 66], []], [[67]]]" "\<forall>b \<in> set [[[65, 66], []], [[67]]]. batch_ok b"
    using wire_stream [OF demo_sender_ok demo_ops_ok run] by (simp_all add: demo_queue)
  have ps: "pieces_ok ?ps" "concat ?ps = tx cw' 3"
    by (rule pieces_ok_chunks) (simp_all add: concat_chunks_of)
  have k: "\<not> rs_no_instance ?k" "stack_ok (rs_stack ?k)" "rs_events ?k = map Delivers ?ps @ [Delivers []]"
      "rs_sockets ?k = \<lparr>fs_socket = Opens 3, fs_connect = None, fs_recvmsg = Message (Some (Rights 4))\<rparr>"
    by (simp_all add: demo_run_script_def)
  have ne: "(3 :: nat) \<noteq> 4" by simp
  obtain w' where w': "server_main (answering echo) Suc 0 demo_argv ?k server_world = Exits 0 w'"
    using server_session [OF demo_argv_ok(1) k(1) demo_argv_ok(2) k(4) server_world_ok ne k(2) echo_ok bs(2)
        ps(1) _ k(3), of Suc 0] ps(2) bs(1) by auto
  have qs: "pieces_ok (chunks_of 4 (tx w' (int 4)))" "concat (chunks_of 4 (tx w' (int 4))) = tx w' (int 4)"
    by (rule pieces_ok_chunks) (simp_all add: concat_chunks_of)
  from Request_reply_round_trip [OF demo_argv_ok(1) k(1) demo_argv_ok(2) k(4) server_world_ok ne k(2) echo_ok ps k(3)
      demo_sender_ok demo_ops_ok run w' stack_ok_demo qs, of demo_handler 1 "\<lambda>_. 0" "[]"]
  show ?thesis
    using run w' by (auto simp: demo_queue echo_def demo_reply_batches demo_handler_def)
qed

lemma Server_flushes_after_each_batch_witness:
  "\<exists>sb' w'. DDWGPUServer_HandleCommands (\<lambda>bs d sb w. Inr (False, Suc d, sb, w)) 0 [1]
       (0, demo_sender, demo_link) = Inr (False, 1, sb', w') \<and> s_mOffset sb' = 0"
proof -
  have "SB_inv demo_sender" "SB_ready demo_sender demo_link"
    using demo_sender_ok(1,2) by (auto simp: holds_def connected_def SB_ready_def split: option.splits)
  from Server_flushes_after_each_batch [OF _ this, of "\<lambda>bs d sb w. Inr (False, Suc d, sb, w)" "[1]" 0 demo_sender
      demo_link False "Suc 0" 0]
  show ?thesis by auto
qed

lemma Documented_commands_rejected_witness:
  "server_main (answering echo) Suc 0 [[120], ascii ''serve-tcp'', ascii ''8080''] (demo_run_script []) server_world
     = Exits 1 server_world"
  by (rule Documented_commands_rejected) simp

lemma Server_null_transport_witness:
  "server_main (answering echo) Suc 0 demo_argv
     (demo_run_script []\<lparr>rs_sockets := \<lparr>fs_socket = Opens 3, fs_connect = None, fs_recvmsg = RecvmsgFails 104\<rparr>\<rparr>) server_world
     = Crashes NullPointer"
  by (rule Server_null_transport [OF demo_argv_ok(1) _ demo_argv_ok(2)]) (simp_all add: demo_run_script_def)

end
