(* ===== verification/Proc_Values.thy ===== *)
theory Proc_Values
  imports Command_Transport
begin

text \<open>
  The C types and values that cross the WebGPU API of \<open>include/webgpu.h\<close>, and what it means that
  an exported function forwards a call to an entry of the proc table. The functions themselves
  are in \<open>Proc_Objects\<close>, \<open>Proc_Encoders\<close> and \<open>Proc_Devices\<close>.
\<close>

section \<open>Types and values\<close>

text \<open>Handles and pointers are addresses, 0 is the null pointer; a \<open>float\<close> is its bit pattern.\<close>

type_synonym ptr = addr
type_synonym uint32 = "32 word"
type_synonym uint64 = "64 word"
type_synonym int32 = "32 word"
type_synonym float32 = "32 word"

datatype (plugins only: code size) object_kind =
    WGPUAdapter
  | WGPUBindGroup
  | WGPUBindGroupLayout
  | WGPUBuffer
  | WGPUCommandBuffer
  | WGPUCommandEncoder
  | WGPUComputePassEncoder
  | WGPUComputePipeline
  | WGPUDevice
  | WGPUExternalTexture
  | WGPUInstance
  | WGPUPipelineLayout
  | WGPUQuerySet
  | WGPUQueue
  | WGPURenderBundle
  | WGPURenderBundleEncoder
  | WGPURenderPassEncoder
  | WGPURenderPipeline
  | WGPUSampler
  | WGPUShaderModule
  | WGPUSharedBufferMemory
  | WGPUSharedFence
  | WGPUSharedTextureMemory
  | WGPUSurface
  | WGPUSwapChain
  | WGPUTexture
  | WGPUTextureView

datatype (plugins only: code size) ctype =
    Void
  | Obj object_kind
  | Uint16 | Uint32 | Uint64 | Size | Int32 | Float | Double | Bool
  | Enum string | Flags string
  | Pointer string
  | Callback string
  | Struct string

datatype (plugins only: code size) cval =
    VObj object_kind ptr
  | VUint32 uint32 | VUint64 uint64 | VSize size_t | VInt32 int32 | VFloat float32 | VBool uint32
  | VEnum string uint32 | VFlags string uint32
  | VPtr string ptr
  | VFun string ptr
  | VStruct string "byte list"

fun type_of :: "cval \<Rightarrow> ctype" where
  "type_of (VObj k p) = Obj k"
| "type_of (VUint32 x) = Uint32"
| "type_of (VUint64 x) = Uint64"
| "type_of (VSize x) = Size"
| "type_of (VInt32 x) = Int32"
| "type_of (VFloat x) = Float"
| "type_of (VBool x) = Bool"
| "type_of (VEnum t x) = Enum t"
| "type_of (VFlags t x) = Flags t"
| "type_of (VPtr t p) = Pointer t"
| "type_of (VFun t p) = Callback t"
| "type_of (VStruct t bs) = Struct t"

section \<open>Forwarding\<close>

text \<open>
  A call of an exported function becomes the entry of the proc table, the arguments passed to it
  and the type of the result. The entries' types are the \<open>WGPUProc\<close> typedefs of \<open>webgpu.h\<close>, whose
  prototypes say what a function is called with: its name, the parameters in their order, and the
  result. A family of functions forwards well if every call fits the type of its entry; nothing
  is lost: two different calls never become the same invocation; and what is passed on is what
  the prototype declares, to the entry of the same name.
\<close>

locale forwarding =
  fixes forward :: "'call \<Rightarrow> 'slot \<times> cval list \<times> ctype"
    and signature :: "'slot \<Rightarrow> ctype list \<times> ctype"
    and declared :: "'call \<Rightarrow> string \<times> cval list \<times> ctype"
    and entry :: "'slot \<Rightarrow> string"
  assumes well_typed: "forward c = (s, args, r) \<Longrightarrow> signature s = (map type_of args, r)"
    and faithful: "forward c = forward c' \<Longrightarrow> c = c'"
    and as_declared: "declared c = (entry (fst (forward c)), snd (forward c))"
begin

lemma result_type: "forward c = (s, args, r) \<Longrightarrow> r = snd (signature s)"
  using well_typed by simp

lemma slot_and_arguments:
  assumes "fst (forward c) = fst (forward c')" "fst (snd (forward c)) = fst (snd (forward c'))"
  shows "c = c'"
proof (rule faithful)
  show "forward c = forward c'"
    using assms result_type [of c] result_type [of c'] by (metis prod.collapse)
qed

lemma forwards_as_declared:
  "case forward c of (s, args, r) \<Rightarrow> declared c = (entry s, args, r) \<and> signature s = (map type_of args, r)"
  using well_typed as_declared by (auto split: prod.split)

end

end
