(* ===== verification/Proc_Objects.thy ===== *)
theory Proc_Objects
  imports Proc_Values
begin

text \<open>
  The exported functions of \<open>src/client/proc.cpp\<close> on instances, adapters, queues, buffers, bind groups,
  pipelines, query sets and render bundles, and those without an object. For each family: the entries of
  the proc table, the calls, what a call forwards to (as the function bodies do), the types of
  the entries and the prototypes of the functions (both from \<open>webgpu.h\<close>), and the contract of \<open>forwarding\<close>.
\<close>

section \<open>Global\<close>

datatype (plugins only: code size) Global_slot =
    adapterPropertiesFreeMembers
  | adapterPropertiesMemoryHeapsFreeMembers
  | createInstance
  | drmFormatCapabilitiesFreeMembers
  | getInstanceFeatures
  | getProcAddress
  | sharedBufferMemoryEndAccessStateFreeMembers
  | sharedTextureMemoryEndAccessStateFreeMembers

datatype (plugins only: code size) Global_call =
    wgpuAdapterPropertiesFreeMembers "byte list"
  | wgpuAdapterPropertiesMemoryHeapsFreeMembers "byte list"
  | wgpuCreateInstance ptr
  | wgpuDrmFormatCapabilitiesFreeMembers "byte list"
  | wgpuGetInstanceFeatures ptr
  | wgpuGetProcAddress ptr ptr
  | wgpuSharedBufferMemoryEndAccessStateFreeMembers "byte list"
  | wgpuSharedTextureMemoryEndAccessStateFreeMembers "byte list"

primrec Global_forward :: "Global_call \<Rightarrow> Global_slot \<times> cval list \<times> ctype" where
  "Global_forward (wgpuAdapterPropertiesFreeMembers value0) = (adapterPropertiesFreeMembers, [VStruct ''WGPUAdapterProperties'' value0], Void)"
| "Global_forward (wgpuAdapterPropertiesMemoryHeapsFreeMembers value0) = (adapterPropertiesMemoryHeapsFreeMembers, [VStruct ''WGPUAdapterPropertiesMemoryHeaps'' value0], Void)"
| "Global_forward (wgpuCreateInstance descriptor) = (createInstance, [VPtr ''WGPUInstanceDescriptor const'' descriptor], Obj WGPUInstance)"
| "Global_forward (wgpuDrmFormatCapabilitiesFreeMembers value0) = (drmFormatCapabilitiesFreeMembers, [VStruct ''WGPUDrmFormatCapabilities'' value0], Void)"
| "Global_forward (wgpuGetInstanceFeatures features) = (getInstanceFeatures, [VPtr ''WGPUInstanceFeatures'' features], Bool)"
| "Global_forward (wgpuGetProcAddress device procName) = (getProcAddress, [VObj WGPUDevice device, VPtr ''char const'' procName], Callback ''WGPUProc'')"
| "Global_forward (wgpuSharedBufferMemoryEndAccessStateFreeMembers value0) = (sharedBufferMemoryEndAccessStateFreeMembers, [VStruct ''WGPUSharedBufferMemoryEndAccessState'' value0], Void)"
| "Global_forward (wgpuSharedTextureMemoryEndAccessStateFreeMembers value0) = (sharedTextureMemoryEndAccessStateFreeMembers, [VStruct ''WGPUSharedTextureMemoryEndAccessState'' value0], Void)"

primrec Global_signature :: "Global_slot \<Rightarrow> ctype list \<times> ctype" where
  "Global_signature adapterPropertiesFreeMembers = ([Struct ''WGPUAdapterProperties''], Void)"
| "Global_signature adapterPropertiesMemoryHeapsFreeMembers = ([Struct ''WGPUAdapterPropertiesMemoryHeaps''], Void)"
| "Global_signature createInstance = ([Pointer ''WGPUInstanceDescriptor const''], Obj WGPUInstance)"
| "Global_signature drmFormatCapabilitiesFreeMembers = ([Struct ''WGPUDrmFormatCapabilities''], Void)"
| "Global_signature getInstanceFeatures = ([Pointer ''WGPUInstanceFeatures''], Bool)"
| "Global_signature getProcAddress = ([Obj WGPUDevice, Pointer ''char const''], Callback ''WGPUProc'')"
| "Global_signature sharedBufferMemoryEndAccessStateFreeMembers = ([Struct ''WGPUSharedBufferMemoryEndAccessState''], Void)"
| "Global_signature sharedTextureMemoryEndAccessStateFreeMembers = ([Struct ''WGPUSharedTextureMemoryEndAccessState''], Void)"

primrec Global_declared :: "Global_call \<Rightarrow> string \<times> cval list \<times> ctype" where
  "Global_declared (wgpuAdapterPropertiesFreeMembers value0) = (''AdapterPropertiesFreeMembers'', [VStruct ''WGPUAdapterProperties'' value0], Void)"
| "Global_declared (wgpuAdapterPropertiesMemoryHeapsFreeMembers value0) = (''AdapterPropertiesMemoryHeapsFreeMembers'', [VStruct ''WGPUAdapterPropertiesMemoryHeaps'' value0], Void)"
| "Global_declared (wgpuCreateInstance descriptor) = (''CreateInstance'', [VPtr ''WGPUInstanceDescriptor const'' descriptor], Obj WGPUInstance)"
| "Global_declared (wgpuDrmFormatCapabilitiesFreeMembers value0) = (''DrmFormatCapabilitiesFreeMembers'', [VStruct ''WGPUDrmFormatCapabilities'' value0], Void)"
| "Global_declared (wgpuGetInstanceFeatures features) = (''GetInstanceFeatures'', [VPtr ''WGPUInstanceFeatures'' features], Bool)"
| "Global_declared (wgpuGetProcAddress device procName) = (''GetProcAddress'', [VObj WGPUDevice device, VPtr ''char const'' procName], Callback ''WGPUProc'')"
| "Global_declared (wgpuSharedBufferMemoryEndAccessStateFreeMembers value0) = (''SharedBufferMemoryEndAccessStateFreeMembers'', [VStruct ''WGPUSharedBufferMemoryEndAccessState'' value0], Void)"
| "Global_declared (wgpuSharedTextureMemoryEndAccessStateFreeMembers value0) = (''SharedTextureMemoryEndAccessStateFreeMembers'', [VStruct ''WGPUSharedTextureMemoryEndAccessState'' value0], Void)"

primrec Global_entry :: "Global_slot \<Rightarrow> string" where
  "Global_entry adapterPropertiesFreeMembers = ''AdapterPropertiesFreeMembers''"
| "Global_entry adapterPropertiesMemoryHeapsFreeMembers = ''AdapterPropertiesMemoryHeapsFreeMembers''"
| "Global_entry createInstance = ''CreateInstance''"
| "Global_entry drmFormatCapabilitiesFreeMembers = ''DrmFormatCapabilitiesFreeMembers''"
| "Global_entry getInstanceFeatures = ''GetInstanceFeatures''"
| "Global_entry getProcAddress = ''GetProcAddress''"
| "Global_entry sharedBufferMemoryEndAccessStateFreeMembers = ''SharedBufferMemoryEndAccessStateFreeMembers''"
| "Global_entry sharedTextureMemoryEndAccessStateFreeMembers = ''SharedTextureMemoryEndAccessStateFreeMembers''"

interpretation global_fw: forwarding Global_forward Global_signature Global_declared Global_entry
proof unfold_locales
  fix c c' :: Global_call and s args r
  show "Global_forward c = (s, args, r) \<Longrightarrow> Global_signature s = (map type_of args, r)"
    by (cases c) auto
  show "Global_forward c = Global_forward c' \<Longrightarrow> c = c'"
    by (cases c; cases c'; simp)
  show "Global_declared c = (Global_entry (fst (Global_forward c)), snd (Global_forward c))"
    by (cases c) simp_all
qed

section \<open>Adapter\<close>

datatype (plugins only: code size) Adapter_slot =
    adapterCreateDevice
  | adapterEnumerateFeatures
  | adapterGetFormatCapabilities
  | adapterGetInstance
  | adapterGetLimits
  | adapterGetProperties
  | adapterHasFeature
  | adapterRequestDevice
  | adapterRequestDeviceF
  | adapterReference
  | adapterRelease

datatype (plugins only: code size) Adapter_call =
    wgpuAdapterCreateDevice ptr ptr
  | wgpuAdapterEnumerateFeatures ptr ptr
  | wgpuAdapterGetFormatCapabilities ptr uint32 ptr
  | wgpuAdapterGetInstance ptr
  | wgpuAdapterGetLimits ptr ptr
  | wgpuAdapterGetProperties ptr ptr
  | wgpuAdapterHasFeature ptr uint32
  | wgpuAdapterRequestDevice ptr ptr ptr ptr
  | wgpuAdapterRequestDeviceF ptr ptr "byte list"
  | wgpuAdapterReference ptr
  | wgpuAdapterRelease ptr

primrec Adapter_forward :: "Adapter_call \<Rightarrow> Adapter_slot \<times> cval list \<times> ctype" where
  "Adapter_forward (wgpuAdapterCreateDevice adapter descriptor) = (adapterCreateDevice, [VObj WGPUAdapter adapter, VPtr ''WGPUDeviceDescriptor const'' descriptor], Obj WGPUDevice)"
| "Adapter_forward (wgpuAdapterEnumerateFeatures adapter features) = (adapterEnumerateFeatures, [VObj WGPUAdapter adapter, VPtr ''WGPUFeatureName'' features], Size)"
| "Adapter_forward (wgpuAdapterGetFormatCapabilities adapter format capabilities) = (adapterGetFormatCapabilities, [VObj WGPUAdapter adapter, VEnum ''WGPUTextureFormat'' format, VPtr ''WGPUFormatCapabilities'' capabilities], Bool)"
| "Adapter_forward (wgpuAdapterGetInstance adapter) = (adapterGetInstance, [VObj WGPUAdapter adapter], Obj WGPUInstance)"
| "Adapter_forward (wgpuAdapterGetLimits adapter limits) = (adapterGetLimits, [VObj WGPUAdapter adapter, VPtr ''WGPUSupportedLimits'' limits], Bool)"
| "Adapter_forward (wgpuAdapterGetProperties adapter properties) = (adapterGetProperties, [VObj WGPUAdapter adapter, VPtr ''WGPUAdapterProperties'' properties], Void)"
| "Adapter_forward (wgpuAdapterHasFeature adapter feature) = (adapterHasFeature, [VObj WGPUAdapter adapter, VEnum ''WGPUFeatureName'' feature], Bool)"
| "Adapter_forward (wgpuAdapterRequestDevice adapter descriptor callback userdata) = (adapterRequestDevice, [VObj WGPUAdapter adapter, VPtr ''WGPUDeviceDescriptor const'' descriptor, VFun ''WGPURequestDeviceCallback'' callback, VPtr ''void'' userdata], Void)"
| "Adapter_forward (wgpuAdapterRequestDeviceF adapter opts callbackInfo) = (adapterRequestDeviceF, [VObj WGPUAdapter adapter, VPtr ''WGPUDeviceDescriptor const'' opts, VStruct ''WGPURequestDeviceCallbackInfo'' callbackInfo], Struct ''WGPUFuture'')"
| "Adapter_forward (wgpuAdapterReference adapter) = (adapterReference, [VObj WGPUAdapter adapter], Void)"
| "Adapter_forward (wgpuAdapterRelease adapter) = (adapterRelease, [VObj WGPUAdapter adapter], Void)"

primrec Adapter_signature :: "Adapter_slot \<Rightarrow> ctype list \<times> ctype" where
  "Adapter_signature adapterCreateDevice = ([Obj WGPUAdapter, Pointer ''WGPUDeviceDescriptor const''], Obj WGPUDevice)"
| "Adapter_signature adapterEnumerateFeatures = ([Obj WGPUAdapter, Pointer ''WGPUFeatureName''], Size)"
| "Adapter_signature adapterGetFormatCapabilities = ([Obj WGPUAdapter, Enum ''WGPUTextureFormat'', Pointer ''WGPUFormatCapabilities''], Bool)"
| "Adapter_signature adapterGetInstance = ([Obj WGPUAdapter], Obj WGPUInstance)"
| "Adapter_signature adapterGetLimits = ([Obj WGPUAdapter, Pointer ''WGPUSupportedLimits''], Bool)"
| "Adapter_signature adapterGetProperties = ([Obj WGPUAdapter, Pointer ''WGPUAdapterProperties''], Void)"
| "Adapter_signature adapterHasFeature = ([Obj WGPUAdapter, Enum ''WGPUFeatureName''], Bool)"
| "Adapter_signature adapterRequestDevice = ([Obj WGPUAdapter, Pointer ''WGPUDeviceDescriptor const'', Callback ''WGPURequestDeviceCallback'', Pointer ''void''], Void)"
| "Adapter_signature adapterRequestDeviceF = ([Obj WGPUAdapter, Pointer ''WGPUDeviceDescriptor const'', Struct ''WGPURequestDeviceCallbackInfo''], Struct ''WGPUFuture'')"
| "Adapter_signature adapterReference = ([Obj WGPUAdapter], Void)"
| "Adapter_signature adapterRelease = ([Obj WGPUAdapter], Void)"

primrec Adapter_declared :: "Adapter_call \<Rightarrow> string \<times> cval list \<times> ctype" where
  "Adapter_declared (wgpuAdapterCreateDevice adapter descriptor) = (''AdapterCreateDevice'', [VObj WGPUAdapter adapter, VPtr ''WGPUDeviceDescriptor const'' descriptor], Obj WGPUDevice)"
| "Adapter_declared (wgpuAdapterEnumerateFeatures adapter features) = (''AdapterEnumerateFeatures'', [VObj WGPUAdapter adapter, VPtr ''WGPUFeatureName'' features], Size)"
| "Adapter_declared (wgpuAdapterGetFormatCapabilities adapter format capabilities) = (''AdapterGetFormatCapabilities'', [VObj WGPUAdapter adapter, VEnum ''WGPUTextureFormat'' format, VPtr ''WGPUFormatCapabilities'' capabilities], Bool)"
| "Adapter_declared (wgpuAdapterGetInstance adapter) = (''AdapterGetInstance'', [VObj WGPUAdapter adapter], Obj WGPUInstance)"
| "Adapter_declared (wgpuAdapterGetLimits adapter limits) = (''AdapterGetLimits'', [VObj WGPUAdapter adapter, VPtr ''WGPUSupportedLimits'' limits], Bool)"
| "Adapter_declared (wgpuAdapterGetProperties adapter properties) = (''AdapterGetProperties'', [VObj WGPUAdapter adapter, VPtr ''WGPUAdapterProperties'' properties], Void)"
| "Adapter_declared (wgpuAdapterHasFeature adapter feature) = (''AdapterHasFeature'', [VObj WGPUAdapter adapter, VEnum ''WGPUFeatureName'' feature], Bool)"
| "Adapter_declared (wgpuAdapterRequestDevice adapter descriptor callback userdata) = (''AdapterRequestDevice'', [VObj WGPUAdapter adapter, VPtr ''WGPUDeviceDescriptor const'' descriptor, VFun ''WGPURequestDeviceCallback'' callback, VPtr ''void'' userdata], Void)"
| "Adapter_declared (wgpuAdapterRequestDeviceF adapter opts callbackInfo) = (''AdapterRequestDeviceF'', [VObj WGPUAdapter adapter, VPtr ''WGPUDeviceDescriptor const'' opts, VStruct ''WGPURequestDeviceCallbackInfo'' callbackInfo], Struct ''WGPUFuture'')"
| "Adapter_declared (wgpuAdapterReference adapter) = (''AdapterReference'', [VObj WGPUAdapter adapter], Void)"
| "Adapter_declared (wgpuAdapterRelease adapter) = (''AdapterRelease'', [VObj WGPUAdapter adapter], Void)"

primrec Adapter_entry :: "Adapter_slot \<Rightarrow> string" where
  "Adapter_entry adapterCreateDevice = ''AdapterCreateDevice''"
| "Adapter_entry adapterEnumerateFeatures = ''AdapterEnumerateFeatures''"
| "Adapter_entry adapterGetFormatCapabilities = ''AdapterGetFormatCapabilities''"
| "Adapter_entry adapterGetInstance = ''AdapterGetInstance''"
| "Adapter_entry adapterGetLimits = ''AdapterGetLimits''"
| "Adapter_entry adapterGetProperties = ''AdapterGetProperties''"
| "Adapter_entry adapterHasFeature = ''AdapterHasFeature''"
| "Adapter_entry adapterRequestDevice = ''AdapterRequestDevice''"
| "Adapter_entry adapterRequestDeviceF = ''AdapterRequestDeviceF''"
| "Adapter_entry adapterReference = ''AdapterReference''"
| "Adapter_entry adapterRelease = ''AdapterRelease''"

interpretation adapter_fw: forwarding Adapter_forward Adapter_signature Adapter_declared Adapter_entry
proof unfold_locales
  fix c c' :: Adapter_call and s args r
  show "Adapter_forward c = (s, args, r) \<Longrightarrow> Adapter_signature s = (map type_of args, r)"
    by (cases c) auto
  show "Adapter_forward c = Adapter_forward c' \<Longrightarrow> c = c'"
    by (cases c; cases c'; simp)
  show "Adapter_declared c = (Adapter_entry (fst (Adapter_forward c)), snd (Adapter_forward c))"
    by (cases c) simp_all
qed

section \<open>BindGroup\<close>

datatype (plugins only: code size) BindGroup_slot =
    bindGroupSetLabel
  | bindGroupReference
  | bindGroupRelease

datatype (plugins only: code size) BindGroup_call =
    wgpuBindGroupSetLabel ptr ptr
  | wgpuBindGroupReference ptr
  | wgpuBindGroupRelease ptr

primrec BindGroup_forward :: "BindGroup_call \<Rightarrow> BindGroup_slot \<times> cval list \<times> ctype" where
  "BindGroup_forward (wgpuBindGroupSetLabel bindGroup label0) = (bindGroupSetLabel, [VObj WGPUBindGroup bindGroup, VPtr ''char const'' label0], Void)"
| "BindGroup_forward (wgpuBindGroupReference bindGroup) = (bindGroupReference, [VObj WGPUBindGroup bindGroup], Void)"
| "BindGroup_forward (wgpuBindGroupRelease bindGroup) = (bindGroupRelease, [VObj WGPUBindGroup bindGroup], Void)"

primrec BindGroup_signature :: "BindGroup_slot \<Rightarrow> ctype list \<times> ctype" where
  "BindGroup_signature bindGroupSetLabel = ([Obj WGPUBindGroup, Pointer ''char const''], Void)"
| "BindGroup_signature bindGroupReference = ([Obj WGPUBindGroup], Void)"
| "BindGroup_signature bindGroupRelease = ([Obj WGPUBindGroup], Void)"

primrec BindGroup_declared :: "BindGroup_call \<Rightarrow> string \<times> cval list \<times> ctype" where
  "BindGroup_declared (wgpuBindGroupSetLabel bindGroup label0) = (''BindGroupSetLabel'', [VObj WGPUBindGroup bindGroup, VPtr ''char const'' label0], Void)"
| "BindGroup_declared (wgpuBindGroupReference bindGroup) = (''BindGroupReference'', [VObj WGPUBindGroup bindGroup], Void)"
| "BindGroup_declared (wgpuBindGroupRelease bindGroup) = (''BindGroupRelease'', [VObj WGPUBindGroup bindGroup], Void)"

primrec BindGroup_entry :: "BindGroup_slot \<Rightarrow> string" where
  "BindGroup_entry bindGroupSetLabel = ''BindGroupSetLabel''"
| "BindGroup_entry bindGroupReference = ''BindGroupReference''"
| "BindGroup_entry bindGroupRelease = ''BindGroupRelease''"

interpretation bindgroup_fw: forwarding BindGroup_forward BindGroup_signature BindGroup_declared BindGroup_entry
proof unfold_locales
  fix c c' :: BindGroup_call and s args r
  show "BindGroup_forward c = (s, args, r) \<Longrightarrow> BindGroup_signature s = (map type_of args, r)"
    by (cases c) auto
  show "BindGroup_forward c = BindGroup_forward c' \<Longrightarrow> c = c'"
    by (cases c; cases c'; simp)
  show "BindGroup_declared c = (BindGroup_entry (fst (BindGroup_forward c)), snd (BindGroup_forward c))"
    by (cases c) simp_all
qed

section \<open>BindGroupLayout\<close>

datatype (plugins only: code size) BindGroupLayout_slot =
    bindGroupLayoutSetLabel
  | bindGroupLayoutReference
  | bindGroupLayoutRelease

datatype (plugins only: code size) BindGroupLayout_call =
    wgpuBindGroupLayoutSetLabel ptr ptr
  | wgpuBindGroupLayoutReference ptr
  | wgpuBindGroupLayoutRelease ptr

primrec BindGroupLayout_forward :: "BindGroupLayout_call \<Rightarrow> BindGroupLayout_slot \<times> cval list \<times> ctype" where
  "BindGroupLayout_forward (wgpuBindGroupLayoutSetLabel bindGroupLayout label0) = (bindGroupLayoutSetLabel, [VObj WGPUBindGroupLayout bindGroupLayout, VPtr ''char const'' label0], Void)"
| "BindGroupLayout_forward (wgpuBindGroupLayoutReference bindGroupLayout) = (bindGroupLayoutReference, [VObj WGPUBindGroupLayout bindGroupLayout], Void)"
| "BindGroupLayout_forward (wgpuBindGroupLayoutRelease bindGroupLayout) = (bindGroupLayoutRelease, [VObj WGPUBindGroupLayout bindGroupLayout], Void)"

primrec BindGroupLayout_signature :: "BindGroupLayout_slot \<Rightarrow> ctype list \<times> ctype" where
  "BindGroupLayout_signature bindGroupLayoutSetLabel = ([Obj WGPUBindGroupLayout, Pointer ''char const''], Void)"
| "BindGroupLayout_signature bindGroupLayoutReference = ([Obj WGPUBindGroupLayout], Void)"
| "BindGroupLayout_signature bindGroupLayoutRelease = ([Obj WGPUBindGroupLayout], Void)"

primrec BindGroupLayout_declared :: "BindGroupLayout_call \<Rightarrow> string \<times> cval list \<times> ctype" where
  "BindGroupLayout_declared (wgpuBindGroupLayoutSetLabel bindGroupLayout label0) = (''BindGroupLayoutSetLabel'', [VObj WGPUBindGroupLayout bindGroupLayout, VPtr ''char const'' label0], Void)"
| "BindGroupLayout_declared (wgpuBindGroupLayoutReference bindGroupLayout) = (''BindGroupLayoutReference'', [VObj WGPUBindGroupLayout bindGroupLayout], Void)"
| "BindGroupLayout_declared (wgpuBindGroupLayoutRelease bindGroupLayout) = (''BindGroupLayoutRelease'', [VObj WGPUBindGroupLayout bindGroupLayout], Void)"

primrec BindGroupLayout_entry :: "BindGroupLayout_slot \<Rightarrow> string" where
  "BindGroupLayout_entry bindGroupLayoutSetLabel = ''BindGroupLayoutSetLabel''"
| "BindGroupLayout_entry bindGroupLayoutReference = ''BindGroupLayoutReference''"
| "BindGroupLayout_entry bindGroupLayoutRelease = ''BindGroupLayoutRelease''"

interpretation bindgrouplayout_fw: forwarding BindGroupLayout_forward BindGroupLayout_signature BindGroupLayout_declared BindGroupLayout_entry
proof unfold_locales
  fix c c' :: BindGroupLayout_call and s args r
  show "BindGroupLayout_forward c = (s, args, r) \<Longrightarrow> BindGroupLayout_signature s = (map type_of args, r)"
    by (cases c) auto
  show "BindGroupLayout_forward c = BindGroupLayout_forward c' \<Longrightarrow> c = c'"
    by (cases c; cases c'; simp)
  show "BindGroupLayout_declared c = (BindGroupLayout_entry (fst (BindGroupLayout_forward c)), snd (BindGroupLayout_forward c))"
    by (cases c) simp_all
qed

section \<open>Buffer\<close>

datatype (plugins only: code size) Buffer_slot =
    bufferDestroy
  | bufferGetConstMappedRange
  | bufferGetMapState
  | bufferGetMappedRange
  | bufferGetSize
  | bufferGetUsage
  | bufferMapAsync
  | bufferMapAsyncF
  | bufferSetLabel
  | bufferUnmap
  | bufferReference
  | bufferRelease

datatype (plugins only: code size) Buffer_call =
    wgpuBufferDestroy ptr
  | wgpuBufferGetConstMappedRange ptr size_t size_t
  | wgpuBufferGetMapState ptr
  | wgpuBufferGetMappedRange ptr size_t size_t
  | wgpuBufferGetSize ptr
  | wgpuBufferGetUsage ptr
  | wgpuBufferMapAsync ptr uint32 size_t size_t ptr ptr
  | wgpuBufferMapAsyncF ptr uint32 size_t size_t "byte list"
  | wgpuBufferSetLabel ptr ptr
  | wgpuBufferUnmap ptr
  | wgpuBufferReference ptr
  | wgpuBufferRelease ptr

primrec Buffer_forward :: "Buffer_call \<Rightarrow> Buffer_slot \<times> cval list \<times> ctype" where
  "Buffer_forward (wgpuBufferDestroy buffer) = (bufferDestroy, [VObj WGPUBuffer buffer], Void)"
| "Buffer_forward (wgpuBufferGetConstMappedRange buffer offset sz) = (bufferGetConstMappedRange, [VObj WGPUBuffer buffer, VSize offset, VSize sz], Pointer ''void const'')"
| "Buffer_forward (wgpuBufferGetMapState buffer) = (bufferGetMapState, [VObj WGPUBuffer buffer], Enum ''WGPUBufferMapState'')"
| "Buffer_forward (wgpuBufferGetMappedRange buffer offset sz) = (bufferGetMappedRange, [VObj WGPUBuffer buffer, VSize offset, VSize sz], Pointer ''void'')"
| "Buffer_forward (wgpuBufferGetSize buffer) = (bufferGetSize, [VObj WGPUBuffer buffer], Uint64)"
| "Buffer_forward (wgpuBufferGetUsage buffer) = (bufferGetUsage, [VObj WGPUBuffer buffer], Flags ''WGPUBufferUsageFlags'')"
| "Buffer_forward (wgpuBufferMapAsync buffer mode offset sz callback userdata) = (bufferMapAsync, [VObj WGPUBuffer buffer, VFlags ''WGPUMapModeFlags'' mode, VSize offset, VSize sz, VFun ''WGPUBufferMapCallback'' callback, VPtr ''void'' userdata], Void)"
| "Buffer_forward (wgpuBufferMapAsyncF buffer mode offset sz callbackInfo) = (bufferMapAsyncF, [VObj WGPUBuffer buffer, VFlags ''WGPUMapModeFlags'' mode, VSize offset, VSize sz, VStruct ''WGPUBufferMapCallbackInfo'' callbackInfo], Struct ''WGPUFuture'')"
| "Buffer_forward (wgpuBufferSetLabel buffer label0) = (bufferSetLabel, [VObj WGPUBuffer buffer, VPtr ''char const'' label0], Void)"
| "Buffer_forward (wgpuBufferUnmap buffer) = (bufferUnmap, [VObj WGPUBuffer buffer], Void)"
| "Buffer_forward (wgpuBufferReference buffer) = (bufferReference, [VObj WGPUBuffer buffer], Void)"
| "Buffer_forward (wgpuBufferRelease buffer) = (bufferRelease, [VObj WGPUBuffer buffer], Void)"

primrec Buffer_signature :: "Buffer_slot \<Rightarrow> ctype list \<times> ctype" where
  "Buffer_signature bufferDestroy = ([Obj WGPUBuffer], Void)"
| "Buffer_signature bufferGetConstMappedRange = ([Obj WGPUBuffer, Size, Size], Pointer ''void const'')"
| "Buffer_signature bufferGetMapState = ([Obj WGPUBuffer], Enum ''WGPUBufferMapState'')"
| "Buffer_signature bufferGetMappedRange = ([Obj WGPUBuffer, Size, Size], Pointer ''void'')"
| "Buffer_signature bufferGetSize = ([Obj WGPUBuffer], Uint64)"
| "Buffer_signature bufferGetUsage = ([Obj WGPUBuffer], Flags ''WGPUBufferUsageFlags'')"
| "Buffer_signature bufferMapAsync = ([Obj WGPUBuffer, Flags ''WGPUMapModeFlags'', Size, Size, Callback ''WGPUBufferMapCallback'', Pointer ''void''], Void)"
| "Buffer_signature bufferMapAsyncF = ([Obj WGPUBuffer, Flags ''WGPUMapModeFlags'', Size, Size, Struct ''WGPUBufferMapCallbackInfo''], Struct ''WGPUFuture'')"
| "Buffer_signature bufferSetLabel = ([Obj WGPUBuffer, Pointer ''char const''], Void)"
| "Buffer_signature bufferUnmap = ([Obj WGPUBuffer], Void)"
| "Buffer_signature bufferReference = ([Obj WGPUBuffer], Void)"
| "Buffer_signature bufferRelease = ([Obj WGPUBuffer], Void)"

primrec Buffer_declared :: "Buffer_call \<Rightarrow> string \<times> cval list \<times> ctype" where
  "Buffer_declared (wgpuBufferDestroy buffer) = (''BufferDestroy'', [VObj WGPUBuffer buffer], Void)"
| "Buffer_declared (wgpuBufferGetConstMappedRange buffer offset sz) = (''BufferGetConstMappedRange'', [VObj WGPUBuffer buffer, VSize offset, VSize sz], Pointer ''void const'')"
| "Buffer_declared (wgpuBufferGetMapState buffer) = (''BufferGetMapState'', [VObj WGPUBuffer buffer], Enum ''WGPUBufferMapState'')"
| "Buffer_declared (wgpuBufferGetMappedRange buffer offset sz) = (''BufferGetMappedRange'', [VObj WGPUBuffer buffer, VSize offset, VSize sz], Pointer ''void'')"
| "Buffer_declared (wgpuBufferGetSize buffer) = (''BufferGetSize'', [VObj WGPUBuffer buffer], Uint64)"
| "Buffer_declared (wgpuBufferGetUsage buffer) = (''BufferGetUsage'', [VObj WGPUBuffer buffer], Flags ''WGPUBufferUsageFlags'')"
| "Buffer_declared (wgpuBufferMapAsync buffer mode offset sz callback userdata) = (''BufferMapAsync'', [VObj WGPUBuffer buffer, VFlags ''WGPUMapModeFlags'' mode, VSize offset, VSize sz, VFun ''WGPUBufferMapCallback'' callback, VPtr ''void'' userdata], Void)"
| "Buffer_declared (wgpuBufferMapAsyncF buffer mode offset sz callbackInfo) = (''BufferMapAsyncF'', [VObj WGPUBuffer buffer, VFlags ''WGPUMapModeFlags'' mode, VSize offset, VSize sz, VStruct ''WGPUBufferMapCallbackInfo'' callbackInfo], Struct ''WGPUFuture'')"
| "Buffer_declared (wgpuBufferSetLabel buffer label0) = (''BufferSetLabel'', [VObj WGPUBuffer buffer, VPtr ''char const'' label0], Void)"
| "Buffer_declared (wgpuBufferUnmap buffer) = (''BufferUnmap'', [VObj WGPUBuffer buffer], Void)"
| "Buffer_declared (wgpuBufferReference buffer) = (''BufferReference'', [VObj WGPUBuffer buffer], Void)"
| "Buffer_declared (wgpuBufferRelease buffer) = (''BufferRelease'', [VObj WGPUBuffer buffer], Void)"

primrec Buffer_entry :: "Buffer_slot \<Rightarrow> string" where
  "Buffer_entry bufferDestroy = ''BufferDestroy''"
| "Buffer_entry bufferGetConstMappedRange = ''BufferGetConstMappedRange''"
| "Buffer_entry bufferGetMapState = ''BufferGetMapState''"
| "Buffer_entry bufferGetMappedRange = ''BufferGetMappedRange''"
| "Buffer_entry bufferGetSize = ''BufferGetSize''"
| "Buffer_entry bufferGetUsage = ''BufferGetUsage''"
| "Buffer_entry bufferMapAsync = ''BufferMapAsync''"
| "Buffer_entry bufferMapAsyncF = ''BufferMapAsyncF''"
| "Buffer_entry bufferSetLabel = ''BufferSetLabel''"
| "Buffer_entry bufferUnmap = ''BufferUnmap''"
| "Buffer_entry bufferReference = ''BufferReference''"
| "Buffer_entry bufferRelease = ''BufferRelease''"

interpretation buffer_fw: forwarding Buffer_forward Buffer_signature Buffer_declared Buffer_entry
proof unfold_locales
  fix c c' :: Buffer_call and s args r
  show "Buffer_forward c = (s, args, r) \<Longrightarrow> Buffer_signature s = (map type_of args, r)"
    by (cases c) auto
  show "Buffer_forward c = Buffer_forward c' \<Longrightarrow> c = c'"
    by (cases c; cases c'; simp)
  show "Buffer_declared c = (Buffer_entry (fst (Buffer_forward c)), snd (Buffer_forward c))"
    by (cases c) simp_all
qed

section \<open>CommandBuffer\<close>

datatype (plugins only: code size) CommandBuffer_slot =
    commandBufferSetLabel
  | commandBufferReference
  | commandBufferRelease

datatype (plugins only: code size) CommandBuffer_call =
    wgpuCommandBufferSetLabel ptr ptr
  | wgpuCommandBufferReference ptr
  | wgpuCommandBufferRelease ptr

primrec CommandBuffer_forward :: "CommandBuffer_call \<Rightarrow> CommandBuffer_slot \<times> cval list \<times> ctype" where
  "CommandBuffer_forward (wgpuCommandBufferSetLabel commandBuffer label0) = (commandBufferSetLabel, [VObj WGPUCommandBuffer commandBuffer, VPtr ''char const'' label0], Void)"
| "CommandBuffer_forward (wgpuCommandBufferReference commandBuffer) = (commandBufferReference, [VObj WGPUCommandBuffer commandBuffer], Void)"
| "CommandBuffer_forward (wgpuCommandBufferRelease commandBuffer) = (commandBufferRelease, [VObj WGPUCommandBuffer commandBuffer], Void)"

primrec CommandBuffer_signature :: "CommandBuffer_slot \<Rightarrow> ctype list \<times> ctype" where
  "CommandBuffer_signature commandBufferSetLabel = ([Obj WGPUCommandBuffer, Pointer ''char const''], Void)"
| "CommandBuffer_signature commandBufferReference = ([Obj WGPUCommandBuffer], Void)"
| "CommandBuffer_signature commandBufferRelease = ([Obj WGPUCommandBuffer], Void)"

primrec CommandBuffer_declared :: "CommandBuffer_call \<Rightarrow> string \<times> cval list \<times> ctype" where
  "CommandBuffer_declared (wgpuCommandBufferSetLabel commandBuffer label0) = (''CommandBufferSetLabel'', [VObj WGPUCommandBuffer commandBuffer, VPtr ''char const'' label0], Void)"
| "CommandBuffer_declared (wgpuCommandBufferReference commandBuffer) = (''CommandBufferReference'', [VObj WGPUCommandBuffer commandBuffer], Void)"
| "CommandBuffer_declared (wgpuCommandBufferRelease commandBuffer) = (''CommandBufferRelease'', [VObj WGPUCommandBuffer commandBuffer], Void)"

primrec CommandBuffer_entry :: "CommandBuffer_slot \<Rightarrow> string" where
  "CommandBuffer_entry commandBufferSetLabel = ''CommandBufferSetLabel''"
| "CommandBuffer_entry commandBufferReference = ''CommandBufferReference''"
| "CommandBuffer_entry commandBufferRelease = ''CommandBufferRelease''"

interpretation commandbuffer_fw: forwarding CommandBuffer_forward CommandBuffer_signature CommandBuffer_declared CommandBuffer_entry
proof unfold_locales
  fix c c' :: CommandBuffer_call and s args r
  show "CommandBuffer_forward c = (s, args, r) \<Longrightarrow> CommandBuffer_signature s = (map type_of args, r)"
    by (cases c) auto
  show "CommandBuffer_forward c = CommandBuffer_forward c' \<Longrightarrow> c = c'"
    by (cases c; cases c'; simp)
  show "CommandBuffer_declared c = (CommandBuffer_entry (fst (CommandBuffer_forward c)), snd (CommandBuffer_forward c))"
    by (cases c) simp_all
qed

section \<open>Instance\<close>

datatype (plugins only: code size) Instance_slot =
    instanceCreateSurface
  | instanceEnumerateWGSLLanguageFeatures
  | instanceHasWGSLLanguageFeature
  | instanceProcessEvents
  | instanceRequestAdapter
  | instanceRequestAdapterF
  | instanceWaitAny
  | instanceReference
  | instanceRelease

datatype (plugins only: code size) Instance_call =
    wgpuInstanceCreateSurface ptr ptr
  | wgpuInstanceEnumerateWGSLLanguageFeatures ptr ptr
  | wgpuInstanceHasWGSLLanguageFeature ptr uint32
  | wgpuInstanceProcessEvents ptr
  | wgpuInstanceRequestAdapter ptr ptr ptr ptr
  | wgpuInstanceRequestAdapterF ptr ptr "byte list"
  | wgpuInstanceWaitAny ptr size_t ptr uint64
  | wgpuInstanceReference ptr
  | wgpuInstanceRelease ptr

primrec Instance_forward :: "Instance_call \<Rightarrow> Instance_slot \<times> cval list \<times> ctype" where
  "Instance_forward (wgpuInstanceCreateSurface inst descriptor) = (instanceCreateSurface, [VObj WGPUInstance inst, VPtr ''WGPUSurfaceDescriptor const'' descriptor], Obj WGPUSurface)"
| "Instance_forward (wgpuInstanceEnumerateWGSLLanguageFeatures inst features) = (instanceEnumerateWGSLLanguageFeatures, [VObj WGPUInstance inst, VPtr ''WGPUWGSLFeatureName'' features], Size)"
| "Instance_forward (wgpuInstanceHasWGSLLanguageFeature inst feature) = (instanceHasWGSLLanguageFeature, [VObj WGPUInstance inst, VEnum ''WGPUWGSLFeatureName'' feature], Bool)"
| "Instance_forward (wgpuInstanceProcessEvents inst) = (instanceProcessEvents, [VObj WGPUInstance inst], Void)"
| "Instance_forward (wgpuInstanceRequestAdapter inst opts callback userdata) = (instanceRequestAdapter, [VObj WGPUInstance inst, VPtr ''WGPURequestAdapterOptions const'' opts, VFun ''WGPURequestAdapterCallback'' callback, VPtr ''void'' userdata], Void)"
| "Instance_forward (wgpuInstanceRequestAdapterF inst opts callbackInfo) = (instanceRequestAdapterF, [VObj WGPUInstance inst, VPtr ''WGPURequestAdapterOptions const'' opts, VStruct ''WGPURequestAdapterCallbackInfo'' callbackInfo], Struct ''WGPUFuture'')"
| "Instance_forward (wgpuInstanceWaitAny inst futureCount futures timeoutNS) = (instanceWaitAny, [VObj WGPUInstance inst, VSize futureCount, VPtr ''WGPUFutureWaitInfo'' futures, VUint64 timeoutNS], Enum ''WGPUWaitStatus'')"
| "Instance_forward (wgpuInstanceReference inst) = (instanceReference, [VObj WGPUInstance inst], Void)"
| "Instance_forward (wgpuInstanceRelease inst) = (instanceRelease, [VObj WGPUInstance inst], Void)"

primrec Instance_signature :: "Instance_slot \<Rightarrow> ctype list \<times> ctype" where
  "Instance_signature instanceCreateSurface = ([Obj WGPUInstance, Pointer ''WGPUSurfaceDescriptor const''], Obj WGPUSurface)"
| "Instance_signature instanceEnumerateWGSLLanguageFeatures = ([Obj WGPUInstance, Pointer ''WGPUWGSLFeatureName''], Size)"
| "Instance_signature instanceHasWGSLLanguageFeature = ([Obj WGPUInstance, Enum ''WGPUWGSLFeatureName''], Bool)"
| "Instance_signature instanceProcessEvents = ([Obj WGPUInstance], Void)"
| "Instance_signature instanceRequestAdapter = ([Obj WGPUInstance, Pointer ''WGPURequestAdapterOptions const'', Callback ''WGPURequestAdapterCallback'', Pointer ''void''], Void)"
| "Instance_signature instanceRequestAdapterF = ([Obj WGPUInstance, Pointer ''WGPURequestAdapterOptions const'', Struct ''WGPURequestAdapterCallbackInfo''], Struct ''WGPUFuture'')"
| "Instance_signature instanceWaitAny = ([Obj WGPUInstance, Size, Pointer ''WGPUFutureWaitInfo'', Uint64], Enum ''WGPUWaitStatus'')"
| "Instance_signature instanceReference = ([Obj WGPUInstance], Void)"
| "Instance_signature instanceRelease = ([Obj WGPUInstance], Void)"

primrec Instance_declared :: "Instance_call \<Rightarrow> string \<times> cval list \<times> ctype" where
  "Instance_declared (wgpuInstanceCreateSurface inst descriptor) = (''InstanceCreateSurface'', [VObj WGPUInstance inst, VPtr ''WGPUSurfaceDescriptor const'' descriptor], Obj WGPUSurface)"
| "Instance_declared (wgpuInstanceEnumerateWGSLLanguageFeatures inst features) = (''InstanceEnumerateWGSLLanguageFeatures'', [VObj WGPUInstance inst, VPtr ''WGPUWGSLFeatureName'' features], Size)"
| "Instance_declared (wgpuInstanceHasWGSLLanguageFeature inst feature) = (''InstanceHasWGSLLanguageFeature'', [VObj WGPUInstance inst, VEnum ''WGPUWGSLFeatureName'' feature], Bool)"
| "Instance_declared (wgpuInstanceProcessEvents inst) = (''InstanceProcessEvents'', [VObj WGPUInstance inst], Void)"
| "Instance_declared (wgpuInstanceRequestAdapter inst opts callback userdata) = (''InstanceRequestAdapter'', [VObj WGPUInstance inst, VPtr ''WGPURequestAdapterOptions const'' opts, VFun ''WGPURequestAdapterCallback'' callback, VPtr ''void'' userdata], Void)"
| "Instance_declared (wgpuInstanceRequestAdapterF inst opts callbackInfo) = (''InstanceRequestAdapterF'', [VObj WGPUInstance inst, VPtr ''WGPURequestAdapterOptions const'' opts, VStruct ''WGPURequestAdapterCallbackInfo'' callbackInfo], Struct ''WGPUFuture'')"
| "Instance_declared (wgpuInstanceWaitAny inst futureCount futures timeoutNS) = (''InstanceWaitAny'', [VObj WGPUInstance inst, VSize futureCount, VPtr ''WGPUFutureWaitInfo'' futures, VUint64 timeoutNS], Enum ''WGPUWaitStatus'')"
| "Instance_declared (wgpuInstanceReference inst) = (''InstanceReference'', [VObj WGPUInstance inst], Void)"
| "Instance_declared (wgpuInstanceRelease inst) = (''InstanceRelease'', [VObj WGPUInstance inst], Void)"

primrec Instance_entry :: "Instance_slot \<Rightarrow> string" where
  "Instance_entry instanceCreateSurface = ''InstanceCreateSurface''"
| "Instance_entry instanceEnumerateWGSLLanguageFeatures = ''InstanceEnumerateWGSLLanguageFeatures''"
| "Instance_entry instanceHasWGSLLanguageFeature = ''InstanceHasWGSLLanguageFeature''"
| "Instance_entry instanceProcessEvents = ''InstanceProcessEvents''"
| "Instance_entry instanceRequestAdapter = ''InstanceRequestAdapter''"
| "Instance_entry instanceRequestAdapterF = ''InstanceRequestAdapterF''"
| "Instance_entry instanceWaitAny = ''InstanceWaitAny''"
| "Instance_entry instanceReference = ''InstanceReference''"
| "Instance_entry instanceRelease = ''InstanceRelease''"

interpretation instance_fw: forwarding Instance_forward Instance_signature Instance_declared Instance_entry
proof unfold_locales
  fix c c' :: Instance_call and s args r
  show "Instance_forward c = (s, args, r) \<Longrightarrow> Instance_signature s = (map type_of args, r)"
    by (cases c) auto
  show "Instance_forward c = Instance_forward c' \<Longrightarrow> c = c'"
    by (cases c; cases c'; simp)
  show "Instance_declared c = (Instance_entry (fst (Instance_forward c)), snd (Instance_forward c))"
    by (cases c) simp_all
qed

section \<open>PipelineLayout\<close>

datatype (plugins only: code size) PipelineLayout_slot =
    pipelineLayoutSetLabel
  | pipelineLayoutReference
  | pipelineLayoutRelease

datatype (plugins only: code size) PipelineLayout_call =
    wgpuPipelineLayoutSetLabel ptr ptr
  | wgpuPipelineLayoutReference ptr
  | wgpuPipelineLayoutRelease ptr

primrec PipelineLayout_forward :: "PipelineLayout_call \<Rightarrow> PipelineLayout_slot \<times> cval list \<times> ctype" where
  "PipelineLayout_forward (wgpuPipelineLayoutSetLabel pipelineLayout label0) = (pipelineLayoutSetLabel, [VObj WGPUPipelineLayout pipelineLayout, VPtr ''char const'' label0], Void)"
| "PipelineLayout_forward (wgpuPipelineLayoutReference pipelineLayout) = (pipelineLayoutReference, [VObj WGPUPipelineLayout pipelineLayout], Void)"
| "PipelineLayout_forward (wgpuPipelineLayoutRelease pipelineLayout) = (pipelineLayoutRelease, [VObj WGPUPipelineLayout pipelineLayout], Void)"

primrec PipelineLayout_signature :: "PipelineLayout_slot \<Rightarrow> ctype list \<times> ctype" where
  "PipelineLayout_signature pipelineLayoutSetLabel = ([Obj WGPUPipelineLayout, Pointer ''char const''], Void)"
| "PipelineLayout_signature pipelineLayoutReference = ([Obj WGPUPipelineLayout], Void)"
| "PipelineLayout_signature pipelineLayoutRelease = ([Obj WGPUPipelineLayout], Void)"

primrec PipelineLayout_declared :: "PipelineLayout_call \<Rightarrow> string \<times> cval list \<times> ctype" where
  "PipelineLayout_declared (wgpuPipelineLayoutSetLabel pipelineLayout label0) = (''PipelineLayoutSetLabel'', [VObj WGPUPipelineLayout pipelineLayout, VPtr ''char const'' label0], Void)"
| "PipelineLayout_declared (wgpuPipelineLayoutReference pipelineLayout) = (''PipelineLayoutReference'', [VObj WGPUPipelineLayout pipelineLayout], Void)"
| "PipelineLayout_declared (wgpuPipelineLayoutRelease pipelineLayout) = (''PipelineLayoutRelease'', [VObj WGPUPipelineLayout pipelineLayout], Void)"

primrec PipelineLayout_entry :: "PipelineLayout_slot \<Rightarrow> string" where
  "PipelineLayout_entry pipelineLayoutSetLabel = ''PipelineLayoutSetLabel''"
| "PipelineLayout_entry pipelineLayoutReference = ''PipelineLayoutReference''"
| "PipelineLayout_entry pipelineLayoutRelease = ''PipelineLayoutRelease''"

interpretation pipelinelayout_fw: forwarding PipelineLayout_forward PipelineLayout_signature PipelineLayout_declared PipelineLayout_entry
proof unfold_locales
  fix c c' :: PipelineLayout_call and s args r
  show "PipelineLayout_forward c = (s, args, r) \<Longrightarrow> PipelineLayout_signature s = (map type_of args, r)"
    by (cases c) auto
  show "PipelineLayout_forward c = PipelineLayout_forward c' \<Longrightarrow> c = c'"
    by (cases c; cases c'; simp)
  show "PipelineLayout_declared c = (PipelineLayout_entry (fst (PipelineLayout_forward c)), snd (PipelineLayout_forward c))"
    by (cases c) simp_all
qed

section \<open>QuerySet\<close>

datatype (plugins only: code size) QuerySet_slot =
    querySetDestroy
  | querySetGetCount
  | querySetGetType
  | querySetSetLabel
  | querySetReference
  | querySetRelease

datatype (plugins only: code size) QuerySet_call =
    wgpuQuerySetDestroy ptr
  | wgpuQuerySetGetCount ptr
  | wgpuQuerySetGetType ptr
  | wgpuQuerySetSetLabel ptr ptr
  | wgpuQuerySetReference ptr
  | wgpuQuerySetRelease ptr

primrec QuerySet_forward :: "QuerySet_call \<Rightarrow> QuerySet_slot \<times> cval list \<times> ctype" where
  "QuerySet_forward (wgpuQuerySetDestroy querySet) = (querySetDestroy, [VObj WGPUQuerySet querySet], Void)"
| "QuerySet_forward (wgpuQuerySetGetCount querySet) = (querySetGetCount, [VObj WGPUQuerySet querySet], Uint32)"
| "QuerySet_forward (wgpuQuerySetGetType querySet) = (querySetGetType, [VObj WGPUQuerySet querySet], Enum ''WGPUQueryType'')"
| "QuerySet_forward (wgpuQuerySetSetLabel querySet label0) = (querySetSetLabel, [VObj WGPUQuerySet querySet, VPtr ''char const'' label0], Void)"
| "QuerySet_forward (wgpuQuerySetReference querySet) = (querySetReference, [VObj WGPUQuerySet querySet], Void)"
| "QuerySet_forward (wgpuQuerySetRelease querySet) = (querySetRelease, [VObj WGPUQuerySet querySet], Void)"

primrec QuerySet_signature :: "QuerySet_slot \<Rightarrow> ctype list \<times> ctype" where
  "QuerySet_signature querySetDestroy = ([Obj WGPUQuerySet], Void)"
| "QuerySet_signature querySetGetCount = ([Obj WGPUQuerySet], Uint32)"
| "QuerySet_signature querySetGetType = ([Obj WGPUQuerySet], Enum ''WGPUQueryType'')"
| "QuerySet_signature querySetSetLabel = ([Obj WGPUQuerySet, Pointer ''char const''], Void)"
| "QuerySet_signature querySetReference = ([Obj WGPUQuerySet], Void)"
| "QuerySet_signature querySetRelease = ([Obj WGPUQuerySet], Void)"

primrec QuerySet_declared :: "QuerySet_call \<Rightarrow> string \<times> cval list \<times> ctype" where
  "QuerySet_declared (wgpuQuerySetDestroy querySet) = (''QuerySetDestroy'', [VObj WGPUQuerySet querySet], Void)"
| "QuerySet_declared (wgpuQuerySetGetCount querySet) = (''QuerySetGetCount'', [VObj WGPUQuerySet querySet], Uint32)"
| "QuerySet_declared (wgpuQuerySetGetType querySet) = (''QuerySetGetType'', [VObj WGPUQuerySet querySet], Enum ''WGPUQueryType'')"
| "QuerySet_declared (wgpuQuerySetSetLabel querySet label0) = (''QuerySetSetLabel'', [VObj WGPUQuerySet querySet, VPtr ''char const'' label0], Void)"
| "QuerySet_declared (wgpuQuerySetReference querySet) = (''QuerySetReference'', [VObj WGPUQuerySet querySet], Void)"
| "QuerySet_declared (wgpuQuerySetRelease querySet) = (''QuerySetRelease'', [VObj WGPUQuerySet querySet], Void)"

primrec QuerySet_entry :: "QuerySet_slot \<Rightarrow> string" where
  "QuerySet_entry querySetDestroy = ''QuerySetDestroy''"
| "QuerySet_entry querySetGetCount = ''QuerySetGetCount''"
| "QuerySet_entry querySetGetType = ''QuerySetGetType''"
| "QuerySet_entry querySetSetLabel = ''QuerySetSetLabel''"
| "QuerySet_entry querySetReference = ''QuerySetReference''"
| "QuerySet_entry querySetRelease = ''QuerySetRelease''"

interpretation queryset_fw: forwarding QuerySet_forward QuerySet_signature QuerySet_declared QuerySet_entry
proof unfold_locales
  fix c c' :: QuerySet_call and s args r
  show "QuerySet_forward c = (s, args, r) \<Longrightarrow> QuerySet_signature s = (map type_of args, r)"
    by (cases c) auto
  show "QuerySet_forward c = QuerySet_forward c' \<Longrightarrow> c = c'"
    by (cases c; cases c'; simp)
  show "QuerySet_declared c = (QuerySet_entry (fst (QuerySet_forward c)), snd (QuerySet_forward c))"
    by (cases c) simp_all
qed

section \<open>Queue\<close>

datatype (plugins only: code size) Queue_slot =
    queueCopyExternalTextureForBrowser
  | queueCopyTextureForBrowser
  | queueOnSubmittedWorkDone
  | queueOnSubmittedWorkDoneF
  | queueSetLabel
  | queueSubmit
  | queueWriteBuffer
  | queueWriteTexture
  | queueReference
  | queueRelease

datatype (plugins only: code size) Queue_call =
    wgpuQueueCopyExternalTextureForBrowser ptr ptr ptr ptr ptr
  | wgpuQueueCopyTextureForBrowser ptr ptr ptr ptr ptr
  | wgpuQueueOnSubmittedWorkDone ptr ptr ptr
  | wgpuQueueOnSubmittedWorkDoneF ptr "byte list"
  | wgpuQueueSetLabel ptr ptr
  | wgpuQueueSubmit ptr size_t ptr
  | wgpuQueueWriteBuffer ptr ptr uint64 ptr size_t
  | wgpuQueueWriteTexture ptr ptr ptr size_t ptr ptr
  | wgpuQueueReference ptr
  | wgpuQueueRelease ptr

primrec Queue_forward :: "Queue_call \<Rightarrow> Queue_slot \<times> cval list \<times> ctype" where
  "Queue_forward (wgpuQueueCopyExternalTextureForBrowser queue source destination copySize opts) = (queueCopyExternalTextureForBrowser, [VObj WGPUQueue queue, VPtr ''WGPUImageCopyExternalTexture const'' source, VPtr ''WGPUImageCopyTexture const'' destination, VPtr ''WGPUExtent3D const'' copySize, VPtr ''WGPUCopyTextureForBrowserOptions const'' opts], Void)"
| "Queue_forward (wgpuQueueCopyTextureForBrowser queue source destination copySize opts) = (queueCopyTextureForBrowser, [VObj WGPUQueue queue, VPtr ''WGPUImageCopyTexture const'' source, VPtr ''WGPUImageCopyTexture const'' destination, VPtr ''WGPUExtent3D const'' copySize, VPtr ''WGPUCopyTextureForBrowserOptions const'' opts], Void)"
| "Queue_forward (wgpuQueueOnSubmittedWorkDone queue callback userdata) = (queueOnSubmittedWorkDone, [VObj WGPUQueue queue, VFun ''WGPUQueueWorkDoneCallback'' callback, VPtr ''void'' userdata], Void)"
| "Queue_forward (wgpuQueueOnSubmittedWorkDoneF queue callbackInfo) = (queueOnSubmittedWorkDoneF, [VObj WGPUQueue queue, VStruct ''WGPUQueueWorkDoneCallbackInfo'' callbackInfo], Struct ''WGPUFuture'')"
| "Queue_forward (wgpuQueueSetLabel queue label0) = (queueSetLabel, [VObj WGPUQueue queue, VPtr ''char const'' label0], Void)"
| "Queue_forward (wgpuQueueSubmit queue commandCount commands) = (queueSubmit, [VObj WGPUQueue queue, VSize commandCount, VPtr ''WGPUCommandBuffer const'' commands], Void)"
| "Queue_forward (wgpuQueueWriteBuffer queue buffer bufferOffset bytes sz) = (queueWriteBuffer, [VObj WGPUQueue queue, VObj WGPUBuffer buffer, VUint64 bufferOffset, VPtr ''void const'' bytes, VSize sz], Void)"
| "Queue_forward (wgpuQueueWriteTexture queue destination bytes dataSize dataLayout writeSize) = (queueWriteTexture, [VObj WGPUQueue queue, VPtr ''WGPUImageCopyTexture const'' destination, VPtr ''void const'' bytes, VSize dataSize, VPtr ''WGPUTextureDataLayout const'' dataLayout, VPtr ''WGPUExtent3D const'' writeSize], Void)"
| "Queue_forward (wgpuQueueReference queue) = (queueReference, [VObj WGPUQueue queue], Void)"
| "Queue_forward (wgpuQueueRelease queue) = (queueRelease, [VObj WGPUQueue queue], Void)"

primrec Queue_signature :: "Queue_slot \<Rightarrow> ctype list \<times> ctype" where
  "Queue_signature queueCopyExternalTextureForBrowser = ([Obj WGPUQueue, Pointer ''WGPUImageCopyExternalTexture const'', Pointer ''WGPUImageCopyTexture const'', Pointer ''WGPUExtent3D const'', Pointer ''WGPUCopyTextureForBrowserOptions const''], Void)"
| "Queue_signature queueCopyTextureForBrowser = ([Obj WGPUQueue, Pointer ''WGPUImageCopyTexture const'', Pointer ''WGPUImageCopyTexture const'', Pointer ''WGPUExtent3D const'', Pointer ''WGPUCopyTextureForBrowserOptions const''], Void)"
| "Queue_signature queueOnSubmittedWorkDone = ([Obj WGPUQueue, Callback ''WGPUQueueWorkDoneCallback'', Pointer ''void''], Void)"
| "Queue_signature queueOnSubmittedWorkDoneF = ([Obj WGPUQueue, Struct ''WGPUQueueWorkDoneCallbackInfo''], Struct ''WGPUFuture'')"
| "Queue_signature queueSetLabel = ([Obj WGPUQueue, Pointer ''char const''], Void)"
| "Queue_signature queueSubmit = ([Obj WGPUQueue, Size, Pointer ''WGPUCommandBuffer const''], Void)"
| "Queue_signature queueWriteBuffer = ([Obj WGPUQueue, Obj WGPUBuffer, Uint64, Pointer ''void const'', Size], Void)"
| "Queue_signature queueWriteTexture = ([Obj WGPUQueue, Pointer ''WGPUImageCopyTexture const'', Pointer ''void const'', Size, Pointer ''WGPUTextureDataLayout const'', Pointer ''WGPUExtent3D const''], Void)"
| "Queue_signature queueReference = ([Obj WGPUQueue], Void)"
| "Queue_signature queueRelease = ([Obj WGPUQueue], Void)"

primrec Queue_declared :: "Queue_call \<Rightarrow> string \<times> cval list \<times> ctype" where
  "Queue_declared (wgpuQueueCopyExternalTextureForBrowser queue source destination copySize opts) = (''QueueCopyExternalTextureForBrowser'', [VObj WGPUQueue queue, VPtr ''WGPUImageCopyExternalTexture const'' source, VPtr ''WGPUImageCopyTexture const'' destination, VPtr ''WGPUExtent3D const'' copySize, VPtr ''WGPUCopyTextureForBrowserOptions const'' opts], Void)"
| "Queue_declared (wgpuQueueCopyTextureForBrowser queue source destination copySize opts) = (''QueueCopyTextureForBrowser'', [VObj WGPUQueue queue, VPtr ''WGPUImageCopyTexture const'' source, VPtr ''WGPUImageCopyTexture const'' destination, VPtr ''WGPUExtent3D const'' copySize, VPtr ''WGPUCopyTextureForBrowserOptions const'' opts], Void)"
| "Queue_declared (wgpuQueueOnSubmittedWorkDone queue callback userdata) = (''QueueOnSubmittedWorkDone'', [VObj WGPUQueue queue, VFun ''WGPUQueueWorkDoneCallback'' callback, VPtr ''void'' userdata], Void)"
| "Queue_declared (wgpuQueueOnSubmittedWorkDoneF queue callbackInfo) = (''QueueOnSubmittedWorkDoneF'', [VObj WGPUQueue queue, VStruct ''WGPUQueueWorkDoneCallbackInfo'' callbackInfo], Struct ''WGPUFuture'')"
| "Queue_declared (wgpuQueueSetLabel queue label0) = (''QueueSetLabel'', [VObj WGPUQueue queue, VPtr ''char const'' label0], Void)"
| "Queue_declared (wgpuQueueSubmit queue commandCount commands) = (''QueueSubmit'', [VObj WGPUQueue queue, VSize commandCount, VPtr ''WGPUCommandBuffer const'' commands], Void)"
| "Queue_declared (wgpuQueueWriteBuffer queue buffer bufferOffset bytes sz) = (''QueueWriteBuffer'', [VObj WGPUQueue queue, VObj WGPUBuffer buffer, VUint64 bufferOffset, VPtr ''void const'' bytes, VSize sz], Void)"
| "Queue_declared (wgpuQueueWriteTexture queue destination bytes dataSize dataLayout writeSize) = (''QueueWriteTexture'', [VObj WGPUQueue queue, VPtr ''WGPUImageCopyTexture const'' destination, VPtr ''void const'' bytes, VSize dataSize, VPtr ''WGPUTextureDataLayout const'' dataLayout, VPtr ''WGPUExtent3D const'' writeSize], Void)"
| "Queue_declared (wgpuQueueReference queue) = (''QueueReference'', [VObj WGPUQueue queue], Void)"
| "Queue_declared (wgpuQueueRelease queue) = (''QueueRelease'', [VObj WGPUQueue queue], Void)"

primrec Queue_entry :: "Queue_slot \<Rightarrow> string" where
  "Queue_entry queueCopyExternalTextureForBrowser = ''QueueCopyExternalTextureForBrowser''"
| "Queue_entry queueCopyTextureForBrowser = ''QueueCopyTextureForBrowser''"
| "Queue_entry queueOnSubmittedWorkDone = ''QueueOnSubmittedWorkDone''"
| "Queue_entry queueOnSubmittedWorkDoneF = ''QueueOnSubmittedWorkDoneF''"
| "Queue_entry queueSetLabel = ''QueueSetLabel''"
| "Queue_entry queueSubmit = ''QueueSubmit''"
| "Queue_entry queueWriteBuffer = ''QueueWriteBuffer''"
| "Queue_entry queueWriteTexture = ''QueueWriteTexture''"
| "Queue_entry queueReference = ''QueueReference''"
| "Queue_entry queueRelease = ''QueueRelease''"

interpretation queue_fw: forwarding Queue_forward Queue_signature Queue_declared Queue_entry
proof unfold_locales
  fix c c' :: Queue_call and s args r
  show "Queue_forward c = (s, args, r) \<Longrightarrow> Queue_signature s = (map type_of args, r)"
    by (cases c) auto
  show "Queue_forward c = Queue_forward c' \<Longrightarrow> c = c'"
    by (cases c; cases c'; simp)
  show "Queue_declared c = (Queue_entry (fst (Queue_forward c)), snd (Queue_forward c))"
    by (cases c) simp_all
qed

section \<open>RenderBundle\<close>

datatype (plugins only: code size) RenderBundle_slot =
    renderBundleSetLabel
  | renderBundleReference
  | renderBundleRelease

datatype (plugins only: code size) RenderBundle_call =
    wgpuRenderBundleSetLabel ptr ptr
  | wgpuRenderBundleReference ptr
  | wgpuRenderBundleRelease ptr

primrec RenderBundle_forward :: "RenderBundle_call \<Rightarrow> RenderBundle_slot \<times> cval list \<times> ctype" where
  "RenderBundle_forward (wgpuRenderBundleSetLabel renderBundle label0) = (renderBundleSetLabel, [VObj WGPURenderBundle renderBundle, VPtr ''char const'' label0], Void)"
| "RenderBundle_forward (wgpuRenderBundleReference renderBundle) = (renderBundleReference, [VObj WGPURenderBundle renderBundle], Void)"
| "RenderBundle_forward (wgpuRenderBundleRelease renderBundle) = (renderBundleRelease, [VObj WGPURenderBundle renderBundle], Void)"

primrec RenderBundle_signature :: "RenderBundle_slot \<Rightarrow> ctype list \<times> ctype" where
  "RenderBundle_signature renderBundleSetLabel = ([Obj WGPURenderBundle, Pointer ''char const''], Void)"
| "RenderBundle_signature renderBundleReference = ([Obj WGPURenderBundle], Void)"
| "RenderBundle_signature renderBundleRelease = ([Obj WGPURenderBundle], Void)"

primrec RenderBundle_declared :: "RenderBundle_call \<Rightarrow> string \<times> cval list \<times> ctype" where
  "RenderBundle_declared (wgpuRenderBundleSetLabel renderBundle label0) = (''RenderBundleSetLabel'', [VObj WGPURenderBundle renderBundle, VPtr ''char const'' label0], Void)"
| "RenderBundle_declared (wgpuRenderBundleReference renderBundle) = (''RenderBundleReference'', [VObj WGPURenderBundle renderBundle], Void)"
| "RenderBundle_declared (wgpuRenderBundleRelease renderBundle) = (''RenderBundleRelease'', [VObj WGPURenderBundle renderBundle], Void)"

primrec RenderBundle_entry :: "RenderBundle_slot \<Rightarrow> string" where
  "RenderBundle_entry renderBundleSetLabel = ''RenderBundleSetLabel''"
| "RenderBundle_entry renderBundleReference = ''RenderBundleReference''"
| "RenderBundle_entry renderBundleRelease = ''RenderBundleRelease''"

interpretation renderbundle_fw: forwarding RenderBundle_forward RenderBundle_signature RenderBundle_declared RenderBundle_entry
proof unfold_locales
  fix c c' :: RenderBundle_call and s args r
  show "RenderBundle_forward c = (s, args, r) \<Longrightarrow> RenderBundle_signature s = (map type_of args, r)"
    by (cases c) auto
  show "RenderBundle_forward c = RenderBundle_forward c' \<Longrightarrow> c = c'"
    by (cases c; cases c'; simp)
  show "RenderBundle_declared c = (RenderBundle_entry (fst (RenderBundle_forward c)), snd (RenderBundle_forward c))"
    by (cases c) simp_all
qed

section \<open>RenderPipeline\<close>

datatype (plugins only: code size) RenderPipeline_slot =
    renderPipelineGetBindGroupLayout
  | renderPipelineSetLabel
  | renderPipelineReference
  | renderPipelineRelease

datatype (plugins only: code size) RenderPipeline_call =
    wgpuRenderPipelineGetBindGroupLayout ptr uint32
  | wgpuRenderPipelineSetLabel ptr ptr
  | wgpuRenderPipelineReference ptr
  | wgpuRenderPipelineRelease ptr

primrec RenderPipeline_forward :: "RenderPipeline_call \<Rightarrow> RenderPipeline_slot \<times> cval list \<times> ctype" where
  "RenderPipeline_forward (wgpuRenderPipelineGetBindGroupLayout renderPipeline groupIndex) = (renderPipelineGetBindGroupLayout, [VObj WGPURenderPipeline renderPipeline, VUint32 groupIndex], Obj WGPUBindGroupLayout)"
| "RenderPipeline_forward (wgpuRenderPipelineSetLabel renderPipeline label0) = (renderPipelineSetLabel, [VObj WGPURenderPipeline renderPipeline, VPtr ''char const'' label0], Void)"
| "RenderPipeline_forward (wgpuRenderPipelineReference renderPipeline) = (renderPipelineReference, [VObj WGPURenderPipeline renderPipeline], Void)"
| "RenderPipeline_forward (wgpuRenderPipelineRelease renderPipeline) = (renderPipelineRelease, [VObj WGPURenderPipeline renderPipeline], Void)"

primrec RenderPipeline_signature :: "RenderPipeline_slot \<Rightarrow> ctype list \<times> ctype" where
  "RenderPipeline_signature renderPipelineGetBindGroupLayout = ([Obj WGPURenderPipeline, Uint32], Obj WGPUBindGroupLayout)"
| "RenderPipeline_signature renderPipelineSetLabel = ([Obj WGPURenderPipeline, Pointer ''char const''], Void)"
| "RenderPipeline_signature renderPipelineReference = ([Obj WGPURenderPipeline], Void)"
| "RenderPipeline_signature renderPipelineRelease = ([Obj WGPURenderPipeline], Void)"

primrec RenderPipeline_declared :: "RenderPipeline_call \<Rightarrow> string \<times> cval list \<times> ctype" where
  "RenderPipeline_declared (wgpuRenderPipelineGetBindGroupLayout renderPipeline groupIndex) = (''RenderPipelineGetBindGroupLayout'', [VObj WGPURenderPipeline renderPipeline, VUint32 groupIndex], Obj WGPUBindGroupLayout)"
| "RenderPipeline_declared (wgpuRenderPipelineSetLabel renderPipeline label0) = (''RenderPipelineSetLabel'', [VObj WGPURenderPipeline renderPipeline, VPtr ''char const'' label0], Void)"
| "RenderPipeline_declared (wgpuRenderPipelineReference renderPipeline) = (''RenderPipelineReference'', [VObj WGPURenderPipeline renderPipeline], Void)"
| "RenderPipeline_declared (wgpuRenderPipelineRelease renderPipeline) = (''RenderPipelineRelease'', [VObj WGPURenderPipeline renderPipeline], Void)"

primrec RenderPipeline_entry :: "RenderPipeline_slot \<Rightarrow> string" where
  "RenderPipeline_entry renderPipelineGetBindGroupLayout = ''RenderPipelineGetBindGroupLayout''"
| "RenderPipeline_entry renderPipelineSetLabel = ''RenderPipelineSetLabel''"
| "RenderPipeline_entry renderPipelineReference = ''RenderPipelineReference''"
| "RenderPipeline_entry renderPipelineRelease = ''RenderPipelineRelease''"

interpretation renderpipeline_fw: forwarding RenderPipeline_forward RenderPipeline_signature RenderPipeline_declared RenderPipeline_entry
proof unfold_locales
  fix c c' :: RenderPipeline_call and s args r
  show "RenderPipeline_forward c = (s, args, r) \<Longrightarrow> RenderPipeline_signature s = (map type_of args, r)"
    by (cases c) auto
  show "RenderPipeline_forward c = RenderPipeline_forward c' \<Longrightarrow> c = c'"
    by (cases c; cases c'; simp)
  show "RenderPipeline_declared c = (RenderPipeline_entry (fst (RenderPipeline_forward c)), snd (RenderPipeline_forward c))"
    by (cases c) simp_all
qed

section \<open>ComputePipeline\<close>

datatype (plugins only: code size) ComputePipeline_slot =
    computePipelineGetBindGroupLayout
  | computePipelineSetLabel
  | computePipelineReference
  | computePipelineRelease

datatype (plugins only: code size) ComputePipeline_call =
    wgpuComputePipelineGetBindGroupLayout ptr uint32
  | wgpuComputePipelineSetLabel ptr ptr
  | wgpuComputePipelineReference ptr
  | wgpuComputePipelineRelease ptr

primrec ComputePipeline_forward :: "ComputePipeline_call \<Rightarrow> ComputePipeline_slot \<times> cval list \<times> ctype" where
  "ComputePipeline_forward (wgpuComputePipelineGetBindGroupLayout computePipeline groupIndex) = (computePipelineGetBindGroupLayout, [VObj WGPUComputePipeline computePipeline, VUint32 groupIndex], Obj WGPUBindGroupLayout)"
| "ComputePipeline_forward (wgpuComputePipelineSetLabel computePipeline label0) = (computePipelineSetLabel, [VObj WGPUComputePipeline computePipeline, VPtr ''char const'' label0], Void)"
| "ComputePipeline_forward (wgpuComputePipelineReference computePipeline) = (computePipelineReference, [VObj WGPUComputePipeline computePipeline], Void)"
| "ComputePipeline_forward (wgpuComputePipelineRelease computePipeline) = (computePipelineRelease, [VObj WGPUComputePipeline computePipeline], Void)"

primrec ComputePipeline_signature :: "ComputePipeline_slot \<Rightarrow> ctype list \<times> ctype" where
  "ComputePipeline_signature computePipelineGetBindGroupLayout = ([Obj WGPUComputePipeline, Uint32], Obj WGPUBindGroupLayout)"
| "ComputePipeline_signature computePipelineSetLabel = ([Obj WGPUComputePipeline, Pointer ''char const''], Void)"
| "ComputePipeline_signature computePipelineReference = ([Obj WGPUComputePipeline], Void)"
| "ComputePipeline_signature computePipelineRelease = ([Obj WGPUComputePipeline], Void)"

primrec ComputePipeline_declared :: "ComputePipeline_call \<Rightarrow> string \<times> cval list \<times> ctype" where
  "ComputePipeline_declared (wgpuComputePipelineGetBindGroupLayout computePipeline groupIndex) = (''ComputePipelineGetBindGroupLayout'', [VObj WGPUComputePipeline computePipeline, VUint32 groupIndex], Obj WGPUBindGroupLayout)"
| "ComputePipeline_declared (wgpuComputePipelineSetLabel computePipeline label0) = (''ComputePipelineSetLabel'', [VObj WGPUComputePipeline computePipeline, VPtr ''char const'' label0], Void)"
| "ComputePipeline_declared (wgpuComputePipelineReference computePipeline) = (''ComputePipelineReference'', [VObj WGPUComputePipeline computePipeline], Void)"
| "ComputePipeline_declared (wgpuComputePipelineRelease computePipeline) = (''ComputePipelineRelease'', [VObj WGPUComputePipeline computePipeline], Void)"

primrec ComputePipeline_entry :: "ComputePipeline_slot \<Rightarrow> string" where
  "ComputePipeline_entry computePipelineGetBindGroupLayout = ''ComputePipelineGetBindGroupLayout''"
| "ComputePipeline_entry computePipelineSetLabel = ''ComputePipelineSetLabel''"
| "ComputePipeline_entry computePipelineReference = ''ComputePipelineReference''"
| "ComputePipeline_entry computePipelineRelease = ''ComputePipelineRelease''"

interpretation computepipeline_fw: forwarding ComputePipeline_forward ComputePipeline_signature ComputePipeline_declared ComputePipeline_entry
proof unfold_locales
  fix c c' :: ComputePipeline_call and s args r
  show "ComputePipeline_forward c = (s, args, r) \<Longrightarrow> ComputePipeline_signature s = (map type_of args, r)"
    by (cases c) auto
  show "ComputePipeline_forward c = ComputePipeline_forward c' \<Longrightarrow> c = c'"
    by (cases c; cases c'; simp)
  show "ComputePipeline_declared c = (ComputePipeline_entry (fst (ComputePipeline_forward c)), snd (ComputePipeline_forward c))"
    by (cases c) simp_all
qed

end
