(* ===== verification/Proc_Encoders.thy ===== *)
theory Proc_Encoders
  imports Proc_Values
begin

text \<open>
  The exported functions of \<open>src/client/proc.cpp\<close> on the four kinds of encoders. For each family: the entries of
  the proc table, the calls, what a call forwards to (as the function bodies do), the types of
  the entries and the prototypes of the functions (both from \<open>webgpu.h\<close>), and the contract of \<open>forwarding\<close>.
\<close>

section \<open>CommandEncoder\<close>

datatype (plugins only: code size) CommandEncoder_slot =
    commandEncoderBeginComputePass
  | commandEncoderBeginRenderPass
  | commandEncoderClearBuffer
  | commandEncoderCopyBufferToBuffer
  | commandEncoderCopyBufferToTexture
  | commandEncoderCopyTextureToBuffer
  | commandEncoderCopyTextureToTexture
  | commandEncoderFinish
  | commandEncoderInjectValidationError
  | commandEncoderInsertDebugMarker
  | commandEncoderPopDebugGroup
  | commandEncoderPushDebugGroup
  | commandEncoderResolveQuerySet
  | commandEncoderSetLabel
  | commandEncoderWriteBuffer
  | commandEncoderWriteTimestamp
  | commandEncoderReference
  | commandEncoderRelease

datatype (plugins only: code size) CommandEncoder_call =
    wgpuCommandEncoderBeginComputePass ptr ptr
  | wgpuCommandEncoderBeginRenderPass ptr ptr
  | wgpuCommandEncoderClearBuffer ptr ptr uint64 uint64
  | wgpuCommandEncoderCopyBufferToBuffer ptr ptr uint64 ptr uint64 uint64
  | wgpuCommandEncoderCopyBufferToTexture ptr ptr ptr ptr
  | wgpuCommandEncoderCopyTextureToBuffer ptr ptr ptr ptr
  | wgpuCommandEncoderCopyTextureToTexture ptr ptr ptr ptr
  | wgpuCommandEncoderFinish ptr ptr
  | wgpuCommandEncoderInjectValidationError ptr ptr
  | wgpuCommandEncoderInsertDebugMarker ptr ptr
  | wgpuCommandEncoderPopDebugGroup ptr
  | wgpuCommandEncoderPushDebugGroup ptr ptr
  | wgpuCommandEncoderResolveQuerySet ptr ptr uint32 uint32 ptr uint64
  | wgpuCommandEncoderSetLabel ptr ptr
  | wgpuCommandEncoderWriteBuffer ptr ptr uint64 ptr uint64
  | wgpuCommandEncoderWriteTimestamp ptr ptr uint32
  | wgpuCommandEncoderReference ptr
  | wgpuCommandEncoderRelease ptr

primrec CommandEncoder_forward :: "CommandEncoder_call \<Rightarrow> CommandEncoder_slot \<times> cval list \<times> ctype" where
  "CommandEncoder_forward (wgpuCommandEncoderBeginComputePass commandEncoder descriptor) = (commandEncoderBeginComputePass, [VObj WGPUCommandEncoder commandEncoder, VPtr ''WGPUComputePassDescriptor const'' descriptor], Obj WGPUComputePassEncoder)"
| "CommandEncoder_forward (wgpuCommandEncoderBeginRenderPass commandEncoder descriptor) = (commandEncoderBeginRenderPass, [VObj WGPUCommandEncoder commandEncoder, VPtr ''WGPURenderPassDescriptor const'' descriptor], Obj WGPURenderPassEncoder)"
| "CommandEncoder_forward (wgpuCommandEncoderClearBuffer commandEncoder buffer offset sz) = (commandEncoderClearBuffer, [VObj WGPUCommandEncoder commandEncoder, VObj WGPUBuffer buffer, VUint64 offset, VUint64 sz], Void)"
| "CommandEncoder_forward (wgpuCommandEncoderCopyBufferToBuffer commandEncoder source sourceOffset destination destinationOffset sz) = (commandEncoderCopyBufferToBuffer, [VObj WGPUCommandEncoder commandEncoder, VObj WGPUBuffer source, VUint64 sourceOffset, VObj WGPUBuffer destination, VUint64 destinationOffset, VUint64 sz], Void)"
| "CommandEncoder_forward (wgpuCommandEncoderCopyBufferToTexture commandEncoder source destination copySize) = (commandEncoderCopyBufferToTexture, [VObj WGPUCommandEncoder commandEncoder, VPtr ''WGPUImageCopyBuffer const'' source, VPtr ''WGPUImageCopyTexture const'' destination, VPtr ''WGPUExtent3D const'' copySize], Void)"
| "CommandEncoder_forward (wgpuCommandEncoderCopyTextureToBuffer commandEncoder source destination copySize) = (commandEncoderCopyTextureToBuffer, [VObj WGPUCommandEncoder commandEncoder, VPtr ''WGPUImageCopyTexture const'' source, VPtr ''WGPUImageCopyBuffer const'' destination, VPtr ''WGPUExtent3D const'' copySize], Void)"
| "CommandEncoder_forward (wgpuCommandEncoderCopyTextureToTexture commandEncoder source destination copySize) = (commandEncoderCopyTextureToTexture, [VObj WGPUCommandEncoder commandEncoder, VPtr ''WGPUImageCopyTexture const'' source, VPtr ''WGPUImageCopyTexture const'' destination, VPtr ''WGPUExtent3D const'' copySize], Void)"
| "CommandEncoder_forward (wgpuCommandEncoderFinish commandEncoder descriptor) = (commandEncoderFinish, [VObj WGPUCommandEncoder commandEncoder, VPtr ''WGPUCommandBufferDescriptor const'' descriptor], Obj WGPUCommandBuffer)"
| "CommandEncoder_forward (wgpuCommandEncoderInjectValidationError commandEncoder message) = (commandEncoderInjectValidationError, [VObj WGPUCommandEncoder commandEncoder, VPtr ''char const'' message], Void)"
| "CommandEncoder_forward (wgpuCommandEncoderInsertDebugMarker commandEncoder markerLabel) = (commandEncoderInsertDebugMarker, [VObj WGPUCommandEncoder commandEncoder, VPtr ''char const'' markerLabel], Void)"
| "CommandEncoder_forward (wgpuCommandEncoderPopDebugGroup commandEncoder) = (commandEncoderPopDebugGroup, [VObj WGPUCommandEncoder commandEncoder], Void)"
| "CommandEncoder_forward (wgpuCommandEncoderPushDebugGroup commandEncoder groupLabel) = (commandEncoderPushDebugGroup, [VObj WGPUCommandEncoder commandEncoder, VPtr ''char const'' groupLabel], Void)"
| "CommandEncoder_forward (wgpuCommandEncoderResolveQuerySet commandEncoder querySet firstQuery queryCount destination destinationOffset) = (commandEncoderResolveQuerySet, [VObj WGPUCommandEncoder commandEncoder, VObj WGPUQuerySet querySet, VUint32 firstQuery, VUint32 queryCount, VObj WGPUBuffer destination, VUint64 destinationOffset], Void)"
| "CommandEncoder_forward (wgpuCommandEncoderSetLabel commandEncoder label0) = (commandEncoderSetLabel, [VObj WGPUCommandEncoder commandEncoder, VPtr ''char const'' label0], Void)"
| "CommandEncoder_forward (wgpuCommandEncoderWriteBuffer commandEncoder buffer bufferOffset bytes sz) = (commandEncoderWriteBuffer, [VObj WGPUCommandEncoder commandEncoder, VObj WGPUBuffer buffer, VUint64 bufferOffset, VPtr ''uint8_t const'' bytes, VUint64 sz], Void)"
| "CommandEncoder_forward (wgpuCommandEncoderWriteTimestamp commandEncoder querySet queryIndex) = (commandEncoderWriteTimestamp, [VObj WGPUCommandEncoder commandEncoder, VObj WGPUQuerySet querySet, VUint32 queryIndex], Void)"
| "CommandEncoder_forward (wgpuCommandEncoderReference commandEncoder) = (commandEncoderReference, [VObj WGPUCommandEncoder commandEncoder], Void)"
| "CommandEncoder_forward (wgpuCommandEncoderRelease commandEncoder) = (commandEncoderRelease, [VObj WGPUCommandEncoder commandEncoder], Void)"

primrec CommandEncoder_signature :: "CommandEncoder_slot \<Rightarrow> ctype list \<times> ctype" where
  "CommandEncoder_signature commandEncoderBeginComputePass = ([Obj WGPUCommandEncoder, Pointer ''WGPUComputePassDescriptor const''], Obj WGPUComputePassEncoder)"
| "CommandEncoder_signature commandEncoderBeginRenderPass = ([Obj WGPUCommandEncoder, Pointer ''WGPURenderPassDescriptor const''], Obj WGPURenderPassEncoder)"
| "CommandEncoder_signature commandEncoderClearBuffer = ([Obj WGPUCommandEncoder, Obj WGPUBuffer, Uint64, Uint64], Void)"
| "CommandEncoder_signature commandEncoderCopyBufferToBuffer = ([Obj WGPUCommandEncoder, Obj WGPUBuffer, Uint64, Obj WGPUBuffer, Uint64, Uint64], Void)"
| "CommandEncoder_signature commandEncoderCopyBufferToTexture = ([Obj WGPUCommandEncoder, Pointer ''WGPUImageCopyBuffer const'', Pointer ''WGPUImageCopyTexture const'', Pointer ''WGPUExtent3D const''], Void)"
| "CommandEncoder_signature commandEncoderCopyTextureToBuffer = ([Obj WGPUCommandEncoder, Pointer ''WGPUImageCopyTexture const'', Pointer ''WGPUImageCopyBuffer const'', Pointer ''WGPUExtent3D const''], Void)"
| "CommandEncoder_signature commandEncoderCopyTextureToTexture = ([Obj WGPUCommandEncoder, Pointer ''WGPUImageCopyTexture const'', Pointer ''WGPUImageCopyTexture const'', Pointer ''WGPUExtent3D const''], Void)"
| "CommandEncoder_signature commandEncoderFinish = ([Obj WGPUCommandEncoder, Pointer ''WGPUCommandBufferDescriptor const''], Obj WGPUCommandBuffer)"
| "CommandEncoder_signature commandEncoderInjectValidationError = ([Obj WGPUCommandEncoder, Pointer ''char const''], Void)"
| "CommandEncoder_signature commandEncoderInsertDebugMarker = ([Obj WGPUCommandEncoder, Pointer ''char const''], Void)"
| "CommandEncoder_signature commandEncoderPopDebugGroup = ([Obj WGPUCommandEncoder], Void)"
| "CommandEncoder_signature commandEncoderPushDebugGroup = ([Obj WGPUCommandEncoder, Pointer ''char const''], Void)"
| "CommandEncoder_signature commandEncoderResolveQuerySet = ([Obj WGPUCommandEncoder, Obj WGPUQuerySet, Uint32, Uint32, Obj WGPUBuffer, Uint64], Void)"
| "CommandEncoder_signature commandEncoderSetLabel = ([Obj WGPUCommandEncoder, Pointer ''char const''], Void)"
| "CommandEncoder_signature commandEncoderWriteBuffer = ([Obj WGPUCommandEncoder, Obj WGPUBuffer, Uint64, Pointer ''uint8_t const'', Uint64], Void)"
| "CommandEncoder_signature commandEncoderWriteTimestamp = ([Obj WGPUCommandEncoder, Obj WGPUQuerySet, Uint32], Void)"
| "CommandEncoder_signature commandEncoderReference = ([Obj WGPUCommandEncoder], Void)"
| "CommandEncoder_signature commandEncoderRelease = ([Obj WGPUCommandEncoder], Void)"

primrec CommandEncoder_declared :: "CommandEncoder_call \<Rightarrow> string \<times> cval list \<times> ctype" where
  "CommandEncoder_declared (wgpuCommandEncoderBeginComputePass commandEncoder descriptor) = (''CommandEncoderBeginComputePass'', [VObj WGPUCommandEncoder commandEncoder, VPtr ''WGPUComputePassDescriptor const'' descriptor], Obj WGPUComputePassEncoder)"
| "CommandEncoder_declared (wgpuCommandEncoderBeginRenderPass commandEncoder descriptor) = (''CommandEncoderBeginRenderPass'', [VObj WGPUCommandEncoder commandEncoder, VPtr ''WGPURenderPassDescriptor const'' descriptor], Obj WGPURenderPassEncoder)"
| "CommandEncoder_declared (wgpuCommandEncoderClearBuffer commandEncoder buffer offset sz) = (''CommandEncoderClearBuffer'', [VObj WGPUCommandEncoder commandEncoder, VObj WGPUBuffer buffer, VUint64 offset, VUint64 sz], Void)"
| "CommandEncoder_declared (wgpuCommandEncoderCopyBufferToBuffer commandEncoder source sourceOffset destination destinationOffset sz) = (''CommandEncoderCopyBufferToBuffer'', [VObj WGPUCommandEncoder commandEncoder, VObj WGPUBuffer source, VUint64 sourceOffset, VObj WGPUBuffer destination, VUint64 destinationOffset, VUint64 sz], Void)"
| "CommandEncoder_declared (wgpuCommandEncoderCopyBufferToTexture commandEncoder source destination copySize) = (''CommandEncoderCopyBufferToTexture'', [VObj WGPUCommandEncoder commandEncoder, VPtr ''WGPUImageCopyBuffer const'' source, VPtr ''WGPUImageCopyTexture const'' destination, VPtr ''WGPUExtent3D const'' copySize], Void)"
| "CommandEncoder_declared (wgpuCommandEncoderCopyTextureToBuffer commandEncoder source destination copySize) = (''CommandEncoderCopyTextureToBuffer'', [VObj WGPUCommandEncoder commandEncoder, VPtr ''WGPUImageCopyTexture const'' source, VPtr ''WGPUImageCopyBuffer const'' destination, VPtr ''WGPUExtent3D const'' copySize], Void)"
| "CommandEncoder_declared (wgpuCommandEncoderCopyTextureToTexture commandEncoder source destination copySize) = (''CommandEncoderCopyTextureToTexture'', [VObj WGPUCommandEncoder commandEncoder, VPtr ''WGPUImageCopyTexture const'' source, VPtr ''WGPUImageCopyTexture const'' destination, VPtr ''WGPUExtent3D const'' copySize], Void)"
| "CommandEncoder_declared (wgpuCommandEncoderFinish commandEncoder descriptor) = (''CommandEncoderFinish'', [VObj WGPUCommandEncoder commandEncoder, VPtr ''WGPUCommandBufferDescriptor const'' descriptor], Obj WGPUCommandBuffer)"
| "CommandEncoder_declared (wgpuCommandEncoderInjectValidationError commandEncoder message) = (''CommandEncoderInjectValidationError'', [VObj WGPUCommandEncoder commandEncoder, VPtr ''char const'' message], Void)"
| "CommandEncoder_declared (wgpuCommandEncoderInsertDebugMarker commandEncoder markerLabel) = (''CommandEncoderInsertDebugMarker'', [VObj WGPUCommandEncoder commandEncoder, VPtr ''char const'' markerLabel], Void)"
| "CommandEncoder_declared (wgpuCommandEncoderPopDebugGroup commandEncoder) = (''CommandEncoderPopDebugGroup'', [VObj WGPUCommandEncoder commandEncoder], Void)"
| "CommandEncoder_declared (wgpuCommandEncoderPushDebugGroup commandEncoder groupLabel) = (''CommandEncoderPushDebugGroup'', [VObj WGPUCommandEncoder commandEncoder, VPtr ''char const'' groupLabel], Void)"
| "CommandEncoder_declared (wgpuCommandEncoderResolveQuerySet commandEncoder querySet firstQuery queryCount destination destinationOffset) = (''CommandEncoderResolveQuerySet'', [VObj WGPUCommandEncoder commandEncoder, VObj WGPUQuerySet querySet, VUint32 firstQuery, VUint32 queryCount, VObj WGPUBuffer destination, VUint64 destinationOffset], Void)"
| "CommandEncoder_declared (wgpuCommandEncoderSetLabel commandEncoder label0) = (''CommandEncoderSetLabel'', [VObj WGPUCommandEncoder commandEncoder, VPtr ''char const'' label0], Void)"
| "CommandEncoder_declared (wgpuCommandEncoderWriteBuffer commandEncoder buffer bufferOffset bytes sz) = (''CommandEncoderWriteBuffer'', [VObj WGPUCommandEncoder commandEncoder, VObj WGPUBuffer buffer, VUint64 bufferOffset, VPtr ''uint8_t const'' bytes, VUint64 sz], Void)"
| "CommandEncoder_declared (wgpuCommandEncoderWriteTimestamp commandEncoder querySet queryIndex) = (''CommandEncoderWriteTimestamp'', [VObj WGPUCommandEncoder commandEncoder, VObj WGPUQuerySet querySet, VUint32 queryIndex], Void)"
| "CommandEncoder_declared (wgpuCommandEncoderReference commandEncoder) = (''CommandEncoderReference'', [VObj WGPUCommandEncoder commandEncoder], Void)"
| "CommandEncoder_declared (wgpuCommandEncoderRelease commandEncoder) = (''CommandEncoderRelease'', [VObj WGPUCommandEncoder commandEncoder], Void)"

primrec CommandEncoder_entry :: "CommandEncoder_slot \<Rightarrow> string" where
  "CommandEncoder_entry commandEncoderBeginComputePass = ''CommandEncoderBeginComputePass''"
| "CommandEncoder_entry commandEncoderBeginRenderPass = ''CommandEncoderBeginRenderPass''"
| "CommandEncoder_entry commandEncoderClearBuffer = ''CommandEncoderClearBuffer''"
| "CommandEncoder_entry commandEncoderCopyBufferToBuffer = ''CommandEncoderCopyBufferToBuffer''"
| "CommandEncoder_entry commandEncoderCopyBufferToTexture = ''CommandEncoderCopyBufferToTexture''"
| "CommandEncoder_entry commandEncoderCopyTextureToBuffer = ''CommandEncoderCopyTextureToBuffer''"
| "CommandEncoder_entry commandEncoderCopyTextureToTexture = ''CommandEncoderCopyTextureToTexture''"
| "CommandEncoder_entry commandEncoderFinish = ''CommandEncoderFinish''"
| "CommandEncoder_entry commandEncoderInjectValidationError = ''CommandEncoderInjectValidationError''"
| "CommandEncoder_entry commandEncoderInsertDebugMarker = ''CommandEncoderInsertDebugMarker''"
| "CommandEncoder_entry commandEncoderPopDebugGroup = ''CommandEncoderPopDebugGroup''"
| "CommandEncoder_entry commandEncoderPushDebugGroup = ''CommandEncoderPushDebugGroup''"
| "CommandEncoder_entry commandEncoderResolveQuerySet = ''CommandEncoderResolveQuerySet''"
| "CommandEncoder_entry commandEncoderSetLabel = ''CommandEncoderSetLabel''"
| "CommandEncoder_entry commandEncoderWriteBuffer = ''CommandEncoderWriteBuffer''"
| "CommandEncoder_entry commandEncoderWriteTimestamp = ''CommandEncoderWriteTimestamp''"
| "CommandEncoder_entry commandEncoderReference = ''CommandEncoderReference''"
| "CommandEncoder_entry commandEncoderRelease = ''CommandEncoderRelease''"

interpretation commandencoder_fw: forwarding CommandEncoder_forward CommandEncoder_signature CommandEncoder_declared CommandEncoder_entry
proof unfold_locales
  fix c c' :: CommandEncoder_call and s args r
  show "CommandEncoder_forward c = (s, args, r) \<Longrightarrow> CommandEncoder_signature s = (map type_of args, r)"
    by (cases c) auto
  show "CommandEncoder_forward c = CommandEncoder_forward c' \<Longrightarrow> c = c'"
    by (cases c; cases c'; simp)
  show "CommandEncoder_declared c = (CommandEncoder_entry (fst (CommandEncoder_forward c)), snd (CommandEncoder_forward c))"
    by (cases c) simp_all
qed

section \<open>ComputePassEncoder\<close>

datatype (plugins only: code size) ComputePassEncoder_slot =
    computePassEncoderDispatchWorkgroups
  | computePassEncoderDispatchWorkgroupsIndirect
  | computePassEncoderEnd
  | computePassEncoderInsertDebugMarker
  | computePassEncoderPopDebugGroup
  | computePassEncoderPushDebugGroup
  | computePassEncoderSetBindGroup
  | computePassEncoderSetLabel
  | computePassEncoderSetPipeline
  | computePassEncoderWriteTimestamp
  | computePassEncoderReference
  | computePassEncoderRelease

datatype (plugins only: code size) ComputePassEncoder_call =
    wgpuComputePassEncoderDispatchWorkgroups ptr uint32 uint32 uint32
  | wgpuComputePassEncoderDispatchWorkgroupsIndirect ptr ptr uint64
  | wgpuComputePassEncoderEnd ptr
  | wgpuComputePassEncoderInsertDebugMarker ptr ptr
  | wgpuComputePassEncoderPopDebugGroup ptr
  | wgpuComputePassEncoderPushDebugGroup ptr ptr
  | wgpuComputePassEncoderSetBindGroup ptr uint32 ptr size_t ptr
  | wgpuComputePassEncoderSetLabel ptr ptr
  | wgpuComputePassEncoderSetPipeline ptr ptr
  | wgpuComputePassEncoderWriteTimestamp ptr ptr uint32
  | wgpuComputePassEncoderReference ptr
  | wgpuComputePassEncoderRelease ptr

primrec ComputePassEncoder_forward :: "ComputePassEncoder_call \<Rightarrow> ComputePassEncoder_slot \<times> cval list \<times> ctype" where
  "ComputePassEncoder_forward (wgpuComputePassEncoderDispatchWorkgroups computePassEncoder workgroupCountX workgroupCountY workgroupCountZ) = (computePassEncoderDispatchWorkgroups, [VObj WGPUComputePassEncoder computePassEncoder, VUint32 workgroupCountX, VUint32 workgroupCountY, VUint32 workgroupCountZ], Void)"
| "ComputePassEncoder_forward (wgpuComputePassEncoderDispatchWorkgroupsIndirect computePassEncoder indirectBuffer indirectOffset) = (computePassEncoderDispatchWorkgroupsIndirect, [VObj WGPUComputePassEncoder computePassEncoder, VObj WGPUBuffer indirectBuffer, VUint64 indirectOffset], Void)"
| "ComputePassEncoder_forward (wgpuComputePassEncoderEnd computePassEncoder) = (computePassEncoderEnd, [VObj WGPUComputePassEncoder computePassEncoder], Void)"
| "ComputePassEncoder_forward (wgpuComputePassEncoderInsertDebugMarker computePassEncoder markerLabel) = (computePassEncoderInsertDebugMarker, [VObj WGPUComputePassEncoder computePassEncoder, VPtr ''char const'' markerLabel], Void)"
| "ComputePassEncoder_forward (wgpuComputePassEncoderPopDebugGroup computePassEncoder) = (computePassEncoderPopDebugGroup, [VObj WGPUComputePassEncoder computePassEncoder], Void)"
| "ComputePassEncoder_forward (wgpuComputePassEncoderPushDebugGroup computePassEncoder groupLabel) = (computePassEncoderPushDebugGroup, [VObj WGPUComputePassEncoder computePassEncoder, VPtr ''char const'' groupLabel], Void)"
| "ComputePassEncoder_forward (wgpuComputePassEncoderSetBindGroup computePassEncoder groupIndex bindGroup dynamicOffsetCount dynamicOffsets) = (computePassEncoderSetBindGroup, [VObj WGPUComputePassEncoder computePassEncoder, VUint32 groupIndex, VObj WGPUBindGroup bindGroup, VSize dynamicOffsetCount, VPtr ''uint32_t const'' dynamicOffsets], Void)"
| "ComputePassEncoder_forward (wgpuComputePassEncoderSetLabel computePassEncoder label0) = (computePassEncoderSetLabel, [VObj WGPUComputePassEncoder computePassEncoder, VPtr ''char const'' label0], Void)"
| "ComputePassEncoder_forward (wgpuComputePassEncoderSetPipeline computePassEncoder pipeline) = (computePassEncoderSetPipeline, [VObj WGPUComputePassEncoder computePassEncoder, VObj WGPUComputePipeline pipeline], Void)"
| "ComputePassEncoder_forward (wgpuComputePassEncoderWriteTimestamp computePassEncoder querySet queryIndex) = (computePassEncoderWriteTimestamp, [VObj WGPUComputePassEncoder computePassEncoder, VObj WGPUQuerySet querySet, VUint32 queryIndex], Void)"
| "ComputePassEncoder_forward (wgpuComputePassEncoderReference computePassEncoder) = (computePassEncoderReference, [VObj WGPUComputePassEncoder computePassEncoder], Void)"
| "ComputePassEncoder_forward (wgpuComputePassEncoderRelease computePassEncoder) = (computePassEncoderRelease, [VObj WGPUComputePassEncoder computePassEncoder], Void)"

primrec ComputePassEncoder_signature :: "ComputePassEncoder_slot \<Rightarrow> ctype list \<times> ctype" where
  "ComputePassEncoder_signature computePassEncoderDispatchWorkgroups = ([Obj WGPUComputePassEncoder, Uint32, Uint32, Uint32], Void)"
| "ComputePassEncoder_signature computePassEncoderDispatchWorkgroupsIndirect = ([Obj WGPUComputePassEncoder, Obj WGPUBuffer, Uint64], Void)"
| "ComputePassEncoder_signature computePassEncoderEnd = ([Obj WGPUComputePassEncoder], Void)"
| "ComputePassEncoder_signature computePassEncoderInsertDebugMarker = ([Obj WGPUComputePassEncoder, Pointer ''char const''], Void)"
| "ComputePassEncoder_signature computePassEncoderPopDebugGroup = ([Obj WGPUComputePassEncoder], Void)"
| "ComputePassEncoder_signature computePassEncoderPushDebugGroup = ([Obj WGPUComputePassEncoder, Pointer ''char const''], Void)"
| "ComputePassEncoder_signature computePassEncoderSetBindGroup = ([Obj WGPUComputePassEncoder, Uint32, Obj WGPUBindGroup, Size, Pointer ''uint32_t const''], Void)"
| "ComputePassEncoder_signature computePassEncoderSetLabel = ([Obj WGPUComputePassEncoder, Pointer ''char const''], Void)"
| "ComputePassEncoder_signature computePassEncoderSetPipeline = ([Obj WGPUComputePassEncoder, Obj WGPUComputePipeline], Void)"
| "ComputePassEncoder_signature computePassEncoderWriteTimestamp = ([Obj WGPUComputePassEncoder, Obj WGPUQuerySet, Uint32], Void)"
| "ComputePassEncoder_signature computePassEncoderReference = ([Obj WGPUComputePassEncoder], Void)"
| "ComputePassEncoder_signature computePassEncoderRelease = ([Obj WGPUComputePassEncoder], Void)"

primrec ComputePassEncoder_declared :: "ComputePassEncoder_call \<Rightarrow> string \<times> cval list \<times> ctype" where
  "ComputePassEncoder_declared (wgpuComputePassEncoderDispatchWorkgroups computePassEncoder workgroupCountX workgroupCountY workgroupCountZ) = (''ComputePassEncoderDispatchWorkgroups'', [VObj WGPUComputePassEncoder computePassEncoder, VUint32 workgroupCountX, VUint32 workgroupCountY, VUint32 workgroupCountZ], Void)"
| "ComputePassEncoder_declared (wgpuComputePassEncoderDispatchWorkgroupsIndirect computePassEncoder indirectBuffer indirectOffset) = (''ComputePassEncoderDispatchWorkgroupsIndirect'', [VObj WGPUComputePassEncoder computePassEncoder, VObj WGPUBuffer indirectBuffer, VUint64 indirectOffset], Void)"
| "ComputePassEncoder_declared (wgpuComputePassEncoderEnd computePassEncoder) = (''ComputePassEncoderEnd'', [VObj WGPUComputePassEncoder computePassEncoder], Void)"
| "ComputePassEncoder_declared (wgpuComputePassEncoderInsertDebugMarker computePassEncoder markerLabel) = (''ComputePassEncoderInsertDebugMarker'', [VObj WGPUComputePassEncoder computePassEncoder, VPtr ''char const'' markerLabel], Void)"
| "ComputePassEncoder_declared (wgpuComputePassEncoderPopDebugGroup computePassEncoder) = (''ComputePassEncoderPopDebugGroup'', [VObj WGPUComputePassEncoder computePassEncoder], Void)"
| "ComputePassEncoder_declared (wgpuComputePassEncoderPushDebugGroup computePassEncoder groupLabel) = (''ComputePassEncoderPushDebugGroup'', [VObj WGPUComputePassEncoder computePassEncoder, VPtr ''char const'' groupLabel], Void)"
| "ComputePassEncoder_declared (wgpuComputePassEncoderSetBindGroup computePassEncoder groupIndex bindGroup dynamicOffsetCount dynamicOffsets) = (''ComputePassEncoderSetBindGroup'', [VObj WGPUComputePassEncoder computePassEncoder, VUint32 groupIndex, VObj WGPUBindGroup bindGroup, VSize dynamicOffsetCount, VPtr ''uint32_t const'' dynamicOffsets], Void)"
| "ComputePassEncoder_declared (wgpuComputePassEncoderSetLabel computePassEncoder label0) = (''ComputePassEncoderSetLabel'', [VObj WGPUComputePassEncoder computePassEncoder, VPtr ''char const'' label0], Void)"
| "ComputePassEncoder_declared (wgpuComputePassEncoderSetPipeline computePassEncoder pipeline) = (''ComputePassEncoderSetPipeline'', [VObj WGPUComputePassEncoder computePassEncoder, VObj WGPUComputePipeline pipeline], Void)"
| "ComputePassEncoder_declared (wgpuComputePassEncoderWriteTimestamp computePassEncoder querySet queryIndex) = (''ComputePassEncoderWriteTimestamp'', [VObj WGPUComputePassEncoder computePassEncoder, VObj WGPUQuerySet querySet, VUint32 queryIndex], Void)"
| "ComputePassEncoder_declared (wgpuComputePassEncoderReference computePassEncoder) = (''ComputePassEncoderReference'', [VObj WGPUComputePassEncoder computePassEncoder], Void)"
| "ComputePassEncoder_declared (wgpuComputePassEncoderRelease computePassEncoder) = (''ComputePassEncoderRelease'', [VObj WGPUComputePassEncoder computePassEncoder], Void)"

primrec ComputePassEncoder_entry :: "ComputePassEncoder_slot \<Rightarrow> string" where
  "ComputePassEncoder_entry computePassEncoderDispatchWorkgroups = ''ComputePassEncoderDispatchWorkgroups''"
| "ComputePassEncoder_entry computePassEncoderDispatchWorkgroupsIndirect = ''ComputePassEncoderDispatchWorkgroupsIndirect''"
| "ComputePassEncoder_entry computePassEncoderEnd = ''ComputePassEncoderEnd''"
| "ComputePassEncoder_entry computePassEncoderInsertDebugMarker = ''ComputePassEncoderInsertDebugMarker''"
| "ComputePassEncoder_entry computePassEncoderPopDebugGroup = ''ComputePassEncoderPopDebugGroup''"
| "ComputePassEncoder_entry computePassEncoderPushDebugGroup = ''ComputePassEncoderPushDebugGroup''"
| "ComputePassEncoder_entry computePassEncoderSetBindGroup = ''ComputePassEncoderSetBindGroup''"
| "ComputePassEncoder_entry computePassEncoderSetLabel = ''ComputePassEncoderSetLabel''"
| "ComputePassEncoder_entry computePassEncoderSetPipeline = ''ComputePassEncoderSetPipeline''"
| "ComputePassEncoder_entry computePassEncoderWriteTimestamp = ''ComputePassEncoderWriteTimestamp''"
| "ComputePassEncoder_entry computePassEncoderReference = ''ComputePassEncoderReference''"
| "ComputePassEncoder_entry computePassEncoderRelease = ''ComputePassEncoderRelease''"

interpretation computepassencoder_fw: forwarding ComputePassEncoder_forward ComputePassEncoder_signature ComputePassEncoder_declared ComputePassEncoder_entry
proof unfold_locales
  fix c c' :: ComputePassEncoder_call and s args r
  show "ComputePassEncoder_forward c = (s, args, r) \<Longrightarrow> ComputePassEncoder_signature s = (map type_of args, r)"
    by (cases c) auto
  show "ComputePassEncoder_forward c = ComputePassEncoder_forward c' \<Longrightarrow> c = c'"
    by (cases c; cases c'; simp)
  show "ComputePassEncoder_declared c = (ComputePassEncoder_entry (fst (ComputePassEncoder_forward c)), snd (ComputePassEncoder_forward c))"
    by (cases c) simp_all
qed

section \<open>RenderBundleEncoder\<close>

datatype (plugins only: code size) RenderBundleEncoder_slot =
    renderBundleEncoderDraw
  | renderBundleEncoderDrawIndexed
  | renderBundleEncoderDrawIndexedIndirect
  | renderBundleEncoderDrawIndirect
  | renderBundleEncoderFinish
  | renderBundleEncoderInsertDebugMarker
  | renderBundleEncoderPopDebugGroup
  | renderBundleEncoderPushDebugGroup
  | renderBundleEncoderSetBindGroup
  | renderBundleEncoderSetIndexBuffer
  | renderBundleEncoderSetLabel
  | renderBundleEncoderSetPipeline
  | renderBundleEncoderSetVertexBuffer
  | renderBundleEncoderReference
  | renderBundleEncoderRelease

datatype (plugins only: code size) RenderBundleEncoder_call =
    wgpuRenderBundleEncoderDraw ptr uint32 uint32 uint32 uint32
  | wgpuRenderBundleEncoderDrawIndexed ptr uint32 uint32 uint32 int32 uint32
  | wgpuRenderBundleEncoderDrawIndexedIndirect ptr ptr uint64
  | wgpuRenderBundleEncoderDrawIndirect ptr ptr uint64
  | wgpuRenderBundleEncoderFinish ptr ptr
  | wgpuRenderBundleEncoderInsertDebugMarker ptr ptr
  | wgpuRenderBundleEncoderPopDebugGroup ptr
  | wgpuRenderBundleEncoderPushDebugGroup ptr ptr
  | wgpuRenderBundleEncoderSetBindGroup ptr uint32 ptr size_t ptr
  | wgpuRenderBundleEncoderSetIndexBuffer ptr ptr uint32 uint64 uint64
  | wgpuRenderBundleEncoderSetLabel ptr ptr
  | wgpuRenderBundleEncoderSetPipeline ptr ptr
  | wgpuRenderBundleEncoderSetVertexBuffer ptr uint32 ptr uint64 uint64
  | wgpuRenderBundleEncoderReference ptr
  | wgpuRenderBundleEncoderRelease ptr

primrec RenderBundleEncoder_forward :: "RenderBundleEncoder_call \<Rightarrow> RenderBundleEncoder_slot \<times> cval list \<times> ctype" where
  "RenderBundleEncoder_forward (wgpuRenderBundleEncoderDraw renderBundleEncoder vertexCount instanceCount firstVertex firstInstance) = (renderBundleEncoderDraw, [VObj WGPURenderBundleEncoder renderBundleEncoder, VUint32 vertexCount, VUint32 instanceCount, VUint32 firstVertex, VUint32 firstInstance], Void)"
| "RenderBundleEncoder_forward (wgpuRenderBundleEncoderDrawIndexed renderBundleEncoder indexCount instanceCount firstIndex baseVertex firstInstance) = (renderBundleEncoderDrawIndexed, [VObj WGPURenderBundleEncoder renderBundleEncoder, VUint32 indexCount, VUint32 instanceCount, VUint32 firstIndex, VInt32 baseVertex, VUint32 firstInstance], Void)"
| "RenderBundleEncoder_forward (wgpuRenderBundleEncoderDrawIndexedIndirect renderBundleEncoder indirectBuffer indirectOffset) = (renderBundleEncoderDrawIndexedIndirect, [VObj WGPURenderBundleEncoder renderBundleEncoder, VObj WGPUBuffer indirectBuffer, VUint64 indirectOffset], Void)"
| "RenderBundleEncoder_forward (wgpuRenderBundleEncoderDrawIndirect renderBundleEncoder indirectBuffer indirectOffset) = (renderBundleEncoderDrawIndirect, [VObj WGPURenderBundleEncoder renderBundleEncoder, VObj WGPUBuffer indirectBuffer, VUint64 indirectOffset], Void)"
| "RenderBundleEncoder_forward (wgpuRenderBundleEncoderFinish renderBundleEncoder descriptor) = (renderBundleEncoderFinish, [VObj WGPURenderBundleEncoder renderBundleEncoder, VPtr ''WGPURenderBundleDescriptor const'' descriptor], Obj WGPURenderBundle)"
| "RenderBundleEncoder_forward (wgpuRenderBundleEncoderInsertDebugMarker renderBundleEncoder markerLabel) = (renderBundleEncoderInsertDebugMarker, [VObj WGPURenderBundleEncoder renderBundleEncoder, VPtr ''char const'' markerLabel], Void)"
| "RenderBundleEncoder_forward (wgpuRenderBundleEncoderPopDebugGroup renderBundleEncoder) = (renderBundleEncoderPopDebugGroup, [VObj WGPURenderBundleEncoder renderBundleEncoder], Void)"
| "RenderBundleEncoder_forward (wgpuRenderBundleEncoderPushDebugGroup renderBundleEncoder groupLabel) = (renderBundleEncoderPushDebugGroup, [VObj WGPURenderBundleEncoder renderBundleEncoder, VPtr ''char const'' groupLabel], Void)"
| "RenderBundleEncoder_forward (wgpuRenderBundleEncoderSetBindGroup renderBundleEncoder groupIndex bindGroup dynamicOffsetCount dynamicOffsets) = (renderBundleEncoderSetBindGroup, [VObj WGPURenderBundleEncoder renderBundleEncoder, VUint32 groupIndex, VObj WGPUBindGroup bindGroup, VSize dynamicOffsetCount, VPtr ''uint32_t const'' dynamicOffsets], Void)"
| "RenderBundleEncoder_forward (wgpuRenderBundleEncoderSetIndexBuffer renderBundleEncoder buffer format offset sz) = (renderBundleEncoderSetIndexBuffer, [VObj WGPURenderBundleEncoder renderBundleEncoder, VObj WGPUBuffer buffer, VEnum ''WGPUIndexFormat'' format, VUint64 offset, VUint64 sz], Void)"
| "RenderBundleEncoder_forward (wgpuRenderBundleEncoderSetLabel renderBundleEncoder label0) = (renderBundleEncoderSetLabel, [VObj WGPURenderBundleEncoder renderBundleEncoder, VPtr ''char const'' label0], Void)"
| "RenderBundleEncoder_forward (wgpuRenderBundleEncoderSetPipeline renderBundleEncoder pipeline) = (renderBundleEncoderSetPipeline, [VObj WGPURenderBundleEncoder renderBundleEncoder, VObj WGPURenderPipeline pipeline], Void)"
| "RenderBundleEncoder_forward (wgpuRenderBundleEncoderSetVertexBuffer renderBundleEncoder slot buffer offset sz) = (renderBundleEncoderSetVertexBuffer, [VObj WGPURenderBundleEncoder renderBundleEncoder, VUint32 slot, VObj WGPUBuffer buffer, VUint64 offset, VUint64 sz], Void)"
| "RenderBundleEncoder_forward (wgpuRenderBundleEncoderReference renderBundleEncoder) = (renderBundleEncoderReference, [VObj WGPURenderBundleEncoder renderBundleEncoder], Void)"
| "RenderBundleEncoder_forward (wgpuRenderBundleEncoderRelease renderBundleEncoder) = (renderBundleEncoderRelease, [VObj WGPURenderBundleEncoder renderBundleEncoder], Void)"

primrec RenderBundleEncoder_signature :: "RenderBundleEncoder_slot \<Rightarrow> ctype list \<times> ctype" where
  "RenderBundleEncoder_signature renderBundleEncoderDraw = ([Obj WGPURenderBundleEncoder, Uint32, Uint32, Uint32, Uint32], Void)"
| "RenderBundleEncoder_signature renderBundleEncoderDrawIndexed = ([Obj WGPURenderBundleEncoder, Uint32, Uint32, Uint32, Int32, Uint32], Void)"
| "RenderBundleEncoder_signature renderBundleEncoderDrawIndexedIndirect = ([Obj WGPURenderBundleEncoder, Obj WGPUBuffer, Uint64], Void)"
| "RenderBundleEncoder_signature renderBundleEncoderDrawIndirect = ([Obj WGPURenderBundleEncoder, Obj WGPUBuffer, Uint64], Void)"
| "RenderBundleEncoder_signature renderBundleEncoderFinish = ([Obj WGPURenderBundleEncoder, Pointer ''WGPURenderBundleDescriptor const''], Obj WGPURenderBundle)"
| "RenderBundleEncoder_signature renderBundleEncoderInsertDebugMarker = ([Obj WGPURenderBundleEncoder, Pointer ''char const''], Void)"
| "RenderBundleEncoder_signature renderBundleEncoderPopDebugGroup = ([Obj WGPURenderBundleEncoder], Void)"
| "RenderBundleEncoder_signature renderBundleEncoderPushDebugGroup = ([Obj WGPURenderBundleEncoder, Pointer ''char const''], Void)"
| "RenderBundleEncoder_signature renderBundleEncoderSetBindGroup = ([Obj WGPURenderBundleEncoder, Uint32, Obj WGPUBindGroup, Size, Pointer ''uint32_t const''], Void)"
| "RenderBundleEncoder_signature renderBundleEncoderSetIndexBuffer = ([Obj WGPURenderBundleEncoder, Obj WGPUBuffer, Enum ''WGPUIndexFormat'', Uint64, Uint64], Void)"
| "RenderBundleEncoder_signature renderBundleEncoderSetLabel = ([Obj WGPURenderBundleEncoder, Pointer ''char const''], Void)"
| "RenderBundleEncoder_signature renderBundleEncoderSetPipeline = ([Obj WGPURenderBundleEncoder, Obj WGPURenderPipeline], Void)"
| "RenderBundleEncoder_signature renderBundleEncoderSetVertexBuffer = ([Obj WGPURenderBundleEncoder, Uint32, Obj WGPUBuffer, Uint64, Uint64], Void)"
| "RenderBundleEncoder_signature renderBundleEncoderReference = ([Obj WGPURenderBundleEncoder], Void)"
| "RenderBundleEncoder_signature renderBundleEncoderRelease = ([Obj WGPURenderBundleEncoder], Void)"

primrec RenderBundleEncoder_declared :: "RenderBundleEncoder_call \<Rightarrow> string \<times> cval list \<times> ctype" where
  "RenderBundleEncoder_declared (wgpuRenderBundleEncoderDraw renderBundleEncoder vertexCount instanceCount firstVertex firstInstance) = (''RenderBundleEncoderDraw'', [VObj WGPURenderBundleEncoder renderBundleEncoder, VUint32 vertexCount, VUint32 instanceCount, VUint32 firstVertex, VUint32 firstInstance], Void)"
| "RenderBundleEncoder_declared (wgpuRenderBundleEncoderDrawIndexed renderBundleEncoder indexCount instanceCount firstIndex baseVertex firstInstance) = (''RenderBundleEncoderDrawIndexed'', [VObj WGPURenderBundleEncoder renderBundleEncoder, VUint32 indexCount, VUint32 instanceCount, VUint32 firstIndex, VInt32 baseVertex, VUint32 firstInstance], Void)"
| "RenderBundleEncoder_declared (wgpuRenderBundleEncoderDrawIndexedIndirect renderBundleEncoder indirectBuffer indirectOffset) = (''RenderBundleEncoderDrawIndexedIndirect'', [VObj WGPURenderBundleEncoder renderBundleEncoder, VObj WGPUBuffer indirectBuffer, VUint64 indirectOffset], Void)"
| "RenderBundleEncoder_declared (wgpuRenderBundleEncoderDrawIndirect renderBundleEncoder indirectBuffer indirectOffset) = (''RenderBundleEncoderDrawIndirect'', [VObj WGPURenderBundleEncoder renderBundleEncoder, VObj WGPUBuffer indirectBuffer, VUint64 indirectOffset], Void)"
| "RenderBundleEncoder_declared (wgpuRenderBundleEncoderFinish renderBundleEncoder descriptor) = (''RenderBundleEncoderFinish'', [VObj WGPURenderBundleEncoder renderBundleEncoder, VPtr ''WGPURenderBundleDescriptor const'' descriptor], Obj WGPURenderBundle)"
| "RenderBundleEncoder_declared (wgpuRenderBundleEncoderInsertDebugMarker renderBundleEncoder markerLabel) = (''RenderBundleEncoderInsertDebugMarker'', [VObj WGPURenderBundleEncoder renderBundleEncoder, VPtr ''char const'' markerLabel], Void)"
| "RenderBundleEncoder_declared (wgpuRenderBundleEncoderPopDebugGroup renderBundleEncoder) = (''RenderBundleEncoderPopDebugGroup'', [VObj WGPURenderBundleEncoder renderBundleEncoder], Void)"
| "RenderBundleEncoder_declared (wgpuRenderBundleEncoderPushDebugGroup renderBundleEncoder groupLabel) = (''RenderBundleEncoderPushDebugGroup'', [VObj WGPURenderBundleEncoder renderBundleEncoder, VPtr ''char const'' groupLabel], Void)"
| "RenderBundleEncoder_declared (wgpuRenderBundleEncoderSetBindGroup renderBundleEncoder groupIndex bindGroup dynamicOffsetCount dynamicOffsets) = (''RenderBundleEncoderSetBindGroup'', [VObj WGPURenderBundleEncoder renderBundleEncoder, VUint32 groupIndex, VObj WGPUBindGroup bindGroup, VSize dynamicOffsetCount, VPtr ''uint32_t const'' dynamicOffsets], Void)"
| "RenderBundleEncoder_declared (wgpuRenderBundleEncoderSetIndexBuffer renderBundleEncoder buffer format offset sz) = (''RenderBundleEncoderSetIndexBuffer'', [VObj WGPURenderBundleEncoder renderBundleEncoder, VObj WGPUBuffer buffer, VEnum ''WGPUIndexFormat'' format, VUint64 offset, VUint64 sz], Void)"
| "RenderBundleEncoder_declared (wgpuRenderBundleEncoderSetLabel renderBundleEncoder label0) = (''RenderBundleEncoderSetLabel'', [VObj WGPURenderBundleEncoder renderBundleEncoder, VPtr ''char const'' label0], Void)"
| "RenderBundleEncoder_declared (wgpuRenderBundleEncoderSetPipeline renderBundleEncoder pipeline) = (''RenderBundleEncoderSetPipeline'', [VObj WGPURenderBundleEncoder renderBundleEncoder, VObj WGPURenderPipeline pipeline], Void)"
| "RenderBundleEncoder_declared (wgpuRenderBundleEncoderSetVertexBuffer renderBundleEncoder slot buffer offset sz) = (''RenderBundleEncoderSetVertexBuffer'', [VObj WGPURenderBundleEncoder renderBundleEncoder, VUint32 slot, VObj WGPUBuffer buffer, VUint64 offset, VUint64 sz], Void)"
| "RenderBundleEncoder_declared (wgpuRenderBundleEncoderReference renderBundleEncoder) = (''RenderBundleEncoderReference'', [VObj WGPURenderBundleEncoder renderBundleEncoder], Void)"
| "RenderBundleEncoder_declared (wgpuRenderBundleEncoderRelease renderBundleEncoder) = (''RenderBundleEncoderRelease'', [VObj WGPURenderBundleEncoder renderBundleEncoder], Void)"

primrec RenderBundleEncoder_entry :: "RenderBundleEncoder_slot \<Rightarrow> string" where
  "RenderBundleEncoder_entry renderBundleEncoderDraw = ''RenderBundleEncoderDraw''"
| "RenderBundleEncoder_entry renderBundleEncoderDrawIndexed = ''RenderBundleEncoderDrawIndexed''"
| "RenderBundleEncoder_entry renderBundleEncoderDrawIndexedIndirect = ''RenderBundleEncoderDrawIndexedIndirect''"
| "RenderBundleEncoder_entry renderBundleEncoderDrawIndirect = ''RenderBundleEncoderDrawIndirect''"
| "RenderBundleEncoder_entry renderBundleEncoderFinish = ''RenderBundleEncoderFinish''"
| "RenderBundleEncoder_entry renderBundleEncoderInsertDebugMarker = ''RenderBundleEncoderInsertDebugMarker''"
| "RenderBundleEncoder_entry renderBundleEncoderPopDebugGroup = ''RenderBundleEncoderPopDebugGroup''"
| "RenderBundleEncoder_entry renderBundleEncoderPushDebugGroup = ''RenderBundleEncoderPushDebugGroup''"
| "RenderBundleEncoder_entry renderBundleEncoderSetBindGroup = ''RenderBundleEncoderSetBindGroup''"
| "RenderBundleEncoder_entry renderBundleEncoderSetIndexBuffer = ''RenderBundleEncoderSetIndexBuffer''"
| "RenderBundleEncoder_entry renderBundleEncoderSetLabel = ''RenderBundleEncoderSetLabel''"
| "RenderBundleEncoder_entry renderBundleEncoderSetPipeline = ''RenderBundleEncoderSetPipeline''"
| "RenderBundleEncoder_entry renderBundleEncoderSetVertexBuffer = ''RenderBundleEncoderSetVertexBuffer''"
| "RenderBundleEncoder_entry renderBundleEncoderReference = ''RenderBundleEncoderReference''"
| "RenderBundleEncoder_entry renderBundleEncoderRelease = ''RenderBundleEncoderRelease''"

interpretation renderbundleencoder_fw: forwarding RenderBundleEncoder_forward RenderBundleEncoder_signature RenderBundleEncoder_declared RenderBundleEncoder_entry
proof unfold_locales
  fix c c' :: RenderBundleEncoder_call and s args r
  show "RenderBundleEncoder_forward c = (s, args, r) \<Longrightarrow> RenderBundleEncoder_signature s = (map type_of args, r)"
    by (cases c) auto
  show "RenderBundleEncoder_forward c = RenderBundleEncoder_forward c' \<Longrightarrow> c = c'"
    by (cases c; cases c'; simp)
  show "RenderBundleEncoder_declared c = (RenderBundleEncoder_entry (fst (RenderBundleEncoder_forward c)), snd (RenderBundleEncoder_forward c))"
    by (cases c) simp_all
qed

section \<open>RenderPassEncoder\<close>

datatype (plugins only: code size) RenderPassEncoder_slot =
    renderPassEncoderBeginOcclusionQuery
  | renderPassEncoderDraw
  | renderPassEncoderDrawIndexed
  | renderPassEncoderDrawIndexedIndirect
  | renderPassEncoderDrawIndirect
  | renderPassEncoderEnd
  | renderPassEncoderEndOcclusionQuery
  | renderPassEncoderExecuteBundles
  | renderPassEncoderInsertDebugMarker
  | renderPassEncoderPixelLocalStorageBarrier
  | renderPassEncoderPopDebugGroup
  | renderPassEncoderPushDebugGroup
  | renderPassEncoderSetBindGroup
  | renderPassEncoderSetBlendConstant
  | renderPassEncoderSetIndexBuffer
  | renderPassEncoderSetLabel
  | renderPassEncoderSetPipeline
  | renderPassEncoderSetScissorRect
  | renderPassEncoderSetStencilReference
  | renderPassEncoderSetVertexBuffer
  | renderPassEncoderSetViewport
  | renderPassEncoderWriteTimestamp
  | renderPassEncoderReference
  | renderPassEncoderRelease

datatype (plugins only: code size) RenderPassEncoder_call =
    wgpuRenderPassEncoderBeginOcclusionQuery ptr uint32
  | wgpuRenderPassEncoderDraw ptr uint32 uint32 uint32 uint32
  | wgpuRenderPassEncoderDrawIndexed ptr uint32 uint32 uint32 int32 uint32
  | wgpuRenderPassEncoderDrawIndexedIndirect ptr ptr uint64
  | wgpuRenderPassEncoderDrawIndirect ptr ptr uint64
  | wgpuRenderPassEncoderEnd ptr
  | wgpuRenderPassEncoderEndOcclusionQuery ptr
  | wgpuRenderPassEncoderExecuteBundles ptr size_t ptr
  | wgpuRenderPassEncoderInsertDebugMarker ptr ptr
  | wgpuRenderPassEncoderPixelLocalStorageBarrier ptr
  | wgpuRenderPassEncoderPopDebugGroup ptr
  | wgpuRenderPassEncoderPushDebugGroup ptr ptr
  | wgpuRenderPassEncoderSetBindGroup ptr uint32 ptr size_t ptr
  | wgpuRenderPassEncoderSetBlendConstant ptr ptr
  | wgpuRenderPassEncoderSetIndexBuffer ptr ptr uint32 uint64 uint64
  | wgpuRenderPassEncoderSetLabel ptr ptr
  | wgpuRenderPassEncoderSetPipeline ptr ptr
  | wgpuRenderPassEncoderSetScissorRect ptr uint32 uint32 uint32 uint32
  | wgpuRenderPassEncoderSetStencilReference ptr uint32
  | wgpuRenderPassEncoderSetVertexBuffer ptr uint32 ptr uint64 uint64
  | wgpuRenderPassEncoderSetViewport ptr float32 float32 float32 float32 float32 float32
  | wgpuRenderPassEncoderWriteTimestamp ptr ptr uint32
  | wgpuRenderPassEncoderReference ptr
  | wgpuRenderPassEncoderRelease ptr

primrec RenderPassEncoder_forward :: "RenderPassEncoder_call \<Rightarrow> RenderPassEncoder_slot \<times> cval list \<times> ctype" where
  "RenderPassEncoder_forward (wgpuRenderPassEncoderBeginOcclusionQuery renderPassEncoder queryIndex) = (renderPassEncoderBeginOcclusionQuery, [VObj WGPURenderPassEncoder renderPassEncoder, VUint32 queryIndex], Void)"
| "RenderPassEncoder_forward (wgpuRenderPassEncoderDraw renderPassEncoder vertexCount instanceCount firstVertex firstInstance) = (renderPassEncoderDraw, [VObj WGPURenderPassEncoder renderPassEncoder, VUint32 vertexCount, VUint32 instanceCount, VUint32 firstVertex, VUint32 firstInstance], Void)"
| "RenderPassEncoder_forward (wgpuRenderPassEncoderDrawIndexed renderPassEncoder indexCount instanceCount firstIndex baseVertex firstInstance) = (renderPassEncoderDrawIndexed, [VObj WGPURenderPassEncoder renderPassEncoder, VUint32 indexCount, VUint32 instanceCount, VUint32 firstIndex, VInt32 baseVertex, VUint32 firstInstance], Void)"
| "RenderPassEncoder_forward (wgpuRenderPassEncoderDrawIndexedIndirect renderPassEncoder indirectBuffer indirectOffset) = (renderPassEncoderDrawIndexedIndirect, [VObj WGPURenderPassEncoder renderPassEncoder, VObj WGPUBuffer indirectBuffer, VUint64 indirectOffset], Void)"
| "RenderPassEncoder_forward (wgpuRenderPassEncoderDrawIndirect renderPassEncoder indirectBuffer indirectOffset) = (renderPassEncoderDrawIndirect, [VObj WGPURenderPassEncoder renderPassEncoder, VObj WGPUBuffer indirectBuffer, VUint64 indirectOffset], Void)"
| "RenderPassEncoder_forward (wgpuRenderPassEncoderEnd renderPassEncoder) = (renderPassEncoderEnd, [VObj WGPURenderPassEncoder renderPassEncoder], Void)"
| "RenderPassEncoder_forward (wgpuRenderPassEncoderEndOcclusionQuery renderPassEncoder) = (renderPassEncoderEndOcclusionQuery, [VObj WGPURenderPassEncoder renderPassEncoder], Void)"
| "RenderPassEncoder_forward (wgpuRenderPassEncoderExecuteBundles renderPassEncoder bundleCount bundles) = (renderPassEncoderExecuteBundles, [VObj WGPURenderPassEncoder renderPassEncoder, VSize bundleCount, VPtr ''WGPURenderBundle const'' bundles], Void)"
| "RenderPassEncoder_forward (wgpuRenderPassEncoderInsertDebugMarker renderPassEncoder markerLabel) = (renderPassEncoderInsertDebugMarker, [VObj WGPURenderPassEncoder renderPassEncoder, VPtr ''char const'' markerLabel], Void)"
| "RenderPassEncoder_forward (wgpuRenderPassEncoderPixelLocalStorageBarrier renderPassEncoder) = (renderPassEncoderPixelLocalStorageBarrier, [VObj WGPURenderPassEncoder renderPassEncoder], Void)"
| "RenderPassEncoder_forward (wgpuRenderPassEncoderPopDebugGroup renderPassEncoder) = (renderPassEncoderPopDebugGroup, [VObj WGPURenderPassEncoder renderPassEncoder], Void)"
| "RenderPassEncoder_forward (wgpuRenderPassEncoderPushDebugGroup renderPassEncoder groupLabel) = (renderPassEncoderPushDebugGroup, [VObj WGPURenderPassEncoder renderPassEncoder, VPtr ''char const'' groupLabel], Void)"
| "RenderPassEncoder_forward (wgpuRenderPassEncoderSetBindGroup renderPassEncoder groupIndex bindGroup dynamicOffsetCount dynamicOffsets) = (renderPassEncoderSetBindGroup, [VObj WGPURenderPassEncoder renderPassEncoder, VUint32 groupIndex, VObj WGPUBindGroup bindGroup, VSize dynamicOffsetCount, VPtr ''uint32_t const'' dynamicOffsets], Void)"
| "RenderPassEncoder_forward (wgpuRenderPassEncoderSetBlendConstant renderPassEncoder color) = (renderPassEncoderSetBlendConstant, [VObj WGPURenderPassEncoder renderPassEncoder, VPtr ''WGPUColor const'' color], Void)"
| "RenderPassEncoder_forward (wgpuRenderPassEncoderSetIndexBuffer renderPassEncoder buffer format offset sz) = (renderPassEncoderSetIndexBuffer, [VObj WGPURenderPassEncoder renderPassEncoder, VObj WGPUBuffer buffer, VEnum ''WGPUIndexFormat'' format, VUint64 offset, VUint64 sz], Void)"
| "RenderPassEncoder_forward (wgpuRenderPassEncoderSetLabel renderPassEncoder label0) = (renderPassEncoderSetLabel, [VObj WGPURenderPassEncoder renderPassEncoder, VPtr ''char const'' label0], Void)"
| "RenderPassEncoder_forward (wgpuRenderPassEncoderSetPipeline renderPassEncoder pipeline) = (renderPassEncoderSetPipeline, [VObj WGPURenderPassEncoder renderPassEncoder, VObj WGPURenderPipeline pipeline], Void)"
| "RenderPassEncoder_forward (wgpuRenderPassEncoderSetScissorRect renderPassEncoder x y width height) = (renderPassEncoderSetScissorRect, [VObj WGPURenderPassEncoder renderPassEncoder, VUint32 x, VUint32 y, VUint32 width, VUint32 height], Void)"
| "RenderPassEncoder_forward (wgpuRenderPassEncoderSetStencilReference renderPassEncoder reference) = (renderPassEncoderSetStencilReference, [VObj WGPURenderPassEncoder renderPassEncoder, VUint32 reference], Void)"
| "RenderPassEncoder_forward (wgpuRenderPassEncoderSetVertexBuffer renderPassEncoder slot buffer offset sz) = (renderPassEncoderSetVertexBuffer, [VObj WGPURenderPassEncoder renderPassEncoder, VUint32 slot, VObj WGPUBuffer buffer, VUint64 offset, VUint64 sz], Void)"
| "RenderPassEncoder_forward (wgpuRenderPassEncoderSetViewport renderPassEncoder x y width height minDepth maxDepth) = (renderPassEncoderSetViewport, [VObj WGPURenderPassEncoder renderPassEncoder, VFloat x, VFloat y, VFloat width, VFloat height, VFloat minDepth, VFloat maxDepth], Void)"
| "RenderPassEncoder_forward (wgpuRenderPassEncoderWriteTimestamp renderPassEncoder querySet queryIndex) = (renderPassEncoderWriteTimestamp, [VObj WGPURenderPassEncoder renderPassEncoder, VObj WGPUQuerySet querySet, VUint32 queryIndex], Void)"
| "RenderPassEncoder_forward (wgpuRenderPassEncoderReference renderPassEncoder) = (renderPassEncoderReference, [VObj WGPURenderPassEncoder renderPassEncoder], Void)"
| "RenderPassEncoder_forward (wgpuRenderPassEncoderRelease renderPassEncoder) = (renderPassEncoderRelease, [VObj WGPURenderPassEncoder renderPassEncoder], Void)"

primrec RenderPassEncoder_signature :: "RenderPassEncoder_slot \<Rightarrow> ctype list \<times> ctype" where
  "RenderPassEncoder_signature renderPassEncoderBeginOcclusionQuery = ([Obj WGPURenderPassEncoder, Uint32], Void)"
| "RenderPassEncoder_signature renderPassEncoderDraw = ([Obj WGPURenderPassEncoder, Uint32, Uint32, Uint32, Uint32], Void)"
| "RenderPassEncoder_signature renderPassEncoderDrawIndexed = ([Obj WGPURenderPassEncoder, Uint32, Uint32, Uint32, Int32, Uint32], Void)"
| "RenderPassEncoder_signature renderPassEncoderDrawIndexedIndirect = ([Obj WGPURenderPassEncoder, Obj WGPUBuffer, Uint64], Void)"
| "RenderPassEncoder_signature renderPassEncoderDrawIndirect = ([Obj WGPURenderPassEncoder, Obj WGPUBuffer, Uint64], Void)"
| "RenderPassEncoder_signature renderPassEncoderEnd = ([Obj WGPURenderPassEncoder], Void)"
| "RenderPassEncoder_signature renderPassEncoderEndOcclusionQuery = ([Obj WGPURenderPassEncoder], Void)"
| "RenderPassEncoder_signature renderPassEncoderExecuteBundles = ([Obj WGPURenderPassEncoder, Size, Pointer ''WGPURenderBundle const''], Void)"
| "RenderPassEncoder_signature renderPassEncoderInsertDebugMarker = ([Obj WGPURenderPassEncoder, Pointer ''char const''], Void)"
| "RenderPassEncoder_signature renderPassEncoderPixelLocalStorageBarrier = ([Obj WGPURenderPassEncoder], Void)"
| "RenderPassEncoder_signature renderPassEncoderPopDebugGroup = ([Obj WGPURenderPassEncoder], Void)"
| "RenderPassEncoder_signature renderPassEncoderPushDebugGroup = ([Obj WGPURenderPassEncoder, Pointer ''char const''], Void)"
| "RenderPassEncoder_signature renderPassEncoderSetBindGroup = ([Obj WGPURenderPassEncoder, Uint32, Obj WGPUBindGroup, Size, Pointer ''uint32_t const''], Void)"
| "RenderPassEncoder_signature renderPassEncoderSetBlendConstant = ([Obj WGPURenderPassEncoder, Pointer ''WGPUColor const''], Void)"
| "RenderPassEncoder_signature renderPassEncoderSetIndexBuffer = ([Obj WGPURenderPassEncoder, Obj WGPUBuffer, Enum ''WGPUIndexFormat'', Uint64, Uint64], Void)"
| "RenderPassEncoder_signature renderPassEncoderSetLabel = ([Obj WGPURenderPassEncoder, Pointer ''char const''], Void)"
| "RenderPassEncoder_signature renderPassEncoderSetPipeline = ([Obj WGPURenderPassEncoder, Obj WGPURenderPipeline], Void)"
| "RenderPassEncoder_signature renderPassEncoderSetScissorRect = ([Obj WGPURenderPassEncoder, Uint32, Uint32, Uint32, Uint32], Void)"
| "RenderPassEncoder_signature renderPassEncoderSetStencilReference = ([Obj WGPURenderPassEncoder, Uint32], Void)"
| "RenderPassEncoder_signature renderPassEncoderSetVertexBuffer = ([Obj WGPURenderPassEncoder, Uint32, Obj WGPUBuffer, Uint64, Uint64], Void)"
| "RenderPassEncoder_signature renderPassEncoderSetViewport = ([Obj WGPURenderPassEncoder, Float, Float, Float, Float, Float, Float], Void)"
| "RenderPassEncoder_signature renderPassEncoderWriteTimestamp = ([Obj WGPURenderPassEncoder, Obj WGPUQuerySet, Uint32], Void)"
| "RenderPassEncoder_signature renderPassEncoderReference = ([Obj WGPURenderPassEncoder], Void)"
| "RenderPassEncoder_signature renderPassEncoderRelease = ([Obj WGPURenderPassEncoder], Void)"

primrec RenderPassEncoder_declared :: "RenderPassEncoder_call \<Rightarrow> string \<times> cval list \<times> ctype" where
  "RenderPassEncoder_declared (wgpuRenderPassEncoderBeginOcclusionQuery renderPassEncoder queryIndex) = (''RenderPassEncoderBeginOcclusionQuery'', [VObj WGPURenderPassEncoder renderPassEncoder, VUint32 queryIndex], Void)"
| "RenderPassEncoder_declared (wgpuRenderPassEncoderDraw renderPassEncoder vertexCount instanceCount firstVertex firstInstance) = (''RenderPassEncoderDraw'', [VObj WGPURenderPassEncoder renderPassEncoder, VUint32 vertexCount, VUint32 instanceCount, VUint32 firstVertex, VUint32 firstInstance], Void)"
| "RenderPassEncoder_declared (wgpuRenderPassEncoderDrawIndexed renderPassEncoder indexCount instanceCount firstIndex baseVertex firstInstance) = (''RenderPassEncoderDrawIndexed'', [VObj WGPURenderPassEncoder renderPassEncoder, VUint32 indexCount, VUint32 instanceCount, VUint32 firstIndex, VInt32 baseVertex, VUint32 firstInstance], Void)"
| "RenderPassEncoder_declared (wgpuRenderPassEncoderDrawIndexedIndirect renderPassEncoder indirectBuffer indirectOffset) = (''RenderPassEncoderDrawIndexedIndirect'', [VObj WGPURenderPassEncoder renderPassEncoder, VObj WGPUBuffer indirectBuffer, VUint64 indirectOffset], Void)"
| "RenderPassEncoder_declared (wgpuRenderPassEncoderDrawIndirect renderPassEncoder indirectBuffer indirectOffset) = (''RenderPassEncoderDrawIndirect'', [VObj WGPURenderPassEncoder renderPassEncoder, VObj WGPUBuffer indirectBuffer, VUint64 indirectOffset], Void)"
| "RenderPassEncoder_declared (wgpuRenderPassEncoderEnd renderPassEncoder) = (''RenderPassEncoderEnd'', [VObj WGPURenderPassEncoder renderPassEncoder], Void)"
| "RenderPassEncoder_declared (wgpuRenderPassEncoderEndOcclusionQuery renderPassEncoder) = (''RenderPassEncoderEndOcclusionQuery'', [VObj WGPURenderPassEncoder renderPassEncoder], Void)"
| "RenderPassEncoder_declared (wgpuRenderPassEncoderExecuteBundles renderPassEncoder bundleCount bundles) = (''RenderPassEncoderExecuteBundles'', [VObj WGPURenderPassEncoder renderPassEncoder, VSize bundleCount, VPtr ''WGPURenderBundle const'' bundles], Void)"
| "RenderPassEncoder_declared (wgpuRenderPassEncoderInsertDebugMarker renderPassEncoder markerLabel) = (''RenderPassEncoderInsertDebugMarker'', [VObj WGPURenderPassEncoder renderPassEncoder, VPtr ''char const'' markerLabel], Void)"
| "RenderPassEncoder_declared (wgpuRenderPassEncoderPixelLocalStorageBarrier renderPassEncoder) = (''RenderPassEncoderPixelLocalStorageBarrier'', [VObj WGPURenderPassEncoder renderPassEncoder], Void)"
| "RenderPassEncoder_declared (wgpuRenderPassEncoderPopDebugGroup renderPassEncoder) = (''RenderPassEncoderPopDebugGroup'', [VObj WGPURenderPassEncoder renderPassEncoder], Void)"
| "RenderPassEncoder_declared (wgpuRenderPassEncoderPushDebugGroup renderPassEncoder groupLabel) = (''RenderPassEncoderPushDebugGroup'', [VObj WGPURenderPassEncoder renderPassEncoder, VPtr ''char const'' groupLabel], Void)"
| "RenderPassEncoder_declared (wgpuRenderPassEncoderSetBindGroup renderPassEncoder groupIndex bindGroup dynamicOffsetCount dynamicOffsets) = (''RenderPassEncoderSetBindGroup'', [VObj WGPURenderPassEncoder renderPassEncoder, VUint32 groupIndex, VObj WGPUBindGroup bindGroup, VSize dynamicOffsetCount, VPtr ''uint32_t const'' dynamicOffsets], Void)"
| "RenderPassEncoder_declared (wgpuRenderPassEncoderSetBlendConstant renderPassEncoder color) = (''RenderPassEncoderSetBlendConstant'', [VObj WGPURenderPassEncoder renderPassEncoder, VPtr ''WGPUColor const'' color], Void)"
| "RenderPassEncoder_declared (wgpuRenderPassEncoderSetIndexBuffer renderPassEncoder buffer format offset sz) = (''RenderPassEncoderSetIndexBuffer'', [VObj WGPURenderPassEncoder renderPassEncoder, VObj WGPUBuffer buffer, VEnum ''WGPUIndexFormat'' format, VUint64 offset, VUint64 sz], Void)"
| "RenderPassEncoder_declared (wgpuRenderPassEncoderSetLabel renderPassEncoder label0) = (''RenderPassEncoderSetLabel'', [VObj WGPURenderPassEncoder renderPassEncoder, VPtr ''char const'' label0], Void)"
| "RenderPassEncoder_declared (wgpuRenderPassEncoderSetPipeline renderPassEncoder pipeline) = (''RenderPassEncoderSetPipeline'', [VObj WGPURenderPassEncoder renderPassEncoder, VObj WGPURenderPipeline pipeline], Void)"
| "RenderPassEncoder_declared (wgpuRenderPassEncoderSetScissorRect renderPassEncoder x y width height) = (''RenderPassEncoderSetScissorRect'', [VObj WGPURenderPassEncoder renderPassEncoder, VUint32 x, VUint32 y, VUint32 width, VUint32 height], Void)"
| "RenderPassEncoder_declared (wgpuRenderPassEncoderSetStencilReference renderPassEncoder reference) = (''RenderPassEncoderSetStencilReference'', [VObj WGPURenderPassEncoder renderPassEncoder, VUint32 reference], Void)"
| "RenderPassEncoder_declared (wgpuRenderPassEncoderSetVertexBuffer renderPassEncoder slot buffer offset sz) = (''RenderPassEncoderSetVertexBuffer'', [VObj WGPURenderPassEncoder renderPassEncoder, VUint32 slot, VObj WGPUBuffer buffer, VUint64 offset, VUint64 sz], Void)"
| "RenderPassEncoder_declared (wgpuRenderPassEncoderSetViewport renderPassEncoder x y width height minDepth maxDepth) = (''RenderPassEncoderSetViewport'', [VObj WGPURenderPassEncoder renderPassEncoder, VFloat x, VFloat y, VFloat width, VFloat height, VFloat minDepth, VFloat maxDepth], Void)"
| "RenderPassEncoder_declared (wgpuRenderPassEncoderWriteTimestamp renderPassEncoder querySet queryIndex) = (''RenderPassEncoderWriteTimestamp'', [VObj WGPURenderPassEncoder renderPassEncoder, VObj WGPUQuerySet querySet, VUint32 queryIndex], Void)"
| "RenderPassEncoder_declared (wgpuRenderPassEncoderReference renderPassEncoder) = (''RenderPassEncoderReference'', [VObj WGPURenderPassEncoder renderPassEncoder], Void)"
| "RenderPassEncoder_declared (wgpuRenderPassEncoderRelease renderPassEncoder) = (''RenderPassEncoderRelease'', [VObj WGPURenderPassEncoder renderPassEncoder], Void)"

primrec RenderPassEncoder_entry :: "RenderPassEncoder_slot \<Rightarrow> string" where
  "RenderPassEncoder_entry renderPassEncoderBeginOcclusionQuery = ''RenderPassEncoderBeginOcclusionQuery''"
| "RenderPassEncoder_entry renderPassEncoderDraw = ''RenderPassEncoderDraw''"
| "RenderPassEncoder_entry renderPassEncoderDrawIndexed = ''RenderPassEncoderDrawIndexed''"
| "RenderPassEncoder_entry renderPassEncoderDrawIndexedIndirect = ''RenderPassEncoderDrawIndexedIndirect''"
| "RenderPassEncoder_entry renderPassEncoderDrawIndirect = ''RenderPassEncoderDrawIndirect''"
| "RenderPassEncoder_entry renderPassEncoderEnd = ''RenderPassEncoderEnd''"
| "RenderPassEncoder_entry renderPassEncoderEndOcclusionQuery = ''RenderPassEncoderEndOcclusionQuery''"
| "RenderPassEncoder_entry renderPassEncoderExecuteBundles = ''RenderPassEncoderExecuteBundles''"
| "RenderPassEncoder_entry renderPassEncoderInsertDebugMarker = ''RenderPassEncoderInsertDebugMarker''"
| "RenderPassEncoder_entry renderPassEncoderPixelLocalStorageBarrier = ''RenderPassEncoderPixelLocalStorageBarrier''"
| "RenderPassEncoder_entry renderPassEncoderPopDebugGroup = ''RenderPassEncoderPopDebugGroup''"
| "RenderPassEncoder_entry renderPassEncoderPushDebugGroup = ''RenderPassEncoderPushDebugGroup''"
| "RenderPassEncoder_entry renderPassEncoderSetBindGroup = ''RenderPassEncoderSetBindGroup''"
| "RenderPassEncoder_entry renderPassEncoderSetBlendConstant = ''RenderPassEncoderSetBlendConstant''"
| "RenderPassEncoder_entry renderPassEncoderSetIndexBuffer = ''RenderPassEncoderSetIndexBuffer''"
| "RenderPassEncoder_entry renderPassEncoderSetLabel = ''RenderPassEncoderSetLabel''"
| "RenderPassEncoder_entry renderPassEncoderSetPipeline = ''RenderPassEncoderSetPipeline''"
| "RenderPassEncoder_entry renderPassEncoderSetScissorRect = ''RenderPassEncoderSetScissorRect''"
| "RenderPassEncoder_entry renderPassEncoderSetStencilReference = ''RenderPassEncoderSetStencilReference''"
| "RenderPassEncoder_entry renderPassEncoderSetVertexBuffer = ''RenderPassEncoderSetVertexBuffer''"
| "RenderPassEncoder_entry renderPassEncoderSetViewport = ''RenderPassEncoderSetViewport''"
| "RenderPassEncoder_entry renderPassEncoderWriteTimestamp = ''RenderPassEncoderWriteTimestamp''"
| "RenderPassEncoder_entry renderPassEncoderReference = ''RenderPassEncoderReference''"
| "RenderPassEncoder_entry renderPassEncoderRelease = ''RenderPassEncoderRelease''"

interpretation renderpassencoder_fw: forwarding RenderPassEncoder_forward RenderPassEncoder_signature RenderPassEncoder_declared RenderPassEncoder_entry
proof unfold_locales
  fix c c' :: RenderPassEncoder_call and s args r
  show "RenderPassEncoder_forward c = (s, args, r) \<Longrightarrow> RenderPassEncoder_signature s = (map type_of args, r)"
    by (cases c) auto
  show "RenderPassEncoder_forward c = RenderPassEncoder_forward c' \<Longrightarrow> c = c'"
    by (cases c; cases c'; simp)
  show "RenderPassEncoder_declared c = (RenderPassEncoder_entry (fst (RenderPassEncoder_forward c)), snd (RenderPassEncoder_forward c))"
    by (cases c) simp_all
qed

end
