(* ===== verification/Proc_Devices.thy ===== *)
theory Proc_Devices
  imports Proc_Values
begin

text \<open>
  The exported functions of \<open>src/client/proc.cpp\<close> on devices, textures, samplers, shader modules, shared
  memory, surfaces and swap chains. For each family: the entries of
  the proc table, the calls, what a call forwards to (as the function bodies do), the types of
  the entries and the prototypes of the functions (both from \<open>webgpu.h\<close>), and the contract of \<open>forwarding\<close>.
\<close>

section \<open>DeviceCreate\<close>

datatype (plugins only: code size) DeviceCreate_slot =
    deviceCreateBindGroup
  | deviceCreateBindGroupLayout
  | deviceCreateBuffer
  | deviceCreateCommandEncoder
  | deviceCreateComputePipeline
  | deviceCreateComputePipelineAsync
  | deviceCreateComputePipelineAsyncF
  | deviceCreateErrorBuffer
  | deviceCreateErrorExternalTexture
  | deviceCreateErrorShaderModule
  | deviceCreateErrorTexture
  | deviceCreateExternalTexture
  | deviceCreatePipelineLayout
  | deviceCreateQuerySet
  | deviceCreateRenderBundleEncoder
  | deviceCreateRenderPipeline
  | deviceCreateRenderPipelineAsync
  | deviceCreateRenderPipelineAsyncF
  | deviceCreateSampler
  | deviceCreateShaderModule
  | deviceCreateSwapChain
  | deviceCreateTexture

datatype (plugins only: code size) DeviceCreate_call =
    wgpuDeviceCreateBindGroup ptr ptr
  | wgpuDeviceCreateBindGroupLayout ptr ptr
  | wgpuDeviceCreateBuffer ptr ptr
  | wgpuDeviceCreateCommandEncoder ptr ptr
  | wgpuDeviceCreateComputePipeline ptr ptr
  | wgpuDeviceCreateComputePipelineAsync ptr ptr ptr ptr
  | wgpuDeviceCreateComputePipelineAsyncF ptr ptr "byte list"
  | wgpuDeviceCreateErrorBuffer ptr ptr
  | wgpuDeviceCreateErrorExternalTexture ptr
  | wgpuDeviceCreateErrorShaderModule ptr ptr ptr
  | wgpuDeviceCreateErrorTexture ptr ptr
  | wgpuDeviceCreateExternalTexture ptr ptr
  | wgpuDeviceCreatePipelineLayout ptr ptr
  | wgpuDeviceCreateQuerySet ptr ptr
  | wgpuDeviceCreateRenderBundleEncoder ptr ptr
  | wgpuDeviceCreateRenderPipeline ptr ptr
  | wgpuDeviceCreateRenderPipelineAsync ptr ptr ptr ptr
  | wgpuDeviceCreateRenderPipelineAsyncF ptr ptr "byte list"
  | wgpuDeviceCreateSampler ptr ptr
  | wgpuDeviceCreateShaderModule ptr ptr
  | wgpuDeviceCreateSwapChain ptr ptr ptr
  | wgpuDeviceCreateTexture ptr ptr

primrec DeviceCreate_forward :: "DeviceCreate_call \<Rightarrow> DeviceCreate_slot \<times> cval list \<times> ctype" where
  "DeviceCreate_forward (wgpuDeviceCreateBindGroup device descriptor) = (deviceCreateBindGroup, [VObj WGPUDevice device, VPtr ''WGPUBindGroupDescriptor const'' descriptor], Obj WGPUBindGroup)"
| "DeviceCreate_forward (wgpuDeviceCreateBindGroupLayout device descriptor) = (deviceCreateBindGroupLayout, [VObj WGPUDevice device, VPtr ''WGPUBindGroupLayoutDescriptor const'' descriptor], Obj WGPUBindGroupLayout)"
| "DeviceCreate_forward (wgpuDeviceCreateBuffer device descriptor) = (deviceCreateBuffer, [VObj WGPUDevice device, VPtr ''WGPUBufferDescriptor const'' descriptor], Obj WGPUBuffer)"
| "DeviceCreate_forward (wgpuDeviceCreateCommandEncoder device descriptor) = (deviceCreateCommandEncoder, [VObj WGPUDevice device, VPtr ''WGPUCommandEncoderDescriptor const'' descriptor], Obj WGPUCommandEncoder)"
| "DeviceCreate_forward (wgpuDeviceCreateComputePipeline device descriptor) = (deviceCreateComputePipeline, [VObj WGPUDevice device, VPtr ''WGPUComputePipelineDescriptor const'' descriptor], Obj WGPUComputePipeline)"
| "DeviceCreate_forward (wgpuDeviceCreateComputePipelineAsync device descriptor callback userdata) = (deviceCreateComputePipelineAsync, [VObj WGPUDevice device, VPtr ''WGPUComputePipelineDescriptor const'' descriptor, VFun ''WGPUCreateComputePipelineAsyncCallback'' callback, VPtr ''void'' userdata], Void)"
| "DeviceCreate_forward (wgpuDeviceCreateComputePipelineAsyncF device descriptor callbackInfo) = (deviceCreateComputePipelineAsyncF, [VObj WGPUDevice device, VPtr ''WGPUComputePipelineDescriptor const'' descriptor, VStruct ''WGPUCreateComputePipelineAsyncCallbackInfo'' callbackInfo], Struct ''WGPUFuture'')"
| "DeviceCreate_forward (wgpuDeviceCreateErrorBuffer device descriptor) = (deviceCreateErrorBuffer, [VObj WGPUDevice device, VPtr ''WGPUBufferDescriptor const'' descriptor], Obj WGPUBuffer)"
| "DeviceCreate_forward (wgpuDeviceCreateErrorExternalTexture device) = (deviceCreateErrorExternalTexture, [VObj WGPUDevice device], Obj WGPUExternalTexture)"
| "DeviceCreate_forward (wgpuDeviceCreateErrorShaderModule device descriptor errorMessage) = (deviceCreateErrorShaderModule, [VObj WGPUDevice device, VPtr ''WGPUShaderModuleDescriptor const'' descriptor, VPtr ''char const'' errorMessage], Obj WGPUShaderModule)"
| "DeviceCreate_forward (wgpuDeviceCreateErrorTexture device descriptor) = (deviceCreateErrorTexture, [VObj WGPUDevice device, VPtr ''WGPUTextureDescriptor const'' descriptor], Obj WGPUTexture)"
| "DeviceCreate_forward (wgpuDeviceCreateExternalTexture device externalTextureDescriptor) = (deviceCreateExternalTexture, [VObj WGPUDevice device, VPtr ''WGPUExternalTextureDescriptor const'' externalTextureDescriptor], Obj WGPUExternalTexture)"
| "DeviceCreate_forward (wgpuDeviceCreatePipelineLayout device descriptor) = (deviceCreatePipelineLayout, [VObj WGPUDevice device, VPtr ''WGPUPipelineLayoutDescriptor const'' descriptor], Obj WGPUPipelineLayout)"
| "DeviceCreate_forward (wgpuDeviceCreateQuerySet device descriptor) = (deviceCreateQuerySet, [VObj WGPUDevice device, VPtr ''WGPUQuerySetDescriptor const'' descriptor], Obj WGPUQuerySet)"
| "DeviceCreate_forward (wgpuDeviceCreateRenderBundleEncoder device descriptor) = (deviceCreateRenderBundleEncoder, [VObj WGPUDevice device, VPtr ''WGPURenderBundleEncoderDescriptor const'' descriptor], Obj WGPURenderBundleEncoder)"
| "DeviceCreate_forward (wgpuDeviceCreateRenderPipeline device descriptor) = (deviceCreateRenderPipeline, [VObj WGPUDevice device, VPtr ''WGPURenderPipelineDescriptor const'' descriptor], Obj WGPURenderPipeline)"
| "DeviceCreate_forward (wgpuDeviceCreateRenderPipelineAsync device descriptor callback userdata) = (deviceCreateRenderPipelineAsync, [VObj WGPUDevice device, VPtr ''WGPURenderPipelineDescriptor const'' descriptor, VFun ''WGPUCreateRenderPipelineAsyncCallback'' callback, VPtr ''void'' userdata], Void)"
| "DeviceCreate_forward (wgpuDeviceCreateRenderPipelineAsyncF device descriptor callbackInfo) = (deviceCreateRenderPipelineAsyncF, [VObj WGPUDevice device, VPtr ''WGPURenderPipelineDescriptor const'' descriptor, VStruct ''WGPUCreateRenderPipelineAsyncCallbackInfo'' callbackInfo], Struct ''WGPUFuture'')"
| "DeviceCreate_forward (wgpuDeviceCreateSampler device descriptor) = (deviceCreateSampler, [VObj WGPUDevice device, VPtr ''WGPUSamplerDescriptor const'' descriptor], Obj WGPUSampler)"
| "DeviceCreate_forward (wgpuDeviceCreateShaderModule device descriptor) = (deviceCreateShaderModule, [VObj WGPUDevice device, VPtr ''WGPUShaderModuleDescriptor const'' descriptor], Obj WGPUShaderModule)"
| "DeviceCreate_forward (wgpuDeviceCreateSwapChain device surface descriptor) = (deviceCreateSwapChain, [VObj WGPUDevice device, VObj WGPUSurface surface, VPtr ''WGPUSwapChainDescriptor const'' descriptor], Obj WGPUSwapChain)"
| "DeviceCreate_forward (wgpuDeviceCreateTexture device descriptor) = (deviceCreateTexture, [VObj WGPUDevice device, VPtr ''WGPUTextureDescriptor const'' descriptor], Obj WGPUTexture)"

primrec DeviceCreate_signature :: "DeviceCreate_slot \<Rightarrow> ctype list \<times> ctype" where
  "DeviceCreate_signature deviceCreateBindGroup = ([Obj WGPUDevice, Pointer ''WGPUBindGroupDescriptor const''], Obj WGPUBindGroup)"
| "DeviceCreate_signature deviceCreateBindGroupLayout = ([Obj WGPUDevice, Pointer ''WGPUBindGroupLayoutDescriptor const''], Obj WGPUBindGroupLayout)"
| "DeviceCreate_signature deviceCreateBuffer = ([Obj WGPUDevice, Pointer ''WGPUBufferDescriptor const''], Obj WGPUBuffer)"
| "DeviceCreate_signature deviceCreateCommandEncoder = ([Obj WGPUDevice, Pointer ''WGPUCommandEncoderDescriptor const''], Obj WGPUCommandEncoder)"
| "DeviceCreate_signature deviceCreateComputePipeline = ([Obj WGPUDevice, Pointer ''WGPUComputePipelineDescriptor const''], Obj WGPUComputePipeline)"
| "DeviceCreate_signature deviceCreateComputePipelineAsync = ([Obj WGPUDevice, Pointer ''WGPUComputePipelineDescriptor const'', Callback ''WGPUCreateComputePipelineAsyncCallback'', Pointer ''void''], Void)"
| "DeviceCreate_signature deviceCreateComputePipelineAsyncF = ([Obj WGPUDevice, Pointer ''WGPUComputePipelineDescriptor const'', Struct ''WGPUCreateComputePipelineAsyncCallbackInfo''], Struct ''WGPUFuture'')"
| "DeviceCreate_signature deviceCreateErrorBuffer = ([Obj WGPUDevice, Pointer ''WGPUBufferDescriptor const''], Obj WGPUBuffer)"
| "DeviceCreate_signature deviceCreateErrorExternalTexture = ([Obj WGPUDevice], Obj WGPUExternalTexture)"
| "DeviceCreate_signature deviceCreateErrorShaderModule = ([Obj WGPUDevice, Pointer ''WGPUShaderModuleDescriptor const'', Pointer ''char const''], Obj WGPUShaderModule)"
| "DeviceCreate_signature deviceCreateErrorTexture = ([Obj WGPUDevice, Pointer ''WGPUTextureDescriptor const''], Obj WGPUTexture)"
| "DeviceCreate_signature deviceCreateExternalTexture = ([Obj WGPUDevice, Pointer ''WGPUExternalTextureDescriptor const''], Obj WGPUExternalTexture)"
| "DeviceCreate_signature deviceCreatePipelineLayout = ([Obj WGPUDevice, Pointer ''WGPUPipelineLayoutDescriptor const''], Obj WGPUPipelineLayout)"
| "DeviceCreate_signature deviceCreateQuerySet = ([Obj WGPUDevice, Pointer ''WGPUQuerySetDescriptor const''], Obj WGPUQuerySet)"
| "DeviceCreate_signature deviceCreateRenderBundleEncoder = ([Obj WGPUDevice, Pointer ''WGPURenderBundleEncoderDescriptor const''], Obj WGPURenderBundleEncoder)"
| "DeviceCreate_signature deviceCreateRenderPipeline = ([Obj WGPUDevice, Pointer ''WGPURenderPipelineDescriptor const''], Obj WGPURenderPipeline)"
| "DeviceCreate_signature deviceCreateRenderPipelineAsync = ([Obj WGPUDevice, Pointer ''WGPURenderPipelineDescriptor const'', Callback ''WGPUCreateRenderPipelineAsyncCallback'', Pointer ''void''], Void)"
| "DeviceCreate_signature deviceCreateRenderPipelineAsyncF = ([Obj WGPUDevice, Pointer ''WGPURenderPipelineDescriptor const'', Struct ''WGPUCreateRenderPipelineAsyncCallbackInfo''], Struct ''WGPUFuture'')"
| "DeviceCreate_signature deviceCreateSampler = ([Obj WGPUDevice, Pointer ''WGPUSamplerDescriptor const''], Obj WGPUSampler)"
| "DeviceCreate_signature deviceCreateShaderModule = ([Obj WGPUDevice, Pointer ''WGPUShaderModuleDescriptor const''], Obj WGPUShaderModule)"
| "DeviceCreate_signature deviceCreateSwapChain = ([Obj WGPUDevice, Obj WGPUSurface, Pointer ''WGPUSwapChainDescriptor const''], Obj WGPUSwapChain)"
| "DeviceCreate_signature deviceCreateTexture = ([Obj WGPUDevice, Pointer ''WGPUTextureDescriptor const''], Obj WGPUTexture)"

primrec DeviceCreate_declared :: "DeviceCreate_call \<Rightarrow> string \<times> cval list \<times> ctype" where
  "DeviceCreate_declared (wgpuDeviceCreateBindGroup device descriptor) = (''DeviceCreateBindGroup'', [VObj WGPUDevice device, VPtr ''WGPUBindGroupDescriptor const'' descriptor], Obj WGPUBindGroup)"
| "DeviceCreate_declared (wgpuDeviceCreateBindGroupLayout device descriptor) = (''DeviceCreateBindGroupLayout'', [VObj WGPUDevice device, VPtr ''WGPUBindGroupLayoutDescriptor const'' descriptor], Obj WGPUBindGroupLayout)"
| "DeviceCreate_declared (wgpuDeviceCreateBuffer device descriptor) = (''DeviceCreateBuffer'', [VObj WGPUDevice device, VPtr ''WGPUBufferDescriptor const'' descriptor], Obj WGPUBuffer)"
| "DeviceCreate_declared (wgpuDeviceCreateCommandEncoder device descriptor) = (''DeviceCreateCommandEncoder'', [VObj WGPUDevice device, VPtr ''WGPUCommandEncoderDescriptor const'' descriptor], Obj WGPUCommandEncoder)"
| "DeviceCreate_declared (wgpuDeviceCreateComputePipeline device descriptor) = (''DeviceCreateComputePipeline'', [VObj WGPUDevice device, VPtr ''WGPUComputePipelineDescriptor const'' descriptor], Obj WGPUComputePipeline)"
| "DeviceCreate_declared (wgpuDeviceCreateComputePipelineAsync device descriptor callback userdata) = (''DeviceCreateComputePipelineAsync'', [VObj WGPUDevice device, VPtr ''WGPUComputePipelineDescriptor const'' descriptor, VFun ''WGPUCreateComputePipelineAsyncCallback'' callback, VPtr ''void'' userdata], Void)"
| "DeviceCreate_declared (wgpuDeviceCreateComputePipelineAsyncF device descriptor callbackInfo) = (''DeviceCreateComputePipelineAsyncF'', [VObj WGPUDevice device, VPtr ''WGPUComputePipelineDescriptor const'' descriptor, VStruct ''WGPUCreateComputePipelineAsyncCallbackInfo'' callbackInfo], Struct ''WGPUFuture'')"
| "DeviceCreate_declared (wgpuDeviceCreateErrorBuffer device descriptor) = (''DeviceCreateErrorBuffer'', [VObj WGPUDevice device, VPtr ''WGPUBufferDescriptor const'' descriptor], Obj WGPUBuffer)"
| "DeviceCreate_declared (wgpuDeviceCreateErrorExternalTexture device) = (''DeviceCreateErrorExternalTexture'', [VObj WGPUDevice device], Obj WGPUExternalTexture)"
| "DeviceCreate_declared (wgpuDeviceCreateErrorShaderModule device descriptor errorMessage) = (''DeviceCreateErrorShaderModule'', [VObj WGPUDevice device, VPtr ''WGPUShaderModuleDescriptor const'' descriptor, VPtr ''char const'' errorMessage], Obj WGPUShaderModule)"
| "DeviceCreate_declared (wgpuDeviceCreateErrorTexture device descriptor) = (''DeviceCreateErrorTexture'', [VObj WGPUDevice device, VPtr ''WGPUTextureDescriptor const'' descriptor], Obj WGPUTexture)"
| "DeviceCreate_declared (wgpuDeviceCreateExternalTexture device externalTextureDescriptor) = (''DeviceCreateExternalTexture'', [VObj WGPUDevice device, VPtr ''WGPUExternalTextureDescriptor const'' externalTextureDescriptor], Obj WGPUExternalTexture)"
| "DeviceCreate_declared (wgpuDeviceCreatePipelineLayout device descriptor) = (''DeviceCreatePipelineLayout'', [VObj WGPUDevice device, VPtr ''WGPUPipelineLayoutDescriptor const'' descriptor], Obj WGPUPipelineLayout)"
| "DeviceCreate_declared (wgpuDeviceCreateQuerySet device descriptor) = (''DeviceCreateQuerySet'', [VObj WGPUDevice device, VPtr ''WGPUQuerySetDescriptor const'' descriptor], Obj WGPUQuerySet)"
| "DeviceCreate_declared (wgpuDeviceCreateRenderBundleEncoder device descriptor) = (''DeviceCreateRenderBundleEncoder'', [VObj WGPUDevice device, VPtr ''WGPURenderBundleEncoderDescriptor const'' descriptor], Obj WGPURenderBundleEncoder)"
| "DeviceCreate_declared (wgpuDeviceCreateRenderPipeline device descriptor) = (''DeviceCreateRenderPipeline'', [VObj WGPUDevice device, VPtr ''WGPURenderPipelineDescriptor const'' descriptor], Obj WGPURenderPipeline)"
| "DeviceCreate_declared (wgpuDeviceCreateRenderPipelineAsync device descriptor callback userdata) = (''DeviceCreateRenderPipelineAsync'', [VObj WGPUDevice device, VPtr ''WGPURenderPipelineDescriptor const'' descriptor, VFun ''WGPUCreateRenderPipelineAsyncCallback'' callback, VPtr ''void'' userdata], Void)"
| "DeviceCreate_declared (wgpuDeviceCreateRenderPipelineAsyncF device descriptor callbackInfo) = (''DeviceCreateRenderPipelineAsyncF'', [VObj WGPUDevice device, VPtr ''WGPURenderPipelineDescriptor const'' descriptor, VStruct ''WGPUCreateRenderPipelineAsyncCallbackInfo'' callbackInfo], Struct ''WGPUFuture'')"
| "DeviceCreate_declared (wgpuDeviceCreateSampler device descriptor) = (''DeviceCreateSampler'', [VObj WGPUDevice device, VPtr ''WGPUSamplerDescriptor const'' descriptor], Obj WGPUSampler)"
| "DeviceCreate_declared (wgpuDeviceCreateShaderModule device descriptor) = (''DeviceCreateShaderModule'', [VObj WGPUDevice device, VPtr ''WGPUShaderModuleDescriptor const'' descriptor], Obj WGPUShaderModule)"
| "DeviceCreate_declared (wgpuDeviceCreateSwapChain device surface descriptor) = (''DeviceCreateSwapChain'', [VObj WGPUDevice device, VObj WGPUSurface surface, VPtr ''WGPUSwapChainDescriptor const'' descriptor], Obj WGPUSwapChain)"
| "DeviceCreate_declared (wgpuDeviceCreateTexture device descriptor) = (''DeviceCreateTexture'', [VObj WGPUDevice device, VPtr ''WGPUTextureDescriptor const'' descriptor], Obj WGPUTexture)"

primrec DeviceCreate_entry :: "DeviceCreate_slot \<Rightarrow> string" where
  "DeviceCreate_entry deviceCreateBindGroup = ''DeviceCreateBindGroup''"
| "DeviceCreate_entry deviceCreateBindGroupLayout = ''DeviceCreateBindGroupLayout''"
| "DeviceCreate_entry deviceCreateBuffer = ''DeviceCreateBuffer''"
| "DeviceCreate_entry deviceCreateCommandEncoder = ''DeviceCreateCommandEncoder''"
| "DeviceCreate_entry deviceCreateComputePipeline = ''DeviceCreateComputePipeline''"
| "DeviceCreate_entry deviceCreateComputePipelineAsync = ''DeviceCreateComputePipelineAsync''"
| "DeviceCreate_entry deviceCreateComputePipelineAsyncF = ''DeviceCreateComputePipelineAsyncF''"
| "DeviceCreate_entry deviceCreateErrorBuffer = ''DeviceCreateErrorBuffer''"
| "DeviceCreate_entry deviceCreateErrorExternalTexture = ''DeviceCreateErrorExternalTexture''"
| "DeviceCreate_entry deviceCreateErrorShaderModule = ''DeviceCreateErrorShaderModule''"
| "DeviceCreate_entry deviceCreateErrorTexture = ''DeviceCreateErrorTexture''"
| "DeviceCreate_entry deviceCreateExternalTexture = ''DeviceCreateExternalTexture''"
| "DeviceCreate_entry deviceCreatePipelineLayout = ''DeviceCreatePipelineLayout''"
| "DeviceCreate_entry deviceCreateQuerySet = ''DeviceCreateQuerySet''"
| "DeviceCreate_entry deviceCreateRenderBundleEncoder = ''DeviceCreateRenderBundleEncoder''"
| "DeviceCreate_entry deviceCreateRenderPipeline = ''DeviceCreateRenderPipeline''"
| "DeviceCreate_entry deviceCreateRenderPipelineAsync = ''DeviceCreateRenderPipelineAsync''"
| "DeviceCreate_entry deviceCreateRenderPipelineAsyncF = ''DeviceCreateRenderPipelineAsyncF''"
| "DeviceCreate_entry deviceCreateSampler = ''DeviceCreateSampler''"
| "DeviceCreate_entry deviceCreateShaderModule = ''DeviceCreateShaderModule''"
| "DeviceCreate_entry deviceCreateSwapChain = ''DeviceCreateSwapChain''"
| "DeviceCreate_entry deviceCreateTexture = ''DeviceCreateTexture''"

interpretation devicecreate_fw: forwarding DeviceCreate_forward DeviceCreate_signature DeviceCreate_declared DeviceCreate_entry
proof unfold_locales
  fix c c' :: DeviceCreate_call and s args r
  show "DeviceCreate_forward c = (s, args, r) \<Longrightarrow> DeviceCreate_signature s = (map type_of args, r)"
    by (cases c) auto
  show "DeviceCreate_forward c = DeviceCreate_forward c' \<Longrightarrow> c = c'"
    by (cases c; cases c'; simp)
  show "DeviceCreate_declared c = (DeviceCreate_entry (fst (DeviceCreate_forward c)), snd (DeviceCreate_forward c))"
    by (cases c) simp_all
qed

section \<open>Device\<close>

datatype (plugins only: code size) Device_slot =
    deviceDestroy
  | deviceEnumerateFeatures
  | deviceForceLoss
  | deviceGetAdapter
  | deviceGetLimits
  | deviceGetQueue
  | deviceGetSupportedSurfaceUsage
  | deviceHasFeature
  | deviceImportSharedBufferMemory
  | deviceImportSharedFence
  | deviceImportSharedTextureMemory
  | deviceInjectError
  | devicePopErrorScope
  | devicePopErrorScopeF
  | devicePushErrorScope
  | deviceSetDeviceLostCallback
  | deviceSetLabel
  | deviceSetLoggingCallback
  | deviceSetUncapturedErrorCallback
  | deviceTick
  | deviceValidateTextureDescriptor
  | deviceReference
  | deviceRelease

datatype (plugins only: code size) Device_call =
    wgpuDeviceDestroy ptr
  | wgpuDeviceEnumerateFeatures ptr ptr
  | wgpuDeviceForceLoss ptr uint32 ptr
  | wgpuDeviceGetAdapter ptr
  | wgpuDeviceGetLimits ptr ptr
  | wgpuDeviceGetQueue ptr
  | wgpuDeviceGetSupportedSurfaceUsage ptr ptr
  | wgpuDeviceHasFeature ptr uint32
  | wgpuDeviceImportSharedBufferMemory ptr ptr
  | wgpuDeviceImportSharedFence ptr ptr
  | wgpuDeviceImportSharedTextureMemory ptr ptr
  | wgpuDeviceInjectError ptr uint32 ptr
  | wgpuDevicePopErrorScope ptr ptr ptr
  | wgpuDevicePopErrorScopeF ptr "byte list"
  | wgpuDevicePushErrorScope ptr uint32
  | wgpuDeviceSetDeviceLostCallback ptr ptr ptr
  | wgpuDeviceSetLabel ptr ptr
  | wgpuDeviceSetLoggingCallback ptr ptr ptr
  | wgpuDeviceSetUncapturedErrorCallback ptr ptr ptr
  | wgpuDeviceTick ptr
  | wgpuDeviceValidateTextureDescriptor ptr ptr
  | wgpuDeviceReference ptr
  | wgpuDeviceRelease ptr

primrec Device_forward :: "Device_call \<Rightarrow> Device_slot \<times> cval list \<times> ctype" where
  "Device_forward (wgpuDeviceDestroy device) = (deviceDestroy, [VObj WGPUDevice device], Void)"
| "Device_forward (wgpuDeviceEnumerateFeatures device features) = (deviceEnumerateFeatures, [VObj WGPUDevice device, VPtr ''WGPUFeatureName'' features], Size)"
| "Device_forward (wgpuDeviceForceLoss device type0 message) = (deviceForceLoss, [VObj WGPUDevice device, VEnum ''WGPUDeviceLostReason'' type0, VPtr ''char const'' message], Void)"
| "Device_forward (wgpuDeviceGetAdapter device) = (deviceGetAdapter, [VObj WGPUDevice device], Obj WGPUAdapter)"
| "Device_forward (wgpuDeviceGetLimits device limits) = (deviceGetLimits, [VObj WGPUDevice device, VPtr ''WGPUSupportedLimits'' limits], Bool)"
| "Device_forward (wgpuDeviceGetQueue device) = (deviceGetQueue, [VObj WGPUDevice device], Obj WGPUQueue)"
| "Device_forward (wgpuDeviceGetSupportedSurfaceUsage device surface) = (deviceGetSupportedSurfaceUsage, [VObj WGPUDevice device, VObj WGPUSurface surface], Flags ''WGPUTextureUsageFlags'')"
| "Device_forward (wgpuDeviceHasFeature device feature) = (deviceHasFeature, [VObj WGPUDevice device, VEnum ''WGPUFeatureName'' feature], Bool)"
| "Device_forward (wgpuDeviceImportSharedBufferMemory device descriptor) = (deviceImportSharedBufferMemory, [VObj WGPUDevice device, VPtr ''WGPUSharedBufferMemoryDescriptor const'' descriptor], Obj WGPUSharedBufferMemory)"
| "Device_forward (wgpuDeviceImportSharedFence device descriptor) = (deviceImportSharedFence, [VObj WGPUDevice device, VPtr ''WGPUSharedFenceDescriptor const'' descriptor], Obj WGPUSharedFence)"
| "Device_forward (wgpuDeviceImportSharedTextureMemory device descriptor) = (deviceImportSharedTextureMemory, [VObj WGPUDevice device, VPtr ''WGPUSharedTextureMemoryDescriptor const'' descriptor], Obj WGPUSharedTextureMemory)"
| "Device_forward (wgpuDeviceInjectError device type0 message) = (deviceInjectError, [VObj WGPUDevice device, VEnum ''WGPUErrorType'' type0, VPtr ''char const'' message], Void)"
| "Device_forward (wgpuDevicePopErrorScope device oldCallback userdata) = (devicePopErrorScope, [VObj WGPUDevice device, VFun ''WGPUErrorCallback'' oldCallback, VPtr ''void'' userdata], Void)"
| "Device_forward (wgpuDevicePopErrorScopeF device callbackInfo) = (devicePopErrorScopeF, [VObj WGPUDevice device, VStruct ''WGPUPopErrorScopeCallbackInfo'' callbackInfo], Struct ''WGPUFuture'')"
| "Device_forward (wgpuDevicePushErrorScope device filter0) = (devicePushErrorScope, [VObj WGPUDevice device, VEnum ''WGPUErrorFilter'' filter0], Void)"
| "Device_forward (wgpuDeviceSetDeviceLostCallback device callback userdata) = (deviceSetDeviceLostCallback, [VObj WGPUDevice device, VFun ''WGPUDeviceLostCallback'' callback, VPtr ''void'' userdata], Void)"
| "Device_forward (wgpuDeviceSetLabel device label0) = (deviceSetLabel, [VObj WGPUDevice device, VPtr ''char const'' label0], Void)"
| "Device_forward (wgpuDeviceSetLoggingCallback device callback userdata) = (deviceSetLoggingCallback, [VObj WGPUDevice device, VFun ''WGPULoggingCallback'' callback, VPtr ''void'' userdata], Void)"
| "Device_forward (wgpuDeviceSetUncapturedErrorCallback device callback userdata) = (deviceSetUncapturedErrorCallback, [VObj WGPUDevice device, VFun ''WGPUErrorCallback'' callback, VPtr ''void'' userdata], Void)"
| "Device_forward (wgpuDeviceTick device) = (deviceTick, [VObj WGPUDevice device], Void)"
| "Device_forward (wgpuDeviceValidateTextureDescriptor device descriptor) = (deviceValidateTextureDescriptor, [VObj WGPUDevice device, VPtr ''WGPUTextureDescriptor const'' descriptor], Void)"
| "Device_forward (wgpuDeviceReference device) = (deviceReference, [VObj WGPUDevice device], Void)"
| "Device_forward (wgpuDeviceRelease device) = (deviceRelease, [VObj WGPUDevice device], Void)"

primrec Device_signature :: "Device_slot \<Rightarrow> ctype list \<times> ctype" where
  "Device_signature deviceDestroy = ([Obj WGPUDevice], Void)"
| "Device_signature deviceEnumerateFeatures = ([Obj WGPUDevice, Pointer ''WGPUFeatureName''], Size)"
| "Device_signature deviceForceLoss = ([Obj WGPUDevice, Enum ''WGPUDeviceLostReason'', Pointer ''char const''], Void)"
| "Device_signature deviceGetAdapter = ([Obj WGPUDevice], Obj WGPUAdapter)"
| "Device_signature deviceGetLimits = ([Obj WGPUDevice, Pointer ''WGPUSupportedLimits''], Bool)"
| "Device_signature deviceGetQueue = ([Obj WGPUDevice], Obj WGPUQueue)"
| "Device_signature deviceGetSupportedSurfaceUsage = ([Obj WGPUDevice, Obj WGPUSurface], Flags ''WGPUTextureUsageFlags'')"
| "Device_signature deviceHasFeature = ([Obj WGPUDevice, Enum ''WGPUFeatureName''], Bool)"
| "Device_signature deviceImportSharedBufferMemory = ([Obj WGPUDevice, Pointer ''WGPUSharedBufferMemoryDescriptor const''], Obj WGPUSharedBufferMemory)"
| "Device_signature deviceImportSharedFence = ([Obj WGPUDevice, Pointer ''WGPUSharedFenceDescriptor const''], Obj WGPUSharedFence)"
| "Device_signature deviceImportSharedTextureMemory = ([Obj WGPUDevice, Pointer ''WGPUSharedTextureMemoryDescriptor const''], Obj WGPUSharedTextureMemory)"
| "Device_signature deviceInjectError = ([Obj WGPUDevice, Enum ''WGPUErrorType'', Pointer ''char const''], Void)"
| "Device_signature devicePopErrorScope = ([Obj WGPUDevice, Callback ''WGPUErrorCallback'', Pointer ''void''], Void)"
| "Device_signature devicePopErrorScopeF = ([Obj WGPUDevice, Struct ''WGPUPopErrorScopeCallbackInfo''], Struct ''WGPUFuture'')"
| "Device_signature devicePushErrorScope = ([Obj WGPUDevice, Enum ''WGPUErrorFilter''], Void)"
| "Device_signature deviceSetDeviceLostCallback = ([Obj WGPUDevice, Callback ''WGPUDeviceLostCallback'', Pointer ''void''], Void)"
| "Device_signature deviceSetLabel = ([Obj WGPUDevice, Pointer ''char const''], Void)"
| "Device_signature deviceSetLoggingCallback = ([Obj WGPUDevice, Callback ''WGPULoggingCallback'', Pointer ''void''], Void)"
| "Device_signature deviceSetUncapturedErrorCallback = ([Obj WGPUDevice, Callback ''WGPUErrorCallback'', Pointer ''void''], Void)"
| "Device_signature deviceTick = ([Obj WGPUDevice], Void)"
| "Device_signature deviceValidateTextureDescriptor = ([Obj WGPUDevice, Pointer ''WGPUTextureDescriptor const''], Void)"
| "Device_signature deviceReference = ([Obj WGPUDevice], Void)"
| "Device_signature deviceRelease = ([Obj WGPUDevice], Void)"

primrec Device_declared :: "Device_call \<Rightarrow> string \<times> cval list \<times> ctype" where
  "Device_declared (wgpuDeviceDestroy device) = (''DeviceDestroy'', [VObj WGPUDevice device], Void)"
| "Device_declared (wgpuDeviceEnumerateFeatures device features) = (''DeviceEnumerateFeatures'', [VObj WGPUDevice device, VPtr ''WGPUFeatureName'' features], Size)"
| "Device_declared (wgpuDeviceForceLoss device type0 message) = (''DeviceForceLoss'', [VObj WGPUDevice device, VEnum ''WGPUDeviceLostReason'' type0, VPtr ''char const'' message], Void)"
| "Device_declared (wgpuDeviceGetAdapter device) = (''DeviceGetAdapter'', [VObj WGPUDevice device], Obj WGPUAdapter)"
| "Device_declared (wgpuDeviceGetLimits device limits) = (''DeviceGetLimits'', [VObj WGPUDevice device, VPtr ''WGPUSupportedLimits'' limits], Bool)"
| "Device_declared (wgpuDeviceGetQueue device) = (''DeviceGetQueue'', [VObj WGPUDevice device], Obj WGPUQueue)"
| "Device_declared (wgpuDeviceGetSupportedSurfaceUsage device surface) = (''DeviceGetSupportedSurfaceUsage'', [VObj WGPUDevice device, VObj WGPUSurface surface], Flags ''WGPUTextureUsageFlags'')"
| "Device_declared (wgpuDeviceHasFeature device feature) = (''DeviceHasFeature'', [VObj WGPUDevice device, VEnum ''WGPUFeatureName'' feature], Bool)"
| "Device_declared (wgpuDeviceImportSharedBufferMemory device descriptor) = (''DeviceImportSharedBufferMemory'', [VObj WGPUDevice device, VPtr ''WGPUSharedBufferMemoryDescriptor const'' descriptor], Obj WGPUSharedBufferMemory)"
| "Device_declared (wgpuDeviceImportSharedFence device descriptor) = (''DeviceImportSharedFence'', [VObj WGPUDevice device, VPtr ''WGPUSharedFenceDescriptor const'' descriptor], Obj WGPUSharedFence)"
| "Device_declared (wgpuDeviceImportSharedTextureMemory device descriptor) = (''DeviceImportSharedTextureMemory'', [VObj WGPUDevice device, VPtr ''WGPUSharedTextureMemoryDescriptor const'' descriptor], Obj WGPUSharedTextureMemory)"
| "Device_declared (wgpuDeviceInjectError device type0 message) = (''DeviceInjectError'', [VObj WGPUDevice device, VEnum ''WGPUErrorType'' type0, VPtr ''char const'' message], Void)"
| "Device_declared (wgpuDevicePopErrorScope device oldCallback userdata) = (''DevicePopErrorScope'', [VObj WGPUDevice device, VFun ''WGPUErrorCallback'' oldCallback, VPtr ''void'' userdata], Void)"
| "Device_declared (wgpuDevicePopErrorScopeF device callbackInfo) = (''DevicePopErrorScopeF'', [VObj WGPUDevice device, VStruct ''WGPUPopErrorScopeCallbackInfo'' callbackInfo], Struct ''WGPUFuture'')"
| "Device_declared (wgpuDevicePushErrorScope device filter0) = (''DevicePushErrorScope'', [VObj WGPUDevice device, VEnum ''WGPUErrorFilter'' filter0], Void)"
| "Device_declared (wgpuDeviceSetDeviceLostCallback device callback userdata) = (''DeviceSetDeviceLostCallback'', [VObj WGPUDevice device, VFun ''WGPUDeviceLostCallback'' callback, VPtr ''void'' userdata], Void)"
| "Device_declared (wgpuDeviceSetLabel device label0) = (''DeviceSetLabel'', [VObj WGPUDevice device, VPtr ''char const'' label0], Void)"
| "Device_declared (wgpuDeviceSetLoggingCallback device callback userdata) = (''DeviceSetLoggingCallback'', [VObj WGPUDevice device, VFun ''WGPULoggingCallback'' callback, VPtr ''void'' userdata], Void)"
| "Device_declared (wgpuDeviceSetUncapturedErrorCallback device callback userdata) = (''DeviceSetUncapturedErrorCallback'', [VObj WGPUDevice device, VFun ''WGPUErrorCallback'' callback, VPtr ''void'' userdata], Void)"
| "Device_declared (wgpuDeviceTick device) = (''DeviceTick'', [VObj WGPUDevice device], Void)"
| "Device_declared (wgpuDeviceValidateTextureDescriptor device descriptor) = (''DeviceValidateTextureDescriptor'', [VObj WGPUDevice device, VPtr ''WGPUTextureDescriptor const'' descriptor], Void)"
| "Device_declared (wgpuDeviceReference device) = (''DeviceReference'', [VObj WGPUDevice device], Void)"
| "Device_declared (wgpuDeviceRelease device) = (''DeviceRelease'', [VObj WGPUDevice device], Void)"

primrec Device_entry :: "Device_slot \<Rightarrow> string" where
  "Device_entry deviceDestroy = ''DeviceDestroy''"
| "Device_entry deviceEnumerateFeatures = ''DeviceEnumerateFeatures''"
| "Device_entry deviceForceLoss = ''DeviceForceLoss''"
| "Device_entry deviceGetAdapter = ''DeviceGetAdapter''"
| "Device_entry deviceGetLimits = ''DeviceGetLimits''"
| "Device_entry deviceGetQueue = ''DeviceGetQueue''"
| "Device_entry deviceGetSupportedSurfaceUsage = ''DeviceGetSupportedSurfaceUsage''"
| "Device_entry deviceHasFeature = ''DeviceHasFeature''"
| "Device_entry deviceImportSharedBufferMemory = ''DeviceImportSharedBufferMemory''"
| "Device_entry deviceImportSharedFence = ''DeviceImportSharedFence''"
| "Device_entry deviceImportSharedTextureMemory = ''DeviceImportSharedTextureMemory''"
| "Device_entry deviceInjectError = ''DeviceInjectError''"
| "Device_entry devicePopErrorScope = ''DevicePopErrorScope''"
| "Device_entry devicePopErrorScopeF = ''DevicePopErrorScopeF''"
| "Device_entry devicePushErrorScope = ''DevicePushErrorScope''"
| "Device_entry deviceSetDeviceLostCallback = ''DeviceSetDeviceLostCallback''"
| "Device_entry deviceSetLabel = ''DeviceSetLabel''"
| "Device_entry deviceSetLoggingCallback = ''DeviceSetLoggingCallback''"
| "Device_entry deviceSetUncapturedErrorCallback = ''DeviceSetUncapturedErrorCallback''"
| "Device_entry deviceTick = ''DeviceTick''"
| "Device_entry deviceValidateTextureDescriptor = ''DeviceValidateTextureDescriptor''"
| "Device_entry deviceReference = ''DeviceReference''"
| "Device_entry deviceRelease = ''DeviceRelease''"

interpretation device_fw: forwarding Device_forward Device_signature Device_declared Device_entry
proof unfold_locales
  fix c c' :: Device_call and s args r
  show "Device_forward c = (s, args, r) \<Longrightarrow> Device_signature s = (map type_of args, r)"
    by (cases c) auto
  show "Device_forward c = Device_forward c' \<Longrightarrow> c = c'"
    by (cases c; cases c'; simp)
  show "Device_declared c = (Device_entry (fst (Device_forward c)), snd (Device_forward c))"
    by (cases c) simp_all
qed

section \<open>ExternalTexture\<close>

datatype (plugins only: code size) ExternalTexture_slot =
    externalTextureDestroy
  | externalTextureExpire
  | externalTextureRefresh
  | externalTextureSetLabel
  | externalTextureReference
  | externalTextureRelease

datatype (plugins only: code size) ExternalTexture_call =
    wgpuExternalTextureDestroy ptr
  | wgpuExternalTextureExpire ptr
  | wgpuExternalTextureRefresh ptr
  | wgpuExternalTextureSetLabel ptr ptr
  | wgpuExternalTextureReference ptr
  | wgpuExternalTextureRelease ptr

primrec ExternalTexture_forward :: "ExternalTexture_call \<Rightarrow> ExternalTexture_slot \<times> cval list \<times> ctype" where
  "ExternalTexture_forward (wgpuExternalTextureDestroy externalTexture) = (externalTextureDestroy, [VObj WGPUExternalTexture externalTexture], Void)"
| "ExternalTexture_forward (wgpuExternalTextureExpire externalTexture) = (externalTextureExpire, [VObj WGPUExternalTexture externalTexture], Void)"
| "ExternalTexture_forward (wgpuExternalTextureRefresh externalTexture) = (externalTextureRefresh, [VObj WGPUExternalTexture externalTexture], Void)"
| "ExternalTexture_forward (wgpuExternalTextureSetLabel externalTexture label0) = (externalTextureSetLabel, [VObj WGPUExternalTexture externalTexture, VPtr ''char const'' label0], Void)"
| "ExternalTexture_forward (wgpuExternalTextureReference externalTexture) = (externalTextureReference, [VObj WGPUExternalTexture externalTexture], Void)"
| "ExternalTexture_forward (wgpuExternalTextureRelease externalTexture) = (externalTextureRelease, [VObj WGPUExternalTexture externalTexture], Void)"

primrec ExternalTexture_signature :: "ExternalTexture_slot \<Rightarrow> ctype list \<times> ctype" where
  "ExternalTexture_signature externalTextureDestroy = ([Obj WGPUExternalTexture], Void)"
| "ExternalTexture_signature externalTextureExpire = ([Obj WGPUExternalTexture], Void)"
| "ExternalTexture_signature externalTextureRefresh = ([Obj WGPUExternalTexture], Void)"
| "ExternalTexture_signature externalTextureSetLabel = ([Obj WGPUExternalTexture, Pointer ''char const''], Void)"
| "ExternalTexture_signature externalTextureReference = ([Obj WGPUExternalTexture], Void)"
| "ExternalTexture_signature externalTextureRelease = ([Obj WGPUExternalTexture], Void)"

primrec ExternalTexture_declared :: "ExternalTexture_call \<Rightarrow> string \<times> cval list \<times> ctype" where
  "ExternalTexture_declared (wgpuExternalTextureDestroy externalTexture) = (''ExternalTextureDestroy'', [VObj WGPUExternalTexture externalTexture], Void)"
| "ExternalTexture_declared (wgpuExternalTextureExpire externalTexture) = (''ExternalTextureExpire'', [VObj WGPUExternalTexture externalTexture], Void)"
| "ExternalTexture_declared (wgpuExternalTextureRefresh externalTexture) = (''ExternalTextureRefresh'', [VObj WGPUExternalTexture externalTexture], Void)"
| "ExternalTexture_declared (wgpuExternalTextureSetLabel externalTexture label0) = (''ExternalTextureSetLabel'', [VObj WGPUExternalTexture externalTexture, VPtr ''char const'' label0], Void)"
| "ExternalTexture_declared (wgpuExternalTextureReference externalTexture) = (''ExternalTextureReference'', [VObj WGPUExternalTexture externalTexture], Void)"
| "ExternalTexture_declared (wgpuExternalTextureRelease externalTexture) = (''ExternalTextureRelease'', [VObj WGPUExternalTexture externalTexture], Void)"

primrec ExternalTexture_entry :: "ExternalTexture_slot \<Rightarrow> string" where
  "ExternalTexture_entry externalTextureDestroy = ''ExternalTextureDestroy''"
| "ExternalTexture_entry externalTextureExpire = ''ExternalTextureExpire''"
| "ExternalTexture_entry externalTextureRefresh = ''ExternalTextureRefresh''"
| "ExternalTexture_entry externalTextureSetLabel = ''ExternalTextureSetLabel''"
| "ExternalTexture_entry externalTextureReference = ''ExternalTextureReference''"
| "ExternalTexture_entry externalTextureRelease = ''ExternalTextureRelease''"

interpretation externaltexture_fw: forwarding ExternalTexture_forward ExternalTexture_signature ExternalTexture_declared ExternalTexture_entry
proof unfold_locales
  fix c c' :: ExternalTexture_call and s args r
  show "ExternalTexture_forward c = (s, args, r) \<Longrightarrow> ExternalTexture_signature s = (map type_of args, r)"
    by (cases c) auto
  show "ExternalTexture_forward c = ExternalTexture_forward c' \<Longrightarrow> c = c'"
    by (cases c; cases c'; simp)
  show "ExternalTexture_declared c = (ExternalTexture_entry (fst (ExternalTexture_forward c)), snd (ExternalTexture_forward c))"
    by (cases c) simp_all
qed

section \<open>Sampler\<close>

datatype (plugins only: code size) Sampler_slot =
    samplerSetLabel
  | samplerReference
  | samplerRelease

datatype (plugins only: code size) Sampler_call =
    wgpuSamplerSetLabel ptr ptr
  | wgpuSamplerReference ptr
  | wgpuSamplerRelease ptr

primrec Sampler_forward :: "Sampler_call \<Rightarrow> Sampler_slot \<times> cval list \<times> ctype" where
  "Sampler_forward (wgpuSamplerSetLabel sampler label0) = (samplerSetLabel, [VObj WGPUSampler sampler, VPtr ''char const'' label0], Void)"
| "Sampler_forward (wgpuSamplerReference sampler) = (samplerReference, [VObj WGPUSampler sampler], Void)"
| "Sampler_forward (wgpuSamplerRelease sampler) = (samplerRelease, [VObj WGPUSampler sampler], Void)"

primrec Sampler_signature :: "Sampler_slot \<Rightarrow> ctype list \<times> ctype" where
  "Sampler_signature samplerSetLabel = ([Obj WGPUSampler, Pointer ''char const''], Void)"
| "Sampler_signature samplerReference = ([Obj WGPUSampler], Void)"
| "Sampler_signature samplerRelease = ([Obj WGPUSampler], Void)"

primrec Sampler_declared :: "Sampler_call \<Rightarrow> string \<times> cval list \<times> ctype" where
  "Sampler_declared (wgpuSamplerSetLabel sampler label0) = (''SamplerSetLabel'', [VObj WGPUSampler sampler, VPtr ''char const'' label0], Void)"
| "Sampler_declared (wgpuSamplerReference sampler) = (''SamplerReference'', [VObj WGPUSampler sampler], Void)"
| "Sampler_declared (wgpuSamplerRelease sampler) = (''SamplerRelease'', [VObj WGPUSampler sampler], Void)"

primrec Sampler_entry :: "Sampler_slot \<Rightarrow> string" where
  "Sampler_entry samplerSetLabel = ''SamplerSetLabel''"
| "Sampler_entry samplerReference = ''SamplerReference''"
| "Sampler_entry samplerRelease = ''SamplerRelease''"

interpretation sampler_fw: forwarding Sampler_forward Sampler_signature Sampler_declared Sampler_entry
proof unfold_locales
  fix c c' :: Sampler_call and s args r
  show "Sampler_forward c = (s, args, r) \<Longrightarrow> Sampler_signature s = (map type_of args, r)"
    by (cases c) auto
  show "Sampler_forward c = Sampler_forward c' \<Longrightarrow> c = c'"
    by (cases c; cases c'; simp)
  show "Sampler_declared c = (Sampler_entry (fst (Sampler_forward c)), snd (Sampler_forward c))"
    by (cases c) simp_all
qed

section \<open>ShaderModule\<close>

datatype (plugins only: code size) ShaderModule_slot =
    shaderModuleGetCompilationInfo
  | shaderModuleGetCompilationInfoF
  | shaderModuleSetLabel
  | shaderModuleReference
  | shaderModuleRelease

datatype (plugins only: code size) ShaderModule_call =
    wgpuShaderModuleGetCompilationInfo ptr ptr ptr
  | wgpuShaderModuleGetCompilationInfoF ptr "byte list"
  | wgpuShaderModuleSetLabel ptr ptr
  | wgpuShaderModuleReference ptr
  | wgpuShaderModuleRelease ptr

primrec ShaderModule_forward :: "ShaderModule_call \<Rightarrow> ShaderModule_slot \<times> cval list \<times> ctype" where
  "ShaderModule_forward (wgpuShaderModuleGetCompilationInfo shaderModule callback userdata) = (shaderModuleGetCompilationInfo, [VObj WGPUShaderModule shaderModule, VFun ''WGPUCompilationInfoCallback'' callback, VPtr ''void'' userdata], Void)"
| "ShaderModule_forward (wgpuShaderModuleGetCompilationInfoF shaderModule callbackInfo) = (shaderModuleGetCompilationInfoF, [VObj WGPUShaderModule shaderModule, VStruct ''WGPUCompilationInfoCallbackInfo'' callbackInfo], Struct ''WGPUFuture'')"
| "ShaderModule_forward (wgpuShaderModuleSetLabel shaderModule label0) = (shaderModuleSetLabel, [VObj WGPUShaderModule shaderModule, VPtr ''char const'' label0], Void)"
| "ShaderModule_forward (wgpuShaderModuleReference shaderModule) = (shaderModuleReference, [VObj WGPUShaderModule shaderModule], Void)"
| "ShaderModule_forward (wgpuShaderModuleRelease shaderModule) = (shaderModuleRelease, [VObj WGPUShaderModule shaderModule], Void)"

primrec ShaderModule_signature :: "ShaderModule_slot \<Rightarrow> ctype list \<times> ctype" where
  "ShaderModule_signature shaderModuleGetCompilationInfo = ([Obj WGPUShaderModule, Callback ''WGPUCompilationInfoCallback'', Pointer ''void''], Void)"
| "ShaderModule_signature shaderModuleGetCompilationInfoF = ([Obj WGPUShaderModule, Struct ''WGPUCompilationInfoCallbackInfo''], Struct ''WGPUFuture'')"
| "ShaderModule_signature shaderModuleSetLabel = ([Obj WGPUShaderModule, Pointer ''char const''], Void)"
| "ShaderModule_signature shaderModuleReference = ([Obj WGPUShaderModule], Void)"
| "ShaderModule_signature shaderModuleRelease = ([Obj WGPUShaderModule], Void)"

primrec ShaderModule_declared :: "ShaderModule_call \<Rightarrow> string \<times> cval list \<times> ctype" where
  "ShaderModule_declared (wgpuShaderModuleGetCompilationInfo shaderModule callback userdata) = (''ShaderModuleGetCompilationInfo'', [VObj WGPUShaderModule shaderModule, VFun ''WGPUCompilationInfoCallback'' callback, VPtr ''void'' userdata], Void)"
| "ShaderModule_declared (wgpuShaderModuleGetCompilationInfoF shaderModule callbackInfo) = (''ShaderModuleGetCompilationInfoF'', [VObj WGPUShaderModule shaderModule, VStruct ''WGPUCompilationInfoCallbackInfo'' callbackInfo], Struct ''WGPUFuture'')"
| "ShaderModule_declared (wgpuShaderModuleSetLabel shaderModule label0) = (''ShaderModuleSetLabel'', [VObj WGPUShaderModule shaderModule, VPtr ''char const'' label0], Void)"
| "ShaderModule_declared (wgpuShaderModuleReference shaderModule) = (''ShaderModuleReference'', [VObj WGPUShaderModule shaderModule], Void)"
| "ShaderModule_declared (wgpuShaderModuleRelease shaderModule) = (''ShaderModuleRelease'', [VObj WGPUShaderModule shaderModule], Void)"

primrec ShaderModule_entry :: "ShaderModule_slot \<Rightarrow> string" where
  "ShaderModule_entry shaderModuleGetCompilationInfo = ''ShaderModuleGetCompilationInfo''"
| "ShaderModule_entry shaderModuleGetCompilationInfoF = ''ShaderModuleGetCompilationInfoF''"
| "ShaderModule_entry shaderModuleSetLabel = ''ShaderModuleSetLabel''"
| "ShaderModule_entry shaderModuleReference = ''ShaderModuleReference''"
| "ShaderModule_entry shaderModuleRelease = ''ShaderModuleRelease''"

interpretation shadermodule_fw: forwarding ShaderModule_forward ShaderModule_signature ShaderModule_declared ShaderModule_entry
proof unfold_locales
  fix c c' :: ShaderModule_call and s args r
  show "ShaderModule_forward c = (s, args, r) \<Longrightarrow> ShaderModule_signature s = (map type_of args, r)"
    by (cases c) auto
  show "ShaderModule_forward c = ShaderModule_forward c' \<Longrightarrow> c = c'"
    by (cases c; cases c'; simp)
  show "ShaderModule_declared c = (ShaderModule_entry (fst (ShaderModule_forward c)), snd (ShaderModule_forward c))"
    by (cases c) simp_all
qed

section \<open>SharedBufferMemory\<close>

datatype (plugins only: code size) SharedBufferMemory_slot =
    sharedBufferMemoryBeginAccess
  | sharedBufferMemoryCreateBuffer
  | sharedBufferMemoryEndAccess
  | sharedBufferMemoryGetProperties
  | sharedBufferMemoryIsDeviceLost
  | sharedBufferMemorySetLabel
  | sharedBufferMemoryReference
  | sharedBufferMemoryRelease

datatype (plugins only: code size) SharedBufferMemory_call =
    wgpuSharedBufferMemoryBeginAccess ptr ptr ptr
  | wgpuSharedBufferMemoryCreateBuffer ptr ptr
  | wgpuSharedBufferMemoryEndAccess ptr ptr ptr
  | wgpuSharedBufferMemoryGetProperties ptr ptr
  | wgpuSharedBufferMemoryIsDeviceLost ptr
  | wgpuSharedBufferMemorySetLabel ptr ptr
  | wgpuSharedBufferMemoryReference ptr
  | wgpuSharedBufferMemoryRelease ptr

primrec SharedBufferMemory_forward :: "SharedBufferMemory_call \<Rightarrow> SharedBufferMemory_slot \<times> cval list \<times> ctype" where
  "SharedBufferMemory_forward (wgpuSharedBufferMemoryBeginAccess sharedBufferMemory buffer descriptor) = (sharedBufferMemoryBeginAccess, [VObj WGPUSharedBufferMemory sharedBufferMemory, VObj WGPUBuffer buffer, VPtr ''WGPUSharedBufferMemoryBeginAccessDescriptor const'' descriptor], Bool)"
| "SharedBufferMemory_forward (wgpuSharedBufferMemoryCreateBuffer sharedBufferMemory descriptor) = (sharedBufferMemoryCreateBuffer, [VObj WGPUSharedBufferMemory sharedBufferMemory, VPtr ''WGPUBufferDescriptor const'' descriptor], Obj WGPUBuffer)"
| "SharedBufferMemory_forward (wgpuSharedBufferMemoryEndAccess sharedBufferMemory buffer descriptor) = (sharedBufferMemoryEndAccess, [VObj WGPUSharedBufferMemory sharedBufferMemory, VObj WGPUBuffer buffer, VPtr ''WGPUSharedBufferMemoryEndAccessState'' descriptor], Bool)"
| "SharedBufferMemory_forward (wgpuSharedBufferMemoryGetProperties sharedBufferMemory properties) = (sharedBufferMemoryGetProperties, [VObj WGPUSharedBufferMemory sharedBufferMemory, VPtr ''WGPUSharedBufferMemoryProperties'' properties], Void)"
| "SharedBufferMemory_forward (wgpuSharedBufferMemoryIsDeviceLost sharedBufferMemory) = (sharedBufferMemoryIsDeviceLost, [VObj WGPUSharedBufferMemory sharedBufferMemory], Bool)"
| "SharedBufferMemory_forward (wgpuSharedBufferMemorySetLabel sharedBufferMemory label0) = (sharedBufferMemorySetLabel, [VObj WGPUSharedBufferMemory sharedBufferMemory, VPtr ''char const'' label0], Void)"
| "SharedBufferMemory_forward (wgpuSharedBufferMemoryReference sharedBufferMemory) = (sharedBufferMemoryReference, [VObj WGPUSharedBufferMemory sharedBufferMemory], Void)"
| "SharedBufferMemory_forward (wgpuSharedBufferMemoryRelease sharedBufferMemory) = (sharedBufferMemoryRelease, [VObj WGPUSharedBufferMemory sharedBufferMemory], Void)"

primrec SharedBufferMemory_signature :: "SharedBufferMemory_slot \<Rightarrow> ctype list \<times> ctype" where
  "SharedBufferMemory_signature sharedBufferMemoryBeginAccess = ([Obj WGPUSharedBufferMemory, Obj WGPUBuffer, Pointer ''WGPUSharedBufferMemoryBeginAccessDescriptor const''], Bool)"
| "SharedBufferMemory_signature sharedBufferMemoryCreateBuffer = ([Obj WGPUSharedBufferMemory, Pointer ''WGPUBufferDescriptor const''], Obj WGPUBuffer)"
| "SharedBufferMemory_signature sharedBufferMemoryEndAccess = ([Obj WGPUSharedBufferMemory, Obj WGPUBuffer, Pointer ''WGPUSharedBufferMemoryEndAccessState''], Bool)"
| "SharedBufferMemory_signature sharedBufferMemoryGetProperties = ([Obj WGPUSharedBufferMemory, Pointer ''WGPUSharedBufferMemoryProperties''], Void)"
| "SharedBufferMemory_signature sharedBufferMemoryIsDeviceLost = ([Obj WGPUSharedBufferMemory], Bool)"
| "SharedBufferMemory_signature sharedBufferMemorySetLabel = ([Obj WGPUSharedBufferMemory, Pointer ''char const''], Void)"
| "SharedBufferMemory_signature sharedBufferMemoryReference = ([Obj WGPUSharedBufferMemory], Void)"
| "SharedBufferMemory_signature sharedBufferMemoryRelease = ([Obj WGPUSharedBufferMemory], Void)"

primrec SharedBufferMemory_declared :: "SharedBufferMemory_call \<Rightarrow> string \<times> cval list \<times> ctype" where
  "SharedBufferMemory_declared (wgpuSharedBufferMemoryBeginAccess sharedBufferMemory buffer descriptor) = (''SharedBufferMemoryBeginAccess'', [VObj WGPUSharedBufferMemory sharedBufferMemory, VObj WGPUBuffer buffer, VPtr ''WGPUSharedBufferMemoryBeginAccessDescriptor const'' descriptor], Bool)"
| "SharedBufferMemory_declared (wgpuSharedBufferMemoryCreateBuffer sharedBufferMemory descriptor) = (''SharedBufferMemoryCreateBuffer'', [VObj WGPUSharedBufferMemory sharedBufferMemory, VPtr ''WGPUBufferDescriptor const'' descriptor], Obj WGPUBuffer)"
| "SharedBufferMemory_declared (wgpuSharedBufferMemoryEndAccess sharedBufferMemory buffer descriptor) = (''SharedBufferMemoryEndAccess'', [VObj WGPUSharedBufferMemory sharedBufferMemory, VObj WGPUBuffer buffer, VPtr ''WGPUSharedBufferMemoryEndAccessState'' descriptor], Bool)"
| "SharedBufferMemory_declared (wgpuSharedBufferMemoryGetProperties sharedBufferMemory properties) = (''SharedBufferMemoryGetProperties'', [VObj WGPUSharedBufferMemory sharedBufferMemory, VPtr ''WGPUSharedBufferMemoryProperties'' properties], Void)"
| "SharedBufferMemory_declared (wgpuSharedBufferMemoryIsDeviceLost sharedBufferMemory) = (''SharedBufferMemoryIsDeviceLost'', [VObj WGPUSharedBufferMemory sharedBufferMemory], Bool)"
| "SharedBufferMemory_declared (wgpuSharedBufferMemorySetLabel sharedBufferMemory label0) = (''SharedBufferMemorySetLabel'', [VObj WGPUSharedBufferMemory sharedBufferMemory, VPtr ''char const'' label0], Void)"
| "SharedBufferMemory_declared (wgpuSharedBufferMemoryReference sharedBufferMemory) = (''SharedBufferMemoryReference'', [VObj WGPUSharedBufferMemory sharedBufferMemory], Void)"
| "SharedBufferMemory_declared (wgpuSharedBufferMemoryRelease sharedBufferMemory) = (''SharedBufferMemoryRelease'', [VObj WGPUSharedBufferMemory sharedBufferMemory], Void)"

primrec SharedBufferMemory_entry :: "SharedBufferMemory_slot \<Rightarrow> string" where
  "SharedBufferMemory_entry sharedBufferMemoryBeginAccess = ''SharedBufferMemoryBeginAccess''"
| "SharedBufferMemory_entry sharedBufferMemoryCreateBuffer = ''SharedBufferMemoryCreateBuffer''"
| "SharedBufferMemory_entry sharedBufferMemoryEndAccess = ''SharedBufferMemoryEndAccess''"
| "SharedBufferMemory_entry sharedBufferMemoryGetProperties = ''SharedBufferMemoryGetProperties''"
| "SharedBufferMemory_entry sharedBufferMemoryIsDeviceLost = ''SharedBufferMemoryIsDeviceLost''"
| "SharedBufferMemory_entry sharedBufferMemorySetLabel = ''SharedBufferMemorySetLabel''"
| "SharedBufferMemory_entry sharedBufferMemoryReference = ''SharedBufferMemoryReference''"
| "SharedBufferMemory_entry sharedBufferMemoryRelease = ''SharedBufferMemoryRelease''"

interpretation sharedbuffermemory_fw: forwarding SharedBufferMemory_forward SharedBufferMemory_signature SharedBufferMemory_declared SharedBufferMemory_entry
proof unfold_locales
  fix c c' :: SharedBufferMemory_call and s args r
  show "SharedBufferMemory_forward c = (s, args, r) \<Longrightarrow> SharedBufferMemory_signature s = (map type_of args, r)"
    by (cases c) auto
  show "SharedBufferMemory_forward c = SharedBufferMemory_forward c' \<Longrightarrow> c = c'"
    by (cases c; cases c'; simp)
  show "SharedBufferMemory_declared c = (SharedBufferMemory_entry (fst (SharedBufferMemory_forward c)), snd (SharedBufferMemory_forward c))"
    by (cases c) simp_all
qed

section \<open>SharedFence\<close>

datatype (plugins only: code size) SharedFence_slot =
    sharedFenceExportInfo
  | sharedFenceReference
  | sharedFenceRelease

datatype (plugins only: code size) SharedFence_call =
    wgpuSharedFenceExportInfo ptr ptr
  | wgpuSharedFenceReference ptr
  | wgpuSharedFenceRelease ptr

primrec SharedFence_forward :: "SharedFence_call \<Rightarrow> SharedFence_slot \<times> cval list \<times> ctype" where
  "SharedFence_forward (wgpuSharedFenceExportInfo sharedFence info) = (sharedFenceExportInfo, [VObj WGPUSharedFence sharedFence, VPtr ''WGPUSharedFenceExportInfo'' info], Void)"
| "SharedFence_forward (wgpuSharedFenceReference sharedFence) = (sharedFenceReference, [VObj WGPUSharedFence sharedFence], Void)"
| "SharedFence_forward (wgpuSharedFenceRelease sharedFence) = (sharedFenceRelease, [VObj WGPUSharedFence sharedFence], Void)"

primrec SharedFence_signature :: "SharedFence_slot \<Rightarrow> ctype list \<times> ctype" where
  "SharedFence_signature sharedFenceExportInfo = ([Obj WGPUSharedFence, Pointer ''WGPUSharedFenceExportInfo''], Void)"
| "SharedFence_signature sharedFenceReference = ([Obj WGPUSharedFence], Void)"
| "SharedFence_signature sharedFenceRelease = ([Obj WGPUSharedFence], Void)"

primrec SharedFence_declared :: "SharedFence_call \<Rightarrow> string \<times> cval list \<times> ctype" where
  "SharedFence_declared (wgpuSharedFenceExportInfo sharedFence info) = (''SharedFenceExportInfo'', [VObj WGPUSharedFence sharedFence, VPtr ''WGPUSharedFenceExportInfo'' info], Void)"
| "SharedFence_declared (wgpuSharedFenceReference sharedFence) = (''SharedFenceReference'', [VObj WGPUSharedFence sharedFence], Void)"
| "SharedFence_declared (wgpuSharedFenceRelease sharedFence) = (''SharedFenceRelease'', [VObj WGPUSharedFence sharedFence], Void)"

primrec SharedFence_entry :: "SharedFence_slot \<Rightarrow> string" where
  "SharedFence_entry sharedFenceExportInfo = ''SharedFenceExportInfo''"
| "SharedFence_entry sharedFenceReference = ''SharedFenceReference''"
| "SharedFence_entry sharedFenceRelease = ''SharedFenceRelease''"

interpretation sharedfence_fw: forwarding SharedFence_forward SharedFence_signature SharedFence_declared SharedFence_entry
proof unfold_locales
  fix c c' :: SharedFence_call and s args r
  show "SharedFence_forward c = (s, args, r) \<Longrightarrow> SharedFence_signature s = (map type_of args, r)"
    by (cases c) auto
  show "SharedFence_forward c = SharedFence_forward c' \<Longrightarrow> c = c'"
    by (cases c; cases c'; simp)
  show "SharedFence_declared c = (SharedFence_entry (fst (SharedFence_forward c)), snd (SharedFence_forward c))"
    by (cases c) simp_all
qed

section \<open>SharedTextureMemory\<close>

datatype (plugins only: code size) SharedTextureMemory_slot =
    sharedTextureMemoryBeginAccess
  | sharedTextureMemoryCreateTexture
  | sharedTextureMemoryEndAccess
  | sharedTextureMemoryGetProperties
  | sharedTextureMemoryIsDeviceLost
  | sharedTextureMemorySetLabel
  | sharedTextureMemoryReference
  | sharedTextureMemoryRelease

datatype (plugins only: code size) SharedTextureMemory_call =
    wgpuSharedTextureMemoryBeginAccess ptr ptr ptr
  | wgpuSharedTextureMemoryCreateTexture ptr ptr
  | wgpuSharedTextureMemoryEndAccess ptr ptr ptr
  | wgpuSharedTextureMemoryGetProperties ptr ptr
  | wgpuSharedTextureMemoryIsDeviceLost ptr
  | wgpuSharedTextureMemorySetLabel ptr ptr
  | wgpuSharedTextureMemoryReference ptr
  | wgpuSharedTextureMemoryRelease ptr

primrec SharedTextureMemory_forward :: "SharedTextureMemory_call \<Rightarrow> SharedTextureMemory_slot \<times> cval list \<times> ctype" where
  "SharedTextureMemory_forward (wgpuSharedTextureMemoryBeginAccess sharedTextureMemory texture descriptor) = (sharedTextureMemoryBeginAccess, [VObj WGPUSharedTextureMemory sharedTextureMemory, VObj WGPUTexture texture, VPtr ''WGPUSharedTextureMemoryBeginAccessDescriptor const'' descriptor], Bool)"
| "SharedTextureMemory_forward (wgpuSharedTextureMemoryCreateTexture sharedTextureMemory descriptor) = (sharedTextureMemoryCreateTexture, [VObj WGPUSharedTextureMemory sharedTextureMemory, VPtr ''WGPUTextureDescriptor const'' descriptor], Obj WGPUTexture)"
| "SharedTextureMemory_forward (wgpuSharedTextureMemoryEndAccess sharedTextureMemory texture descriptor) = (sharedTextureMemoryEndAccess, [VObj WGPUSharedTextureMemory sharedTextureMemory, VObj WGPUTexture texture, VPtr ''WGPUSharedTextureMemoryEndAccessState'' descriptor], Bool)"
| "SharedTextureMemory_forward (wgpuSharedTextureMemoryGetProperties sharedTextureMemory properties) = (sharedTextureMemoryGetProperties, [VObj WGPUSharedTextureMemory sharedTextureMemory, VPtr ''WGPUSharedTextureMemoryProperties'' properties], Void)"
| "SharedTextureMemory_forward (wgpuSharedTextureMemoryIsDeviceLost sharedTextureMemory) = (sharedTextureMemoryIsDeviceLost, [VObj WGPUSharedTextureMemory sharedTextureMemory], Bool)"
| "SharedTextureMemory_forward (wgpuSharedTextureMemorySetLabel sharedTextureMemory label0) = (sharedTextureMemorySetLabel, [VObj WGPUSharedTextureMemory sharedTextureMemory, VPtr ''char const'' label0], Void)"
| "SharedTextureMemory_forward (wgpuSharedTextureMemoryReference sharedTextureMemory) = (sharedTextureMemoryReference, [VObj WGPUSharedTextureMemory sharedTextureMemory], Void)"
| "SharedTextureMemory_forward (wgpuSharedTextureMemoryRelease sharedTextureMemory) = (sharedTextureMemoryRelease, [VObj WGPUSharedTextureMemory sharedTextureMemory], Void)"

primrec SharedTextureMemory_signature :: "SharedTextureMemory_slot \<Rightarrow> ctype list \<times> ctype" where
  "SharedTextureMemory_signature sharedTextureMemoryBeginAccess = ([Obj WGPUSharedTextureMemory, Obj WGPUTexture, Pointer ''WGPUSharedTextureMemoryBeginAccessDescriptor const''], Bool)"
| "SharedTextureMemory_signature sharedTextureMemoryCreateTexture = ([Obj WGPUSharedTextureMemory, Pointer ''WGPUTextureDescriptor const''], Obj WGPUTexture)"
| "SharedTextureMemory_signature sharedTextureMemoryEndAccess = ([Obj WGPUSharedTextureMemory, Obj WGPUTexture, Pointer ''WGPUSharedTextureMemoryEndAccessState''], Bool)"
| "SharedTextureMemory_signature sharedTextureMemoryGetProperties = ([Obj WGPUSharedTextureMemory, Pointer ''WGPUSharedTextureMemoryProperties''], Void)"
| "SharedTextureMemory_signature sharedTextureMemoryIsDeviceLost = ([Obj WGPUSharedTextureMemory], Bool)"
| "SharedTextureMemory_signature sharedTextureMemorySetLabel = ([Obj WGPUSharedTextureMemory, Pointer ''char const''], Void)"
| "SharedTextureMemory_signature sharedTextureMemoryReference = ([Obj WGPUSharedTextureMemory], Void)"
| "SharedTextureMemory_signature sharedTextureMemoryRelease = ([Obj WGPUSharedTextureMemory], Void)"

primrec SharedTextureMemory_declared :: "SharedTextureMemory_call \<Rightarrow> string \<times> cval list \<times> ctype" where
  "SharedTextureMemory_declared (wgpuSharedTextureMemoryBeginAccess sharedTextureMemory texture descriptor) = (''SharedTextureMemoryBeginAccess'', [VObj WGPUSharedTextureMemory sharedTextureMemory, VObj WGPUTexture texture, VPtr ''WGPUSharedTextureMemoryBeginAccessDescriptor const'' descriptor], Bool)"
| "SharedTextureMemory_declared (wgpuSharedTextureMemoryCreateTexture sharedTextureMemory descriptor) = (''SharedTextureMemoryCreateTexture'', [VObj WGPUSharedTextureMemory sharedTextureMemory, VPtr ''WGPUTextureDescriptor const'' descriptor], Obj WGPUTexture)"
| "SharedTextureMemory_declared (wgpuSharedTextureMemoryEndAccess sharedTextureMemory texture descriptor) = (''SharedTextureMemoryEndAccess'', [VObj WGPUSharedTextureMemory sharedTextureMemory, VObj WGPUTexture texture, VPtr ''WGPUSharedTextureMemoryEndAccessState'' descriptor], Bool)"
| "SharedTextureMemory_declared (wgpuSharedTextureMemoryGetProperties sharedTextureMemory properties) = (''SharedTextureMemoryGetProperties'', [VObj WGPUSharedTextureMemory sharedTextureMemory, VPtr ''WGPUSharedTextureMemoryProperties'' properties], Void)"
| "SharedTextureMemory_declared (wgpuSharedTextureMemoryIsDeviceLost sharedTextureMemory) = (''SharedTextureMemoryIsDeviceLost'', [VObj WGPUSharedTextureMemory sharedTextureMemory], Bool)"
| "SharedTextureMemory_declared (wgpuSharedTextureMemorySetLabel sharedTextureMemory label0) = (''SharedTextureMemorySetLabel'', [VObj WGPUSharedTextureMemory sharedTextureMemory, VPtr ''char const'' label0], Void)"
| "SharedTextureMemory_declared (wgpuSharedTextureMemoryReference sharedTextureMemory) = (''SharedTextureMemoryReference'', [VObj WGPUSharedTextureMemory sharedTextureMemory], Void)"
| "SharedTextureMemory_declared (wgpuSharedTextureMemoryRelease sharedTextureMemory) = (''SharedTextureMemoryRelease'', [VObj WGPUSharedTextureMemory sharedTextureMemory], Void)"

primrec SharedTextureMemory_entry :: "SharedTextureMemory_slot \<Rightarrow> string" where
  "SharedTextureMemory_entry sharedTextureMemoryBeginAccess = ''SharedTextureMemoryBeginAccess''"
| "SharedTextureMemory_entry sharedTextureMemoryCreateTexture = ''SharedTextureMemoryCreateTexture''"
| "SharedTextureMemory_entry sharedTextureMemoryEndAccess = ''SharedTextureMemoryEndAccess''"
| "SharedTextureMemory_entry sharedTextureMemoryGetProperties = ''SharedTextureMemoryGetProperties''"
| "SharedTextureMemory_entry sharedTextureMemoryIsDeviceLost = ''SharedTextureMemoryIsDeviceLost''"
| "SharedTextureMemory_entry sharedTextureMemorySetLabel = ''SharedTextureMemorySetLabel''"
| "SharedTextureMemory_entry sharedTextureMemoryReference = ''SharedTextureMemoryReference''"
| "SharedTextureMemory_entry sharedTextureMemoryRelease = ''SharedTextureMemoryRelease''"

interpretation sharedtexturememory_fw: forwarding SharedTextureMemory_forward SharedTextureMemory_signature SharedTextureMemory_declared SharedTextureMemory_entry
proof unfold_locales
  fix c c' :: SharedTextureMemory_call and s args r
  show "SharedTextureMemory_forward c = (s, args, r) \<Longrightarrow> SharedTextureMemory_signature s = (map type_of args, r)"
    by (cases c) auto
  show "SharedTextureMemory_forward c = SharedTextureMemory_forward c' \<Longrightarrow> c = c'"
    by (cases c; cases c'; simp)
  show "SharedTextureMemory_declared c = (SharedTextureMemory_entry (fst (SharedTextureMemory_forward c)), snd (SharedTextureMemory_forward c))"
    by (cases c) simp_all
qed

section \<open>Surface\<close>

datatype (plugins only: code size) Surface_slot =
    surfaceGetPreferredFormat
  | surfaceReference
  | surfaceRelease

datatype (plugins only: code size) Surface_call =
    wgpuSurfaceGetPreferredFormat ptr ptr
  | wgpuSurfaceReference ptr
  | wgpuSurfaceRelease ptr

primrec Surface_forward :: "Surface_call \<Rightarrow> Surface_slot \<times> cval list \<times> ctype" where
  "Surface_forward (wgpuSurfaceGetPreferredFormat surface adapter) = (surfaceGetPreferredFormat, [VObj WGPUSurface surface, VObj WGPUAdapter adapter], Enum ''WGPUTextureFormat'')"
| "Surface_forward (wgpuSurfaceReference surface) = (surfaceReference, [VObj WGPUSurface surface], Void)"
| "Surface_forward (wgpuSurfaceRelease surface) = (surfaceRelease, [VObj WGPUSurface surface], Void)"

primrec Surface_signature :: "Surface_slot \<Rightarrow> ctype list \<times> ctype" where
  "Surface_signature surfaceGetPreferredFormat = ([Obj WGPUSurface, Obj WGPUAdapter], Enum ''WGPUTextureFormat'')"
| "Surface_signature surfaceReference = ([Obj WGPUSurface], Void)"
| "Surface_signature surfaceRelease = ([Obj WGPUSurface], Void)"

primrec Surface_declared :: "Surface_call \<Rightarrow> string \<times> cval list \<times> ctype" where
  "Surface_declared (wgpuSurfaceGetPreferredFormat surface adapter) = (''SurfaceGetPreferredFormat'', [VObj WGPUSurface surface, VObj WGPUAdapter adapter], Enum ''WGPUTextureFormat'')"
| "Surface_declared (wgpuSurfaceReference surface) = (''SurfaceReference'', [VObj WGPUSurface surface], Void)"
| "Surface_declared (wgpuSurfaceRelease surface) = (''SurfaceRelease'', [VObj WGPUSurface surface], Void)"

primrec Surface_entry :: "Surface_slot \<Rightarrow> string" where
  "Surface_entry surfaceGetPreferredFormat = ''SurfaceGetPreferredFormat''"
| "Surface_entry surfaceReference = ''SurfaceReference''"
| "Surface_entry surfaceRelease = ''SurfaceRelease''"

interpretation surface_fw: forwarding Surface_forward Surface_signature Surface_declared Surface_entry
proof unfold_locales
  fix c c' :: Surface_call and s args r
  show "Surface_forward c = (s, args, r) \<Longrightarrow> Surface_signature s = (map type_of args, r)"
    by (cases c) auto
  show "Surface_forward c = Surface_forward c' \<Longrightarrow> c = c'"
    by (cases c; cases c'; simp)
  show "Surface_declared c = (Surface_entry (fst (Surface_forward c)), snd (Surface_forward c))"
    by (cases c) simp_all
qed

section \<open>SwapChain\<close>

datatype (plugins only: code size) SwapChain_slot =
    swapChainGetCurrentTexture
  | swapChainGetCurrentTextureView
  | swapChainPresent
  | swapChainReference
  | swapChainRelease

datatype (plugins only: code size) SwapChain_call =
    wgpuSwapChainGetCurrentTexture ptr
  | wgpuSwapChainGetCurrentTextureView ptr
  | wgpuSwapChainPresent ptr
  | wgpuSwapChainReference ptr
  | wgpuSwapChainRelease ptr

primrec SwapChain_forward :: "SwapChain_call \<Rightarrow> SwapChain_slot \<times> cval list \<times> ctype" where
  "SwapChain_forward (wgpuSwapChainGetCurrentTexture swapChain) = (swapChainGetCurrentTexture, [VObj WGPUSwapChain swapChain], Obj WGPUTexture)"
| "SwapChain_forward (wgpuSwapChainGetCurrentTextureView swapChain) = (swapChainGetCurrentTextureView, [VObj WGPUSwapChain swapChain], Obj WGPUTextureView)"
| "SwapChain_forward (wgpuSwapChainPresent swapChain) = (swapChainPresent, [VObj WGPUSwapChain swapChain], Void)"
| "SwapChain_forward (wgpuSwapChainReference swapChain) = (swapChainReference, [VObj WGPUSwapChain swapChain], Void)"
| "SwapChain_forward (wgpuSwapChainRelease swapChain) = (swapChainRelease, [VObj WGPUSwapChain swapChain], Void)"

primrec SwapChain_signature :: "SwapChain_slot \<Rightarrow> ctype list \<times> ctype" where
  "SwapChain_signature swapChainGetCurrentTexture = ([Obj WGPUSwapChain], Obj WGPUTexture)"
| "SwapChain_signature swapChainGetCurrentTextureView = ([Obj WGPUSwapChain], Obj WGPUTextureView)"
| "SwapChain_signature swapChainPresent = ([Obj WGPUSwapChain], Void)"
| "SwapChain_signature swapChainReference = ([Obj WGPUSwapChain], Void)"
| "SwapChain_signature swapChainRelease = ([Obj WGPUSwapChain], Void)"

primrec SwapChain_declared :: "SwapChain_call \<Rightarrow> string \<times> cval list \<times> ctype" where
  "SwapChain_declared (wgpuSwapChainGetCurrentTexture swapChain) = (''SwapChainGetCurrentTexture'', [VObj WGPUSwapChain swapChain], Obj WGPUTexture)"
| "SwapChain_declared (wgpuSwapChainGetCurrentTextureView swapChain) = (''SwapChainGetCurrentTextureView'', [VObj WGPUSwapChain swapChain], Obj WGPUTextureView)"
| "SwapChain_declared (wgpuSwapChainPresent swapChain) = (''SwapChainPresent'', [VObj WGPUSwapChain swapChain], Void)"
| "SwapChain_declared (wgpuSwapChainReference swapChain) = (''SwapChainReference'', [VObj WGPUSwapChain swapChain], Void)"
| "SwapChain_declared (wgpuSwapChainRelease swapChain) = (''SwapChainRelease'', [VObj WGPUSwapChain swapChain], Void)"

primrec SwapChain_entry :: "SwapChain_slot \<Rightarrow> string" where
  "SwapChain_entry swapChainGetCurrentTexture = ''SwapChainGetCurrentTexture''"
| "SwapChain_entry swapChainGetCurrentTextureView = ''SwapChainGetCurrentTextureView''"
| "SwapChain_entry swapChainPresent = ''SwapChainPresent''"
| "SwapChain_entry swapChainReference = ''SwapChainReference''"
| "SwapChain_entry swapChainRelease = ''SwapChainRelease''"

interpretation swapchain_fw: forwarding SwapChain_forward SwapChain_signature SwapChain_declared SwapChain_entry
proof unfold_locales
  fix c c' :: SwapChain_call and s args r
  show "SwapChain_forward c = (s, args, r) \<Longrightarrow> SwapChain_signature s = (map type_of args, r)"
    by (cases c) auto
  show "SwapChain_forward c = SwapChain_forward c' \<Longrightarrow> c = c'"
    by (cases c; cases c'; simp)
  show "SwapChain_declared c = (SwapChain_entry (fst (SwapChain_forward c)), snd (SwapChain_forward c))"
    by (cases c) simp_all
qed

section \<open>Texture\<close>

datatype (plugins only: code size) Texture_slot =
    textureCreateErrorView
  | textureCreateView
  | textureDestroy
  | textureGetDepthOrArrayLayers
  | textureGetDimension
  | textureGetFormat
  | textureGetHeight
  | textureGetMipLevelCount
  | textureGetSampleCount
  | textureGetUsage
  | textureGetWidth
  | textureSetLabel
  | textureReference
  | textureRelease

datatype (plugins only: code size) Texture_call =
    wgpuTextureCreateErrorView ptr ptr
  | wgpuTextureCreateView ptr ptr
  | wgpuTextureDestroy ptr
  | wgpuTextureGetDepthOrArrayLayers ptr
  | wgpuTextureGetDimension ptr
  | wgpuTextureGetFormat ptr
  | wgpuTextureGetHeight ptr
  | wgpuTextureGetMipLevelCount ptr
  | wgpuTextureGetSampleCount ptr
  | wgpuTextureGetUsage ptr
  | wgpuTextureGetWidth ptr
  | wgpuTextureSetLabel ptr ptr
  | wgpuTextureReference ptr
  | wgpuTextureRelease ptr

primrec Texture_forward :: "Texture_call \<Rightarrow> Texture_slot \<times> cval list \<times> ctype" where
  "Texture_forward (wgpuTextureCreateErrorView texture descriptor) = (textureCreateErrorView, [VObj WGPUTexture texture, VPtr ''WGPUTextureViewDescriptor const'' descriptor], Obj WGPUTextureView)"
| "Texture_forward (wgpuTextureCreateView texture descriptor) = (textureCreateView, [VObj WGPUTexture texture, VPtr ''WGPUTextureViewDescriptor const'' descriptor], Obj WGPUTextureView)"
| "Texture_forward (wgpuTextureDestroy texture) = (textureDestroy, [VObj WGPUTexture texture], Void)"
| "Texture_forward (wgpuTextureGetDepthOrArrayLayers texture) = (textureGetDepthOrArrayLayers, [VObj WGPUTexture texture], Uint32)"
| "Texture_forward (wgpuTextureGetDimension texture) = (textureGetDimension, [VObj WGPUTexture texture], Enum ''WGPUTextureDimension'')"
| "Texture_forward (wgpuTextureGetFormat texture) = (textureGetFormat, [VObj WGPUTexture texture], Enum ''WGPUTextureFormat'')"
| "Texture_forward (wgpuTextureGetHeight texture) = (textureGetHeight, [VObj WGPUTexture texture], Uint32)"
| "Texture_forward (wgpuTextureGetMipLevelCount texture) = (textureGetMipLevelCount, [VObj WGPUTexture texture], Uint32)"
| "Texture_forward (wgpuTextureGetSampleCount texture) = (textureGetSampleCount, [VObj WGPUTexture texture], Uint32)"
| "Texture_forward (wgpuTextureGetUsage texture) = (textureGetUsage, [VObj WGPUTexture texture], Flags ''WGPUTextureUsageFlags'')"
| "Texture_forward (wgpuTextureGetWidth texture) = (textureGetWidth, [VObj WGPUTexture texture], Uint32)"
| "Texture_forward (wgpuTextureSetLabel texture label0) = (textureSetLabel, [VObj WGPUTexture texture, VPtr ''char const'' label0], Void)"
| "Texture_forward (wgpuTextureReference texture) = (textureReference, [VObj WGPUTexture texture], Void)"
| "Texture_forward (wgpuTextureRelease texture) = (textureRelease, [VObj WGPUTexture texture], Void)"

primrec Texture_signature :: "Texture_slot \<Rightarrow> ctype list \<times> ctype" where
  "Texture_signature textureCreateErrorView = ([Obj WGPUTexture, Pointer ''WGPUTextureViewDescriptor const''], Obj WGPUTextureView)"
| "Texture_signature textureCreateView = ([Obj WGPUTexture, Pointer ''WGPUTextureViewDescriptor const''], Obj WGPUTextureView)"
| "Texture_signature textureDestroy = ([Obj WGPUTexture], Void)"
| "Texture_signature textureGetDepthOrArrayLayers = ([Obj WGPUTexture], Uint32)"
| "Texture_signature textureGetDimension = ([Obj WGPUTexture], Enum ''WGPUTextureDimension'')"
| "Texture_signature textureGetFormat = ([Obj WGPUTexture], Enum ''WGPUTextureFormat'')"
| "Texture_signature textureGetHeight = ([Obj WGPUTexture], Uint32)"
| "Texture_signature textureGetMipLevelCount = ([Obj WGPUTexture], Uint32)"
| "Texture_signature textureGetSampleCount = ([Obj WGPUTexture], Uint32)"
| "Texture_signature textureGetUsage = ([Obj WGPUTexture], Flags ''WGPUTextureUsageFlags'')"
| "Texture_signature textureGetWidth = ([Obj WGPUTexture], Uint32)"
| "Texture_signature textureSetLabel = ([Obj WGPUTexture, Pointer ''char const''], Void)"
| "Texture_signature textureReference = ([Obj WGPUTexture], Void)"
| "Texture_signature textureRelease = ([Obj WGPUTexture], Void)"

primrec Texture_declared :: "Texture_call \<Rightarrow> string \<times> cval list \<times> ctype" where
  "Texture_declared (wgpuTextureCreateErrorView texture descriptor) = (''TextureCreateErrorView'', [VObj WGPUTexture texture, VPtr ''WGPUTextureViewDescriptor const'' descriptor], Obj WGPUTextureView)"
| "Texture_declared (wgpuTextureCreateView texture descriptor) = (''TextureCreateView'', [VObj WGPUTexture texture, VPtr ''WGPUTextureViewDescriptor const'' descriptor], Obj WGPUTextureView)"
| "Texture_declared (wgpuTextureDestroy texture) = (''TextureDestroy'', [VObj WGPUTexture texture], Void)"
| "Texture_declared (wgpuTextureGetDepthOrArrayLayers texture) = (''TextureGetDepthOrArrayLayers'', [VObj WGPUTexture texture], Uint32)"
| "Texture_declared (wgpuTextureGetDimension texture) = (''TextureGetDimension'', [VObj WGPUTexture texture], Enum ''WGPUTextureDimension'')"
| "Texture_declared (wgpuTextureGetFormat texture) = (''TextureGetFormat'', [VObj WGPUTexture texture], Enum ''WGPUTextureFormat'')"
| "Texture_declared (wgpuTextureGetHeight texture) = (''TextureGetHeight'', [VObj WGPUTexture texture], Uint32)"
| "Texture_declared (wgpuTextureGetMipLevelCount texture) = (''TextureGetMipLevelCount'', [VObj WGPUTexture texture], Uint32)"
| "Texture_declared (wgpuTextureGetSampleCount texture) = (''TextureGetSampleCount'', [VObj WGPUTexture texture], Uint32)"
| "Texture_declared (wgpuTextureGetUsage texture) = (''TextureGetUsage'', [VObj WGPUTexture texture], Flags ''WGPUTextureUsageFlags'')"
| "Texture_declared (wgpuTextureGetWidth texture) = (''TextureGetWidth'', [VObj WGPUTexture texture], Uint32)"
| "Texture_declared (wgpuTextureSetLabel texture label0) = (''TextureSetLabel'', [VObj WGPUTexture texture, VPtr ''char const'' label0], Void)"
| "Texture_declared (wgpuTextureReference texture) = (''TextureReference'', [VObj WGPUTexture texture], Void)"
| "Texture_declared (wgpuTextureRelease texture) = (''TextureRelease'', [VObj WGPUTexture texture], Void)"

primrec Texture_entry :: "Texture_slot \<Rightarrow> string" where
  "Texture_entry textureCreateErrorView = ''TextureCreateErrorView''"
| "Texture_entry textureCreateView = ''TextureCreateView''"
| "Texture_entry textureDestroy = ''TextureDestroy''"
| "Texture_entry textureGetDepthOrArrayLayers = ''TextureGetDepthOrArrayLayers''"
| "Texture_entry textureGetDimension = ''TextureGetDimension''"
| "Texture_entry textureGetFormat = ''TextureGetFormat''"
| "Texture_entry textureGetHeight = ''TextureGetHeight''"
| "Texture_entry textureGetMipLevelCount = ''TextureGetMipLevelCount''"
| "Texture_entry textureGetSampleCount = ''TextureGetSampleCount''"
| "Texture_entry textureGetUsage = ''TextureGetUsage''"
| "Texture_entry textureGetWidth = ''TextureGetWidth''"
| "Texture_entry textureSetLabel = ''TextureSetLabel''"
| "Texture_entry textureReference = ''TextureReference''"
| "Texture_entry textureRelease = ''TextureRelease''"

interpretation texture_fw: forwarding Texture_forward Texture_signature Texture_declared Texture_entry
proof unfold_locales
  fix c c' :: Texture_call and s args r
  show "Texture_forward c = (s, args, r) \<Longrightarrow> Texture_signature s = (map type_of args, r)"
    by (cases c) auto
  show "Texture_forward c = Texture_forward c' \<Longrightarrow> c = c'"
    by (cases c; cases c'; simp)
  show "Texture_declared c = (Texture_entry (fst (Texture_forward c)), snd (Texture_forward c))"
    by (cases c) simp_all
qed

section \<open>TextureView\<close>

datatype (plugins only: code size) TextureView_slot =
    textureViewSetLabel
  | textureViewReference
  | textureViewRelease

datatype (plugins only: code size) TextureView_call =
    wgpuTextureViewSetLabel ptr ptr
  | wgpuTextureViewReference ptr
  | wgpuTextureViewRelease ptr

primrec TextureView_forward :: "TextureView_call \<Rightarrow> TextureView_slot \<times> cval list \<times> ctype" where
  "TextureView_forward (wgpuTextureViewSetLabel textureView label0) = (textureViewSetLabel, [VObj WGPUTextureView textureView, VPtr ''char const'' label0], Void)"
| "TextureView_forward (wgpuTextureViewReference textureView) = (textureViewReference, [VObj WGPUTextureView textureView], Void)"
| "TextureView_forward (wgpuTextureViewRelease textureView) = (textureViewRelease, [VObj WGPUTextureView textureView], Void)"

primrec TextureView_signature :: "TextureView_slot \<Rightarrow> ctype list \<times> ctype" where
  "TextureView_signature textureViewSetLabel = ([Obj WGPUTextureView, Pointer ''char const''], Void)"
| "TextureView_signature textureViewReference = ([Obj WGPUTextureView], Void)"
| "TextureView_signature textureViewRelease = ([Obj WGPUTextureView], Void)"

primrec TextureView_declared :: "TextureView_call \<Rightarrow> string \<times> cval list \<times> ctype" where
  "TextureView_declared (wgpuTextureViewSetLabel textureView label0) = (''TextureViewSetLabel'', [VObj WGPUTextureView textureView, VPtr ''char const'' label0], Void)"
| "TextureView_declared (wgpuTextureViewReference textureView) = (''TextureViewReference'', [VObj WGPUTextureView textureView], Void)"
| "TextureView_declared (wgpuTextureViewRelease textureView) = (''TextureViewRelease'', [VObj WGPUTextureView textureView], Void)"

primrec TextureView_entry :: "TextureView_slot \<Rightarrow> string" where
  "TextureView_entry textureViewSetLabel = ''TextureViewSetLabel''"
| "TextureView_entry textureViewReference = ''TextureViewReference''"
| "TextureView_entry textureViewRelease = ''TextureViewRelease''"

interpretation textureview_fw: forwarding TextureView_forward TextureView_signature TextureView_declared TextureView_entry
proof unfold_locales
  fix c c' :: TextureView_call and s args r
  show "TextureView_forward c = (s, args, r) \<Longrightarrow> TextureView_signature s = (map type_of args, r)"
    by (cases c) auto
  show "TextureView_forward c = TextureView_forward c' \<Longrightarrow> c = c'"
    by (cases c; cases c'; simp)
  show "TextureView_declared c = (TextureView_entry (fst (TextureView_forward c)), snd (TextureView_forward c))"
    by (cases c) simp_all
qed

end
