(* ===== verification/Proc_Table.thy ===== *)
theory Proc_Table
  imports Proc_Objects Proc_Encoders Proc_Devices
begin

text \<open>
  \<open>src/client/proc.cpp\<close> as a whole: the calls and the entries of all families put together, the
  table \<open>procs\<close> with its initial value, \<open>webGPUDDSetProcs\<close>, and what an exported function does
  with the table.
\<close>

section \<open>All families\<close>

datatype (plugins only: code size) slot =
    Slot_Global Global_slot
  | Slot_Adapter Adapter_slot
  | Slot_BindGroup BindGroup_slot
  | Slot_BindGroupLayout BindGroupLayout_slot
  | Slot_Buffer Buffer_slot
  | Slot_CommandBuffer CommandBuffer_slot
  | Slot_CommandEncoder CommandEncoder_slot
  | Slot_ComputePassEncoder ComputePassEncoder_slot
  | Slot_ComputePipeline ComputePipeline_slot
  | Slot_DeviceCreate DeviceCreate_slot
  | Slot_Device Device_slot
  | Slot_ExternalTexture ExternalTexture_slot
  | Slot_Instance Instance_slot
  | Slot_PipelineLayout PipelineLayout_slot
  | Slot_QuerySet QuerySet_slot
  | Slot_Queue Queue_slot
  | Slot_RenderBundle RenderBundle_slot
  | Slot_RenderBundleEncoder RenderBundleEncoder_slot
  | Slot_RenderPassEncoder RenderPassEncoder_slot
  | Slot_RenderPipeline RenderPipeline_slot
  | Slot_Sampler Sampler_slot
  | Slot_ShaderModule ShaderModule_slot
  | Slot_SharedBufferMemory SharedBufferMemory_slot
  | Slot_SharedFence SharedFence_slot
  | Slot_SharedTextureMemory SharedTextureMemory_slot
  | Slot_Surface Surface_slot
  | Slot_SwapChain SwapChain_slot
  | Slot_Texture Texture_slot
  | Slot_TextureView TextureView_slot

datatype (plugins only: code size) api_call =
    Call_Global Global_call
  | Call_Adapter Adapter_call
  | Call_BindGroup BindGroup_call
  | Call_BindGroupLayout BindGroupLayout_call
  | Call_Buffer Buffer_call
  | Call_CommandBuffer CommandBuffer_call
  | Call_CommandEncoder CommandEncoder_call
  | Call_ComputePassEncoder ComputePassEncoder_call
  | Call_ComputePipeline ComputePipeline_call
  | Call_DeviceCreate DeviceCreate_call
  | Call_Device Device_call
  | Call_ExternalTexture ExternalTexture_call
  | Call_Instance Instance_call
  | Call_PipelineLayout PipelineLayout_call
  | Call_QuerySet QuerySet_call
  | Call_Queue Queue_call
  | Call_RenderBundle RenderBundle_call
  | Call_RenderBundleEncoder RenderBundleEncoder_call
  | Call_RenderPassEncoder RenderPassEncoder_call
  | Call_RenderPipeline RenderPipeline_call
  | Call_Sampler Sampler_call
  | Call_ShaderModule ShaderModule_call
  | Call_SharedBufferMemory SharedBufferMemory_call
  | Call_SharedFence SharedFence_call
  | Call_SharedTextureMemory SharedTextureMemory_call
  | Call_Surface Surface_call
  | Call_SwapChain SwapChain_call
  | Call_Texture Texture_call
  | Call_TextureView TextureView_call

fun forward :: "api_call \<Rightarrow> slot \<times> cval list \<times> ctype" where
  "forward (Call_Global c) = apfst Slot_Global (Global_forward c)"
| "forward (Call_Adapter c) = apfst Slot_Adapter (Adapter_forward c)"
| "forward (Call_BindGroup c) = apfst Slot_BindGroup (BindGroup_forward c)"
| "forward (Call_BindGroupLayout c) = apfst Slot_BindGroupLayout (BindGroupLayout_forward c)"
| "forward (Call_Buffer c) = apfst Slot_Buffer (Buffer_forward c)"
| "forward (Call_CommandBuffer c) = apfst Slot_CommandBuffer (CommandBuffer_forward c)"
| "forward (Call_CommandEncoder c) = apfst Slot_CommandEncoder (CommandEncoder_forward c)"
| "forward (Call_ComputePassEncoder c) = apfst Slot_ComputePassEncoder (ComputePassEncoder_forward c)"
| "forward (Call_ComputePipeline c) = apfst Slot_ComputePipeline (ComputePipeline_forward c)"
| "forward (Call_DeviceCreate c) = apfst Slot_DeviceCreate (DeviceCreate_forward c)"
| "forward (Call_Device c) = apfst Slot_Device (Device_forward c)"
| "forward (Call_ExternalTexture c) = apfst Slot_ExternalTexture (ExternalTexture_forward c)"
| "forward (Call_Instance c) = apfst Slot_Instance (Instance_forward c)"
| "forward (Call_PipelineLayout c) = apfst Slot_PipelineLayout (PipelineLayout_forward c)"
| "forward (Call_QuerySet c) = apfst Slot_QuerySet (QuerySet_forward c)"
| "forward (Call_Queue c) = apfst Slot_Queue (Queue_forward c)"
| "forward (Call_RenderBundle c) = apfst Slot_RenderBundle (RenderBundle_forward c)"
| "forward (Call_RenderBundleEncoder c) = apfst Slot_RenderBundleEncoder (RenderBundleEncoder_forward c)"
| "forward (Call_RenderPassEncoder c) = apfst Slot_RenderPassEncoder (RenderPassEncoder_forward c)"
| "forward (Call_RenderPipeline c) = apfst Slot_RenderPipeline (RenderPipeline_forward c)"
| "forward (Call_Sampler c) = apfst Slot_Sampler (Sampler_forward c)"
| "forward (Call_ShaderModule c) = apfst Slot_ShaderModule (ShaderModule_forward c)"
| "forward (Call_SharedBufferMemory c) = apfst Slot_SharedBufferMemory (SharedBufferMemory_forward c)"
| "forward (Call_SharedFence c) = apfst Slot_SharedFence (SharedFence_forward c)"
| "forward (Call_SharedTextureMemory c) = apfst Slot_SharedTextureMemory (SharedTextureMemory_forward c)"
| "forward (Call_Surface c) = apfst Slot_Surface (Surface_forward c)"
| "forward (Call_SwapChain c) = apfst Slot_SwapChain (SwapChain_forward c)"
| "forward (Call_Texture c) = apfst Slot_Texture (Texture_forward c)"
| "forward (Call_TextureView c) = apfst Slot_TextureView (TextureView_forward c)"

fun signature :: "slot \<Rightarrow> ctype list \<times> ctype" where
  "signature (Slot_Global s) = Global_signature s"
| "signature (Slot_Adapter s) = Adapter_signature s"
| "signature (Slot_BindGroup s) = BindGroup_signature s"
| "signature (Slot_BindGroupLayout s) = BindGroupLayout_signature s"
| "signature (Slot_Buffer s) = Buffer_signature s"
| "signature (Slot_CommandBuffer s) = CommandBuffer_signature s"
| "signature (Slot_CommandEncoder s) = CommandEncoder_signature s"
| "signature (Slot_ComputePassEncoder s) = ComputePassEncoder_signature s"
| "signature (Slot_ComputePipeline s) = ComputePipeline_signature s"
| "signature (Slot_DeviceCreate s) = DeviceCreate_signature s"
| "signature (Slot_Device s) = Device_signature s"
| "signature (Slot_ExternalTexture s) = ExternalTexture_signature s"
| "signature (Slot_Instance s) = Instance_signature s"
| "signature (Slot_PipelineLayout s) = PipelineLayout_signature s"
| "signature (Slot_QuerySet s) = QuerySet_signature s"
| "signature (Slot_Queue s) = Queue_signature s"
| "signature (Slot_RenderBundle s) = RenderBundle_signature s"
| "signature (Slot_RenderBundleEncoder s) = RenderBundleEncoder_signature s"
| "signature (Slot_RenderPassEncoder s) = RenderPassEncoder_signature s"
| "signature (Slot_RenderPipeline s) = RenderPipeline_signature s"
| "signature (Slot_Sampler s) = Sampler_signature s"
| "signature (Slot_ShaderModule s) = ShaderModule_signature s"
| "signature (Slot_SharedBufferMemory s) = SharedBufferMemory_signature s"
| "signature (Slot_SharedFence s) = SharedFence_signature s"
| "signature (Slot_SharedTextureMemory s) = SharedTextureMemory_signature s"
| "signature (Slot_Surface s) = Surface_signature s"
| "signature (Slot_SwapChain s) = SwapChain_signature s"
| "signature (Slot_Texture s) = Texture_signature s"
| "signature (Slot_TextureView s) = TextureView_signature s"

fun declared :: "api_call \<Rightarrow> string \<times> cval list \<times> ctype" where
  "declared (Call_Global c) = Global_declared c"
| "declared (Call_Adapter c) = Adapter_declared c"
| "declared (Call_BindGroup c) = BindGroup_declared c"
| "declared (Call_BindGroupLayout c) = BindGroupLayout_declared c"
| "declared (Call_Buffer c) = Buffer_declared c"
| "declared (Call_CommandBuffer c) = CommandBuffer_declared c"
| "declared (Call_CommandEncoder c) = CommandEncoder_declared c"
| "declared (Call_ComputePassEncoder c) = ComputePassEncoder_declared c"
| "declared (Call_ComputePipeline c) = ComputePipeline_declared c"
| "declared (Call_DeviceCreate c) = DeviceCreate_declared c"
| "declared (Call_Device c) = Device_declared c"
| "declared (Call_ExternalTexture c) = ExternalTexture_declared c"
| "declared (Call_Instance c) = Instance_declared c"
| "declared (Call_PipelineLayout c) = PipelineLayout_declared c"
| "declared (Call_QuerySet c) = QuerySet_declared c"
| "declared (Call_Queue c) = Queue_declared c"
| "declared (Call_RenderBundle c) = RenderBundle_declared c"
| "declared (Call_RenderBundleEncoder c) = RenderBundleEncoder_declared c"
| "declared (Call_RenderPassEncoder c) = RenderPassEncoder_declared c"
| "declared (Call_RenderPipeline c) = RenderPipeline_declared c"
| "declared (Call_Sampler c) = Sampler_declared c"
| "declared (Call_ShaderModule c) = ShaderModule_declared c"
| "declared (Call_SharedBufferMemory c) = SharedBufferMemory_declared c"
| "declared (Call_SharedFence c) = SharedFence_declared c"
| "declared (Call_SharedTextureMemory c) = SharedTextureMemory_declared c"
| "declared (Call_Surface c) = Surface_declared c"
| "declared (Call_SwapChain c) = SwapChain_declared c"
| "declared (Call_Texture c) = Texture_declared c"
| "declared (Call_TextureView c) = TextureView_declared c"

fun entry_name :: "slot \<Rightarrow> string" where
  "entry_name (Slot_Global s) = Global_entry s"
| "entry_name (Slot_Adapter s) = Adapter_entry s"
| "entry_name (Slot_BindGroup s) = BindGroup_entry s"
| "entry_name (Slot_BindGroupLayout s) = BindGroupLayout_entry s"
| "entry_name (Slot_Buffer s) = Buffer_entry s"
| "entry_name (Slot_CommandBuffer s) = CommandBuffer_entry s"
| "entry_name (Slot_CommandEncoder s) = CommandEncoder_entry s"
| "entry_name (Slot_ComputePassEncoder s) = ComputePassEncoder_entry s"
| "entry_name (Slot_ComputePipeline s) = ComputePipeline_entry s"
| "entry_name (Slot_DeviceCreate s) = DeviceCreate_entry s"
| "entry_name (Slot_Device s) = Device_entry s"
| "entry_name (Slot_ExternalTexture s) = ExternalTexture_entry s"
| "entry_name (Slot_Instance s) = Instance_entry s"
| "entry_name (Slot_PipelineLayout s) = PipelineLayout_entry s"
| "entry_name (Slot_QuerySet s) = QuerySet_entry s"
| "entry_name (Slot_Queue s) = Queue_entry s"
| "entry_name (Slot_RenderBundle s) = RenderBundle_entry s"
| "entry_name (Slot_RenderBundleEncoder s) = RenderBundleEncoder_entry s"
| "entry_name (Slot_RenderPassEncoder s) = RenderPassEncoder_entry s"
| "entry_name (Slot_RenderPipeline s) = RenderPipeline_entry s"
| "entry_name (Slot_Sampler s) = Sampler_entry s"
| "entry_name (Slot_ShaderModule s) = ShaderModule_entry s"
| "entry_name (Slot_SharedBufferMemory s) = SharedBufferMemory_entry s"
| "entry_name (Slot_SharedFence s) = SharedFence_entry s"
| "entry_name (Slot_SharedTextureMemory s) = SharedTextureMemory_entry s"
| "entry_name (Slot_Surface s) = Surface_entry s"
| "entry_name (Slot_SwapChain s) = SwapChain_entry s"
| "entry_name (Slot_Texture s) = Texture_entry s"
| "entry_name (Slot_TextureView s) = TextureView_entry s"

lemmas families_typed =
    global_fw.well_typed adapter_fw.well_typed bindgroup_fw.well_typed bindgrouplayout_fw.well_typed
    buffer_fw.well_typed commandbuffer_fw.well_typed commandencoder_fw.well_typed
    computepassencoder_fw.well_typed computepipeline_fw.well_typed devicecreate_fw.well_typed
    device_fw.well_typed externaltexture_fw.well_typed instance_fw.well_typed
    pipelinelayout_fw.well_typed queryset_fw.well_typed queue_fw.well_typed renderbundle_fw.well_typed
    renderbundleencoder_fw.well_typed renderpassencoder_fw.well_typed renderpipeline_fw.well_typed
    sampler_fw.well_typed shadermodule_fw.well_typed sharedbuffermemory_fw.well_typed
    sharedfence_fw.well_typed sharedtexturememory_fw.well_typed surface_fw.well_typed
    swapchain_fw.well_typed texture_fw.well_typed textureview_fw.well_typed

lemmas families_faithful =
    global_fw.faithful adapter_fw.faithful bindgroup_fw.faithful bindgrouplayout_fw.faithful
    buffer_fw.faithful commandbuffer_fw.faithful commandencoder_fw.faithful
    computepassencoder_fw.faithful computepipeline_fw.faithful devicecreate_fw.faithful
    device_fw.faithful externaltexture_fw.faithful instance_fw.faithful pipelinelayout_fw.faithful
    queryset_fw.faithful queue_fw.faithful renderbundle_fw.faithful renderbundleencoder_fw.faithful
    renderpassencoder_fw.faithful renderpipeline_fw.faithful sampler_fw.faithful
    shadermodule_fw.faithful sharedbuffermemory_fw.faithful sharedfence_fw.faithful
    sharedtexturememory_fw.faithful surface_fw.faithful swapchain_fw.faithful texture_fw.faithful
    textureview_fw.faithful

lemmas families_declared =
    global_fw.as_declared adapter_fw.as_declared bindgroup_fw.as_declared bindgrouplayout_fw.as_declared
    buffer_fw.as_declared commandbuffer_fw.as_declared commandencoder_fw.as_declared
    computepassencoder_fw.as_declared computepipeline_fw.as_declared devicecreate_fw.as_declared
    device_fw.as_declared externaltexture_fw.as_declared instance_fw.as_declared
    pipelinelayout_fw.as_declared queryset_fw.as_declared queue_fw.as_declared
    renderbundle_fw.as_declared renderbundleencoder_fw.as_declared renderpassencoder_fw.as_declared
    renderpipeline_fw.as_declared sampler_fw.as_declared shadermodule_fw.as_declared
    sharedbuffermemory_fw.as_declared sharedfence_fw.as_declared sharedtexturememory_fw.as_declared
    surface_fw.as_declared swapchain_fw.as_declared texture_fw.as_declared textureview_fw.as_declared

lemma apfst_injective: "apfst f p = apfst f q \<Longrightarrow> (\<And>x y. f x = f y \<Longrightarrow> x = y) \<Longrightarrow> p = q"
  by (cases p; cases q) auto

interpretation api: forwarding forward signature declared entry_name
proof unfold_locales
  fix c c' :: api_call and s args r
  show "forward c = (s, args, r) \<Longrightarrow> signature s = (map type_of args, r)"
    by (cases c) (auto simp: apfst_def map_prod_def split: prod.splits dest: families_typed)
  have "fst (forward c) = fst (forward c') \<Longrightarrow> forward c = forward c' \<Longrightarrow> c = c'"
    by (cases c; cases c'; simp) (rule families_faithful, erule apfst_injective, simp)+
  then show "forward c = forward c' \<Longrightarrow> c = c'"
    by simp
  show "declared c = (entry_name (fst (forward c)), snd (forward c))"
    by (cases c) (simp_all add: families_declared)
qed

section \<open>The table\<close>

text \<open>
  What an entry can point to: a function of \<open>src/client/webgpudd.cpp\<close>, or the wire client's own
  function for an entry, which is Dawn's. A null entry is \<open>None\<close>.
\<close>

datatype webgpudd_fn =
    Fn_CreateInstance | Fn_CreateInstanceNop | Fn_InstanceReference | Fn_InstanceRelease
  | Fn_InstanceProcessEvents | Fn_InstanceRequestAdapter | Fn_InstanceRequestAdapterF
  | Fn_AdapterRequestDevice | Fn_AdapterRequestDeviceF | Fn_DeviceGetAdapter
  | Fn_AdapterGetInstance | Fn_QueueWriteBuffer

datatype fn = WebGPUDD webgpudd_fn | Wire_client slot

type_synonym DawnProcTable = "slot \<Rightarrow> fn option"

definition DefaultProcTable :: DawnProcTable where
  "DefaultProcTable = (\<lambda>_. None)(Slot_Global createInstance \<mapsto> WebGPUDD Fn_CreateInstance)"

definition webGPUDDSetProcs :: "DawnProcTable \<Rightarrow> DawnProcTable \<Rightarrow> DawnProcTable" where
  "webGPUDDSetProcs new_procs procs = new_procs"

text \<open>An exported function: it calls what the table holds; calling a null entry is a fault.\<close>

definition exported :: "DawnProcTable \<Rightarrow> api_call \<Rightarrow> (fn \<times> cval list) result" where
  "exported procs c =
     (case forward c of (s, args, r) \<Rightarrow>
        case procs s of None \<Rightarrow> Inl NullPointer | Some f \<Rightarrow> Inr (f, args))"

lemma default_exports:
  "exported DefaultProcTable c =
     (case c of
        Call_Global (wgpuCreateInstance d) \<Rightarrow>
          Inr (WebGPUDD Fn_CreateInstance, [VPtr ''WGPUInstanceDescriptor const'' d])
      | _ \<Rightarrow> Inl NullPointer)"
proof (cases c)
  case (Call_Global g)
  then show ?thesis
    by (cases g) (simp_all add: exported_def DefaultProcTable_def)
qed (simp_all add: exported_def DefaultProcTable_def apfst_def map_prod_def case_prod_unfold)

section \<open>Properties\<close>

text \<open>
  Every one of the 251 exported functions fits the entry it calls: number, order and types of the
  arguments and the type of the result are those of the entry's \<open>WGPUProc\<close> typedef.
\<close>

theorem Exports_match_signatures:
  "signature (fst (forward c)) = (map type_of (fst (snd (forward c))), snd (snd (forward c)))"
  by (rule api.well_typed) simp

text \<open>
  C21: The 251 exported functions forward faithfully. What a function passes on is what its prototype
  in \<open>webgpu.h\<close> declares, every parameter once and in order, to the entry that is called like the
  function, and the types are those of the entry's \<open>WGPUProc\<close> typedef, so that no two arguments of the
  same type are exchanged and no entry is called by a function of another name. And two calls
  lead to the same entry with the same arguments only if they are the same function with the
  same arguments.
\<close>

theorem Exports_are_faithful:
  "(case forward c of (s, args, r) \<Rightarrow> declared c = (entry_name s, args, r) \<and> signature s = (map type_of args, r))
   \<and> (fst (forward c) = fst (forward c') \<and> fst (snd (forward c)) = fst (snd (forward c')) \<longleftrightarrow> c = c')"
  using api.forwards_as_declared [of c] api.slot_and_arguments [of c c'] by auto

text \<open>
  Before the library is initialised only \<open>wgpuCreateInstance\<close> can be called: it reaches
  \<open>webGPUDDCreateInstance\<close> with its argument; any other exported function calls a null pointer.
\<close>

theorem Only_createInstance_before_init:
  "exported DefaultProcTable c =
     (case c of
        Call_Global (wgpuCreateInstance d) \<Rightarrow>
          Inr (WebGPUDD Fn_CreateInstance, [VPtr ''WGPUInstanceDescriptor const'' d])
      | _ \<Rightarrow> Inl NullPointer)"
  by (rule default_exports)

end
