(* ===== verification/Client_Runtime.thy ===== *)
theory Client_Runtime
  imports Server_Main Proc_Table
begin

text \<open>
  The client library, \<open>src/client/webgpudd.cpp\<close>: the global \<open>runtime\<close>, how the library connects
  and installs its proc table, the functions it puts in place of the wire client's, and the
  requests for adapters and devices. The wire client and the functions of its proc table are
  Dawn's: parameters of the model.
\<close>

section \<open>The Dawn wire client\<close>

text \<open>
  \<open>dw_procs\<close> says which entries of Dawn's client table are not null, \<open>dw_new\<close> is a new wire client,
  \<open>dw_reserve\<close> its \<open>ReserveInstance\<close>, and \<open>dw_call\<close> runs one of the functions of the table, which
  may write commands into the serializer it was created with.
\<close>

record 'd dawn =
  dw_procs :: "slot \<Rightarrow> bool"
  dw_new :: 'd
  dw_reserve :: "'d \<Rightarrow> ptr \<times> 'd"
  dw_call :: "slot \<Rightarrow> cval list \<Rightarrow> 'd \<Rightarrow> SendBuffer \<Rightarrow> world \<Rightarrow>
    (cval option \<times> 'd \<times> SendBuffer \<times> world) result"

definition GetProcs :: "'d dawn \<Rightarrow> DawnProcTable" where
  "GetProcs dw = (\<lambda>s. if dw_procs dw s then Some (Wire_client s) else None)"

section \<open>The state\<close>

record adapterRequestState =
  ar_instance :: ptr
  ar_callback :: ptr
  ar_userdata :: ptr

record deviceRequestState =
  dr_adapter :: ptr
  dr_callback :: ptr
  dr_userdata :: ptr

text \<open>A call of a callback of the application: the function, status, handle, message, user data.\<close>

datatype app_call =
    AdapterCallback ptr uint32 ptr ptr ptr
  | DeviceCallback ptr uint32 ptr ptr ptr

text \<open>
  The fields of \<open>webGPUDDRuntime\<close> (without the mutex, the unused \<open>threadRunning\<close> and the thread
  object, which is detached), the globals of both source files, the two kinds of heap objects
  the library allocates, the receive threads it has started (each runs \<open>Recv\<close> on the transport
  with \<open>s2cBuf\<close>), and the calls it has made into the application.
\<close>

record 'd client =
  wire_procs :: "(slot \<Rightarrow> bool) option"
  wireClient :: "'d option"
  c2sBuf :: "SendBuffer option"
  s2cBuf :: "RecvBuffer option"
  ri_instance :: ptr
  instanceReserved :: bool
  cmdt :: "addr option"
  preinit_done :: bool
  webGPUDD_procs :: DawnProcTable
  procs :: DawnProcTable
  adapterToInstance :: "ptr \<Rightarrow> ptr option"
  deviceToAdapter :: "ptr \<Rightarrow> ptr option"
  adapter_requests :: "addr \<Rightarrow> adapterRequestState option"
  device_requests :: "addr \<Rightarrow> deviceRequestState option"
  next_request :: addr
  recv_threads :: "addr option list"
  app_calls :: "app_call list"
  os :: world

definition client_start :: "world \<Rightarrow> 'd client" where
  "client_start w =
     \<lparr>wire_procs = None, wireClient = None, c2sBuf = None, s2cBuf = None, ri_instance = 0,
      instanceReserved = False, cmdt = None, preinit_done = False, webGPUDD_procs = (\<lambda>_. None),
      procs = DefaultProcTable, adapterToInstance = Map.empty, deviceToAdapter = Map.empty,
      adapter_requests = Map.empty, device_requests = Map.empty, next_request = 1,
      recv_threads = [], app_calls = [], os = w\<rparr>"

section \<open>Initialisation\<close>

definition SOCKET_PATH :: "byte list" where
  "SOCKET_PATH = ascii ''/run/host-services/webgpu.sock''"

text \<open>The address of the wire client, as the handler of \<open>s2cBuf\<close>.\<close>

definition WIRE_CLIENT :: addr where
  "WIRE_CLIENT = 1"

definition install_overrides :: "DawnProcTable \<Rightarrow> DawnProcTable" where
  "install_overrides t = t(
     Slot_Global createInstance \<mapsto> WebGPUDD Fn_CreateInstance,
     Slot_Instance instanceReference \<mapsto> WebGPUDD Fn_InstanceReference,
     Slot_Instance instanceRelease \<mapsto> WebGPUDD Fn_InstanceRelease,
     Slot_Instance instanceProcessEvents \<mapsto> WebGPUDD Fn_InstanceProcessEvents,
     Slot_Instance instanceRequestAdapter \<mapsto> WebGPUDD Fn_InstanceRequestAdapter,
     Slot_Instance instanceRequestAdapterF \<mapsto> WebGPUDD Fn_InstanceRequestAdapterF,
     Slot_Adapter adapterRequestDevice \<mapsto> WebGPUDD Fn_AdapterRequestDevice,
     Slot_Adapter adapterRequestDeviceF \<mapsto> WebGPUDD Fn_AdapterRequestDeviceF,
     Slot_Device deviceGetAdapter \<mapsto> WebGPUDD Fn_DeviceGetAdapter,
     Slot_Adapter adapterGetInstance \<mapsto> WebGPUDD Fn_AdapterGetInstance,
     Slot_Queue queueWriteBuffer \<mapsto> WebGPUDD Fn_QueueWriteBuffer)"

record init_env =
  ie_unix :: unix_script
  ie_send_junk :: "nat \<Rightarrow> byte"
  ie_recv_junk :: "nat \<Rightarrow> byte"

definition webgpudd_preinit :: "'d dawn \<Rightarrow> init_env \<Rightarrow> 'd client \<Rightarrow> (int \<times> 'd client) result" where
  "webgpudd_preinit dw k st =
     (let sb = new_SendBuffer (ie_send_junk k);
          rb = new_RecvBuffer (ie_recv_junk k);
          st1 = st\<lparr>wire_procs := Some (dw_procs dw), webGPUDD_procs := GetProcs dw,
                   c2sBuf := Some sb, s2cBuf := Some rb, wireClient := Some (dw_new dw)\<rparr>
      in rbind (connect_unix (ie_unix k) SOCKET_PATH (os st1)) (\<lambda>(p, w).
           let st2 = st1\<lparr>cmdt := p, os := w\<rparr>
           in case p of
                None \<Rightarrow> Inr (- 1, st2)
              | Some a \<Rightarrow>
                  (let table = install_overrides (webGPUDD_procs st2)
                   in Inr (0, st2\<lparr>s2cBuf := Some (RecvBuffer_SetHandler WIRE_CLIENT rb),
                                  c2sBuf := Some (SendBuffer_SetTransport a sb),
                                  webGPUDD_procs := table,
                                  procs := webGPUDDSetProcs table (procs st2),
                                  preinit_done := True\<rparr>))))"

definition initWebGPUDD :: "'d dawn \<Rightarrow> init_env \<Rightarrow> 'd client \<Rightarrow> (int \<times> 'd client) result" where
  "initWebGPUDD dw k st =
     rbind (if \<not> preinit_done st then webgpudd_preinit dw k st else Inr (0, st)) (\<lambda>(ret, st1).
       if ret \<noteq> 0 then Inr (ret, st1)
       else Inr (0, st1\<lparr>webGPUDD_procs := (webGPUDD_procs st1)(Slot_Global createInstance \<mapsto> WebGPUDD Fn_CreateInstanceNop),
                        recv_threads := recv_threads st1 @ [cmdt st1]\<rparr>))"

definition getWebGPUDDInstance :: "'d dawn \<Rightarrow> 'd client \<Rightarrow> (ptr \<times> 'd client) result" where
  "getWebGPUDDInstance dw st =
     (if \<not> instanceReserved st then
        (case wireClient st of
           None \<Rightarrow> Inl NullPointer
         | Some d \<Rightarrow>
             (let (i, d') = dw_reserve dw d
              in Inr (i, st\<lparr>wireClient := Some d', ri_instance := i, instanceReserved := True\<rparr>)))
      else Inr (ri_instance st, st))"

definition finaliseWebGPUDD :: "'d client \<Rightarrow> (int \<times> 'd client) result" where
  "finaliseWebGPUDD st =
     (case cmdt st of
        None \<Rightarrow> Inl NullPointer
      | Some p \<Rightarrow> rbind (destroy_CommandTransport p (os st)) (\<lambda>w. Inr (0, st\<lparr>os := w\<rparr>)))"

definition webGPUDDFlush :: "'d client \<Rightarrow> (int \<times> 'd client) result" where
  "webGPUDDFlush st =
     (case c2sBuf st of
        None \<Rightarrow> Inl NullPointer
      | Some sb \<Rightarrow>
          rbind (SendBuffer_Flush sb (os st)) (\<lambda>(ok, sb', w).
            Inr (if ok then 1 else 0, st\<lparr>c2sBuf := Some sb', os := w\<rparr>)))"

section \<open>The functions of the table\<close>

text \<open>
  A call through \<open>runtime.wire_procs\<close>, and one of a wire client's function that the table holds:
  both run Dawn's function on the wire client and the serializer.
\<close>

definition run_wire :: "'d dawn \<Rightarrow> slot \<Rightarrow> cval list \<Rightarrow> 'd client \<Rightarrow> (cval option \<times> 'd client) result" where
  "run_wire dw s args st =
     (case (wireClient st, c2sBuf st) of
        (Some d, Some sb) \<Rightarrow>
          rbind (dw_call dw s args d sb (os st)) (\<lambda>(r, d', sb', w).
            Inr (r, st\<lparr>wireClient := Some d', c2sBuf := Some sb', os := w\<rparr>))
      | _ \<Rightarrow> Inl NullPointer)"

definition wire_proc :: "'d dawn \<Rightarrow> slot \<Rightarrow> cval list \<Rightarrow> 'd client \<Rightarrow> (cval option \<times> 'd client) result" where
  "wire_proc dw s args st =
     (case wire_procs st of
        None \<Rightarrow> Inl NullPointer
      | Some entries \<Rightarrow> if entries s then run_wire dw s args st else Inl NullPointer)"

definition webGPUDDCreateInstance :: "'d dawn \<Rightarrow> init_env \<Rightarrow> ptr \<Rightarrow> 'd client \<Rightarrow> (ptr \<times> 'd client) result" where
  "webGPUDDCreateInstance dw k desc st =
     rbind (initWebGPUDD dw k st) (\<lambda>(ret, st1).
       if ret \<noteq> 0 then Inr (0, st1) else getWebGPUDDInstance dw st1)"

definition webGPUDDCreateInstanceNop :: "'d dawn \<Rightarrow> ptr \<Rightarrow> 'd client \<Rightarrow> (ptr \<times> 'd client) result" where
  "webGPUDDCreateInstanceNop dw desc st = getWebGPUDDInstance dw st"

definition webgpuDDInstanceReference :: "'d dawn \<Rightarrow> ptr \<Rightarrow> 'd client \<Rightarrow> 'd client result" where
  "webgpuDDInstanceReference dw inst st =
     rbind (wire_proc dw (Slot_Instance instanceReference) [VObj WGPUInstance inst] st) (\<lambda>(r, st1). Inr st1)"

definition webGPUDDInstanceRelease :: "'d dawn \<Rightarrow> ptr \<Rightarrow> 'd client \<Rightarrow> 'd client result" where
  "webGPUDDInstanceRelease dw inst st =
     rbind (finaliseWebGPUDD st) (\<lambda>(ret, st1).
       rbind (wire_proc dw (Slot_Instance instanceRelease) [VObj WGPUInstance inst] st1) (\<lambda>(r, st2). Inr st2))"

definition webGPUDDInstanceProcessEvents :: "'d dawn \<Rightarrow> ptr \<Rightarrow> 'd client \<Rightarrow> 'd client result" where
  "webGPUDDInstanceProcessEvents dw inst st =
     rbind (wire_proc dw (Slot_Instance instanceProcessEvents) [VObj WGPUInstance inst] st) (\<lambda>(r, st1).
       rbind (webGPUDDFlush st1) (\<lambda>(ret, st2). Inr st2))"

text \<open>The addresses of the two callbacks that the library passes to the wire client.\<close>

definition ADAPTER_REQUEST_CB :: ptr where "ADAPTER_REQUEST_CB = 1"

definition DEVICE_REQUEST_CB :: ptr where "DEVICE_REQUEST_CB = 2"

definition adapterRequestCB :: "uint32 \<Rightarrow> ptr \<Rightarrow> ptr \<Rightarrow> ptr \<Rightarrow> 'd client \<Rightarrow> 'd client result" where
  "adapterRequestCB status adapter message userdata st =
     (case adapter_requests st userdata of
        None \<Rightarrow> Inl DeadObject
      | Some state \<Rightarrow>
          (let st1 = (if adapter \<noteq> 0
                      then st\<lparr>adapterToInstance := (adapterToInstance st)(adapter \<mapsto> ar_instance state)\<rparr>
                      else st)
           in if ar_callback state = 0 then Inl NullPointer
              else let st2 = st1\<lparr>app_calls := app_calls st1 @
                       [AdapterCallback (ar_callback state) status adapter message (ar_userdata state)]\<rparr>
                   in Inr (st2\<lparr>adapter_requests := (adapter_requests st2)(userdata := None)\<rparr>)))"

definition webGPUDDInstanceRequestAdapter ::
  "'d dawn \<Rightarrow> ptr \<Rightarrow> ptr \<Rightarrow> ptr \<Rightarrow> ptr \<Rightarrow> 'd client \<Rightarrow> 'd client result" where
  "webGPUDDInstanceRequestAdapter dw inst opts callback userdata st =
     (let state = next_request st;
          st1 = st\<lparr>adapter_requests := (adapter_requests st)(state \<mapsto>
                     \<lparr>ar_instance = inst, ar_callback = callback, ar_userdata = userdata\<rparr>),
                   next_request := Suc (next_request st)\<rparr>
      in rbind (wire_proc dw (Slot_Instance instanceRequestAdapter)
             [VObj WGPUInstance inst, VPtr ''WGPURequestAdapterOptions const'' opts,
              VFun ''WGPURequestAdapterCallback'' ADAPTER_REQUEST_CB, VPtr ''void'' state] st1) (\<lambda>(r, st2).
           rbind (webGPUDDFlush st2) (\<lambda>(ret, st3). Inr st3)))"

definition webGPUDDInstanceRequestAdapterF ::
  "'d dawn \<Rightarrow> ptr \<Rightarrow> ptr \<Rightarrow> byte list \<Rightarrow> 'd client \<Rightarrow> (cval option \<times> 'd client) result" where
  "webGPUDDInstanceRequestAdapterF dw inst opts callbackInfo st =
     rbind (wire_proc dw (Slot_Instance instanceRequestAdapterF)
         [VObj WGPUInstance inst, VPtr ''WGPURequestAdapterOptions const'' opts,
          VStruct ''WGPURequestAdapterCallbackInfo'' callbackInfo] st) (\<lambda>(future, st1).
       rbind (webGPUDDFlush st1) (\<lambda>(ret, st2). Inr (future, st2)))"

definition deviceRequestCB :: "uint32 \<Rightarrow> ptr \<Rightarrow> ptr \<Rightarrow> ptr \<Rightarrow> 'd client \<Rightarrow> 'd client result" where
  "deviceRequestCB status device message userdata st =
     (case device_requests st userdata of
        None \<Rightarrow> Inl DeadObject
      | Some state \<Rightarrow>
          (let st1 = (if device \<noteq> 0
                      then st\<lparr>deviceToAdapter := (deviceToAdapter st)(device \<mapsto> dr_adapter state)\<rparr>
                      else st)
           in if dr_callback state = 0 then Inl NullPointer
              else let st2 = st1\<lparr>app_calls := app_calls st1 @
                       [DeviceCallback (dr_callback state) status device message (dr_userdata state)]\<rparr>
                   in Inr (st2\<lparr>device_requests := (device_requests st2)(userdata := None)\<rparr>)))"

definition webGPUDDAdapterRequestDevice ::
  "'d dawn \<Rightarrow> ptr \<Rightarrow> ptr \<Rightarrow> ptr \<Rightarrow> ptr \<Rightarrow> 'd client \<Rightarrow> 'd client result" where
  "webGPUDDAdapterRequestDevice dw adapter descriptor callback userdata st =
     (let state = next_request st;
          st1 = st\<lparr>device_requests := (device_requests st)(state \<mapsto>
                     \<lparr>dr_adapter = adapter, dr_callback = callback, dr_userdata = userdata\<rparr>),
                   next_request := Suc (next_request st)\<rparr>
      in rbind (wire_proc dw (Slot_Adapter adapterRequestDevice)
             [VObj WGPUAdapter adapter, VPtr ''WGPUDeviceDescriptor const'' descriptor,
              VFun ''WGPURequestDeviceCallback'' DEVICE_REQUEST_CB, VPtr ''void'' state] st1) (\<lambda>(r, st2).
           rbind (webGPUDDFlush st2) (\<lambda>(ret, st3). Inr st3)))"

definition webGPUDDAdapterRequestDeviceF ::
  "'d dawn \<Rightarrow> ptr \<Rightarrow> ptr \<Rightarrow> byte list \<Rightarrow> 'd client \<Rightarrow> (cval option \<times> 'd client) result" where
  "webGPUDDAdapterRequestDeviceF dw adapter descriptor callbackInfo st =
     rbind (wire_proc dw (Slot_Adapter adapterRequestDeviceF)
         [VObj WGPUAdapter adapter, VPtr ''WGPUDeviceDescriptor const'' descriptor,
          VStruct ''WGPURequestDeviceCallbackInfo'' callbackInfo] st) (\<lambda>(future, st1).
       rbind (webGPUDDFlush st1) (\<lambda>(ret, st2). Inr (future, st2)))"

text \<open>\<open>operator[]\<close> of \<open>std::map\<close>: a missing key is inserted with a null value.\<close>

definition map_index :: "(ptr \<Rightarrow> ptr option) \<Rightarrow> ptr \<Rightarrow> ptr \<times> (ptr \<Rightarrow> ptr option)" where
  "map_index m k = (case m k of Some v \<Rightarrow> (v, m) | None \<Rightarrow> (0, m(k \<mapsto> 0)))"

definition webGPUDDDeviceGetAdapter :: "ptr \<Rightarrow> 'd client \<Rightarrow> ptr \<times> 'd client" where
  "webGPUDDDeviceGetAdapter device st =
     (let (a, m) = map_index (deviceToAdapter st) device in (a, st\<lparr>deviceToAdapter := m\<rparr>))"

definition webGPUDDAdapterGetInstance :: "ptr \<Rightarrow> 'd client \<Rightarrow> ptr \<times> 'd client" where
  "webGPUDDAdapterGetInstance adapter st =
     (let (i, m) = map_index (adapterToInstance st) adapter in (i, st\<lparr>adapterToInstance := m\<rparr>))"

definition webGPUDDQueueWriteBuffer ::
  "'d dawn \<Rightarrow> ptr \<Rightarrow> ptr \<Rightarrow> uint64 \<Rightarrow> ptr \<Rightarrow> size_t \<Rightarrow> 'd client \<Rightarrow> 'd client result" where
  "webGPUDDQueueWriteBuffer dw queue buffer bufferOffset bytes sz st =
     rbind (wire_proc dw (Slot_Queue queueWriteBuffer)
         [VObj WGPUQueue queue, VObj WGPUBuffer buffer, VUint64 bufferOffset, VPtr ''void const'' bytes, VSize sz] st)
       (\<lambda>(r, st1). rbind (webGPUDDFlush st1) (\<lambda>(ret, st2). Inr st2))"

end
