(* ===== verification/Client_Laws.thy ===== *)
theory Client_Laws
  imports Client_Runtime
begin

text \<open>
  The client library as a state machine: what a call of an exported function does in a given
  state, the reachable states, their invariant, and the properties of the library.
\<close>

section \<open>A call of the API\<close>

text \<open>A function of the library, called with the arguments of an entry's type.\<close>

definition webgpudd_call :: "'d dawn \<Rightarrow> init_env \<Rightarrow> webgpudd_fn \<Rightarrow> cval list \<Rightarrow> 'd client \<Rightarrow>
    (cval option \<times> 'd client) result" where
  "webgpudd_call dw k f args st =
     (let void = (\<lambda>m. rbind m (\<lambda>st'. Inr (None, st')));
          inst = (\<lambda>m. rbind m (\<lambda>(i, st'). Inr (Some (VObj WGPUInstance i), st')))
      in case f of
        Fn_CreateInstance \<Rightarrow>
          (case args of [VPtr t d] \<Rightarrow> inst (webGPUDDCreateInstance dw k d st) | _ \<Rightarrow> Inl IllTyped)
      | Fn_CreateInstanceNop \<Rightarrow>
          (case args of [VPtr t d] \<Rightarrow> inst (webGPUDDCreateInstanceNop dw d st) | _ \<Rightarrow> Inl IllTyped)
      | Fn_InstanceReference \<Rightarrow>
          (case args of [VObj o1 i] \<Rightarrow> void (webgpuDDInstanceReference dw i st) | _ \<Rightarrow> Inl IllTyped)
      | Fn_InstanceRelease \<Rightarrow>
          (case args of [VObj o1 i] \<Rightarrow> void (webGPUDDInstanceRelease dw i st) | _ \<Rightarrow> Inl IllTyped)
      | Fn_InstanceProcessEvents \<Rightarrow>
          (case args of [VObj o1 i] \<Rightarrow> void (webGPUDDInstanceProcessEvents dw i st) | _ \<Rightarrow> Inl IllTyped)
      | Fn_InstanceRequestAdapter \<Rightarrow>
          (case args of [VObj o1 i, VPtr t opts, VFun u cb, VPtr v ud] \<Rightarrow>
             void (webGPUDDInstanceRequestAdapter dw i opts cb ud st) | _ \<Rightarrow> Inl IllTyped)
      | Fn_InstanceRequestAdapterF \<Rightarrow>
          (case args of [VObj o1 i, VPtr t opts, VStruct u info] \<Rightarrow>
             webGPUDDInstanceRequestAdapterF dw i opts info st | _ \<Rightarrow> Inl IllTyped)
      | Fn_AdapterRequestDevice \<Rightarrow>
          (case args of [VObj o1 a, VPtr t descr, VFun u cb, VPtr v ud] \<Rightarrow>
             void (webGPUDDAdapterRequestDevice dw a descr cb ud st) | _ \<Rightarrow> Inl IllTyped)
      | Fn_AdapterRequestDeviceF \<Rightarrow>
          (case args of [VObj o1 a, VPtr t descr, VStruct u info] \<Rightarrow>
             webGPUDDAdapterRequestDeviceF dw a descr info st | _ \<Rightarrow> Inl IllTyped)
      | Fn_DeviceGetAdapter \<Rightarrow>
          (case args of [VObj o1 d] \<Rightarrow>
             (let (a, st') = webGPUDDDeviceGetAdapter d st in Inr (Some (VObj WGPUAdapter a), st'))
           | _ \<Rightarrow> Inl IllTyped)
      | Fn_AdapterGetInstance \<Rightarrow>
          (case args of [VObj o1 a] \<Rightarrow>
             (let (i, st') = webGPUDDAdapterGetInstance a st in Inr (Some (VObj WGPUInstance i), st'))
           | _ \<Rightarrow> Inl IllTyped)
      | Fn_QueueWriteBuffer \<Rightarrow>
          (case args of [VObj o1 q, VObj o2 b, VUint64 off, VPtr t bs, VSize n] \<Rightarrow>
             void (webGPUDDQueueWriteBuffer dw q b off bs n st) | _ \<Rightarrow> Inl IllTyped))"

definition api_step :: "'d dawn \<Rightarrow> init_env \<Rightarrow> api_call \<Rightarrow> 'd client \<Rightarrow> (cval option \<times> 'd client) result" where
  "api_step dw k c st =
     rbind (exported (procs st) c) (\<lambda>(f, args). case f of
         Wire_client s \<Rightarrow> run_wire dw s args st
       | WebGPUDD g \<Rightarrow> webgpudd_call dw k g args st)"

section \<open>Dispatch through the installed table\<close>

abbreviation client_table :: "'d dawn \<Rightarrow> DawnProcTable" where
  "client_table dw \<equiv> install_overrides (GetProcs dw)"

fun overridden :: "api_call \<Rightarrow> webgpudd_fn option" where
  "overridden (Call_Global (wgpuCreateInstance d)) = Some Fn_CreateInstance"
| "overridden (Call_Instance (wgpuInstanceReference i)) = Some Fn_InstanceReference"
| "overridden (Call_Instance (wgpuInstanceRelease i)) = Some Fn_InstanceRelease"
| "overridden (Call_Instance (wgpuInstanceProcessEvents i)) = Some Fn_InstanceProcessEvents"
| "overridden (Call_Instance (wgpuInstanceRequestAdapter i opts cb ud)) = Some Fn_InstanceRequestAdapter"
| "overridden (Call_Instance (wgpuInstanceRequestAdapterF i opts info)) = Some Fn_InstanceRequestAdapterF"
| "overridden (Call_Adapter (wgpuAdapterRequestDevice a d cb ud)) = Some Fn_AdapterRequestDevice"
| "overridden (Call_Adapter (wgpuAdapterRequestDeviceF a d info)) = Some Fn_AdapterRequestDeviceF"
| "overridden (Call_Adapter (wgpuAdapterGetInstance a)) = Some Fn_AdapterGetInstance"
| "overridden (Call_Device (wgpuDeviceGetAdapter d)) = Some Fn_DeviceGetAdapter"
| "overridden (Call_Queue (wgpuQueueWriteBuffer q b off bs n)) = Some Fn_QueueWriteBuffer"
| "overridden _ = None"

lemma client_table_entry:
  "client_table dw (fst (forward c)) =
     (case overridden c of Some f \<Rightarrow> Some (WebGPUDD f) | None \<Rightarrow> GetProcs dw (fst (forward c)))"
proof (cases c)
  case (Call_Global g)
  then show ?thesis by (cases g) (simp_all add: install_overrides_def)
next
  case (Call_Instance g)
  then show ?thesis by (cases g) (simp_all add: install_overrides_def)
next
  case (Call_Adapter g)
  then show ?thesis by (cases g) (simp_all add: install_overrides_def)
next
  case (Call_Device g)
  then show ?thesis by (cases g) (simp_all add: install_overrides_def)
next
  case (Call_Queue g)
  then show ?thesis by (cases g) (simp_all add: install_overrides_def)
qed (simp_all add: install_overrides_def)

lemma client_dispatch:
  "exported (client_table dw) c =
     (case overridden c of
        Some f \<Rightarrow> Inr (WebGPUDD f, fst (snd (forward c)))
      | None \<Rightarrow> if dw_procs dw (fst (forward c)) then Inr (Wire_client (fst (forward c)), fst (snd (forward c)))
                else Inl NullPointer)"
proof -
  obtain s args r where "forward c = (s, args, r)" by (metis surj_pair)
  with client_table_entry [of dw c] show ?thesis
    by (simp add: exported_def GetProcs_def split: option.split)
qed

section \<open>The invariant of a connected client\<close>

text \<open>
  What the library relies on in Dawn: every entry of the client's table is set, and its functions,
  given a serializer that works, return and leave it working: they only use \<open>GetCmdSpace\<close> and
  \<open>Flush\<close> and do not touch its transport.
\<close>

definition dawn_ok :: "'d dawn \<Rightarrow> bool" where
  "dawn_ok dw \<longleftrightarrow> (\<forall>s. dw_procs dw s) \<and>
     (\<forall>s args d sb w. SB_inv sb \<longrightarrow> SB_ready sb w \<longrightarrow>
        (\<exists>r d' sb' w'. dw_call dw s args d sb w = Inr (r, d', sb', w') \<and> SB_inv sb'
           \<and> s_mTransport sb' = s_mTransport sb \<and> transports w' = transports w))"

text \<open>The part of the state that calls change: the wire client, its serializer, the system.\<close>

definition link_ok :: "'d client \<Rightarrow> bool" where
  "link_ok st \<longleftrightarrow>
     (\<exists>d sb p. wireClient st = Some d \<and> c2sBuf st = Some sb \<and> cmdt st = Some p
        \<and> s_mTransport sb = Some p \<and> SB_inv sb \<and> transports (os st) p \<noteq> None)"

text \<open>
  The part that lasts: once the library is set up it stays so, whether its transport lives or not.
  \<open>linked\<close> adds that the transport lives and the serializer is in order.
\<close>

definition set_up :: "'d dawn \<Rightarrow> 'd client \<Rightarrow> bool" where
  "set_up dw st \<longleftrightarrow> preinit_done st \<and> wire_procs st = Some (dw_procs dw)
     \<and> procs st = client_table dw \<and> wireClient st \<noteq> None"

definition linked :: "'d dawn \<Rightarrow> 'd client \<Rightarrow> bool" where
  "linked dw st \<longleftrightarrow> set_up dw st \<and> link_ok st"

definition only_wire :: "'d client \<Rightarrow> 'd client \<Rightarrow> bool" where
  "only_wire st st' \<longleftrightarrow> (\<exists>d sb w. st' = st\<lparr>wireClient := d, c2sBuf := sb, os := w\<rparr>)"

lemma only_wire_refl [simp]: "only_wire st st"
  unfolding only_wire_def by (rule exI [of _ "wireClient st"], rule exI [of _ "c2sBuf st"], rule exI [of _ "os st"]) simp

lemma only_wire_trans: "only_wire a b \<Longrightarrow> only_wire b c \<Longrightarrow> only_wire a c"
  unfolding only_wire_def by force

lemma only_wire_fields:
  assumes "only_wire st st'"
  shows "wire_procs st' = wire_procs st" "s2cBuf st' = s2cBuf st" "ri_instance st' = ri_instance st"
    "instanceReserved st' = instanceReserved st" "cmdt st' = cmdt st" "preinit_done st' = preinit_done st"
    "webGPUDD_procs st' = webGPUDD_procs st" "procs st' = procs st"
    "adapterToInstance st' = adapterToInstance st" "deviceToAdapter st' = deviceToAdapter st"
    "adapter_requests st' = adapter_requests st" "device_requests st' = device_requests st"
    "next_request st' = next_request st" "recv_threads st' = recv_threads st" "app_calls st' = app_calls st"
  using assms by (auto simp: only_wire_def)

text \<open>A step that succeeds and keeps the link, over the part of the state it may change.\<close>

definition keeps_link :: "'d client \<Rightarrow> ('a \<times> 'd client) result \<Rightarrow> bool" where
  "keeps_link st m \<longleftrightarrow> (\<exists>r st'. m = Inr (r, st') \<and> only_wire st st' \<and> link_ok st')"

lemma keeps_link_bind:
  assumes "keeps_link st m"
    and "\<And>r st'. m = Inr (r, st') \<Longrightarrow> only_wire st st' \<Longrightarrow> link_ok st' \<Longrightarrow> keeps_link st' (f r st')"
  shows "keeps_link st (rbind m (\<lambda>(r, st'). f r st'))"
proof -
  obtain r st' where m: "m = Inr (r, st')" "only_wire st st'" "link_ok st'"
    using assms(1) by (auto simp: keeps_link_def)
  from assms(2) [OF m] obtain q st'' where "f r st' = Inr (q, st'')" "only_wire st' st''" "link_ok st''"
    by (auto simp: keeps_link_def)
  with m only_wire_trans [OF m(2)] show ?thesis by (auto simp: keeps_link_def)
qed

lemma keeps_link_return: "link_ok st \<Longrightarrow> keeps_link st (Inr (r, st))"
  by (simp add: keeps_link_def)

lemma run_wire_keeps:
  assumes "dawn_ok dw" "link_ok st"
  shows "keeps_link st (run_wire dw s args st)"
proof -
  obtain d sb p where st: "wireClient st = Some d" "c2sBuf st = Some sb" "cmdt st = Some p"
      "s_mTransport sb = Some p" "SB_inv sb" "transports (os st) p \<noteq> None"
    using assms(2) by (auto simp: link_ok_def)
  then have "SB_ready sb (os st)" by (simp add: SB_ready_def)
  with assms(1) st(5) obtain r d' sb' w' where
    c: "dw_call dw s args d sb (os st) = Inr (r, d', sb', w')" "SB_inv sb'"
      "s_mTransport sb' = s_mTransport sb" "transports w' = transports (os st)"
    unfolding dawn_ok_def by blast
  let ?st = "st\<lparr>wireClient := Some d', c2sBuf := Some sb', os := w'\<rparr>"
  have "run_wire dw s args st = Inr (r, ?st)"
    using st c(1) by (simp add: run_wire_def)
  moreover have "only_wire st ?st" unfolding only_wire_def by blast
  moreover have "link_ok ?st" using st c by (simp add: link_ok_def)
  ultimately show ?thesis unfolding keeps_link_def by blast
qed

lemma wire_proc_linked:
  assumes "dawn_ok dw" "wire_procs st = Some (dw_procs dw)"
  shows "wire_proc dw s args st = run_wire dw s args st"
  using assms by (simp add: wire_proc_def dawn_ok_def)

lemma Flush_transports:
  assumes "SendBuffer_Flush sb w = Inr (ok, sb', w')" "s_mTransport sb = Some p" "transports w p \<noteq> None" "SB_inv sb"
  shows "transports w' = transports w"
proof (cases "s_mOffset sb = 0")
  case True
  with assms(1) show ?thesis by simp
next
  case False
  let ?b = "poke (s_mBuffer sb) (unat (s_mOffset sb)) flush_mark"
  have "in_block ?b 0 (unat (s_mOffset sb + 12))"
    using assms(4) by (intro SB_end_in_block) (simp_all add: SB_inv_def)
  from Send_live [OF assms(3) this] assms(1) show ?thesis
    by (auto simp: Flush_pending [OF assms(4) False assms(2)] Let_def)
qed

lemma flush_keeps:
  assumes "link_ok st"
  shows "keeps_link st (webGPUDDFlush st)"
proof -
  obtain d sb p where st: "wireClient st = Some d" "c2sBuf st = Some sb" "cmdt st = Some p"
      "s_mTransport sb = Some p" "SB_inv sb" "transports (os st) p \<noteq> None"
    using assms by (auto simp: link_ok_def)
  then have "SB_ready sb (os st)" by (simp add: SB_ready_def)
  then obtain ok sb' w' where fl: "SendBuffer_Flush sb (os st) = Inr (ok, sb', w')"
    using SB_Flush_live [OF st(5)] by blast
  let ?st = "st\<lparr>c2sBuf := Some sb', os := w'\<rparr>"
  have "webGPUDDFlush st = Inr (if ok then 1 else 0, ?st)"
    using st fl by (simp add: webGPUDDFlush_def)
  moreover have "only_wire st ?st" unfolding only_wire_def
    by (rule exI [of _ "wireClient st"], rule exI [of _ "Some sb'"], rule exI [of _ w']) simp
  moreover have "link_ok ?st"
    using st SB_inv_Flush [OF st(5) fl] Flush_transports [OF fl st(4,6,5)] by (simp add: link_ok_def)
  ultimately show ?thesis unfolding keeps_link_def by blast
qed

text \<open>A call to the wire client followed by a flush: the shape of most functions of the table.\<close>

lemma call_and_flush_keeps:
  assumes "dawn_ok dw" "wire_procs st = Some (dw_procs dw)" "link_ok st"
  shows "keeps_link st (rbind (wire_proc dw s args st) (\<lambda>(r, st1).
           rbind (webGPUDDFlush st1) (\<lambda>(ret, st2). Inr (f r, st2))))"
  unfolding wire_proc_linked [OF assms(1,2)]
  by (intro keeps_link_bind run_wire_keeps assms flush_keeps keeps_link_return)

lemma keeps_linked:
  assumes "linked dw st" "keeps_link st m"
  shows "\<exists>r st'. m = Inr (r, st') \<and> only_wire st st' \<and> linked dw st'"
  using assms by (auto simp: keeps_link_def linked_def set_up_def link_ok_def only_wire_fields)

text \<open>A step that may change other parts of the state, but not the link.\<close>

definition stays_linked :: "'d dawn \<Rightarrow> ('a \<times> 'd client) result \<Rightarrow> bool" where
  "stays_linked dw m \<longleftrightarrow> (\<exists>r st'. m = Inr (r, st') \<and> linked dw st')"

lemma linked_link: "linked dw st \<Longrightarrow> link_ok st"
  by (simp add: linked_def)

lemma linked_set_up: "linked dw st \<Longrightarrow> set_up dw st"
  by (simp add: linked_def)

lemma stays_linkedI: "linked dw st \<Longrightarrow> keeps_link st m \<Longrightarrow> stays_linked dw m"
  using keeps_linked by (fastforce simp: stays_linked_def)

lemma stays_linked_bind:
  "stays_linked dw m \<Longrightarrow> (\<And>p. linked dw (snd p) \<Longrightarrow> stays_linked dw (f p)) \<Longrightarrow>
   stays_linked dw (rbind m f)"
  by (auto simp: stays_linked_def)

lemma stays_linked_return [simp]: "stays_linked dw (Inr (r, st)) \<longleftrightarrow> linked dw st"
  by (simp add: stays_linked_def)

lemma linked_fields [simp]:
  "linked dw (st\<lparr>recv_threads := ts\<rparr>) = linked dw st"
  "linked dw (st\<lparr>webGPUDD_procs := t\<rparr>) = linked dw st"
  "linked dw (st\<lparr>adapterToInstance := m\<rparr>) = linked dw st"
  "linked dw (st\<lparr>deviceToAdapter := m\<rparr>) = linked dw st"
  "linked dw (st\<lparr>adapter_requests := q, next_request := n\<rparr>) = linked dw st"
  "linked dw (st\<lparr>device_requests := q', next_request := n\<rparr>) = linked dw st"
  "linked dw (st\<lparr>adapter_requests := q\<rparr>) = linked dw st"
  "linked dw (st\<lparr>device_requests := q'\<rparr>) = linked dw st"
  "linked dw (st\<lparr>app_calls := cs\<rparr>) = linked dw st"
  by (simp_all add: linked_def set_up_def link_ok_def)

lemma flush_stays: "linked dw st \<Longrightarrow> stays_linked dw (webGPUDDFlush st)"
  by (rule stays_linkedI [OF _ flush_keeps [OF linked_link]])

lemma run_wire_stays: "dawn_ok dw \<Longrightarrow> linked dw st \<Longrightarrow> stays_linked dw (run_wire dw s args st)"
  by (rule stays_linkedI [OF _ run_wire_keeps [OF _ linked_link]])

lemma wire_proc_stays: "dawn_ok dw \<Longrightarrow> linked dw st \<Longrightarrow> stays_linked dw (wire_proc dw s args st)"
  by (simp add: wire_proc_linked run_wire_stays linked_def set_up_def)

lemmas stays = stays_linked_bind flush_stays run_wire_stays wire_proc_stays

lemma getInstance_stays: "linked dw st \<Longrightarrow> stays_linked dw (getWebGPUDDInstance dw st)"
  by (auto simp: getWebGPUDDInstance_def linked_def set_up_def link_ok_def Let_def case_prod_unfold stays_linked_def)

lemma createInstance_stays:
  assumes "linked dw st"
  shows "stays_linked dw (webGPUDDCreateInstance dw k d st)"
proof -
  have "preinit_done st" using assms by (simp add: linked_def set_up_def)
  with assms show ?thesis
    by (simp add: webGPUDDCreateInstance_def initWebGPUDD_def getInstance_stays)
qed

text \<open>Every function but \<open>webGPUDDInstanceRelease\<close>, which ends the life of the transport.\<close>

definition releases_instance :: "api_call \<Rightarrow> bool" where
  "releases_instance c \<longleftrightarrow> overridden c = Some Fn_InstanceRelease"

lemma webgpudd_calls_stay:
  assumes "dawn_ok dw" "linked dw st" "overridden c = Some f" "\<not> releases_instance c"
  shows "stays_linked dw (webgpudd_call dw k f (fst (snd (forward c))) st)"
  using assms(3,4)
proof (induction c rule: overridden.induct)
qed (use assms(1,2) in \<open>auto simp: releases_instance_def rbind_assoc webgpudd_call_def Let_def case_prod_unfold
      webgpuDDInstanceReference_def webGPUDDInstanceProcessEvents_def
      webGPUDDInstanceRequestAdapter_def webGPUDDInstanceRequestAdapterF_def
      webGPUDDAdapterRequestDevice_def webGPUDDAdapterRequestDeviceF_def
      webGPUDDDeviceGetAdapter_def webGPUDDAdapterGetInstance_def webGPUDDQueueWriteBuffer_def
      intro!: stays createInstance_stays\<close>)

lemma api_stays:
  assumes "dawn_ok dw" "linked dw st" "\<not> releases_instance c"
  shows "stays_linked dw (api_step dw k c st)"
proof -
  have p: "procs st = client_table dw" using assms(2) by (simp add: linked_def set_up_def)
  show ?thesis
  proof (cases "overridden c")
    case None
    with assms p show ?thesis
      by (simp add: api_step_def client_dispatch dawn_ok_def run_wire_stays)
  next
    case (Some f)
    with webgpudd_calls_stay [OF assms(1,2) Some assms(3), of k] p show ?thesis
      by (simp add: api_step_def client_dispatch)
  qed
qed

section \<open>Initialisation\<close>

lemma connect_unix_total:
  "\<exists>p w'. connect_unix k path w = Inr (p, w') \<and> (\<forall>a. p = Some a \<longrightarrow> transports w' a \<noteq> None)"
proof -
  obtain b where "strncpy zero_path path 107 = Inr b"
    using strncpy_path [of 107 path] by (auto simp: SUN_PATH_def)
  then show ?thesis
    by (auto simp: connect_unix_def socket_defs SUN_PATH_def split: fd_outcome.split option.split)
qed

definition unlinked :: "'d client \<Rightarrow> bool" where
  "unlinked st \<longleftrightarrow> \<not> preinit_done st \<and> procs st = DefaultProcTable \<and> recv_threads st = []
     \<and> \<not> instanceReserved st \<and> adapter_requests st = Map.empty \<and> device_requests st = Map.empty"

lemma preinit_cases:
  assumes "unlinked st" "connect_unix (ie_unix k) SOCKET_PATH (os st) = Inr (p, w)"
  shows "\<exists>ret st'. webgpudd_preinit dw k st = Inr (ret, st')
    \<and> (if p = None then ret = - 1 \<and> unlinked st' else ret = 0 \<and> linked dw st')
    \<and> recv_threads st' = recv_threads st \<and> cmdt st' = p \<and> os st' = w
    \<and> instanceReserved st' = instanceReserved st \<and> next_request st' = next_request st
    \<and> adapter_requests st' = adapter_requests st \<and> device_requests st' = device_requests st"
proof (cases p)
  case None
  with assms show ?thesis by (simp add: webgpudd_preinit_def unlinked_def Let_def)
next
  case (Some a)
  have "transports w a \<noteq> None"
    using connect_unix_total [of "ie_unix k" SOCKET_PATH "os st"] assms(2) Some by auto
  then show ?thesis
    using assms Some
    by (simp add: webgpudd_preinit_def Let_def linked_def set_up_def link_ok_def webGPUDDSetProcs_def
        SendBuffer_SetTransport_def SB_inv_def new_SendBuffer_def buffer_consts)
qed

text \<open>The first \<open>wgpuCreateInstance\<close>.\<close>

lemma create_first:
  assumes "unlinked st"
  shows "\<exists>i st'. webGPUDDCreateInstance dw k d st = Inr (i, st')
    \<and> (unlinked st' \<and> i = 0 \<or> linked dw st' \<and> length (recv_threads st') = 1)
    \<and> next_request st' = next_request st
    \<and> adapter_requests st' = adapter_requests st \<and> device_requests st' = device_requests st"
proof -
  obtain p w where c: "connect_unix (ie_unix k) SOCKET_PATH (os st) = Inr (p, w)"
    using connect_unix_total by blast
  obtain ret st1 where pre: "webgpudd_preinit dw k st = Inr (ret, st1)"
      "if p = None then ret = - 1 \<and> unlinked st1 else ret = 0 \<and> linked dw st1"
      "recv_threads st1 = []" "next_request st1 = next_request st"
      "adapter_requests st1 = adapter_requests st" "device_requests st1 = device_requests st"
    using preinit_cases [OF assms c, of dw] assms by (auto simp: unlinked_def)
  have n: "\<not> preinit_done st" using assms by (simp add: unlinked_def)
  show ?thesis
  proof (cases p)
    case None
    with pre n show ?thesis
      by (simp add: webGPUDDCreateInstance_def initWebGPUDD_def)
  next
    case (Some a)
    let ?st = "st1\<lparr>webGPUDD_procs := (webGPUDD_procs st1)(Slot_Global createInstance \<mapsto> WebGPUDD Fn_CreateInstanceNop),
        recv_threads := [cmdt st1]\<rparr>"
    have l: "linked dw ?st" using pre Some by simp
    obtain i st2 where "getWebGPUDDInstance dw ?st = Inr (i, st2)" "linked dw st2"
      using getInstance_stays [OF l] by (auto simp: stays_linked_def)
    moreover from this have "recv_threads st2 = [cmdt st1]" "next_request st2 = next_request st1"
      "adapter_requests st2 = adapter_requests st1" "device_requests st2 = device_requests st1"
      by (auto simp: getWebGPUDDInstance_def Let_def case_prod_unfold split: if_splits option.splits)
    ultimately show ?thesis
      using pre n Some by (simp add: webGPUDDCreateInstance_def initWebGPUDD_def)
  qed
qed

section \<open>Requests\<close>

text \<open>A step that leaves a part \<open>g\<close> of the state alone whenever it returns.\<close>

definition unchanged :: "('d client \<Rightarrow> 'b) \<Rightarrow> 'd client \<Rightarrow> ('a \<times> 'd client) result \<Rightarrow> bool" where
  "unchanged g st m \<longleftrightarrow> (\<forall>r st'. m = Inr (r, st') \<longrightarrow> g st' = g st)"

lemma unchanged_bind:
  "unchanged g st m \<Longrightarrow> (\<And>p. unchanged g (snd p) (f p)) \<Longrightarrow> unchanged g st (rbind m f)"
  by (fastforce simp: unchanged_def elim!: rbind_eq_InrE)

lemma unchanged_return: "g st' = g st \<Longrightarrow> unchanged g st (Inr (r, st'))"
  by (simp add: unchanged_def)

text \<open>
  A part of the state that the functions of the library leave alone, apart from the two that
  allocate a request: it does not change with the fields those functions write. The only thing
  it may know of the wire client is whether there is one.
\<close>

locale client_frame =
  fixes g :: "'d client \<Rightarrow> 'b"
  assumes wire: "wireClient st = Some d \<Longrightarrow> g (st\<lparr>wireClient := Some d'\<rparr>) = g st"
    and fields: "g (st\<lparr>c2sBuf := sb\<rparr>) = g st" "g (st\<lparr>os := w\<rparr>) = g st" "g (st\<lparr>ri_instance := i\<rparr>) = g st"
      "g (st\<lparr>instanceReserved := b\<rparr>) = g st" "g (st\<lparr>webGPUDD_procs := t\<rparr>) = g st"
      "g (st\<lparr>recv_threads := ts\<rparr>) = g st" "g (st\<lparr>adapterToInstance := m\<rparr>) = g st"
      "g (st\<lparr>deviceToAdapter := m\<rparr>) = g st"
begin

lemma run_wire_frame: "unchanged g st (run_wire dw s args st)"
  by (auto simp: run_wire_def unchanged_def wire fields elim!: rbind_eq_InrE split: option.splits)

lemma wire_proc_frame: "unchanged g st (wire_proc dw s args st)"
  using run_wire_frame [of st dw s args]
  by (auto simp: wire_proc_def unchanged_def split: option.splits if_splits)

lemma flush_frame: "unchanged g st (webGPUDDFlush st)"
  by (auto simp: webGPUDDFlush_def unchanged_def fields elim!: rbind_eq_InrE split: option.splits)

lemma finalise_frame: "unchanged g st (finaliseWebGPUDD st)"
  by (auto simp: finaliseWebGPUDD_def unchanged_def fields elim!: rbind_eq_InrE split: option.splits)

lemma getInstance_frame: "unchanged g st (getWebGPUDDInstance dw st)"
  by (auto simp: getWebGPUDDInstance_def unchanged_def Let_def case_prod_unfold wire fields split: option.splits)

lemma createInstance_frame:
  "preinit_done st \<Longrightarrow> unchanged g st (webGPUDDCreateInstance dw k d st)"
  using getInstance_frame [of "st\<lparr>webGPUDD_procs := (webGPUDD_procs st)(Slot_Global createInstance \<mapsto>
      WebGPUDD Fn_CreateInstanceNop), recv_threads := recv_threads st @ [cmdt st]\<rparr>" dw]
  by (simp add: webGPUDDCreateInstance_def initWebGPUDD_def unchanged_def fields)

lemmas frames_stay =
  unchanged_bind unchanged_return run_wire_frame wire_proc_frame flush_frame finalise_frame createInstance_frame

lemma call_and_flush_frame:
  "unchanged g st (rbind (wire_proc dw s args st) (\<lambda>p. webGPUDDFlush (snd p)))"
  by (intro frames_stay)

lemma webgpudd_call_frame:
  assumes "preinit_done st" "overridden c = Some f" "f \<noteq> Fn_InstanceRequestAdapter" "f \<noteq> Fn_AdapterRequestDevice"
  shows "unchanged g st (webgpudd_call dw k f (fst (snd (forward c))) st)"
  using assms(2-4)
proof (induction c rule: overridden.induct)
qed (use assms(1) in \<open>auto simp: rbind_assoc webgpudd_call_def Let_def case_prod_unfold fields
      webgpuDDInstanceReference_def webGPUDDInstanceRelease_def webGPUDDInstanceProcessEvents_def
      webGPUDDInstanceRequestAdapterF_def webGPUDDAdapterRequestDeviceF_def
      webGPUDDDeviceGetAdapter_def webGPUDDAdapterGetInstance_def webGPUDDQueueWriteBuffer_def
      intro!: frames_stay\<close>)

end

type_synonym requests =
  "(addr \<Rightarrow> adapterRequestState option) \<times> (addr \<Rightarrow> deviceRequestState option) \<times> addr \<times> app_call list"

definition requests_of :: "'d client \<Rightarrow> requests" where
  "requests_of st = (adapter_requests st, device_requests st, next_request st, app_calls st)"

interpretation rq: client_frame requests_of
  by unfold_locales (simp_all add: requests_of_def)

interpretation su: client_frame "set_up dw"
  by unfold_locales (simp_all add: set_up_def)

interpretation tr: client_frame cmdt
  by unfold_locales simp_all

text \<open>What a call does to the requests: only two functions allocate one.\<close>

fun after_call :: "api_call \<Rightarrow> requests \<Rightarrow> requests" where
  "after_call (Call_Instance (wgpuInstanceRequestAdapter i opts cb ud)) (A, D, n, cs) =
     (A(n \<mapsto> \<lparr>ar_instance = i, ar_callback = cb, ar_userdata = ud\<rparr>), D, Suc n, cs)"
| "after_call (Call_Adapter (wgpuAdapterRequestDevice a descr cb ud)) (A, D, n, cs) =
     (A, D(n \<mapsto> \<lparr>dr_adapter = a, dr_callback = cb, dr_userdata = ud\<rparr>), Suc n, cs)"
| "after_call _ q = q"

lemma after_call_not_overridden: "overridden c = None \<Longrightarrow> after_call c q = q"
  by (cases q; induction c rule: overridden.induct) auto

lemma after_call_other:
  "f \<noteq> Fn_InstanceRequestAdapter \<Longrightarrow> f \<noteq> Fn_AdapterRequestDevice \<Longrightarrow> overridden c = Some f \<Longrightarrow> after_call c q = q"
  by (cases q; induction c rule: overridden.induct) auto

lemma requestAdapter_requests:
  assumes "webGPUDDInstanceRequestAdapter dw i opts cb ud st = Inr st'"
  shows "requests_of st' = after_call (Call_Instance (wgpuInstanceRequestAdapter i opts cb ud)) (requests_of st)"
proof -
  let ?st = "st\<lparr>adapter_requests := (adapter_requests st)(next_request st \<mapsto>
      \<lparr>ar_instance = i, ar_callback = cb, ar_userdata = ud\<rparr>), next_request := Suc (next_request st)\<rparr>"
  have "unchanged requests_of ?st (rbind (wire_proc dw (Slot_Instance instanceRequestAdapter)
      [VObj WGPUInstance i, VPtr ''WGPURequestAdapterOptions const'' opts,
       VFun ''WGPURequestAdapterCallback'' ADAPTER_REQUEST_CB, VPtr ''void'' (next_request st)] ?st)
      (\<lambda>p. webGPUDDFlush (snd p)))"
    by (rule rq.call_and_flush_frame)
  then have "requests_of st' = requests_of ?st"
    using assms by (auto simp: webGPUDDInstanceRequestAdapter_def Let_def unchanged_def case_prod_unfold
        elim!: rbind_eq_InrE)
  then show ?thesis by (simp add: requests_of_def)
qed

lemma requestDevice_requests:
  assumes "webGPUDDAdapterRequestDevice dw a descr cb ud st = Inr st'"
  shows "requests_of st' = after_call (Call_Adapter (wgpuAdapterRequestDevice a descr cb ud)) (requests_of st)"
proof -
  let ?st = "st\<lparr>device_requests := (device_requests st)(next_request st \<mapsto>
      \<lparr>dr_adapter = a, dr_callback = cb, dr_userdata = ud\<rparr>), next_request := Suc (next_request st)\<rparr>"
  have "unchanged requests_of ?st (rbind (wire_proc dw (Slot_Adapter adapterRequestDevice)
      [VObj WGPUAdapter a, VPtr ''WGPUDeviceDescriptor const'' descr,
       VFun ''WGPURequestDeviceCallback'' DEVICE_REQUEST_CB, VPtr ''void'' (next_request st)] ?st)
      (\<lambda>p. webGPUDDFlush (snd p)))"
    by (rule rq.call_and_flush_frame)
  then have "requests_of st' = requests_of ?st"
    using assms by (auto simp: webGPUDDAdapterRequestDevice_def Let_def unchanged_def case_prod_unfold
        elim!: rbind_eq_InrE)
  then show ?thesis by (simp add: requests_of_def)
qed

lemma api_requests:
  assumes "set_up dw st" "api_step dw k c st = Inr (r, st')"
  shows "requests_of st' = after_call c (requests_of st)"
proof -
  have st: "procs st = client_table dw" "preinit_done st" using assms(1) by (simp_all add: set_up_def)
  show ?thesis
  proof (cases "overridden c")
    case None
    with assms(2) st rq.run_wire_frame [of st dw "fst (forward c)" "fst (snd (forward c))"] show ?thesis
      by (auto simp: api_step_def client_dispatch unchanged_def after_call_not_overridden split: if_splits)
  next
    case (Some f)
    then have call: "webgpudd_call dw k f (fst (snd (forward c))) st = Inr (r, st')"
      using assms(2) st by (simp add: api_step_def client_dispatch)
    consider "f \<noteq> Fn_InstanceRequestAdapter" "f \<noteq> Fn_AdapterRequestDevice"
      | "f = Fn_InstanceRequestAdapter" | "f = Fn_AdapterRequestDevice" by blast
    then show ?thesis
    proof cases
      case 1
      with rq.webgpudd_call_frame [OF st(2) Some 1, of dw k] call after_call_other [OF 1 Some] show ?thesis
        by (simp add: unchanged_def)
    next
      case 2
      with Some call requestAdapter_requests show ?thesis
        by (induction c rule: overridden.induct)
           (auto simp: webgpudd_call_def elim!: rbind_eq_InrE)
    next
      case 3
      with Some call requestDevice_requests show ?thesis
        by (induction c rule: overridden.induct)
           (auto simp: webgpudd_call_def elim!: rbind_eq_InrE)
    qed
  qed
qed

text \<open>What is set up stays set up, whatever is called, and the library never changes its transport.\<close>

lemma request_keeps:
  assumes "unchanged g st1 (rbind (wire_proc dw s args st1) (\<lambda>p. webGPUDDFlush (snd p)))" "g st1 = g st"
    and "rbind (wire_proc dw s args st1) (\<lambda>(r, st2). rbind (webGPUDDFlush st2) (\<lambda>(ret, st3). Inr st3)) = Inr st'"
  shows "g st' = g st"
  using assms by (auto simp: unchanged_def case_prod_unfold elim!: rbind_eq_InrE)

lemma requestAdapter_keeps:
  assumes "webGPUDDInstanceRequestAdapter dw i opts cb ud st = Inr st'"
  shows "set_up dw' st' = set_up dw' st" "cmdt st' = cmdt st"
  using request_keeps [OF su.call_and_flush_frame [of dw'] _ assms [unfolded webGPUDDInstanceRequestAdapter_def Let_def]]
    request_keeps [OF tr.call_and_flush_frame _ assms [unfolded webGPUDDInstanceRequestAdapter_def Let_def]]
  by (simp_all add: set_up_def)

lemma requestDevice_keeps:
  assumes "webGPUDDAdapterRequestDevice dw a descr cb ud st = Inr st'"
  shows "set_up dw' st' = set_up dw' st" "cmdt st' = cmdt st"
  using request_keeps [OF su.call_and_flush_frame [of dw'] _ assms [unfolded webGPUDDAdapterRequestDevice_def Let_def]]
    request_keeps [OF tr.call_and_flush_frame _ assms [unfolded webGPUDDAdapterRequestDevice_def Let_def]]
  by (simp_all add: set_up_def)

lemma overridden_requests:
  "overridden c = Some Fn_InstanceRequestAdapter \<Longrightarrow> \<exists>i opts cb ud. c = Call_Instance (wgpuInstanceRequestAdapter i opts cb ud)"
  "overridden c = Some Fn_AdapterRequestDevice \<Longrightarrow> \<exists>a descr cb ud. c = Call_Adapter (wgpuAdapterRequestDevice a descr cb ud)"
  by (induction c rule: overridden.induct) auto

lemma api_set_up:
  assumes "set_up dw st" "api_step dw k c st = Inr (r, st')"
  shows "set_up dw st' \<and> cmdt st' = cmdt st"
proof -
  have st: "procs st = client_table dw" "preinit_done st" using assms(1) by (simp_all add: set_up_def)
  show ?thesis
  proof (cases "overridden c")
    case None
    with assms st su.run_wire_frame [of dw st dw "fst (forward c)" "fst (snd (forward c))"]
      tr.run_wire_frame [of st dw "fst (forward c)" "fst (snd (forward c))"] show ?thesis
      by (auto simp: api_step_def client_dispatch unchanged_def split: if_splits)
  next
    case (Some f)
    then have call: "webgpudd_call dw k f (fst (snd (forward c))) st = Inr (r, st')"
      using assms(2) st by (simp add: api_step_def client_dispatch)
    consider "f \<noteq> Fn_InstanceRequestAdapter" "f \<noteq> Fn_AdapterRequestDevice"
      | "f = Fn_InstanceRequestAdapter" | "f = Fn_AdapterRequestDevice" by blast
    then show ?thesis
    proof cases
      case 1
      with su.webgpudd_call_frame [OF st(2) Some 1, of dw dw k] tr.webgpudd_call_frame [OF st(2) Some 1, of dw k]
        call assms(1) show ?thesis
        by (simp add: unchanged_def)
    next
      case 2
      then obtain a opts cb ud where "c = Call_Instance (wgpuInstanceRequestAdapter a opts cb ud)"
        using Some overridden_requests(1) by blast
      then have "webGPUDDInstanceRequestAdapter dw a opts cb ud st = Inr st'"
        using 2 call by (auto simp: webgpudd_call_def elim!: rbind_eq_InrE)
      from requestAdapter_keeps [OF this] assms(1) show ?thesis by simp
    next
      case 3
      then obtain a descr cb ud where "c = Call_Adapter (wgpuAdapterRequestDevice a descr cb ud)"
        using Some overridden_requests(2) by blast
      then have "webGPUDDAdapterRequestDevice dw a descr cb ud st = Inr st'"
        using 3 call by (auto simp: webgpudd_call_def elim!: rbind_eq_InrE)
      from requestDevice_keeps [OF this] assms(1) show ?thesis by simp
    qed
  qed
qed

section \<open>Reachable states\<close>

text \<open>
  The states a process with the library can reach: from the start by \<open>webgpudd_preinit\<close> (once, as
  it is meant for), by calls of the API, and by the wire client's calls of the two callbacks of
  the library.
\<close>

inductive client_reach :: "'d dawn \<Rightarrow> 'd client \<Rightarrow> bool" for dw where
  start: "client_reach dw (client_start w)"
| preinit: "client_reach dw st \<Longrightarrow> \<not> preinit_done st \<Longrightarrow> webgpudd_preinit dw k st = Inr (ret, st') \<Longrightarrow>
    client_reach dw st'"
| api: "client_reach dw st \<Longrightarrow> api_step dw k c st = Inr (r, st') \<Longrightarrow> client_reach dw st'"
| adapter_reply: "client_reach dw st \<Longrightarrow> adapterRequestCB status adapter message ud st = Inr st' \<Longrightarrow>
    client_reach dw st'"
| device_reply: "client_reach dw st \<Longrightarrow> deviceRequestCB status device message ud st = Inr st' \<Longrightarrow>
    client_reach dw st'"

text \<open>The states of a process that has not released an instance: the same steps without that call.\<close>

inductive client_session :: "'d dawn \<Rightarrow> 'd client \<Rightarrow> bool" for dw where
  start: "client_session dw (client_start w)"
| preinit: "client_session dw st \<Longrightarrow> \<not> preinit_done st \<Longrightarrow> webgpudd_preinit dw k st = Inr (ret, st') \<Longrightarrow>
    client_session dw st'"
| api: "client_session dw st \<Longrightarrow> \<not> releases_instance c \<Longrightarrow> api_step dw k c st = Inr (r, st') \<Longrightarrow>
    client_session dw st'"
| adapter_reply: "client_session dw st \<Longrightarrow> adapterRequestCB status adapter message ud st = Inr st' \<Longrightarrow>
    client_session dw st'"
| device_reply: "client_session dw st \<Longrightarrow> deviceRequestCB status device message ud st = Inr st' \<Longrightarrow>
    client_session dw st'"

definition requests_fresh :: "requests \<Rightarrow> bool" where
  "requests_fresh q = (case q of (A, D, n, cs) \<Rightarrow> \<forall>a \<ge> n. A a = None \<and> D a = None)"

definition client_inv :: "'d dawn \<Rightarrow> 'd client \<Rightarrow> bool" where
  "client_inv dw st \<longleftrightarrow> (set_up dw st \<or> unlinked st) \<and> requests_fresh (requests_of st)"

lemma after_call_fresh: "requests_fresh q \<Longrightarrow> requests_fresh (after_call c q)"
proof (cases "overridden c")
  case (Some f)
  moreover assume "requests_fresh q"
  ultimately show ?thesis
    by (cases q; induction c rule: overridden.induct) (auto simp: requests_fresh_def)
qed (simp add: after_call_not_overridden)

lemma inv_preinit:
  assumes "client_inv dw st" "\<not> preinit_done st" "webgpudd_preinit dw k st = Inr (ret, st')"
  shows "client_inv dw st' \<and> (linked dw st' \<or> unlinked st')"
proof -
  have u: "unlinked st" using assms(1,2) by (auto simp: client_inv_def set_up_def)
  obtain p w where c: "connect_unix (ie_unix k) SOCKET_PATH (os st) = Inr (p, w)"
    using connect_unix_total by blast
  have "linked dw st' \<or> unlinked st'"
    using preinit_cases [OF u c, of dw] assms(3) by (auto split: if_splits)
  moreover have "requests_fresh (requests_of st')"
    using preinit_cases [OF u c, of dw] assms(1,3) by (auto simp: client_inv_def requests_of_def requests_fresh_def)
  ultimately show ?thesis by (auto simp: client_inv_def linked_set_up)
qed

lemma unlinked_api:
  assumes "unlinked st" "api_step dw k c st = Inr (r, st')"
  obtains i d where "webGPUDDCreateInstance dw k d st = Inr (i, st')" "c = Call_Global (wgpuCreateInstance d)"
proof -
  have p: "procs st = DefaultProcTable" using assms(1) by (simp add: unlinked_def)
  obtain d where d: "c = Call_Global (wgpuCreateInstance d)"
    using assms(2) p by (auto simp: api_step_def default_exports split: api_call.splits Global_call.splits)
  with assms(2) p that show ?thesis
    by (auto simp: api_step_def default_exports webgpudd_call_def elim!: rbind_eq_InrE)
qed

lemma unlinked_api_inv:
  assumes "unlinked st" "client_inv dw st" "api_step dw k c st = Inr (r, st')"
  shows "client_inv dw st' \<and> (linked dw st' \<or> unlinked st')"
proof -
  obtain i d where "webGPUDDCreateInstance dw k d st = Inr (i, st')" "c = Call_Global (wgpuCreateInstance d)"
    by (rule unlinked_api [OF assms(1,3)])
  moreover obtain i1 st1 where st1: "webGPUDDCreateInstance dw k d st = Inr (i1, st1)"
      "unlinked st1 \<and> i1 = 0 \<or> linked dw st1 \<and> length (recv_threads st1) = 1"
      "next_request st1 = next_request st" "adapter_requests st1 = adapter_requests st"
      "device_requests st1 = device_requests st"
    using create_first [OF assms(1), of dw k d] by blast
  ultimately have "st1 = st'" by simp
  moreover have "requests_fresh (requests_of st1)"
    using assms(2) by (simp add: client_inv_def requests_of_def requests_fresh_def st1(3-5))
  ultimately show ?thesis using st1(2) by (auto simp: client_inv_def linked_set_up)
qed

lemma inv_api:
  assumes "client_inv dw st" "api_step dw k c st = Inr (r, st')"
  shows "client_inv dw st'"
proof (cases "set_up dw st")
  case True
  with api_set_up [OF True assms(2)] api_requests [OF True assms(2)] after_call_fresh assms(1) show ?thesis
    by (simp add: client_inv_def)
next
  case False
  then have "unlinked st" using assms(1) by (simp add: client_inv_def)
  from unlinked_api_inv [OF this assms] show ?thesis by blast
qed

lemma inv_adapter_reply:
  "client_inv dw st \<Longrightarrow> adapterRequestCB status adapter message ud st = Inr st' \<Longrightarrow> client_inv dw st'"
  by (auto simp: adapterRequestCB_def client_inv_def set_up_def unlinked_def requests_of_def requests_fresh_def Let_def
      split: option.splits if_splits)

lemma inv_device_reply:
  "client_inv dw st \<Longrightarrow> deviceRequestCB status device message ud st = Inr st' \<Longrightarrow> client_inv dw st'"
  by (auto simp: deviceRequestCB_def client_inv_def set_up_def unlinked_def requests_of_def requests_fresh_def Let_def
      split: option.splits if_splits)

lemma reach_inv: "client_reach dw st \<Longrightarrow> client_inv dw st"
proof (induction rule: client_reach.induct)
  case (start w)
  show ?case
    by (simp add: client_inv_def unlinked_def client_start_def requests_of_def requests_fresh_def)
next
  case (preinit st k ret st')
  then show ?case by (blast dest: inv_preinit)
next
  case (api st k c r st')
  then show ?case by (blast intro: inv_api)
next
  case (adapter_reply st status adapter message ud st')
  then show ?case by (blast intro: inv_adapter_reply)
next
  case (device_reply st status device message ud st')
  then show ?case by (blast intro: inv_device_reply)
qed

lemma reach_set_up: "client_reach dw st \<Longrightarrow> preinit_done st \<Longrightarrow> set_up dw st"
  using reach_inv by (auto simp: client_inv_def unlinked_def)

text \<open>Without a release the transport lives.\<close>

lemma session_reach: "client_session dw st \<Longrightarrow> client_reach dw st"
  by (induction rule: client_session.induct) (blast intro: client_reach.intros)+

lemma adapterRequestCB_linked:
  "linked dw st \<Longrightarrow> adapterRequestCB status adapter message ud st = Inr st' \<Longrightarrow> linked dw st'"
  by (auto simp: adapterRequestCB_def Let_def split: option.splits if_splits)

lemma deviceRequestCB_linked:
  "linked dw st \<Longrightarrow> deviceRequestCB status device message ud st = Inr st' \<Longrightarrow> linked dw st'"
  by (auto simp: deviceRequestCB_def Let_def split: option.splits if_splits)

lemma unlinked_replies:
  "unlinked st \<Longrightarrow> adapterRequestCB status adapter message ud st \<noteq> Inr st'"
  "unlinked st \<Longrightarrow> deviceRequestCB status adapter message ud st \<noteq> Inr st'"
  by (simp_all add: adapterRequestCB_def deviceRequestCB_def unlinked_def)

lemma session_inv:
  assumes "client_session dw st" "dawn_ok dw"
  shows "linked dw st \<or> unlinked st"
  using assms(1)
proof (induction rule: client_session.induct)
  case (start w)
  show ?case by (simp add: unlinked_def client_start_def)
next
  case (preinit st k ret st')
  then show ?case using inv_preinit [OF reach_inv [OF session_reach]] by blast
next
  case (api st c k r st')
  have "client_inv dw st" using api.hyps(1) by (intro reach_inv session_reach)
  with api show ?case
    using api_stays [OF assms(2) _ api.hyps(2), of st k] unlinked_api_inv [of st dw k c r st']
    by (auto simp: stays_linked_def)
next
  case (adapter_reply st status adapter message ud st')
  then show ?case using adapterRequestCB_linked unlinked_replies by blast
next
  case (device_reply st status device message ud st')
  then show ?case using deviceRequestCB_linked unlinked_replies by blast
qed

lemma session_linked: "client_session dw st \<Longrightarrow> dawn_ok dw \<Longrightarrow> preinit_done st \<Longrightarrow> linked dw st"
  using session_inv by (auto simp: unlinked_def)

end
