(* ===== verification/Client_Properties.thy ===== *)
theory Client_Properties
  imports Client_Laws
begin

text \<open>
  What the client library promises to an application, and where it does not keep it: until an
  instance is released every call is defined once the library is initialised, calls that are not
  overridden pass through to the wire client, each request for an adapter or a device is
  answered to the application exactly once; but every \<open>wgpuCreateInstance\<close> starts another receive
  thread, and the first \<open>wgpuInstanceRelease\<close> destroys the transport, which the library goes on
  using.
\<close>

section \<open>Steps of an initialised client\<close>

lemma api_overridden:
  assumes "set_up dw st" "overridden c = Some f"
  shows "api_step dw k c st = webgpudd_call dw k f (fst (snd (forward c))) st"
  using assms by (simp add: api_step_def client_dispatch set_up_def)

lemma getInstance_set_up:
  assumes "set_up dw st"
  shows "\<exists>st'. getWebGPUDDInstance dw st = Inr (ri_instance st', st') \<and> recv_threads st' = recv_threads st
    \<and> webGPUDD_procs st' = webGPUDD_procs st \<and> procs st' = procs st \<and> instanceReserved st'
    \<and> (instanceReserved st \<longrightarrow> ri_instance st' = ri_instance st)"
  using assms by (auto simp: getWebGPUDDInstance_def set_up_def Let_def case_prod_unfold)

lemma createInstance_step:
  assumes "set_up dw st"
  shows "\<exists>st'. api_step dw k (Call_Global (wgpuCreateInstance d)) st = Inr (Some (VObj WGPUInstance (ri_instance st')), st')
    \<and> recv_threads st' = recv_threads st @ [cmdt st]
    \<and> webGPUDD_procs st' (Slot_Global createInstance) = Some (WebGPUDD Fn_CreateInstanceNop)
    \<and> procs st' = procs st \<and> instanceReserved st'
    \<and> (instanceReserved st \<longrightarrow> ri_instance st' = ri_instance st)"
proof -
  let ?st = "st\<lparr>webGPUDD_procs := (webGPUDD_procs st)(Slot_Global createInstance \<mapsto> WebGPUDD Fn_CreateInstanceNop),
      recv_threads := recv_threads st @ [cmdt st]\<rparr>"
  have pre: "preinit_done st" using assms by (simp add: set_up_def)
  have "set_up dw ?st" using assms by (simp add: set_up_def)
  from getInstance_set_up [OF this] obtain st' where i: "getWebGPUDDInstance dw ?st = Inr (ri_instance st', st')"
      "recv_threads st' = recv_threads ?st" "webGPUDD_procs st' = webGPUDD_procs ?st" "procs st' = procs ?st"
      "instanceReserved st'" "instanceReserved st \<longrightarrow> ri_instance st' = ri_instance st"
    by auto
  moreover have "api_step dw k (Call_Global (wgpuCreateInstance d)) st
      = rbind (webGPUDDCreateInstance dw k d st) (\<lambda>(i, st'). Inr (Some (VObj WGPUInstance i), st'))"
    using api_overridden [OF assms, of "Call_Global (wgpuCreateInstance d)"] by (simp add: webgpudd_call_def)
  ultimately show ?thesis
    using pre by (simp add: webGPUDDCreateInstance_def initWebGPUDD_def)
qed

section \<open>A sequence of other steps\<close>

text \<open>What happens in a process after initialisation: calls of the API and the wire client's callbacks.\<close>

datatype client_op =
    Api init_env api_call
  | Adapter_reply uint32 ptr ptr addr
  | Device_reply uint32 ptr ptr addr

fun client_op_step :: "'d dawn \<Rightarrow> client_op \<Rightarrow> 'd client \<Rightarrow> 'd client result" where
  "client_op_step dw (Api k c) st = rbind (api_step dw k c st) (\<lambda>(r, st'). Inr st')"
| "client_op_step dw (Adapter_reply status adapter message ud) st = adapterRequestCB status adapter message ud st"
| "client_op_step dw (Device_reply status device message ud) st = deviceRequestCB status device message ud st"

fun client_run :: "'d dawn \<Rightarrow> client_op list \<Rightarrow> 'd client \<Rightarrow> 'd client result" where
  "client_run dw [] st = Inr st"
| "client_run dw (p # ps) st = rbind (client_op_step dw p st) (client_run dw ps)"

fun adapter_reply_to :: "client_op \<Rightarrow> addr option" where
  "adapter_reply_to (Adapter_reply status adapter message ud) = Some ud"
| "adapter_reply_to _ = None"

fun device_reply_to :: "client_op \<Rightarrow> addr option" where
  "device_reply_to (Device_reply status device message ud) = Some ud"
| "device_reply_to _ = None"

lemma after_call_keeps:
  assumes "requests_fresh (A, D, n, cs)" "after_call c (A, D, n, cs) = (A', D', n', cs')"
  shows "(\<forall>u. A u \<noteq> None \<longrightarrow> A' u = A u) \<and> (\<forall>u. D u \<noteq> None \<longrightarrow> D' u = D u)"
proof (cases "overridden c")
  case None
  then show ?thesis using assms(2) by (simp add: after_call_not_overridden)
next
  case (Some f)
  with assms show ?thesis
    by (induction c rule: overridden.induct) (auto simp: requests_fresh_def)
qed

lemma replies_set_up:
  "adapterRequestCB status adapter message ud st = Inr st' \<Longrightarrow> set_up dw st' = set_up dw st \<and> cmdt st' = cmdt st
     \<and> c2sBuf st' = c2sBuf st \<and> os st' = os st"
  "deviceRequestCB status adapter message ud st = Inr st' \<Longrightarrow> set_up dw st' = set_up dw st \<and> cmdt st' = cmdt st
     \<and> c2sBuf st' = c2sBuf st \<and> os st' = os st"
  by (auto simp: adapterRequestCB_def deviceRequestCB_def set_up_def Let_def split: option.splits if_splits)

lemma op_step_keeps:
  assumes "set_up dw st" "requests_fresh (requests_of st)" "client_op_step dw p st = Inr st'"
  shows "set_up dw st' \<and> requests_fresh (requests_of st')
    \<and> (\<forall>u. adapter_requests st u \<noteq> None \<longrightarrow> adapter_reply_to p \<noteq> Some u \<longrightarrow> adapter_requests st' u = adapter_requests st u)
    \<and> (\<forall>u. device_requests st u \<noteq> None \<longrightarrow> device_reply_to p \<noteq> Some u \<longrightarrow> device_requests st' u = device_requests st u)"
proof (cases p)
  case (Api k c)
  then obtain r where r: "api_step dw k c st = Inr (r, st')"
    using assms(3) by (auto elim!: rbind_eq_InrE)
  have "set_up dw st'" using api_set_up [OF assms(1) r] by blast
  moreover have q: "requests_of st' = after_call c (requests_of st)" by (rule api_requests [OF assms(1) r])
  ultimately show ?thesis
    using after_call_fresh [OF assms(2), of c] assms(2)
      after_call_keeps [of "adapter_requests st" "device_requests st" "next_request st" "app_calls st" c
        "adapter_requests st'" "device_requests st'" "next_request st'" "app_calls st'"]
    by (simp add: requests_of_def)
next
  case (Adapter_reply status adapter message ud)
  then have cb: "adapterRequestCB status adapter message ud st = Inr st'" using assms(3) by simp
  have "requests_fresh (requests_of st')
      \<and> (\<forall>u. u \<noteq> ud \<longrightarrow> adapter_requests st' u = adapter_requests st u) \<and> device_requests st' = device_requests st"
    using cb assms(2)
    by (auto simp: adapterRequestCB_def Let_def requests_of_def requests_fresh_def split: option.splits if_splits)
  with replies_set_up(1) [OF cb] assms(1) Adapter_reply show ?thesis by auto
next
  case (Device_reply status device message ud)
  then have cb: "deviceRequestCB status device message ud st = Inr st'" using assms(3) by simp
  have "requests_fresh (requests_of st')
      \<and> (\<forall>u. u \<noteq> ud \<longrightarrow> device_requests st' u = device_requests st u) \<and> adapter_requests st' = adapter_requests st"
    using cb assms(2)
    by (auto simp: deviceRequestCB_def Let_def requests_of_def requests_fresh_def split: option.splits if_splits)
  with replies_set_up(2) [OF cb] assms(1) Device_reply show ?thesis by auto
qed

lemma run_keeps:
  "set_up dw st \<Longrightarrow> requests_fresh (requests_of st) \<Longrightarrow> client_run dw ps st = Inr st' \<Longrightarrow>
    (\<forall>u. adapter_requests st u \<noteq> None \<longrightarrow> (\<forall>p \<in> set ps. adapter_reply_to p \<noteq> Some u) \<longrightarrow>
       adapter_requests st' u = adapter_requests st u)
    \<and> (\<forall>u. device_requests st u \<noteq> None \<longrightarrow> (\<forall>p \<in> set ps. device_reply_to p \<noteq> Some u) \<longrightarrow>
       device_requests st' u = device_requests st u)"
proof (induction ps arbitrary: st)
  case (Cons p ps)
  obtain st1 where s: "client_op_step dw p st = Inr st1" "client_run dw ps st1 = Inr st'"
    using Cons.prems(3) by (auto elim!: rbind_eq_InrE)
  note k = op_step_keeps [OF Cons.prems(1,2) s(1)]
  show ?case
    using Cons.IH [OF _ _ s(2)] k by auto
qed simp

section \<open>After the release of an instance\<close>

text \<open>
  What the library relies on in Dawn for the time after a release: also when the transport is dead,
  a function of the table that returns has left the serializer in order and its transport and the
  transports alone.
\<close>

definition dawn_frame :: "'d dawn \<Rightarrow> bool" where
  "dawn_frame dw \<longleftrightarrow> (\<forall>s args d sb w r d' sb' w'. SB_inv sb \<longrightarrow>
     dw_call dw s args d sb w = Inr (r, d', sb', w') \<longrightarrow>
       SB_inv sb' \<and> s_mTransport sb' = s_mTransport sb \<and> transports w' = transports w)"

text \<open>A library whose transport, the one its serializer and its globals point to, is dead.\<close>

definition dead_link :: "'d dawn \<Rightarrow> addr \<Rightarrow> 'd client \<Rightarrow> bool" where
  "dead_link dw p st \<longleftrightarrow> set_up dw st \<and> cmdt st = Some p \<and> transports (os st) p = None
     \<and> (\<exists>sb. c2sBuf st = Some sb \<and> s_mTransport sb = Some p \<and> SB_inv sb)"

lemma Send_dead: "transports w p = None \<Longrightarrow> CommandTransport_Send p buf sz w = Inl DeadObject"
  by (simp add: CommandTransport_Send_def)

lemma Flush_dead:
  assumes "SB_inv sb" "s_mTransport sb = Some p" "transports w p = None"
  shows "SendBuffer_Flush sb w = (if s_mOffset sb = 0 then Inr (True, sb, w) else Inl DeadObject)"
  using assms by (simp add: Flush_pending Let_def Send_dead)

text \<open>A step that keeps the link dead when it returns.\<close>

definition keeps_dead :: "'d dawn \<Rightarrow> addr \<Rightarrow> ('a \<times> 'd client) result \<Rightarrow> bool" where
  "keeps_dead dw p m \<longleftrightarrow> (\<forall>r st'. m = Inr (r, st') \<longrightarrow> dead_link dw p st')"

lemma keeps_dead_bind:
  "keeps_dead dw p m \<Longrightarrow> (\<And>x. dead_link dw p (snd x) \<Longrightarrow> keeps_dead dw p (f x)) \<Longrightarrow> keeps_dead dw p (rbind m f)"
  by (fastforce simp: keeps_dead_def elim!: rbind_eq_InrE)

lemma keeps_dead_return: "dead_link dw p st \<Longrightarrow> keeps_dead dw p (Inr (r, st))"
  by (simp add: keeps_dead_def)

lemma keeps_dead_fault [simp]: "keeps_dead dw p (Inl f)"
  by (simp add: keeps_dead_def)

lemma dead_fields [simp]:
  "dead_link dw p (st\<lparr>webGPUDD_procs := t\<rparr>) = dead_link dw p st"
  "dead_link dw p (st\<lparr>recv_threads := ts\<rparr>) = dead_link dw p st"
  "dead_link dw p (st\<lparr>adapterToInstance := m\<rparr>) = dead_link dw p st"
  "dead_link dw p (st\<lparr>deviceToAdapter := m\<rparr>) = dead_link dw p st"
  "dead_link dw p (st\<lparr>adapter_requests := q, next_request := n\<rparr>) = dead_link dw p st"
  "dead_link dw p (st\<lparr>device_requests := q', next_request := n\<rparr>) = dead_link dw p st"
  by (simp_all add: dead_link_def set_up_def)

lemma run_wire_dead:
  assumes "dawn_frame dw" "dead_link dw p st"
  shows "keeps_dead dw p (run_wire dw s args st)"
  unfolding keeps_dead_def
proof (intro allI impI)
  fix r st'
  assume "run_wire dw s args st = Inr (r, st')"
  moreover obtain sb where sb: "c2sBuf st = Some sb" "s_mTransport sb = Some p" "SB_inv sb"
    using assms(2) by (auto simp: dead_link_def)
  ultimately obtain d d' sb' w' where c: "dw_call dw s args d sb (os st) = Inr (r, d', sb', w')"
      "st' = st\<lparr>wireClient := Some d', c2sBuf := Some sb', os := w'\<rparr>"
    by (auto simp: run_wire_def elim!: rbind_eq_InrE split: option.splits)
  have "SB_inv sb' \<and> s_mTransport sb' = s_mTransport sb \<and> transports w' = transports (os st)"
    using assms(1) sb(3) c(1) unfolding dawn_frame_def by blast
  with assms(2) sb c(2) show "dead_link dw p st'" by (simp add: dead_link_def set_up_def)
qed

lemma wire_proc_dead:
  "dawn_frame dw \<Longrightarrow> dead_link dw p st \<Longrightarrow> keeps_dead dw p (wire_proc dw s args st)"
  using run_wire_dead [of dw p st s args]
  by (auto simp: wire_proc_def keeps_dead_def split: option.splits if_splits)

lemma flush_dead:
  "dead_link dw p st \<Longrightarrow> keeps_dead dw p (webGPUDDFlush st)"
  by (auto simp: webGPUDDFlush_def dead_link_def set_up_def keeps_dead_def Flush_dead split: if_splits)

lemma getInstance_dead: "dead_link dw p st \<Longrightarrow> keeps_dead dw p (getWebGPUDDInstance dw st)"
  by (auto simp: getWebGPUDDInstance_def dead_link_def set_up_def Let_def case_prod_unfold keeps_dead_def)

lemma createInstance_dead:
  assumes "dead_link dw p st"
  shows "keeps_dead dw p (webGPUDDCreateInstance dw k d st)"
proof -
  have "preinit_done st" using assms by (simp add: dead_link_def set_up_def)
  with assms show ?thesis
    by (simp add: webGPUDDCreateInstance_def initWebGPUDD_def getInstance_dead)
qed

lemma finalise_dead: "dead_link dw p st \<Longrightarrow> finaliseWebGPUDD st = Inl DeadObject"
  by (auto simp: finaliseWebGPUDD_def destroy_CommandTransport_def dead_link_def)

lemma finalise_frees:
  assumes "linked dw st"
  shows "\<exists>p t st'. cmdt st = Some p \<and> transports (os st) p = Some t \<and> finaliseWebGPUDD st = Inr (0, st')
    \<and> dead_link dw p st'
    \<and> (0 \<le> mConnfd t \<longrightarrow> mConnfd t \<notin> set (fds (os st'))
         \<and> syslog (os st') = syslog (os st) @ [Shutdown (mConnfd t), Close (mConnfd t)])"
proof -
  obtain d sb p t where st: "set_up dw st" "wireClient st = Some d" "c2sBuf st = Some sb" "cmdt st = Some p"
      "s_mTransport sb = Some p" "SB_inv sb" "transports (os st) p = Some t"
    using assms by (auto simp: linked_def link_ok_def)
  then show ?thesis
    by (simp add: finaliseWebGPUDD_def destroy_CommandTransport_def dead_link_def set_up_def Let_def
        sys_close_def sys_log_def)
qed

lemmas dead_steps = keeps_dead_bind keeps_dead_return wire_proc_dead flush_dead createInstance_dead

lemma webgpudd_calls_dead:
  assumes "dawn_frame dw" "dead_link dw p st" "overridden c = Some f"
  shows "keeps_dead dw p (webgpudd_call dw k f (fst (snd (forward c))) st)"
  using assms(3)
proof (induction c rule: overridden.induct)
qed (use assms(1,2) finalise_dead [OF assms(2)] in \<open>auto simp: rbind_assoc webgpudd_call_def Let_def case_prod_unfold
      webgpuDDInstanceReference_def webGPUDDInstanceRelease_def webGPUDDInstanceProcessEvents_def
      webGPUDDInstanceRequestAdapter_def webGPUDDInstanceRequestAdapterF_def
      webGPUDDAdapterRequestDevice_def webGPUDDAdapterRequestDeviceF_def
      webGPUDDDeviceGetAdapter_def webGPUDDAdapterGetInstance_def webGPUDDQueueWriteBuffer_def
      intro!: dead_steps\<close>)

lemma op_step_dead:
  assumes "dawn_frame dw" "dead_link dw p st" "client_op_step dw q st = Inr st'"
  shows "dead_link dw p st'"
proof (cases q)
  case (Api k c)
  then obtain r where r: "api_step dw k c st = Inr (r, st')"
    using assms(3) by (auto elim!: rbind_eq_InrE)
  have t: "procs st = client_table dw" using assms(2) by (simp add: dead_link_def set_up_def)
  show ?thesis
  proof (cases "overridden c")
    case None
    with run_wire_dead [OF assms(1,2)] r t show ?thesis
      by (auto simp: api_step_def client_dispatch keeps_dead_def split: if_splits)
  next
    case (Some f)
    with webgpudd_calls_dead [OF assms(1,2) Some, of k] r t show ?thesis
      by (simp add: api_step_def client_dispatch keeps_dead_def)
  qed
next
  case (Adapter_reply status adapter message ud)
  with replies_set_up(1) [where dw = dw] assms(2,3) show ?thesis by (fastforce simp: dead_link_def)
next
  case (Device_reply status device message ud)
  with replies_set_up(2) [where dw = dw] assms(2,3) show ?thesis by (fastforce simp: dead_link_def)
qed

lemma run_dead:
  "dawn_frame dw \<Longrightarrow> dead_link dw p st \<Longrightarrow> client_run dw qs st = Inr st' \<Longrightarrow> dead_link dw p st'"
  by (induction qs arbitrary: st) (auto elim!: rbind_eq_InrE dest: op_step_dead)

section \<open>Properties\<close>

text \<open>
  Which function a call of the API reaches once the library has installed its table: the library's
  own for eleven of the exported functions, the wire client's for all others, always with the
  arguments of the call.
\<close>

theorem Installed_table_dispatch:
  "exported (install_overrides (GetProcs dw)) c =
     (case overridden c of
        Some f \<Rightarrow> Inr (WebGPUDD f, fst (snd (forward c)))
      | None \<Rightarrow> if dw_procs dw (fst (forward c)) then Inr (Wire_client (fst (forward c)), fst (snd (forward c)))
                else Inl NullPointer)"
  by (rule client_dispatch)

text \<open>
  C8: An initialised client stays defined until an instance is released: in every state that a
  process reaches after a successful initialisation without calling \<open>wgpuInstanceRelease\<close>, every
  call of every other exported function returns, without a null pointer, a dead object or a call
  of a function of the wrong type, and leads to such a state again.
\<close>

theorem Client_calls_defined:
  assumes "client_session dw st" "dawn_ok dw" "preinit_done st" "\<not> releases_instance c"
  shows "\<exists>r st'. api_step dw k c st = Inr (r, st') \<and> client_session dw st' \<and> preinit_done st'"
proof -
  obtain r st' where r: "api_step dw k c st = Inr (r, st')" "linked dw st'"
    using api_stays [OF assms(2) session_linked [OF assms(1-3)] assms(4), of k] by (auto simp: stays_linked_def)
  with client_session.api [OF assms(1,4) r(1)] show ?thesis by (simp add: linked_def set_up_def)
qed

text \<open>
  C17: \<open>initWebGPUDD\<close> puts \<open>webGPUDDCreateInstanceNop\<close> into \<open>webGPUDD_procs\<close>, but the table that calls
  go through is a copy made before: every \<open>wgpuCreateInstance\<close> of an initialised client starts
  one more receive thread on the same connection and the same buffer. The instance it returns
  is always the same one.
\<close>

theorem CreateInstance_starts_thread_each_time:
  assumes "client_reach dw st" "dawn_ok dw" "preinit_done st"
  shows "\<exists>st'. api_step dw k (Call_Global (wgpuCreateInstance d)) st = Inr (Some (VObj WGPUInstance (ri_instance st')), st')
    \<and> recv_threads st' = recv_threads st @ [cmdt st]
    \<and> webGPUDD_procs st' (Slot_Global createInstance) = Some (WebGPUDD Fn_CreateInstanceNop)
    \<and> procs st' (Slot_Global createInstance) = Some (WebGPUDD Fn_CreateInstance)
    \<and> (instanceReserved st \<longrightarrow> ri_instance st' = ri_instance st)"
proof -
  have l: "set_up dw st" by (rule reach_set_up [OF assms(1,3)])
  then have "procs st (Slot_Global createInstance) = Some (WebGPUDD Fn_CreateInstance)"
    by (simp add: set_up_def install_overrides_def)
  with createInstance_step [OF l, of k d] show ?thesis by metis
qed

text \<open>
  C11: A request for an adapter is answered exactly once. After \<open>wgpuInstanceRequestAdapter\<close> on an
  initialised client, whatever else happens before the wire client's reply to this request, the
  reply calls the application's callback once, with its own user data and the reply's status,
  adapter and message; the adapter is then recorded as one of the instance the request was made
  on; and the request is gone, so that a second reply would use freed memory.
\<close>

theorem Adapter_request_answered_once:
  assumes "client_reach dw st" "dawn_ok dw" "preinit_done st" "cb \<noteq> 0"
    and "api_step dw k (Call_Instance (wgpuInstanceRequestAdapter i opts cb ud)) st = Inr (r, st1)"
    and "client_run dw ps st1 = Inr st2" "\<forall>p \<in> set ps. adapter_reply_to p \<noteq> Some (next_request st)"
  shows "\<exists>st3. adapterRequestCB status adapter message (next_request st) st2 = Inr st3
    \<and> app_calls st3 = app_calls st2 @ [AdapterCallback cb status adapter message ud]
    \<and> (adapter \<noteq> 0 \<longrightarrow> fst (webGPUDDAdapterGetInstance adapter st3) = i)
    \<and> adapterRequestCB status' adapter' message' (next_request st) st3 = Inl DeadObject"
proof -
  have l: "set_up dw st" by (rule reach_set_up [OF assms(1,3)])
  have fr: "requests_fresh (requests_of st)" using reach_inv [OF assms(1)] by (simp add: client_inv_def)
  have q: "requests_of st1 = after_call (Call_Instance (wgpuInstanceRequestAdapter i opts cb ud)) (requests_of st)"
    by (rule api_requests [OF l assms(5)])
  then have a: "adapter_requests st1 (next_request st) = Some \<lparr>ar_instance = i, ar_callback = cb, ar_userdata = ud\<rparr>"
    by (simp add: requests_of_def)
  have "set_up dw st1" using api_set_up [OF l assms(5)] by blast
  from run_keeps [OF this _ assms(6)] after_call_fresh [OF fr] q a assms(7)
  have "adapter_requests st2 (next_request st) = Some \<lparr>ar_instance = i, ar_callback = cb, ar_userdata = ud\<rparr>"
    by simp
  with assms(4) show ?thesis
    by (auto simp: adapterRequestCB_def Let_def webGPUDDAdapterGetInstance_def map_index_def)
qed

text \<open>
  The same for devices: a request made on an adapter is answered exactly once, and the device is
  then recorded as one of that adapter.
\<close>

theorem Device_request_answered_once:
  assumes "client_reach dw st" "dawn_ok dw" "preinit_done st" "cb \<noteq> 0"
    and "api_step dw k (Call_Adapter (wgpuAdapterRequestDevice a descr cb ud)) st = Inr (r, st1)"
    and "client_run dw ps st1 = Inr st2" "\<forall>p \<in> set ps. device_reply_to p \<noteq> Some (next_request st)"
  shows "\<exists>st3. deviceRequestCB status device message (next_request st) st2 = Inr st3
    \<and> app_calls st3 = app_calls st2 @ [DeviceCallback cb status device message ud]
    \<and> (device \<noteq> 0 \<longrightarrow> fst (webGPUDDDeviceGetAdapter device st3) = a)
    \<and> deviceRequestCB status' device' message' (next_request st) st3 = Inl DeadObject"
proof -
  have l: "set_up dw st" by (rule reach_set_up [OF assms(1,3)])
  have fr: "requests_fresh (requests_of st)" using reach_inv [OF assms(1)] by (simp add: client_inv_def)
  have q: "requests_of st1 = after_call (Call_Adapter (wgpuAdapterRequestDevice a descr cb ud)) (requests_of st)"
    by (rule api_requests [OF l assms(5)])
  then have d: "device_requests st1 (next_request st) = Some \<lparr>dr_adapter = a, dr_callback = cb, dr_userdata = ud\<rparr>"
    by (simp add: requests_of_def)
  have "set_up dw st1" using api_set_up [OF l assms(5)] by blast
  from run_keeps [OF this _ assms(6)] after_call_fresh [OF fr] q d assms(7)
  have "device_requests st2 (next_request st) = Some \<lparr>dr_adapter = a, dr_callback = cb, dr_userdata = ud\<rparr>"
    by simp
  with assms(4) show ?thesis
    by (auto simp: deviceRequestCB_def Let_def webGPUDDDeviceGetAdapter_def map_index_def)
qed

text \<open>
  C18: The first \<open>wgpuInstanceRelease\<close> closes the connection and destroys the transport, however many
  references the application has taken before: \<open>finaliseWebGPUDD\<close> shuts the socket down, closes it
  and ends the life of the object, which the library goes on pointing to. Whatever the process
  does afterwards, as far as it gets, the transport stays dead: another \<open>wgpuInstanceRelease\<close>
  destroys a dead object, and so a flush with commands in the buffer uses one.
\<close>

theorem Release_closes_connection:
  assumes "client_session dw st" "dawn_ok dw" "preinit_done st" "dawn_frame dw"
    and "api_step dw k (Call_Instance (wgpuInstanceRelease i)) st = Inr (r, st1)"
    and "client_run dw qs st1 = Inr st2"
  shows "\<exists>p t st' sb. cmdt st = Some p \<and> transports (os st) p = Some t
    \<and> finaliseWebGPUDD st = Inr (0, st') \<and> transports (os st') p = None
    \<and> (0 \<le> mConnfd t \<longrightarrow> mConnfd t \<notin> set (fds (os st'))
         \<and> syslog (os st') = syslog (os st) @ [Shutdown (mConnfd t), Close (mConnfd t)])
    \<and> transports (os st2) p = None \<and> c2sBuf st2 = Some sb \<and> s_mTransport sb = Some p
    \<and> api_step dw k' (Call_Instance (wgpuInstanceRelease j)) st2 = Inl DeadObject
    \<and> webGPUDDFlush st2 = (if s_mOffset sb = 0 then Inr (1, st2) else Inl DeadObject)"
proof -
  have l: "linked dw st" by (rule session_linked [OF assms(1-3)])
  obtain p t st' where f: "cmdt st = Some p" "transports (os st) p = Some t" "finaliseWebGPUDD st = Inr (0, st')"
      "dead_link dw p st'"
      "0 \<le> mConnfd t \<longrightarrow> mConnfd t \<notin> set (fds (os st'))
         \<and> syslog (os st') = syslog (os st) @ [Shutdown (mConnfd t), Close (mConnfd t)]"
    using finalise_frees [OF l] by blast
  have "webgpudd_call dw k Fn_InstanceRelease [VObj WGPUInstance i] st = Inr (r, st1)"
    using api_overridden [OF linked_set_up [OF l], of "Call_Instance (wgpuInstanceRelease i)" Fn_InstanceRelease k] assms(5)
    by simp
  then obtain q where "wire_proc dw (Slot_Instance instanceRelease) [VObj WGPUInstance i] st' = Inr (q, st1)"
    using f(3) by (auto simp: webgpudd_call_def webGPUDDInstanceRelease_def elim!: rbind_eq_InrE)
  with wire_proc_dead [OF assms(4) f(4)] have "dead_link dw p st1" by (simp add: keeps_dead_def)
  then have d: "dead_link dw p st2" by (rule run_dead [OF assms(4) _ assms(6)])
  then obtain sb where sb: "c2sBuf st2 = Some sb" "s_mTransport sb = Some p" "SB_inv sb" "transports (os st2) p = None"
      "set_up dw st2"
    by (auto simp: dead_link_def)
  have "api_step dw k' (Call_Instance (wgpuInstanceRelease j)) st2 = Inl DeadObject"
    using api_overridden [OF sb(5), of "Call_Instance (wgpuInstanceRelease j)"] finalise_dead [OF d]
    by (simp add: webgpudd_call_def webGPUDDInstanceRelease_def)
  moreover have "webGPUDDFlush st2 = (if s_mOffset sb = 0 then Inr (1, st2) else Inl DeadObject)"
    using sb by (simp add: webGPUDDFlush_def Flush_dead)
  moreover have "transports (os st') p = None" using f(4) by (simp add: dead_link_def)
  ultimately show ?thesis using f sb by blast
qed

text \<open>
  When the library cannot connect, \<open>wgpuCreateInstance\<close> returns a null instance, leaves the table
  as it was, so that the next call tries again, and leaves the descriptor of the failed attempt
  open.
\<close>

theorem Failed_connection_null_instance:
  assumes "client_reach dw st" "dawn_ok dw" "\<not> preinit_done st"
    and "unix_socket (ie_unix k) = Opens fd" "unix_connect (ie_unix k) = Some e"
  shows "\<exists>st'. api_step dw k (Call_Global (wgpuCreateInstance d)) st = Inr (Some (VObj WGPUInstance 0), st')
    \<and> \<not> preinit_done st' \<and> procs st' = DefaultProcTable \<and> recv_threads st' = []
    \<and> fds (os st') = fds (os st) @ [int fd]"
proof -
  have u: "unlinked st"
    using reach_inv [OF assms(1)] assms(3) by (auto simp: client_inv_def set_up_def)
  obtain b where "strncpy zero_path SOCKET_PATH 107 = Inr b"
    using strncpy_path [of 107 SOCKET_PATH] by (auto simp: SUN_PATH_def)
  then obtain w where c: "connect_unix (ie_unix k) SOCKET_PATH (os st) = Inr (None, w)" "fds w = fds (os st) @ [int fd]"
    using assms(4,5) by (simp add: connect_unix_def socket_defs SUN_PATH_def)
  from preinit_cases [OF u c(1), of dw] u obtain st' where
    p: "webgpudd_preinit dw k st = Inr (- 1, st')" "unlinked st'" "os st' = w"
    by auto
  have "procs st = DefaultProcTable" using u by (simp add: unlinked_def)
  then have "api_step dw k (Call_Global (wgpuCreateInstance d)) st = Inr (Some (VObj WGPUInstance 0), st')"
    using p(1) assms(3)
    by (simp add: api_step_def default_exports webgpudd_call_def webGPUDDCreateInstance_def initWebGPUDD_def)
  with p c(2) show ?thesis by (simp add: unlinked_def)
qed

text \<open>
  An adapter the library has not recorded, such as every one that was requested through
  \<open>wgpuInstanceRequestAdapterF\<close>, which records nothing, has a null instance; and asking for it
  inserts a null entry.
\<close>

theorem RequestAdapterF_records_nothing:
  assumes "client_reach dw st" "dawn_ok dw" "preinit_done st" "adapterToInstance st a = None"
    and "api_step dw k (Call_Instance (wgpuInstanceRequestAdapterF i opts info)) st = Inr (r, st1)"
  shows "\<exists>st2. api_step dw k (Call_Adapter (wgpuAdapterGetInstance a)) st1 = Inr (Some (VObj WGPUInstance 0), st2)
    \<and> adapterToInstance st2 = (adapterToInstance st)(a \<mapsto> 0)"
proof -
  have l: "set_up dw st" by (rule reach_set_up [OF assms(1,3)])
  let ?c = "Call_Instance (wgpuInstanceRequestAdapterF i opts info)"
  have call: "webGPUDDInstanceRequestAdapterF dw i opts info st = Inr (r, st1)"
    using api_overridden [OF l, of ?c _ k] assms(5) by (simp add: webgpudd_call_def)
  have m: "adapterToInstance st1 = adapterToInstance st"
    using call by (auto simp: webGPUDDInstanceRequestAdapterF_def wire_proc_def run_wire_def webGPUDDFlush_def
        elim!: rbind_eq_InrE split: option.splits if_splits)
  have "set_up dw st1" using api_set_up [OF l assms(5)] by blast
  from api_overridden [OF this, of "Call_Adapter (wgpuAdapterGetInstance a)" _ k] m assms(4) show ?thesis
    by (simp add: webgpudd_call_def webGPUDDAdapterGetInstance_def map_index_def)
qed

section \<open>Witnesses\<close>

text \<open>
  A wire client that writes a command of eight bytes for every call, and a client connected
  through it.
\<close>

definition demo_dawn :: "nat dawn" where
  "demo_dawn = \<lparr>dw_procs = (\<lambda>_. True), dw_new = 0, dw_reserve = (\<lambda>d. (4096, Suc d)),
     dw_call = (\<lambda>s args d sb w. rbind (SendBuffer_GetCmdSpace 8 sb w) (\<lambda>(p, sb', w'). Inr (None, Suc d, sb', w')))\<rparr>"

definition demo_env :: init_env where
  "demo_env = \<lparr>ie_unix = \<lparr>unix_socket = Opens 3, unix_connect = None\<rparr>, ie_send_junk = (\<lambda>_. 0), ie_recv_junk = (\<lambda>_. 0)\<rparr>"

lemma GetCmdSpace_transports:
  assumes "SB_inv sb" "SB_ready sb w" "unat sz + 24 < 2 ^ 64"
  shows "\<exists>r sb' w'. SendBuffer_GetCmdSpace sz sb w = Inr (r, sb', w') \<and> SB_inv sb'
           \<and> s_mTransport sb' = s_mTransport sb \<and> transports w' = transports w"
proof -
  obtain r sb' w' where g: "SendBuffer_GetCmdSpace sz sb w = Inr (r, sb', w')"
    using SB_GetCmdSpace_live [OF assms(1,3,2)] by blast
  have inv: "SB_inv sb'" using SB_inv_GetCmdSpace [OF assms(1,3) g] by simp
  obtain p where p: "s_mTransport sb = Some p" "transports w p \<noteq> None"
    using assms(2) by (auto simp: SB_ready_def split: option.splits)
  consider (large) "BUFFER_SIZE < unat sz + 24"
    | (fits) "unat (s_mOffset sb) + unat sz + 24 \<le> BUFFER_SIZE"
    | (full) "unat sz + 24 \<le> BUFFER_SIZE" "BUFFER_SIZE < unat (s_mOffset sb) + unat sz + 24"
    by linarith
  then have "s_mTransport sb' = s_mTransport sb \<and> transports w' = transports w"
  proof cases
    case large
    with g assms show ?thesis by (simp add: GetCmdSpace_too_large)
  next
    case fits
    with g assms show ?thesis by (auto simp: GetCmdSpace_fits)
  next
    case full
    obtain ok sb1 w1 where fl: "SendBuffer_Flush sb w = Inr (ok, sb1, w1)"
      using SB_Flush_live [OF assms(1,2)] by blast
    have "SB_inv sb1" "s_mOffset sb1 = 0" "s_mTransport sb1 = s_mTransport sb"
      using SB_inv_Flush [OF assms(1) fl] by simp_all
    with g full fl Flush_transports [OF fl p assms(1)] show ?thesis
      by (auto simp: GetCmdSpace_no_room GetCmdSpace_fits split: if_splits)
  qed
  with g inv show ?thesis by blast
qed

lemma demo_dawn_ok: "dawn_ok demo_dawn"
  unfolding dawn_ok_def
proof (intro conjI allI impI)
  fix s args and d :: nat and sb w
  assume "SB_inv sb" "SB_ready sb w"
  from GetCmdSpace_transports [OF this, of 8]
  show "\<exists>r d' sb' w'. dw_call demo_dawn s args d sb w = Inr (r, d', sb', w') \<and> SB_inv sb'
      \<and> s_mTransport sb' = s_mTransport sb \<and> transports w' = transports w"
    by (auto simp: demo_dawn_def)
qed (simp add: demo_dawn_def)

definition demo_process :: "nat client" where
  "demo_process = client_start no_world"

lemma demo_session:
  obtains st sb where "client_session demo_dawn st" "preinit_done st" "adapterToInstance st = Map.empty"
    "linked demo_dawn st" "c2sBuf st = Some sb" "s_mOffset sb = 0"
proof -
  have u: "unlinked demo_process"
    by (simp add: unlinked_def demo_process_def client_start_def)
  obtain b where "strncpy zero_path SOCKET_PATH 107 = Inr b"
    using strncpy_path [of 107 SOCKET_PATH] by (auto simp: SUN_PATH_def)
  then obtain a w where c: "connect_unix (ie_unix demo_env) SOCKET_PATH (os demo_process) = Inr (Some a, w)"
    by (simp add: connect_unix_def socket_defs SUN_PATH_def demo_env_def)
  obtain ret st where st: "webgpudd_preinit demo_dawn demo_env demo_process = Inr (ret, st)" "linked demo_dawn st"
    using preinit_cases [OF u c, of demo_dawn] by auto
  have "client_session demo_dawn st"
    using client_session.preinit [OF client_session.start _ st(1) [unfolded demo_process_def]]
    by (simp add: client_start_def)
  moreover have "adapterToInstance st = Map.empty" "\<exists>sb. c2sBuf st = Some sb \<and> s_mOffset sb = 0"
    using st(1) c by (auto simp: webgpudd_preinit_def Let_def demo_process_def client_start_def
        SendBuffer_SetTransport_def new_SendBuffer_def)
  ultimately show ?thesis using that st(2) by (auto simp: linked_def set_up_def)
qed

lemma demo_client:
  obtains st where "client_reach demo_dawn st" "preinit_done st" "adapterToInstance st = Map.empty" "linked demo_dawn st"
  using demo_session session_reach by metis

lemma Client_calls_defined_witness:
  "\<exists>st r st'. preinit_done st
     \<and> api_step demo_dawn demo_env (Call_Queue (wgpuQueueSubmit 7 1 9)) st = Inr (r, st') \<and> preinit_done st'"
proof -
  obtain st sb where st: "client_session demo_dawn st" "preinit_done st" by (rule demo_session)
  have "\<not> releases_instance (Call_Queue (wgpuQueueSubmit 7 1 9))" by (simp add: releases_instance_def)
  from Client_calls_defined [OF st(1) demo_dawn_ok st(2) this, of demo_env] st(2) show ?thesis by blast
qed

lemma CreateInstance_starts_thread_each_time_witness:
  "\<exists>st st' i. api_step demo_dawn demo_env (Call_Global (wgpuCreateInstance 0)) st = Inr (Some (VObj WGPUInstance i), st')
     \<and> length (recv_threads st') = Suc (length (recv_threads st))"
proof -
  obtain st where st: "client_reach demo_dawn st" "preinit_done st" by (rule demo_client)
  from CreateInstance_starts_thread_each_time [OF st(1) demo_dawn_ok st(2), of demo_env 0] show ?thesis
    by (metis length_append_singleton)
qed

lemma demo_api:
  assumes "linked demo_dawn st" "\<not> releases_instance c"
  obtains r st' where "api_step demo_dawn demo_env c st = Inr (r, st')"
  using api_stays [OF demo_dawn_ok assms, of demo_env]
  unfolding stays_linked_def by blast

lemma Adapter_request_answered_once_witness:
  "\<exists>st r st1 st3. api_step demo_dawn demo_env (Call_Instance (wgpuInstanceRequestAdapter 4096 0 55 66)) st = Inr (r, st1)
     \<and> adapterRequestCB 0 77 0 (next_request st) st1 = Inr st3
     \<and> app_calls st3 = app_calls st1 @ [AdapterCallback 55 0 77 0 66]
     \<and> fst (webGPUDDAdapterGetInstance 77 st3) = 4096"
proof -
  obtain st where st: "client_reach demo_dawn st" "preinit_done st" "linked demo_dawn st" by (rule demo_client)
  obtain r st1 where r: "api_step demo_dawn demo_env (Call_Instance (wgpuInstanceRequestAdapter 4096 0 55 66)) st = Inr (r, st1)"
    using demo_api [OF st(3), of "Call_Instance (wgpuInstanceRequestAdapter 4096 0 55 66)"] by (auto simp: releases_instance_def)
  have cb: "(55 :: nat) \<noteq> 0" by simp
  have "client_run demo_dawn [] st1 = Inr st1" "\<forall>p \<in> set []. adapter_reply_to p \<noteq> Some (next_request st)" by simp_all
  from Adapter_request_answered_once [OF st(1) demo_dawn_ok st(2) cb r this, of 0 77 0 0 0 0] r
  show ?thesis by auto
qed

lemma Device_request_answered_once_witness:
  "\<exists>st r st1 st3. api_step demo_dawn demo_env (Call_Adapter (wgpuAdapterRequestDevice 77 0 55 66)) st = Inr (r, st1)
     \<and> deviceRequestCB 0 88 0 (next_request st) st1 = Inr st3
     \<and> app_calls st3 = app_calls st1 @ [DeviceCallback 55 0 88 0 66]
     \<and> fst (webGPUDDDeviceGetAdapter 88 st3) = 77"
proof -
  obtain st where st: "client_reach demo_dawn st" "preinit_done st" "linked demo_dawn st" by (rule demo_client)
  obtain r st1 where r: "api_step demo_dawn demo_env (Call_Adapter (wgpuAdapterRequestDevice 77 0 55 66)) st = Inr (r, st1)"
    using demo_api [OF st(3), of "Call_Adapter (wgpuAdapterRequestDevice 77 0 55 66)"] by (auto simp: releases_instance_def)
  have cb: "(55 :: nat) \<noteq> 0" by simp
  have "client_run demo_dawn [] st1 = Inr st1" "\<forall>p \<in> set []. device_reply_to p \<noteq> Some (next_request st)" by simp_all
  from Device_request_answered_once [OF st(1) demo_dawn_ok st(2) cb r this, of 0 88 0 0 0 0] r
  show ?thesis by auto
qed

lemma Flush_not_ready:
  assumes "SB_inv sb" "s_mOffset sb \<noteq> 0" "\<not> SB_ready sb w"
  shows "SendBuffer_Flush sb w \<noteq> Inr x"
proof (cases "s_mTransport sb")
  case None
  with assms(2) show ?thesis
    by (auto simp: SendBuffer_Flush_def Let_def elim!: rbind_eq_InrE)
next
  case (Some p)
  with assms show ?thesis by (simp add: SB_ready_def Flush_dead)
qed

lemma GetCmdSpace_dead:
  assumes "SB_inv sb" "SendBuffer_GetCmdSpace 8 sb w = Inr (q, sb', w')" "\<not> SB_ready sb w"
  shows "SB_inv sb' \<and> s_mTransport sb' = s_mTransport sb \<and> transports w' = transports w"
proof (cases "unat (s_mOffset sb) + unat (8 :: size_t) + 24 \<le> BUFFER_SIZE")
  case True
  with assms SB_inv_GetCmdSpace [OF assms(1) _ assms(2)] show ?thesis by (auto simp: GetCmdSpace_fits)
next
  case False
  then have "s_mOffset sb \<noteq> 0" by (auto simp: BUFFER_SIZE_def)
  from Flush_not_ready [OF assms(1) this assms(3)] assms(2) False show ?thesis
    by (auto simp: GetCmdSpace_no_room BUFFER_SIZE_def elim!: rbind_eq_InrE)
qed

lemma demo_dawn_frame: "dawn_frame demo_dawn"
  unfolding dawn_frame_def
proof (intro allI impI)
  fix s args and d :: nat and sb w r d' sb' w'
  assume inv: "SB_inv sb" and c: "dw_call demo_dawn s args d sb w = Inr (r, d', sb', w')"
  then obtain q where g: "SendBuffer_GetCmdSpace 8 sb w = Inr (q, sb', w')"
    by (auto simp: demo_dawn_def elim!: rbind_eq_InrE)
  show "SB_inv sb' \<and> s_mTransport sb' = s_mTransport sb \<and> transports w' = transports w"
  proof (cases "SB_ready sb w")
    case True
    from GetCmdSpace_transports [OF inv True, of 8] g show ?thesis by auto
  next
    case False
    with GetCmdSpace_dead [OF inv g] show ?thesis by simp
  qed
qed

lemma demo_release:
  assumes "linked demo_dawn st" "c2sBuf st = Some sb" "s_mOffset sb = 0"
  shows "\<exists>r st1 sb1. api_step demo_dawn demo_env (Call_Instance (wgpuInstanceRelease 4096)) st = Inr (r, st1)
     \<and> c2sBuf st1 = Some sb1 \<and> s_mOffset sb1 \<noteq> 0"
proof -
  obtain st' where f: "finaliseWebGPUDD st = Inr (0, st')" using finalise_frees [OF assms(1)] by blast
  have st': "c2sBuf st' = Some sb" "wireClient st' = wireClient st" "wire_procs st' = Some (dw_procs demo_dawn)"
    using f assms(1,2) by (auto simp: finaliseWebGPUDD_def linked_def set_up_def elim!: rbind_eq_InrE split: option.splits)
  obtain d where d: "wireClient st = Some d" and inv: "SB_inv sb"
    using assms(1,2) by (auto simp: linked_def link_ok_def)
  have g: "SendBuffer_GetCmdSpace 8 sb w = Inr (Some 12,
      sb\<lparr>s_mBuffer := poke (s_mBuffer sb) 0 (encode_tlv \<lparr>tlv_type = 1, tlv_len = 8\<rparr>), s_mOffset := 20\<rparr>, w)" for w
    using GetCmdSpace_fits [OF inv, of 8 w] assms(3) by (simp add: BUFFER_SIZE_def)
  show ?thesis
    using api_overridden [OF linked_set_up [OF assms(1)], of "Call_Instance (wgpuInstanceRelease 4096)" _ demo_env] f st' d
    by (simp add: webgpudd_call_def webGPUDDInstanceRelease_def wire_proc_def run_wire_def g demo_dawn_def)
qed

lemma Release_closes_connection_witness:
  "\<exists>st r st1. api_step demo_dawn demo_env (Call_Instance (wgpuInstanceRelease 4096)) st = Inr (r, st1)
     \<and> api_step demo_dawn demo_env (Call_Instance (wgpuInstanceRelease 4096)) st1 = Inl DeadObject
     \<and> webGPUDDFlush st1 = Inl DeadObject"
proof -
  obtain st sb where st: "client_session demo_dawn st" "preinit_done st" "linked demo_dawn st" "c2sBuf st = Some sb" "s_mOffset sb = 0"
    by (rule demo_session)
  obtain r st1 sb1 where r: "api_step demo_dawn demo_env (Call_Instance (wgpuInstanceRelease 4096)) st = Inr (r, st1)"
      "c2sBuf st1 = Some sb1" "s_mOffset sb1 \<noteq> 0"
    using demo_release [OF st(3-5)] by blast
  have run: "client_run demo_dawn [] st1 = Inr st1" by simp
  from Release_closes_connection [OF st(1) demo_dawn_ok st(2) demo_dawn_frame r(1) run, of demo_env 4096] r show ?thesis
    by force
qed

lemma Failed_connection_null_instance_witness:
  "\<exists>st'. api_step demo_dawn (demo_env\<lparr>ie_unix := \<lparr>unix_socket = Opens 3, unix_connect = Some 111\<rparr>\<rparr>)
        (Call_Global (wgpuCreateInstance 0)) demo_process = Inr (Some (VObj WGPUInstance 0), st')
     \<and> fds (os st') = [0, 1, 2, 3]"
proof -
  have "client_reach demo_dawn demo_process" unfolding demo_process_def by (rule client_reach.start)
  from Failed_connection_null_instance [OF this demo_dawn_ok, of
      "demo_env\<lparr>ie_unix := \<lparr>unix_socket = Opens 3, unix_connect = Some 111\<rparr>\<rparr>" 3 111 0]
  show ?thesis by (auto simp: demo_process_def client_start_def no_world_def)
qed

lemma RequestAdapterF_records_nothing_witness:
  "\<exists>st r st1 st2. api_step demo_dawn demo_env (Call_Instance (wgpuInstanceRequestAdapterF 4096 0 [])) st = Inr (r, st1)
     \<and> api_step demo_dawn demo_env (Call_Adapter (wgpuAdapterGetInstance 77)) st1 = Inr (Some (VObj WGPUInstance 0), st2)
     \<and> adapterToInstance st2 = [77 \<mapsto> 0]"
proof -
  obtain st where st: "client_reach demo_dawn st" "preinit_done st" "adapterToInstance st = Map.empty" "linked demo_dawn st"
    by (rule demo_client)
  obtain r st1 where r: "api_step demo_dawn demo_env (Call_Instance (wgpuInstanceRequestAdapterF 4096 0 [])) st = Inr (r, st1)"
    using demo_api [OF st(4), of "Call_Instance (wgpuInstanceRequestAdapterF 4096 0 [])"] by (auto simp: releases_instance_def)
  from RequestAdapterF_records_nothing [OF st(1) demo_dawn_ok st(2) _ r, of 77] st(3) r show ?thesis by fastforce
qed

end
