(* ===== verification/Client_Wire.thy ===== *)
theory Client_Wire
  imports Client_Properties
begin

text \<open>
  From the application to the server: the calls that a program makes through the exported
  functions, the commands that Dawn's wire client writes for them into the library's
  \<open>SendBuffer\<close>, the stream on the socket, and what the server's handler is given.
\<close>

section \<open>What the wire client writes\<close>

text \<open>
  Dawn's wire client, as documented: a function of its table writes the commands for the call, one
  after the other, into the serializer the client was created with, and updates its own state.
  Which commands they are (\<open>cmds\<close>), the result and the new state (\<open>post\<close>) depend on the entry, the
  arguments and its state. Every entry of the table is set.
\<close>

definition writes_commands ::
  "'d dawn \<Rightarrow> (slot \<Rightarrow> cval list \<Rightarrow> 'd \<Rightarrow> byte list list) \<Rightarrow> (slot \<Rightarrow> cval list \<Rightarrow> 'd \<Rightarrow> cval option \<times> 'd) \<Rightarrow> bool" where
  "writes_commands dw cmds post \<longleftrightarrow> (\<forall>s. dw_procs dw s) \<and>
     (\<forall>s args d sb w. dw_call dw s args d sb w =
        rbind (wire_run (map Put (cmds s args d)) sb w) (\<lambda>(oks, sb', w').
          Inr (fst (post s args d), snd (post s args d), sb', w')))"

text \<open>
  The calls of a session: everything but \<open>wgpuCreateInstance\<close>, which starts it, and
  \<open>wgpuInstanceRelease\<close>, which ends it.
\<close>

definition session_call :: "api_call \<Rightarrow> bool" where
  "session_call c \<longleftrightarrow> overridden c \<noteq> Some Fn_CreateInstance \<and> overridden c \<noteq> Some Fn_InstanceRelease"

text \<open>
  What a call passes to the wire client: its own arguments, except that the two requests pass the
  library's callback and the address \<open>n\<close> of their state; and whether it flushes.
\<close>

fun wire_args :: "api_call \<Rightarrow> addr \<Rightarrow> cval list" where
  "wire_args (Call_Instance (wgpuInstanceRequestAdapter i opts cb ud)) n =
     [VObj WGPUInstance i, VPtr ''WGPURequestAdapterOptions const'' opts,
      VFun ''WGPURequestAdapterCallback'' ADAPTER_REQUEST_CB, VPtr ''void'' n]"
| "wire_args (Call_Adapter (wgpuAdapterRequestDevice a descr cb ud)) n =
     [VObj WGPUAdapter a, VPtr ''WGPUDeviceDescriptor const'' descr,
      VFun ''WGPURequestDeviceCallback'' DEVICE_REQUEST_CB, VPtr ''void'' n]"
| "wire_args c n = fst (snd (forward c))"

definition flushes :: "api_call \<Rightarrow> bool" where
  "flushes c \<longleftrightarrow> overridden c \<in> Some ` {Fn_InstanceProcessEvents, Fn_InstanceRequestAdapter, Fn_InstanceRequestAdapterF,
     Fn_AdapterRequestDevice, Fn_AdapterRequestDeviceF, Fn_QueueWriteBuffer}"

text \<open>The two lookups do not reach the wire client at all.\<close>

definition local_call :: "api_call \<Rightarrow> bool" where
  "local_call c \<longleftrightarrow> overridden c \<in> Some ` {Fn_DeviceGetAdapter, Fn_AdapterGetInstance}"

definition requests_memory :: "api_call \<Rightarrow> bool" where
  "requests_memory c \<longleftrightarrow> overridden c \<in> Some ` {Fn_InstanceRequestAdapter, Fn_AdapterRequestDevice}"

definition call_commands :: "(slot \<Rightarrow> cval list \<Rightarrow> 'd \<Rightarrow> byte list list) \<Rightarrow> api_call \<Rightarrow> 'd \<Rightarrow> addr \<Rightarrow> byte list list" where
  "call_commands cmds c d n = (if local_call c then [] else cmds (fst (forward c)) (wire_args c n) d)"

definition call_state :: "(slot \<Rightarrow> cval list \<Rightarrow> 'd \<Rightarrow> cval option \<times> 'd) \<Rightarrow> api_call \<Rightarrow> 'd \<Rightarrow> addr \<Rightarrow> 'd" where
  "call_state post c d n = (if local_call c then d else snd (post (fst (forward c)) (wire_args c n) d))"

definition next_memory :: "api_call \<Rightarrow> addr \<Rightarrow> addr" where
  "next_memory c n = (if requests_memory c then Suc n else n)"

text \<open>The commands of a sequence of calls, and the operations on the serializer.\<close>

fun session_commands :: "(slot \<Rightarrow> cval list \<Rightarrow> 'd \<Rightarrow> byte list list) \<Rightarrow> (slot \<Rightarrow> cval list \<Rightarrow> 'd \<Rightarrow> cval option \<times> 'd) \<Rightarrow>
    api_call list \<Rightarrow> 'd \<Rightarrow> addr \<Rightarrow> byte list list" where
  "session_commands cmds post [] d n = []"
| "session_commands cmds post (c # cs) d n =
     call_commands cmds c d n @ session_commands cmds post cs (call_state post c d n) (next_memory c n)"

fun session_ops :: "(slot \<Rightarrow> cval list \<Rightarrow> 'd \<Rightarrow> byte list list) \<Rightarrow> (slot \<Rightarrow> cval list \<Rightarrow> 'd \<Rightarrow> cval option \<times> 'd) \<Rightarrow>
    api_call list \<Rightarrow> 'd \<Rightarrow> addr \<Rightarrow> wire_op list" where
  "session_ops cmds post [] d n = []"
| "session_ops cmds post (c # cs) d n =
     map Put (call_commands cmds c d n) @ (if flushes c then [Flush_op] else [])
       @ session_ops cmds post cs (call_state post c d n) (next_memory c n)"

section \<open>The calls as operations on the serializer\<close>

text \<open>An initialised library, with the wire client in state \<open>d\<close>, the serializer \<open>sb\<close> and the world \<open>w\<close>.\<close>

definition in_session :: "'d dawn \<Rightarrow> 'd client \<Rightarrow> 'd \<Rightarrow> addr \<Rightarrow> SendBuffer \<Rightarrow> world \<Rightarrow> bool" where
  "in_session dw st d n sb w \<longleftrightarrow> procs st = client_table dw \<and> wire_procs st = Some (dw_procs dw)
     \<and> wireClient st = Some d \<and> next_request st = n \<and> c2sBuf st = Some sb \<and> os st = w"

lemma in_session_fields [simp]:
  "in_session dw (st\<lparr>adapterToInstance := m\<rparr>) d n sb w = in_session dw st d n sb w"
  "in_session dw (st\<lparr>deviceToAdapter := m\<rparr>) d n sb w = in_session dw st d n sb w"
  "in_session dw (st\<lparr>adapter_requests := q, next_request := m'\<rparr>) d m' sb w = in_session dw st d (next_request st) sb w"
  "in_session dw (st\<lparr>device_requests := q', next_request := m'\<rparr>) d m' sb w = in_session dw st d (next_request st) sb w"
  by (auto simp: in_session_def)

text \<open>A computation in the library that amounts to a run of operations on the serializer.\<close>

definition does_ops :: "'d dawn \<Rightarrow> wire_op list \<Rightarrow> 'd \<Rightarrow> addr \<Rightarrow> SendBuffer \<Rightarrow> world \<Rightarrow> ('a \<times> 'd client) result \<Rightarrow> bool" where
  "does_ops dw ops d n sb w m \<longleftrightarrow> (\<forall>oks sb' w'. wire_run ops sb w = Inr (oks, sb', w') \<longrightarrow>
     (\<exists>r st'. m = Inr (r, st') \<and> in_session dw st' d n sb' w'))"

lemma does_ops_return: "in_session dw st d n sb w \<Longrightarrow> does_ops dw [] d n sb w (Inr (r, st))"
  by (simp add: does_ops_def)

lemma does_ops_bind:
  assumes "does_ops dw ops d1 n1 sb w m"
    and "\<And>r st' sb' w'. in_session dw st' d1 n1 sb' w' \<Longrightarrow> does_ops dw ops' d n sb' w' (f (r, st'))"
  shows "does_ops dw (ops @ ops') d n sb w (rbind m f)"
  unfolding does_ops_def
proof (intro allI impI)
  fix oks sb2 w2
  assume "wire_run (ops @ ops') sb w = Inr (oks, sb2, w2)"
  then obtain oks1 sb1 w1 oks2 where r: "wire_run ops sb w = Inr (oks1, sb1, w1)" "wire_run ops' sb1 w1 = Inr (oks2, sb2, w2)"
    by (auto simp: wire_run_append elim!: rbind_eq_InrE)
  obtain r st' where m: "m = Inr (r, st')" "in_session dw st' d1 n1 sb1 w1"
    using assms(1) r(1) unfolding does_ops_def by blast
  from assms(2) [OF m(2)] r(2) m(1) show "\<exists>r st'. rbind m f = Inr (r, st') \<and> in_session dw st' d n sb2 w2"
    unfolding does_ops_def by simp
qed

lemma run_wire_ops:
  assumes "writes_commands dw cmds post" "in_session dw st d n sb w"
  shows "does_ops dw (map Put (cmds s args d)) (snd (post s args d)) n sb w (run_wire dw s args st)"
  using assms by (auto simp: does_ops_def run_wire_def writes_commands_def in_session_def)

lemma wire_proc_ops:
  assumes "writes_commands dw cmds post" "in_session dw st d n sb w"
  shows "does_ops dw (map Put (cmds s args d)) (snd (post s args d)) n sb w (wire_proc dw s args st)"
proof -
  have "wire_proc dw s args st = run_wire dw s args st"
    using assms by (simp add: wire_proc_def writes_commands_def in_session_def)
  then show ?thesis using run_wire_ops [OF assms] by simp
qed

lemma flush_ops:
  assumes "in_session dw st d n sb w"
  shows "does_ops dw [Flush_op] d n sb w (webGPUDDFlush st)"
  using assms by (auto simp: does_ops_def webGPUDDFlush_def in_session_def wire_step_def elim!: rbind_eq_InrE)

lemma call_ops_defs:
  "overridden c = Some f \<Longrightarrow> local_call c \<longleftrightarrow> f \<in> {Fn_DeviceGetAdapter, Fn_AdapterGetInstance}"
  "overridden c = Some f \<Longrightarrow> requests_memory c \<longleftrightarrow> f \<in> {Fn_InstanceRequestAdapter, Fn_AdapterRequestDevice}"
  "overridden c = Some f \<Longrightarrow> flushes c \<longleftrightarrow> f \<in> {Fn_InstanceProcessEvents, Fn_InstanceRequestAdapter, Fn_InstanceRequestAdapterF,
     Fn_AdapterRequestDevice, Fn_AdapterRequestDeviceF, Fn_QueueWriteBuffer}"
  "overridden c = Some f \<Longrightarrow> session_call c \<longleftrightarrow> f \<notin> {Fn_CreateInstance, Fn_InstanceRelease}"
  "overridden c = None \<Longrightarrow> \<not> local_call c \<and> \<not> requests_memory c \<and> \<not> flushes c \<and> session_call c"
  by (auto simp: local_call_def requests_memory_def flushes_def session_call_def)

definition call_ops :: "(slot \<Rightarrow> cval list \<Rightarrow> 'd \<Rightarrow> byte list list) \<Rightarrow> api_call \<Rightarrow> 'd \<Rightarrow> addr \<Rightarrow> wire_op list" where
  "call_ops cmds c d n = map Put (call_commands cmds c d n) @ (if flushes c then [Flush_op] else [])"

lemma wire_args_plain: "overridden c = None \<Longrightarrow> wire_args c n = fst (snd (forward c))"
  by (cases "(c, n)" rule: wire_args.cases) auto

text \<open>The three shapes of a function of the library, as \<open>case_prod_unfold\<close> leaves them.\<close>

lemma plain_shape:
  assumes "writes_commands dw cmds post" "in_session dw st d n sb w"
  shows "does_ops dw (map Put (cmds s args d)) (snd (post s args d)) n sb w
    (rbind (wire_proc dw s args st) (\<lambda>x. Inr (None, snd x)))"
proof -
  have "does_ops dw (map Put (cmds s args d) @ []) (snd (post s args d)) n sb w
      (rbind (wire_proc dw s args st) (\<lambda>x. Inr (None, snd x)))"
    by (rule does_ops_bind [OF wire_proc_ops [OF assms]]) (simp add: does_ops_return)
  then show ?thesis by simp
qed

lemma flush_shape:
  assumes "writes_commands dw cmds post" "in_session dw st d n sb w"
  shows "does_ops dw (map Put (cmds s args d) @ [Flush_op]) (snd (post s args d)) n sb w
    (rbind (wire_proc dw s args st) (\<lambda>x. rbind (webGPUDDFlush (snd x)) (\<lambda>y. Inr (f (fst x), snd y))))"
proof (rule does_ops_bind [OF wire_proc_ops [OF assms]])
  fix r st' sb' w'
  assume "in_session dw st' (snd (post s args d)) n sb' w'"
  note fl = flush_ops [OF this]
  have "does_ops dw ([Flush_op] @ []) (snd (post s args d)) n sb' w' (rbind (webGPUDDFlush st') (\<lambda>y. Inr (f r, snd y)))"
    by (rule does_ops_bind [OF fl]) (simp add: does_ops_return)
  then show "does_ops dw [Flush_op] (snd (post s args d)) n sb' w'
      (rbind (webGPUDDFlush (snd (r, st'))) (\<lambda>y. Inr (f (fst (r, st')), snd y)))" by simp
qed

lemma request_shapes:
  assumes "writes_commands dw cmds post" "in_session dw st d n sb w"
  shows "does_ops dw (map Put (cmds s args d) @ [Flush_op]) (snd (post s args d)) (Suc n) sb w
      (rbind (wire_proc dw s args (st\<lparr>adapter_requests := A, next_request := Suc n\<rparr>))
         (\<lambda>x. rbind (webGPUDDFlush (snd x)) (\<lambda>y. Inr (None, snd y))))"
    and "does_ops dw (map Put (cmds s args d) @ [Flush_op]) (snd (post s args d)) (Suc n) sb w
      (rbind (wire_proc dw s args (st\<lparr>device_requests := D, next_request := Suc n\<rparr>))
         (\<lambda>x. rbind (webGPUDDFlush (snd x)) (\<lambda>y. Inr (None, snd y))))"
proof -
  have "in_session dw (st\<lparr>adapter_requests := A, next_request := Suc n\<rparr>) d (Suc n) sb w"
    "in_session dw (st\<lparr>device_requests := D, next_request := Suc n\<rparr>) d (Suc n) sb w"
    using assms(2) by (auto simp: in_session_def)
  then show "does_ops dw (map Put (cmds s args d) @ [Flush_op]) (snd (post s args d)) (Suc n) sb w
      (rbind (wire_proc dw s args (st\<lparr>adapter_requests := A, next_request := Suc n\<rparr>))
         (\<lambda>x. rbind (webGPUDDFlush (snd x)) (\<lambda>y. Inr (None, snd y))))"
    and "does_ops dw (map Put (cmds s args d) @ [Flush_op]) (snd (post s args d)) (Suc n) sb w
      (rbind (wire_proc dw s args (st\<lparr>device_requests := D, next_request := Suc n\<rparr>))
         (\<lambda>x. rbind (webGPUDDFlush (snd x)) (\<lambda>y. Inr (None, snd y))))"
    using flush_shape [OF assms(1), where f = "\<lambda>_. None"] by blast+
qed

lemma lookup_shapes:
  assumes "in_session dw st d n sb w"
  shows "does_ops dw [] d n sb w (Inr (r, snd (webGPUDDDeviceGetAdapter x st)))"
    and "does_ops dw [] d n sb w (Inr (r, snd (webGPUDDAdapterGetInstance x st)))"
  using assms by (simp_all add: webGPUDDDeviceGetAdapter_def webGPUDDAdapterGetInstance_def case_prod_unfold Let_def does_ops_return)

lemmas call_shapes = plain_shape flush_shape request_shapes

text \<open>One call of a function that the library overrides.\<close>

lemma overridden_ops:
  assumes "writes_commands dw cmds post" "in_session dw st d n sb w" "overridden c = Some f" "session_call c"
  shows "does_ops dw (call_ops cmds c d n) (call_state post c d n) (next_memory c n) sb w
    (webgpudd_call dw k f (fst (snd (forward c))) st)"
proof -
  have n: "next_request st = n" using assms(2) by (simp add: in_session_def)
  show ?thesis
    using assms(3,4)
  proof (induction c rule: overridden.induct)
  qed (use call_shapes [OF assms(1,2)] lookup_shapes [OF assms(2)] in
    \<open>auto simp: call_ops_defs call_ops_def call_commands_def call_state_def next_memory_def rbind_assoc webgpudd_call_def
        Let_def case_prod_unfold webgpuDDInstanceReference_def webGPUDDInstanceProcessEvents_def
        webGPUDDInstanceRequestAdapter_def webGPUDDInstanceRequestAdapterF_def webGPUDDAdapterRequestDevice_def
        webGPUDDAdapterRequestDeviceF_def webGPUDDQueueWriteBuffer_def n\<close>)
qed

lemma api_ops:
  assumes "writes_commands dw cmds post" "in_session dw st d n sb w" "session_call c"
  shows "does_ops dw (call_ops cmds c d n) (call_state post c d n) (next_memory c n) sb w (api_step dw k c st)"
proof -
  have p: "procs st = client_table dw" using assms(2) by (simp add: in_session_def)
  show ?thesis
  proof (cases "overridden c")
    case None
    have "dw_procs dw (fst (forward c))" using assms(1) by (simp add: writes_commands_def)
    with None p have "api_step dw k c st = run_wire dw (fst (forward c)) (fst (snd (forward c))) st"
      by (simp add: api_step_def client_dispatch)
    with run_wire_ops [OF assms(1,2), of "fst (forward c)" "fst (snd (forward c))"] None show ?thesis
      by (simp add: call_ops_def call_commands_def call_state_def next_memory_def call_ops_defs wire_args_plain)
  next
    case (Some f)
    with p have "api_step dw k c st = webgpudd_call dw k f (fst (snd (forward c))) st"
      by (simp add: api_step_def client_dispatch)
    with overridden_ops [OF assms(1,2) Some assms(3)] show ?thesis by simp
  qed
qed

lemma session_ops_Cons:
  "session_ops cmds post (c # cs) d n
     = call_ops cmds c d n @ session_ops cmds post cs (call_state post c d n) (next_memory c n)"
  by (simp add: call_ops_def)

lemma client_run_ops:
  assumes "writes_commands dw cmds post"
  shows "in_session dw st d n sb w \<Longrightarrow> \<forall>c \<in> set cs. session_call c \<Longrightarrow>
    wire_run (session_ops cmds post cs d n) sb w = Inr (oks, sb', w') \<Longrightarrow>
    \<exists>st'. client_run dw (map (Api k) cs) st = Inr st' \<and> c2sBuf st' = Some sb' \<and> os st' = w'"
proof (induction cs arbitrary: st d n sb w oks)
  case Nil
  then show ?case by (simp add: in_session_def)
next
  case (Cons c cs)
  obtain oks1 sb1 w1 oks2 where r: "wire_run (call_ops cmds c d n) sb w = Inr (oks1, sb1, w1)"
      "wire_run (session_ops cmds post cs (call_state post c d n) (next_memory c n)) sb1 w1 = Inr (oks2, sb', w')"
    using Cons.prems(3) unfolding session_ops_Cons wire_run_append by (auto elim!: rbind_eq_InrE)
  obtain q st1 where "api_step dw k c st = Inr (q, st1)" "in_session dw st1 (call_state post c d n) (next_memory c n) sb1 w1"
    using api_ops [OF assms Cons.prems(1), of c k] Cons.prems(2) r(1) unfolding does_ops_def by auto
  with Cons.IH [OF this(2) _ r(2)] Cons.prems(2) show ?case by simp
qed

section \<open>The start of a session\<close>

lemma create_in_session:
  assumes "unix_socket (ie_unix k) = Opens fd" "unix_connect (ie_unix k) = None"
    and "accepts_all w" "tx w (int fd) = []"
  shows "\<exists>r st sb w'. api_step dw k (Call_Global (wgpuCreateInstance desc)) (client_start w) = Inr (r, st)
    \<and> in_session dw st (snd (dw_reserve dw (dw_new dw))) 1 sb w'
    \<and> holds sb [] \<and> connected sb (int fd) w' \<and> tx w' (int fd) = []"
proof -
  let ?st = "client_start w :: 'a client"
  obtain b where "strncpy zero_path SOCKET_PATH 107 = Inr b"
    using strncpy_path [of 107 SOCKET_PATH] by (auto simp: SUN_PATH_def)
  then obtain w' where c: "connect_unix (ie_unix k) SOCKET_PATH w = Inr (Some (next_addr w), w')"
      "transports w' (next_addr w) = Some \<lparr>mConnfd = int fd\<rparr>" "tx w' = tx w" "send_script w' = send_script w"
    using assms(1,2) by (simp add: connect_unix_def socket_defs SUN_PATH_def)
  let ?sb = "SendBuffer_SetTransport (next_addr w) (new_SendBuffer (ie_send_junk k))"
  have "\<exists>r st. api_step dw k (Call_Global (wgpuCreateInstance desc)) ?st = Inr (r, st)
      \<and> in_session dw st (snd (dw_reserve dw (dw_new dw))) 1 ?sb w'"
    using c(1)
    by (simp add: api_step_def default_exports webgpudd_call_def webGPUDDCreateInstance_def initWebGPUDD_def
        client_start_def webgpudd_preinit_def getWebGPUDDInstance_def Let_def case_prod_unfold in_session_def
        webGPUDDSetProcs_def)
  moreover have "holds ?sb []"
    by (intro holds_Nil) (simp_all add: SB_inv_def buffer_consts SendBuffer_SetTransport_def new_SendBuffer_def)
  moreover have "connected ?sb (int fd) w'"
    using c assms(3) by (simp add: connected_def SendBuffer_SetTransport_def accepts_all_def)
  moreover have "tx w' (int fd) = []" using c(3) assms(4) by simp
  ultimately show ?thesis by blast
qed

lemma payload_session:
  "concat (map payload (session_ops cmds post cs d n)) = concat (session_commands cmds post cs d n)"
proof -
  have "map payload (map Put bss) = bss" for bss by (induction bss) simp_all
  then show ?thesis by (induction cs arbitrary: d n) (simp_all add: call_ops_def)
qed

lemma session_ops_flush:
  "flushes c \<Longrightarrow> \<exists>ops. session_ops cmds post (cs @ [c]) d n = ops @ [Flush_op]"
proof (induction cs arbitrary: d n)
  case (Cons c' cs)
  from Cons.IH [OF Cons.prems] obtain ops
    where "session_ops cmds post (cs @ [c]) (call_state post c' d n) (next_memory c' n) = ops @ [Flush_op]" by blast
  then show ?case by simp
qed simp

definition fitting_commands :: "(slot \<Rightarrow> cval list \<Rightarrow> 'd \<Rightarrow> byte list list) \<Rightarrow> bool" where
  "fitting_commands cmds \<longleftrightarrow> (\<forall>s args d. \<forall>bs \<in> set (cmds s args d). length bs \<le> 1999976)"

lemma session_within_maximum:
  assumes "fitting_commands cmds"
  shows "\<forall>p \<in> set (session_ops cmds post cs d n). within_maximum p"
proof -
  have "within_maximum (Put bs)" if "length bs \<le> 1999976" for bs
  proof -
    have "unat (of_nat (length bs) :: size_t) = length bs" using that by (intro unat_of_nat_size) simp
    with that show ?thesis
      by (simp add: word_le_nat_alt SendBuffer_GetMaximumAllocationSize_def buffer_consts)
  qed
  with assms show ?thesis
    by (induction cs arbitrary: d n)
       (auto simp: call_commands_def fitting_commands_def simp del: within_maximum.simps(1) split: if_splits)
qed

lemma ops_within_maximum: "within_maximum p \<Longrightarrow> op_ok p"
  by (cases p) simp_all

text \<open>The program as a run of the sender that ends with a flush.\<close>

lemma application_run:
  assumes "writes_commands dw cmds post" "fitting_commands cmds"
    and "unix_socket (ie_unix k) = Opens fd" "unix_connect (ie_unix k) = None"
    and "accepts_all w" "tx w (int fd) = []"
    and "\<forall>c \<in> set (cs @ [c']). session_call c" "flushes c'"
  shows "\<exists>st sb w0 oks sb' ops.
      client_run dw (map (Api k) (Call_Global (wgpuCreateInstance desc) # cs @ [c'])) (client_start w) = Inr st
    \<and> holds sb [] \<and> connected sb (int fd) w0 \<and> tx w0 (int fd) = []
    \<and> session_ops cmds post (cs @ [c']) (snd (dw_reserve dw (dw_new dw))) 1 = ops @ [Flush_op]
    \<and> (\<forall>p \<in> set ops. within_maximum p) \<and> wire_run (ops @ [Flush_op]) sb w0 = Inr (oks, sb', os st)"
proof -
  let ?d = "snd (dw_reserve dw (dw_new dw))" and ?ops = "session_ops cmds post (cs @ [c']) (snd (dw_reserve dw (dw_new dw))) 1"
  obtain r st0 sb w0 where s: "api_step dw k (Call_Global (wgpuCreateInstance desc)) (client_start w) = Inr (r, st0)"
      "in_session dw st0 ?d 1 sb w0" "holds sb []" "connected sb (int fd) w0" "tx w0 (int fd) = []"
    using create_in_session [OF assms(3-6), of dw desc] by blast
  have max: "\<forall>p \<in> set ?ops. within_maximum p" by (rule session_within_maximum [OF assms(2)])
  obtain ops where ops: "?ops = ops @ [Flush_op]"
    using session_ops_flush [OF assms(8), of cmds post cs ?d 1] by (elim exE) (rule that)
  obtain oks sb' w' where run: "wire_run ?ops sb w0 = Inr (oks, sb', w')"
    using sender_run [OF sender_start [OF s(3,4)]] max ops_within_maximum by blast
  obtain st where st: "client_run dw (map (Api k) (cs @ [c'])) st0 = Inr st" "os st = w'"
    using client_run_ops [OF assms(1) s(2) assms(7) run] by blast
  from s(1) st(1) have "client_run dw (map (Api k) (Call_Global (wgpuCreateInstance desc) # cs @ [c'])) (client_start w) = Inr st"
    by simp
  moreover have "\<forall>p \<in> set ops. within_maximum p" using max unfolding ops by simp
  ultimately show ?thesis using s(3-5) ops run [unfolded ops] st(2) by blast
qed

section \<open>Property\<close>

text \<open>
  C2: From the application to the server. A program creates an instance over a healthy connection
  (the kernel takes every chunk that \<open>send\<close> offers whole), makes any calls of the exported
  functions other than a second \<open>wgpuCreateInstance\<close> and \<open>wgpuInstanceRelease\<close>, whose commands are
  at most as long as Dawn's serializer allows, 1999976 bytes, and ends with one that flushes;
  every call returns. Whatever pieces the stream on the socket arrives in, the server's handler
  has then been given exactly the commands that Dawn's wire client wrote for the calls, in the
  order of the calls, with nothing lost, repeated or added: also for the calls that the library
  intercepts.
\<close>

theorem Application_commands_reach_server:
  assumes "writes_commands dw cmds post" "fitting_commands cmds"
    and "unix_socket (ie_unix k) = Opens fd" "unix_connect (ie_unix k) = None"
    and "accepts_all w" "tx w (int fd) = []"
    and "\<forall>c \<in> set (cs @ [c']). session_call c" "flushes c'"
  shows "\<exists>st. client_run dw (map (Api k) (Call_Global (wgpuCreateInstance desc) # cs @ [c'])) (client_start w) = Inr st
    \<and> (\<forall>ps stack a junk. pieces_ok ps \<and> concat ps = tx (os st) (int fd) \<and> stack_ok stack \<longrightarrow>
         handler_view (CommandTransport_Recv (\<lambda>a bs h. Inr (True, h @ bs)) (map Delivers ps) stack (fresh_receiver a junk) [])
         = Some (Inr (concat (session_commands cmds post (cs @ [c']) (snd (dw_reserve dw (dw_new dw))) 1))))"
proof -
  obtain st sb w0 oks sb' ops where r:
      "client_run dw (map (Api k) (Call_Global (wgpuCreateInstance desc) # cs @ [c'])) (client_start w) = Inr st"
      "holds sb []" "connected sb (int fd) w0" "tx w0 (int fd) = []"
      "session_ops cmds post (cs @ [c']) (snd (dw_reserve dw (dw_new dw))) 1 = ops @ [Flush_op]"
      "\<forall>p \<in> set ops. within_maximum p" "wire_run (ops @ [Flush_op]) sb w0 = Inr (oks, sb', os st)"
    using application_run [OF assms, of desc] by blast
  have "concat (map payload ops) = concat (session_commands cmds post (cs @ [c']) (snd (dw_reserve dw (dw_new dw))) 1)"
    using payload_session [of cmds post "cs @ [c']" "snd (dw_reserve dw (dw_new dw))" 1] unfolding r(5) by simp
  then have "handler_view (CommandTransport_Recv (\<lambda>a bs h. Inr (True, h @ bs)) (map Delivers ps) stack (fresh_receiver a junk) [])
      = Some (Inr (concat (session_commands cmds post (cs @ [c']) (snd (dw_reserve dw (dw_new dw))) 1)))"
    if "pieces_ok ps" "concat ps = tx (os st) (int fd)" "stack_ok stack" for ps stack a junk
    using wire_nothing_lost [OF r(2-4,6,7) that(3,1,2), of a junk] by simp
  with r(1) show ?thesis by blast
qed

section \<open>Witness\<close>

text \<open>A wire client that numbers its calls and writes the number as a command.\<close>

definition numbering_dawn :: "nat dawn" where
  "numbering_dawn = \<lparr>dw_procs = (\<lambda>_. True), dw_new = 0, dw_reserve = (\<lambda>d. (4096, Suc d)),
     dw_call = (\<lambda>s args d sb w. rbind (wire_run (map Put [[of_nat d]]) sb w) (\<lambda>(oks, sb', w'). Inr (None, Suc d, sb', w')))\<rparr>"

lemma numbering_writes: "writes_commands numbering_dawn (\<lambda>s args d. [[of_nat d]]) (\<lambda>s args d. (None, Suc d))"
  by (simp add: writes_commands_def numbering_dawn_def)

lemma Application_commands_reach_server_witness:
  "\<exists>st. client_run numbering_dawn (map (Api demo_env) [Call_Global (wgpuCreateInstance 0), Call_Device (wgpuDeviceGetQueue 7),
        Call_Adapter (wgpuAdapterGetInstance 5), Call_Instance (wgpuInstanceRequestAdapter 4096 0 55 66),
        Call_Instance (wgpuInstanceProcessEvents 4096)]) (client_start server_world) = Inr st
     \<and> handler_view (CommandTransport_Recv (\<lambda>a bs h. Inr (True, h @ bs)) (map Delivers (chunks_of 7 (tx (os st) 3)))
         demo_stack (fresh_receiver 1 (\<lambda>_. 0)) []) = Some (Inr [1, 2, 3])"
proof -
  let ?cs = "[Call_Device (wgpuDeviceGetQueue 7), Call_Adapter (wgpuAdapterGetInstance 5),
      Call_Instance (wgpuInstanceRequestAdapter 4096 0 55 66)]"
  let ?c' = "Call_Instance (wgpuInstanceProcessEvents 4096)"
  have fit: "fitting_commands (\<lambda>s args (d :: nat). [[of_nat d :: byte]])"
    by (simp add: fitting_commands_def)
  have net: "unix_socket (ie_unix demo_env) = Opens 3" "unix_connect (ie_unix demo_env) = None"
      "accepts_all server_world" "tx server_world (int 3) = []"
    by (simp_all add: demo_env_def server_world_def no_world_def accepts_all_def SEND_BUF_def)
  have calls: "\<forall>c \<in> set (?cs @ [?c']). session_call c" "flushes ?c'"
    by (simp_all add: session_call_def flushes_def)
  have cmds: "concat (session_commands (\<lambda>s args d. [[of_nat d]]) (\<lambda>s args d. (None, Suc d)) (?cs @ [?c'])
      (snd (dw_reserve numbering_dawn (dw_new numbering_dawn))) 1) = [1, 2, 3 :: byte]"
    by (simp add: numbering_dawn_def call_commands_def call_state_def local_call_def)
  obtain st where st: "client_run numbering_dawn (map (Api demo_env) (Call_Global (wgpuCreateInstance 0) # ?cs @ [?c']))
        (client_start server_world) = Inr st"
      "\<forall>ps stack a junk. pieces_ok ps \<and> concat ps = tx (os st) (int 3) \<and> stack_ok stack \<longrightarrow>
         handler_view (CommandTransport_Recv (\<lambda>a bs h. Inr (True, h @ bs)) (map Delivers ps) stack (fresh_receiver a junk) [])
         = Some (Inr [1, 2, 3])"
    using Application_commands_reach_server [OF numbering_writes fit net calls, of 0] cmds by auto
  have "pieces_ok (chunks_of 7 (tx (os st) (int 3))) \<and> concat (chunks_of 7 (tx (os st) (int 3))) = tx (os st) (int 3)"
    by (simp add: pieces_ok_chunks concat_chunks_of)
  with st stack_ok_demo show ?thesis by fastforce
qed

end
