(* ===== verification/Whole_System.thy ===== *)
theory Whole_System
  imports Client_Wire
begin

text \<open>
  Application, client library, server program and back: the composition of \<open>Client_Wire\<close> and
  \<open>Server_Main\<close>.
\<close>

text \<open>The batches that the program's calls close: those of a queue that takes the commands and the flushes.\<close>

definition session_batches ::
  "(slot \<Rightarrow> cval list \<Rightarrow> 'd \<Rightarrow> byte list list) \<Rightarrow> (slot \<Rightarrow> cval list \<Rightarrow> 'd \<Rightarrow> cval option \<times> 'd)
   \<Rightarrow> api_call list \<Rightarrow> 'd \<Rightarrow> addr \<Rightarrow> byte list list list" where
  "session_batches cmds post cs d n = q_sent (snd (queue_run (session_ops cmds post cs d n) queue_start))"

text \<open>
  C1: The whole way and back. A program creates an instance over a healthy connection (the kernel
  takes every chunk that \<open>send\<close> offers whole, in both directions), makes any calls of the exported
  functions other than a second \<open>wgpuCreateInstance\<close> and \<open>wgpuInstanceRelease\<close>, and ends with one
  that flushes. The server program serves the stream that results, with a wire server whose
  replies are a function of the batches, until it ends; the client's receive thread reads the
  stream of the server; both streams are cut into pieces at will. Commands and replies are at
  most as long as Dawn's serializer allows, 1999976 bytes. Every call returns, the server exits
  with 0, and the client's handler gets exactly the batches of replies, in order, to the batches
  of the commands of the calls; together they hold every reply.
\<close>

theorem Application_round_trip:
  fixes inject :: "'s \<Rightarrow> 's" and d :: 's
  assumes "writes_commands dw cmds post" "fitting_commands cmds"
    and "unix_socket (ie_unix ck) = Opens cfd'" "unix_connect (ie_unix ck) = None"
    and "accepts_all cw" "tx cw (int cfd') = []"
    and "\<forall>c \<in> set (cs @ [c']). session_call c" "flushes c'"
    and "argv = [prog, ascii ''handle-fd'', path]" "length path \<le> 108" "cfd \<noteq> fd"
    and "accepts_all w" "tx w (int fd) = []" "reply_sizes_ok reply"
  defines "replies \<equiv> fst (answers reply
       (map concat (session_batches cmds post (cs @ [c']) (snd (dw_reserve dw (dw_new dw))) 1)) (inject d))"
  shows "\<exists>st. client_run dw (map (Api ck) (Call_Global (wgpuCreateInstance desc) # cs @ [c'])) (client_start cw) = Inr st
    \<and> (\<forall>ps k. pieces_ok ps \<and> concat ps = tx (os st) (int cfd') \<and> \<not> rs_no_instance k \<and> stack_ok (rs_stack k)
          \<and> rs_sockets k = \<lparr>fs_socket = Opens cfd, fs_connect = None, fs_recvmsg = Message (Some (Rights fd))\<rparr>
          \<and> rs_events k = map Delivers ps @ [Delivers []] \<longrightarrow>
        (\<exists>w'. server_main (answering reply) inject d argv k w = Exits 0 w'
          \<and> (\<forall>qs stack (hc :: 'h handler) a junk h. stack_ok stack \<and> pieces_ok qs \<and> concat qs = tx w' (int fd) \<longrightarrow>
               handler_view (CommandTransport_Recv hc (map Delivers qs) stack (fresh_receiver a junk) h)
               = Some (handle_all (hc a) (map concat replies) h))))
    \<and> concat replies = all_replies reply
         (map concat (session_batches cmds post (cs @ [c']) (snd (dw_reserve dw (dw_new dw))) 1)) (inject d)"
proof -
  obtain st sb w0 oks sb' ops where r:
      "client_run dw (map (Api ck) (Call_Global (wgpuCreateInstance desc) # cs @ [c'])) (client_start cw) = Inr st"
      "holds sb []" "connected sb (int cfd') w0" "tx w0 (int cfd') = []"
      "session_ops cmds post (cs @ [c']) (snd (dw_reserve dw (dw_new dw))) 1 = ops @ [Flush_op]"
      "\<forall>p \<in> set ops. within_maximum p" "wire_run (ops @ [Flush_op]) sb w0 = Inr (oks, sb', os st)"
    using application_run [OF assms(1-8), of desc] by blast
  have ok: "\<forall>p \<in> set (ops @ [Flush_op]). op_ok p" using r(6) ops_within_maximum by auto
  let ?bs = "session_batches cmds post (cs @ [c']) (snd (dw_reserve dw (dw_new dw))) 1"
  have batches: "?bs = q_sent (snd (queue_run (ops @ [Flush_op]) queue_start))"
    unfolding session_batches_def r(5) ..
  have bs: "tx (os st) (int cfd') = stream_bytes ?bs" "\<forall>b \<in> set ?bs. batch_ok b"
    using wire_stream [OF r(2-4) ok r(7)] unfolding batches by simp_all
  have "\<exists>w'. server_main (answering reply) inject d argv k w = Exits 0 w'
      \<and> (\<forall>qs stack (hc :: 'h handler) a junk h. stack_ok stack \<and> pieces_ok qs \<and> concat qs = tx w' (int fd) \<longrightarrow>
           handler_view (CommandTransport_Recv hc (map Delivers qs) stack (fresh_receiver a junk) h)
           = Some (handle_all (hc a) (map concat replies) h))"
    if k: "pieces_ok ps" "concat ps = tx (os st) (int cfd')" "\<not> rs_no_instance k" "stack_ok (rs_stack k)"
      "rs_sockets k = \<lparr>fs_socket = Opens cfd, fs_connect = None, fs_recvmsg = Message (Some (Rights fd))\<rparr>"
      "rs_events k = map Delivers ps @ [Delivers []]" for ps k
  proof -
    obtain w' where w': "server_main (answering reply) inject d argv k w = Exits 0 w'"
      using server_session [OF assms(9) k(3) assms(10) k(5) assms(12,13,11) k(4) assms(14) bs(2) k(1) _ k(6)] k(2) bs(1)
      by metis
    have "handler_view (CommandTransport_Recv hc (map Delivers qs) stack (fresh_receiver a junk) h)
        = Some (handle_all (hc a) (map concat replies) h)"
      if "stack_ok stack" "pieces_ok qs" "concat qs = tx w' (int fd)" for qs stack and hc :: "'h handler" and a junk h
      using request_reply [OF assms(9) k(3) assms(10) k(5) assms(12,13,11) k(4) assms(14) k(1,2,6) r(2-4) ok r(7) w' that]
      unfolding replies_def batches .
    with w' show ?thesis by blast
  qed
  moreover have "concat replies = all_replies reply (map concat ?bs) (inject d)"
    unfolding replies_def by (rule answers_all [OF assms(14)])
  ultimately show ?thesis using r(1) by blast
qed

section \<open>Witness\<close>

definition demo_calls :: "api_call list" where
  "demo_calls = [Call_Device (wgpuDeviceGetQueue 7), Call_Instance (wgpuInstanceRequestAdapter 4096 0 55 66)]"

definition demo_last :: api_call where
  "demo_last = Call_Instance (wgpuInstanceProcessEvents 4096)"

lemma demo_full_session: "\<forall>c \<in> set (demo_calls @ [demo_last]). session_call c" "flushes demo_last"
  by (simp_all add: demo_calls_def demo_last_def session_call_def flushes_def)

lemma demo_net: "unix_socket (ie_unix demo_env) = Opens 3" "unix_connect (ie_unix demo_env) = None"
    "accepts_all server_world" "tx server_world (int 3) = []"
  by (simp_all add: demo_env_def server_world_def no_world_def accepts_all_def SEND_BUF_def)

lemma demo_session_replies:
  "concat (map concat (fst (answers echo (map concat (session_batches (\<lambda>s args d. [[of_nat d]]) (\<lambda>s args d. (None, Suc d))
      (demo_calls @ [demo_last]) (snd (dw_reserve numbering_dawn (dw_new numbering_dawn))) 1)) (Suc 0)))) = [1, 2, 3 :: byte]"
  by (simp add: session_batches_def demo_calls_def demo_last_def numbering_dawn_def call_commands_def call_state_def
      local_call_def flushes_def queue_start_def queue_flush_def reply_batches_def echo_def)

lemma Application_round_trip_witness:
  "\<exists>st w'. client_run numbering_dawn (map (Api demo_env) (Call_Global (wgpuCreateInstance 0) # demo_calls @ [demo_last]))
        (client_start server_world) = Inr st
     \<and> server_main (answering echo) Suc 0 demo_argv
          (demo_run_script (map Delivers (chunks_of 9 (tx (os st) 3)) @ [Delivers []])) server_world = Exits 0 w'
     \<and> handler_view (CommandTransport_Recv (\<lambda>a bs h. Inr (True, h @ bs)) (map Delivers (chunks_of 4 (tx w' 4))) demo_stack
          (fresh_receiver 1 (\<lambda>_. 0)) []) = Some (Inr [1, 2, 3])"
proof -
  have fit: "fitting_commands (\<lambda>s args (d :: nat). [[of_nat d :: byte]])" by (simp add: fitting_commands_def)
  have ne: "(3 :: nat) \<noteq> 4" by simp
  obtain st where st: "client_run numbering_dawn (map (Api demo_env) (Call_Global (wgpuCreateInstance 0) # demo_calls @ [demo_last]))
        (client_start server_world) = Inr st"
    and server: "\<And>ps k. pieces_ok ps \<Longrightarrow> concat ps = tx (os st) (int 3) \<Longrightarrow> \<not> rs_no_instance k \<Longrightarrow> stack_ok (rs_stack k) \<Longrightarrow>
          rs_sockets k = \<lparr>fs_socket = Opens 3, fs_connect = None, fs_recvmsg = Message (Some (Rights 4))\<rparr> \<Longrightarrow>
          rs_events k = map Delivers ps @ [Delivers []] \<Longrightarrow>
        \<exists>w'. server_main (answering echo) Suc 0 demo_argv k server_world = Exits 0 w'
          \<and> (\<forall>qs stack (hc :: byte list handler) a junk h. stack_ok stack \<and> pieces_ok qs \<and> concat qs = tx w' (int 4) \<longrightarrow>
               handler_view (CommandTransport_Recv hc (map Delivers qs) stack (fresh_receiver a junk) h)
               = Some (handle_all (hc a) (map concat (fst (answers echo (map concat (session_batches (\<lambda>s args d. [[of_nat d]])
                   (\<lambda>s args d. (None, Suc d)) (demo_calls @ [demo_last]) (snd (dw_reserve numbering_dawn (dw_new numbering_dawn))) 1)) (Suc 0)))) h))"
    using Application_round_trip [OF numbering_writes fit demo_net demo_full_session demo_argv_ok ne server_world_ok echo_ok,
        where desc = 0 and inject = Suc and d = 0 and 'h = "byte list"] by blast
  have cut: "pieces_ok (chunks_of 9 bs) \<and> concat (chunks_of 9 bs) = bs" "pieces_ok (chunks_of 4 bs) \<and> concat (chunks_of 4 bs) = bs" for bs
    by (simp_all add: pieces_ok_chunks concat_chunks_of)
  let ?k = "demo_run_script (map Delivers (chunks_of 9 (tx (os st) 3)) @ [Delivers []])"
  have k: "\<not> rs_no_instance ?k" "stack_ok (rs_stack ?k)" "rs_events ?k = map Delivers (chunks_of 9 (tx (os st) 3)) @ [Delivers []]"
      "rs_sockets ?k = \<lparr>fs_socket = Opens 3, fs_connect = None, fs_recvmsg = Message (Some (Rights 4))\<rparr>"
    by (simp_all add: demo_run_script_def)
  obtain w' where w': "server_main (answering echo) Suc 0 demo_argv ?k server_world = Exits 0 w'"
    and r: "handler_view (CommandTransport_Recv (\<lambda>a bs h. Inr (True, h @ bs)) (map Delivers (chunks_of 4 (tx w' (int 4)))) demo_stack
          (fresh_receiver 1 (\<lambda>_. 0)) [])
        = Some (Inr (concat (map concat (fst (answers echo (map concat (session_batches (\<lambda>s args d. [[of_nat d]])
             (\<lambda>s args d. (None, Suc d)) (demo_calls @ [demo_last]) (snd (dw_reserve numbering_dawn (dw_new numbering_dawn))) 1)) (Suc 0))))))"
    using server [of "chunks_of 9 (tx (os st) 3)" ?k] k cut stack_ok_demo
    by (auto simp: handle_all_collect)
  show ?thesis using st w' r unfolding demo_session_replies by auto
qed

end
