(* ===== verification/Receive_Race.thy ===== *)
theory Receive_Race
  imports Client_Properties
begin

text \<open>
  Several receive threads on one connection, which is what a program gets that calls
  \<open>wgpuCreateInstance\<close> more than once: each runs \<open>Recv\<close>
  with its own local variables, all read the same socket and share the \<open>RecvBuffer\<close> and its
  handler. Here each piece of the stream goes to some thread, which handles it completely before
  the next piece arrives; finer interleavings are not modelled.
\<close>

section \<open>Threads that share a buffer\<close>

type_synonym 'h receivers = "recv_locals list \<times> RecvBuffer \<times> 'h"

definition receive_in :: "'h handler \<Rightarrow> nat \<times> byte list \<Rightarrow> 'h receivers \<Rightarrow> 'h receivers result option" where
  "receive_in hc e c = (case e of (t, piece) \<Rightarrow> case c of (ls, rb, h) \<Rightarrow>
     map_option (map_sum id (\<lambda>(l', rb', h'). (ls[t := l'], rb', h'))) (recv_piece hc (ls ! t, rb, h) piece))"

fun receive_all :: "'h handler \<Rightarrow> (nat \<times> byte list) list \<Rightarrow> 'h receivers \<Rightarrow> 'h receivers result option" where
  "receive_all hc [] c = Some (Inr c)"
| "receive_all hc (e # es) c =
     (case receive_in hc e c of
        None \<Rightarrow> None
      | Some (Inl f) \<Rightarrow> Some (Inl f)
      | Some (Inr c') \<Rightarrow> receive_all hc es c')"

definition fresh_receivers :: "recv_locals list \<Rightarrow> addr \<Rightarrow> (nat \<Rightarrow> byte) \<Rightarrow> 'h \<Rightarrow> 'h receivers" where
  "fresh_receivers stacks a junk h = (map recv_entry stacks, fresh_receiver a junk, h)"

text \<open>A thread that waits for the header of a command.\<close>

definition at_header :: "recv_locals \<Rightarrow> bool" where
  "at_header l \<longleftrightarrow> stack_ok l \<and> hdr_len_left l = int TLV_SZ \<and> \<not> recv_cmd l"

text \<open>A shared buffer between two batches.\<close>

definition no_batch :: "addr \<Rightarrow> RecvBuffer \<Rightarrow> bool" where
  "no_batch a rb \<longleftrightarrow> RB_inv rb \<and> r_mHandler rb = Some a \<and> r_mOffset rb = 0"

lemma start_rel_iff: "recv_rel a (l, rb, h) (parser_start h') \<longleftrightarrow> at_header l \<and> no_batch a rb \<and> h = h'"
  by (auto simp: recv_rel_def parser_start_def at_header_def no_batch_def TLV_SZ_def unat_eq_0)




section \<open>Properties\<close>



text \<open>
  C25: A piece that ends inside a header breaks the framing: the rest of the stream, in another
  thread, is taken to begin with a header of its own, while one thread alone would have gone on
  with the header it had begun.
\<close>

theorem Second_receiver_misframes:
  assumes "stack_ok stack" "stack_ok stack'" "0 < k" "k < 12" "k < length s" "length s \<le> 65536"
  shows "map_option (map_sum id (\<lambda>(ls, rb, h'). h'))
      (receive_all hc [(0, take k s), (1, drop k s)] (fresh_receivers [stack, stack'] a junk h))
    = Some (map_sum id p_state (run_bytes (feed (hc a)) (parser_start h) (drop k s)))
  \<and> map_option (map_sum id (\<lambda>(ls, rb, h'). h'))
      (receive_all hc [(0, take k s), (0, drop k s)] (fresh_receivers [stack, stack'] a junk h))
    = Some (map_sum id p_state (run_bytes (feed (hc a)) (parser_start h) s))"
proof -
  let ?rb = "fresh_receiver a junk"
  have rel: "recv_rel a (recv_entry stack, ?rb, h) (parser_start h)"
    using assms(1) by (rule recv_rel_fresh)
  have hdr: "run_bytes (feed (hc a)) (parser_start h) (take k s) = Inr ((parser_start h)\<lparr>p_hdr := take k s\<rparr>)"
    using assms(4) by (subst feed_header_part) (simp_all add: parser_start_def TLV_SZ_def)
  obtain r where r: "recv_piece hc (recv_entry stack, ?rb, h) (take k s) = Some r"
      "rel_sum (=) (recv_rel a) r (run_bytes (feed (hc a)) (parser_start h) (take k s))"
    using recv_piece_implements [OF rel, of "take k s" hc] assms(3-5) by (auto simp: RECV_BUF_def)
  then obtain l1 rb1 h1 where c: "r = Inr (l1, rb1, h1)" "recv_rel a (l1, rb1, h1) ((parser_start h)\<lparr>p_hdr := take k s\<rparr>)"
    by (auto simp: hdr elim: rel_sum.cases)
  have b: "no_batch a rb1 \<and> h1 = h"
    using c(2) by (auto simp: recv_rel_def parser_start_def no_batch_def unat_eq_0)
  have rel1: "recv_rel a (recv_entry stack', rb1, h) (parser_start h)"
    using b recv_rel_fresh [OF assms(2), of a junk h] by (simp add: start_rel_iff)
  have d: "0 < length (drop k s)" "length (drop k s) \<le> RECV_BUF" using assms(5,6) by (simp_all add: RECV_BUF_def)
  obtain q where q: "recv_piece hc (recv_entry stack', rb1, h) (drop k s) = Some q"
      "rel_sum (=) (recv_rel a) q (run_bytes (feed (hc a)) (parser_start h) (drop k s))"
    using recv_piece_implements [OF rel1 d, of hc] by auto
  obtain q' where q': "recv_piece hc (l1, rb1, h1) (drop k s) = Some q'"
      "rel_sum (=) (recv_rel a) q' (run_bytes (feed (hc a)) ((parser_start h)\<lparr>p_hdr := take k s\<rparr>) (drop k s))"
    using recv_piece_implements [OF c(2) d, of hc] by auto
  have s: "run_bytes (feed (hc a)) ((parser_start h)\<lparr>p_hdr := take k s\<rparr>) (drop k s) = run_bytes (feed (hc a)) (parser_start h) s"
    using run_bytes_append [of "feed (hc a)" "parser_start h" "take k s" "drop k s"] hdr by simp
  have view: "map_sum id (\<lambda>(ls, rb, h'). h') (map_sum id (\<lambda>(l', rb', h'). (f l', rb', h')) x) = map_sum id p_state y"
    if "rel_sum (=) (recv_rel a) x y" for x y and f :: "recv_locals \<Rightarrow> recv_locals list"
    using that by cases (auto dest: recv_rel_state)
  show ?thesis
    using r(1) c(1) b q q' view [OF q(2), of "\<lambda>l. [l1, l]"] view [OF q'(2), of "\<lambda>l. [l, recv_entry stack']"]
    by (cases q; cases q') (auto simp: receive_in_def fresh_receivers_def s)
qed

section \<open>Witnesses\<close>


text \<open>Cut after five bytes, the demo stream is lost on two threads, and complete on one.\<close>

lemma demo_misframed: "run_bytes (feed (demo_handler 1)) (parser_start []) (drop 5 demo_stream) = Inl NullPointer"
  by (simp add: demo_stream_def feed_def parser_start_def header_done_def decode_tlv_def TLV_SZ_def
      open_command_def BUFFER_SIZE_def)

lemma Second_receiver_misframes_witness:
  "map_option (map_sum id (\<lambda>(ls, rb, h'). h'))
      (receive_all demo_handler [(0, take 5 demo_stream), (1, drop 5 demo_stream)] (fresh_receivers [demo_stack, demo_stack] 1 (\<lambda>_. 0) []))
    = Some (Inl NullPointer)
   \<and> map_option (map_sum id (\<lambda>(ls, rb, h'). h'))
      (receive_all demo_handler [(0, take 5 demo_stream), (0, drop 5 demo_stream)] (fresh_receivers [demo_stack, demo_stack] 1 (\<lambda>_. 0) []))
    = Some (Inr [[65, 66, 67]])"
proof -
  have "(5 :: nat) < length demo_stream" "length demo_stream \<le> 65536" by (simp_all add: demo_stream_def)
  from Second_receiver_misframes [OF stack_ok_demo stack_ok_demo _ _ this, of demo_handler 1 "\<lambda>_. 0" "[]"]
  show ?thesis by (simp only: demo_misframed demo_parse) (simp add: parser_start_def)
qed

end
