(* ===== verification/Sender_Race.thy ===== *)
theory Sender_Race
  imports Wire_Link
begin

text \<open>
  Several threads that write into one \<open>SendBuffer\<close>, which nothing protects: the application's
  threads, and the receive thread when a callback of the application calls the API. To put a
  command a thread asks for space (\<open>GetCmdSpace\<close>) and then writes the bytes; between the two, other
  threads may do the same or flush. Here \<open>GetCmdSpace\<close>, the writing of one command and \<open>Flush\<close> are
  single steps, as if each call held a lock; \<open>Sender_Interleaving\<close> takes the calls apart into their
  accesses to the buffer and says when that is justified.
\<close>

section \<open>Threads\<close>

text \<open>A thread: what it has still to do, and the space it has been given and not yet written.\<close>

type_synonym writer = "wire_op list \<times> (nat \<times> byte list) option"

record shared =
  sh_buffer :: SendBuffer
  sh_world :: world
  sh_writers :: "writer list"

text \<open>
  A step of a thread. The label says which thread began which operation; the writing of the bytes
  has none.
\<close>

inductive writer_step :: "shared \<Rightarrow> (nat \<times> wire_op) option \<Rightarrow> shared result \<Rightarrow> bool" where
  space: "t < length (sh_writers s) \<Longrightarrow> sh_writers s ! t = (Put bs # os, None) \<Longrightarrow>
    SendBuffer_GetCmdSpace (of_nat (length bs)) (sh_buffer s) (sh_world s) = Inr (Some p, sb, w) \<Longrightarrow>
    writer_step s (Some (t, Put bs))
      (Inr \<lparr>sh_buffer = sb, sh_world = w, sh_writers = (sh_writers s)[t := (os, Some (p, bs))]\<rparr>)"
| no_space: "t < length (sh_writers s) \<Longrightarrow> sh_writers s ! t = (Put bs # os, None) \<Longrightarrow>
    SendBuffer_GetCmdSpace (of_nat (length bs)) (sh_buffer s) (sh_world s) = Inr (None, sb, w) \<Longrightarrow>
    writer_step s (Some (t, Put bs)) (Inr \<lparr>sh_buffer = sb, sh_world = w, sh_writers = (sh_writers s)[t := (os, None)]\<rparr>)"
| space_fault: "t < length (sh_writers s) \<Longrightarrow> sh_writers s ! t = (Put bs # os, None) \<Longrightarrow>
    SendBuffer_GetCmdSpace (of_nat (length bs)) (sh_buffer s) (sh_world s) = Inl f \<Longrightarrow>
    writer_step s (Some (t, Put bs)) (Inl f)"
| fill: "t < length (sh_writers s) \<Longrightarrow> sh_writers s ! t = (os, Some (p, bs)) \<Longrightarrow>
    store_bytes (s_mBuffer (sh_buffer s)) p bs = Inr b \<Longrightarrow>
    writer_step s None
      (Inr (s\<lparr>sh_buffer := (sh_buffer s)\<lparr>s_mBuffer := b\<rparr>, sh_writers := (sh_writers s)[t := (os, None)]\<rparr>))"
| fill_fault: "t < length (sh_writers s) \<Longrightarrow> sh_writers s ! t = (os, Some (p, bs)) \<Longrightarrow>
    store_bytes (s_mBuffer (sh_buffer s)) p bs = Inl f \<Longrightarrow> writer_step s None (Inl f)"
| flush: "t < length (sh_writers s) \<Longrightarrow> sh_writers s ! t = (Flush_op # os, None) \<Longrightarrow>
    SendBuffer_Flush (sh_buffer s) (sh_world s) = Inr (ok, sb, w) \<Longrightarrow>
    writer_step s (Some (t, Flush_op)) (Inr \<lparr>sh_buffer = sb, sh_world = w, sh_writers = (sh_writers s)[t := (os, None)]\<rparr>)"
| flush_fault: "t < length (sh_writers s) \<Longrightarrow> sh_writers s ! t = (Flush_op # os, None) \<Longrightarrow>
    SendBuffer_Flush (sh_buffer s) (sh_world s) = Inl f \<Longrightarrow> writer_step s (Some (t, Flush_op)) (Inl f)"

text \<open>Does an operation send the buffer? That nobody is still writing is what makes a step orderly.\<close>

fun sends :: "wire_op \<Rightarrow> SendBuffer \<Rightarrow> bool" where
  "sends (Put bs) sb \<longleftrightarrow> length bs \<le> 1999976 \<and> 2000000 < unat (s_mOffset sb) + length bs + 24"
| "sends Flush_op sb \<longleftrightarrow> s_mOffset sb \<noteq> 0"

definition quiet :: "shared \<Rightarrow> bool" where
  "quiet s \<longleftrightarrow> (\<forall>wr \<in> set (sh_writers s). snd wr = None)"

definition orderly :: "shared \<Rightarrow> (nat \<times> wire_op) option \<Rightarrow> bool" where
  "orderly s l \<longleftrightarrow> (case l of None \<Rightarrow> True | Some (t, q) \<Rightarrow> sends q (sh_buffer s) \<longrightarrow> quiet s)"

text \<open>A run with its labels; \<open>ord\<close> is the condition on its steps.\<close>

inductive writers_run :: "(shared \<Rightarrow> (nat \<times> wire_op) option \<Rightarrow> bool) \<Rightarrow> shared \<Rightarrow> (nat \<times> wire_op) list \<Rightarrow> shared result \<Rightarrow> bool"
  for ord s0 where
  start: "writers_run ord s0 [] (Inr s0)"
| next_label: "writers_run ord s0 ls (Inr s) \<Longrightarrow> writer_step s (Some l) r \<Longrightarrow> ord s (Some l) \<Longrightarrow> writers_run ord s0 (ls @ [l]) r"
| next_fill: "writers_run ord s0 ls (Inr s) \<Longrightarrow> writer_step s None r \<Longrightarrow> ord s None \<Longrightarrow> writers_run ord s0 ls r"

definition writers_start :: "SendBuffer \<Rightarrow> world \<Rightarrow> wire_op list list \<Rightarrow> shared" where
  "writers_start sb w progs = \<lparr>sh_buffer = sb, sh_world = w, sh_writers = map (\<lambda>os. (os, None)) progs\<rparr>"

section \<open>The buffer as if every command had been written at once\<close>

definition region :: "nat \<times> byte list \<Rightarrow> nat set" where
  "region = (\<lambda>(p, bs). {p..<p + length bs})"

definition pending :: "writer list \<Rightarrow> nat \<Rightarrow> (nat \<times> byte list) option" where
  "pending ws t = (if t < length ws then snd (ws ! t) else None)"

text \<open>
  The buffer \<open>sb\<close> of the threads and the buffer \<open>sb'\<close> of a single thread differ only in the spaces
  that are not yet written; these do not overlap and lie before the offset.
\<close>

definition written_up_to :: "SendBuffer \<Rightarrow> writer list \<Rightarrow> SendBuffer \<Rightarrow> bool" where
  "written_up_to sb ws sb' \<longleftrightarrow>
     s_mTransport sb = s_mTransport sb' \<and> s_mOffset sb = s_mOffset sb' \<and> bsize (s_mBuffer sb) = bsize (s_mBuffer sb')
     \<and> (\<forall>t p bs. pending ws t = Some (p, bs) \<longrightarrow> p + length bs \<le> unat (s_mOffset sb') \<and> peek (s_mBuffer sb') p (length bs) = bs)
     \<and> (\<forall>t u x y. t \<noteq> u \<and> pending ws t = Some x \<and> pending ws u = Some y \<longrightarrow> region x \<inter> region y = {})
     \<and> (\<forall>i. (\<forall>t x. pending ws t = Some x \<longrightarrow> i \<notin> region x) \<longrightarrow> bdata (s_mBuffer sb) i = bdata (s_mBuffer sb') i)"

lemma written_up_toI:
  assumes "s_mTransport sb = s_mTransport sb'" "s_mOffset sb = s_mOffset sb'" "bsize (s_mBuffer sb) = bsize (s_mBuffer sb')"
    and "\<And>t p bs. pending ws t = Some (p, bs) \<Longrightarrow> p + length bs \<le> unat (s_mOffset sb') \<and> peek (s_mBuffer sb') p (length bs) = bs"
    and "\<And>t u x y. t \<noteq> u \<Longrightarrow> pending ws t = Some x \<Longrightarrow> pending ws u = Some y \<Longrightarrow> region x \<inter> region y = {}"
    and "\<And>i. (\<And>t x. pending ws t = Some x \<Longrightarrow> i \<notin> region x) \<Longrightarrow> bdata (s_mBuffer sb) i = bdata (s_mBuffer sb') i"
  shows "written_up_to sb ws sb'"
  unfolding written_up_to_def using assms by blast

lemma pending_update: "t < length ws \<Longrightarrow> pending (ws[t := (os, x)]) = (pending ws)(t := x)"
  by (auto simp: pending_def nth_list_update)

lemma quiet_pending: "quiet s \<Longrightarrow> pending (sh_writers s) t = None"
  by (simp add: quiet_def pending_def)

lemma written_up_to_quiet:
  assumes "written_up_to sb ws sb'" "\<And>t. pending ws t = None"
  shows "sb = sb'"
proof -
  have "bdata (s_mBuffer sb) = bdata (s_mBuffer sb')"
    using assms unfolding written_up_to_def by (intro ext) simp
  with assms show ?thesis
    unfolding written_up_to_def by (cases sb; cases sb'; cases "s_mBuffer sb"; cases "s_mBuffer sb'") simp
qed

lemma written_up_to_same: "(\<And>t. pending ws t = None) \<Longrightarrow> written_up_to sb ws sb"
  by (simp add: written_up_to_def)

lemma written_up_to_unchanged:
  assumes "written_up_to sb ws sb'" "t < length ws" "pending ws t = None"
  shows "written_up_to sb (ws[t := (os, None)]) sb'"
proof -
  have e: "pending (ws[t := (os, None)]) = pending ws" using assms(2,3) by (simp add: pending_update fun_upd_idem)
  show ?thesis using assms(1) unfolding written_up_to_def e .
qed

lemma written_up_to_fill:
  assumes "written_up_to sb ws sb'" "t < length ws" "pending ws t = Some (p, bs)"
  shows "written_up_to (sb\<lparr>s_mBuffer := poke (s_mBuffer sb) p bs\<rparr>) (ws[t := (os, None)]) sb'"
proof -
  have pk: "peek (s_mBuffer sb') p (length bs) = bs" using assms(1,3) by (simp add: written_up_to_def)
  have at: "bdata (s_mBuffer sb') i = bs ! (i - p)" if "p \<le> i" "i < p + length bs" for i
  proof -
    have "bs ! (i - p) = peek (s_mBuffer sb') p (length bs) ! (i - p)" by (simp add: pk)
    also have "\<dots> = bdata (s_mBuffer sb') (p + (i - p))"
      using that by (simp only: peek_def length_map length_upt nth_map nth_upt) simp
    also have "\<dots> = bdata (s_mBuffer sb') i" using that by simp
    finally show ?thesis by simp
  qed
  have "bdata (poke (s_mBuffer sb) p bs) i = bdata (s_mBuffer sb') i"
    if i: "\<forall>u x. u \<noteq> t \<and> pending ws u = Some x \<longrightarrow> i \<notin> region x" for i
  proof (cases "i \<in> region (p, bs)")
    case True
    then show ?thesis using at [of i] by (simp add: poke_def region_def)
  next
    case False
    with i assms(3) have "\<forall>u x. pending ws u = Some x \<longrightarrow> i \<notin> region x" by (metis option.inject)
    then have "bdata (s_mBuffer sb) i = bdata (s_mBuffer sb') i" using assms(1) by (simp add: written_up_to_def)
    with False show ?thesis by (auto simp: poke_def region_def)
  qed
  with assms show ?thesis
    unfolding written_up_to_def by (simp add: pending_update) metis
qed

lemma written_up_to_space:
  assumes "written_up_to sb ws sb'" "t < length ws" "pending ws t = None"
    and "SB_inv sb'" "unat (s_mOffset sb') + length bs + 24 \<le> BUFFER_SIZE"
    and "put_command bs sb' w = Inr (ok, sb1', w1)"
  shows "\<exists>sb1. SendBuffer_GetCmdSpace (of_nat (length bs)) sb w = Inr (Some (unat (s_mOffset sb') + 12), sb1, w)
    \<and> ok \<and> w1 = w \<and> written_up_to sb1 (ws[t := (os, Some (unat (s_mOffset sb') + 12, bs))]) sb1'"
proof -
  let ?off = "unat (s_mOffset sb')" and ?h = "encode_tlv \<lparr>tlv_type = 1, tlv_len = of_nat (length bs)\<rparr>"
  have off: "s_mOffset sb = s_mOffset sb'" and size: "bsize (s_mBuffer sb) = bsize (s_mBuffer sb')"
    and tr: "s_mTransport sb = s_mTransport sb'"
    using assms(1) by (simp_all add: written_up_to_def)
  have l: "unat (of_nat (length bs) :: size_t) = length bs"
    using assms(5) by (intro unat_of_nat_size) (simp add: buffer_consts)
  have n: "unat (of_nat (?off + length bs + 12) :: size_t) = ?off + length bs + 12"
    using assms(5) by (intro unat_of_nat_size) (simp add: buffer_consts)
  have inv: "SB_inv sb" using assms(4) off size by (simp add: SB_inv_def)
  have room: "?off + unat (of_nat (length bs) :: size_t) + 24 \<le> BUFFER_SIZE" using assms(5) l by simp
  let ?sb1 = "sb\<lparr>s_mBuffer := poke (s_mBuffer sb) ?off ?h, s_mOffset := of_nat (?off + length bs + 12)\<rparr>"
  have g: "SendBuffer_GetCmdSpace (of_nat (length bs)) sb w = Inr (Some (?off + 12), ?sb1, w)"
    using GetCmdSpace_fits [OF inv, of "of_nat (length bs)" w] room off l by simp
  have "in_block (s_mBuffer sb') (?off + 12) (length bs)"
    using assms(4,5) by (simp add: in_block_def SB_inv_def buffer_consts)
  then have s1: "ok" "w1 = w" "s_mBuffer sb1' = poke (poke (s_mBuffer sb') ?off ?h) (?off + 12) bs"
      "s_mOffset sb1' = of_nat (?off + length bs + 12)" "s_mTransport sb1' = s_mTransport sb'"
    using assms(6) GetCmdSpace_fits [OF assms(4), of "of_nat (length bs)" w] room l
    by (auto simp: put_command_def store_bytes_in)
  let ?P = "(pending ws)(t \<mapsto> (?off + 12, bs))"
  have before: "p + length cs \<le> ?off" "peek (s_mBuffer sb') p (length cs) = cs"
    if "pending ws u = Some (p, cs)" for u p cs
    using assms(1) that by (simp_all add: written_up_to_def)
  have m1: "p + length cs \<le> ?off + length bs + 12
      \<and> peek (poke (poke (s_mBuffer sb') ?off ?h) (?off + 12) bs) p (length cs) = cs"
    if "?P u = Some (p, cs)" for u p cs
    using that before [of u p cs] by (auto simp: peek_poke_same peek_poke_before split: if_splits)
  have m2: "region x \<inter> region y = {}" if "u \<noteq> v" "?P u = Some x" "?P v = Some y" for u v x y
  proof -
    have far: "region z \<inter> region (?off + 12, bs) = {}" if "pending ws u = Some z" for u z
      using before(1) [of u "fst z" "snd z"] that by (auto simp: region_def)
    show ?thesis
    proof (cases "u = t")
      case True
      with that far [of v y] show ?thesis by auto
    next
      case False
      show ?thesis
      proof (cases "v = t")
        case True
        with that False far [of u x] show ?thesis by auto
      next
        case v: False
        with False that have "pending ws u = Some x" "pending ws v = Some y" by simp_all
        with assms(1) that(1) show ?thesis unfolding written_up_to_def by blast
      qed
    qed
  qed
  have m3: "bdata (poke (s_mBuffer sb) ?off ?h) i = bdata (poke (poke (s_mBuffer sb') ?off ?h) (?off + 12) bs) i"
    if i: "\<And>u x. ?P u = Some x \<Longrightarrow> i \<notin> region x" for i
  proof -
    have t: "i \<notin> region (?off + 12, bs)" using i [of t] by simp
    have "\<forall>u x. pending ws u = Some x \<longrightarrow> i \<notin> region x"
      using i assms(3) by (metis fun_upd_other option.distinct(1))
    then have "bdata (s_mBuffer sb) i = bdata (s_mBuffer sb') i" using assms(1) by (simp add: written_up_to_def)
    with t show ?thesis by (auto simp: poke_def region_def)
  qed
  have "written_up_to ?sb1 (ws[t := (os, Some (?off + 12, bs))]) sb1'"
  proof (rule written_up_toI; (unfold pending_update [OF assms(2)])?)
    show "s_mTransport ?sb1 = s_mTransport sb1'" "s_mOffset ?sb1 = s_mOffset sb1'"
      "bsize (s_mBuffer ?sb1) = bsize (s_mBuffer sb1')"
      using s1(3-5) tr size by simp_all
    show "\<And>u p cs. ?P u = Some (p, cs) \<Longrightarrow> p + length cs \<le> unat (s_mOffset sb1') \<and> peek (s_mBuffer sb1') p (length cs) = cs"
      unfolding s1(3,4) n by (rule m1)
    show "\<And>i. (\<And>u x. ?P u = Some x \<Longrightarrow> i \<notin> region x) \<Longrightarrow> bdata (s_mBuffer ?sb1) i = bdata (s_mBuffer sb1') i"
      unfolding s1(3) using m3 by simp
  qed (rule m2)
  with g s1(1,2) show ?thesis by blast
qed

section \<open>Orderly runs\<close>

text \<open>
  What holds after a run with the labels \<open>ls\<close>: a single thread that does the operations in the order of
  the labels ends with the same world and, up to the spaces not yet written, the same buffer; and
  each thread has done a beginning of its program.
\<close>

definition serial :: "int \<Rightarrow> SendBuffer \<Rightarrow> world \<Rightarrow> wire_op list list \<Rightarrow> (nat \<times> wire_op) list \<Rightarrow> shared \<Rightarrow> bool" where
  "serial fd sb w progs ls s \<longleftrightarrow>
     (\<exists>oks sb'. wire_run (map snd ls) sb w = Inr (oks, sb', sh_world s)
        \<and> sender_rel fd (tx w fd) (sb', sh_world s) (snd (queue_run (map snd ls) queue_start))
        \<and> written_up_to (sh_buffer s) (sh_writers s) sb')
     \<and> length (sh_writers s) = length progs
     \<and> (\<forall>t < length progs. map snd (filter (\<lambda>l. fst l = t) ls) @ fst (sh_writers s ! t) = progs ! t)"

lemma serial_start:
  assumes "holds sb []" "connected sb fd w"
  shows "serial fd sb w progs [] (writers_start sb w progs)"
  using assms sender_start [OF assms]
  by (auto simp: serial_def writers_start_def pending_def intro!: written_up_to_same)

text \<open>A thread begins an operation: the single thread does it.\<close>

lemma serial_label:
  assumes "serial fd sb w progs ls s" "t < length (sh_writers s)" "sh_writers s ! t = (q # os, None)"
    and "\<And>sb'. sender_rel fd (tx w fd) (sb', sh_world s) (snd (queue_run (map snd ls) queue_start)) \<Longrightarrow>
       written_up_to (sh_buffer s) (sh_writers s) sb' \<Longrightarrow>
       \<exists>ok sb''. wire_step q sb' (sh_world s) = Inr (ok, sb'', w1)
         \<and> sender_rel fd (tx w fd) (sb'', w1) (snd (queue_step q (snd (queue_run (map snd ls) queue_start))))
         \<and> written_up_to sb1 ((sh_writers s)[t := (os, x)]) sb''"
  shows "serial fd sb w progs (ls @ [(t, q)]) \<lparr>sh_buffer = sb1, sh_world = w1, sh_writers = (sh_writers s)[t := (os, x)]\<rparr>"
proof -
  obtain oks sb' where run: "wire_run (map snd ls) sb w = Inr (oks, sb', sh_world s)"
    and rel: "sender_rel fd (tx w fd) (sb', sh_world s) (snd (queue_run (map snd ls) queue_start))"
      "written_up_to (sh_buffer s) (sh_writers s) sb'"
    using assms(1) unfolding serial_def by blast
  obtain ok sb'' where step: "wire_step q sb' (sh_world s) = Inr (ok, sb'', w1)"
      "sender_rel fd (tx w fd) (sb'', w1) (snd (queue_step q (snd (queue_run (map snd ls) queue_start))))"
      "written_up_to sb1 ((sh_writers s)[t := (os, x)]) sb''"
    using assms(4) [OF rel] by blast
  have "wire_run (map snd (ls @ [(t, q)])) sb w = Inr (oks @ [ok], sb'', w1)"
    using run step(1) by (simp add: wire_run_append)
  moreover have "snd (queue_run (map snd (ls @ [(t, q)])) queue_start) = snd (queue_step q (snd (queue_run (map snd ls) queue_start)))"
    by (simp add: queue_run_append case_prod_unfold)
  moreover have "map snd (filter (\<lambda>l. fst l = u) (ls @ [(t, q)])) @ fst ((sh_writers s)[t := (os, x)] ! u) = progs ! u"
    if "u < length progs" for u
    using assms(1-3) that by (auto simp: serial_def nth_list_update)
  ultimately show ?thesis
    using step(2,3) assms(1) unfolding serial_def by auto
qed

text \<open>The writing of the bytes: the buffers come closer; nothing else changes.\<close>

lemma serial_fill:
  assumes "serial fd sb w progs ls s" "t < length (sh_writers s)" "sh_writers s ! t = (os, Some (p, bs))"
  shows "store_bytes (s_mBuffer (sh_buffer s)) p bs = Inr (poke (s_mBuffer (sh_buffer s)) p bs)
    \<and> serial fd sb w progs ls (s\<lparr>sh_buffer := (sh_buffer s)\<lparr>s_mBuffer := poke (s_mBuffer (sh_buffer s)) p bs\<rparr>,
        sh_writers := (sh_writers s)[t := (os, None)]\<rparr>)"
proof -
  obtain oks sb' where run: "wire_run (map snd ls) sb w = Inr (oks, sb', sh_world s)"
    and rel: "sender_rel fd (tx w fd) (sb', sh_world s) (snd (queue_run (map snd ls) queue_start))"
    and up: "written_up_to (sh_buffer s) (sh_writers s) sb'"
    using assms(1) unfolding serial_def by blast
  have pend: "pending (sh_writers s) t = Some (p, bs)" using assms(2,3) by (simp add: pending_def)
  have "SB_inv sb'" using rel by (simp add: sender_rel_def holds_def)
  moreover have "p + length bs \<le> unat (s_mOffset sb')" "bsize (s_mBuffer (sh_buffer s)) = bsize (s_mBuffer sb')"
    using up pend by (simp_all add: written_up_to_def)
  ultimately have "in_block (s_mBuffer (sh_buffer s)) p (length bs)"
    by (simp add: in_block_def SB_inv_def buffer_consts)
  moreover have "map snd (filter (\<lambda>l. fst l = u) ls) @ fst ((sh_writers s)[t := (os, None)] ! u) = progs ! u"
    if "u < length progs" for u
    using assms that by (auto simp: serial_def nth_list_update)
  ultimately show ?thesis
    using written_up_to_fill [OF up assms(2) pend, of os] run rel assms(1)
    unfolding serial_def by (auto simp: store_bytes_in)
qed

lemma serial_op_ok:
  assumes "serial fd sb w progs ls s" "\<forall>os \<in> set progs. \<forall>p \<in> set os. op_ok p"
    and "t < length (sh_writers s)" "sh_writers s ! t = (q # os, x)"
  shows "op_ok q"
proof -
  have t: "t < length progs" "map snd (filter (\<lambda>l. fst l = t) ls) @ q # os = progs ! t"
    using assms(1,3,4) by (auto simp: serial_def)
  then have "q \<in> set (progs ! t)" by (metis in_set_conv_decomp)
  with t(1) assms(2) show ?thesis by (meson nth_mem)
qed

lemma orderly_flush:
  assumes "serial fd sb w progs ls s" "t < length (sh_writers s)" "sh_writers s ! t = (Flush_op # os, None)"
    and "orderly s (Some (t, Flush_op))"
  shows "\<exists>ok sb1 w1. SendBuffer_Flush (sh_buffer s) (sh_world s) = Inr (ok, sb1, w1)
    \<and> serial fd sb w progs (ls @ [(t, Flush_op)]) \<lparr>sh_buffer = sb1, sh_world = w1, sh_writers = (sh_writers s)[t := (os, None)]\<rparr>"
proof -
  let ?q = "snd (queue_run (map snd ls) queue_start)"
  have idle: "pending (sh_writers s) t = None" using assms(2,3) by (simp add: pending_def)
  obtain sb' where rel: "sender_rel fd (tx w fd) (sb', sh_world s) ?q" "written_up_to (sh_buffer s) (sh_writers s) sb'"
    using assms(1) unfolding serial_def by blast
  show ?thesis
  proof (cases "s_mOffset (sh_buffer s) = 0")
    case True
    have "\<exists>ok sb''. wire_step Flush_op sb2 (sh_world s) = Inr (ok, sb'', sh_world s)
         \<and> sender_rel fd (tx w fd) (sb'', sh_world s) (snd (queue_step Flush_op ?q))
         \<and> written_up_to (sh_buffer s) ((sh_writers s)[t := (os, None)]) sb''"
      if "sender_rel fd (tx w fd) (sb2, sh_world s) ?q" "written_up_to (sh_buffer s) (sh_writers s) sb2" for sb2
    proof -
      have "s_mOffset sb2 = 0" using that(2) True by (simp add: written_up_to_def)
      with sender_flush [OF that(1)] written_up_to_unchanged [OF that(2) assms(2) idle] show ?thesis
        by (auto simp: wire_step_def)
    qed
    from serial_label [OF assms(1-3) this] True show ?thesis by auto
  next
    case False
    then have none: "pending (sh_writers s) u = None" for u
      using assms(4) quiet_pending [of s u] by (simp add: orderly_def)
    have same: "sb2 = sh_buffer s" if "written_up_to (sh_buffer s) (sh_writers s) sb2" for sb2
      using written_up_to_quiet [OF that none] by simp
    obtain sb1 w1 where f: "SendBuffer_Flush (sh_buffer s) (sh_world s) = Inr (True, sb1, w1)"
        "sender_rel fd (tx w fd) (sb1, w1) (queue_flush ?q)"
      using sender_flush [OF rel(1)] same [OF rel(2)] by auto
    have "\<exists>ok sb''. wire_step Flush_op sb2 (sh_world s) = Inr (ok, sb'', w1)
         \<and> sender_rel fd (tx w fd) (sb'', w1) (snd (queue_step Flush_op ?q))
         \<and> written_up_to sb1 ((sh_writers s)[t := (os, None)]) sb''"
      if "sender_rel fd (tx w fd) (sb2, sh_world s) ?q" "written_up_to (sh_buffer s) (sh_writers s) sb2" for sb2
      using f same [OF that(2)] none
      by (auto simp: wire_step_def pending_update [OF assms(2)] intro!: written_up_to_same)
    from serial_label [OF assms(1-3) this] f(1) show ?thesis by blast
  qed
qed

lemma orderly_put:
  assumes "serial fd sb w progs ls s" "t < length (sh_writers s)" "sh_writers s ! t = (Put bs # os, None)"
    and "orderly s (Some (t, Put bs))" "length bs \<le> PTRDIFF_MAX"
  shows "\<exists>r sb1 w1. SendBuffer_GetCmdSpace (of_nat (length bs)) (sh_buffer s) (sh_world s) = Inr (r, sb1, w1)
    \<and> serial fd sb w progs (ls @ [(t, Put bs)]) \<lparr>sh_buffer = sb1, sh_world = w1,
        sh_writers = (sh_writers s)[t := (os, map_option (\<lambda>p. (p, bs)) r)]\<rparr>"
proof -
  let ?q = "snd (queue_run (map snd ls) queue_start)"
  have idle: "pending (sh_writers s) t = None" using assms(2,3) by (simp add: pending_def)
  obtain sb' where rel: "sender_rel fd (tx w fd) (sb', sh_world s) ?q" "written_up_to (sh_buffer s) (sh_writers s) sb'"
    using assms(1) unfolding serial_def by blast
  have off: "s_mOffset (sh_buffer s) = s_mOffset sb2" "unat (s_mOffset sb2) = length (frames (q_open ?q))" "SB_inv sb2"
    if "sender_rel fd (tx w fd) (sb2, sh_world s) ?q" "written_up_to (sh_buffer s) (sh_writers s) sb2" for sb2
    using that by (simp_all add: written_up_to_def sender_rel_def holds_def)
  have l: "unat (of_nat (length bs) :: size_t) = length bs"
    using assms(5) by (intro unat_of_nat_size) (simp add: PTRDIFF_MAX_def)
  consider (large) "1999976 < length bs"
    | (fits) "length (frames (q_open ?q)) + length bs + 24 \<le> 2000000"
    | (full) "length bs \<le> 1999976" "2000000 < length (frames (q_open ?q)) + length bs + 24"
    by linarith
  then show ?thesis
  proof cases
    case large
    have g: "SendBuffer_GetCmdSpace (of_nat (length bs)) (sh_buffer s) (sh_world s) = Inr (None, sh_buffer s, sh_world s)"
      using large assms(5) l by (intro GetCmdSpace_too_large) (simp_all add: BUFFER_SIZE_def PTRDIFF_MAX_def)
    have "\<exists>ok sb''. wire_step (Put bs) sb2 (sh_world s) = Inr (ok, sb'', sh_world s)
         \<and> sender_rel fd (tx w fd) (sb'', sh_world s) (snd (queue_step (Put bs) ?q))
         \<and> written_up_to (sh_buffer s) ((sh_writers s)[t := (os, None)]) sb''"
      if "sender_rel fd (tx w fd) (sb2, sh_world s) ?q" "written_up_to (sh_buffer s) (sh_writers s) sb2" for sb2
      using that large assms(5) written_up_to_unchanged [OF that(2) assms(2) idle]
      by (auto simp: wire_step_def put_command_too_large)
    from serial_label [OF assms(1-3) this] g show ?thesis by auto
  next
    case fits
    have step: "\<exists>sb1 sb''. SendBuffer_GetCmdSpace (of_nat (length bs)) (sh_buffer s) (sh_world s)
           = Inr (Some (unat (s_mOffset (sh_buffer s)) + 12), sb1, sh_world s)
         \<and> wire_step (Put bs) sb2 (sh_world s) = Inr (True, sb'', sh_world s)
         \<and> sender_rel fd (tx w fd) (sb'', sh_world s) (snd (queue_step (Put bs) ?q))
         \<and> written_up_to sb1 ((sh_writers s)[t := (os, Some (unat (s_mOffset (sh_buffer s)) + 12, bs))]) sb''"
      if r: "sender_rel fd (tx w fd) (sb2, sh_world s) ?q" "written_up_to (sh_buffer s) (sh_writers s) sb2" for sb2
    proof -
      obtain sb'' where p: "put_command bs sb2 (sh_world s) = Inr (True, sb'', sh_world s)"
          "sender_rel fd (tx w fd) (sb'', sh_world s) (?q\<lparr>q_open := q_open ?q @ [bs]\<rparr>)"
        using sender_put_fits [OF r(1) fits] by blast
      from written_up_to_space [OF r(2) assms(2) idle off(3) [OF r] _ p(1), of os] fits off(2) [OF r] off(1) [OF r] p
      show ?thesis using fits by (auto simp: wire_step_def Let_def BUFFER_SIZE_def)
    qed
    obtain sb1 where g: "SendBuffer_GetCmdSpace (of_nat (length bs)) (sh_buffer s) (sh_world s)
        = Inr (Some (unat (s_mOffset (sh_buffer s)) + 12), sb1, sh_world s)"
      using step [OF rel] by blast
    have "\<exists>ok sb''. wire_step (Put bs) sb2 (sh_world s) = Inr (ok, sb'', sh_world s)
         \<and> sender_rel fd (tx w fd) (sb'', sh_world s) (snd (queue_step (Put bs) ?q))
         \<and> written_up_to sb1 ((sh_writers s)[t := (os, Some (unat (s_mOffset (sh_buffer s)) + 12, bs))]) sb''"
      if "sender_rel fd (tx w fd) (sb2, sh_world s) ?q" "written_up_to (sh_buffer s) (sh_writers s) sb2" for sb2
      using step [OF that] g by auto
    from serial_label [OF assms(1-3) this] g show ?thesis by auto
  next
    case full
    then have "pending (sh_writers s) u = None" for u
      using assms(4) quiet_pending [of s u] off(1,2) [OF rel] by (auto simp: orderly_def)
    note none = this
    have same: "sb2 = sh_buffer s" if "written_up_to (sh_buffer s) (sh_writers s) sb2" for sb2
      using written_up_to_quiet [OF that none] by simp
    obtain sb1 w1 where f: "SendBuffer_Flush (sh_buffer s) (sh_world s) = Inr (True, sb1, w1)"
        "sender_rel fd (tx w fd) (sb1, w1) (queue_flush ?q)"
      using sender_flush [OF rel(1)] same [OF rel(2)] by auto
    have ne: "q_open ?q \<noteq> []" using full by auto
    then have empty: "q_open (queue_flush ?q) = []" by (simp add: queue_flush_def)
    have h: "holds (sh_buffer s) (q_open ?q)" using rel(1) same [OF rel(2)] by (simp add: sender_rel_def)
    have put: "put_command bs (sh_buffer s) (sh_world s) = put_command bs sb1 w1"
      using full by (intro put_command_no_room [OF h _ _ f(1)]) (simp_all add: BUFFER_SIZE_def)
    have g: "SendBuffer_GetCmdSpace (of_nat (length bs)) (sh_buffer s) (sh_world s) = SendBuffer_GetCmdSpace (of_nat (length bs)) sb1 w1"
      using GetCmdSpace_no_room [of "of_nat (length bs)" "sh_buffer s" "sh_world s"] f(1) full l off(2) [OF rel] same [OF rel(2)]
      by (simp add: BUFFER_SIZE_def)
    obtain sb'' where p: "put_command bs sb1 w1 = Inr (True, sb'', w1)"
        "sender_rel fd (tx w fd) (sb'', w1) ((queue_flush ?q)\<lparr>q_open := q_open (queue_flush ?q) @ [bs]\<rparr>)"
      using sender_put_fits [OF f(2), of bs] full(1) empty by auto
    have o1: "unat (s_mOffset sb1) = 0" "SB_inv sb1" using f(2) empty by (simp_all add: sender_rel_def holds_def)
    from written_up_to_space [OF written_up_to_same [OF none] assms(2) none o1(2) _ p(1), of os] o1(1) full(1)
    obtain sb2 where sp: "SendBuffer_GetCmdSpace (of_nat (length bs)) sb1 w1 = Inr (Some (unat (s_mOffset sb1) + 12), sb2, w1)"
        "written_up_to sb2 ((sh_writers s)[t := (os, Some (unat (s_mOffset sb1) + 12, bs))]) sb''"
      by (auto simp: BUFFER_SIZE_def)
    have "\<exists>ok sb''. wire_step (Put bs) sb3 (sh_world s) = Inr (ok, sb'', w1)
         \<and> sender_rel fd (tx w fd) (sb'', w1) (snd (queue_step (Put bs) ?q))
         \<and> written_up_to sb2 ((sh_writers s)[t := (os, Some (unat (s_mOffset sb1) + 12, bs))]) sb''"
      if "sender_rel fd (tx w fd) (sb3, sh_world s) ?q" "written_up_to (sh_buffer s) (sh_writers s) sb3" for sb3
      using p put sp(2) same [OF that(2)] full by (auto simp: wire_step_def Let_def)
    from serial_label [OF assms(1-3) this] g sp(1) show ?thesis by auto
  qed
qed

lemma orderly_step:
  assumes "serial fd sb w progs ls s" "\<forall>os \<in> set progs. \<forall>p \<in> set os. op_ok p"
    and "writer_step s l r" "orderly s l"
  shows "\<exists>s'. r = Inr s' \<and> serial fd sb w progs (ls @ (case l of None \<Rightarrow> [] | Some x \<Rightarrow> [x])) s'"
  using assms(3)
proof cases
  case (space t bs os p sb1 w1)
  then have "length bs \<le> PTRDIFF_MAX" using serial_op_ok [OF assms(1,2)] by fastforce
  with orderly_put [OF assms(1) space(3,4)] space assms(4) show ?thesis by fastforce
next
  case (no_space t bs os sb1 w1)
  then have "length bs \<le> PTRDIFF_MAX" using serial_op_ok [OF assms(1,2)] by fastforce
  with orderly_put [OF assms(1) no_space(3,4)] no_space assms(4) show ?thesis by fastforce
next
  case (space_fault t bs os f)
  then have "length bs \<le> PTRDIFF_MAX" using serial_op_ok [OF assms(1,2)] by fastforce
  with orderly_put [OF assms(1) space_fault(3,4)] space_fault assms(4) show ?thesis by fastforce
next
  case (fill t os p bs b)
  then show ?thesis using serial_fill [OF assms(1)] by fastforce
next
  case (fill_fault t os p bs f)
  then show ?thesis using serial_fill [OF assms(1)] by fastforce
next
  case (flush t os ok sb1 w1)
  with orderly_flush [OF assms(1) flush(3,4)] assms(4) show ?thesis by fastforce
next
  case (flush_fault t os f)
  with orderly_flush [OF assms(1) flush_fault(3,4)] assms(4) show ?thesis by fastforce
qed

lemma orderly_run:
  assumes "holds sb []" "connected sb fd w" "\<forall>os \<in> set progs. \<forall>p \<in> set os. op_ok p"
    and "writers_run orderly (writers_start sb w progs) ls r"
  shows "\<exists>s. r = Inr s \<and> serial fd sb w progs ls s"
  using assms(4)
proof induction
  case start
  show ?case using serial_start [OF assms(1,2)] by blast
next
  case (next_label ls s l r)
  with orderly_step [OF _ assms(3)] show ?case by fastforce
next
  case (next_fill ls s r)
  with orderly_step [OF _ assms(3)] show ?case by fastforce
qed

text \<open>
  As long as nobody sends the buffer while another thread has a space it has not yet written,
  threads that share a \<open>SendBuffer\<close> and whose calls are single steps behave like one thread. Whatever
  the order of the steps, nothing is
  accessed out of bounds, the kernel sees exactly what it sees when one thread does the operations in
  the order in which they were begun, each thread's operations are in the order of its program, whole
  batches in that order are on the connection, and when no space is left to be written the buffer
  is that of the single thread.
\<close>

theorem Orderly_writers_are_serial:
  assumes "holds sb []" "connected sb fd w" "\<forall>os \<in> set progs. \<forall>p \<in> set os. op_ok p"
    and "writers_run orderly (writers_start sb w progs) ls r"
  shows "\<exists>s oks sb'. r = Inr s \<and> wire_run (map snd ls) sb w = Inr (oks, sb', sh_world s)
    \<and> (\<forall>t < length progs. map snd (filter (\<lambda>l. fst l = t) ls) @ fst (sh_writers s ! t) = progs ! t)
    \<and> tx (sh_world s) fd = tx w fd @ stream_bytes (q_sent (snd (queue_run (map snd ls) queue_start)))
    \<and> (quiet s \<longrightarrow> sh_buffer s = sb')"
proof -
  obtain s where s: "r = Inr s" "serial fd sb w progs ls s" using orderly_run [OF assms] by blast
  then obtain oks sb' where run: "wire_run (map snd ls) sb w = Inr (oks, sb', sh_world s)"
    and rel: "sender_rel fd (tx w fd) (sb', sh_world s) (snd (queue_run (map snd ls) queue_start))"
    and up: "written_up_to (sh_buffer s) (sh_writers s) sb'"
    unfolding serial_def by blast
  have "sh_buffer s = sb'" if "quiet s"
    using written_up_to_quiet [OF up] quiet_pending [OF that] by blast
  with s run rel show ?thesis by (auto simp: serial_def sender_rel_def)
qed

section \<open>A flush between the space and the bytes\<close>

lemma poke_peek: "poke b off (peek b off n) = b"
  by (cases b) (auto simp: poke_def peek_def fun_eq_iff)

text \<open>To reserve space is to put the bytes that happen to be there.\<close>

lemma GetCmdSpace_puts_old:
  assumes "holds sb []" "length bs \<le> 1999976"
  shows "\<exists>sb1. SendBuffer_GetCmdSpace (of_nat (length bs)) sb w = Inr (Some 12, sb1, w)
    \<and> holds sb1 [peek (s_mBuffer sb) 12 (length bs)] \<and> s_mTransport sb1 = s_mTransport sb"
proof -
  let ?h = "encode_tlv \<lparr>tlv_type = 1, tlv_len = of_nat (length bs)\<rparr>"
  let ?sb1 = "sb\<lparr>s_mBuffer := poke (s_mBuffer sb) 0 ?h, s_mOffset := of_nat (length bs + 12)\<rparr>"
  have inv: "SB_inv sb" and off: "unat (s_mOffset sb) = 0" using assms(1) by (simp_all add: holds_def)
  have l: "unat (of_nat (length bs) :: size_t) = length bs" using assms(2) by (intro unat_of_nat_size) simp
  have g: "SendBuffer_GetCmdSpace (of_nat (length bs)) sb w = Inr (Some 12, ?sb1, w)"
    using GetCmdSpace_fits [OF inv, of "of_nat (length bs)" w] assms(2) l off by (simp add: BUFFER_SIZE_def)
  let ?old = "peek (s_mBuffer sb) 12 (length bs)"
  have old: "?old = peek (poke (s_mBuffer sb) 0 ?h) 12 (length bs)"
    by (rule nth_equalityI) (simp_all add: peek_def poke_def)
  have len: "length ?old = length bs" by simp
  have "in_block (poke (s_mBuffer sb) 0 ?h) 12 (length bs)"
    using inv assms(2) by (simp add: in_block_def SB_inv_def buffer_consts)
  then have "put_command ?old sb w = Inr (True, ?sb1, w)"
    unfolding put_command_def len g by (simp add: old store_bytes_def poke_peek)
  moreover obtain sb' where "put_command ?old sb w = Inr (True, sb', w)" "holds sb' ([] @ [?old])"
      "s_mTransport sb' = s_mTransport sb"
    using put_command_fits [OF assms(1), of ?old w] assms(2) by (auto simp: BUFFER_SIZE_def)
  ultimately show ?thesis using g by auto
qed

text \<open>
  C29: The threads are not synchronised, so a flush can come between \<open>GetCmdSpace\<close> and the writing of the
  bytes: then the connection gets a command of the right length with the bytes that the buffer held
  before, and the bytes of the command, written when the offset is 0 again, are never sent.
\<close>

theorem Unlocked_flush_sends_old_bytes:
  assumes "holds sb []" "connected sb fd w" "length bs \<le> 1999976"
  shows "\<exists>s. writers_run (\<lambda>_ _. True) (writers_start sb w [[Put bs], [Flush_op]]) [(0, Put bs), (1, Flush_op)] (Inr s)
    \<and> sh_writers s = [([], None), ([], None)] \<and> holds (sh_buffer s) []
    \<and> tx (sh_world s) fd = tx w fd @ batch_bytes [peek (s_mBuffer sb) 12 (length bs)]
    \<and> peek (s_mBuffer (sh_buffer s)) 12 (length bs) = bs"
proof -
  let ?any = "\<lambda>_ _. True" and ?s0 = "writers_start sb w [[Put bs], [Flush_op]]"
    and ?old = "peek (s_mBuffer sb) 12 (length bs)"
  obtain sb1 where sb1: "SendBuffer_GetCmdSpace (of_nat (length bs)) sb w = Inr (Some 12, sb1, w)"
      "holds sb1 [?old]" "s_mTransport sb1 = s_mTransport sb"
    using GetCmdSpace_puts_old [OF assms(1,3)] by blast
  have c1: "connected sb1 fd w" using assms(2) connected_transport [OF sb1(3)] by simp
  obtain sb2 where sb2: "SendBuffer_Flush sb1 w = Inr (True, sb2, flushed fd (batch_bytes [?old]) w)" "holds sb2 []"
    using Flush_batch [OF sb1(2) _ c1] by auto
  let ?w2 = "flushed fd (batch_bytes [?old]) w" and ?b = "poke (s_mBuffer sb2) 12 bs"
  have "in_block (s_mBuffer sb2) 12 (length bs)"
    using sb2(2) assms(3) by (simp add: in_block_def holds_def SB_inv_def buffer_consts)
  then have st: "store_bytes (s_mBuffer sb2) 12 bs = Inr ?b" by (rule store_bytes_in)
  let ?s1 = "\<lparr>sh_buffer = sb1, sh_world = w, sh_writers = [([], Some (12, bs)), ([Flush_op], None)]\<rparr>"
  let ?s2 = "\<lparr>sh_buffer = sb2, sh_world = ?w2, sh_writers = [([], Some (12, bs)), ([], None)]\<rparr>"
  let ?s3 = "\<lparr>sh_buffer = sb2\<lparr>s_mBuffer := ?b\<rparr>, sh_world = ?w2, sh_writers = [([], None), ([], None)]\<rparr>"
  have "writer_step ?s0 (Some (0, Put bs)) (Inr ?s1)"
    using writer_step.space [of 0 ?s0 bs "[]" 12 sb1 w] sb1(1) by (simp add: writers_start_def)
  from next_label [OF start this] have r1: "writers_run ?any ?s0 [(0, Put bs)] (Inr ?s1)" by simp
  have "writer_step ?s1 (Some (1, Flush_op)) (Inr ?s2)"
    using writer_step.flush [of 1 ?s1 "[]" True sb2 ?w2] sb2(1) by simp
  from next_label [OF r1 this] have r2: "writers_run ?any ?s0 [(0, Put bs), (1, Flush_op)] (Inr ?s2)" by simp
  have "writer_step ?s2 None (Inr ?s3)"
    using writer_step.fill [of 0 ?s2 "[]" 12 bs ?b] st by simp
  from next_fill [OF r2 this] have "writers_run ?any ?s0 [(0, Put bs), (1, Flush_op)] (Inr ?s3)" by simp
  moreover have "holds (sb2\<lparr>s_mBuffer := ?b\<rparr>) []"
    using sb2(2) by (simp add: holds_def SB_inv_def)
  moreover have "peek ?b 12 (length bs) = bs" by (rule peek_poke_same) simp
  ultimately show ?thesis by (intro exI [of _ ?s3]) simp
qed

section \<open>Witnesses\<close>

text \<open>Two threads: each asks for space before either writes; then one flushes.\<close>

lemma demo_sender_inv: "SB_inv demo_sender" "s_mOffset demo_sender = 0"
  using demo_sender_ok(1) by (simp_all add: holds_def unat_eq_0)

lemma Orderly_writers_are_serial_witness:
  "\<exists>s oks. writers_run orderly (writers_start demo_sender demo_link [[Put [65], Flush_op], [Put [66]]])
       [(0, Put [65]), (1, Put [66]), (0, Flush_op)] (Inr s)
     \<and> wire_run [Put [65], Put [66], Flush_op] demo_sender demo_link = Inr (oks, sh_buffer s, sh_world s)
     \<and> tx (sh_world s) 3 = stream_bytes [[[65], [66]]]"
proof -
  let ?progs = "[[Put [65], Flush_op], [Put [66]]] :: wire_op list list"
  let ?s0 = "writers_start demo_sender demo_link ?progs" and ?h = "encode_tlv \<lparr>tlv_type = 1, tlv_len = 1\<rparr>"
  let ?sb1 = "demo_sender\<lparr>s_mBuffer := poke (s_mBuffer demo_sender) 0 ?h, s_mOffset := 13\<rparr>"
  let ?sb2 = "?sb1\<lparr>s_mBuffer := poke (s_mBuffer ?sb1) 13 ?h, s_mOffset := 26\<rparr>"
  let ?sb3 = "?sb2\<lparr>s_mBuffer := poke (s_mBuffer ?sb2) 25 [66]\<rparr>"
  let ?sb4 = "?sb3\<lparr>s_mBuffer := poke (s_mBuffer ?sb3) 12 [65]\<rparr>"
  let ?st = "\<lambda>sb ws. \<lparr>sh_buffer = sb, sh_world = demo_link, sh_writers = ws\<rparr>"
  have ok: "\<forall>os \<in> set ?progs. \<forall>p \<in> set os. op_ok p" by (simp add: PTRDIFF_MAX_def)
  have size: "bsize (s_mBuffer demo_sender) = 2000000" using demo_sender_inv(1) by (simp add: SB_inv_def buffer_consts)
  have inv: "SB_inv ?sb1" using size by (simp add: SB_inv_def buffer_consts)
  have g1: "SendBuffer_GetCmdSpace (of_nat (length [65::byte])) demo_sender demo_link = Inr (Some 12, ?sb1, demo_link)"
    using GetCmdSpace_fits [OF demo_sender_inv(1), of 1 demo_link] demo_sender_inv(2) by (simp add: BUFFER_SIZE_def)
  have g2: "SendBuffer_GetCmdSpace (of_nat (length [66::byte])) ?sb1 demo_link = Inr (Some 25, ?sb2, demo_link)"
    using GetCmdSpace_fits [OF inv, of 1 demo_link] by (simp add: BUFFER_SIZE_def)
  have "writer_step ?s0 (Some (0, Put [65])) (Inr (?st ?sb1 [([Flush_op], Some (12, [65])), ([Put [66]], None)]))"
    using g1 writer_step.space [of 0 ?s0 "[65]" "[Flush_op]" 12 ?sb1 demo_link] by (simp add: writers_start_def)
  from next_label [OF start this, of orderly] demo_sender_inv(2)
  have r1: "writers_run orderly ?s0 [(0, Put [65])] (Inr (?st ?sb1 [([Flush_op], Some (12, [65])), ([Put [66]], None)]))"
    by (simp add: orderly_def writers_start_def)
  have "writer_step (?st ?sb1 [([Flush_op], Some (12, [65])), ([Put [66]], None)]) (Some (1, Put [66]))
      (Inr (?st ?sb2 [([Flush_op], Some (12, [65])), ([], Some (25, [66]))]))"
    using writer_step.space [of 1 "?st ?sb1 [([Flush_op], Some (12, [65])), ([Put [66]], None)]" "[66]" "[]" 25 ?sb2 demo_link] g2
    by simp
  from next_label [OF r1 this]
  have r2: "writers_run orderly ?s0 [(0, Put [65]), (1, Put [66])]
      (Inr (?st ?sb2 [([Flush_op], Some (12, [65])), ([], Some (25, [66]))]))"
    by (simp add: orderly_def)
  have "writer_step (?st ?sb2 [([Flush_op], Some (12, [65])), ([], Some (25, [66]))]) None
      (Inr (?st ?sb3 [([Flush_op], Some (12, [65])), ([], None)]))"
    using writer_step.fill [of 1 "?st ?sb2 [([Flush_op], Some (12, [65])), ([], Some (25, [66]))]" "[]" 25 "[66]"] size
    by (simp add: store_bytes_def in_block_def PTRDIFF_MAX_def)
  from next_fill [OF r2 this]
  have r3: "writers_run orderly ?s0 [(0, Put [65]), (1, Put [66])] (Inr (?st ?sb3 [([Flush_op], Some (12, [65])), ([], None)]))"
    by (simp add: orderly_def)
  have "writer_step (?st ?sb3 [([Flush_op], Some (12, [65])), ([], None)]) None
      (Inr (?st ?sb4 [([Flush_op], None), ([], None)]))"
    using writer_step.fill [of 0 "?st ?sb3 [([Flush_op], Some (12, [65])), ([], None)]" "[Flush_op]" 12 "[65]"] size
    by (simp add: store_bytes_def in_block_def PTRDIFF_MAX_def)
  from next_fill [OF r3 this]
  have r4: "writers_run orderly ?s0 [(0, Put [65]), (1, Put [66])] (Inr (?st ?sb4 [([Flush_op], None), ([], None)]))"
    by (simp add: orderly_def)
  let ?s4 = "?st ?sb4 [([Flush_op], None), ([], None)]"
  have "serial 3 demo_sender demo_link ?progs [(0, Put [65]), (1, Put [66])] ?s4"
    using orderly_run [OF demo_sender_ok(1,2) ok r4] by simp
  from orderly_flush [OF this, of 0 "[]"] obtain b sb5 w5
    where "SendBuffer_Flush ?sb4 demo_link = Inr (b, sb5, w5)" by (auto simp: orderly_def quiet_def)
  then have "writer_step ?s4 (Some (0, Flush_op)) (Inr \<lparr>sh_buffer = sb5, sh_world = w5, sh_writers = [([], None), ([], None)]\<rparr>)"
    using writer_step.flush [of 0 ?s4 "[]" b sb5 w5] by simp
  from next_label [OF r4 this]
  have r5: "writers_run orderly ?s0 [(0, Put [65]), (1, Put [66]), (0, Flush_op)]
      (Inr \<lparr>sh_buffer = sb5, sh_world = w5, sh_writers = [([], None), ([], None)]\<rparr>)"
    by (simp add: orderly_def quiet_def)
  from Orderly_writers_are_serial [OF demo_sender_ok(1,2) ok r5] r5 demo_sender_ok(3)
  show ?thesis by (fastforce simp: quiet_def queue_start_def queue_flush_def)
qed

lemma Unlocked_flush_sends_old_bytes_witness:
  "\<exists>s. writers_run (\<lambda>_ _. True) (writers_start demo_sender demo_link [[Put [65, 66]], [Flush_op]])
       [(0, Put [65, 66]), (1, Flush_op)] (Inr s)
     \<and> tx (sh_world s) 3 = batch_bytes [[0, 0]]"
proof -
  have old: "peek (s_mBuffer demo_sender) 12 (length [65 :: byte, 66]) = [0, 0]"
    by (simp add: demo_sender_def SendBuffer_SetTransport_def new_SendBuffer_def peek_def)
  from Unlocked_flush_sends_old_bytes [OF demo_sender_ok(1,2), of "[65, 66]", unfolded old] demo_sender_ok(3)
  show ?thesis by fastforce
qed

end
