(* ===== verification/Sender_Interleaving.thy ===== *)
theory Sender_Interleaving
  imports Sender_Race
begin

text \<open>
  The calls of \<open>GetCmdSpace\<close> and \<open>Flush\<close> taken apart into their accesses to the shared \<open>SendBuffer\<close>,
  \<open>src/common/dawn_command_buffer.cpp\<close>: reading \<open>mOffset\<close>, the stores into the header, reading and
  writing \<open>mOffset\<close> for \<open>+=\<close>, the call of \<open>Send\<close>. Threads interleave at these steps. Shown are that
  without interruption the steps are the functions of \<open>Command_Buffer\<close>, that calls which do not
  overlap (as under a lock around each call, which the code does not have) behave like one thread,
  and that two overlapping calls lose a command.
\<close>

section \<open>The steps of a call\<close>

text \<open>
  Where a thread is in a call, with its local variables: the size, the pointer \<open>cmd\<close> as an offset, the
  value of \<open>mOffset\<close> it has read for \<open>+=\<close> or as an argument. A \<open>Flush\<close> knows the \<open>GetCmdSpace\<close> it
  was called from, if any.
\<close>

datatype call_phase =
    Space_entry size_t
  | Space_cmd size_t
  | Space_type size_t size_t
  | Space_len size_t size_t
  | Space_load size_t size_t
  | Space_store size_t size_t size_t
  | Flush_entry "size_t option"
  | Flush_cmd "size_t option"
  | Flush_type "size_t option" size_t
  | Flush_len "size_t option" size_t
  | Flush_load "size_t option"
  | Flush_store "size_t option" size_t
  | Flush_arg "size_t option"
  | Flush_send "size_t option" size_t
  | Flush_reset "size_t option" bool

datatype call_outcome = Goes_on call_phase | Space_result "nat option" | Flush_result bool

text \<open>The return of a \<open>Flush\<close>: to the program, or to the \<open>GetCmdSpace\<close> that goes on or returns null.\<close>

fun flush_done :: "size_t option \<Rightarrow> bool \<Rightarrow> call_outcome" where
  "flush_done None ok = Flush_result ok"
| "flush_done (Some sz) ok = (if ok then Goes_on (Space_entry sz) else Space_result None)"

definition header_type :: "32 word \<Rightarrow> size_t \<Rightarrow> byte list" where
  "header_type ty n = take 4 (encode_tlv \<lparr>tlv_type = ty, tlv_len = n\<rparr>)"

definition header_len :: "32 word \<Rightarrow> size_t \<Rightarrow> byte list" where
  "header_len ty n = drop 4 (encode_tlv \<lparr>tlv_type = ty, tlv_len = n\<rparr>)"

fun call_step :: "call_phase \<Rightarrow> SendBuffer \<Rightarrow> world \<Rightarrow> (call_outcome \<times> SendBuffer \<times> world) result" where
  "call_step (Space_entry sz) sb w =
     (if sz + 2 * of_nat TLV_SZ > of_nat BUFFER_SIZE then Inr (Space_result None, sb, w)
      else if of_nat BUFFER_SIZE - sz - 2 * of_nat TLV_SZ < s_mOffset sb
           then Inr (Goes_on (Flush_entry (Some sz)), sb, w)
      else Inr (Goes_on (Space_cmd sz), sb, w))"
| "call_step (Space_cmd sz) sb w = Inr (Goes_on (Space_type sz (s_mOffset sb)), sb, w)"
| "call_step (Space_type sz off) sb w =
     rbind (store_bytes (s_mBuffer sb) (unat off) (header_type 1 sz)) (\<lambda>b.
       Inr (Goes_on (Space_len sz off), sb\<lparr>s_mBuffer := b\<rparr>, w))"
| "call_step (Space_len sz off) sb w =
     rbind (store_bytes (s_mBuffer sb) (unat off + 4) (header_len 1 sz)) (\<lambda>b.
       Inr (Goes_on (Space_load sz off), sb\<lparr>s_mBuffer := b\<rparr>, w))"
| "call_step (Space_load sz off) sb w = Inr (Goes_on (Space_store sz off (s_mOffset sb)), sb, w)"
| "call_step (Space_store sz off old) sb w =
     Inr (Space_result (Some (unat off + TLV_SZ)), sb\<lparr>s_mOffset := old + (sz + of_nat TLV_SZ)\<rparr>, w)"
| "call_step (Flush_entry k) sb w =
     Inr (if s_mOffset sb \<le> 0 then flush_done k True else Goes_on (Flush_cmd k), sb, w)"
| "call_step (Flush_cmd k) sb w = Inr (Goes_on (Flush_type k (s_mOffset sb)), sb, w)"
| "call_step (Flush_type k off) sb w =
     rbind (store_bytes (s_mBuffer sb) (unat off) (header_type 2 0)) (\<lambda>b.
       Inr (Goes_on (Flush_len k off), sb\<lparr>s_mBuffer := b\<rparr>, w))"
| "call_step (Flush_len k off) sb w =
     rbind (store_bytes (s_mBuffer sb) (unat off + 4) (header_len 2 0)) (\<lambda>b.
       Inr (Goes_on (Flush_load k), sb\<lparr>s_mBuffer := b\<rparr>, w))"
| "call_step (Flush_load k) sb w = Inr (Goes_on (Flush_store k (s_mOffset sb)), sb, w)"
| "call_step (Flush_store k old) sb w = Inr (Goes_on (Flush_arg k), sb\<lparr>s_mOffset := old + of_nat TLV_SZ\<rparr>, w)"
| "call_step (Flush_arg k) sb w = Inr (Goes_on (Flush_send k (s_mOffset sb)), sb, w)"
| "call_step (Flush_send k off) sb w =
     (case s_mTransport sb of
        None \<Rightarrow> Inl NullPointer
      | Some p \<Rightarrow> rbind (CommandTransport_Send p (s_mBuffer sb) off w) (\<lambda>(r, w').
          Inr (Goes_on (Flush_reset k (r = 0)), sb, w')))"
| "call_step (Flush_reset k ok) sb w = Inr (flush_done k ok, sb\<lparr>s_mOffset := 0\<rparr>, w)"

fun call_run :: "nat \<Rightarrow> call_phase \<Rightarrow> SendBuffer \<Rightarrow> world \<Rightarrow> (call_outcome \<times> SendBuffer \<times> world) result" where
  "call_run 0 ph sb w = Inr (Goes_on ph, sb, w)"
| "call_run (Suc n) ph sb w = rbind (call_step ph sb w) (\<lambda>(r, sb', w').
     case r of Goes_on ph' \<Rightarrow> call_run n ph' sb' w' | _ \<Rightarrow> Inr (r, sb', w'))"

fun call_start :: "wire_op \<Rightarrow> call_phase" where
  "call_start (Put bs) = Space_entry (of_nat (length bs))"
| "call_start Flush_op = Flush_entry None"

fun call_whole :: "wire_op \<Rightarrow> SendBuffer \<Rightarrow> world \<Rightarrow> (call_outcome \<times> SendBuffer \<times> world) result" where
  "call_whole (Put bs) sb w = rbind (SendBuffer_GetCmdSpace (of_nat (length bs)) sb w) (\<lambda>(r, sb', w').
     Inr (Space_result r, sb', w'))"
| "call_whole Flush_op sb w = rbind (SendBuffer_Flush sb w) (\<lambda>(ok, sb', w'). Inr (Flush_result ok, sb', w'))"

section \<open>A call that is not interrupted\<close>

lemma store_bytes_append:
  "store_bytes b off (xs @ ys) = rbind (store_bytes b off xs) (\<lambda>b'. store_bytes b' (off + length xs) ys)"
proof -
  have "poke (poke b off xs) (off + length xs) ys = poke b off (xs @ ys)"
    by (cases b) (auto simp: poke_def fun_eq_iff nth_append)
  then show ?thesis by (auto simp: store_bytes_def in_block_def)
qed

lemma header_parts: "encode_tlv \<lparr>tlv_type = ty, tlv_len = n\<rparr> = header_type ty n @ header_len ty n"
  by (simp add: header_type_def header_len_def)

lemma header_lengths [simp]: "length (header_type ty n) = 4" "length (header_len ty n) = 8"
  by (simp_all add: header_type_def header_len_def)

lemma call_run_flush:
  assumes "s_mOffset sb \<noteq> 0"
  shows "call_run (9 + n) (Flush_entry k) sb w = rbind (SendBuffer_Flush sb w) (\<lambda>(ok, sb', w').
     case flush_done k ok of Goes_on ph \<Rightarrow> call_run n ph sb' w' | r \<Rightarrow> Inr (r, sb', w'))"
  using assms
  by (simp add: eval_nat_numeral SendBuffer_Flush_def header_parts store_bytes_append rbind_assoc Let_def)
     (cases "s_mTransport sb"; simp add: rbind_assoc case_prod_unfold cong: call_outcome.case_cong)

lemma call_run_room:
  assumes "\<not> of_nat BUFFER_SIZE < sz + 2 * of_nat TLV_SZ" "\<not> of_nat BUFFER_SIZE - sz - 2 * of_nat TLV_SZ < s_mOffset sb"
  shows "call_run (6 + n) (Space_entry sz) sb w
    = rbind (SendBuffer_GetCmdSpace sz sb w) (\<lambda>(r, sb', w'). Inr (Space_result r, sb', w'))"
  unfolding SendBuffer_GetCmdSpace.simps [of sz sb w]
  using assms
  by (simp add: eval_nat_numeral header_parts store_bytes_append rbind_assoc)

lemma call_run_space:
  "call_run 16 (Space_entry sz) sb w
    = rbind (SendBuffer_GetCmdSpace sz sb w) (\<lambda>(r, sb', w'). Inr (Space_result r, sb', w'))"
proof -
  let ?large = "of_nat BUFFER_SIZE < sz + 2 * of_nat TLV_SZ"
  let ?full = "\<lambda>sb. of_nat BUFFER_SIZE - sz - 2 * of_nat TLV_SZ < s_mOffset sb"
  consider "?large" | "\<not> ?large" "\<not> ?full sb" | "\<not> ?large" "?full sb" by blast
  then show ?thesis
  proof cases
    case 1
    then show ?thesis
      by (simp add: eval_nat_numeral SendBuffer_GetCmdSpace.simps [of sz sb w])
  next
    case 2
    from call_run_room [OF this, of 10] show ?thesis by simp
  next
    case 3
    then have nz: "s_mOffset sb \<noteq> 0" by (metis word_not_simps(1))
    have "call_run 16 (Space_entry sz) sb w = call_run 15 (Flush_entry (Some sz)) sb w"
      using 3 by (simp add: eval_nat_numeral)
    also have "\<dots> = rbind (SendBuffer_Flush sb w) (\<lambda>(ok, sb', w').
        if ok then call_run 6 (Space_entry sz) sb' w' else Inr (Space_result None, sb', w'))"
      using call_run_flush [OF nz, of 6 "Some sz" w] by (simp add: case_prod_unfold if_distrib cong: if_cong)
    also have "\<dots> = rbind (SendBuffer_Flush sb w) (\<lambda>(ok, sb', w').
        if ok then rbind (SendBuffer_GetCmdSpace sz sb' w') (\<lambda>(r, sb', w'). Inr (Space_result r, sb', w'))
        else Inr (Space_result None, sb', w'))"
    proof (rule rbind_cong [OF refl])
      fix x
      assume f: "SendBuffer_Flush sb w = Inr x"
      obtain ok sb' w' where x: "x = (ok, sb', w')" by (metis surj_pair)
      then have "s_mOffset sb' = 0" using f by (intro SendBuffer_Flush_offset [of sb w ok sb' w']) simp
      then have "\<not> ?full sb'" by simp
      with call_run_room [OF 3(1) this, of 0 w'] x show "(case x of (ok, sb', w') \<Rightarrow>
          if ok then call_run 6 (Space_entry sz) sb' w' else Inr (Space_result None, sb', w'))
        = (case x of (ok, sb', w') \<Rightarrow>
          if ok then rbind (SendBuffer_GetCmdSpace sz sb' w') (\<lambda>(r, sb', w'). Inr (Space_result r, sb', w'))
          else Inr (Space_result None, sb', w'))" by simp
    qed
    also have "\<dots> = rbind (SendBuffer_GetCmdSpace sz sb w) (\<lambda>(r, sb', w'). Inr (Space_result r, sb', w'))"
      using 3 by (simp add: SendBuffer_GetCmdSpace.simps [of sz sb w] rbind_assoc case_prod_unfold if_distrib
          if_distribR cong: if_cong) (rule rbind_cong; simp)
    finally show ?thesis .
  qed
qed

text \<open>Without interruption the steps of a call are the function of \<open>Command_Buffer\<close>, on all inputs.\<close>

lemma call_run_whole: "call_run 16 (call_start q) sb w = call_whole q sb w"
proof (cases q)
  case (Put bs)
  then show ?thesis by (simp add: call_run_space)
next
  case Flush_op
  show ?thesis
  proof (cases "s_mOffset sb = 0")
    case True
    with Flush_op show ?thesis by (simp add: eval_nat_numeral)
  next
    case False
    from call_run_flush [OF False, of 7 None w] Flush_op show ?thesis
      by (simp add: case_prod_unfold)
  qed
qed

text \<open>More steps change nothing once a call has returned or failed.\<close>

definition finished :: "(call_outcome \<times> 'a) result \<Rightarrow> bool" where
  "finished x \<longleftrightarrow> (\<forall>ph y. x \<noteq> Inr (Goes_on ph, y))"

lemma call_run_more: "finished (call_run n ph sb w) \<Longrightarrow> call_run (n + m) ph sb w = call_run n ph sb w"
proof (induction n arbitrary: ph sb w)
  case 0
  then show ?case by (simp add: finished_def)
next
  case (Suc n)
  then show ?case
    by (cases "call_step ph sb w") (auto simp: case_prod_unfold split: call_outcome.splits)
qed

lemma call_run_unique:
  assumes "finished (call_run n ph sb w)" "finished (call_run m ph sb w)"
  shows "call_run n ph sb w = call_run m ph sb w"
  using call_run_more [OF assms(1), of "m - n"] call_run_more [OF assms(2), of "n - m"]
  by (cases "n \<le> m") simp_all

lemma call_run_snoc:
  "call_run (Suc n) ph sb w = rbind (call_run n ph sb w) (\<lambda>(r, sb', w').
     case r of Goes_on ph' \<Rightarrow> call_step ph' sb' w' | _ \<Rightarrow> Inr (r, sb', w'))"
proof (induction n arbitrary: ph sb w)
  case 0
  have "rbind (call_step ph sb w) (\<lambda>(r, sb', w'). case r of Goes_on ph' \<Rightarrow> Inr (Goes_on ph', sb', w') | _ \<Rightarrow> Inr (r, sb', w'))
      = rbind (call_step ph sb w) Inr"
    by (rule rbind_cong) (auto split: call_outcome.split)
  then show ?case by (simp cong: call_outcome.case_cong)
next
  case (Suc n)
  show ?case
    unfolding call_run.simps(2) [of "Suc n"] call_run.simps(2) [of n] rbind_assoc
    by (rule rbind_cong [OF refl]) (auto simp: Suc.IH [unfolded call_run.simps(2)] split: call_outcome.split)
qed

lemma whole_finished: "finished (call_whole q sb w)"
  by (cases q) (auto simp: finished_def elim!: rbind_eq_InrE)

text \<open>The last step of a call that has taken \<open>n\<close> steps from \<open>sb\<close> and \<open>w\<close>: the whole call does the same.\<close>

lemma last_step:
  assumes "call_run n (call_start q) sb w = Inr (Goes_on ph, sb1, w1)" "finished (call_step ph sb1 w1)"
  shows "call_whole q sb w = call_step ph sb1 w1"
proof -
  have "call_run (Suc n) (call_start q) sb w = call_step ph sb1 w1"
    unfolding call_run_snoc assms(1) by simp
  moreover have "finished (call_run 16 (call_start q) sb w)"
    unfolding call_run_whole by (rule whole_finished)
  ultimately have "call_run 16 (call_start q) sb w = call_step ph sb1 w1"
    using call_run_unique [of "Suc n" "call_start q" sb w 16] assms(2) by simp
  then show ?thesis by (simp add: call_run_whole)
qed

section \<open>Threads that interleave at the steps of their calls\<close>

text \<open>A thread is between two operations, in a call, or has a space it has not yet written.\<close>

datatype thread_state = Idle | In_call wire_op call_phase | Has_space nat "byte list"

fun in_call :: "thread_state \<Rightarrow> bool" where
  "in_call (In_call q ph) \<longleftrightarrow> True"
| "in_call _ \<longleftrightarrow> False"

fun thread_after :: "wire_op \<Rightarrow> call_outcome \<Rightarrow> thread_state" where
  "thread_after q (Goes_on ph) = In_call q ph"
| "thread_after (Put bs) (Space_result (Some p)) = Has_space p bs"
| "thread_after _ _ = Idle"

record interleaved =
  fi_buffer :: SendBuffer
  fi_world :: world
  fi_threads :: "(wire_op list \<times> thread_state) list"
  fi_begun :: "(nat \<times> wire_op) list"

text \<open>
  The next step of thread \<open>t\<close>: begin the next operation, take a step of the call, or write the bytes
  of the command into the space. \<open>fi_begun\<close> records who began what.
\<close>

definition thread_step :: "nat \<Rightarrow> interleaved \<Rightarrow> interleaved result" where
  "thread_step t s =
     (if length (fi_threads s) \<le> t then Inr s
      else let (os, st) = fi_threads s ! t in case st of
        In_call q ph \<Rightarrow>
          rbind (call_step ph (fi_buffer s) (fi_world s)) (\<lambda>(r, sb, w).
            Inr (s\<lparr>fi_buffer := sb, fi_world := w, fi_threads := (fi_threads s)[t := (os, thread_after q r)]\<rparr>))
      | Has_space p bs \<Rightarrow>
          rbind (store_bytes (s_mBuffer (fi_buffer s)) p bs) (\<lambda>b.
            Inr (s\<lparr>fi_buffer := (fi_buffer s)\<lparr>s_mBuffer := b\<rparr>, fi_threads := (fi_threads s)[t := (os, Idle)]\<rparr>))
      | Idle \<Rightarrow> (case os of
            [] \<Rightarrow> Inr s
          | q # os' \<Rightarrow>
              Inr (s\<lparr>fi_threads := (fi_threads s)[t := (os', In_call q (call_start q))],
                     fi_begun := fi_begun s @ [(t, q)]\<rparr>)))"

text \<open>A schedule says whose turn it is.\<close>

fun schedule_run :: "nat list \<Rightarrow> interleaved \<Rightarrow> interleaved result" where
  "schedule_run [] s = Inr s"
| "schedule_run (t # ts) s = rbind (thread_step t s) (schedule_run ts)"

definition interleaved_start :: "SendBuffer \<Rightarrow> world \<Rightarrow> wire_op list list \<Rightarrow> interleaved" where
  "interleaved_start sb w progs =
     \<lparr>fi_buffer = sb, fi_world = w, fi_threads = map (\<lambda>os. (os, Idle)) progs, fi_begun = []\<rparr>"

text \<open>
  The discipline: no call begins while another thread is in one, and none that sends the buffer while
  a thread has a space it has not yet written.
\<close>

definition nobody_calls :: "interleaved \<Rightarrow> bool" where
  "nobody_calls s \<longleftrightarrow> (\<forall>th \<in> set (fi_threads s). \<not> in_call (snd th))"

definition nobody_writes :: "interleaved \<Rightarrow> bool" where
  "nobody_writes s \<longleftrightarrow> (\<forall>th \<in> set (fi_threads s). \<forall>p bs. snd th \<noteq> Has_space p bs)"

definition may_step :: "nat \<Rightarrow> interleaved \<Rightarrow> bool" where
  "may_step t s \<longleftrightarrow> (\<forall>q os. t < length (fi_threads s) \<longrightarrow> fi_threads s ! t = (q # os, Idle) \<longrightarrow>
     nobody_calls s \<and> (sends q (fi_buffer s) \<longrightarrow> nobody_writes s))"

fun disciplined :: "nat list \<Rightarrow> interleaved \<Rightarrow> bool" where
  "disciplined [] s \<longleftrightarrow> True"
| "disciplined (t # ts) s \<longleftrightarrow> may_step t s \<and> (\<forall>s'. thread_step t s = Inr s' \<longrightarrow> disciplined ts s')"

section \<open>Writing a command does not disturb a call\<close>

definition refill :: "nat \<Rightarrow> byte list \<Rightarrow> SendBuffer \<Rightarrow> SendBuffer" where
  "refill p bs sb = sb\<lparr>s_mBuffer := poke (s_mBuffer sb) p bs\<rparr>"

text \<open>A call that does not send, and whose header lies above \<open>bound\<close>.\<close>

fun above :: "nat \<Rightarrow> call_phase \<Rightarrow> SendBuffer \<Rightarrow> bool" where
  "above bound (Space_entry sz) sb \<longleftrightarrow> sz + 2 * of_nat TLV_SZ > of_nat BUFFER_SIZE
     \<or> \<not> of_nat BUFFER_SIZE - sz - 2 * of_nat TLV_SZ < s_mOffset sb \<and> bound \<le> unat (s_mOffset sb)"
| "above bound (Space_cmd sz) sb \<longleftrightarrow> bound \<le> unat (s_mOffset sb)"
| "above bound (Space_type sz off) sb \<longleftrightarrow> bound \<le> unat off"
| "above bound (Space_len sz off) sb \<longleftrightarrow> bound \<le> unat off"
| "above bound (Space_load sz off) sb \<longleftrightarrow> True"
| "above bound (Space_store sz off old) sb \<longleftrightarrow> True"
| "above bound (Flush_entry None) sb \<longleftrightarrow> s_mOffset sb = 0"
| "above bound _ sb \<longleftrightarrow> False"

lemma poke_commute: "p + length bs \<le> off \<Longrightarrow> poke (poke b p bs) off h = poke (poke b off h) p bs"
  by (cases b) (auto simp: poke_def fun_eq_iff)

lemma call_step_refill:
  assumes "above bound ph sb" "p + length bs \<le> bound"
  shows "call_step ph (refill p bs sb) w = rbind (call_step ph sb w) (\<lambda>(r, sb', w'). Inr (r, refill p bs sb', w'))"
proof -
  have "poke (poke b p bs) off h = poke (poke b off h) p bs" if "bound \<le> off" for b off h
    using assms(2) that by (intro poke_commute) simp
  with assms(1) show ?thesis
    by (cases "(bound, ph, sb)" rule: above.cases) (auto simp: refill_def store_bytes_def)
qed

lemma call_step_above:
  "above bound ph sb \<Longrightarrow> call_step ph sb w = Inr (Goes_on ph', sb', w') \<Longrightarrow> above bound ph' sb'"
  by (cases "(bound, ph, sb)" rule: above.cases) (auto elim!: rbind_eq_InrE split: if_splits)

lemma call_run_refill:
  "above bound ph sb \<Longrightarrow> p + length bs \<le> bound \<Longrightarrow>
   call_run n ph (refill p bs sb) w = rbind (call_run n ph sb w) (\<lambda>(r, sb', w'). Inr (r, refill p bs sb', w'))"
proof (induction n arbitrary: ph sb w)
  case (Suc n)
  show ?case
    unfolding call_run.simps call_step_refill [OF Suc.prems] rbind_assoc
    by (rule rbind_cong [OF refl])
       (use Suc.IH call_step_above [OF Suc.prems(1)] Suc.prems(2) in \<open>auto split: call_outcome.split\<close>)
qed simp

lemma start_above:
  assumes "\<not> sends q sb" "op_ok q"
  shows "above (unat (s_mOffset sb)) (call_start q) sb"
proof (cases q)
  case (Put bs)
  then have l: "unat (of_nat (length bs) :: size_t) = length bs"
    using assms(2) by (intro unat_of_nat_size) (simp add: PTRDIFF_MAX_def)
  show ?thesis
  proof (cases "1999976 < length bs")
    case True
    with Put l assms(2) SB_too_large [of "of_nat (length bs)"] show ?thesis
      by (simp add: BUFFER_SIZE_def PTRDIFF_MAX_def)
  next
    case False
    with Put l assms(1) SB_no_room [of "of_nat (length bs)" "s_mOffset sb"] show ?thesis
      by (simp add: BUFFER_SIZE_def)
  qed
next
  case Flush_op
  with assms(1) show ?thesis by simp
qed

lemma call_step_bsize:
  "call_step ph sb w = Inr (r, sb', w') \<Longrightarrow> bsize (s_mBuffer sb') = bsize (s_mBuffer sb)"
  by (cases "(ph, sb, w)" rule: call_step.cases)
     (auto simp: store_bytes_def elim!: rbind_eq_InrE split: if_splits option.splits)

lemma call_run_bsize:
  "call_run n ph sb w = Inr (r, sb', w') \<Longrightarrow> bsize (s_mBuffer sb') = bsize (s_mBuffer sb)"
  by (induction n arbitrary: ph sb w)
     (auto elim!: rbind_eq_InrE dest: call_step_bsize split: call_outcome.splits)

section \<open>Calls that do not overlap are atomic\<close>

text \<open>The thread as \<open>Sender_Race\<close> sees it: one in a call has not begun it yet.\<close>

fun coarse_thread :: "wire_op list \<times> thread_state \<Rightarrow> writer" where
  "coarse_thread (os, Idle) = (os, None)"
| "coarse_thread (os, In_call q ph) = (q # os, None)"
| "coarse_thread (os, Has_space p bs) = (os, Some (p, bs))"

definition coarse_run :: "SendBuffer \<Rightarrow> world \<Rightarrow> wire_op list list \<Rightarrow> (nat \<times> wire_op) list \<Rightarrow> shared \<Rightarrow> bool" where
  "coarse_run sb w progs ls c \<longleftrightarrow> writers_run orderly (writers_start sb w progs) ls (Inr c)"

definition idle_view :: "SendBuffer \<Rightarrow> world \<Rightarrow> wire_op list list \<Rightarrow> interleaved \<Rightarrow> bool" where
  "idle_view sb w progs s \<longleftrightarrow>
     (\<exists>c. coarse_run sb w progs (fi_begun s) c \<and> sh_writers c = map coarse_thread (fi_threads s)
        \<and> sh_buffer c = fi_buffer s \<and> sh_world c = fi_world s) \<and> nobody_calls s"

text \<open>While thread \<open>t\<close> is in a call: the atomic view is that of its beginning, \<open>n\<close> steps ago.\<close>

definition busy_view :: "SendBuffer \<Rightarrow> world \<Rightarrow> wire_op list list \<Rightarrow> nat \<Rightarrow> interleaved \<Rightarrow> bool" where
  "busy_view sb w progs t s \<longleftrightarrow>
     (\<exists>c ls os q ph n. coarse_run sb w progs ls c \<and> sh_writers c = map coarse_thread (fi_threads s)
        \<and> fi_begun s = ls @ [(t, q)] \<and> fi_threads s ! t = (os, In_call q ph) \<and> orderly c (Some (t, q))
        \<and> call_run n (call_start q) (sh_buffer c) (sh_world c) = Inr (Goes_on ph, fi_buffer s, fi_world s))
     \<and> t < length (fi_threads s) \<and> (\<forall>u < length (fi_threads s). u \<noteq> t \<longrightarrow> \<not> in_call (snd (fi_threads s ! u)))"

lemma coarse_writers: "coarse_thread (fi_threads s ! t) = x \<Longrightarrow> t < length (fi_threads s) \<Longrightarrow>
    sh_writers c = map coarse_thread (fi_threads s) \<Longrightarrow> t < length (sh_writers c) \<and> sh_writers c ! t = x"
  by simp

lemma nobody_calls_nth: "nobody_calls s \<longleftrightarrow> (\<forall>u < length (fi_threads s). \<not> in_call (snd (fi_threads s ! u)))"
  by (simp add: nobody_calls_def all_set_conv_all_nth)

lemma coarse_quiet:
  "nobody_writes s \<Longrightarrow> sh_writers c = map coarse_thread (fi_threads s) \<Longrightarrow> quiet c"
  unfolding quiet_def nobody_writes_def
proof
  fix wr
  assume a: "\<forall>th \<in> set (fi_threads s). \<forall>p bs. snd th \<noteq> Has_space p bs" "sh_writers c = map coarse_thread (fi_threads s)"
    and "wr \<in> set (sh_writers c)"
  then obtain th where "th \<in> set (fi_threads s)" "wr = coarse_thread th" by auto
  with a(1) show "snd wr = None" by (cases th rule: coarse_thread.cases) auto
qed

definition starts_ok :: "SendBuffer \<Rightarrow> int \<Rightarrow> world \<Rightarrow> wire_op list list \<Rightarrow> bool" where
  "starts_ok sb fd w progs \<longleftrightarrow> holds sb [] \<and> connected sb fd w \<and> (\<forall>os \<in> set progs. \<forall>p \<in> set os. op_ok p)"

text \<open>The two steps of the atomic view that matter: a whole call, and the writing of a command.\<close>

lemma coarse_serial:
  assumes "starts_ok sb fd w progs" "coarse_run sb w progs ls c"
  shows "serial fd sb w progs ls c"
  using orderly_run [of sb fd w progs ls "Inr c"] assms by (simp add: starts_ok_def coarse_run_def)

lemma coarse_call:
  assumes "starts_ok sb fd w progs" "coarse_run sb w progs ls c"
    and "t < length (sh_writers c)" "sh_writers c ! t = (q # os, None)" "orderly c (Some (t, q))"
  shows "\<exists>r sb' w'. call_whole q (sh_buffer c) (sh_world c) = Inr (r, sb', w')
    \<and> coarse_run sb w progs (ls @ [(t, q)])
        \<lparr>sh_buffer = sb', sh_world = w', sh_writers = (sh_writers c)[t := coarse_thread (os, thread_after q r)]\<rparr>"
proof -
  note ser = coarse_serial [OF assms(1,2)]
  have ok: "\<forall>os \<in> set progs. \<forall>p \<in> set os. op_ok p" using assms(1) by (simp add: starts_ok_def)
  have next1: "coarse_run sb w progs (ls @ [(t, q)]) c'" if "writer_step c (Some (t, q)) (Inr c')" for c'
    using writers_run.next_label [OF assms(2) [unfolded coarse_run_def] that assms(5)] by (simp add: coarse_run_def)
  have no_fault: False if "writer_step c (Some (t, q)) (Inl f)" for f
    using orderly_step [OF ser ok that assms(5)] by simp
  show ?thesis
  proof (cases q)
    case (Put bs)
    show ?thesis
    proof (cases "SendBuffer_GetCmdSpace (of_nat (length bs)) (sh_buffer c) (sh_world c)")
      case (Inl f)
      then show ?thesis using no_fault writer_step.space_fault [OF assms(3)] assms(4) Put by blast
    next
      case (Inr x)
      obtain r sb' w' where x: "x = (r, sb', w')" by (metis surj_pair)
      show ?thesis
      proof (cases r)
        case None
        with Inr x Put assms(4) next1 [of "\<lparr>sh_buffer = sb', sh_world = w', sh_writers = (sh_writers c)[t := (os, None)]\<rparr>"]
        show ?thesis using writer_step.no_space [OF assms(3)] by simp
      next
        case (Some p)
        with Inr x Put assms(4) next1 [of "\<lparr>sh_buffer = sb', sh_world = w', sh_writers = (sh_writers c)[t := (os, Some (p, bs))]\<rparr>"]
        show ?thesis using writer_step.space [OF assms(3)] by simp
      qed
    qed
  next
    case Flush_op
    show ?thesis
    proof (cases "SendBuffer_Flush (sh_buffer c) (sh_world c)")
      case (Inl f)
      then show ?thesis using no_fault writer_step.flush_fault [OF assms(3)] assms(4) Flush_op by blast
    next
      case (Inr x)
      obtain r sb' w' where x: "x = (r, sb', w')" by (metis surj_pair)
      with Inr Flush_op assms(4) next1 [of "\<lparr>sh_buffer = sb', sh_world = w', sh_writers = (sh_writers c)[t := (os, None)]\<rparr>"]
      show ?thesis using writer_step.flush [OF assms(3)] by simp
    qed
  qed
qed

lemma coarse_fill:
  assumes "starts_ok sb fd w progs" "coarse_run sb w progs ls c"
    and "t < length (sh_writers c)" "sh_writers c ! t = (os, Some (p, bs))"
  shows "coarse_run sb w progs ls (c\<lparr>sh_buffer := refill p bs (sh_buffer c), sh_writers := (sh_writers c)[t := (os, None)]\<rparr>)"
    and "in_block (s_mBuffer (sh_buffer c)) p (length bs)" "p + length bs \<le> unat (s_mOffset (sh_buffer c))"
proof -
  have st: "store_bytes (s_mBuffer (sh_buffer c)) p bs = Inr (poke (s_mBuffer (sh_buffer c)) p bs)"
    using serial_fill [OF coarse_serial [OF assms(1,2)] assms(3,4)] by blast
  then show "in_block (s_mBuffer (sh_buffer c)) p (length bs)" by (simp add: store_bytes_def split: if_splits)
  show "p + length bs \<le> unat (s_mOffset (sh_buffer c))"
  proof -
    obtain sb' where "written_up_to (sh_buffer c) (sh_writers c) sb'"
      using coarse_serial [OF assms(1,2)] unfolding serial_def by blast
    moreover have "pending (sh_writers c) t = Some (p, bs)" using assms(3,4) by (simp add: pending_def)
    ultimately show ?thesis unfolding written_up_to_def by metis
  qed
  show "coarse_run sb w progs ls (c\<lparr>sh_buffer := refill p bs (sh_buffer c), sh_writers := (sh_writers c)[t := (os, None)]\<rparr>)"
    using writers_run.next_fill [OF assms(2) [unfolded coarse_run_def] writer_step.fill [OF assms(3,4) st]]
    by (simp add: coarse_run_def refill_def orderly_def)
qed

lemma coarse_op_ok:
  assumes "starts_ok sb fd w progs" "coarse_run sb w progs ls c" "t < length (sh_writers c)" "sh_writers c ! t = (q # os, x)"
  shows "op_ok q"
  using serial_op_ok [OF coarse_serial [OF assms(1,2)] _ assms(3,4)] assms(1) by (simp add: starts_ok_def)

lemma idle_step:
  assumes "starts_ok sb fd w progs" "idle_view sb w progs s" "may_step t s"
  shows "\<exists>s'. thread_step t s = Inr s' \<and> (idle_view sb w progs s' \<or> (\<exists>u. busy_view sb w progs u s'))"
proof (cases "t < length (fi_threads s)")
  case False
  with assms(2) show ?thesis by (simp add: thread_step_def)
next
  case t: True
  obtain c where c: "coarse_run sb w progs (fi_begun s) c" "sh_writers c = map coarse_thread (fi_threads s)"
      "sh_buffer c = fi_buffer s" "sh_world c = fi_world s" and nc: "nobody_calls s"
    using assms(2) by (auto simp: idle_view_def)
  have nic: "\<not> in_call (snd (fi_threads s ! u))" if "u < length (fi_threads s)" for u
    using nc that by (simp add: nobody_calls_nth)
  obtain os x where th: "fi_threads s ! t = (os, x)" by fastforce
  show ?thesis
  proof (cases x)
    case (In_call q ph)
    with nic [OF t] th show ?thesis by simp
  next
    case (Has_space p bs)
    then have w: "t < length (sh_writers c)" "sh_writers c ! t = (os, Some (p, bs))"
      using c(2) t th by simp_all
    note f = coarse_fill [OF assms(1) c(1) w]
    let ?s = "s\<lparr>fi_buffer := refill p bs (fi_buffer s), fi_threads := (fi_threads s)[t := (os, Idle)]\<rparr>"
    have "thread_step t s = Inr ?s"
      using t th Has_space f(2) c(3) by (simp add: thread_step_def store_bytes_def refill_def)
    moreover have "idle_view sb w progs ?s"
      unfolding idle_view_def
      using f(1) c nic t by (intro conjI exI [of _ "c\<lparr>sh_buffer := refill p bs (sh_buffer c), sh_writers := (sh_writers c)[t := (os, None)]\<rparr>"])
        (auto simp: map_update nobody_calls_nth nth_list_update)
    ultimately show ?thesis by blast
  next
    case Idle
    show ?thesis
    proof (cases os)
      case Nil
      with Idle th t assms(2) show ?thesis by (simp add: thread_step_def)
    next
      case (Cons q os')
      let ?s = "s\<lparr>fi_threads := (fi_threads s)[t := (os', In_call q (call_start q))], fi_begun := fi_begun s @ [(t, q)]\<rparr>"
      have "sends q (fi_buffer s) \<longrightarrow> nobody_writes s"
        using assms(3) t th Cons Idle by (simp add: may_step_def)
      then have "orderly c (Some (t, q))"
        using coarse_quiet [of s c] c(2,3) by (simp add: orderly_def)
      moreover have "thread_step t s = Inr ?s" using t th Cons Idle by (simp add: thread_step_def)
      moreover have "map coarse_thread ((fi_threads s)[t := (os', In_call q (call_start q))]) = map coarse_thread (fi_threads s)"
        using t th Cons Idle by (auto simp: map_update list_update_same_conv)
      ultimately have "busy_view sb w progs t ?s"
        unfolding busy_view_def using c t nic
        by (intro conjI exI [of _ c] exI [of _ "fi_begun s"] exI [of _ os'] exI [of _ q] exI [of _ "call_start q"] exI [of _ 0])
          (auto simp: nth_list_update)
      with \<open>thread_step t s = Inr ?s\<close> show ?thesis by blast
    qed
  qed
qed

lemma busy_own_step:
  assumes "starts_ok sb fd w progs" "busy_view sb w progs t s"
  shows "\<exists>s'. thread_step t s = Inr s' \<and> (idle_view sb w progs s' \<or> busy_view sb w progs t s')"
proof -
  obtain c ls os q ph n where c: "coarse_run sb w progs ls c" "sh_writers c = map coarse_thread (fi_threads s)"
      "fi_begun s = ls @ [(t, q)]" "fi_threads s ! t = (os, In_call q ph)" "orderly c (Some (t, q))"
      "call_run n (call_start q) (sh_buffer c) (sh_world c) = Inr (Goes_on ph, fi_buffer s, fi_world s)"
    and t: "t < length (fi_threads s)"
    and nic: "\<And>u. u < length (fi_threads s) \<Longrightarrow> u \<noteq> t \<Longrightarrow> \<not> in_call (snd (fi_threads s ! u))"
    using assms(2) unfolding busy_view_def by blast
  have w: "t < length (sh_writers c)" "sh_writers c ! t = (q # os, None)" using c(2,4) t by simp_all
  show ?thesis
  proof (cases "\<exists>ph' sb' w'. call_step ph (fi_buffer s) (fi_world s) = Inr (Goes_on ph', sb', w')")
    case True
    then obtain ph' sb' w' where st: "call_step ph (fi_buffer s) (fi_world s) = Inr (Goes_on ph', sb', w')" by blast
    let ?s = "s\<lparr>fi_buffer := sb', fi_world := w', fi_threads := (fi_threads s)[t := (os, In_call q ph')]\<rparr>"
    have "call_run (Suc n) (call_start q) (sh_buffer c) (sh_world c) = Inr (Goes_on ph', sb', w')"
      unfolding call_run_snoc c(6) by (simp add: st)
    moreover have "map coarse_thread ((fi_threads s)[t := (os, In_call q ph')]) = map coarse_thread (fi_threads s)"
      using t c(4) by (auto simp: map_update list_update_same_conv)
    ultimately have "busy_view sb w progs t ?s"
      unfolding busy_view_def using c t nic
      by (intro conjI exI [of _ c] exI [of _ ls] exI [of _ os] exI [of _ q] exI [of _ ph'] exI [of _ "Suc n"])
        (auto simp: nth_list_update simp del: call_run.simps)
    moreover have "thread_step t s = Inr ?s" using t c(4) st by (simp add: thread_step_def)
    ultimately show ?thesis by blast
  next
    case False
    then have "call_whole q (sh_buffer c) (sh_world c) = call_step ph (fi_buffer s) (fi_world s)"
      by (intro last_step [OF c(6)]) (auto simp: finished_def)
    with coarse_call [OF assms(1) c(1) w c(5)] obtain r sb' w' where
      st: "call_step ph (fi_buffer s) (fi_world s) = Inr (r, sb', w')"
      and run: "coarse_run sb w progs (ls @ [(t, q)])
        \<lparr>sh_buffer = sb', sh_world = w', sh_writers = (sh_writers c)[t := coarse_thread (os, thread_after q r)]\<rparr>"
      by auto
    let ?s = "s\<lparr>fi_buffer := sb', fi_world := w', fi_threads := (fi_threads s)[t := (os, thread_after q r)]\<rparr>"
    have "\<not> in_call (thread_after q r)" using False st by (cases "(q, r)" rule: thread_after.cases) auto
    then have "idle_view sb w progs ?s"
      unfolding idle_view_def using run c(2,3) nic t
      by (intro conjI exI [of _ "\<lparr>sh_buffer = sb', sh_world = w', sh_writers = (sh_writers c)[t := coarse_thread (os, thread_after q r)]\<rparr>"])
        (auto simp: map_update nobody_calls_nth nth_list_update)
    moreover have "thread_step t s = Inr ?s" using t c(4) st by (simp add: thread_step_def)
    ultimately show ?thesis by blast
  qed
qed

lemma busy_fill:
  assumes "starts_ok sb fd w progs" "busy_view sb w progs t s" "u < length (fi_threads s)"
    and "fi_threads s ! u = (os', Has_space p bs)"
  shows "\<exists>s'. thread_step u s = Inr s' \<and> busy_view sb w progs t s'"
proof -
  obtain c ls os q ph n where c: "coarse_run sb w progs ls c" "sh_writers c = map coarse_thread (fi_threads s)"
      "fi_begun s = ls @ [(t, q)]" "fi_threads s ! t = (os, In_call q ph)" "orderly c (Some (t, q))"
      "call_run n (call_start q) (sh_buffer c) (sh_world c) = Inr (Goes_on ph, fi_buffer s, fi_world s)"
    and t: "t < length (fi_threads s)"
    and nic: "\<And>u. u < length (fi_threads s) \<Longrightarrow> u \<noteq> t \<Longrightarrow> \<not> in_call (snd (fi_threads s ! u))"
    using assms(2) unfolding busy_view_def by blast
  have ne: "u \<noteq> t" using c(4) assms(4) by auto
  have wt: "t < length (sh_writers c)" "sh_writers c ! t = (q # os, None)" using c(2,4) t by simp_all
  have wu: "u < length (sh_writers c)" "sh_writers c ! u = (os', Some (p, bs))" using c(2) assms(3,4) by simp_all
  note f = coarse_fill [OF assms(1) c(1) wu]
  have "\<not> quiet c" using wu by (metis nth_mem option.distinct(1) quiet_def snd_conv)
  then have ns: "\<not> sends q (sh_buffer c)" using c(5) by (simp add: orderly_def)
  let ?c = "c\<lparr>sh_buffer := refill p bs (sh_buffer c), sh_writers := (sh_writers c)[u := (os', None)]\<rparr>"
  let ?s = "s\<lparr>fi_buffer := refill p bs (fi_buffer s), fi_threads := (fi_threads s)[u := (os', Idle)]\<rparr>"
  have "\<not> sends q (refill p bs (sh_buffer c))" using ns by (cases q) (auto simp: refill_def)
  then have o: "orderly ?c (Some (t, q))" by (simp add: orderly_def)
  have "call_run n (call_start q) (refill p bs (sh_buffer c)) (sh_world c)
      = Inr (Goes_on ph, refill p bs (fi_buffer s), fi_world s)"
    using call_run_refill [OF start_above [OF ns coarse_op_ok [OF assms(1) c(1) wt]] f(3), of n "sh_world c"] c(6) by simp
  then have "busy_view sb w progs t ?s"
    unfolding busy_view_def using c(2-4) f(1) o t nic ne assms(3)
    by (intro conjI exI [of _ ?c] exI [of _ ls] exI [of _ os] exI [of _ q] exI [of _ ph] exI [of _ n])
      (auto simp: map_update nth_list_update)
  moreover have "in_block (s_mBuffer (fi_buffer s)) p (length bs)"
    using f(2) call_run_bsize [OF c(6)] by (simp add: in_block_def)
  then have "thread_step u s = Inr ?s"
    using assms(3,4) by (simp add: thread_step_def store_bytes_def refill_def)
  ultimately show ?thesis by blast
qed

lemma view_step:
  assumes "starts_ok sb fd w progs" "idle_view sb w progs s \<or> busy_view sb w progs t s" "may_step u s"
  shows "\<exists>s'. thread_step u s = Inr s' \<and> (idle_view sb w progs s' \<or> (\<exists>t. busy_view sb w progs t s'))"
  using assms(2)
proof
  assume "idle_view sb w progs s"
  then show ?thesis by (rule idle_step [OF assms(1) _ assms(3)])
next
  assume b: "busy_view sb w progs t s"
  show ?thesis
  proof (cases "u = t")
    case True
    with busy_own_step [OF assms(1) b] show ?thesis by blast
  next
    case ne: False
    show ?thesis
    proof (cases "u < length (fi_threads s)")
      case False
      with b show ?thesis by (auto simp: thread_step_def)
    next
      case u: True
      obtain os x where th: "fi_threads s ! u = (os, x)" by fastforce
      have "\<not> in_call x" "\<not> nobody_calls s"
        using b u ne th by (auto simp: busy_view_def nobody_calls_nth)
      then consider (idle) "x = Idle" "os = []" | (space) p bs where "x = Has_space p bs"
        using assms(3) u th by (cases x; cases os) (auto simp: may_step_def)
      then show ?thesis
      proof cases
        case idle
        with b u th show ?thesis by (auto simp: thread_step_def)
      next
        case space
        with busy_fill [OF assms(1) b u] th show ?thesis by blast
      qed
    qed
  qed
qed

lemma disciplined_run:
  assumes "starts_ok sb fd w progs"
  shows "idle_view sb w progs s \<or> (\<exists>t. busy_view sb w progs t s) \<Longrightarrow> disciplined ts s \<Longrightarrow>
    \<exists>s'. schedule_run ts s = Inr s' \<and> (idle_view sb w progs s' \<or> (\<exists>t. busy_view sb w progs t s'))"
proof (induction ts arbitrary: s)
  case (Cons t ts)
  then obtain s' where s': "thread_step t s = Inr s'" "idle_view sb w progs s' \<or> (\<exists>t. busy_view sb w progs t s')"
    using view_step [OF assms, of s _ t] by (metis disciplined.simps(2))
  with Cons.IH [OF s'(2)] Cons.prems(2) show ?case by simp
qed simp

lemma start_view: "idle_view sb w progs (interleaved_start sb w progs)"
proof -
  have "coarse_run sb w progs [] (writers_start sb w progs)"
    unfolding coarse_run_def by (rule writers_run.start)
  then show ?thesis
    unfolding idle_view_def interleaved_start_def
    by (intro conjI exI [of _ "writers_start sb w progs"]) (simp_all add: writers_start_def nobody_calls_def)
qed

section \<open>Properties\<close>

text \<open>
  C27: What a lock around each call would give. Threads share a \<open>SendBuffer\<close> and interleave at every
  read and write of \<open>mOffset\<close> and every store into a header; the writing of a command's bytes happens
  after \<open>GetCmdSpace\<close> has returned, at any time, also while another thread is in a call. As long as no
  call of \<open>GetCmdSpace\<close> or \<open>Flush\<close> begins while another is under way, and none that sends the
  buffer while a thread has a space it has not yet written, the threads behave like one thread:
  nothing is accessed out of bounds, and when no call is under way the kernel has seen exactly
  what it sees when one thread does the operations in the order in which they were begun, each
  thread's operations in the order of its program; whole batches in that order are on the
  connection; and when no space is left to be written the buffer is that of the single thread.
  The connection is healthy. The library has no such lock.
\<close>

theorem Calls_that_do_not_overlap_are_serial:
  assumes "holds sb []" "connected sb fd w" "\<forall>os \<in> set progs. \<forall>p \<in> set os. op_ok p"
    and "disciplined ts (interleaved_start sb w progs)"
  shows "\<exists>s. schedule_run ts (interleaved_start sb w progs) = Inr s
    \<and> (nobody_calls s \<longrightarrow> (\<exists>oks sb'. wire_run (map snd (fi_begun s)) sb w = Inr (oks, sb', fi_world s)
        \<and> (\<forall>t < length progs. map snd (filter (\<lambda>l. fst l = t) (fi_begun s)) @ fst (fi_threads s ! t) = progs ! t)
        \<and> tx (fi_world s) fd = tx w fd @ stream_bytes (q_sent (snd (queue_run (map snd (fi_begun s)) queue_start)))
        \<and> (nobody_writes s \<longrightarrow> fi_buffer s = sb')))"
proof -
  have ok: "starts_ok sb fd w progs" using assms(1-3) by (simp add: starts_ok_def)
  obtain s where s: "schedule_run ts (interleaved_start sb w progs) = Inr s"
      "idle_view sb w progs s \<or> (\<exists>t. busy_view sb w progs t s)"
    using disciplined_run [OF ok _ assms(4)] start_view by blast
  have "\<exists>oks sb'. wire_run (map snd (fi_begun s)) sb w = Inr (oks, sb', fi_world s)
        \<and> (\<forall>t < length progs. map snd (filter (\<lambda>l. fst l = t) (fi_begun s)) @ fst (fi_threads s ! t) = progs ! t)
        \<and> tx (fi_world s) fd = tx w fd @ stream_bytes (q_sent (snd (queue_run (map snd (fi_begun s)) queue_start)))
        \<and> (nobody_writes s \<longrightarrow> fi_buffer s = sb')" if n: "nobody_calls s"
  proof -
    have "\<not> busy_view sb w progs t s" for t
      using n by (auto simp: busy_view_def nobody_calls_nth)
    then obtain c where c: "coarse_run sb w progs (fi_begun s) c" "sh_writers c = map coarse_thread (fi_threads s)"
        "sh_buffer c = fi_buffer s" "sh_world c = fi_world s"
      using s(2) by (auto simp: idle_view_def)
    have same: "fst (coarse_thread th) = fst th" if "th \<in> set (fi_threads s)" for th
      using n that by (cases th rule: coarse_thread.cases) (auto simp: nobody_calls_def)
    then have th: "fst (sh_writers c ! t) = fst (fi_threads s ! t)" if "t < length (fi_threads s)" for t
      using that by (simp add: c(2))
    obtain oks sb' where r: "wire_run (map snd (fi_begun s)) sb w = Inr (oks, sb', sh_world c)"
        "\<forall>t < length progs. map snd (filter (\<lambda>l. fst l = t) (fi_begun s)) @ fst (sh_writers c ! t) = progs ! t"
        "tx (sh_world c) fd = tx w fd @ stream_bytes (q_sent (snd (queue_run (map snd (fi_begun s)) queue_start)))"
        "quiet c \<longrightarrow> sh_buffer c = sb'"
      using Orderly_writers_are_serial [OF assms(1-3) c(1) [unfolded coarse_run_def]] by auto
    have "length (fi_threads s) = length progs"
      using coarse_serial [OF ok c(1)] by (simp add: serial_def c(2))
    with r th coarse_quiet [OF _ c(2)] show ?thesis by (simp add: c(3,4))
  qed
  with s(1) show ?thesis by blast
qed


section \<open>Witnesses\<close>


lemma Calls_that_do_not_overlap_are_serial_witness:
  "\<exists>s oks. schedule_run [0, 0, 0, 0, 0, 0, 0, 1, 1, 1, 1, 0, 1, 1, 1, 1] (interleaved_start demo_sender demo_link [[Put [65]], [Put [66]]]) = Inr s
     \<and> wire_run [Put [65], Put [66]] demo_sender demo_link = Inr (oks, fi_buffer s, fi_world s)"
proof -
  have ok: "\<forall>os \<in> set [[Put [65]], [Put [66]]]. \<forall>p \<in> set os. op_ok p" by (simp add: PTRDIFF_MAX_def)
  have size: "bsize (s_mBuffer demo_sender) = 2000000" using demo_sender_inv(1) by (simp add: SB_inv_def buffer_consts)
  have "disciplined [0, 0, 0, 0, 0, 0, 0, 1, 1, 1, 1, 0, 1, 1, 1, 1] (interleaved_start demo_sender demo_link [[Put [65]], [Put [66]]])"
    by (simp add: thread_step_def interleaved_start_def demo_sender_inv(2) size store_bytes_def in_block_def may_step_def
        nobody_calls_def nobody_writes_def buffer_consts)
  from Calls_that_do_not_overlap_are_serial [OF demo_sender_ok(1,2) ok this]
  show ?thesis
    by (fastforce simp add: thread_step_def interleaved_start_def demo_sender_inv(2) size store_bytes_def in_block_def
        nobody_calls_def nobody_writes_def buffer_consts)
qed

end
