(* ===== verification/Api_Enums.thy ===== *)
theory Api_Enums
  imports DD_Prelude
begin

text \<open>
  The enumerations of \<open>include/webgpu.h\<close>. For each: its constants in the order of the header, their
  values, the list of them, and the contract \<open>enumeration\<close>. Every enumeration ends with a constant
  \<open>Force32\<close>, the largest value of an \<open>int\<close>, so that no compiler chooses a smaller type.
\<close>

section \<open>Enumerations\<close>

text \<open>The constants of an enumeration as their values: each larger than the one before.\<close>

fun increasing :: "int list \<Rightarrow> bool" where
  "increasing [] \<longleftrightarrow> True"
| "increasing [x] \<longleftrightarrow> True"
| "increasing (x # y # xs) \<longleftrightarrow> x < y \<and> increasing (y # xs)"

lemma increasing_Cons: "increasing (x # xs) \<Longrightarrow> (\<forall>y \<in> set xs. x < y) \<and> increasing xs"
  by (induction xs arbitrary: x) force+

lemma increasing_distinct: "increasing xs \<Longrightarrow> distinct xs"
  by (induction xs) (auto dest: increasing_Cons)

lemma increasing_last: "increasing xs \<Longrightarrow> x \<in> set xs \<Longrightarrow> x \<le> last xs"
proof (induction xs)
  case (Cons y xs)
  from increasing_Cons [OF Cons.prems(1)] have y: "\<forall>z \<in> set xs. y < z" and xs: "increasing xs" by simp_all
  show ?case
  proof (cases "xs = []")
    case False
    then have "y < last xs" using y by simp
    with False Cons xs show ?thesis by auto
  qed (use Cons.prems in simp)
qed simp

lemma increasing_hd: "increasing xs \<Longrightarrow> x \<in> set xs \<Longrightarrow> hd xs \<le> x"
  by (cases xs) (auto dest!: increasing_Cons)

locale enumeration =
  fixes value_of :: "'e \<Rightarrow> int" and constants :: "'e list"
  assumes listed: "e \<in> set constants"
    and increasing: "increasing (map value_of constants)"
    and first: "0 \<le> value_of (hd constants)"
    and force32: "value_of (last constants) = 2147483647"
begin

lemma value_bounds: "0 \<le> value_of e \<and> value_of e < 2 ^ 31"
proof -
  have e: "value_of e \<in> set (map value_of constants)" and ne: "constants \<noteq> []"
    using listed [of e] by auto
  from increasing_hd [OF increasing e] increasing_last [OF increasing e] first force32 ne
  show ?thesis by (simp add: hd_map last_map)
qed

lemma value_inject: "value_of e = value_of e' \<longleftrightarrow> e = e'"
  using increasing_distinct [OF increasing] listed by (auto simp: distinct_map dest: inj_onD)

text \<open>In a 32-bit word no value is lost.\<close>

lemma word_value: "uint (of_int (value_of e) :: 32 word) = value_of e"
  using value_bounds [of e] by (simp add: uint_word_of_int)

end

section \<open>The enumerations of the header\<close>

datatype (plugins only: size) WGPUWGSLFeatureName =
    WGPUWGSLFeatureName_Undefined
  | WGPUWGSLFeatureName_ReadonlyAndReadwriteStorageTextures
  | WGPUWGSLFeatureName_Packed4x8IntegerDotProduct
  | WGPUWGSLFeatureName_UnrestrictedPointerParameters
  | WGPUWGSLFeatureName_PointerCompositeAccess
  | WGPUWGSLFeatureName_ChromiumTestingUnimplemented
  | WGPUWGSLFeatureName_ChromiumTestingUnsafeExperimental
  | WGPUWGSLFeatureName_ChromiumTestingExperimental
  | WGPUWGSLFeatureName_ChromiumTestingShippedWithKillswitch
  | WGPUWGSLFeatureName_ChromiumTestingShipped
  | WGPUWGSLFeatureName_Force32

primrec WGPUWGSLFeatureName_value :: "WGPUWGSLFeatureName \<Rightarrow> int" where
  "WGPUWGSLFeatureName_value WGPUWGSLFeatureName_Undefined = 0"
| "WGPUWGSLFeatureName_value WGPUWGSLFeatureName_ReadonlyAndReadwriteStorageTextures = 1"
| "WGPUWGSLFeatureName_value WGPUWGSLFeatureName_Packed4x8IntegerDotProduct = 2"
| "WGPUWGSLFeatureName_value WGPUWGSLFeatureName_UnrestrictedPointerParameters = 3"
| "WGPUWGSLFeatureName_value WGPUWGSLFeatureName_PointerCompositeAccess = 4"
| "WGPUWGSLFeatureName_value WGPUWGSLFeatureName_ChromiumTestingUnimplemented = 1000"
| "WGPUWGSLFeatureName_value WGPUWGSLFeatureName_ChromiumTestingUnsafeExperimental = 1001"
| "WGPUWGSLFeatureName_value WGPUWGSLFeatureName_ChromiumTestingExperimental = 1002"
| "WGPUWGSLFeatureName_value WGPUWGSLFeatureName_ChromiumTestingShippedWithKillswitch = 1003"
| "WGPUWGSLFeatureName_value WGPUWGSLFeatureName_ChromiumTestingShipped = 1004"
| "WGPUWGSLFeatureName_value WGPUWGSLFeatureName_Force32 = 2147483647"

definition WGPUWGSLFeatureName_list :: "WGPUWGSLFeatureName list" where
  "WGPUWGSLFeatureName_list = [WGPUWGSLFeatureName_Undefined, WGPUWGSLFeatureName_ReadonlyAndReadwriteStorageTextures, WGPUWGSLFeatureName_Packed4x8IntegerDotProduct, WGPUWGSLFeatureName_UnrestrictedPointerParameters, WGPUWGSLFeatureName_PointerCompositeAccess, WGPUWGSLFeatureName_ChromiumTestingUnimplemented, WGPUWGSLFeatureName_ChromiumTestingUnsafeExperimental, WGPUWGSLFeatureName_ChromiumTestingExperimental, WGPUWGSLFeatureName_ChromiumTestingShippedWithKillswitch, WGPUWGSLFeatureName_ChromiumTestingShipped, WGPUWGSLFeatureName_Force32]"

interpretation WGPUWGSLFeatureName_enum: enumeration WGPUWGSLFeatureName_value WGPUWGSLFeatureName_list
proof unfold_locales
  fix e :: WGPUWGSLFeatureName
  show "e \<in> set WGPUWGSLFeatureName_list" by (cases e) (simp_all add: WGPUWGSLFeatureName_list_def)
qed (simp_all add: WGPUWGSLFeatureName_list_def)

datatype (plugins only: size) WGPUAdapterType =
    WGPUAdapterType_DiscreteGPU
  | WGPUAdapterType_IntegratedGPU
  | WGPUAdapterType_CPU
  | WGPUAdapterType_Unknown
  | WGPUAdapterType_Force32

primrec WGPUAdapterType_value :: "WGPUAdapterType \<Rightarrow> int" where
  "WGPUAdapterType_value WGPUAdapterType_DiscreteGPU = 1"
| "WGPUAdapterType_value WGPUAdapterType_IntegratedGPU = 2"
| "WGPUAdapterType_value WGPUAdapterType_CPU = 3"
| "WGPUAdapterType_value WGPUAdapterType_Unknown = 4"
| "WGPUAdapterType_value WGPUAdapterType_Force32 = 2147483647"

definition WGPUAdapterType_list :: "WGPUAdapterType list" where
  "WGPUAdapterType_list = [WGPUAdapterType_DiscreteGPU, WGPUAdapterType_IntegratedGPU, WGPUAdapterType_CPU, WGPUAdapterType_Unknown, WGPUAdapterType_Force32]"

interpretation WGPUAdapterType_enum: enumeration WGPUAdapterType_value WGPUAdapterType_list
proof unfold_locales
  fix e :: WGPUAdapterType
  show "e \<in> set WGPUAdapterType_list" by (cases e) (simp_all add: WGPUAdapterType_list_def)
qed (simp_all add: WGPUAdapterType_list_def)

datatype (plugins only: size) WGPUAddressMode =
    WGPUAddressMode_Undefined
  | WGPUAddressMode_ClampToEdge
  | WGPUAddressMode_Repeat
  | WGPUAddressMode_MirrorRepeat
  | WGPUAddressMode_Force32

primrec WGPUAddressMode_value :: "WGPUAddressMode \<Rightarrow> int" where
  "WGPUAddressMode_value WGPUAddressMode_Undefined = 0"
| "WGPUAddressMode_value WGPUAddressMode_ClampToEdge = 1"
| "WGPUAddressMode_value WGPUAddressMode_Repeat = 2"
| "WGPUAddressMode_value WGPUAddressMode_MirrorRepeat = 3"
| "WGPUAddressMode_value WGPUAddressMode_Force32 = 2147483647"

definition WGPUAddressMode_list :: "WGPUAddressMode list" where
  "WGPUAddressMode_list = [WGPUAddressMode_Undefined, WGPUAddressMode_ClampToEdge, WGPUAddressMode_Repeat, WGPUAddressMode_MirrorRepeat, WGPUAddressMode_Force32]"

interpretation WGPUAddressMode_enum: enumeration WGPUAddressMode_value WGPUAddressMode_list
proof unfold_locales
  fix e :: WGPUAddressMode
  show "e \<in> set WGPUAddressMode_list" by (cases e) (simp_all add: WGPUAddressMode_list_def)
qed (simp_all add: WGPUAddressMode_list_def)

datatype (plugins only: size) WGPUAlphaMode =
    WGPUAlphaMode_Opaque
  | WGPUAlphaMode_Premultiplied
  | WGPUAlphaMode_Unpremultiplied
  | WGPUAlphaMode_Force32

primrec WGPUAlphaMode_value :: "WGPUAlphaMode \<Rightarrow> int" where
  "WGPUAlphaMode_value WGPUAlphaMode_Opaque = 1"
| "WGPUAlphaMode_value WGPUAlphaMode_Premultiplied = 2"
| "WGPUAlphaMode_value WGPUAlphaMode_Unpremultiplied = 3"
| "WGPUAlphaMode_value WGPUAlphaMode_Force32 = 2147483647"

definition WGPUAlphaMode_list :: "WGPUAlphaMode list" where
  "WGPUAlphaMode_list = [WGPUAlphaMode_Opaque, WGPUAlphaMode_Premultiplied, WGPUAlphaMode_Unpremultiplied, WGPUAlphaMode_Force32]"

interpretation WGPUAlphaMode_enum: enumeration WGPUAlphaMode_value WGPUAlphaMode_list
proof unfold_locales
  fix e :: WGPUAlphaMode
  show "e \<in> set WGPUAlphaMode_list" by (cases e) (simp_all add: WGPUAlphaMode_list_def)
qed (simp_all add: WGPUAlphaMode_list_def)

datatype (plugins only: size) WGPUBackendType =
    WGPUBackendType_Undefined
  | WGPUBackendType_Null
  | WGPUBackendType_WebGPU
  | WGPUBackendType_D3D11
  | WGPUBackendType_D3D12
  | WGPUBackendType_Metal
  | WGPUBackendType_Vulkan
  | WGPUBackendType_OpenGL
  | WGPUBackendType_OpenGLES
  | WGPUBackendType_Force32

primrec WGPUBackendType_value :: "WGPUBackendType \<Rightarrow> int" where
  "WGPUBackendType_value WGPUBackendType_Undefined = 0"
| "WGPUBackendType_value WGPUBackendType_Null = 1"
| "WGPUBackendType_value WGPUBackendType_WebGPU = 2"
| "WGPUBackendType_value WGPUBackendType_D3D11 = 3"
| "WGPUBackendType_value WGPUBackendType_D3D12 = 4"
| "WGPUBackendType_value WGPUBackendType_Metal = 5"
| "WGPUBackendType_value WGPUBackendType_Vulkan = 6"
| "WGPUBackendType_value WGPUBackendType_OpenGL = 7"
| "WGPUBackendType_value WGPUBackendType_OpenGLES = 8"
| "WGPUBackendType_value WGPUBackendType_Force32 = 2147483647"

definition WGPUBackendType_list :: "WGPUBackendType list" where
  "WGPUBackendType_list = [WGPUBackendType_Undefined, WGPUBackendType_Null, WGPUBackendType_WebGPU, WGPUBackendType_D3D11, WGPUBackendType_D3D12, WGPUBackendType_Metal, WGPUBackendType_Vulkan, WGPUBackendType_OpenGL, WGPUBackendType_OpenGLES, WGPUBackendType_Force32]"

interpretation WGPUBackendType_enum: enumeration WGPUBackendType_value WGPUBackendType_list
proof unfold_locales
  fix e :: WGPUBackendType
  show "e \<in> set WGPUBackendType_list" by (cases e) (simp_all add: WGPUBackendType_list_def)
qed (simp_all add: WGPUBackendType_list_def)

datatype (plugins only: size) WGPUBlendFactor =
    WGPUBlendFactor_Undefined
  | WGPUBlendFactor_Zero
  | WGPUBlendFactor_One
  | WGPUBlendFactor_Src
  | WGPUBlendFactor_OneMinusSrc
  | WGPUBlendFactor_SrcAlpha
  | WGPUBlendFactor_OneMinusSrcAlpha
  | WGPUBlendFactor_Dst
  | WGPUBlendFactor_OneMinusDst
  | WGPUBlendFactor_DstAlpha
  | WGPUBlendFactor_OneMinusDstAlpha
  | WGPUBlendFactor_SrcAlphaSaturated
  | WGPUBlendFactor_Constant
  | WGPUBlendFactor_OneMinusConstant
  | WGPUBlendFactor_Src1
  | WGPUBlendFactor_OneMinusSrc1
  | WGPUBlendFactor_Src1Alpha
  | WGPUBlendFactor_OneMinusSrc1Alpha
  | WGPUBlendFactor_Force32

primrec WGPUBlendFactor_value :: "WGPUBlendFactor \<Rightarrow> int" where
  "WGPUBlendFactor_value WGPUBlendFactor_Undefined = 0"
| "WGPUBlendFactor_value WGPUBlendFactor_Zero = 1"
| "WGPUBlendFactor_value WGPUBlendFactor_One = 2"
| "WGPUBlendFactor_value WGPUBlendFactor_Src = 3"
| "WGPUBlendFactor_value WGPUBlendFactor_OneMinusSrc = 4"
| "WGPUBlendFactor_value WGPUBlendFactor_SrcAlpha = 5"
| "WGPUBlendFactor_value WGPUBlendFactor_OneMinusSrcAlpha = 6"
| "WGPUBlendFactor_value WGPUBlendFactor_Dst = 7"
| "WGPUBlendFactor_value WGPUBlendFactor_OneMinusDst = 8"
| "WGPUBlendFactor_value WGPUBlendFactor_DstAlpha = 9"
| "WGPUBlendFactor_value WGPUBlendFactor_OneMinusDstAlpha = 10"
| "WGPUBlendFactor_value WGPUBlendFactor_SrcAlphaSaturated = 11"
| "WGPUBlendFactor_value WGPUBlendFactor_Constant = 12"
| "WGPUBlendFactor_value WGPUBlendFactor_OneMinusConstant = 13"
| "WGPUBlendFactor_value WGPUBlendFactor_Src1 = 14"
| "WGPUBlendFactor_value WGPUBlendFactor_OneMinusSrc1 = 15"
| "WGPUBlendFactor_value WGPUBlendFactor_Src1Alpha = 16"
| "WGPUBlendFactor_value WGPUBlendFactor_OneMinusSrc1Alpha = 17"
| "WGPUBlendFactor_value WGPUBlendFactor_Force32 = 2147483647"

definition WGPUBlendFactor_list :: "WGPUBlendFactor list" where
  "WGPUBlendFactor_list = [WGPUBlendFactor_Undefined, WGPUBlendFactor_Zero, WGPUBlendFactor_One, WGPUBlendFactor_Src, WGPUBlendFactor_OneMinusSrc, WGPUBlendFactor_SrcAlpha, WGPUBlendFactor_OneMinusSrcAlpha, WGPUBlendFactor_Dst, WGPUBlendFactor_OneMinusDst, WGPUBlendFactor_DstAlpha, WGPUBlendFactor_OneMinusDstAlpha, WGPUBlendFactor_SrcAlphaSaturated, WGPUBlendFactor_Constant, WGPUBlendFactor_OneMinusConstant, WGPUBlendFactor_Src1, WGPUBlendFactor_OneMinusSrc1, WGPUBlendFactor_Src1Alpha, WGPUBlendFactor_OneMinusSrc1Alpha, WGPUBlendFactor_Force32]"

interpretation WGPUBlendFactor_enum: enumeration WGPUBlendFactor_value WGPUBlendFactor_list
proof unfold_locales
  fix e :: WGPUBlendFactor
  show "e \<in> set WGPUBlendFactor_list" by (cases e) (simp_all add: WGPUBlendFactor_list_def)
qed (simp_all add: WGPUBlendFactor_list_def)

datatype (plugins only: size) WGPUBlendOperation =
    WGPUBlendOperation_Undefined
  | WGPUBlendOperation_Add
  | WGPUBlendOperation_Subtract
  | WGPUBlendOperation_ReverseSubtract
  | WGPUBlendOperation_Min
  | WGPUBlendOperation_Max
  | WGPUBlendOperation_Force32

primrec WGPUBlendOperation_value :: "WGPUBlendOperation \<Rightarrow> int" where
  "WGPUBlendOperation_value WGPUBlendOperation_Undefined = 0"
| "WGPUBlendOperation_value WGPUBlendOperation_Add = 1"
| "WGPUBlendOperation_value WGPUBlendOperation_Subtract = 2"
| "WGPUBlendOperation_value WGPUBlendOperation_ReverseSubtract = 3"
| "WGPUBlendOperation_value WGPUBlendOperation_Min = 4"
| "WGPUBlendOperation_value WGPUBlendOperation_Max = 5"
| "WGPUBlendOperation_value WGPUBlendOperation_Force32 = 2147483647"

definition WGPUBlendOperation_list :: "WGPUBlendOperation list" where
  "WGPUBlendOperation_list = [WGPUBlendOperation_Undefined, WGPUBlendOperation_Add, WGPUBlendOperation_Subtract, WGPUBlendOperation_ReverseSubtract, WGPUBlendOperation_Min, WGPUBlendOperation_Max, WGPUBlendOperation_Force32]"

interpretation WGPUBlendOperation_enum: enumeration WGPUBlendOperation_value WGPUBlendOperation_list
proof unfold_locales
  fix e :: WGPUBlendOperation
  show "e \<in> set WGPUBlendOperation_list" by (cases e) (simp_all add: WGPUBlendOperation_list_def)
qed (simp_all add: WGPUBlendOperation_list_def)

datatype (plugins only: size) WGPUBufferBindingType =
    WGPUBufferBindingType_Undefined
  | WGPUBufferBindingType_Uniform
  | WGPUBufferBindingType_Storage
  | WGPUBufferBindingType_ReadOnlyStorage
  | WGPUBufferBindingType_Force32

primrec WGPUBufferBindingType_value :: "WGPUBufferBindingType \<Rightarrow> int" where
  "WGPUBufferBindingType_value WGPUBufferBindingType_Undefined = 0"
| "WGPUBufferBindingType_value WGPUBufferBindingType_Uniform = 1"
| "WGPUBufferBindingType_value WGPUBufferBindingType_Storage = 2"
| "WGPUBufferBindingType_value WGPUBufferBindingType_ReadOnlyStorage = 3"
| "WGPUBufferBindingType_value WGPUBufferBindingType_Force32 = 2147483647"

definition WGPUBufferBindingType_list :: "WGPUBufferBindingType list" where
  "WGPUBufferBindingType_list = [WGPUBufferBindingType_Undefined, WGPUBufferBindingType_Uniform, WGPUBufferBindingType_Storage, WGPUBufferBindingType_ReadOnlyStorage, WGPUBufferBindingType_Force32]"

interpretation WGPUBufferBindingType_enum: enumeration WGPUBufferBindingType_value WGPUBufferBindingType_list
proof unfold_locales
  fix e :: WGPUBufferBindingType
  show "e \<in> set WGPUBufferBindingType_list" by (cases e) (simp_all add: WGPUBufferBindingType_list_def)
qed (simp_all add: WGPUBufferBindingType_list_def)

datatype (plugins only: size) WGPUBufferMapAsyncStatus =
    WGPUBufferMapAsyncStatus_Success
  | WGPUBufferMapAsyncStatus_InstanceDropped
  | WGPUBufferMapAsyncStatus_ValidationError
  | WGPUBufferMapAsyncStatus_Unknown
  | WGPUBufferMapAsyncStatus_DeviceLost
  | WGPUBufferMapAsyncStatus_DestroyedBeforeCallback
  | WGPUBufferMapAsyncStatus_UnmappedBeforeCallback
  | WGPUBufferMapAsyncStatus_MappingAlreadyPending
  | WGPUBufferMapAsyncStatus_OffsetOutOfRange
  | WGPUBufferMapAsyncStatus_SizeOutOfRange
  | WGPUBufferMapAsyncStatus_Force32

primrec WGPUBufferMapAsyncStatus_value :: "WGPUBufferMapAsyncStatus \<Rightarrow> int" where
  "WGPUBufferMapAsyncStatus_value WGPUBufferMapAsyncStatus_Success = 0"
| "WGPUBufferMapAsyncStatus_value WGPUBufferMapAsyncStatus_InstanceDropped = 1"
| "WGPUBufferMapAsyncStatus_value WGPUBufferMapAsyncStatus_ValidationError = 2"
| "WGPUBufferMapAsyncStatus_value WGPUBufferMapAsyncStatus_Unknown = 3"
| "WGPUBufferMapAsyncStatus_value WGPUBufferMapAsyncStatus_DeviceLost = 4"
| "WGPUBufferMapAsyncStatus_value WGPUBufferMapAsyncStatus_DestroyedBeforeCallback = 5"
| "WGPUBufferMapAsyncStatus_value WGPUBufferMapAsyncStatus_UnmappedBeforeCallback = 6"
| "WGPUBufferMapAsyncStatus_value WGPUBufferMapAsyncStatus_MappingAlreadyPending = 7"
| "WGPUBufferMapAsyncStatus_value WGPUBufferMapAsyncStatus_OffsetOutOfRange = 8"
| "WGPUBufferMapAsyncStatus_value WGPUBufferMapAsyncStatus_SizeOutOfRange = 9"
| "WGPUBufferMapAsyncStatus_value WGPUBufferMapAsyncStatus_Force32 = 2147483647"

definition WGPUBufferMapAsyncStatus_list :: "WGPUBufferMapAsyncStatus list" where
  "WGPUBufferMapAsyncStatus_list = [WGPUBufferMapAsyncStatus_Success, WGPUBufferMapAsyncStatus_InstanceDropped, WGPUBufferMapAsyncStatus_ValidationError, WGPUBufferMapAsyncStatus_Unknown, WGPUBufferMapAsyncStatus_DeviceLost, WGPUBufferMapAsyncStatus_DestroyedBeforeCallback, WGPUBufferMapAsyncStatus_UnmappedBeforeCallback, WGPUBufferMapAsyncStatus_MappingAlreadyPending, WGPUBufferMapAsyncStatus_OffsetOutOfRange, WGPUBufferMapAsyncStatus_SizeOutOfRange, WGPUBufferMapAsyncStatus_Force32]"

interpretation WGPUBufferMapAsyncStatus_enum: enumeration WGPUBufferMapAsyncStatus_value WGPUBufferMapAsyncStatus_list
proof unfold_locales
  fix e :: WGPUBufferMapAsyncStatus
  show "e \<in> set WGPUBufferMapAsyncStatus_list" by (cases e) (simp_all add: WGPUBufferMapAsyncStatus_list_def)
qed (simp_all add: WGPUBufferMapAsyncStatus_list_def)

datatype (plugins only: size) WGPUBufferMapState =
    WGPUBufferMapState_Unmapped
  | WGPUBufferMapState_Pending
  | WGPUBufferMapState_Mapped
  | WGPUBufferMapState_Force32

primrec WGPUBufferMapState_value :: "WGPUBufferMapState \<Rightarrow> int" where
  "WGPUBufferMapState_value WGPUBufferMapState_Unmapped = 1"
| "WGPUBufferMapState_value WGPUBufferMapState_Pending = 2"
| "WGPUBufferMapState_value WGPUBufferMapState_Mapped = 3"
| "WGPUBufferMapState_value WGPUBufferMapState_Force32 = 2147483647"

definition WGPUBufferMapState_list :: "WGPUBufferMapState list" where
  "WGPUBufferMapState_list = [WGPUBufferMapState_Unmapped, WGPUBufferMapState_Pending, WGPUBufferMapState_Mapped, WGPUBufferMapState_Force32]"

interpretation WGPUBufferMapState_enum: enumeration WGPUBufferMapState_value WGPUBufferMapState_list
proof unfold_locales
  fix e :: WGPUBufferMapState
  show "e \<in> set WGPUBufferMapState_list" by (cases e) (simp_all add: WGPUBufferMapState_list_def)
qed (simp_all add: WGPUBufferMapState_list_def)

datatype (plugins only: size) WGPUCallbackMode =
    WGPUCallbackMode_WaitAnyOnly
  | WGPUCallbackMode_AllowProcessEvents
  | WGPUCallbackMode_AllowSpontaneous
  | WGPUCallbackMode_Force32

primrec WGPUCallbackMode_value :: "WGPUCallbackMode \<Rightarrow> int" where
  "WGPUCallbackMode_value WGPUCallbackMode_WaitAnyOnly = 0"
| "WGPUCallbackMode_value WGPUCallbackMode_AllowProcessEvents = 1"
| "WGPUCallbackMode_value WGPUCallbackMode_AllowSpontaneous = 2"
| "WGPUCallbackMode_value WGPUCallbackMode_Force32 = 2147483647"

definition WGPUCallbackMode_list :: "WGPUCallbackMode list" where
  "WGPUCallbackMode_list = [WGPUCallbackMode_WaitAnyOnly, WGPUCallbackMode_AllowProcessEvents, WGPUCallbackMode_AllowSpontaneous, WGPUCallbackMode_Force32]"

interpretation WGPUCallbackMode_enum: enumeration WGPUCallbackMode_value WGPUCallbackMode_list
proof unfold_locales
  fix e :: WGPUCallbackMode
  show "e \<in> set WGPUCallbackMode_list" by (cases e) (simp_all add: WGPUCallbackMode_list_def)
qed (simp_all add: WGPUCallbackMode_list_def)

datatype (plugins only: size) WGPUCompareFunction =
    WGPUCompareFunction_Undefined
  | WGPUCompareFunction_Never
  | WGPUCompareFunction_Less
  | WGPUCompareFunction_Equal
  | WGPUCompareFunction_LessEqual
  | WGPUCompareFunction_Greater
  | WGPUCompareFunction_NotEqual
  | WGPUCompareFunction_GreaterEqual
  | WGPUCompareFunction_Always
  | WGPUCompareFunction_Force32

primrec WGPUCompareFunction_value :: "WGPUCompareFunction \<Rightarrow> int" where
  "WGPUCompareFunction_value WGPUCompareFunction_Undefined = 0"
| "WGPUCompareFunction_value WGPUCompareFunction_Never = 1"
| "WGPUCompareFunction_value WGPUCompareFunction_Less = 2"
| "WGPUCompareFunction_value WGPUCompareFunction_Equal = 3"
| "WGPUCompareFunction_value WGPUCompareFunction_LessEqual = 4"
| "WGPUCompareFunction_value WGPUCompareFunction_Greater = 5"
| "WGPUCompareFunction_value WGPUCompareFunction_NotEqual = 6"
| "WGPUCompareFunction_value WGPUCompareFunction_GreaterEqual = 7"
| "WGPUCompareFunction_value WGPUCompareFunction_Always = 8"
| "WGPUCompareFunction_value WGPUCompareFunction_Force32 = 2147483647"

definition WGPUCompareFunction_list :: "WGPUCompareFunction list" where
  "WGPUCompareFunction_list = [WGPUCompareFunction_Undefined, WGPUCompareFunction_Never, WGPUCompareFunction_Less, WGPUCompareFunction_Equal, WGPUCompareFunction_LessEqual, WGPUCompareFunction_Greater, WGPUCompareFunction_NotEqual, WGPUCompareFunction_GreaterEqual, WGPUCompareFunction_Always, WGPUCompareFunction_Force32]"

interpretation WGPUCompareFunction_enum: enumeration WGPUCompareFunction_value WGPUCompareFunction_list
proof unfold_locales
  fix e :: WGPUCompareFunction
  show "e \<in> set WGPUCompareFunction_list" by (cases e) (simp_all add: WGPUCompareFunction_list_def)
qed (simp_all add: WGPUCompareFunction_list_def)

datatype (plugins only: size) WGPUCompilationInfoRequestStatus =
    WGPUCompilationInfoRequestStatus_Success
  | WGPUCompilationInfoRequestStatus_InstanceDropped
  | WGPUCompilationInfoRequestStatus_Error
  | WGPUCompilationInfoRequestStatus_DeviceLost
  | WGPUCompilationInfoRequestStatus_Unknown
  | WGPUCompilationInfoRequestStatus_Force32

primrec WGPUCompilationInfoRequestStatus_value :: "WGPUCompilationInfoRequestStatus \<Rightarrow> int" where
  "WGPUCompilationInfoRequestStatus_value WGPUCompilationInfoRequestStatus_Success = 0"
| "WGPUCompilationInfoRequestStatus_value WGPUCompilationInfoRequestStatus_InstanceDropped = 1"
| "WGPUCompilationInfoRequestStatus_value WGPUCompilationInfoRequestStatus_Error = 2"
| "WGPUCompilationInfoRequestStatus_value WGPUCompilationInfoRequestStatus_DeviceLost = 3"
| "WGPUCompilationInfoRequestStatus_value WGPUCompilationInfoRequestStatus_Unknown = 4"
| "WGPUCompilationInfoRequestStatus_value WGPUCompilationInfoRequestStatus_Force32 = 2147483647"

definition WGPUCompilationInfoRequestStatus_list :: "WGPUCompilationInfoRequestStatus list" where
  "WGPUCompilationInfoRequestStatus_list = [WGPUCompilationInfoRequestStatus_Success, WGPUCompilationInfoRequestStatus_InstanceDropped, WGPUCompilationInfoRequestStatus_Error, WGPUCompilationInfoRequestStatus_DeviceLost, WGPUCompilationInfoRequestStatus_Unknown, WGPUCompilationInfoRequestStatus_Force32]"

interpretation WGPUCompilationInfoRequestStatus_enum: enumeration WGPUCompilationInfoRequestStatus_value WGPUCompilationInfoRequestStatus_list
proof unfold_locales
  fix e :: WGPUCompilationInfoRequestStatus
  show "e \<in> set WGPUCompilationInfoRequestStatus_list" by (cases e) (simp_all add: WGPUCompilationInfoRequestStatus_list_def)
qed (simp_all add: WGPUCompilationInfoRequestStatus_list_def)

datatype (plugins only: size) WGPUCompilationMessageType =
    WGPUCompilationMessageType_Error
  | WGPUCompilationMessageType_Warning
  | WGPUCompilationMessageType_Info
  | WGPUCompilationMessageType_Force32

primrec WGPUCompilationMessageType_value :: "WGPUCompilationMessageType \<Rightarrow> int" where
  "WGPUCompilationMessageType_value WGPUCompilationMessageType_Error = 1"
| "WGPUCompilationMessageType_value WGPUCompilationMessageType_Warning = 2"
| "WGPUCompilationMessageType_value WGPUCompilationMessageType_Info = 3"
| "WGPUCompilationMessageType_value WGPUCompilationMessageType_Force32 = 2147483647"

definition WGPUCompilationMessageType_list :: "WGPUCompilationMessageType list" where
  "WGPUCompilationMessageType_list = [WGPUCompilationMessageType_Error, WGPUCompilationMessageType_Warning, WGPUCompilationMessageType_Info, WGPUCompilationMessageType_Force32]"

interpretation WGPUCompilationMessageType_enum: enumeration WGPUCompilationMessageType_value WGPUCompilationMessageType_list
proof unfold_locales
  fix e :: WGPUCompilationMessageType
  show "e \<in> set WGPUCompilationMessageType_list" by (cases e) (simp_all add: WGPUCompilationMessageType_list_def)
qed (simp_all add: WGPUCompilationMessageType_list_def)

datatype (plugins only: size) WGPUCreatePipelineAsyncStatus =
    WGPUCreatePipelineAsyncStatus_Success
  | WGPUCreatePipelineAsyncStatus_InstanceDropped
  | WGPUCreatePipelineAsyncStatus_ValidationError
  | WGPUCreatePipelineAsyncStatus_InternalError
  | WGPUCreatePipelineAsyncStatus_DeviceLost
  | WGPUCreatePipelineAsyncStatus_DeviceDestroyed
  | WGPUCreatePipelineAsyncStatus_Unknown
  | WGPUCreatePipelineAsyncStatus_Force32

primrec WGPUCreatePipelineAsyncStatus_value :: "WGPUCreatePipelineAsyncStatus \<Rightarrow> int" where
  "WGPUCreatePipelineAsyncStatus_value WGPUCreatePipelineAsyncStatus_Success = 0"
| "WGPUCreatePipelineAsyncStatus_value WGPUCreatePipelineAsyncStatus_InstanceDropped = 1"
| "WGPUCreatePipelineAsyncStatus_value WGPUCreatePipelineAsyncStatus_ValidationError = 2"
| "WGPUCreatePipelineAsyncStatus_value WGPUCreatePipelineAsyncStatus_InternalError = 3"
| "WGPUCreatePipelineAsyncStatus_value WGPUCreatePipelineAsyncStatus_DeviceLost = 4"
| "WGPUCreatePipelineAsyncStatus_value WGPUCreatePipelineAsyncStatus_DeviceDestroyed = 5"
| "WGPUCreatePipelineAsyncStatus_value WGPUCreatePipelineAsyncStatus_Unknown = 6"
| "WGPUCreatePipelineAsyncStatus_value WGPUCreatePipelineAsyncStatus_Force32 = 2147483647"

definition WGPUCreatePipelineAsyncStatus_list :: "WGPUCreatePipelineAsyncStatus list" where
  "WGPUCreatePipelineAsyncStatus_list = [WGPUCreatePipelineAsyncStatus_Success, WGPUCreatePipelineAsyncStatus_InstanceDropped, WGPUCreatePipelineAsyncStatus_ValidationError, WGPUCreatePipelineAsyncStatus_InternalError, WGPUCreatePipelineAsyncStatus_DeviceLost, WGPUCreatePipelineAsyncStatus_DeviceDestroyed, WGPUCreatePipelineAsyncStatus_Unknown, WGPUCreatePipelineAsyncStatus_Force32]"

interpretation WGPUCreatePipelineAsyncStatus_enum: enumeration WGPUCreatePipelineAsyncStatus_value WGPUCreatePipelineAsyncStatus_list
proof unfold_locales
  fix e :: WGPUCreatePipelineAsyncStatus
  show "e \<in> set WGPUCreatePipelineAsyncStatus_list" by (cases e) (simp_all add: WGPUCreatePipelineAsyncStatus_list_def)
qed (simp_all add: WGPUCreatePipelineAsyncStatus_list_def)

datatype (plugins only: size) WGPUCullMode =
    WGPUCullMode_Undefined
  | WGPUCullMode_None
  | WGPUCullMode_Front
  | WGPUCullMode_Back
  | WGPUCullMode_Force32

primrec WGPUCullMode_value :: "WGPUCullMode \<Rightarrow> int" where
  "WGPUCullMode_value WGPUCullMode_Undefined = 0"
| "WGPUCullMode_value WGPUCullMode_None = 1"
| "WGPUCullMode_value WGPUCullMode_Front = 2"
| "WGPUCullMode_value WGPUCullMode_Back = 3"
| "WGPUCullMode_value WGPUCullMode_Force32 = 2147483647"

definition WGPUCullMode_list :: "WGPUCullMode list" where
  "WGPUCullMode_list = [WGPUCullMode_Undefined, WGPUCullMode_None, WGPUCullMode_Front, WGPUCullMode_Back, WGPUCullMode_Force32]"

interpretation WGPUCullMode_enum: enumeration WGPUCullMode_value WGPUCullMode_list
proof unfold_locales
  fix e :: WGPUCullMode
  show "e \<in> set WGPUCullMode_list" by (cases e) (simp_all add: WGPUCullMode_list_def)
qed (simp_all add: WGPUCullMode_list_def)

datatype (plugins only: size) WGPUDeviceLostReason =
    WGPUDeviceLostReason_Undefined
  | WGPUDeviceLostReason_Destroyed
  | WGPUDeviceLostReason_Force32

primrec WGPUDeviceLostReason_value :: "WGPUDeviceLostReason \<Rightarrow> int" where
  "WGPUDeviceLostReason_value WGPUDeviceLostReason_Undefined = 0"
| "WGPUDeviceLostReason_value WGPUDeviceLostReason_Destroyed = 1"
| "WGPUDeviceLostReason_value WGPUDeviceLostReason_Force32 = 2147483647"

definition WGPUDeviceLostReason_list :: "WGPUDeviceLostReason list" where
  "WGPUDeviceLostReason_list = [WGPUDeviceLostReason_Undefined, WGPUDeviceLostReason_Destroyed, WGPUDeviceLostReason_Force32]"

interpretation WGPUDeviceLostReason_enum: enumeration WGPUDeviceLostReason_value WGPUDeviceLostReason_list
proof unfold_locales
  fix e :: WGPUDeviceLostReason
  show "e \<in> set WGPUDeviceLostReason_list" by (cases e) (simp_all add: WGPUDeviceLostReason_list_def)
qed (simp_all add: WGPUDeviceLostReason_list_def)

datatype (plugins only: size) WGPUErrorFilter =
    WGPUErrorFilter_Validation
  | WGPUErrorFilter_OutOfMemory
  | WGPUErrorFilter_Internal
  | WGPUErrorFilter_Force32

primrec WGPUErrorFilter_value :: "WGPUErrorFilter \<Rightarrow> int" where
  "WGPUErrorFilter_value WGPUErrorFilter_Validation = 1"
| "WGPUErrorFilter_value WGPUErrorFilter_OutOfMemory = 2"
| "WGPUErrorFilter_value WGPUErrorFilter_Internal = 3"
| "WGPUErrorFilter_value WGPUErrorFilter_Force32 = 2147483647"

definition WGPUErrorFilter_list :: "WGPUErrorFilter list" where
  "WGPUErrorFilter_list = [WGPUErrorFilter_Validation, WGPUErrorFilter_OutOfMemory, WGPUErrorFilter_Internal, WGPUErrorFilter_Force32]"

interpretation WGPUErrorFilter_enum: enumeration WGPUErrorFilter_value WGPUErrorFilter_list
proof unfold_locales
  fix e :: WGPUErrorFilter
  show "e \<in> set WGPUErrorFilter_list" by (cases e) (simp_all add: WGPUErrorFilter_list_def)
qed (simp_all add: WGPUErrorFilter_list_def)

datatype (plugins only: size) WGPUErrorType =
    WGPUErrorType_NoError
  | WGPUErrorType_Validation
  | WGPUErrorType_OutOfMemory
  | WGPUErrorType_Internal
  | WGPUErrorType_Unknown
  | WGPUErrorType_DeviceLost
  | WGPUErrorType_Force32

primrec WGPUErrorType_value :: "WGPUErrorType \<Rightarrow> int" where
  "WGPUErrorType_value WGPUErrorType_NoError = 0"
| "WGPUErrorType_value WGPUErrorType_Validation = 1"
| "WGPUErrorType_value WGPUErrorType_OutOfMemory = 2"
| "WGPUErrorType_value WGPUErrorType_Internal = 3"
| "WGPUErrorType_value WGPUErrorType_Unknown = 4"
| "WGPUErrorType_value WGPUErrorType_DeviceLost = 5"
| "WGPUErrorType_value WGPUErrorType_Force32 = 2147483647"

definition WGPUErrorType_list :: "WGPUErrorType list" where
  "WGPUErrorType_list = [WGPUErrorType_NoError, WGPUErrorType_Validation, WGPUErrorType_OutOfMemory, WGPUErrorType_Internal, WGPUErrorType_Unknown, WGPUErrorType_DeviceLost, WGPUErrorType_Force32]"

interpretation WGPUErrorType_enum: enumeration WGPUErrorType_value WGPUErrorType_list
proof unfold_locales
  fix e :: WGPUErrorType
  show "e \<in> set WGPUErrorType_list" by (cases e) (simp_all add: WGPUErrorType_list_def)
qed (simp_all add: WGPUErrorType_list_def)

datatype (plugins only: size) WGPUExternalTextureRotation =
    WGPUExternalTextureRotation_Rotate0Degrees
  | WGPUExternalTextureRotation_Rotate90Degrees
  | WGPUExternalTextureRotation_Rotate180Degrees
  | WGPUExternalTextureRotation_Rotate270Degrees
  | WGPUExternalTextureRotation_Force32

primrec WGPUExternalTextureRotation_value :: "WGPUExternalTextureRotation \<Rightarrow> int" where
  "WGPUExternalTextureRotation_value WGPUExternalTextureRotation_Rotate0Degrees = 0"
| "WGPUExternalTextureRotation_value WGPUExternalTextureRotation_Rotate90Degrees = 1"
| "WGPUExternalTextureRotation_value WGPUExternalTextureRotation_Rotate180Degrees = 2"
| "WGPUExternalTextureRotation_value WGPUExternalTextureRotation_Rotate270Degrees = 3"
| "WGPUExternalTextureRotation_value WGPUExternalTextureRotation_Force32 = 2147483647"

definition WGPUExternalTextureRotation_list :: "WGPUExternalTextureRotation list" where
  "WGPUExternalTextureRotation_list = [WGPUExternalTextureRotation_Rotate0Degrees, WGPUExternalTextureRotation_Rotate90Degrees, WGPUExternalTextureRotation_Rotate180Degrees, WGPUExternalTextureRotation_Rotate270Degrees, WGPUExternalTextureRotation_Force32]"

interpretation WGPUExternalTextureRotation_enum: enumeration WGPUExternalTextureRotation_value WGPUExternalTextureRotation_list
proof unfold_locales
  fix e :: WGPUExternalTextureRotation
  show "e \<in> set WGPUExternalTextureRotation_list" by (cases e) (simp_all add: WGPUExternalTextureRotation_list_def)
qed (simp_all add: WGPUExternalTextureRotation_list_def)

datatype (plugins only: size) WGPUFilterMode =
    WGPUFilterMode_Undefined
  | WGPUFilterMode_Nearest
  | WGPUFilterMode_Linear
  | WGPUFilterMode_Force32

primrec WGPUFilterMode_value :: "WGPUFilterMode \<Rightarrow> int" where
  "WGPUFilterMode_value WGPUFilterMode_Undefined = 0"
| "WGPUFilterMode_value WGPUFilterMode_Nearest = 1"
| "WGPUFilterMode_value WGPUFilterMode_Linear = 2"
| "WGPUFilterMode_value WGPUFilterMode_Force32 = 2147483647"

definition WGPUFilterMode_list :: "WGPUFilterMode list" where
  "WGPUFilterMode_list = [WGPUFilterMode_Undefined, WGPUFilterMode_Nearest, WGPUFilterMode_Linear, WGPUFilterMode_Force32]"

interpretation WGPUFilterMode_enum: enumeration WGPUFilterMode_value WGPUFilterMode_list
proof unfold_locales
  fix e :: WGPUFilterMode
  show "e \<in> set WGPUFilterMode_list" by (cases e) (simp_all add: WGPUFilterMode_list_def)
qed (simp_all add: WGPUFilterMode_list_def)

datatype (plugins only: size) WGPUFrontFace =
    WGPUFrontFace_Undefined
  | WGPUFrontFace_CCW
  | WGPUFrontFace_CW
  | WGPUFrontFace_Force32

primrec WGPUFrontFace_value :: "WGPUFrontFace \<Rightarrow> int" where
  "WGPUFrontFace_value WGPUFrontFace_Undefined = 0"
| "WGPUFrontFace_value WGPUFrontFace_CCW = 1"
| "WGPUFrontFace_value WGPUFrontFace_CW = 2"
| "WGPUFrontFace_value WGPUFrontFace_Force32 = 2147483647"

definition WGPUFrontFace_list :: "WGPUFrontFace list" where
  "WGPUFrontFace_list = [WGPUFrontFace_Undefined, WGPUFrontFace_CCW, WGPUFrontFace_CW, WGPUFrontFace_Force32]"

interpretation WGPUFrontFace_enum: enumeration WGPUFrontFace_value WGPUFrontFace_list
proof unfold_locales
  fix e :: WGPUFrontFace
  show "e \<in> set WGPUFrontFace_list" by (cases e) (simp_all add: WGPUFrontFace_list_def)
qed (simp_all add: WGPUFrontFace_list_def)

datatype (plugins only: size) WGPUIndexFormat =
    WGPUIndexFormat_Undefined
  | WGPUIndexFormat_Uint16
  | WGPUIndexFormat_Uint32
  | WGPUIndexFormat_Force32

primrec WGPUIndexFormat_value :: "WGPUIndexFormat \<Rightarrow> int" where
  "WGPUIndexFormat_value WGPUIndexFormat_Undefined = 0"
| "WGPUIndexFormat_value WGPUIndexFormat_Uint16 = 1"
| "WGPUIndexFormat_value WGPUIndexFormat_Uint32 = 2"
| "WGPUIndexFormat_value WGPUIndexFormat_Force32 = 2147483647"

definition WGPUIndexFormat_list :: "WGPUIndexFormat list" where
  "WGPUIndexFormat_list = [WGPUIndexFormat_Undefined, WGPUIndexFormat_Uint16, WGPUIndexFormat_Uint32, WGPUIndexFormat_Force32]"

interpretation WGPUIndexFormat_enum: enumeration WGPUIndexFormat_value WGPUIndexFormat_list
proof unfold_locales
  fix e :: WGPUIndexFormat
  show "e \<in> set WGPUIndexFormat_list" by (cases e) (simp_all add: WGPUIndexFormat_list_def)
qed (simp_all add: WGPUIndexFormat_list_def)

datatype (plugins only: size) WGPULoadOp =
    WGPULoadOp_Undefined
  | WGPULoadOp_Clear
  | WGPULoadOp_Load
  | WGPULoadOp_Force32

primrec WGPULoadOp_value :: "WGPULoadOp \<Rightarrow> int" where
  "WGPULoadOp_value WGPULoadOp_Undefined = 0"
| "WGPULoadOp_value WGPULoadOp_Clear = 1"
| "WGPULoadOp_value WGPULoadOp_Load = 2"
| "WGPULoadOp_value WGPULoadOp_Force32 = 2147483647"

definition WGPULoadOp_list :: "WGPULoadOp list" where
  "WGPULoadOp_list = [WGPULoadOp_Undefined, WGPULoadOp_Clear, WGPULoadOp_Load, WGPULoadOp_Force32]"

interpretation WGPULoadOp_enum: enumeration WGPULoadOp_value WGPULoadOp_list
proof unfold_locales
  fix e :: WGPULoadOp
  show "e \<in> set WGPULoadOp_list" by (cases e) (simp_all add: WGPULoadOp_list_def)
qed (simp_all add: WGPULoadOp_list_def)

datatype (plugins only: size) WGPULoggingType =
    WGPULoggingType_Verbose
  | WGPULoggingType_Info
  | WGPULoggingType_Warning
  | WGPULoggingType_Error
  | WGPULoggingType_Force32

primrec WGPULoggingType_value :: "WGPULoggingType \<Rightarrow> int" where
  "WGPULoggingType_value WGPULoggingType_Verbose = 1"
| "WGPULoggingType_value WGPULoggingType_Info = 2"
| "WGPULoggingType_value WGPULoggingType_Warning = 3"
| "WGPULoggingType_value WGPULoggingType_Error = 4"
| "WGPULoggingType_value WGPULoggingType_Force32 = 2147483647"

definition WGPULoggingType_list :: "WGPULoggingType list" where
  "WGPULoggingType_list = [WGPULoggingType_Verbose, WGPULoggingType_Info, WGPULoggingType_Warning, WGPULoggingType_Error, WGPULoggingType_Force32]"

interpretation WGPULoggingType_enum: enumeration WGPULoggingType_value WGPULoggingType_list
proof unfold_locales
  fix e :: WGPULoggingType
  show "e \<in> set WGPULoggingType_list" by (cases e) (simp_all add: WGPULoggingType_list_def)
qed (simp_all add: WGPULoggingType_list_def)

datatype (plugins only: size) WGPUMipmapFilterMode =
    WGPUMipmapFilterMode_Undefined
  | WGPUMipmapFilterMode_Nearest
  | WGPUMipmapFilterMode_Linear
  | WGPUMipmapFilterMode_Force32

primrec WGPUMipmapFilterMode_value :: "WGPUMipmapFilterMode \<Rightarrow> int" where
  "WGPUMipmapFilterMode_value WGPUMipmapFilterMode_Undefined = 0"
| "WGPUMipmapFilterMode_value WGPUMipmapFilterMode_Nearest = 1"
| "WGPUMipmapFilterMode_value WGPUMipmapFilterMode_Linear = 2"
| "WGPUMipmapFilterMode_value WGPUMipmapFilterMode_Force32 = 2147483647"

definition WGPUMipmapFilterMode_list :: "WGPUMipmapFilterMode list" where
  "WGPUMipmapFilterMode_list = [WGPUMipmapFilterMode_Undefined, WGPUMipmapFilterMode_Nearest, WGPUMipmapFilterMode_Linear, WGPUMipmapFilterMode_Force32]"

interpretation WGPUMipmapFilterMode_enum: enumeration WGPUMipmapFilterMode_value WGPUMipmapFilterMode_list
proof unfold_locales
  fix e :: WGPUMipmapFilterMode
  show "e \<in> set WGPUMipmapFilterMode_list" by (cases e) (simp_all add: WGPUMipmapFilterMode_list_def)
qed (simp_all add: WGPUMipmapFilterMode_list_def)

datatype (plugins only: size) WGPUPopErrorScopeStatus =
    WGPUPopErrorScopeStatus_Success
  | WGPUPopErrorScopeStatus_InstanceDropped
  | WGPUPopErrorScopeStatus_Force32

primrec WGPUPopErrorScopeStatus_value :: "WGPUPopErrorScopeStatus \<Rightarrow> int" where
  "WGPUPopErrorScopeStatus_value WGPUPopErrorScopeStatus_Success = 0"
| "WGPUPopErrorScopeStatus_value WGPUPopErrorScopeStatus_InstanceDropped = 1"
| "WGPUPopErrorScopeStatus_value WGPUPopErrorScopeStatus_Force32 = 2147483647"

definition WGPUPopErrorScopeStatus_list :: "WGPUPopErrorScopeStatus list" where
  "WGPUPopErrorScopeStatus_list = [WGPUPopErrorScopeStatus_Success, WGPUPopErrorScopeStatus_InstanceDropped, WGPUPopErrorScopeStatus_Force32]"

interpretation WGPUPopErrorScopeStatus_enum: enumeration WGPUPopErrorScopeStatus_value WGPUPopErrorScopeStatus_list
proof unfold_locales
  fix e :: WGPUPopErrorScopeStatus
  show "e \<in> set WGPUPopErrorScopeStatus_list" by (cases e) (simp_all add: WGPUPopErrorScopeStatus_list_def)
qed (simp_all add: WGPUPopErrorScopeStatus_list_def)

datatype (plugins only: size) WGPUPowerPreference =
    WGPUPowerPreference_Undefined
  | WGPUPowerPreference_LowPower
  | WGPUPowerPreference_HighPerformance
  | WGPUPowerPreference_Force32

primrec WGPUPowerPreference_value :: "WGPUPowerPreference \<Rightarrow> int" where
  "WGPUPowerPreference_value WGPUPowerPreference_Undefined = 0"
| "WGPUPowerPreference_value WGPUPowerPreference_LowPower = 1"
| "WGPUPowerPreference_value WGPUPowerPreference_HighPerformance = 2"
| "WGPUPowerPreference_value WGPUPowerPreference_Force32 = 2147483647"

definition WGPUPowerPreference_list :: "WGPUPowerPreference list" where
  "WGPUPowerPreference_list = [WGPUPowerPreference_Undefined, WGPUPowerPreference_LowPower, WGPUPowerPreference_HighPerformance, WGPUPowerPreference_Force32]"

interpretation WGPUPowerPreference_enum: enumeration WGPUPowerPreference_value WGPUPowerPreference_list
proof unfold_locales
  fix e :: WGPUPowerPreference
  show "e \<in> set WGPUPowerPreference_list" by (cases e) (simp_all add: WGPUPowerPreference_list_def)
qed (simp_all add: WGPUPowerPreference_list_def)

datatype (plugins only: size) WGPUPresentMode =
    WGPUPresentMode_Fifo
  | WGPUPresentMode_Immediate
  | WGPUPresentMode_Mailbox
  | WGPUPresentMode_Force32

primrec WGPUPresentMode_value :: "WGPUPresentMode \<Rightarrow> int" where
  "WGPUPresentMode_value WGPUPresentMode_Fifo = 1"
| "WGPUPresentMode_value WGPUPresentMode_Immediate = 3"
| "WGPUPresentMode_value WGPUPresentMode_Mailbox = 4"
| "WGPUPresentMode_value WGPUPresentMode_Force32 = 2147483647"

definition WGPUPresentMode_list :: "WGPUPresentMode list" where
  "WGPUPresentMode_list = [WGPUPresentMode_Fifo, WGPUPresentMode_Immediate, WGPUPresentMode_Mailbox, WGPUPresentMode_Force32]"

interpretation WGPUPresentMode_enum: enumeration WGPUPresentMode_value WGPUPresentMode_list
proof unfold_locales
  fix e :: WGPUPresentMode
  show "e \<in> set WGPUPresentMode_list" by (cases e) (simp_all add: WGPUPresentMode_list_def)
qed (simp_all add: WGPUPresentMode_list_def)

datatype (plugins only: size) WGPUPrimitiveTopology =
    WGPUPrimitiveTopology_Undefined
  | WGPUPrimitiveTopology_PointList
  | WGPUPrimitiveTopology_LineList
  | WGPUPrimitiveTopology_LineStrip
  | WGPUPrimitiveTopology_TriangleList
  | WGPUPrimitiveTopology_TriangleStrip
  | WGPUPrimitiveTopology_Force32

primrec WGPUPrimitiveTopology_value :: "WGPUPrimitiveTopology \<Rightarrow> int" where
  "WGPUPrimitiveTopology_value WGPUPrimitiveTopology_Undefined = 0"
| "WGPUPrimitiveTopology_value WGPUPrimitiveTopology_PointList = 1"
| "WGPUPrimitiveTopology_value WGPUPrimitiveTopology_LineList = 2"
| "WGPUPrimitiveTopology_value WGPUPrimitiveTopology_LineStrip = 3"
| "WGPUPrimitiveTopology_value WGPUPrimitiveTopology_TriangleList = 4"
| "WGPUPrimitiveTopology_value WGPUPrimitiveTopology_TriangleStrip = 5"
| "WGPUPrimitiveTopology_value WGPUPrimitiveTopology_Force32 = 2147483647"

definition WGPUPrimitiveTopology_list :: "WGPUPrimitiveTopology list" where
  "WGPUPrimitiveTopology_list = [WGPUPrimitiveTopology_Undefined, WGPUPrimitiveTopology_PointList, WGPUPrimitiveTopology_LineList, WGPUPrimitiveTopology_LineStrip, WGPUPrimitiveTopology_TriangleList, WGPUPrimitiveTopology_TriangleStrip, WGPUPrimitiveTopology_Force32]"

interpretation WGPUPrimitiveTopology_enum: enumeration WGPUPrimitiveTopology_value WGPUPrimitiveTopology_list
proof unfold_locales
  fix e :: WGPUPrimitiveTopology
  show "e \<in> set WGPUPrimitiveTopology_list" by (cases e) (simp_all add: WGPUPrimitiveTopology_list_def)
qed (simp_all add: WGPUPrimitiveTopology_list_def)

datatype (plugins only: size) WGPUQueryType =
    WGPUQueryType_Occlusion
  | WGPUQueryType_Timestamp
  | WGPUQueryType_Force32

primrec WGPUQueryType_value :: "WGPUQueryType \<Rightarrow> int" where
  "WGPUQueryType_value WGPUQueryType_Occlusion = 1"
| "WGPUQueryType_value WGPUQueryType_Timestamp = 2"
| "WGPUQueryType_value WGPUQueryType_Force32 = 2147483647"

definition WGPUQueryType_list :: "WGPUQueryType list" where
  "WGPUQueryType_list = [WGPUQueryType_Occlusion, WGPUQueryType_Timestamp, WGPUQueryType_Force32]"

interpretation WGPUQueryType_enum: enumeration WGPUQueryType_value WGPUQueryType_list
proof unfold_locales
  fix e :: WGPUQueryType
  show "e \<in> set WGPUQueryType_list" by (cases e) (simp_all add: WGPUQueryType_list_def)
qed (simp_all add: WGPUQueryType_list_def)

datatype (plugins only: size) WGPUQueueWorkDoneStatus =
    WGPUQueueWorkDoneStatus_Success
  | WGPUQueueWorkDoneStatus_InstanceDropped
  | WGPUQueueWorkDoneStatus_Error
  | WGPUQueueWorkDoneStatus_Unknown
  | WGPUQueueWorkDoneStatus_DeviceLost
  | WGPUQueueWorkDoneStatus_Force32

primrec WGPUQueueWorkDoneStatus_value :: "WGPUQueueWorkDoneStatus \<Rightarrow> int" where
  "WGPUQueueWorkDoneStatus_value WGPUQueueWorkDoneStatus_Success = 0"
| "WGPUQueueWorkDoneStatus_value WGPUQueueWorkDoneStatus_InstanceDropped = 1"
| "WGPUQueueWorkDoneStatus_value WGPUQueueWorkDoneStatus_Error = 2"
| "WGPUQueueWorkDoneStatus_value WGPUQueueWorkDoneStatus_Unknown = 3"
| "WGPUQueueWorkDoneStatus_value WGPUQueueWorkDoneStatus_DeviceLost = 4"
| "WGPUQueueWorkDoneStatus_value WGPUQueueWorkDoneStatus_Force32 = 2147483647"

definition WGPUQueueWorkDoneStatus_list :: "WGPUQueueWorkDoneStatus list" where
  "WGPUQueueWorkDoneStatus_list = [WGPUQueueWorkDoneStatus_Success, WGPUQueueWorkDoneStatus_InstanceDropped, WGPUQueueWorkDoneStatus_Error, WGPUQueueWorkDoneStatus_Unknown, WGPUQueueWorkDoneStatus_DeviceLost, WGPUQueueWorkDoneStatus_Force32]"

interpretation WGPUQueueWorkDoneStatus_enum: enumeration WGPUQueueWorkDoneStatus_value WGPUQueueWorkDoneStatus_list
proof unfold_locales
  fix e :: WGPUQueueWorkDoneStatus
  show "e \<in> set WGPUQueueWorkDoneStatus_list" by (cases e) (simp_all add: WGPUQueueWorkDoneStatus_list_def)
qed (simp_all add: WGPUQueueWorkDoneStatus_list_def)

datatype (plugins only: size) WGPURequestAdapterStatus =
    WGPURequestAdapterStatus_Success
  | WGPURequestAdapterStatus_InstanceDropped
  | WGPURequestAdapterStatus_Unavailable
  | WGPURequestAdapterStatus_Error
  | WGPURequestAdapterStatus_Unknown
  | WGPURequestAdapterStatus_Force32

primrec WGPURequestAdapterStatus_value :: "WGPURequestAdapterStatus \<Rightarrow> int" where
  "WGPURequestAdapterStatus_value WGPURequestAdapterStatus_Success = 0"
| "WGPURequestAdapterStatus_value WGPURequestAdapterStatus_InstanceDropped = 1"
| "WGPURequestAdapterStatus_value WGPURequestAdapterStatus_Unavailable = 2"
| "WGPURequestAdapterStatus_value WGPURequestAdapterStatus_Error = 3"
| "WGPURequestAdapterStatus_value WGPURequestAdapterStatus_Unknown = 4"
| "WGPURequestAdapterStatus_value WGPURequestAdapterStatus_Force32 = 2147483647"

definition WGPURequestAdapterStatus_list :: "WGPURequestAdapterStatus list" where
  "WGPURequestAdapterStatus_list = [WGPURequestAdapterStatus_Success, WGPURequestAdapterStatus_InstanceDropped, WGPURequestAdapterStatus_Unavailable, WGPURequestAdapterStatus_Error, WGPURequestAdapterStatus_Unknown, WGPURequestAdapterStatus_Force32]"

interpretation WGPURequestAdapterStatus_enum: enumeration WGPURequestAdapterStatus_value WGPURequestAdapterStatus_list
proof unfold_locales
  fix e :: WGPURequestAdapterStatus
  show "e \<in> set WGPURequestAdapterStatus_list" by (cases e) (simp_all add: WGPURequestAdapterStatus_list_def)
qed (simp_all add: WGPURequestAdapterStatus_list_def)

datatype (plugins only: size) WGPURequestDeviceStatus =
    WGPURequestDeviceStatus_Success
  | WGPURequestDeviceStatus_InstanceDropped
  | WGPURequestDeviceStatus_Error
  | WGPURequestDeviceStatus_Unknown
  | WGPURequestDeviceStatus_Force32

primrec WGPURequestDeviceStatus_value :: "WGPURequestDeviceStatus \<Rightarrow> int" where
  "WGPURequestDeviceStatus_value WGPURequestDeviceStatus_Success = 0"
| "WGPURequestDeviceStatus_value WGPURequestDeviceStatus_InstanceDropped = 1"
| "WGPURequestDeviceStatus_value WGPURequestDeviceStatus_Error = 2"
| "WGPURequestDeviceStatus_value WGPURequestDeviceStatus_Unknown = 3"
| "WGPURequestDeviceStatus_value WGPURequestDeviceStatus_Force32 = 2147483647"

definition WGPURequestDeviceStatus_list :: "WGPURequestDeviceStatus list" where
  "WGPURequestDeviceStatus_list = [WGPURequestDeviceStatus_Success, WGPURequestDeviceStatus_InstanceDropped, WGPURequestDeviceStatus_Error, WGPURequestDeviceStatus_Unknown, WGPURequestDeviceStatus_Force32]"

interpretation WGPURequestDeviceStatus_enum: enumeration WGPURequestDeviceStatus_value WGPURequestDeviceStatus_list
proof unfold_locales
  fix e :: WGPURequestDeviceStatus
  show "e \<in> set WGPURequestDeviceStatus_list" by (cases e) (simp_all add: WGPURequestDeviceStatus_list_def)
qed (simp_all add: WGPURequestDeviceStatus_list_def)

datatype (plugins only: size) WGPUSamplerBindingType =
    WGPUSamplerBindingType_Undefined
  | WGPUSamplerBindingType_Filtering
  | WGPUSamplerBindingType_NonFiltering
  | WGPUSamplerBindingType_Comparison
  | WGPUSamplerBindingType_Force32

primrec WGPUSamplerBindingType_value :: "WGPUSamplerBindingType \<Rightarrow> int" where
  "WGPUSamplerBindingType_value WGPUSamplerBindingType_Undefined = 0"
| "WGPUSamplerBindingType_value WGPUSamplerBindingType_Filtering = 1"
| "WGPUSamplerBindingType_value WGPUSamplerBindingType_NonFiltering = 2"
| "WGPUSamplerBindingType_value WGPUSamplerBindingType_Comparison = 3"
| "WGPUSamplerBindingType_value WGPUSamplerBindingType_Force32 = 2147483647"

definition WGPUSamplerBindingType_list :: "WGPUSamplerBindingType list" where
  "WGPUSamplerBindingType_list = [WGPUSamplerBindingType_Undefined, WGPUSamplerBindingType_Filtering, WGPUSamplerBindingType_NonFiltering, WGPUSamplerBindingType_Comparison, WGPUSamplerBindingType_Force32]"

interpretation WGPUSamplerBindingType_enum: enumeration WGPUSamplerBindingType_value WGPUSamplerBindingType_list
proof unfold_locales
  fix e :: WGPUSamplerBindingType
  show "e \<in> set WGPUSamplerBindingType_list" by (cases e) (simp_all add: WGPUSamplerBindingType_list_def)
qed (simp_all add: WGPUSamplerBindingType_list_def)

datatype (plugins only: size) WGPUSharedFenceType =
    WGPUSharedFenceType_Undefined
  | WGPUSharedFenceType_VkSemaphoreOpaqueFD
  | WGPUSharedFenceType_VkSemaphoreSyncFD
  | WGPUSharedFenceType_VkSemaphoreZirconHandle
  | WGPUSharedFenceType_DXGISharedHandle
  | WGPUSharedFenceType_MTLSharedEvent
  | WGPUSharedFenceType_Force32

primrec WGPUSharedFenceType_value :: "WGPUSharedFenceType \<Rightarrow> int" where
  "WGPUSharedFenceType_value WGPUSharedFenceType_Undefined = 0"
| "WGPUSharedFenceType_value WGPUSharedFenceType_VkSemaphoreOpaqueFD = 1"
| "WGPUSharedFenceType_value WGPUSharedFenceType_VkSemaphoreSyncFD = 2"
| "WGPUSharedFenceType_value WGPUSharedFenceType_VkSemaphoreZirconHandle = 3"
| "WGPUSharedFenceType_value WGPUSharedFenceType_DXGISharedHandle = 4"
| "WGPUSharedFenceType_value WGPUSharedFenceType_MTLSharedEvent = 5"
| "WGPUSharedFenceType_value WGPUSharedFenceType_Force32 = 2147483647"

definition WGPUSharedFenceType_list :: "WGPUSharedFenceType list" where
  "WGPUSharedFenceType_list = [WGPUSharedFenceType_Undefined, WGPUSharedFenceType_VkSemaphoreOpaqueFD, WGPUSharedFenceType_VkSemaphoreSyncFD, WGPUSharedFenceType_VkSemaphoreZirconHandle, WGPUSharedFenceType_DXGISharedHandle, WGPUSharedFenceType_MTLSharedEvent, WGPUSharedFenceType_Force32]"

interpretation WGPUSharedFenceType_enum: enumeration WGPUSharedFenceType_value WGPUSharedFenceType_list
proof unfold_locales
  fix e :: WGPUSharedFenceType
  show "e \<in> set WGPUSharedFenceType_list" by (cases e) (simp_all add: WGPUSharedFenceType_list_def)
qed (simp_all add: WGPUSharedFenceType_list_def)

datatype (plugins only: size) WGPUStencilOperation =
    WGPUStencilOperation_Undefined
  | WGPUStencilOperation_Keep
  | WGPUStencilOperation_Zero
  | WGPUStencilOperation_Replace
  | WGPUStencilOperation_Invert
  | WGPUStencilOperation_IncrementClamp
  | WGPUStencilOperation_DecrementClamp
  | WGPUStencilOperation_IncrementWrap
  | WGPUStencilOperation_DecrementWrap
  | WGPUStencilOperation_Force32

primrec WGPUStencilOperation_value :: "WGPUStencilOperation \<Rightarrow> int" where
  "WGPUStencilOperation_value WGPUStencilOperation_Undefined = 0"
| "WGPUStencilOperation_value WGPUStencilOperation_Keep = 1"
| "WGPUStencilOperation_value WGPUStencilOperation_Zero = 2"
| "WGPUStencilOperation_value WGPUStencilOperation_Replace = 3"
| "WGPUStencilOperation_value WGPUStencilOperation_Invert = 4"
| "WGPUStencilOperation_value WGPUStencilOperation_IncrementClamp = 5"
| "WGPUStencilOperation_value WGPUStencilOperation_DecrementClamp = 6"
| "WGPUStencilOperation_value WGPUStencilOperation_IncrementWrap = 7"
| "WGPUStencilOperation_value WGPUStencilOperation_DecrementWrap = 8"
| "WGPUStencilOperation_value WGPUStencilOperation_Force32 = 2147483647"

definition WGPUStencilOperation_list :: "WGPUStencilOperation list" where
  "WGPUStencilOperation_list = [WGPUStencilOperation_Undefined, WGPUStencilOperation_Keep, WGPUStencilOperation_Zero, WGPUStencilOperation_Replace, WGPUStencilOperation_Invert, WGPUStencilOperation_IncrementClamp, WGPUStencilOperation_DecrementClamp, WGPUStencilOperation_IncrementWrap, WGPUStencilOperation_DecrementWrap, WGPUStencilOperation_Force32]"

interpretation WGPUStencilOperation_enum: enumeration WGPUStencilOperation_value WGPUStencilOperation_list
proof unfold_locales
  fix e :: WGPUStencilOperation
  show "e \<in> set WGPUStencilOperation_list" by (cases e) (simp_all add: WGPUStencilOperation_list_def)
qed (simp_all add: WGPUStencilOperation_list_def)

datatype (plugins only: size) WGPUStorageTextureAccess =
    WGPUStorageTextureAccess_Undefined
  | WGPUStorageTextureAccess_WriteOnly
  | WGPUStorageTextureAccess_ReadOnly
  | WGPUStorageTextureAccess_ReadWrite
  | WGPUStorageTextureAccess_Force32

primrec WGPUStorageTextureAccess_value :: "WGPUStorageTextureAccess \<Rightarrow> int" where
  "WGPUStorageTextureAccess_value WGPUStorageTextureAccess_Undefined = 0"
| "WGPUStorageTextureAccess_value WGPUStorageTextureAccess_WriteOnly = 1"
| "WGPUStorageTextureAccess_value WGPUStorageTextureAccess_ReadOnly = 2"
| "WGPUStorageTextureAccess_value WGPUStorageTextureAccess_ReadWrite = 3"
| "WGPUStorageTextureAccess_value WGPUStorageTextureAccess_Force32 = 2147483647"

definition WGPUStorageTextureAccess_list :: "WGPUStorageTextureAccess list" where
  "WGPUStorageTextureAccess_list = [WGPUStorageTextureAccess_Undefined, WGPUStorageTextureAccess_WriteOnly, WGPUStorageTextureAccess_ReadOnly, WGPUStorageTextureAccess_ReadWrite, WGPUStorageTextureAccess_Force32]"

interpretation WGPUStorageTextureAccess_enum: enumeration WGPUStorageTextureAccess_value WGPUStorageTextureAccess_list
proof unfold_locales
  fix e :: WGPUStorageTextureAccess
  show "e \<in> set WGPUStorageTextureAccess_list" by (cases e) (simp_all add: WGPUStorageTextureAccess_list_def)
qed (simp_all add: WGPUStorageTextureAccess_list_def)

datatype (plugins only: size) WGPUStoreOp =
    WGPUStoreOp_Undefined
  | WGPUStoreOp_Store
  | WGPUStoreOp_Discard
  | WGPUStoreOp_Force32

primrec WGPUStoreOp_value :: "WGPUStoreOp \<Rightarrow> int" where
  "WGPUStoreOp_value WGPUStoreOp_Undefined = 0"
| "WGPUStoreOp_value WGPUStoreOp_Store = 1"
| "WGPUStoreOp_value WGPUStoreOp_Discard = 2"
| "WGPUStoreOp_value WGPUStoreOp_Force32 = 2147483647"

definition WGPUStoreOp_list :: "WGPUStoreOp list" where
  "WGPUStoreOp_list = [WGPUStoreOp_Undefined, WGPUStoreOp_Store, WGPUStoreOp_Discard, WGPUStoreOp_Force32]"

interpretation WGPUStoreOp_enum: enumeration WGPUStoreOp_value WGPUStoreOp_list
proof unfold_locales
  fix e :: WGPUStoreOp
  show "e \<in> set WGPUStoreOp_list" by (cases e) (simp_all add: WGPUStoreOp_list_def)
qed (simp_all add: WGPUStoreOp_list_def)

datatype (plugins only: size) WGPUTextureAspect =
    WGPUTextureAspect_Undefined
  | WGPUTextureAspect_All
  | WGPUTextureAspect_StencilOnly
  | WGPUTextureAspect_DepthOnly
  | WGPUTextureAspect_Plane0Only
  | WGPUTextureAspect_Plane1Only
  | WGPUTextureAspect_Plane2Only
  | WGPUTextureAspect_Force32

primrec WGPUTextureAspect_value :: "WGPUTextureAspect \<Rightarrow> int" where
  "WGPUTextureAspect_value WGPUTextureAspect_Undefined = 0"
| "WGPUTextureAspect_value WGPUTextureAspect_All = 1"
| "WGPUTextureAspect_value WGPUTextureAspect_StencilOnly = 2"
| "WGPUTextureAspect_value WGPUTextureAspect_DepthOnly = 3"
| "WGPUTextureAspect_value WGPUTextureAspect_Plane0Only = 4"
| "WGPUTextureAspect_value WGPUTextureAspect_Plane1Only = 5"
| "WGPUTextureAspect_value WGPUTextureAspect_Plane2Only = 6"
| "WGPUTextureAspect_value WGPUTextureAspect_Force32 = 2147483647"

definition WGPUTextureAspect_list :: "WGPUTextureAspect list" where
  "WGPUTextureAspect_list = [WGPUTextureAspect_Undefined, WGPUTextureAspect_All, WGPUTextureAspect_StencilOnly, WGPUTextureAspect_DepthOnly, WGPUTextureAspect_Plane0Only, WGPUTextureAspect_Plane1Only, WGPUTextureAspect_Plane2Only, WGPUTextureAspect_Force32]"

interpretation WGPUTextureAspect_enum: enumeration WGPUTextureAspect_value WGPUTextureAspect_list
proof unfold_locales
  fix e :: WGPUTextureAspect
  show "e \<in> set WGPUTextureAspect_list" by (cases e) (simp_all add: WGPUTextureAspect_list_def)
qed (simp_all add: WGPUTextureAspect_list_def)

datatype (plugins only: size) WGPUTextureDimension =
    WGPUTextureDimension_Undefined
  | WGPUTextureDimension_1D
  | WGPUTextureDimension_2D
  | WGPUTextureDimension_3D
  | WGPUTextureDimension_Force32

primrec WGPUTextureDimension_value :: "WGPUTextureDimension \<Rightarrow> int" where
  "WGPUTextureDimension_value WGPUTextureDimension_Undefined = 0"
| "WGPUTextureDimension_value WGPUTextureDimension_1D = 1"
| "WGPUTextureDimension_value WGPUTextureDimension_2D = 2"
| "WGPUTextureDimension_value WGPUTextureDimension_3D = 3"
| "WGPUTextureDimension_value WGPUTextureDimension_Force32 = 2147483647"

definition WGPUTextureDimension_list :: "WGPUTextureDimension list" where
  "WGPUTextureDimension_list = [WGPUTextureDimension_Undefined, WGPUTextureDimension_1D, WGPUTextureDimension_2D, WGPUTextureDimension_3D, WGPUTextureDimension_Force32]"

interpretation WGPUTextureDimension_enum: enumeration WGPUTextureDimension_value WGPUTextureDimension_list
proof unfold_locales
  fix e :: WGPUTextureDimension
  show "e \<in> set WGPUTextureDimension_list" by (cases e) (simp_all add: WGPUTextureDimension_list_def)
qed (simp_all add: WGPUTextureDimension_list_def)

datatype (plugins only: size) WGPUTextureSampleType =
    WGPUTextureSampleType_Undefined
  | WGPUTextureSampleType_Float
  | WGPUTextureSampleType_UnfilterableFloat
  | WGPUTextureSampleType_Depth
  | WGPUTextureSampleType_Sint
  | WGPUTextureSampleType_Uint
  | WGPUTextureSampleType_Force32

primrec WGPUTextureSampleType_value :: "WGPUTextureSampleType \<Rightarrow> int" where
  "WGPUTextureSampleType_value WGPUTextureSampleType_Undefined = 0"
| "WGPUTextureSampleType_value WGPUTextureSampleType_Float = 1"
| "WGPUTextureSampleType_value WGPUTextureSampleType_UnfilterableFloat = 2"
| "WGPUTextureSampleType_value WGPUTextureSampleType_Depth = 3"
| "WGPUTextureSampleType_value WGPUTextureSampleType_Sint = 4"
| "WGPUTextureSampleType_value WGPUTextureSampleType_Uint = 5"
| "WGPUTextureSampleType_value WGPUTextureSampleType_Force32 = 2147483647"

definition WGPUTextureSampleType_list :: "WGPUTextureSampleType list" where
  "WGPUTextureSampleType_list = [WGPUTextureSampleType_Undefined, WGPUTextureSampleType_Float, WGPUTextureSampleType_UnfilterableFloat, WGPUTextureSampleType_Depth, WGPUTextureSampleType_Sint, WGPUTextureSampleType_Uint, WGPUTextureSampleType_Force32]"

interpretation WGPUTextureSampleType_enum: enumeration WGPUTextureSampleType_value WGPUTextureSampleType_list
proof unfold_locales
  fix e :: WGPUTextureSampleType
  show "e \<in> set WGPUTextureSampleType_list" by (cases e) (simp_all add: WGPUTextureSampleType_list_def)
qed (simp_all add: WGPUTextureSampleType_list_def)

datatype (plugins only: size) WGPUTextureViewDimension =
    WGPUTextureViewDimension_Undefined
  | WGPUTextureViewDimension_1D
  | WGPUTextureViewDimension_2D
  | WGPUTextureViewDimension_2DArray
  | WGPUTextureViewDimension_Cube
  | WGPUTextureViewDimension_CubeArray
  | WGPUTextureViewDimension_3D
  | WGPUTextureViewDimension_Force32

primrec WGPUTextureViewDimension_value :: "WGPUTextureViewDimension \<Rightarrow> int" where
  "WGPUTextureViewDimension_value WGPUTextureViewDimension_Undefined = 0"
| "WGPUTextureViewDimension_value WGPUTextureViewDimension_1D = 1"
| "WGPUTextureViewDimension_value WGPUTextureViewDimension_2D = 2"
| "WGPUTextureViewDimension_value WGPUTextureViewDimension_2DArray = 3"
| "WGPUTextureViewDimension_value WGPUTextureViewDimension_Cube = 4"
| "WGPUTextureViewDimension_value WGPUTextureViewDimension_CubeArray = 5"
| "WGPUTextureViewDimension_value WGPUTextureViewDimension_3D = 6"
| "WGPUTextureViewDimension_value WGPUTextureViewDimension_Force32 = 2147483647"

definition WGPUTextureViewDimension_list :: "WGPUTextureViewDimension list" where
  "WGPUTextureViewDimension_list = [WGPUTextureViewDimension_Undefined, WGPUTextureViewDimension_1D, WGPUTextureViewDimension_2D, WGPUTextureViewDimension_2DArray, WGPUTextureViewDimension_Cube, WGPUTextureViewDimension_CubeArray, WGPUTextureViewDimension_3D, WGPUTextureViewDimension_Force32]"

interpretation WGPUTextureViewDimension_enum: enumeration WGPUTextureViewDimension_value WGPUTextureViewDimension_list
proof unfold_locales
  fix e :: WGPUTextureViewDimension
  show "e \<in> set WGPUTextureViewDimension_list" by (cases e) (simp_all add: WGPUTextureViewDimension_list_def)
qed (simp_all add: WGPUTextureViewDimension_list_def)

datatype (plugins only: size) WGPUVertexStepMode =
    WGPUVertexStepMode_Undefined
  | WGPUVertexStepMode_VertexBufferNotUsed
  | WGPUVertexStepMode_Vertex
  | WGPUVertexStepMode_Instance
  | WGPUVertexStepMode_Force32

primrec WGPUVertexStepMode_value :: "WGPUVertexStepMode \<Rightarrow> int" where
  "WGPUVertexStepMode_value WGPUVertexStepMode_Undefined = 0"
| "WGPUVertexStepMode_value WGPUVertexStepMode_VertexBufferNotUsed = 1"
| "WGPUVertexStepMode_value WGPUVertexStepMode_Vertex = 2"
| "WGPUVertexStepMode_value WGPUVertexStepMode_Instance = 3"
| "WGPUVertexStepMode_value WGPUVertexStepMode_Force32 = 2147483647"

definition WGPUVertexStepMode_list :: "WGPUVertexStepMode list" where
  "WGPUVertexStepMode_list = [WGPUVertexStepMode_Undefined, WGPUVertexStepMode_VertexBufferNotUsed, WGPUVertexStepMode_Vertex, WGPUVertexStepMode_Instance, WGPUVertexStepMode_Force32]"

interpretation WGPUVertexStepMode_enum: enumeration WGPUVertexStepMode_value WGPUVertexStepMode_list
proof unfold_locales
  fix e :: WGPUVertexStepMode
  show "e \<in> set WGPUVertexStepMode_list" by (cases e) (simp_all add: WGPUVertexStepMode_list_def)
qed (simp_all add: WGPUVertexStepMode_list_def)

datatype (plugins only: size) WGPUWaitStatus =
    WGPUWaitStatus_Success
  | WGPUWaitStatus_TimedOut
  | WGPUWaitStatus_UnsupportedTimeout
  | WGPUWaitStatus_UnsupportedCount
  | WGPUWaitStatus_UnsupportedMixedSources
  | WGPUWaitStatus_Unknown
  | WGPUWaitStatus_Force32

primrec WGPUWaitStatus_value :: "WGPUWaitStatus \<Rightarrow> int" where
  "WGPUWaitStatus_value WGPUWaitStatus_Success = 0"
| "WGPUWaitStatus_value WGPUWaitStatus_TimedOut = 1"
| "WGPUWaitStatus_value WGPUWaitStatus_UnsupportedTimeout = 2"
| "WGPUWaitStatus_value WGPUWaitStatus_UnsupportedCount = 3"
| "WGPUWaitStatus_value WGPUWaitStatus_UnsupportedMixedSources = 4"
| "WGPUWaitStatus_value WGPUWaitStatus_Unknown = 5"
| "WGPUWaitStatus_value WGPUWaitStatus_Force32 = 2147483647"

definition WGPUWaitStatus_list :: "WGPUWaitStatus list" where
  "WGPUWaitStatus_list = [WGPUWaitStatus_Success, WGPUWaitStatus_TimedOut, WGPUWaitStatus_UnsupportedTimeout, WGPUWaitStatus_UnsupportedCount, WGPUWaitStatus_UnsupportedMixedSources, WGPUWaitStatus_Unknown, WGPUWaitStatus_Force32]"

interpretation WGPUWaitStatus_enum: enumeration WGPUWaitStatus_value WGPUWaitStatus_list
proof unfold_locales
  fix e :: WGPUWaitStatus
  show "e \<in> set WGPUWaitStatus_list" by (cases e) (simp_all add: WGPUWaitStatus_list_def)
qed (simp_all add: WGPUWaitStatus_list_def)

datatype (plugins only: size) WGPUBufferUsage =
    WGPUBufferUsage_None
  | WGPUBufferUsage_MapRead
  | WGPUBufferUsage_MapWrite
  | WGPUBufferUsage_CopySrc
  | WGPUBufferUsage_CopyDst
  | WGPUBufferUsage_Index
  | WGPUBufferUsage_Vertex
  | WGPUBufferUsage_Uniform
  | WGPUBufferUsage_Storage
  | WGPUBufferUsage_Indirect
  | WGPUBufferUsage_QueryResolve
  | WGPUBufferUsage_Force32

primrec WGPUBufferUsage_value :: "WGPUBufferUsage \<Rightarrow> int" where
  "WGPUBufferUsage_value WGPUBufferUsage_None = 0"
| "WGPUBufferUsage_value WGPUBufferUsage_MapRead = 1"
| "WGPUBufferUsage_value WGPUBufferUsage_MapWrite = 2"
| "WGPUBufferUsage_value WGPUBufferUsage_CopySrc = 4"
| "WGPUBufferUsage_value WGPUBufferUsage_CopyDst = 8"
| "WGPUBufferUsage_value WGPUBufferUsage_Index = 16"
| "WGPUBufferUsage_value WGPUBufferUsage_Vertex = 32"
| "WGPUBufferUsage_value WGPUBufferUsage_Uniform = 64"
| "WGPUBufferUsage_value WGPUBufferUsage_Storage = 128"
| "WGPUBufferUsage_value WGPUBufferUsage_Indirect = 256"
| "WGPUBufferUsage_value WGPUBufferUsage_QueryResolve = 512"
| "WGPUBufferUsage_value WGPUBufferUsage_Force32 = 2147483647"

definition WGPUBufferUsage_list :: "WGPUBufferUsage list" where
  "WGPUBufferUsage_list = [WGPUBufferUsage_None, WGPUBufferUsage_MapRead, WGPUBufferUsage_MapWrite, WGPUBufferUsage_CopySrc, WGPUBufferUsage_CopyDst, WGPUBufferUsage_Index, WGPUBufferUsage_Vertex, WGPUBufferUsage_Uniform, WGPUBufferUsage_Storage, WGPUBufferUsage_Indirect, WGPUBufferUsage_QueryResolve, WGPUBufferUsage_Force32]"

interpretation WGPUBufferUsage_enum: enumeration WGPUBufferUsage_value WGPUBufferUsage_list
proof unfold_locales
  fix e :: WGPUBufferUsage
  show "e \<in> set WGPUBufferUsage_list" by (cases e) (simp_all add: WGPUBufferUsage_list_def)
qed (simp_all add: WGPUBufferUsage_list_def)

datatype (plugins only: size) WGPUColorWriteMask =
    WGPUColorWriteMask_None
  | WGPUColorWriteMask_Red
  | WGPUColorWriteMask_Green
  | WGPUColorWriteMask_Blue
  | WGPUColorWriteMask_Alpha
  | WGPUColorWriteMask_All
  | WGPUColorWriteMask_Force32

primrec WGPUColorWriteMask_value :: "WGPUColorWriteMask \<Rightarrow> int" where
  "WGPUColorWriteMask_value WGPUColorWriteMask_None = 0"
| "WGPUColorWriteMask_value WGPUColorWriteMask_Red = 1"
| "WGPUColorWriteMask_value WGPUColorWriteMask_Green = 2"
| "WGPUColorWriteMask_value WGPUColorWriteMask_Blue = 4"
| "WGPUColorWriteMask_value WGPUColorWriteMask_Alpha = 8"
| "WGPUColorWriteMask_value WGPUColorWriteMask_All = 15"
| "WGPUColorWriteMask_value WGPUColorWriteMask_Force32 = 2147483647"

definition WGPUColorWriteMask_list :: "WGPUColorWriteMask list" where
  "WGPUColorWriteMask_list = [WGPUColorWriteMask_None, WGPUColorWriteMask_Red, WGPUColorWriteMask_Green, WGPUColorWriteMask_Blue, WGPUColorWriteMask_Alpha, WGPUColorWriteMask_All, WGPUColorWriteMask_Force32]"

interpretation WGPUColorWriteMask_enum: enumeration WGPUColorWriteMask_value WGPUColorWriteMask_list
proof unfold_locales
  fix e :: WGPUColorWriteMask
  show "e \<in> set WGPUColorWriteMask_list" by (cases e) (simp_all add: WGPUColorWriteMask_list_def)
qed (simp_all add: WGPUColorWriteMask_list_def)

datatype (plugins only: size) WGPUHeapProperty =
    WGPUHeapProperty_Undefined
  | WGPUHeapProperty_DeviceLocal
  | WGPUHeapProperty_HostVisible
  | WGPUHeapProperty_HostCoherent
  | WGPUHeapProperty_HostUncached
  | WGPUHeapProperty_HostCached
  | WGPUHeapProperty_Force32

primrec WGPUHeapProperty_value :: "WGPUHeapProperty \<Rightarrow> int" where
  "WGPUHeapProperty_value WGPUHeapProperty_Undefined = 0"
| "WGPUHeapProperty_value WGPUHeapProperty_DeviceLocal = 1"
| "WGPUHeapProperty_value WGPUHeapProperty_HostVisible = 2"
| "WGPUHeapProperty_value WGPUHeapProperty_HostCoherent = 4"
| "WGPUHeapProperty_value WGPUHeapProperty_HostUncached = 8"
| "WGPUHeapProperty_value WGPUHeapProperty_HostCached = 16"
| "WGPUHeapProperty_value WGPUHeapProperty_Force32 = 2147483647"

definition WGPUHeapProperty_list :: "WGPUHeapProperty list" where
  "WGPUHeapProperty_list = [WGPUHeapProperty_Undefined, WGPUHeapProperty_DeviceLocal, WGPUHeapProperty_HostVisible, WGPUHeapProperty_HostCoherent, WGPUHeapProperty_HostUncached, WGPUHeapProperty_HostCached, WGPUHeapProperty_Force32]"

interpretation WGPUHeapProperty_enum: enumeration WGPUHeapProperty_value WGPUHeapProperty_list
proof unfold_locales
  fix e :: WGPUHeapProperty
  show "e \<in> set WGPUHeapProperty_list" by (cases e) (simp_all add: WGPUHeapProperty_list_def)
qed (simp_all add: WGPUHeapProperty_list_def)

datatype (plugins only: size) WGPUMapMode =
    WGPUMapMode_None
  | WGPUMapMode_Read
  | WGPUMapMode_Write
  | WGPUMapMode_Force32

primrec WGPUMapMode_value :: "WGPUMapMode \<Rightarrow> int" where
  "WGPUMapMode_value WGPUMapMode_None = 0"
| "WGPUMapMode_value WGPUMapMode_Read = 1"
| "WGPUMapMode_value WGPUMapMode_Write = 2"
| "WGPUMapMode_value WGPUMapMode_Force32 = 2147483647"

definition WGPUMapMode_list :: "WGPUMapMode list" where
  "WGPUMapMode_list = [WGPUMapMode_None, WGPUMapMode_Read, WGPUMapMode_Write, WGPUMapMode_Force32]"

interpretation WGPUMapMode_enum: enumeration WGPUMapMode_value WGPUMapMode_list
proof unfold_locales
  fix e :: WGPUMapMode
  show "e \<in> set WGPUMapMode_list" by (cases e) (simp_all add: WGPUMapMode_list_def)
qed (simp_all add: WGPUMapMode_list_def)

datatype (plugins only: size) WGPUShaderStage =
    WGPUShaderStage_None
  | WGPUShaderStage_Vertex
  | WGPUShaderStage_Fragment
  | WGPUShaderStage_Compute
  | WGPUShaderStage_Force32

primrec WGPUShaderStage_value :: "WGPUShaderStage \<Rightarrow> int" where
  "WGPUShaderStage_value WGPUShaderStage_None = 0"
| "WGPUShaderStage_value WGPUShaderStage_Vertex = 1"
| "WGPUShaderStage_value WGPUShaderStage_Fragment = 2"
| "WGPUShaderStage_value WGPUShaderStage_Compute = 4"
| "WGPUShaderStage_value WGPUShaderStage_Force32 = 2147483647"

definition WGPUShaderStage_list :: "WGPUShaderStage list" where
  "WGPUShaderStage_list = [WGPUShaderStage_None, WGPUShaderStage_Vertex, WGPUShaderStage_Fragment, WGPUShaderStage_Compute, WGPUShaderStage_Force32]"

interpretation WGPUShaderStage_enum: enumeration WGPUShaderStage_value WGPUShaderStage_list
proof unfold_locales
  fix e :: WGPUShaderStage
  show "e \<in> set WGPUShaderStage_list" by (cases e) (simp_all add: WGPUShaderStage_list_def)
qed (simp_all add: WGPUShaderStage_list_def)

datatype (plugins only: size) WGPUTextureUsage =
    WGPUTextureUsage_None
  | WGPUTextureUsage_CopySrc
  | WGPUTextureUsage_CopyDst
  | WGPUTextureUsage_TextureBinding
  | WGPUTextureUsage_StorageBinding
  | WGPUTextureUsage_RenderAttachment
  | WGPUTextureUsage_TransientAttachment
  | WGPUTextureUsage_StorageAttachment
  | WGPUTextureUsage_Force32

primrec WGPUTextureUsage_value :: "WGPUTextureUsage \<Rightarrow> int" where
  "WGPUTextureUsage_value WGPUTextureUsage_None = 0"
| "WGPUTextureUsage_value WGPUTextureUsage_CopySrc = 1"
| "WGPUTextureUsage_value WGPUTextureUsage_CopyDst = 2"
| "WGPUTextureUsage_value WGPUTextureUsage_TextureBinding = 4"
| "WGPUTextureUsage_value WGPUTextureUsage_StorageBinding = 8"
| "WGPUTextureUsage_value WGPUTextureUsage_RenderAttachment = 16"
| "WGPUTextureUsage_value WGPUTextureUsage_TransientAttachment = 32"
| "WGPUTextureUsage_value WGPUTextureUsage_StorageAttachment = 64"
| "WGPUTextureUsage_value WGPUTextureUsage_Force32 = 2147483647"

definition WGPUTextureUsage_list :: "WGPUTextureUsage list" where
  "WGPUTextureUsage_list = [WGPUTextureUsage_None, WGPUTextureUsage_CopySrc, WGPUTextureUsage_CopyDst, WGPUTextureUsage_TextureBinding, WGPUTextureUsage_StorageBinding, WGPUTextureUsage_RenderAttachment, WGPUTextureUsage_TransientAttachment, WGPUTextureUsage_StorageAttachment, WGPUTextureUsage_Force32]"

interpretation WGPUTextureUsage_enum: enumeration WGPUTextureUsage_value WGPUTextureUsage_list
proof unfold_locales
  fix e :: WGPUTextureUsage
  show "e \<in> set WGPUTextureUsage_list" by (cases e) (simp_all add: WGPUTextureUsage_list_def)
qed (simp_all add: WGPUTextureUsage_list_def)

end
