(* ===== verification/Api_Large_Enums.thy ===== *)
theory Api_Large_Enums
  imports Api_Enums
begin

text \<open>
  The enumerations of \<open>include/webgpu.h\<close> with many constants (features, the types of chained structures,
  texture and vertex formats), as in \<open>Api_Enums\<close>.
\<close>

section \<open>Large enumerations\<close>

datatype (plugins only: size) WGPUFeatureName =
    WGPUFeatureName_Undefined
  | WGPUFeatureName_DepthClipControl
  | WGPUFeatureName_Depth32FloatStencil8
  | WGPUFeatureName_TimestampQuery
  | WGPUFeatureName_TextureCompressionBC
  | WGPUFeatureName_TextureCompressionETC2
  | WGPUFeatureName_TextureCompressionASTC
  | WGPUFeatureName_IndirectFirstInstance
  | WGPUFeatureName_ShaderF16
  | WGPUFeatureName_RG11B10UfloatRenderable
  | WGPUFeatureName_BGRA8UnormStorage
  | WGPUFeatureName_Float32Filterable
  | WGPUFeatureName_DawnInternalUsages
  | WGPUFeatureName_DawnMultiPlanarFormats
  | WGPUFeatureName_DawnNative
  | WGPUFeatureName_ChromiumExperimentalTimestampQueryInsidePasses
  | WGPUFeatureName_ImplicitDeviceSynchronization
  | WGPUFeatureName_SurfaceCapabilities
  | WGPUFeatureName_TransientAttachments
  | WGPUFeatureName_MSAARenderToSingleSampled
  | WGPUFeatureName_DualSourceBlending
  | WGPUFeatureName_D3D11MultithreadProtected
  | WGPUFeatureName_ANGLETextureSharing
  | WGPUFeatureName_ChromiumExperimentalSubgroups
  | WGPUFeatureName_ChromiumExperimentalSubgroupUniformControlFlow
  | WGPUFeatureName_PixelLocalStorageCoherent
  | WGPUFeatureName_PixelLocalStorageNonCoherent
  | WGPUFeatureName_Unorm16TextureFormats
  | WGPUFeatureName_Snorm16TextureFormats
  | WGPUFeatureName_MultiPlanarFormatExtendedUsages
  | WGPUFeatureName_MultiPlanarFormatP010
  | WGPUFeatureName_HostMappedPointer
  | WGPUFeatureName_MultiPlanarRenderTargets
  | WGPUFeatureName_MultiPlanarFormatNv12a
  | WGPUFeatureName_FramebufferFetch
  | WGPUFeatureName_BufferMapExtendedUsages
  | WGPUFeatureName_AdapterPropertiesMemoryHeaps
  | WGPUFeatureName_AdapterPropertiesD3D
  | WGPUFeatureName_AdapterPropertiesVk
  | WGPUFeatureName_R8UnormStorage
  | WGPUFeatureName_FormatCapabilities
  | WGPUFeatureName_DrmFormatCapabilities
  | WGPUFeatureName_Norm16TextureFormats
  | WGPUFeatureName_SharedTextureMemoryVkDedicatedAllocation
  | WGPUFeatureName_SharedTextureMemoryAHardwareBuffer
  | WGPUFeatureName_SharedTextureMemoryDmaBuf
  | WGPUFeatureName_SharedTextureMemoryOpaqueFD
  | WGPUFeatureName_SharedTextureMemoryZirconHandle
  | WGPUFeatureName_SharedTextureMemoryDXGISharedHandle
  | WGPUFeatureName_SharedTextureMemoryD3D11Texture2D
  | WGPUFeatureName_SharedTextureMemoryIOSurface
  | WGPUFeatureName_SharedTextureMemoryEGLImage
  | WGPUFeatureName_SharedFenceVkSemaphoreOpaqueFD
  | WGPUFeatureName_SharedFenceVkSemaphoreSyncFD
  | WGPUFeatureName_SharedFenceVkSemaphoreZirconHandle
  | WGPUFeatureName_SharedFenceDXGISharedHandle
  | WGPUFeatureName_SharedFenceMTLSharedEvent
  | WGPUFeatureName_SharedBufferMemoryD3D12Resource
  | WGPUFeatureName_StaticSamplers
  | WGPUFeatureName_Force32

primrec WGPUFeatureName_value :: "WGPUFeatureName \<Rightarrow> int" where
  "WGPUFeatureName_value WGPUFeatureName_Undefined = 0"
| "WGPUFeatureName_value WGPUFeatureName_DepthClipControl = 1"
| "WGPUFeatureName_value WGPUFeatureName_Depth32FloatStencil8 = 2"
| "WGPUFeatureName_value WGPUFeatureName_TimestampQuery = 3"
| "WGPUFeatureName_value WGPUFeatureName_TextureCompressionBC = 4"
| "WGPUFeatureName_value WGPUFeatureName_TextureCompressionETC2 = 5"
| "WGPUFeatureName_value WGPUFeatureName_TextureCompressionASTC = 6"
| "WGPUFeatureName_value WGPUFeatureName_IndirectFirstInstance = 7"
| "WGPUFeatureName_value WGPUFeatureName_ShaderF16 = 8"
| "WGPUFeatureName_value WGPUFeatureName_RG11B10UfloatRenderable = 9"
| "WGPUFeatureName_value WGPUFeatureName_BGRA8UnormStorage = 10"
| "WGPUFeatureName_value WGPUFeatureName_Float32Filterable = 11"
| "WGPUFeatureName_value WGPUFeatureName_DawnInternalUsages = 1002"
| "WGPUFeatureName_value WGPUFeatureName_DawnMultiPlanarFormats = 1003"
| "WGPUFeatureName_value WGPUFeatureName_DawnNative = 1004"
| "WGPUFeatureName_value WGPUFeatureName_ChromiumExperimentalTimestampQueryInsidePasses = 1006"
| "WGPUFeatureName_value WGPUFeatureName_ImplicitDeviceSynchronization = 1007"
| "WGPUFeatureName_value WGPUFeatureName_SurfaceCapabilities = 1008"
| "WGPUFeatureName_value WGPUFeatureName_TransientAttachments = 1009"
| "WGPUFeatureName_value WGPUFeatureName_MSAARenderToSingleSampled = 1010"
| "WGPUFeatureName_value WGPUFeatureName_DualSourceBlending = 1011"
| "WGPUFeatureName_value WGPUFeatureName_D3D11MultithreadProtected = 1012"
| "WGPUFeatureName_value WGPUFeatureName_ANGLETextureSharing = 1013"
| "WGPUFeatureName_value WGPUFeatureName_ChromiumExperimentalSubgroups = 1014"
| "WGPUFeatureName_value WGPUFeatureName_ChromiumExperimentalSubgroupUniformControlFlow = 1015"
| "WGPUFeatureName_value WGPUFeatureName_PixelLocalStorageCoherent = 1017"
| "WGPUFeatureName_value WGPUFeatureName_PixelLocalStorageNonCoherent = 1018"
| "WGPUFeatureName_value WGPUFeatureName_Unorm16TextureFormats = 1019"
| "WGPUFeatureName_value WGPUFeatureName_Snorm16TextureFormats = 1020"
| "WGPUFeatureName_value WGPUFeatureName_MultiPlanarFormatExtendedUsages = 1021"
| "WGPUFeatureName_value WGPUFeatureName_MultiPlanarFormatP010 = 1022"
| "WGPUFeatureName_value WGPUFeatureName_HostMappedPointer = 1023"
| "WGPUFeatureName_value WGPUFeatureName_MultiPlanarRenderTargets = 1024"
| "WGPUFeatureName_value WGPUFeatureName_MultiPlanarFormatNv12a = 1025"
| "WGPUFeatureName_value WGPUFeatureName_FramebufferFetch = 1026"
| "WGPUFeatureName_value WGPUFeatureName_BufferMapExtendedUsages = 1027"
| "WGPUFeatureName_value WGPUFeatureName_AdapterPropertiesMemoryHeaps = 1028"
| "WGPUFeatureName_value WGPUFeatureName_AdapterPropertiesD3D = 1029"
| "WGPUFeatureName_value WGPUFeatureName_AdapterPropertiesVk = 1030"
| "WGPUFeatureName_value WGPUFeatureName_R8UnormStorage = 1031"
| "WGPUFeatureName_value WGPUFeatureName_FormatCapabilities = 1032"
| "WGPUFeatureName_value WGPUFeatureName_DrmFormatCapabilities = 1033"
| "WGPUFeatureName_value WGPUFeatureName_Norm16TextureFormats = 1034"
| "WGPUFeatureName_value WGPUFeatureName_SharedTextureMemoryVkDedicatedAllocation = 1100"
| "WGPUFeatureName_value WGPUFeatureName_SharedTextureMemoryAHardwareBuffer = 1101"
| "WGPUFeatureName_value WGPUFeatureName_SharedTextureMemoryDmaBuf = 1102"
| "WGPUFeatureName_value WGPUFeatureName_SharedTextureMemoryOpaqueFD = 1103"
| "WGPUFeatureName_value WGPUFeatureName_SharedTextureMemoryZirconHandle = 1104"
| "WGPUFeatureName_value WGPUFeatureName_SharedTextureMemoryDXGISharedHandle = 1105"
| "WGPUFeatureName_value WGPUFeatureName_SharedTextureMemoryD3D11Texture2D = 1106"
| "WGPUFeatureName_value WGPUFeatureName_SharedTextureMemoryIOSurface = 1107"
| "WGPUFeatureName_value WGPUFeatureName_SharedTextureMemoryEGLImage = 1108"
| "WGPUFeatureName_value WGPUFeatureName_SharedFenceVkSemaphoreOpaqueFD = 1200"
| "WGPUFeatureName_value WGPUFeatureName_SharedFenceVkSemaphoreSyncFD = 1201"
| "WGPUFeatureName_value WGPUFeatureName_SharedFenceVkSemaphoreZirconHandle = 1202"
| "WGPUFeatureName_value WGPUFeatureName_SharedFenceDXGISharedHandle = 1203"
| "WGPUFeatureName_value WGPUFeatureName_SharedFenceMTLSharedEvent = 1204"
| "WGPUFeatureName_value WGPUFeatureName_SharedBufferMemoryD3D12Resource = 1205"
| "WGPUFeatureName_value WGPUFeatureName_StaticSamplers = 1206"
| "WGPUFeatureName_value WGPUFeatureName_Force32 = 2147483647"

definition WGPUFeatureName_list :: "WGPUFeatureName list" where
  "WGPUFeatureName_list = [WGPUFeatureName_Undefined, WGPUFeatureName_DepthClipControl, WGPUFeatureName_Depth32FloatStencil8, WGPUFeatureName_TimestampQuery, WGPUFeatureName_TextureCompressionBC, WGPUFeatureName_TextureCompressionETC2, WGPUFeatureName_TextureCompressionASTC, WGPUFeatureName_IndirectFirstInstance, WGPUFeatureName_ShaderF16, WGPUFeatureName_RG11B10UfloatRenderable, WGPUFeatureName_BGRA8UnormStorage, WGPUFeatureName_Float32Filterable, WGPUFeatureName_DawnInternalUsages, WGPUFeatureName_DawnMultiPlanarFormats, WGPUFeatureName_DawnNative, WGPUFeatureName_ChromiumExperimentalTimestampQueryInsidePasses, WGPUFeatureName_ImplicitDeviceSynchronization, WGPUFeatureName_SurfaceCapabilities, WGPUFeatureName_TransientAttachments, WGPUFeatureName_MSAARenderToSingleSampled, WGPUFeatureName_DualSourceBlending, WGPUFeatureName_D3D11MultithreadProtected, WGPUFeatureName_ANGLETextureSharing, WGPUFeatureName_ChromiumExperimentalSubgroups, WGPUFeatureName_ChromiumExperimentalSubgroupUniformControlFlow, WGPUFeatureName_PixelLocalStorageCoherent, WGPUFeatureName_PixelLocalStorageNonCoherent, WGPUFeatureName_Unorm16TextureFormats, WGPUFeatureName_Snorm16TextureFormats, WGPUFeatureName_MultiPlanarFormatExtendedUsages, WGPUFeatureName_MultiPlanarFormatP010, WGPUFeatureName_HostMappedPointer, WGPUFeatureName_MultiPlanarRenderTargets, WGPUFeatureName_MultiPlanarFormatNv12a, WGPUFeatureName_FramebufferFetch, WGPUFeatureName_BufferMapExtendedUsages, WGPUFeatureName_AdapterPropertiesMemoryHeaps, WGPUFeatureName_AdapterPropertiesD3D, WGPUFeatureName_AdapterPropertiesVk, WGPUFeatureName_R8UnormStorage, WGPUFeatureName_FormatCapabilities, WGPUFeatureName_DrmFormatCapabilities, WGPUFeatureName_Norm16TextureFormats, WGPUFeatureName_SharedTextureMemoryVkDedicatedAllocation, WGPUFeatureName_SharedTextureMemoryAHardwareBuffer, WGPUFeatureName_SharedTextureMemoryDmaBuf, WGPUFeatureName_SharedTextureMemoryOpaqueFD, WGPUFeatureName_SharedTextureMemoryZirconHandle, WGPUFeatureName_SharedTextureMemoryDXGISharedHandle, WGPUFeatureName_SharedTextureMemoryD3D11Texture2D, WGPUFeatureName_SharedTextureMemoryIOSurface, WGPUFeatureName_SharedTextureMemoryEGLImage, WGPUFeatureName_SharedFenceVkSemaphoreOpaqueFD, WGPUFeatureName_SharedFenceVkSemaphoreSyncFD, WGPUFeatureName_SharedFenceVkSemaphoreZirconHandle, WGPUFeatureName_SharedFenceDXGISharedHandle, WGPUFeatureName_SharedFenceMTLSharedEvent, WGPUFeatureName_SharedBufferMemoryD3D12Resource, WGPUFeatureName_StaticSamplers, WGPUFeatureName_Force32]"

interpretation WGPUFeatureName_enum: enumeration WGPUFeatureName_value WGPUFeatureName_list
proof unfold_locales
  fix e :: WGPUFeatureName
  show "e \<in> set WGPUFeatureName_list" by (cases e) (simp_all add: WGPUFeatureName_list_def)
qed (simp_all add: WGPUFeatureName_list_def)

datatype (plugins only: size) WGPUSType =
    WGPUSType_Invalid
  | WGPUSType_SurfaceDescriptorFromMetalLayer
  | WGPUSType_SurfaceDescriptorFromWindowsHWND
  | WGPUSType_SurfaceDescriptorFromXlibWindow
  | WGPUSType_SurfaceDescriptorFromCanvasHTMLSelector
  | WGPUSType_ShaderModuleSPIRVDescriptor
  | WGPUSType_ShaderModuleWGSLDescriptor
  | WGPUSType_PrimitiveDepthClipControl
  | WGPUSType_SurfaceDescriptorFromWaylandSurface
  | WGPUSType_SurfaceDescriptorFromAndroidNativeWindow
  | WGPUSType_SurfaceDescriptorFromWindowsCoreWindow
  | WGPUSType_ExternalTextureBindingEntry
  | WGPUSType_ExternalTextureBindingLayout
  | WGPUSType_SurfaceDescriptorFromWindowsSwapChainPanel
  | WGPUSType_RenderPassDescriptorMaxDrawCount
  | WGPUSType_DepthStencilStateDepthWriteDefinedDawn
  | WGPUSType_TextureBindingViewDimensionDescriptor
  | WGPUSType_DawnTextureInternalUsageDescriptor
  | WGPUSType_DawnEncoderInternalUsageDescriptor
  | WGPUSType_DawnInstanceDescriptor
  | WGPUSType_DawnCacheDeviceDescriptor
  | WGPUSType_DawnAdapterPropertiesPowerPreference
  | WGPUSType_DawnBufferDescriptorErrorInfoFromWireClient
  | WGPUSType_DawnTogglesDescriptor
  | WGPUSType_DawnShaderModuleSPIRVOptionsDescriptor
  | WGPUSType_RequestAdapterOptionsLUID
  | WGPUSType_RequestAdapterOptionsGetGLProc
  | WGPUSType_RequestAdapterOptionsD3D11Device
  | WGPUSType_DawnMultisampleStateRenderToSingleSampled
  | WGPUSType_DawnRenderPassColorAttachmentRenderToSingleSampled
  | WGPUSType_RenderPassPixelLocalStorage
  | WGPUSType_PipelineLayoutPixelLocalStorage
  | WGPUSType_BufferHostMappedPointer
  | WGPUSType_DawnExperimentalSubgroupLimits
  | WGPUSType_AdapterPropertiesMemoryHeaps
  | WGPUSType_AdapterPropertiesD3D
  | WGPUSType_AdapterPropertiesVk
  | WGPUSType_DawnComputePipelineFullSubgroups
  | WGPUSType_DawnWireWGSLControl
  | WGPUSType_DawnWGSLBlocklist
  | WGPUSType_DrmFormatCapabilities
  | WGPUSType_SharedTextureMemoryVkImageDescriptor
  | WGPUSType_SharedTextureMemoryVkDedicatedAllocationDescriptor
  | WGPUSType_SharedTextureMemoryAHardwareBufferDescriptor
  | WGPUSType_SharedTextureMemoryDmaBufDescriptor
  | WGPUSType_SharedTextureMemoryOpaqueFDDescriptor
  | WGPUSType_SharedTextureMemoryZirconHandleDescriptor
  | WGPUSType_SharedTextureMemoryDXGISharedHandleDescriptor
  | WGPUSType_SharedTextureMemoryD3D11Texture2DDescriptor
  | WGPUSType_SharedTextureMemoryIOSurfaceDescriptor
  | WGPUSType_SharedTextureMemoryEGLImageDescriptor
  | WGPUSType_SharedTextureMemoryInitializedBeginState
  | WGPUSType_SharedTextureMemoryInitializedEndState
  | WGPUSType_SharedTextureMemoryVkImageLayoutBeginState
  | WGPUSType_SharedTextureMemoryVkImageLayoutEndState
  | WGPUSType_SharedFenceVkSemaphoreOpaqueFDDescriptor
  | WGPUSType_SharedFenceVkSemaphoreOpaqueFDExportInfo
  | WGPUSType_SharedFenceVkSemaphoreSyncFDDescriptor
  | WGPUSType_SharedFenceVkSemaphoreSyncFDExportInfo
  | WGPUSType_SharedFenceVkSemaphoreZirconHandleDescriptor
  | WGPUSType_SharedFenceVkSemaphoreZirconHandleExportInfo
  | WGPUSType_SharedFenceDXGISharedHandleDescriptor
  | WGPUSType_SharedFenceDXGISharedHandleExportInfo
  | WGPUSType_SharedFenceMTLSharedEventDescriptor
  | WGPUSType_SharedFenceMTLSharedEventExportInfo
  | WGPUSType_SharedBufferMemoryD3D12ResourceDescriptor
  | WGPUSType_StaticSamplerBindingLayout
  | WGPUSType_Force32

primrec WGPUSType_value :: "WGPUSType \<Rightarrow> int" where
  "WGPUSType_value WGPUSType_Invalid = 0"
| "WGPUSType_value WGPUSType_SurfaceDescriptorFromMetalLayer = 1"
| "WGPUSType_value WGPUSType_SurfaceDescriptorFromWindowsHWND = 2"
| "WGPUSType_value WGPUSType_SurfaceDescriptorFromXlibWindow = 3"
| "WGPUSType_value WGPUSType_SurfaceDescriptorFromCanvasHTMLSelector = 4"
| "WGPUSType_value WGPUSType_ShaderModuleSPIRVDescriptor = 5"
| "WGPUSType_value WGPUSType_ShaderModuleWGSLDescriptor = 6"
| "WGPUSType_value WGPUSType_PrimitiveDepthClipControl = 7"
| "WGPUSType_value WGPUSType_SurfaceDescriptorFromWaylandSurface = 8"
| "WGPUSType_value WGPUSType_SurfaceDescriptorFromAndroidNativeWindow = 9"
| "WGPUSType_value WGPUSType_SurfaceDescriptorFromWindowsCoreWindow = 11"
| "WGPUSType_value WGPUSType_ExternalTextureBindingEntry = 12"
| "WGPUSType_value WGPUSType_ExternalTextureBindingLayout = 13"
| "WGPUSType_value WGPUSType_SurfaceDescriptorFromWindowsSwapChainPanel = 14"
| "WGPUSType_value WGPUSType_RenderPassDescriptorMaxDrawCount = 15"
| "WGPUSType_value WGPUSType_DepthStencilStateDepthWriteDefinedDawn = 16"
| "WGPUSType_value WGPUSType_TextureBindingViewDimensionDescriptor = 17"
| "WGPUSType_value WGPUSType_DawnTextureInternalUsageDescriptor = 1000"
| "WGPUSType_value WGPUSType_DawnEncoderInternalUsageDescriptor = 1003"
| "WGPUSType_value WGPUSType_DawnInstanceDescriptor = 1004"
| "WGPUSType_value WGPUSType_DawnCacheDeviceDescriptor = 1005"
| "WGPUSType_value WGPUSType_DawnAdapterPropertiesPowerPreference = 1006"
| "WGPUSType_value WGPUSType_DawnBufferDescriptorErrorInfoFromWireClient = 1007"
| "WGPUSType_value WGPUSType_DawnTogglesDescriptor = 1008"
| "WGPUSType_value WGPUSType_DawnShaderModuleSPIRVOptionsDescriptor = 1009"
| "WGPUSType_value WGPUSType_RequestAdapterOptionsLUID = 1010"
| "WGPUSType_value WGPUSType_RequestAdapterOptionsGetGLProc = 1011"
| "WGPUSType_value WGPUSType_RequestAdapterOptionsD3D11Device = 1012"
| "WGPUSType_value WGPUSType_DawnMultisampleStateRenderToSingleSampled = 1013"
| "WGPUSType_value WGPUSType_DawnRenderPassColorAttachmentRenderToSingleSampled = 1014"
| "WGPUSType_value WGPUSType_RenderPassPixelLocalStorage = 1015"
| "WGPUSType_value WGPUSType_PipelineLayoutPixelLocalStorage = 1016"
| "WGPUSType_value WGPUSType_BufferHostMappedPointer = 1017"
| "WGPUSType_value WGPUSType_DawnExperimentalSubgroupLimits = 1018"
| "WGPUSType_value WGPUSType_AdapterPropertiesMemoryHeaps = 1019"
| "WGPUSType_value WGPUSType_AdapterPropertiesD3D = 1020"
| "WGPUSType_value WGPUSType_AdapterPropertiesVk = 1021"
| "WGPUSType_value WGPUSType_DawnComputePipelineFullSubgroups = 1022"
| "WGPUSType_value WGPUSType_DawnWireWGSLControl = 1023"
| "WGPUSType_value WGPUSType_DawnWGSLBlocklist = 1024"
| "WGPUSType_value WGPUSType_DrmFormatCapabilities = 1025"
| "WGPUSType_value WGPUSType_SharedTextureMemoryVkImageDescriptor = 1100"
| "WGPUSType_value WGPUSType_SharedTextureMemoryVkDedicatedAllocationDescriptor = 1101"
| "WGPUSType_value WGPUSType_SharedTextureMemoryAHardwareBufferDescriptor = 1102"
| "WGPUSType_value WGPUSType_SharedTextureMemoryDmaBufDescriptor = 1103"
| "WGPUSType_value WGPUSType_SharedTextureMemoryOpaqueFDDescriptor = 1104"
| "WGPUSType_value WGPUSType_SharedTextureMemoryZirconHandleDescriptor = 1105"
| "WGPUSType_value WGPUSType_SharedTextureMemoryDXGISharedHandleDescriptor = 1106"
| "WGPUSType_value WGPUSType_SharedTextureMemoryD3D11Texture2DDescriptor = 1107"
| "WGPUSType_value WGPUSType_SharedTextureMemoryIOSurfaceDescriptor = 1108"
| "WGPUSType_value WGPUSType_SharedTextureMemoryEGLImageDescriptor = 1109"
| "WGPUSType_value WGPUSType_SharedTextureMemoryInitializedBeginState = 1200"
| "WGPUSType_value WGPUSType_SharedTextureMemoryInitializedEndState = 1201"
| "WGPUSType_value WGPUSType_SharedTextureMemoryVkImageLayoutBeginState = 1202"
| "WGPUSType_value WGPUSType_SharedTextureMemoryVkImageLayoutEndState = 1203"
| "WGPUSType_value WGPUSType_SharedFenceVkSemaphoreOpaqueFDDescriptor = 1204"
| "WGPUSType_value WGPUSType_SharedFenceVkSemaphoreOpaqueFDExportInfo = 1205"
| "WGPUSType_value WGPUSType_SharedFenceVkSemaphoreSyncFDDescriptor = 1206"
| "WGPUSType_value WGPUSType_SharedFenceVkSemaphoreSyncFDExportInfo = 1207"
| "WGPUSType_value WGPUSType_SharedFenceVkSemaphoreZirconHandleDescriptor = 1208"
| "WGPUSType_value WGPUSType_SharedFenceVkSemaphoreZirconHandleExportInfo = 1209"
| "WGPUSType_value WGPUSType_SharedFenceDXGISharedHandleDescriptor = 1210"
| "WGPUSType_value WGPUSType_SharedFenceDXGISharedHandleExportInfo = 1211"
| "WGPUSType_value WGPUSType_SharedFenceMTLSharedEventDescriptor = 1212"
| "WGPUSType_value WGPUSType_SharedFenceMTLSharedEventExportInfo = 1213"
| "WGPUSType_value WGPUSType_SharedBufferMemoryD3D12ResourceDescriptor = 1214"
| "WGPUSType_value WGPUSType_StaticSamplerBindingLayout = 1215"
| "WGPUSType_value WGPUSType_Force32 = 2147483647"

definition WGPUSType_list :: "WGPUSType list" where
  "WGPUSType_list = [WGPUSType_Invalid, WGPUSType_SurfaceDescriptorFromMetalLayer, WGPUSType_SurfaceDescriptorFromWindowsHWND, WGPUSType_SurfaceDescriptorFromXlibWindow, WGPUSType_SurfaceDescriptorFromCanvasHTMLSelector, WGPUSType_ShaderModuleSPIRVDescriptor, WGPUSType_ShaderModuleWGSLDescriptor, WGPUSType_PrimitiveDepthClipControl, WGPUSType_SurfaceDescriptorFromWaylandSurface, WGPUSType_SurfaceDescriptorFromAndroidNativeWindow, WGPUSType_SurfaceDescriptorFromWindowsCoreWindow, WGPUSType_ExternalTextureBindingEntry, WGPUSType_ExternalTextureBindingLayout, WGPUSType_SurfaceDescriptorFromWindowsSwapChainPanel, WGPUSType_RenderPassDescriptorMaxDrawCount, WGPUSType_DepthStencilStateDepthWriteDefinedDawn, WGPUSType_TextureBindingViewDimensionDescriptor, WGPUSType_DawnTextureInternalUsageDescriptor, WGPUSType_DawnEncoderInternalUsageDescriptor, WGPUSType_DawnInstanceDescriptor, WGPUSType_DawnCacheDeviceDescriptor, WGPUSType_DawnAdapterPropertiesPowerPreference, WGPUSType_DawnBufferDescriptorErrorInfoFromWireClient, WGPUSType_DawnTogglesDescriptor, WGPUSType_DawnShaderModuleSPIRVOptionsDescriptor, WGPUSType_RequestAdapterOptionsLUID, WGPUSType_RequestAdapterOptionsGetGLProc, WGPUSType_RequestAdapterOptionsD3D11Device, WGPUSType_DawnMultisampleStateRenderToSingleSampled, WGPUSType_DawnRenderPassColorAttachmentRenderToSingleSampled, WGPUSType_RenderPassPixelLocalStorage, WGPUSType_PipelineLayoutPixelLocalStorage, WGPUSType_BufferHostMappedPointer, WGPUSType_DawnExperimentalSubgroupLimits, WGPUSType_AdapterPropertiesMemoryHeaps, WGPUSType_AdapterPropertiesD3D, WGPUSType_AdapterPropertiesVk, WGPUSType_DawnComputePipelineFullSubgroups, WGPUSType_DawnWireWGSLControl, WGPUSType_DawnWGSLBlocklist, WGPUSType_DrmFormatCapabilities, WGPUSType_SharedTextureMemoryVkImageDescriptor, WGPUSType_SharedTextureMemoryVkDedicatedAllocationDescriptor, WGPUSType_SharedTextureMemoryAHardwareBufferDescriptor, WGPUSType_SharedTextureMemoryDmaBufDescriptor, WGPUSType_SharedTextureMemoryOpaqueFDDescriptor, WGPUSType_SharedTextureMemoryZirconHandleDescriptor, WGPUSType_SharedTextureMemoryDXGISharedHandleDescriptor, WGPUSType_SharedTextureMemoryD3D11Texture2DDescriptor, WGPUSType_SharedTextureMemoryIOSurfaceDescriptor, WGPUSType_SharedTextureMemoryEGLImageDescriptor, WGPUSType_SharedTextureMemoryInitializedBeginState, WGPUSType_SharedTextureMemoryInitializedEndState, WGPUSType_SharedTextureMemoryVkImageLayoutBeginState, WGPUSType_SharedTextureMemoryVkImageLayoutEndState, WGPUSType_SharedFenceVkSemaphoreOpaqueFDDescriptor, WGPUSType_SharedFenceVkSemaphoreOpaqueFDExportInfo, WGPUSType_SharedFenceVkSemaphoreSyncFDDescriptor, WGPUSType_SharedFenceVkSemaphoreSyncFDExportInfo, WGPUSType_SharedFenceVkSemaphoreZirconHandleDescriptor, WGPUSType_SharedFenceVkSemaphoreZirconHandleExportInfo, WGPUSType_SharedFenceDXGISharedHandleDescriptor, WGPUSType_SharedFenceDXGISharedHandleExportInfo, WGPUSType_SharedFenceMTLSharedEventDescriptor, WGPUSType_SharedFenceMTLSharedEventExportInfo, WGPUSType_SharedBufferMemoryD3D12ResourceDescriptor, WGPUSType_StaticSamplerBindingLayout, WGPUSType_Force32]"

interpretation WGPUSType_enum: enumeration WGPUSType_value WGPUSType_list
proof unfold_locales
  fix e :: WGPUSType
  show "e \<in> set WGPUSType_list" by (cases e) (simp_all add: WGPUSType_list_def)
qed (simp_all add: WGPUSType_list_def)

datatype (plugins only: size) WGPUTextureFormat =
    WGPUTextureFormat_Undefined
  | WGPUTextureFormat_R8Unorm
  | WGPUTextureFormat_R8Snorm
  | WGPUTextureFormat_R8Uint
  | WGPUTextureFormat_R8Sint
  | WGPUTextureFormat_R16Uint
  | WGPUTextureFormat_R16Sint
  | WGPUTextureFormat_R16Float
  | WGPUTextureFormat_RG8Unorm
  | WGPUTextureFormat_RG8Snorm
  | WGPUTextureFormat_RG8Uint
  | WGPUTextureFormat_RG8Sint
  | WGPUTextureFormat_R32Float
  | WGPUTextureFormat_R32Uint
  | WGPUTextureFormat_R32Sint
  | WGPUTextureFormat_RG16Uint
  | WGPUTextureFormat_RG16Sint
  | WGPUTextureFormat_RG16Float
  | WGPUTextureFormat_RGBA8Unorm
  | WGPUTextureFormat_RGBA8UnormSrgb
  | WGPUTextureFormat_RGBA8Snorm
  | WGPUTextureFormat_RGBA8Uint
  | WGPUTextureFormat_RGBA8Sint
  | WGPUTextureFormat_BGRA8Unorm
  | WGPUTextureFormat_BGRA8UnormSrgb
  | WGPUTextureFormat_RGB10A2Uint
  | WGPUTextureFormat_RGB10A2Unorm
  | WGPUTextureFormat_RG11B10Ufloat
  | WGPUTextureFormat_RGB9E5Ufloat
  | WGPUTextureFormat_RG32Float
  | WGPUTextureFormat_RG32Uint
  | WGPUTextureFormat_RG32Sint
  | WGPUTextureFormat_RGBA16Uint
  | WGPUTextureFormat_RGBA16Sint
  | WGPUTextureFormat_RGBA16Float
  | WGPUTextureFormat_RGBA32Float
  | WGPUTextureFormat_RGBA32Uint
  | WGPUTextureFormat_RGBA32Sint
  | WGPUTextureFormat_Stencil8
  | WGPUTextureFormat_Depth16Unorm
  | WGPUTextureFormat_Depth24Plus
  | WGPUTextureFormat_Depth24PlusStencil8
  | WGPUTextureFormat_Depth32Float
  | WGPUTextureFormat_Depth32FloatStencil8
  | WGPUTextureFormat_BC1RGBAUnorm
  | WGPUTextureFormat_BC1RGBAUnormSrgb
  | WGPUTextureFormat_BC2RGBAUnorm
  | WGPUTextureFormat_BC2RGBAUnormSrgb
  | WGPUTextureFormat_BC3RGBAUnorm
  | WGPUTextureFormat_BC3RGBAUnormSrgb
  | WGPUTextureFormat_BC4RUnorm
  | WGPUTextureFormat_BC4RSnorm
  | WGPUTextureFormat_BC5RGUnorm
  | WGPUTextureFormat_BC5RGSnorm
  | WGPUTextureFormat_BC6HRGBUfloat
  | WGPUTextureFormat_BC6HRGBFloat
  | WGPUTextureFormat_BC7RGBAUnorm
  | WGPUTextureFormat_BC7RGBAUnormSrgb
  | WGPUTextureFormat_ETC2RGB8Unorm
  | WGPUTextureFormat_ETC2RGB8UnormSrgb
  | WGPUTextureFormat_ETC2RGB8A1Unorm
  | WGPUTextureFormat_ETC2RGB8A1UnormSrgb
  | WGPUTextureFormat_ETC2RGBA8Unorm
  | WGPUTextureFormat_ETC2RGBA8UnormSrgb
  | WGPUTextureFormat_EACR11Unorm
  | WGPUTextureFormat_EACR11Snorm
  | WGPUTextureFormat_EACRG11Unorm
  | WGPUTextureFormat_EACRG11Snorm
  | WGPUTextureFormat_ASTC4x4Unorm
  | WGPUTextureFormat_ASTC4x4UnormSrgb
  | WGPUTextureFormat_ASTC5x4Unorm
  | WGPUTextureFormat_ASTC5x4UnormSrgb
  | WGPUTextureFormat_ASTC5x5Unorm
  | WGPUTextureFormat_ASTC5x5UnormSrgb
  | WGPUTextureFormat_ASTC6x5Unorm
  | WGPUTextureFormat_ASTC6x5UnormSrgb
  | WGPUTextureFormat_ASTC6x6Unorm
  | WGPUTextureFormat_ASTC6x6UnormSrgb
  | WGPUTextureFormat_ASTC8x5Unorm
  | WGPUTextureFormat_ASTC8x5UnormSrgb
  | WGPUTextureFormat_ASTC8x6Unorm
  | WGPUTextureFormat_ASTC8x6UnormSrgb
  | WGPUTextureFormat_ASTC8x8Unorm
  | WGPUTextureFormat_ASTC8x8UnormSrgb
  | WGPUTextureFormat_ASTC10x5Unorm
  | WGPUTextureFormat_ASTC10x5UnormSrgb
  | WGPUTextureFormat_ASTC10x6Unorm
  | WGPUTextureFormat_ASTC10x6UnormSrgb
  | WGPUTextureFormat_ASTC10x8Unorm
  | WGPUTextureFormat_ASTC10x8UnormSrgb
  | WGPUTextureFormat_ASTC10x10Unorm
  | WGPUTextureFormat_ASTC10x10UnormSrgb
  | WGPUTextureFormat_ASTC12x10Unorm
  | WGPUTextureFormat_ASTC12x10UnormSrgb
  | WGPUTextureFormat_ASTC12x12Unorm
  | WGPUTextureFormat_ASTC12x12UnormSrgb
  | WGPUTextureFormat_R16Unorm
  | WGPUTextureFormat_RG16Unorm
  | WGPUTextureFormat_RGBA16Unorm
  | WGPUTextureFormat_R16Snorm
  | WGPUTextureFormat_RG16Snorm
  | WGPUTextureFormat_RGBA16Snorm
  | WGPUTextureFormat_R8BG8Biplanar420Unorm
  | WGPUTextureFormat_R10X6BG10X6Biplanar420Unorm
  | WGPUTextureFormat_R8BG8A8Triplanar420Unorm
  | WGPUTextureFormat_Force32

primrec WGPUTextureFormat_value :: "WGPUTextureFormat \<Rightarrow> int" where
  "WGPUTextureFormat_value WGPUTextureFormat_Undefined = 0"
| "WGPUTextureFormat_value WGPUTextureFormat_R8Unorm = 1"
| "WGPUTextureFormat_value WGPUTextureFormat_R8Snorm = 2"
| "WGPUTextureFormat_value WGPUTextureFormat_R8Uint = 3"
| "WGPUTextureFormat_value WGPUTextureFormat_R8Sint = 4"
| "WGPUTextureFormat_value WGPUTextureFormat_R16Uint = 5"
| "WGPUTextureFormat_value WGPUTextureFormat_R16Sint = 6"
| "WGPUTextureFormat_value WGPUTextureFormat_R16Float = 7"
| "WGPUTextureFormat_value WGPUTextureFormat_RG8Unorm = 8"
| "WGPUTextureFormat_value WGPUTextureFormat_RG8Snorm = 9"
| "WGPUTextureFormat_value WGPUTextureFormat_RG8Uint = 10"
| "WGPUTextureFormat_value WGPUTextureFormat_RG8Sint = 11"
| "WGPUTextureFormat_value WGPUTextureFormat_R32Float = 12"
| "WGPUTextureFormat_value WGPUTextureFormat_R32Uint = 13"
| "WGPUTextureFormat_value WGPUTextureFormat_R32Sint = 14"
| "WGPUTextureFormat_value WGPUTextureFormat_RG16Uint = 15"
| "WGPUTextureFormat_value WGPUTextureFormat_RG16Sint = 16"
| "WGPUTextureFormat_value WGPUTextureFormat_RG16Float = 17"
| "WGPUTextureFormat_value WGPUTextureFormat_RGBA8Unorm = 18"
| "WGPUTextureFormat_value WGPUTextureFormat_RGBA8UnormSrgb = 19"
| "WGPUTextureFormat_value WGPUTextureFormat_RGBA8Snorm = 20"
| "WGPUTextureFormat_value WGPUTextureFormat_RGBA8Uint = 21"
| "WGPUTextureFormat_value WGPUTextureFormat_RGBA8Sint = 22"
| "WGPUTextureFormat_value WGPUTextureFormat_BGRA8Unorm = 23"
| "WGPUTextureFormat_value WGPUTextureFormat_BGRA8UnormSrgb = 24"
| "WGPUTextureFormat_value WGPUTextureFormat_RGB10A2Uint = 25"
| "WGPUTextureFormat_value WGPUTextureFormat_RGB10A2Unorm = 26"
| "WGPUTextureFormat_value WGPUTextureFormat_RG11B10Ufloat = 27"
| "WGPUTextureFormat_value WGPUTextureFormat_RGB9E5Ufloat = 28"
| "WGPUTextureFormat_value WGPUTextureFormat_RG32Float = 29"
| "WGPUTextureFormat_value WGPUTextureFormat_RG32Uint = 30"
| "WGPUTextureFormat_value WGPUTextureFormat_RG32Sint = 31"
| "WGPUTextureFormat_value WGPUTextureFormat_RGBA16Uint = 32"
| "WGPUTextureFormat_value WGPUTextureFormat_RGBA16Sint = 33"
| "WGPUTextureFormat_value WGPUTextureFormat_RGBA16Float = 34"
| "WGPUTextureFormat_value WGPUTextureFormat_RGBA32Float = 35"
| "WGPUTextureFormat_value WGPUTextureFormat_RGBA32Uint = 36"
| "WGPUTextureFormat_value WGPUTextureFormat_RGBA32Sint = 37"
| "WGPUTextureFormat_value WGPUTextureFormat_Stencil8 = 38"
| "WGPUTextureFormat_value WGPUTextureFormat_Depth16Unorm = 39"
| "WGPUTextureFormat_value WGPUTextureFormat_Depth24Plus = 40"
| "WGPUTextureFormat_value WGPUTextureFormat_Depth24PlusStencil8 = 41"
| "WGPUTextureFormat_value WGPUTextureFormat_Depth32Float = 42"
| "WGPUTextureFormat_value WGPUTextureFormat_Depth32FloatStencil8 = 43"
| "WGPUTextureFormat_value WGPUTextureFormat_BC1RGBAUnorm = 44"
| "WGPUTextureFormat_value WGPUTextureFormat_BC1RGBAUnormSrgb = 45"
| "WGPUTextureFormat_value WGPUTextureFormat_BC2RGBAUnorm = 46"
| "WGPUTextureFormat_value WGPUTextureFormat_BC2RGBAUnormSrgb = 47"
| "WGPUTextureFormat_value WGPUTextureFormat_BC3RGBAUnorm = 48"
| "WGPUTextureFormat_value WGPUTextureFormat_BC3RGBAUnormSrgb = 49"
| "WGPUTextureFormat_value WGPUTextureFormat_BC4RUnorm = 50"
| "WGPUTextureFormat_value WGPUTextureFormat_BC4RSnorm = 51"
| "WGPUTextureFormat_value WGPUTextureFormat_BC5RGUnorm = 52"
| "WGPUTextureFormat_value WGPUTextureFormat_BC5RGSnorm = 53"
| "WGPUTextureFormat_value WGPUTextureFormat_BC6HRGBUfloat = 54"
| "WGPUTextureFormat_value WGPUTextureFormat_BC6HRGBFloat = 55"
| "WGPUTextureFormat_value WGPUTextureFormat_BC7RGBAUnorm = 56"
| "WGPUTextureFormat_value WGPUTextureFormat_BC7RGBAUnormSrgb = 57"
| "WGPUTextureFormat_value WGPUTextureFormat_ETC2RGB8Unorm = 58"
| "WGPUTextureFormat_value WGPUTextureFormat_ETC2RGB8UnormSrgb = 59"
| "WGPUTextureFormat_value WGPUTextureFormat_ETC2RGB8A1Unorm = 60"
| "WGPUTextureFormat_value WGPUTextureFormat_ETC2RGB8A1UnormSrgb = 61"
| "WGPUTextureFormat_value WGPUTextureFormat_ETC2RGBA8Unorm = 62"
| "WGPUTextureFormat_value WGPUTextureFormat_ETC2RGBA8UnormSrgb = 63"
| "WGPUTextureFormat_value WGPUTextureFormat_EACR11Unorm = 64"
| "WGPUTextureFormat_value WGPUTextureFormat_EACR11Snorm = 65"
| "WGPUTextureFormat_value WGPUTextureFormat_EACRG11Unorm = 66"
| "WGPUTextureFormat_value WGPUTextureFormat_EACRG11Snorm = 67"
| "WGPUTextureFormat_value WGPUTextureFormat_ASTC4x4Unorm = 68"
| "WGPUTextureFormat_value WGPUTextureFormat_ASTC4x4UnormSrgb = 69"
| "WGPUTextureFormat_value WGPUTextureFormat_ASTC5x4Unorm = 70"
| "WGPUTextureFormat_value WGPUTextureFormat_ASTC5x4UnormSrgb = 71"
| "WGPUTextureFormat_value WGPUTextureFormat_ASTC5x5Unorm = 72"
| "WGPUTextureFormat_value WGPUTextureFormat_ASTC5x5UnormSrgb = 73"
| "WGPUTextureFormat_value WGPUTextureFormat_ASTC6x5Unorm = 74"
| "WGPUTextureFormat_value WGPUTextureFormat_ASTC6x5UnormSrgb = 75"
| "WGPUTextureFormat_value WGPUTextureFormat_ASTC6x6Unorm = 76"
| "WGPUTextureFormat_value WGPUTextureFormat_ASTC6x6UnormSrgb = 77"
| "WGPUTextureFormat_value WGPUTextureFormat_ASTC8x5Unorm = 78"
| "WGPUTextureFormat_value WGPUTextureFormat_ASTC8x5UnormSrgb = 79"
| "WGPUTextureFormat_value WGPUTextureFormat_ASTC8x6Unorm = 80"
| "WGPUTextureFormat_value WGPUTextureFormat_ASTC8x6UnormSrgb = 81"
| "WGPUTextureFormat_value WGPUTextureFormat_ASTC8x8Unorm = 82"
| "WGPUTextureFormat_value WGPUTextureFormat_ASTC8x8UnormSrgb = 83"
| "WGPUTextureFormat_value WGPUTextureFormat_ASTC10x5Unorm = 84"
| "WGPUTextureFormat_value WGPUTextureFormat_ASTC10x5UnormSrgb = 85"
| "WGPUTextureFormat_value WGPUTextureFormat_ASTC10x6Unorm = 86"
| "WGPUTextureFormat_value WGPUTextureFormat_ASTC10x6UnormSrgb = 87"
| "WGPUTextureFormat_value WGPUTextureFormat_ASTC10x8Unorm = 88"
| "WGPUTextureFormat_value WGPUTextureFormat_ASTC10x8UnormSrgb = 89"
| "WGPUTextureFormat_value WGPUTextureFormat_ASTC10x10Unorm = 90"
| "WGPUTextureFormat_value WGPUTextureFormat_ASTC10x10UnormSrgb = 91"
| "WGPUTextureFormat_value WGPUTextureFormat_ASTC12x10Unorm = 92"
| "WGPUTextureFormat_value WGPUTextureFormat_ASTC12x10UnormSrgb = 93"
| "WGPUTextureFormat_value WGPUTextureFormat_ASTC12x12Unorm = 94"
| "WGPUTextureFormat_value WGPUTextureFormat_ASTC12x12UnormSrgb = 95"
| "WGPUTextureFormat_value WGPUTextureFormat_R16Unorm = 96"
| "WGPUTextureFormat_value WGPUTextureFormat_RG16Unorm = 97"
| "WGPUTextureFormat_value WGPUTextureFormat_RGBA16Unorm = 98"
| "WGPUTextureFormat_value WGPUTextureFormat_R16Snorm = 99"
| "WGPUTextureFormat_value WGPUTextureFormat_RG16Snorm = 100"
| "WGPUTextureFormat_value WGPUTextureFormat_RGBA16Snorm = 101"
| "WGPUTextureFormat_value WGPUTextureFormat_R8BG8Biplanar420Unorm = 102"
| "WGPUTextureFormat_value WGPUTextureFormat_R10X6BG10X6Biplanar420Unorm = 103"
| "WGPUTextureFormat_value WGPUTextureFormat_R8BG8A8Triplanar420Unorm = 104"
| "WGPUTextureFormat_value WGPUTextureFormat_Force32 = 2147483647"

definition WGPUTextureFormat_list :: "WGPUTextureFormat list" where
  "WGPUTextureFormat_list = [WGPUTextureFormat_Undefined, WGPUTextureFormat_R8Unorm, WGPUTextureFormat_R8Snorm, WGPUTextureFormat_R8Uint, WGPUTextureFormat_R8Sint, WGPUTextureFormat_R16Uint, WGPUTextureFormat_R16Sint, WGPUTextureFormat_R16Float, WGPUTextureFormat_RG8Unorm, WGPUTextureFormat_RG8Snorm, WGPUTextureFormat_RG8Uint, WGPUTextureFormat_RG8Sint, WGPUTextureFormat_R32Float, WGPUTextureFormat_R32Uint, WGPUTextureFormat_R32Sint, WGPUTextureFormat_RG16Uint, WGPUTextureFormat_RG16Sint, WGPUTextureFormat_RG16Float, WGPUTextureFormat_RGBA8Unorm, WGPUTextureFormat_RGBA8UnormSrgb, WGPUTextureFormat_RGBA8Snorm, WGPUTextureFormat_RGBA8Uint, WGPUTextureFormat_RGBA8Sint, WGPUTextureFormat_BGRA8Unorm, WGPUTextureFormat_BGRA8UnormSrgb, WGPUTextureFormat_RGB10A2Uint, WGPUTextureFormat_RGB10A2Unorm, WGPUTextureFormat_RG11B10Ufloat, WGPUTextureFormat_RGB9E5Ufloat, WGPUTextureFormat_RG32Float, WGPUTextureFormat_RG32Uint, WGPUTextureFormat_RG32Sint, WGPUTextureFormat_RGBA16Uint, WGPUTextureFormat_RGBA16Sint, WGPUTextureFormat_RGBA16Float, WGPUTextureFormat_RGBA32Float, WGPUTextureFormat_RGBA32Uint, WGPUTextureFormat_RGBA32Sint, WGPUTextureFormat_Stencil8, WGPUTextureFormat_Depth16Unorm, WGPUTextureFormat_Depth24Plus, WGPUTextureFormat_Depth24PlusStencil8, WGPUTextureFormat_Depth32Float, WGPUTextureFormat_Depth32FloatStencil8, WGPUTextureFormat_BC1RGBAUnorm, WGPUTextureFormat_BC1RGBAUnormSrgb, WGPUTextureFormat_BC2RGBAUnorm, WGPUTextureFormat_BC2RGBAUnormSrgb, WGPUTextureFormat_BC3RGBAUnorm, WGPUTextureFormat_BC3RGBAUnormSrgb, WGPUTextureFormat_BC4RUnorm, WGPUTextureFormat_BC4RSnorm, WGPUTextureFormat_BC5RGUnorm, WGPUTextureFormat_BC5RGSnorm, WGPUTextureFormat_BC6HRGBUfloat, WGPUTextureFormat_BC6HRGBFloat, WGPUTextureFormat_BC7RGBAUnorm, WGPUTextureFormat_BC7RGBAUnormSrgb, WGPUTextureFormat_ETC2RGB8Unorm, WGPUTextureFormat_ETC2RGB8UnormSrgb, WGPUTextureFormat_ETC2RGB8A1Unorm, WGPUTextureFormat_ETC2RGB8A1UnormSrgb, WGPUTextureFormat_ETC2RGBA8Unorm, WGPUTextureFormat_ETC2RGBA8UnormSrgb, WGPUTextureFormat_EACR11Unorm, WGPUTextureFormat_EACR11Snorm, WGPUTextureFormat_EACRG11Unorm, WGPUTextureFormat_EACRG11Snorm, WGPUTextureFormat_ASTC4x4Unorm, WGPUTextureFormat_ASTC4x4UnormSrgb, WGPUTextureFormat_ASTC5x4Unorm, WGPUTextureFormat_ASTC5x4UnormSrgb, WGPUTextureFormat_ASTC5x5Unorm, WGPUTextureFormat_ASTC5x5UnormSrgb, WGPUTextureFormat_ASTC6x5Unorm, WGPUTextureFormat_ASTC6x5UnormSrgb, WGPUTextureFormat_ASTC6x6Unorm, WGPUTextureFormat_ASTC6x6UnormSrgb, WGPUTextureFormat_ASTC8x5Unorm, WGPUTextureFormat_ASTC8x5UnormSrgb, WGPUTextureFormat_ASTC8x6Unorm, WGPUTextureFormat_ASTC8x6UnormSrgb, WGPUTextureFormat_ASTC8x8Unorm, WGPUTextureFormat_ASTC8x8UnormSrgb, WGPUTextureFormat_ASTC10x5Unorm, WGPUTextureFormat_ASTC10x5UnormSrgb, WGPUTextureFormat_ASTC10x6Unorm, WGPUTextureFormat_ASTC10x6UnormSrgb, WGPUTextureFormat_ASTC10x8Unorm, WGPUTextureFormat_ASTC10x8UnormSrgb, WGPUTextureFormat_ASTC10x10Unorm, WGPUTextureFormat_ASTC10x10UnormSrgb, WGPUTextureFormat_ASTC12x10Unorm, WGPUTextureFormat_ASTC12x10UnormSrgb, WGPUTextureFormat_ASTC12x12Unorm, WGPUTextureFormat_ASTC12x12UnormSrgb, WGPUTextureFormat_R16Unorm, WGPUTextureFormat_RG16Unorm, WGPUTextureFormat_RGBA16Unorm, WGPUTextureFormat_R16Snorm, WGPUTextureFormat_RG16Snorm, WGPUTextureFormat_RGBA16Snorm, WGPUTextureFormat_R8BG8Biplanar420Unorm, WGPUTextureFormat_R10X6BG10X6Biplanar420Unorm, WGPUTextureFormat_R8BG8A8Triplanar420Unorm, WGPUTextureFormat_Force32]"

interpretation WGPUTextureFormat_enum: enumeration WGPUTextureFormat_value WGPUTextureFormat_list
proof unfold_locales
  fix e :: WGPUTextureFormat
  show "e \<in> set WGPUTextureFormat_list" by (cases e) (simp_all add: WGPUTextureFormat_list_def)
qed (simp_all add: WGPUTextureFormat_list_def)

datatype (plugins only: size) WGPUVertexFormat =
    WGPUVertexFormat_Undefined
  | WGPUVertexFormat_Uint8x2
  | WGPUVertexFormat_Uint8x4
  | WGPUVertexFormat_Sint8x2
  | WGPUVertexFormat_Sint8x4
  | WGPUVertexFormat_Unorm8x2
  | WGPUVertexFormat_Unorm8x4
  | WGPUVertexFormat_Snorm8x2
  | WGPUVertexFormat_Snorm8x4
  | WGPUVertexFormat_Uint16x2
  | WGPUVertexFormat_Uint16x4
  | WGPUVertexFormat_Sint16x2
  | WGPUVertexFormat_Sint16x4
  | WGPUVertexFormat_Unorm16x2
  | WGPUVertexFormat_Unorm16x4
  | WGPUVertexFormat_Snorm16x2
  | WGPUVertexFormat_Snorm16x4
  | WGPUVertexFormat_Float16x2
  | WGPUVertexFormat_Float16x4
  | WGPUVertexFormat_Float32
  | WGPUVertexFormat_Float32x2
  | WGPUVertexFormat_Float32x3
  | WGPUVertexFormat_Float32x4
  | WGPUVertexFormat_Uint32
  | WGPUVertexFormat_Uint32x2
  | WGPUVertexFormat_Uint32x3
  | WGPUVertexFormat_Uint32x4
  | WGPUVertexFormat_Sint32
  | WGPUVertexFormat_Sint32x2
  | WGPUVertexFormat_Sint32x3
  | WGPUVertexFormat_Sint32x4
  | WGPUVertexFormat_Unorm10_10_10_2
  | WGPUVertexFormat_Force32

primrec WGPUVertexFormat_value :: "WGPUVertexFormat \<Rightarrow> int" where
  "WGPUVertexFormat_value WGPUVertexFormat_Undefined = 0"
| "WGPUVertexFormat_value WGPUVertexFormat_Uint8x2 = 1"
| "WGPUVertexFormat_value WGPUVertexFormat_Uint8x4 = 2"
| "WGPUVertexFormat_value WGPUVertexFormat_Sint8x2 = 3"
| "WGPUVertexFormat_value WGPUVertexFormat_Sint8x4 = 4"
| "WGPUVertexFormat_value WGPUVertexFormat_Unorm8x2 = 5"
| "WGPUVertexFormat_value WGPUVertexFormat_Unorm8x4 = 6"
| "WGPUVertexFormat_value WGPUVertexFormat_Snorm8x2 = 7"
| "WGPUVertexFormat_value WGPUVertexFormat_Snorm8x4 = 8"
| "WGPUVertexFormat_value WGPUVertexFormat_Uint16x2 = 9"
| "WGPUVertexFormat_value WGPUVertexFormat_Uint16x4 = 10"
| "WGPUVertexFormat_value WGPUVertexFormat_Sint16x2 = 11"
| "WGPUVertexFormat_value WGPUVertexFormat_Sint16x4 = 12"
| "WGPUVertexFormat_value WGPUVertexFormat_Unorm16x2 = 13"
| "WGPUVertexFormat_value WGPUVertexFormat_Unorm16x4 = 14"
| "WGPUVertexFormat_value WGPUVertexFormat_Snorm16x2 = 15"
| "WGPUVertexFormat_value WGPUVertexFormat_Snorm16x4 = 16"
| "WGPUVertexFormat_value WGPUVertexFormat_Float16x2 = 17"
| "WGPUVertexFormat_value WGPUVertexFormat_Float16x4 = 18"
| "WGPUVertexFormat_value WGPUVertexFormat_Float32 = 19"
| "WGPUVertexFormat_value WGPUVertexFormat_Float32x2 = 20"
| "WGPUVertexFormat_value WGPUVertexFormat_Float32x3 = 21"
| "WGPUVertexFormat_value WGPUVertexFormat_Float32x4 = 22"
| "WGPUVertexFormat_value WGPUVertexFormat_Uint32 = 23"
| "WGPUVertexFormat_value WGPUVertexFormat_Uint32x2 = 24"
| "WGPUVertexFormat_value WGPUVertexFormat_Uint32x3 = 25"
| "WGPUVertexFormat_value WGPUVertexFormat_Uint32x4 = 26"
| "WGPUVertexFormat_value WGPUVertexFormat_Sint32 = 27"
| "WGPUVertexFormat_value WGPUVertexFormat_Sint32x2 = 28"
| "WGPUVertexFormat_value WGPUVertexFormat_Sint32x3 = 29"
| "WGPUVertexFormat_value WGPUVertexFormat_Sint32x4 = 30"
| "WGPUVertexFormat_value WGPUVertexFormat_Unorm10_10_10_2 = 31"
| "WGPUVertexFormat_value WGPUVertexFormat_Force32 = 2147483647"

definition WGPUVertexFormat_list :: "WGPUVertexFormat list" where
  "WGPUVertexFormat_list = [WGPUVertexFormat_Undefined, WGPUVertexFormat_Uint8x2, WGPUVertexFormat_Uint8x4, WGPUVertexFormat_Sint8x2, WGPUVertexFormat_Sint8x4, WGPUVertexFormat_Unorm8x2, WGPUVertexFormat_Unorm8x4, WGPUVertexFormat_Snorm8x2, WGPUVertexFormat_Snorm8x4, WGPUVertexFormat_Uint16x2, WGPUVertexFormat_Uint16x4, WGPUVertexFormat_Sint16x2, WGPUVertexFormat_Sint16x4, WGPUVertexFormat_Unorm16x2, WGPUVertexFormat_Unorm16x4, WGPUVertexFormat_Snorm16x2, WGPUVertexFormat_Snorm16x4, WGPUVertexFormat_Float16x2, WGPUVertexFormat_Float16x4, WGPUVertexFormat_Float32, WGPUVertexFormat_Float32x2, WGPUVertexFormat_Float32x3, WGPUVertexFormat_Float32x4, WGPUVertexFormat_Uint32, WGPUVertexFormat_Uint32x2, WGPUVertexFormat_Uint32x3, WGPUVertexFormat_Uint32x4, WGPUVertexFormat_Sint32, WGPUVertexFormat_Sint32x2, WGPUVertexFormat_Sint32x3, WGPUVertexFormat_Sint32x4, WGPUVertexFormat_Unorm10_10_10_2, WGPUVertexFormat_Force32]"

interpretation WGPUVertexFormat_enum: enumeration WGPUVertexFormat_value WGPUVertexFormat_list
proof unfold_locales
  fix e :: WGPUVertexFormat
  show "e \<in> set WGPUVertexFormat_list" by (cases e) (simp_all add: WGPUVertexFormat_list_def)
qed (simp_all add: WGPUVertexFormat_list_def)

end
