(* ===== verification/Api_Structs.thy ===== *)
theory Api_Structs
  imports Proc_Values Api_Large_Enums
begin

text \<open>
  The structures of \<open>include/webgpu.h\<close>: their members with the types, in the order of the header, and how
  a C compiler lays them out in memory. An application fills such a structure and hands its
  address to a function of the library, which is a shared object: both sides must find the members at
  the same places. The structures are declared with the names that C has for them, so that a structure
  that contains another one by value comes after it, as C demands.
\<close>

section \<open>Layout\<close>

text \<open>The type of a member: a scalar or pointer type, or a structure by value.\<close>

datatype (plugins only: code size) mtype = Plain ctype | Inline "(string \<times> mtype) list"

type_synonym members = "(string \<times> mtype) list"

text \<open>
  Sizes on the 64-bit Linux platforms the program runs on: pointers, \<open>size_t\<close> and \<open>double\<close> have 8
  bytes, \<open>int\<close>, \<open>float\<close> and enumerations 4; a scalar is aligned to its size. \<open>void\<close> and the structures that
  are known by name only are not types of members (\<open>complete\<close>).
\<close>

fun plain_size :: "ctype \<Rightarrow> nat" where
  "plain_size (Obj k) = 8"
| "plain_size Uint16 = 2"
| "plain_size Uint32 = 4"
| "plain_size Uint64 = 8"
| "plain_size Size = 8"
| "plain_size Int32 = 4"
| "plain_size Float = 4"
| "plain_size Double = 8"
| "plain_size Bool = 4"
| "plain_size (Enum t) = 4"
| "plain_size (Flags t) = 4"
| "plain_size (Pointer t) = 8"
| "plain_size (Callback t) = 8"
| "plain_size Void = 0"
| "plain_size (Struct t) = 0"

definition align_up :: "nat \<Rightarrow> nat \<Rightarrow> nat" where
  "align_up off a = (off + a - 1) div a * a"

text \<open>Members as name, size and alignment are placed one after the other, with padding where needed.\<close>

fun place :: "nat \<Rightarrow> (string \<times> nat \<times> nat) list \<Rightarrow> (string \<times> nat \<times> nat) list \<times> nat" where
  "place off [] = ([], off)"
| "place off ((n, s, a) # ks) =
     (let p = align_up off a in case place (p + s) ks of (r, e) \<Rightarrow> ((n, p, s) # r, e))"

definition alignment :: "(string \<times> nat \<times> nat) list \<Rightarrow> nat" where
  "alignment ks = foldr (\<lambda>(n, s, a). max a) ks 1"

primrec size_align :: "mtype \<Rightarrow> nat \<times> nat" where
  "size_align (Plain t) = (plain_size t, max 1 (plain_size t))"
| "size_align (Inline ms) =
     (let ks = map (map_prod id size_align) ms; a = alignment ks in (align_up (snd (place 0 ks)) a, a))"

definition sizeof :: "members \<Rightarrow> nat" where
  "sizeof ms = fst (size_align (Inline ms))"

definition alignof :: "members \<Rightarrow> nat" where
  "alignof ms = snd (size_align (Inline ms))"

text \<open>Name, offset and size of each member.\<close>

definition layout :: "members \<Rightarrow> (string \<times> nat \<times> nat) list" where
  "layout ms = fst (place 0 (map (map_prod id size_align) ms))"

primrec complete :: "mtype \<Rightarrow> bool" where
  "complete (Plain t) \<longleftrightarrow> 0 < plain_size t"
| "complete (Inline ms) \<longleftrightarrow> ms \<noteq> [] \<and> list_all (\<lambda>(n, c). c) (map (map_prod id complete) ms)"

lemma align_up:
  assumes "0 < a"
  shows "off \<le> align_up off a" "a dvd align_up off a" "align_up off a < off + a"
proof -
  have "(off + a - 1) mod a < a" using assms by simp
  moreover have "align_up off a + (off + a - 1) mod a = off + a - 1"
    unfolding align_up_def by (rule div_mult_mod_eq)
  ultimately show "off \<le> align_up off a" "align_up off a < off + a" using assms by linarith+
  show "a dvd align_up off a" by (simp add: align_up_def)
qed

text \<open>What placing promises, whatever the members.\<close>

lemma place_sound:
  assumes "\<forall>(n, s, a) \<in> set ks. 0 < a" "place off ks = (fs, e)"
  shows "map fst fs = map fst ks \<and> map (snd \<circ> snd) fs = map (fst \<circ> snd) ks \<and> off \<le> e
    \<and> list_all2 (\<lambda>(n, p, s) (n', s', a). a dvd p) fs ks
    \<and> sorted_wrt (\<lambda>(n, p, s) (n', p', s'). p + s \<le> p') fs
    \<and> (\<forall>(n, p, s) \<in> set fs. off \<le> p \<and> p + s \<le> e)"
  using assms
proof (induction off ks arbitrary: fs e rule: place.induct)
  case (2 off n s a ks)
  let ?p = "align_up off a"
  obtain fs' e' where r: "place (?p + s) ks = (fs', e')" by fastforce
  then have fs: "fs = (n, ?p, s) # fs'" "e = e'" using 2(3) by (simp_all add: Let_def)
  have a: "0 < a" using 2(2) by simp
  have "\<forall>(n, s, a) \<in> set ks. 0 < a" using 2(2) by simp
  note ih = 2(1) [OF refl this r]
  have p: "off \<le> ?p" "a dvd ?p" using align_up [OF a] by blast+
  have "\<forall>(n', p', s') \<in> set fs'. ?p + s \<le> p' \<and> p' + s' \<le> e'" "?p + s \<le> e'" using ih by blast+
  then have "\<forall>(n', p', s') \<in> set fs'. off \<le> p' \<and> p' + s' \<le> e'" "\<forall>(n', p', s') \<in> set fs'. ?p + s \<le> p'"
      "off \<le> e'" "?p + s \<le> e'"
    using p(1) by (auto simp: case_prod_unfold)
  with ih p show ?case unfolding fs by simp
qed simp

lemma size_align_positive: "0 < snd (size_align t)"
proof -
  have "0 < alignment ks" for ks by (induction ks) (auto simp: alignment_def)
  then show ?thesis by (cases t) (simp_all add: Let_def)
qed

text \<open>Every alignment is 1, 2, 4 or 8, so the alignment of a structure is a multiple of those of its members.\<close>

lemma alignment_power: "\<forall>(n, s, a) \<in> set ks. a \<in> {1, 2, 4, 8} \<Longrightarrow> alignment ks \<in> {1, 2, 4, 8}"
  by (induction ks) (auto simp: alignment_def)

lemma size_align_power: "snd (size_align t) \<in> {1, 2, 4, 8}"
proof (induction t)
  case (Plain t)
  then show ?case by (cases t) simp_all
next
  case (Inline ms)
  have "snd (size_align (snd x)) \<in> {1, 2, 4, 8}" if "x \<in> set ms" for x
    using Inline [OF that, of "snd x"] by (cases x) simp
  then have "\<forall>(n, s, a) \<in> set (map (map_prod id size_align) ms). a \<in> {1, 2, 4, 8}"
    by (auto simp: map_prod_def case_prod_unfold simp del: insert_iff)
  from alignment_power [OF this] show ?case by (simp add: Let_def)
qed

lemma power_dvd: "a \<in> {1, 2, 4, 8} \<Longrightarrow> b \<in> {1, 2, 4, 8} \<Longrightarrow> a \<le> b \<Longrightarrow> a dvd (b :: nat)"
  by auto

lemma alignment_ge: "(n, s, a) \<in> set ks \<Longrightarrow> a \<le> alignment ks"
  by (induction ks) (auto simp: alignment_def le_max_iff_disj)

lemma member_align:
  assumes "(n, t) \<in> set ms"
  shows "snd (size_align t) dvd alignof ms"
proof -
  have "(n, fst (size_align t), snd (size_align t)) \<in> set (map (map_prod id size_align) ms)"
    using assms by force
  from alignment_ge [OF this] have "snd (size_align t) \<le> alignof ms" by (simp add: alignof_def Let_def)
  with size_align_power [of t] size_align_power [of "Inline ms"] show ?thesis
    unfolding alignof_def by (blast intro: power_dvd)
qed

lemma layout_sound:
  "map fst (layout ms) = map fst ms"
  "map (snd \<circ> snd) (layout ms) = map (\<lambda>(n, t). fst (size_align t)) ms"
  "list_all2 (\<lambda>(n, p, s) (n', t). snd (size_align t) dvd p) (layout ms) ms"
  "sorted_wrt (\<lambda>(n, p, s) (n', p', s'). p + s \<le> p') (layout ms)"
  "\<forall>(n, p, s) \<in> set (layout ms). p + s \<le> sizeof ms"
  "alignof ms dvd sizeof ms"
proof -
  let ?ks = "map (map_prod id size_align) ms"
  obtain fs e where p: "place 0 ?ks = (fs, e)" by fastforce
  have pos: "\<forall>(n, s, a) \<in> set ?ks. 0 < a"
    using size_align_positive by (auto simp: map_prod_def split: prod.splits) (metis snd_conv)
  note sound = place_sound [OF pos p]
  have l: "layout ms = fs" by (simp add: layout_def p)
  have al: "0 < alignof ms" unfolding alignof_def by (rule size_align_positive)
  have sz: "sizeof ms = align_up e (alignof ms)" by (simp add: sizeof_def alignof_def p Let_def)
  show "map fst (layout ms) = map fst ms" "map (snd \<circ> snd) (layout ms) = map (\<lambda>(n, t). fst (size_align t)) ms"
    using sound unfolding l by (simp_all add: case_prod_unfold)
  show "list_all2 (\<lambda>(n, p, s) (n', t). snd (size_align t) dvd p) (layout ms) ms"
    using sound unfolding l by (auto simp: list_all2_conv_all_nth case_prod_unfold)
  show "sorted_wrt (\<lambda>(n, p, s) (n', p', s'). p + s \<le> p') (layout ms)"
    using sound unfolding l by blast
  show "\<forall>(n, p, s) \<in> set (layout ms). p + s \<le> sizeof ms"
    using sound align_up(1) [OF al, of e] unfolding l sz by fastforce
  show "alignof ms dvd sizeof ms" unfolding sz by (rule align_up(2) [OF al])
qed

section \<open>The structures of the header\<close>

definition struct_WGPUChainedStruct :: members where
  "struct_WGPUChainedStruct =
    [(''next'', Plain (Pointer ''WGPUChainedStruct const'')),
     (''sType'', Plain (Enum ''WGPUSType''))]"

definition struct_WGPUChainedStructOut :: members where
  "struct_WGPUChainedStructOut =
    [(''next'', Plain (Pointer ''WGPUChainedStructOut'')),
     (''sType'', Plain (Enum ''WGPUSType''))]"

definition struct_WGPUAdapterProperties :: members where
  "struct_WGPUAdapterProperties =
    [(''nextInChain'', Plain (Pointer ''WGPUChainedStructOut'')),
     (''vendorID'', Plain Uint32),
     (''vendorName'', Plain (Pointer ''char const'')),
     (''architecture'', Plain (Pointer ''char const'')),
     (''deviceID'', Plain Uint32),
     (''name'', Plain (Pointer ''char const'')),
     (''driverDescription'', Plain (Pointer ''char const'')),
     (''adapterType'', Plain (Enum ''WGPUAdapterType'')),
     (''backendType'', Plain (Enum ''WGPUBackendType'')),
     (''compatibilityMode'', Plain Bool)]"

definition struct_WGPUAdapterPropertiesD3D :: members where
  "struct_WGPUAdapterPropertiesD3D =
    [(''chain'', Inline struct_WGPUChainedStructOut),
     (''shaderModel'', Plain Uint32)]"

definition struct_WGPUAdapterPropertiesVk :: members where
  "struct_WGPUAdapterPropertiesVk =
    [(''chain'', Inline struct_WGPUChainedStructOut),
     (''driverVersion'', Plain Uint32)]"

definition struct_WGPUBindGroupEntry :: members where
  "struct_WGPUBindGroupEntry =
    [(''nextInChain'', Plain (Pointer ''WGPUChainedStruct const'')),
     (''binding'', Plain Uint32),
     (''buffer'', Plain (Obj WGPUBuffer)),
     (''offset'', Plain Uint64),
     (''size'', Plain Uint64),
     (''sampler'', Plain (Obj WGPUSampler)),
     (''textureView'', Plain (Obj WGPUTextureView))]"

definition struct_WGPUBlendComponent :: members where
  "struct_WGPUBlendComponent =
    [(''operation'', Plain (Enum ''WGPUBlendOperation'')),
     (''srcFactor'', Plain (Enum ''WGPUBlendFactor'')),
     (''dstFactor'', Plain (Enum ''WGPUBlendFactor''))]"

definition struct_WGPUBufferBindingLayout :: members where
  "struct_WGPUBufferBindingLayout =
    [(''nextInChain'', Plain (Pointer ''WGPUChainedStruct const'')),
     (''type'', Plain (Enum ''WGPUBufferBindingType'')),
     (''hasDynamicOffset'', Plain Bool),
     (''minBindingSize'', Plain Uint64)]"

definition struct_WGPUBufferDescriptor :: members where
  "struct_WGPUBufferDescriptor =
    [(''nextInChain'', Plain (Pointer ''WGPUChainedStruct const'')),
     (''label'', Plain (Pointer ''char const'')),
     (''usage'', Plain (Flags ''WGPUBufferUsageFlags'')),
     (''size'', Plain Uint64),
     (''mappedAtCreation'', Plain Bool)]"

definition struct_WGPUBufferHostMappedPointer :: members where
  "struct_WGPUBufferHostMappedPointer =
    [(''chain'', Inline struct_WGPUChainedStruct),
     (''pointer'', Plain (Pointer ''void'')),
     (''disposeCallback'', Plain (Callback ''WGPUCallback'')),
     (''userdata'', Plain (Pointer ''void''))]"

definition struct_WGPUBufferMapCallbackInfo :: members where
  "struct_WGPUBufferMapCallbackInfo =
    [(''nextInChain'', Plain (Pointer ''WGPUChainedStruct const'')),
     (''mode'', Plain (Enum ''WGPUCallbackMode'')),
     (''callback'', Plain (Callback ''WGPUBufferMapCallback'')),
     (''userdata'', Plain (Pointer ''void''))]"

definition struct_WGPUColor :: members where
  "struct_WGPUColor =
    [(''r'', Plain Double),
     (''g'', Plain Double),
     (''b'', Plain Double),
     (''a'', Plain Double)]"

definition struct_WGPUCommandBufferDescriptor :: members where
  "struct_WGPUCommandBufferDescriptor =
    [(''nextInChain'', Plain (Pointer ''WGPUChainedStruct const'')),
     (''label'', Plain (Pointer ''char const''))]"

definition struct_WGPUCommandEncoderDescriptor :: members where
  "struct_WGPUCommandEncoderDescriptor =
    [(''nextInChain'', Plain (Pointer ''WGPUChainedStruct const'')),
     (''label'', Plain (Pointer ''char const''))]"

definition struct_WGPUCompilationInfoCallbackInfo :: members where
  "struct_WGPUCompilationInfoCallbackInfo =
    [(''nextInChain'', Plain (Pointer ''WGPUChainedStruct const'')),
     (''mode'', Plain (Enum ''WGPUCallbackMode'')),
     (''callback'', Plain (Callback ''WGPUCompilationInfoCallback'')),
     (''userdata'', Plain (Pointer ''void''))]"

definition struct_WGPUCompilationMessage :: members where
  "struct_WGPUCompilationMessage =
    [(''nextInChain'', Plain (Pointer ''WGPUChainedStruct const'')),
     (''message'', Plain (Pointer ''char const'')),
     (''type'', Plain (Enum ''WGPUCompilationMessageType'')),
     (''lineNum'', Plain Uint64),
     (''linePos'', Plain Uint64),
     (''offset'', Plain Uint64),
     (''length'', Plain Uint64),
     (''utf16LinePos'', Plain Uint64),
     (''utf16Offset'', Plain Uint64),
     (''utf16Length'', Plain Uint64)]"

definition struct_WGPUComputePassTimestampWrites :: members where
  "struct_WGPUComputePassTimestampWrites =
    [(''querySet'', Plain (Obj WGPUQuerySet)),
     (''beginningOfPassWriteIndex'', Plain Uint32),
     (''endOfPassWriteIndex'', Plain Uint32)]"

definition struct_WGPUConstantEntry :: members where
  "struct_WGPUConstantEntry =
    [(''nextInChain'', Plain (Pointer ''WGPUChainedStruct const'')),
     (''key'', Plain (Pointer ''char const'')),
     (''value'', Plain Double)]"

definition struct_WGPUCopyTextureForBrowserOptions :: members where
  "struct_WGPUCopyTextureForBrowserOptions =
    [(''nextInChain'', Plain (Pointer ''WGPUChainedStruct const'')),
     (''flipY'', Plain Bool),
     (''needsColorSpaceConversion'', Plain Bool),
     (''srcAlphaMode'', Plain (Enum ''WGPUAlphaMode'')),
     (''srcTransferFunctionParameters'', Plain (Pointer ''float const'')),
     (''conversionMatrix'', Plain (Pointer ''float const'')),
     (''dstTransferFunctionParameters'', Plain (Pointer ''float const'')),
     (''dstAlphaMode'', Plain (Enum ''WGPUAlphaMode'')),
     (''internalUsage'', Plain Bool)]"

definition struct_WGPUCreateComputePipelineAsyncCallbackInfo :: members where
  "struct_WGPUCreateComputePipelineAsyncCallbackInfo =
    [(''nextInChain'', Plain (Pointer ''WGPUChainedStruct const'')),
     (''mode'', Plain (Enum ''WGPUCallbackMode'')),
     (''callback'', Plain (Callback ''WGPUCreateComputePipelineAsyncCallback'')),
     (''userdata'', Plain (Pointer ''void''))]"

definition struct_WGPUCreateRenderPipelineAsyncCallbackInfo :: members where
  "struct_WGPUCreateRenderPipelineAsyncCallbackInfo =
    [(''nextInChain'', Plain (Pointer ''WGPUChainedStruct const'')),
     (''mode'', Plain (Enum ''WGPUCallbackMode'')),
     (''callback'', Plain (Callback ''WGPUCreateRenderPipelineAsyncCallback'')),
     (''userdata'', Plain (Pointer ''void''))]"

definition struct_WGPUDawnWGSLBlocklist :: members where
  "struct_WGPUDawnWGSLBlocklist =
    [(''chain'', Inline struct_WGPUChainedStruct),
     (''blocklistedFeatureCount'', Plain Size),
     (''blocklistedFeatures'', Plain (Pointer ''const char* const''))]"

definition struct_WGPUDawnAdapterPropertiesPowerPreference :: members where
  "struct_WGPUDawnAdapterPropertiesPowerPreference =
    [(''chain'', Inline struct_WGPUChainedStructOut),
     (''powerPreference'', Plain (Enum ''WGPUPowerPreference''))]"

definition struct_WGPUDawnBufferDescriptorErrorInfoFromWireClient :: members where
  "struct_WGPUDawnBufferDescriptorErrorInfoFromWireClient =
    [(''chain'', Inline struct_WGPUChainedStruct),
     (''outOfMemory'', Plain Bool)]"

definition struct_WGPUDawnCacheDeviceDescriptor :: members where
  "struct_WGPUDawnCacheDeviceDescriptor =
    [(''chain'', Inline struct_WGPUChainedStruct),
     (''isolationKey'', Plain (Pointer ''char const'')),
     (''loadDataFunction'', Plain (Callback ''WGPUDawnLoadCacheDataFunction'')),
     (''storeDataFunction'', Plain (Callback ''WGPUDawnStoreCacheDataFunction'')),
     (''functionUserdata'', Plain (Pointer ''void''))]"

definition struct_WGPUDawnComputePipelineFullSubgroups :: members where
  "struct_WGPUDawnComputePipelineFullSubgroups =
    [(''chain'', Inline struct_WGPUChainedStruct),
     (''requiresFullSubgroups'', Plain Bool)]"

definition struct_WGPUDawnEncoderInternalUsageDescriptor :: members where
  "struct_WGPUDawnEncoderInternalUsageDescriptor =
    [(''chain'', Inline struct_WGPUChainedStruct),
     (''useInternalUsages'', Plain Bool)]"

definition struct_WGPUDawnExperimentalSubgroupLimits :: members where
  "struct_WGPUDawnExperimentalSubgroupLimits =
    [(''chain'', Inline struct_WGPUChainedStructOut),
     (''minSubgroupSize'', Plain Uint32),
     (''maxSubgroupSize'', Plain Uint32)]"

definition struct_WGPUDawnMultisampleStateRenderToSingleSampled :: members where
  "struct_WGPUDawnMultisampleStateRenderToSingleSampled =
    [(''chain'', Inline struct_WGPUChainedStruct),
     (''enabled'', Plain Bool)]"

definition struct_WGPUDawnRenderPassColorAttachmentRenderToSingleSampled :: members where
  "struct_WGPUDawnRenderPassColorAttachmentRenderToSingleSampled =
    [(''chain'', Inline struct_WGPUChainedStruct),
     (''implicitSampleCount'', Plain Uint32)]"

definition struct_WGPUDawnShaderModuleSPIRVOptionsDescriptor :: members where
  "struct_WGPUDawnShaderModuleSPIRVOptionsDescriptor =
    [(''chain'', Inline struct_WGPUChainedStruct),
     (''allowNonUniformDerivatives'', Plain Bool)]"

definition struct_WGPUDawnTextureInternalUsageDescriptor :: members where
  "struct_WGPUDawnTextureInternalUsageDescriptor =
    [(''chain'', Inline struct_WGPUChainedStruct),
     (''internalUsage'', Plain (Flags ''WGPUTextureUsageFlags''))]"

definition struct_WGPUDawnTogglesDescriptor :: members where
  "struct_WGPUDawnTogglesDescriptor =
    [(''chain'', Inline struct_WGPUChainedStruct),
     (''enabledToggleCount'', Plain Size),
     (''enabledToggles'', Plain (Pointer ''const char* const'')),
     (''disabledToggleCount'', Plain Size),
     (''disabledToggles'', Plain (Pointer ''const char* const''))]"

definition struct_WGPUDawnWireWGSLControl :: members where
  "struct_WGPUDawnWireWGSLControl =
    [(''chain'', Inline struct_WGPUChainedStruct),
     (''enableExperimental'', Plain Bool),
     (''enableUnsafe'', Plain Bool),
     (''enableTesting'', Plain Bool)]"

definition struct_WGPUDepthStencilStateDepthWriteDefinedDawn :: members where
  "struct_WGPUDepthStencilStateDepthWriteDefinedDawn =
    [(''chain'', Inline struct_WGPUChainedStruct),
     (''depthWriteDefined'', Plain Bool)]"

definition struct_WGPUDrmFormatProperties :: members where
  "struct_WGPUDrmFormatProperties =
    [(''modifier'', Plain Uint64),
     (''modifierPlaneCount'', Plain Uint32)]"

definition struct_WGPUExtent2D :: members where
  "struct_WGPUExtent2D =
    [(''width'', Plain Uint32),
     (''height'', Plain Uint32)]"

definition struct_WGPUExtent3D :: members where
  "struct_WGPUExtent3D =
    [(''width'', Plain Uint32),
     (''height'', Plain Uint32),
     (''depthOrArrayLayers'', Plain Uint32)]"

definition struct_WGPUExternalTextureBindingEntry :: members where
  "struct_WGPUExternalTextureBindingEntry =
    [(''chain'', Inline struct_WGPUChainedStruct),
     (''externalTexture'', Plain (Obj WGPUExternalTexture))]"

definition struct_WGPUExternalTextureBindingLayout :: members where
  "struct_WGPUExternalTextureBindingLayout =
    [(''chain'', Inline struct_WGPUChainedStruct)]"

definition struct_WGPUFormatCapabilities :: members where
  "struct_WGPUFormatCapabilities =
    [(''nextInChain'', Plain (Pointer ''WGPUChainedStructOut''))]"

definition struct_WGPUFuture :: members where
  "struct_WGPUFuture =
    [(''id'', Plain Uint64)]"

definition struct_WGPUInstanceFeatures :: members where
  "struct_WGPUInstanceFeatures =
    [(''nextInChain'', Plain (Pointer ''WGPUChainedStruct const'')),
     (''timedWaitAnyEnable'', Plain Bool),
     (''timedWaitAnyMaxCount'', Plain Size)]"

definition struct_WGPULimits :: members where
  "struct_WGPULimits =
    [(''maxTextureDimension1D'', Plain Uint32),
     (''maxTextureDimension2D'', Plain Uint32),
     (''maxTextureDimension3D'', Plain Uint32),
     (''maxTextureArrayLayers'', Plain Uint32),
     (''maxBindGroups'', Plain Uint32),
     (''maxBindGroupsPlusVertexBuffers'', Plain Uint32),
     (''maxBindingsPerBindGroup'', Plain Uint32),
     (''maxDynamicUniformBuffersPerPipelineLayout'', Plain Uint32),
     (''maxDynamicStorageBuffersPerPipelineLayout'', Plain Uint32),
     (''maxSampledTexturesPerShaderStage'', Plain Uint32),
     (''maxSamplersPerShaderStage'', Plain Uint32),
     (''maxStorageBuffersPerShaderStage'', Plain Uint32),
     (''maxStorageTexturesPerShaderStage'', Plain Uint32),
     (''maxUniformBuffersPerShaderStage'', Plain Uint32),
     (''maxUniformBufferBindingSize'', Plain Uint64),
     (''maxStorageBufferBindingSize'', Plain Uint64),
     (''minUniformBufferOffsetAlignment'', Plain Uint32),
     (''minStorageBufferOffsetAlignment'', Plain Uint32),
     (''maxVertexBuffers'', Plain Uint32),
     (''maxBufferSize'', Plain Uint64),
     (''maxVertexAttributes'', Plain Uint32),
     (''maxVertexBufferArrayStride'', Plain Uint32),
     (''maxInterStageShaderComponents'', Plain Uint32),
     (''maxInterStageShaderVariables'', Plain Uint32),
     (''maxColorAttachments'', Plain Uint32),
     (''maxColorAttachmentBytesPerSample'', Plain Uint32),
     (''maxComputeWorkgroupStorageSize'', Plain Uint32),
     (''maxComputeInvocationsPerWorkgroup'', Plain Uint32),
     (''maxComputeWorkgroupSizeX'', Plain Uint32),
     (''maxComputeWorkgroupSizeY'', Plain Uint32),
     (''maxComputeWorkgroupSizeZ'', Plain Uint32),
     (''maxComputeWorkgroupsPerDimension'', Plain Uint32)]"

definition struct_WGPUMemoryHeapInfo :: members where
  "struct_WGPUMemoryHeapInfo =
    [(''properties'', Plain (Flags ''WGPUHeapPropertyFlags'')),
     (''size'', Plain Uint64)]"

definition struct_WGPUMultisampleState :: members where
  "struct_WGPUMultisampleState =
    [(''nextInChain'', Plain (Pointer ''WGPUChainedStruct const'')),
     (''count'', Plain Uint32),
     (''mask'', Plain Uint32),
     (''alphaToCoverageEnabled'', Plain Bool)]"

definition struct_WGPUOrigin2D :: members where
  "struct_WGPUOrigin2D =
    [(''x'', Plain Uint32),
     (''y'', Plain Uint32)]"

definition struct_WGPUOrigin3D :: members where
  "struct_WGPUOrigin3D =
    [(''x'', Plain Uint32),
     (''y'', Plain Uint32),
     (''z'', Plain Uint32)]"

definition struct_WGPUPipelineLayoutDescriptor :: members where
  "struct_WGPUPipelineLayoutDescriptor =
    [(''nextInChain'', Plain (Pointer ''WGPUChainedStruct const'')),
     (''label'', Plain (Pointer ''char const'')),
     (''bindGroupLayoutCount'', Plain Size),
     (''bindGroupLayouts'', Plain (Pointer ''WGPUBindGroupLayout const''))]"

definition struct_WGPUPipelineLayoutStorageAttachment :: members where
  "struct_WGPUPipelineLayoutStorageAttachment =
    [(''nextInChain'', Plain (Pointer ''WGPUChainedStruct const'')),
     (''offset'', Plain Uint64),
     (''format'', Plain (Enum ''WGPUTextureFormat''))]"

definition struct_WGPUPopErrorScopeCallbackInfo :: members where
  "struct_WGPUPopErrorScopeCallbackInfo =
    [(''nextInChain'', Plain (Pointer ''WGPUChainedStruct const'')),
     (''mode'', Plain (Enum ''WGPUCallbackMode'')),
     (''callback'', Plain (Callback ''WGPUPopErrorScopeCallback'')),
     (''oldCallback'', Plain (Callback ''WGPUErrorCallback'')),
     (''userdata'', Plain (Pointer ''void''))]"

definition struct_WGPUPrimitiveDepthClipControl :: members where
  "struct_WGPUPrimitiveDepthClipControl =
    [(''chain'', Inline struct_WGPUChainedStruct),
     (''unclippedDepth'', Plain Bool)]"

definition struct_WGPUPrimitiveState :: members where
  "struct_WGPUPrimitiveState =
    [(''nextInChain'', Plain (Pointer ''WGPUChainedStruct const'')),
     (''topology'', Plain (Enum ''WGPUPrimitiveTopology'')),
     (''stripIndexFormat'', Plain (Enum ''WGPUIndexFormat'')),
     (''frontFace'', Plain (Enum ''WGPUFrontFace'')),
     (''cullMode'', Plain (Enum ''WGPUCullMode''))]"

definition struct_WGPUQuerySetDescriptor :: members where
  "struct_WGPUQuerySetDescriptor =
    [(''nextInChain'', Plain (Pointer ''WGPUChainedStruct const'')),
     (''label'', Plain (Pointer ''char const'')),
     (''type'', Plain (Enum ''WGPUQueryType'')),
     (''count'', Plain Uint32)]"

definition struct_WGPUQueueDescriptor :: members where
  "struct_WGPUQueueDescriptor =
    [(''nextInChain'', Plain (Pointer ''WGPUChainedStruct const'')),
     (''label'', Plain (Pointer ''char const''))]"

definition struct_WGPUQueueWorkDoneCallbackInfo :: members where
  "struct_WGPUQueueWorkDoneCallbackInfo =
    [(''nextInChain'', Plain (Pointer ''WGPUChainedStruct const'')),
     (''mode'', Plain (Enum ''WGPUCallbackMode'')),
     (''callback'', Plain (Callback ''WGPUQueueWorkDoneCallback'')),
     (''userdata'', Plain (Pointer ''void''))]"

definition struct_WGPURenderBundleDescriptor :: members where
  "struct_WGPURenderBundleDescriptor =
    [(''nextInChain'', Plain (Pointer ''WGPUChainedStruct const'')),
     (''label'', Plain (Pointer ''char const''))]"

definition struct_WGPURenderBundleEncoderDescriptor :: members where
  "struct_WGPURenderBundleEncoderDescriptor =
    [(''nextInChain'', Plain (Pointer ''WGPUChainedStruct const'')),
     (''label'', Plain (Pointer ''char const'')),
     (''colorFormatCount'', Plain Size),
     (''colorFormats'', Plain (Pointer ''WGPUTextureFormat const'')),
     (''depthStencilFormat'', Plain (Enum ''WGPUTextureFormat'')),
     (''sampleCount'', Plain Uint32),
     (''depthReadOnly'', Plain Bool),
     (''stencilReadOnly'', Plain Bool)]"

definition struct_WGPURenderPassDepthStencilAttachment :: members where
  "struct_WGPURenderPassDepthStencilAttachment =
    [(''view'', Plain (Obj WGPUTextureView)),
     (''depthLoadOp'', Plain (Enum ''WGPULoadOp'')),
     (''depthStoreOp'', Plain (Enum ''WGPUStoreOp'')),
     (''depthClearValue'', Plain Float),
     (''depthReadOnly'', Plain Bool),
     (''stencilLoadOp'', Plain (Enum ''WGPULoadOp'')),
     (''stencilStoreOp'', Plain (Enum ''WGPUStoreOp'')),
     (''stencilClearValue'', Plain Uint32),
     (''stencilReadOnly'', Plain Bool)]"

definition struct_WGPURenderPassDescriptorMaxDrawCount :: members where
  "struct_WGPURenderPassDescriptorMaxDrawCount =
    [(''chain'', Inline struct_WGPUChainedStruct),
     (''maxDrawCount'', Plain Uint64)]"

definition struct_WGPURenderPassTimestampWrites :: members where
  "struct_WGPURenderPassTimestampWrites =
    [(''querySet'', Plain (Obj WGPUQuerySet)),
     (''beginningOfPassWriteIndex'', Plain Uint32),
     (''endOfPassWriteIndex'', Plain Uint32)]"

definition struct_WGPURequestAdapterCallbackInfo :: members where
  "struct_WGPURequestAdapterCallbackInfo =
    [(''nextInChain'', Plain (Pointer ''WGPUChainedStruct const'')),
     (''mode'', Plain (Enum ''WGPUCallbackMode'')),
     (''callback'', Plain (Callback ''WGPURequestAdapterCallback'')),
     (''userdata'', Plain (Pointer ''void''))]"

definition struct_WGPURequestAdapterOptions :: members where
  "struct_WGPURequestAdapterOptions =
    [(''nextInChain'', Plain (Pointer ''WGPUChainedStruct const'')),
     (''compatibleSurface'', Plain (Obj WGPUSurface)),
     (''powerPreference'', Plain (Enum ''WGPUPowerPreference'')),
     (''backendType'', Plain (Enum ''WGPUBackendType'')),
     (''forceFallbackAdapter'', Plain Bool),
     (''compatibilityMode'', Plain Bool)]"

definition struct_WGPURequestDeviceCallbackInfo :: members where
  "struct_WGPURequestDeviceCallbackInfo =
    [(''nextInChain'', Plain (Pointer ''WGPUChainedStruct const'')),
     (''mode'', Plain (Enum ''WGPUCallbackMode'')),
     (''callback'', Plain (Callback ''WGPURequestDeviceCallback'')),
     (''userdata'', Plain (Pointer ''void''))]"

definition struct_WGPUSamplerBindingLayout :: members where
  "struct_WGPUSamplerBindingLayout =
    [(''nextInChain'', Plain (Pointer ''WGPUChainedStruct const'')),
     (''type'', Plain (Enum ''WGPUSamplerBindingType''))]"

definition struct_WGPUSamplerDescriptor :: members where
  "struct_WGPUSamplerDescriptor =
    [(''nextInChain'', Plain (Pointer ''WGPUChainedStruct const'')),
     (''label'', Plain (Pointer ''char const'')),
     (''addressModeU'', Plain (Enum ''WGPUAddressMode'')),
     (''addressModeV'', Plain (Enum ''WGPUAddressMode'')),
     (''addressModeW'', Plain (Enum ''WGPUAddressMode'')),
     (''magFilter'', Plain (Enum ''WGPUFilterMode'')),
     (''minFilter'', Plain (Enum ''WGPUFilterMode'')),
     (''mipmapFilter'', Plain (Enum ''WGPUMipmapFilterMode'')),
     (''lodMinClamp'', Plain Float),
     (''lodMaxClamp'', Plain Float),
     (''compare'', Plain (Enum ''WGPUCompareFunction'')),
     (''maxAnisotropy'', Plain Uint16)]"

definition struct_WGPUShaderModuleSPIRVDescriptor :: members where
  "struct_WGPUShaderModuleSPIRVDescriptor =
    [(''chain'', Inline struct_WGPUChainedStruct),
     (''codeSize'', Plain Uint32),
     (''code'', Plain (Pointer ''uint32_t const''))]"

definition struct_WGPUShaderModuleWGSLDescriptor :: members where
  "struct_WGPUShaderModuleWGSLDescriptor =
    [(''chain'', Inline struct_WGPUChainedStruct),
     (''code'', Plain (Pointer ''char const''))]"

definition struct_WGPUShaderModuleDescriptor :: members where
  "struct_WGPUShaderModuleDescriptor =
    [(''nextInChain'', Plain (Pointer ''WGPUChainedStruct const'')),
     (''label'', Plain (Pointer ''char const''))]"

definition struct_WGPUSharedBufferMemoryBeginAccessDescriptor :: members where
  "struct_WGPUSharedBufferMemoryBeginAccessDescriptor =
    [(''nextInChain'', Plain (Pointer ''WGPUChainedStruct const'')),
     (''initialized'', Plain Bool),
     (''fenceCount'', Plain Size),
     (''fences'', Plain (Pointer ''WGPUSharedFence const'')),
     (''signaledValues'', Plain (Pointer ''uint64_t const''))]"

definition struct_WGPUSharedBufferMemoryDescriptor :: members where
  "struct_WGPUSharedBufferMemoryDescriptor =
    [(''nextInChain'', Plain (Pointer ''WGPUChainedStruct const'')),
     (''label'', Plain (Pointer ''char const''))]"

definition struct_WGPUSharedBufferMemoryEndAccessState :: members where
  "struct_WGPUSharedBufferMemoryEndAccessState =
    [(''nextInChain'', Plain (Pointer ''WGPUChainedStructOut'')),
     (''initialized'', Plain Bool),
     (''fenceCount'', Plain Size),
     (''fences'', Plain (Pointer ''WGPUSharedFence const'')),
     (''signaledValues'', Plain (Pointer ''uint64_t const''))]"

definition struct_WGPUSharedBufferMemoryProperties :: members where
  "struct_WGPUSharedBufferMemoryProperties =
    [(''nextInChain'', Plain (Pointer ''WGPUChainedStructOut'')),
     (''usage'', Plain (Flags ''WGPUBufferUsageFlags'')),
     (''size'', Plain Uint64)]"

definition struct_WGPUSharedFenceDXGISharedHandleDescriptor :: members where
  "struct_WGPUSharedFenceDXGISharedHandleDescriptor =
    [(''chain'', Inline struct_WGPUChainedStruct),
     (''handle'', Plain (Pointer ''void''))]"

definition struct_WGPUSharedFenceDXGISharedHandleExportInfo :: members where
  "struct_WGPUSharedFenceDXGISharedHandleExportInfo =
    [(''chain'', Inline struct_WGPUChainedStructOut),
     (''handle'', Plain (Pointer ''void''))]"

definition struct_WGPUSharedFenceMTLSharedEventDescriptor :: members where
  "struct_WGPUSharedFenceMTLSharedEventDescriptor =
    [(''chain'', Inline struct_WGPUChainedStruct),
     (''sharedEvent'', Plain (Pointer ''void''))]"

definition struct_WGPUSharedFenceMTLSharedEventExportInfo :: members where
  "struct_WGPUSharedFenceMTLSharedEventExportInfo =
    [(''chain'', Inline struct_WGPUChainedStructOut),
     (''sharedEvent'', Plain (Pointer ''void''))]"

definition struct_WGPUSharedFenceDescriptor :: members where
  "struct_WGPUSharedFenceDescriptor =
    [(''nextInChain'', Plain (Pointer ''WGPUChainedStruct const'')),
     (''label'', Plain (Pointer ''char const''))]"

definition struct_WGPUSharedFenceExportInfo :: members where
  "struct_WGPUSharedFenceExportInfo =
    [(''nextInChain'', Plain (Pointer ''WGPUChainedStructOut'')),
     (''type'', Plain (Enum ''WGPUSharedFenceType''))]"

definition struct_WGPUSharedFenceVkSemaphoreOpaqueFDDescriptor :: members where
  "struct_WGPUSharedFenceVkSemaphoreOpaqueFDDescriptor =
    [(''chain'', Inline struct_WGPUChainedStruct),
     (''handle'', Plain Int32)]"

definition struct_WGPUSharedFenceVkSemaphoreOpaqueFDExportInfo :: members where
  "struct_WGPUSharedFenceVkSemaphoreOpaqueFDExportInfo =
    [(''chain'', Inline struct_WGPUChainedStructOut),
     (''handle'', Plain Int32)]"

definition struct_WGPUSharedFenceVkSemaphoreSyncFDDescriptor :: members where
  "struct_WGPUSharedFenceVkSemaphoreSyncFDDescriptor =
    [(''chain'', Inline struct_WGPUChainedStruct),
     (''handle'', Plain Int32)]"

definition struct_WGPUSharedFenceVkSemaphoreSyncFDExportInfo :: members where
  "struct_WGPUSharedFenceVkSemaphoreSyncFDExportInfo =
    [(''chain'', Inline struct_WGPUChainedStructOut),
     (''handle'', Plain Int32)]"

definition struct_WGPUSharedFenceVkSemaphoreZirconHandleDescriptor :: members where
  "struct_WGPUSharedFenceVkSemaphoreZirconHandleDescriptor =
    [(''chain'', Inline struct_WGPUChainedStruct),
     (''handle'', Plain Uint32)]"

definition struct_WGPUSharedFenceVkSemaphoreZirconHandleExportInfo :: members where
  "struct_WGPUSharedFenceVkSemaphoreZirconHandleExportInfo =
    [(''chain'', Inline struct_WGPUChainedStructOut),
     (''handle'', Plain Uint32)]"

definition struct_WGPUSharedTextureMemoryDXGISharedHandleDescriptor :: members where
  "struct_WGPUSharedTextureMemoryDXGISharedHandleDescriptor =
    [(''chain'', Inline struct_WGPUChainedStruct),
     (''handle'', Plain (Pointer ''void'')),
     (''useKeyedMutex'', Plain Bool)]"

definition struct_WGPUSharedTextureMemoryEGLImageDescriptor :: members where
  "struct_WGPUSharedTextureMemoryEGLImageDescriptor =
    [(''chain'', Inline struct_WGPUChainedStruct),
     (''image'', Plain (Pointer ''void''))]"

definition struct_WGPUSharedTextureMemoryIOSurfaceDescriptor :: members where
  "struct_WGPUSharedTextureMemoryIOSurfaceDescriptor =
    [(''chain'', Inline struct_WGPUChainedStruct),
     (''ioSurface'', Plain (Pointer ''void''))]"

definition struct_WGPUSharedTextureMemoryAHardwareBufferDescriptor :: members where
  "struct_WGPUSharedTextureMemoryAHardwareBufferDescriptor =
    [(''chain'', Inline struct_WGPUChainedStruct),
     (''handle'', Plain (Pointer ''void''))]"

definition struct_WGPUSharedTextureMemoryBeginAccessDescriptor :: members where
  "struct_WGPUSharedTextureMemoryBeginAccessDescriptor =
    [(''nextInChain'', Plain (Pointer ''WGPUChainedStruct const'')),
     (''concurrentRead'', Plain Bool),
     (''initialized'', Plain Bool),
     (''fenceCount'', Plain Size),
     (''fences'', Plain (Pointer ''WGPUSharedFence const'')),
     (''signaledValues'', Plain (Pointer ''uint64_t const''))]"

definition struct_WGPUSharedTextureMemoryDescriptor :: members where
  "struct_WGPUSharedTextureMemoryDescriptor =
    [(''nextInChain'', Plain (Pointer ''WGPUChainedStruct const'')),
     (''label'', Plain (Pointer ''char const''))]"

definition struct_WGPUSharedTextureMemoryDmaBufPlane :: members where
  "struct_WGPUSharedTextureMemoryDmaBufPlane =
    [(''fd'', Plain Int32),
     (''offset'', Plain Uint64),
     (''stride'', Plain Uint32)]"

definition struct_WGPUSharedTextureMemoryEndAccessState :: members where
  "struct_WGPUSharedTextureMemoryEndAccessState =
    [(''nextInChain'', Plain (Pointer ''WGPUChainedStructOut'')),
     (''initialized'', Plain Bool),
     (''fenceCount'', Plain Size),
     (''fences'', Plain (Pointer ''WGPUSharedFence const'')),
     (''signaledValues'', Plain (Pointer ''uint64_t const''))]"

definition struct_WGPUSharedTextureMemoryOpaqueFDDescriptor :: members where
  "struct_WGPUSharedTextureMemoryOpaqueFDDescriptor =
    [(''chain'', Inline struct_WGPUChainedStruct),
     (''vkImageCreateInfo'', Plain (Pointer ''void const'')),
     (''memoryFD'', Plain Int32),
     (''memoryTypeIndex'', Plain Uint32),
     (''allocationSize'', Plain Uint64),
     (''dedicatedAllocation'', Plain Bool)]"

definition struct_WGPUSharedTextureMemoryVkDedicatedAllocationDescriptor :: members where
  "struct_WGPUSharedTextureMemoryVkDedicatedAllocationDescriptor =
    [(''chain'', Inline struct_WGPUChainedStruct),
     (''dedicatedAllocation'', Plain Bool)]"

definition struct_WGPUSharedTextureMemoryVkImageLayoutBeginState :: members where
  "struct_WGPUSharedTextureMemoryVkImageLayoutBeginState =
    [(''chain'', Inline struct_WGPUChainedStruct),
     (''oldLayout'', Plain Int32),
     (''newLayout'', Plain Int32)]"

definition struct_WGPUSharedTextureMemoryVkImageLayoutEndState :: members where
  "struct_WGPUSharedTextureMemoryVkImageLayoutEndState =
    [(''chain'', Inline struct_WGPUChainedStructOut),
     (''oldLayout'', Plain Int32),
     (''newLayout'', Plain Int32)]"

definition struct_WGPUSharedTextureMemoryZirconHandleDescriptor :: members where
  "struct_WGPUSharedTextureMemoryZirconHandleDescriptor =
    [(''chain'', Inline struct_WGPUChainedStruct),
     (''memoryFD'', Plain Uint32),
     (''allocationSize'', Plain Uint64)]"

definition struct_WGPUStaticSamplerBindingLayout :: members where
  "struct_WGPUStaticSamplerBindingLayout =
    [(''chain'', Inline struct_WGPUChainedStruct),
     (''sampler'', Plain (Obj WGPUSampler))]"

definition struct_WGPUStencilFaceState :: members where
  "struct_WGPUStencilFaceState =
    [(''compare'', Plain (Enum ''WGPUCompareFunction'')),
     (''failOp'', Plain (Enum ''WGPUStencilOperation'')),
     (''depthFailOp'', Plain (Enum ''WGPUStencilOperation'')),
     (''passOp'', Plain (Enum ''WGPUStencilOperation''))]"

definition struct_WGPUStorageTextureBindingLayout :: members where
  "struct_WGPUStorageTextureBindingLayout =
    [(''nextInChain'', Plain (Pointer ''WGPUChainedStruct const'')),
     (''access'', Plain (Enum ''WGPUStorageTextureAccess'')),
     (''format'', Plain (Enum ''WGPUTextureFormat'')),
     (''viewDimension'', Plain (Enum ''WGPUTextureViewDimension''))]"

definition struct_WGPUSurfaceDescriptor :: members where
  "struct_WGPUSurfaceDescriptor =
    [(''nextInChain'', Plain (Pointer ''WGPUChainedStruct const'')),
     (''label'', Plain (Pointer ''char const''))]"

definition struct_WGPUSurfaceDescriptorFromAndroidNativeWindow :: members where
  "struct_WGPUSurfaceDescriptorFromAndroidNativeWindow =
    [(''chain'', Inline struct_WGPUChainedStruct),
     (''window'', Plain (Pointer ''void''))]"

definition struct_WGPUSurfaceDescriptorFromCanvasHTMLSelector :: members where
  "struct_WGPUSurfaceDescriptorFromCanvasHTMLSelector =
    [(''chain'', Inline struct_WGPUChainedStruct),
     (''selector'', Plain (Pointer ''char const''))]"

definition struct_WGPUSurfaceDescriptorFromMetalLayer :: members where
  "struct_WGPUSurfaceDescriptorFromMetalLayer =
    [(''chain'', Inline struct_WGPUChainedStruct),
     (''layer'', Plain (Pointer ''void''))]"

definition struct_WGPUSurfaceDescriptorFromWaylandSurface :: members where
  "struct_WGPUSurfaceDescriptorFromWaylandSurface =
    [(''chain'', Inline struct_WGPUChainedStruct),
     (''display'', Plain (Pointer ''void'')),
     (''surface'', Plain (Pointer ''void''))]"

definition struct_WGPUSurfaceDescriptorFromWindowsHWND :: members where
  "struct_WGPUSurfaceDescriptorFromWindowsHWND =
    [(''chain'', Inline struct_WGPUChainedStruct),
     (''hinstance'', Plain (Pointer ''void'')),
     (''hwnd'', Plain (Pointer ''void''))]"

definition struct_WGPUSurfaceDescriptorFromWindowsCoreWindow :: members where
  "struct_WGPUSurfaceDescriptorFromWindowsCoreWindow =
    [(''chain'', Inline struct_WGPUChainedStruct),
     (''coreWindow'', Plain (Pointer ''void''))]"

definition struct_WGPUSurfaceDescriptorFromWindowsSwapChainPanel :: members where
  "struct_WGPUSurfaceDescriptorFromWindowsSwapChainPanel =
    [(''chain'', Inline struct_WGPUChainedStruct),
     (''swapChainPanel'', Plain (Pointer ''void''))]"

definition struct_WGPUSurfaceDescriptorFromXlibWindow :: members where
  "struct_WGPUSurfaceDescriptorFromXlibWindow =
    [(''chain'', Inline struct_WGPUChainedStruct),
     (''display'', Plain (Pointer ''void'')),
     (''window'', Plain Uint64)]"

definition struct_WGPUSwapChainDescriptor :: members where
  "struct_WGPUSwapChainDescriptor =
    [(''nextInChain'', Plain (Pointer ''WGPUChainedStruct const'')),
     (''label'', Plain (Pointer ''char const'')),
     (''usage'', Plain (Flags ''WGPUTextureUsageFlags'')),
     (''format'', Plain (Enum ''WGPUTextureFormat'')),
     (''width'', Plain Uint32),
     (''height'', Plain Uint32),
     (''presentMode'', Plain (Enum ''WGPUPresentMode''))]"

definition struct_WGPUTextureBindingLayout :: members where
  "struct_WGPUTextureBindingLayout =
    [(''nextInChain'', Plain (Pointer ''WGPUChainedStruct const'')),
     (''sampleType'', Plain (Enum ''WGPUTextureSampleType'')),
     (''viewDimension'', Plain (Enum ''WGPUTextureViewDimension'')),
     (''multisampled'', Plain Bool)]"

definition struct_WGPUTextureBindingViewDimensionDescriptor :: members where
  "struct_WGPUTextureBindingViewDimensionDescriptor =
    [(''chain'', Inline struct_WGPUChainedStruct),
     (''textureBindingViewDimension'', Plain (Enum ''WGPUTextureViewDimension''))]"

definition struct_WGPUTextureDataLayout :: members where
  "struct_WGPUTextureDataLayout =
    [(''nextInChain'', Plain (Pointer ''WGPUChainedStruct const'')),
     (''offset'', Plain Uint64),
     (''bytesPerRow'', Plain Uint32),
     (''rowsPerImage'', Plain Uint32)]"

definition struct_WGPUTextureViewDescriptor :: members where
  "struct_WGPUTextureViewDescriptor =
    [(''nextInChain'', Plain (Pointer ''WGPUChainedStruct const'')),
     (''label'', Plain (Pointer ''char const'')),
     (''format'', Plain (Enum ''WGPUTextureFormat'')),
     (''dimension'', Plain (Enum ''WGPUTextureViewDimension'')),
     (''baseMipLevel'', Plain Uint32),
     (''mipLevelCount'', Plain Uint32),
     (''baseArrayLayer'', Plain Uint32),
     (''arrayLayerCount'', Plain Uint32),
     (''aspect'', Plain (Enum ''WGPUTextureAspect''))]"

definition struct_WGPUVertexAttribute :: members where
  "struct_WGPUVertexAttribute =
    [(''format'', Plain (Enum ''WGPUVertexFormat'')),
     (''offset'', Plain Uint64),
     (''shaderLocation'', Plain Uint32)]"

definition struct_WGPUAdapterPropertiesMemoryHeaps :: members where
  "struct_WGPUAdapterPropertiesMemoryHeaps =
    [(''chain'', Inline struct_WGPUChainedStructOut),
     (''heapCount'', Plain Size),
     (''heapInfo'', Plain (Pointer ''WGPUMemoryHeapInfo const''))]"

definition struct_WGPUBindGroupDescriptor :: members where
  "struct_WGPUBindGroupDescriptor =
    [(''nextInChain'', Plain (Pointer ''WGPUChainedStruct const'')),
     (''label'', Plain (Pointer ''char const'')),
     (''layout'', Plain (Obj WGPUBindGroupLayout)),
     (''entryCount'', Plain Size),
     (''entries'', Plain (Pointer ''WGPUBindGroupEntry const''))]"

definition struct_WGPUBindGroupLayoutEntry :: members where
  "struct_WGPUBindGroupLayoutEntry =
    [(''nextInChain'', Plain (Pointer ''WGPUChainedStruct const'')),
     (''binding'', Plain Uint32),
     (''visibility'', Plain (Flags ''WGPUShaderStageFlags'')),
     (''buffer'', Inline struct_WGPUBufferBindingLayout),
     (''sampler'', Inline struct_WGPUSamplerBindingLayout),
     (''texture'', Inline struct_WGPUTextureBindingLayout),
     (''storageTexture'', Inline struct_WGPUStorageTextureBindingLayout)]"

definition struct_WGPUBlendState :: members where
  "struct_WGPUBlendState =
    [(''color'', Inline struct_WGPUBlendComponent),
     (''alpha'', Inline struct_WGPUBlendComponent)]"

definition struct_WGPUCompilationInfo :: members where
  "struct_WGPUCompilationInfo =
    [(''nextInChain'', Plain (Pointer ''WGPUChainedStruct const'')),
     (''messageCount'', Plain Size),
     (''messages'', Plain (Pointer ''WGPUCompilationMessage const''))]"

definition struct_WGPUComputePassDescriptor :: members where
  "struct_WGPUComputePassDescriptor =
    [(''nextInChain'', Plain (Pointer ''WGPUChainedStruct const'')),
     (''label'', Plain (Pointer ''char const'')),
     (''timestampWrites'', Plain (Pointer ''WGPUComputePassTimestampWrites const''))]"

definition struct_WGPUDepthStencilState :: members where
  "struct_WGPUDepthStencilState =
    [(''nextInChain'', Plain (Pointer ''WGPUChainedStruct const'')),
     (''format'', Plain (Enum ''WGPUTextureFormat'')),
     (''depthWriteEnabled'', Plain Bool),
     (''depthCompare'', Plain (Enum ''WGPUCompareFunction'')),
     (''stencilFront'', Inline struct_WGPUStencilFaceState),
     (''stencilBack'', Inline struct_WGPUStencilFaceState),
     (''stencilReadMask'', Plain Uint32),
     (''stencilWriteMask'', Plain Uint32),
     (''depthBias'', Plain Int32),
     (''depthBiasSlopeScale'', Plain Float),
     (''depthBiasClamp'', Plain Float)]"

definition struct_WGPUDrmFormatCapabilities :: members where
  "struct_WGPUDrmFormatCapabilities =
    [(''chain'', Inline struct_WGPUChainedStructOut),
     (''propertiesCount'', Plain Size),
     (''properties'', Plain (Pointer ''WGPUDrmFormatProperties const''))]"

definition struct_WGPUExternalTextureDescriptor :: members where
  "struct_WGPUExternalTextureDescriptor =
    [(''nextInChain'', Plain (Pointer ''WGPUChainedStruct const'')),
     (''label'', Plain (Pointer ''char const'')),
     (''plane0'', Plain (Obj WGPUTextureView)),
     (''plane1'', Plain (Obj WGPUTextureView)),
     (''visibleOrigin'', Inline struct_WGPUOrigin2D),
     (''visibleSize'', Inline struct_WGPUExtent2D),
     (''doYuvToRgbConversionOnly'', Plain Bool),
     (''yuvToRgbConversionMatrix'', Plain (Pointer ''float const'')),
     (''srcTransferFunctionParameters'', Plain (Pointer ''float const'')),
     (''dstTransferFunctionParameters'', Plain (Pointer ''float const'')),
     (''gamutConversionMatrix'', Plain (Pointer ''float const'')),
     (''flipY'', Plain Bool),
     (''mirrored'', Plain Bool),
     (''rotation'', Plain (Enum ''WGPUExternalTextureRotation''))]"

definition struct_WGPUFutureWaitInfo :: members where
  "struct_WGPUFutureWaitInfo =
    [(''future'', Inline struct_WGPUFuture),
     (''completed'', Plain Bool)]"

definition struct_WGPUImageCopyBuffer :: members where
  "struct_WGPUImageCopyBuffer =
    [(''nextInChain'', Plain (Pointer ''WGPUChainedStruct const'')),
     (''layout'', Inline struct_WGPUTextureDataLayout),
     (''buffer'', Plain (Obj WGPUBuffer))]"

definition struct_WGPUImageCopyExternalTexture :: members where
  "struct_WGPUImageCopyExternalTexture =
    [(''nextInChain'', Plain (Pointer ''WGPUChainedStruct const'')),
     (''externalTexture'', Plain (Obj WGPUExternalTexture)),
     (''origin'', Inline struct_WGPUOrigin3D),
     (''naturalSize'', Inline struct_WGPUExtent2D)]"

definition struct_WGPUImageCopyTexture :: members where
  "struct_WGPUImageCopyTexture =
    [(''nextInChain'', Plain (Pointer ''WGPUChainedStruct const'')),
     (''texture'', Plain (Obj WGPUTexture)),
     (''mipLevel'', Plain Uint32),
     (''origin'', Inline struct_WGPUOrigin3D),
     (''aspect'', Plain (Enum ''WGPUTextureAspect''))]"

definition struct_WGPUInstanceDescriptor :: members where
  "struct_WGPUInstanceDescriptor =
    [(''nextInChain'', Plain (Pointer ''WGPUChainedStruct const'')),
     (''features'', Inline struct_WGPUInstanceFeatures)]"

definition struct_WGPUPipelineLayoutPixelLocalStorage :: members where
  "struct_WGPUPipelineLayoutPixelLocalStorage =
    [(''chain'', Inline struct_WGPUChainedStruct),
     (''totalPixelLocalStorageSize'', Plain Uint64),
     (''storageAttachmentCount'', Plain Size),
     (''storageAttachments'', Plain (Pointer ''WGPUPipelineLayoutStorageAttachment const''))]"

definition struct_WGPUProgrammableStageDescriptor :: members where
  "struct_WGPUProgrammableStageDescriptor =
    [(''nextInChain'', Plain (Pointer ''WGPUChainedStruct const'')),
     (''module'', Plain (Obj WGPUShaderModule)),
     (''entryPoint'', Plain (Pointer ''char const'')),
     (''constantCount'', Plain Size),
     (''constants'', Plain (Pointer ''WGPUConstantEntry const''))]"

definition struct_WGPURenderPassColorAttachment :: members where
  "struct_WGPURenderPassColorAttachment =
    [(''nextInChain'', Plain (Pointer ''WGPUChainedStruct const'')),
     (''view'', Plain (Obj WGPUTextureView)),
     (''depthSlice'', Plain Uint32),
     (''resolveTarget'', Plain (Obj WGPUTextureView)),
     (''loadOp'', Plain (Enum ''WGPULoadOp'')),
     (''storeOp'', Plain (Enum ''WGPUStoreOp'')),
     (''clearValue'', Inline struct_WGPUColor)]"

definition struct_WGPURenderPassStorageAttachment :: members where
  "struct_WGPURenderPassStorageAttachment =
    [(''nextInChain'', Plain (Pointer ''WGPUChainedStruct const'')),
     (''offset'', Plain Uint64),
     (''storage'', Plain (Obj WGPUTextureView)),
     (''loadOp'', Plain (Enum ''WGPULoadOp'')),
     (''storeOp'', Plain (Enum ''WGPUStoreOp'')),
     (''clearValue'', Inline struct_WGPUColor)]"

definition struct_WGPURequiredLimits :: members where
  "struct_WGPURequiredLimits =
    [(''nextInChain'', Plain (Pointer ''WGPUChainedStruct const'')),
     (''limits'', Inline struct_WGPULimits)]"

definition struct_WGPUSharedTextureMemoryDmaBufDescriptor :: members where
  "struct_WGPUSharedTextureMemoryDmaBufDescriptor =
    [(''chain'', Inline struct_WGPUChainedStruct),
     (''size'', Inline struct_WGPUExtent3D),
     (''drmFormat'', Plain Uint32),
     (''drmModifier'', Plain Uint64),
     (''planeCount'', Plain Size),
     (''planes'', Plain (Pointer ''WGPUSharedTextureMemoryDmaBufPlane const''))]"

definition struct_WGPUSharedTextureMemoryProperties :: members where
  "struct_WGPUSharedTextureMemoryProperties =
    [(''nextInChain'', Plain (Pointer ''WGPUChainedStructOut'')),
     (''usage'', Plain (Flags ''WGPUTextureUsageFlags'')),
     (''size'', Inline struct_WGPUExtent3D),
     (''format'', Plain (Enum ''WGPUTextureFormat''))]"

definition struct_WGPUSharedTextureMemoryVkImageDescriptor :: members where
  "struct_WGPUSharedTextureMemoryVkImageDescriptor =
    [(''chain'', Inline struct_WGPUChainedStruct),
     (''vkFormat'', Plain Int32),
     (''vkUsageFlags'', Plain Int32),
     (''vkExtent3D'', Inline struct_WGPUExtent3D)]"

definition struct_WGPUSupportedLimits :: members where
  "struct_WGPUSupportedLimits =
    [(''nextInChain'', Plain (Pointer ''WGPUChainedStructOut'')),
     (''limits'', Inline struct_WGPULimits)]"

definition struct_WGPUTextureDescriptor :: members where
  "struct_WGPUTextureDescriptor =
    [(''nextInChain'', Plain (Pointer ''WGPUChainedStruct const'')),
     (''label'', Plain (Pointer ''char const'')),
     (''usage'', Plain (Flags ''WGPUTextureUsageFlags'')),
     (''dimension'', Plain (Enum ''WGPUTextureDimension'')),
     (''size'', Inline struct_WGPUExtent3D),
     (''format'', Plain (Enum ''WGPUTextureFormat'')),
     (''mipLevelCount'', Plain Uint32),
     (''sampleCount'', Plain Uint32),
     (''viewFormatCount'', Plain Size),
     (''viewFormats'', Plain (Pointer ''WGPUTextureFormat const''))]"

definition struct_WGPUVertexBufferLayout :: members where
  "struct_WGPUVertexBufferLayout =
    [(''arrayStride'', Plain Uint64),
     (''stepMode'', Plain (Enum ''WGPUVertexStepMode'')),
     (''attributeCount'', Plain Size),
     (''attributes'', Plain (Pointer ''WGPUVertexAttribute const''))]"

definition struct_WGPUBindGroupLayoutDescriptor :: members where
  "struct_WGPUBindGroupLayoutDescriptor =
    [(''nextInChain'', Plain (Pointer ''WGPUChainedStruct const'')),
     (''label'', Plain (Pointer ''char const'')),
     (''entryCount'', Plain Size),
     (''entries'', Plain (Pointer ''WGPUBindGroupLayoutEntry const''))]"

definition struct_WGPUColorTargetState :: members where
  "struct_WGPUColorTargetState =
    [(''nextInChain'', Plain (Pointer ''WGPUChainedStruct const'')),
     (''format'', Plain (Enum ''WGPUTextureFormat'')),
     (''blend'', Plain (Pointer ''WGPUBlendState const'')),
     (''writeMask'', Plain (Flags ''WGPUColorWriteMaskFlags''))]"

definition struct_WGPUComputePipelineDescriptor :: members where
  "struct_WGPUComputePipelineDescriptor =
    [(''nextInChain'', Plain (Pointer ''WGPUChainedStruct const'')),
     (''label'', Plain (Pointer ''char const'')),
     (''layout'', Plain (Obj WGPUPipelineLayout)),
     (''compute'', Inline struct_WGPUProgrammableStageDescriptor)]"

definition struct_WGPUDeviceDescriptor :: members where
  "struct_WGPUDeviceDescriptor =
    [(''nextInChain'', Plain (Pointer ''WGPUChainedStruct const'')),
     (''label'', Plain (Pointer ''char const'')),
     (''requiredFeatureCount'', Plain Size),
     (''requiredFeatures'', Plain (Pointer ''WGPUFeatureName const'')),
     (''requiredLimits'', Plain (Pointer ''WGPURequiredLimits const'')),
     (''defaultQueue'', Inline struct_WGPUQueueDescriptor),
     (''deviceLostCallback'', Plain (Callback ''WGPUDeviceLostCallback'')),
     (''deviceLostUserdata'', Plain (Pointer ''void''))]"

definition struct_WGPURenderPassDescriptor :: members where
  "struct_WGPURenderPassDescriptor =
    [(''nextInChain'', Plain (Pointer ''WGPUChainedStruct const'')),
     (''label'', Plain (Pointer ''char const'')),
     (''colorAttachmentCount'', Plain Size),
     (''colorAttachments'', Plain (Pointer ''WGPURenderPassColorAttachment const'')),
     (''depthStencilAttachment'', Plain (Pointer ''WGPURenderPassDepthStencilAttachment const'')),
     (''occlusionQuerySet'', Plain (Obj WGPUQuerySet)),
     (''timestampWrites'', Plain (Pointer ''WGPURenderPassTimestampWrites const''))]"

definition struct_WGPURenderPassPixelLocalStorage :: members where
  "struct_WGPURenderPassPixelLocalStorage =
    [(''chain'', Inline struct_WGPUChainedStruct),
     (''totalPixelLocalStorageSize'', Plain Uint64),
     (''storageAttachmentCount'', Plain Size),
     (''storageAttachments'', Plain (Pointer ''WGPURenderPassStorageAttachment const''))]"

definition struct_WGPUVertexState :: members where
  "struct_WGPUVertexState =
    [(''nextInChain'', Plain (Pointer ''WGPUChainedStruct const'')),
     (''module'', Plain (Obj WGPUShaderModule)),
     (''entryPoint'', Plain (Pointer ''char const'')),
     (''constantCount'', Plain Size),
     (''constants'', Plain (Pointer ''WGPUConstantEntry const'')),
     (''bufferCount'', Plain Size),
     (''buffers'', Plain (Pointer ''WGPUVertexBufferLayout const''))]"

definition struct_WGPUFragmentState :: members where
  "struct_WGPUFragmentState =
    [(''nextInChain'', Plain (Pointer ''WGPUChainedStruct const'')),
     (''module'', Plain (Obj WGPUShaderModule)),
     (''entryPoint'', Plain (Pointer ''char const'')),
     (''constantCount'', Plain Size),
     (''constants'', Plain (Pointer ''WGPUConstantEntry const'')),
     (''targetCount'', Plain Size),
     (''targets'', Plain (Pointer ''WGPUColorTargetState const''))]"

definition struct_WGPURenderPipelineDescriptor :: members where
  "struct_WGPURenderPipelineDescriptor =
    [(''nextInChain'', Plain (Pointer ''WGPUChainedStruct const'')),
     (''label'', Plain (Pointer ''char const'')),
     (''layout'', Plain (Obj WGPUPipelineLayout)),
     (''vertex'', Inline struct_WGPUVertexState),
     (''primitive'', Inline struct_WGPUPrimitiveState),
     (''depthStencil'', Plain (Pointer ''WGPUDepthStencilState const'')),
     (''multisample'', Inline struct_WGPUMultisampleState),
     (''fragment'', Plain (Pointer ''WGPUFragmentState const''))]"

text \<open>All of them, by name.\<close>

definition webgpu_structs :: "(string \<times> members) list" where
  "webgpu_structs =
    [(''WGPUChainedStruct'', struct_WGPUChainedStruct),
     (''WGPUChainedStructOut'', struct_WGPUChainedStructOut),
     (''WGPUAdapterProperties'', struct_WGPUAdapterProperties),
     (''WGPUAdapterPropertiesD3D'', struct_WGPUAdapterPropertiesD3D),
     (''WGPUAdapterPropertiesVk'', struct_WGPUAdapterPropertiesVk),
     (''WGPUBindGroupEntry'', struct_WGPUBindGroupEntry),
     (''WGPUBlendComponent'', struct_WGPUBlendComponent),
     (''WGPUBufferBindingLayout'', struct_WGPUBufferBindingLayout),
     (''WGPUBufferDescriptor'', struct_WGPUBufferDescriptor),
     (''WGPUBufferHostMappedPointer'', struct_WGPUBufferHostMappedPointer),
     (''WGPUBufferMapCallbackInfo'', struct_WGPUBufferMapCallbackInfo),
     (''WGPUColor'', struct_WGPUColor),
     (''WGPUCommandBufferDescriptor'', struct_WGPUCommandBufferDescriptor),
     (''WGPUCommandEncoderDescriptor'', struct_WGPUCommandEncoderDescriptor),
     (''WGPUCompilationInfoCallbackInfo'', struct_WGPUCompilationInfoCallbackInfo),
     (''WGPUCompilationMessage'', struct_WGPUCompilationMessage),
     (''WGPUComputePassTimestampWrites'', struct_WGPUComputePassTimestampWrites),
     (''WGPUConstantEntry'', struct_WGPUConstantEntry),
     (''WGPUCopyTextureForBrowserOptions'', struct_WGPUCopyTextureForBrowserOptions),
     (''WGPUCreateComputePipelineAsyncCallbackInfo'', struct_WGPUCreateComputePipelineAsyncCallbackInfo),
     (''WGPUCreateRenderPipelineAsyncCallbackInfo'', struct_WGPUCreateRenderPipelineAsyncCallbackInfo),
     (''WGPUDawnWGSLBlocklist'', struct_WGPUDawnWGSLBlocklist),
     (''WGPUDawnAdapterPropertiesPowerPreference'', struct_WGPUDawnAdapterPropertiesPowerPreference),
     (''WGPUDawnBufferDescriptorErrorInfoFromWireClient'', struct_WGPUDawnBufferDescriptorErrorInfoFromWireClient),
     (''WGPUDawnCacheDeviceDescriptor'', struct_WGPUDawnCacheDeviceDescriptor),
     (''WGPUDawnComputePipelineFullSubgroups'', struct_WGPUDawnComputePipelineFullSubgroups),
     (''WGPUDawnEncoderInternalUsageDescriptor'', struct_WGPUDawnEncoderInternalUsageDescriptor),
     (''WGPUDawnExperimentalSubgroupLimits'', struct_WGPUDawnExperimentalSubgroupLimits),
     (''WGPUDawnMultisampleStateRenderToSingleSampled'', struct_WGPUDawnMultisampleStateRenderToSingleSampled),
     (''WGPUDawnRenderPassColorAttachmentRenderToSingleSampled'', struct_WGPUDawnRenderPassColorAttachmentRenderToSingleSampled),
     (''WGPUDawnShaderModuleSPIRVOptionsDescriptor'', struct_WGPUDawnShaderModuleSPIRVOptionsDescriptor),
     (''WGPUDawnTextureInternalUsageDescriptor'', struct_WGPUDawnTextureInternalUsageDescriptor),
     (''WGPUDawnTogglesDescriptor'', struct_WGPUDawnTogglesDescriptor),
     (''WGPUDawnWireWGSLControl'', struct_WGPUDawnWireWGSLControl),
     (''WGPUDepthStencilStateDepthWriteDefinedDawn'', struct_WGPUDepthStencilStateDepthWriteDefinedDawn),
     (''WGPUDrmFormatProperties'', struct_WGPUDrmFormatProperties),
     (''WGPUExtent2D'', struct_WGPUExtent2D),
     (''WGPUExtent3D'', struct_WGPUExtent3D),
     (''WGPUExternalTextureBindingEntry'', struct_WGPUExternalTextureBindingEntry),
     (''WGPUExternalTextureBindingLayout'', struct_WGPUExternalTextureBindingLayout),
     (''WGPUFormatCapabilities'', struct_WGPUFormatCapabilities),
     (''WGPUFuture'', struct_WGPUFuture),
     (''WGPUInstanceFeatures'', struct_WGPUInstanceFeatures),
     (''WGPULimits'', struct_WGPULimits),
     (''WGPUMemoryHeapInfo'', struct_WGPUMemoryHeapInfo),
     (''WGPUMultisampleState'', struct_WGPUMultisampleState),
     (''WGPUOrigin2D'', struct_WGPUOrigin2D),
     (''WGPUOrigin3D'', struct_WGPUOrigin3D),
     (''WGPUPipelineLayoutDescriptor'', struct_WGPUPipelineLayoutDescriptor),
     (''WGPUPipelineLayoutStorageAttachment'', struct_WGPUPipelineLayoutStorageAttachment),
     (''WGPUPopErrorScopeCallbackInfo'', struct_WGPUPopErrorScopeCallbackInfo),
     (''WGPUPrimitiveDepthClipControl'', struct_WGPUPrimitiveDepthClipControl),
     (''WGPUPrimitiveState'', struct_WGPUPrimitiveState),
     (''WGPUQuerySetDescriptor'', struct_WGPUQuerySetDescriptor),
     (''WGPUQueueDescriptor'', struct_WGPUQueueDescriptor),
     (''WGPUQueueWorkDoneCallbackInfo'', struct_WGPUQueueWorkDoneCallbackInfo),
     (''WGPURenderBundleDescriptor'', struct_WGPURenderBundleDescriptor),
     (''WGPURenderBundleEncoderDescriptor'', struct_WGPURenderBundleEncoderDescriptor),
     (''WGPURenderPassDepthStencilAttachment'', struct_WGPURenderPassDepthStencilAttachment),
     (''WGPURenderPassDescriptorMaxDrawCount'', struct_WGPURenderPassDescriptorMaxDrawCount),
     (''WGPURenderPassTimestampWrites'', struct_WGPURenderPassTimestampWrites),
     (''WGPURequestAdapterCallbackInfo'', struct_WGPURequestAdapterCallbackInfo),
     (''WGPURequestAdapterOptions'', struct_WGPURequestAdapterOptions),
     (''WGPURequestDeviceCallbackInfo'', struct_WGPURequestDeviceCallbackInfo),
     (''WGPUSamplerBindingLayout'', struct_WGPUSamplerBindingLayout),
     (''WGPUSamplerDescriptor'', struct_WGPUSamplerDescriptor),
     (''WGPUShaderModuleSPIRVDescriptor'', struct_WGPUShaderModuleSPIRVDescriptor),
     (''WGPUShaderModuleWGSLDescriptor'', struct_WGPUShaderModuleWGSLDescriptor),
     (''WGPUShaderModuleDescriptor'', struct_WGPUShaderModuleDescriptor),
     (''WGPUSharedBufferMemoryBeginAccessDescriptor'', struct_WGPUSharedBufferMemoryBeginAccessDescriptor),
     (''WGPUSharedBufferMemoryDescriptor'', struct_WGPUSharedBufferMemoryDescriptor),
     (''WGPUSharedBufferMemoryEndAccessState'', struct_WGPUSharedBufferMemoryEndAccessState),
     (''WGPUSharedBufferMemoryProperties'', struct_WGPUSharedBufferMemoryProperties),
     (''WGPUSharedFenceDXGISharedHandleDescriptor'', struct_WGPUSharedFenceDXGISharedHandleDescriptor),
     (''WGPUSharedFenceDXGISharedHandleExportInfo'', struct_WGPUSharedFenceDXGISharedHandleExportInfo),
     (''WGPUSharedFenceMTLSharedEventDescriptor'', struct_WGPUSharedFenceMTLSharedEventDescriptor),
     (''WGPUSharedFenceMTLSharedEventExportInfo'', struct_WGPUSharedFenceMTLSharedEventExportInfo),
     (''WGPUSharedFenceDescriptor'', struct_WGPUSharedFenceDescriptor),
     (''WGPUSharedFenceExportInfo'', struct_WGPUSharedFenceExportInfo),
     (''WGPUSharedFenceVkSemaphoreOpaqueFDDescriptor'', struct_WGPUSharedFenceVkSemaphoreOpaqueFDDescriptor),
     (''WGPUSharedFenceVkSemaphoreOpaqueFDExportInfo'', struct_WGPUSharedFenceVkSemaphoreOpaqueFDExportInfo),
     (''WGPUSharedFenceVkSemaphoreSyncFDDescriptor'', struct_WGPUSharedFenceVkSemaphoreSyncFDDescriptor),
     (''WGPUSharedFenceVkSemaphoreSyncFDExportInfo'', struct_WGPUSharedFenceVkSemaphoreSyncFDExportInfo),
     (''WGPUSharedFenceVkSemaphoreZirconHandleDescriptor'', struct_WGPUSharedFenceVkSemaphoreZirconHandleDescriptor),
     (''WGPUSharedFenceVkSemaphoreZirconHandleExportInfo'', struct_WGPUSharedFenceVkSemaphoreZirconHandleExportInfo),
     (''WGPUSharedTextureMemoryDXGISharedHandleDescriptor'', struct_WGPUSharedTextureMemoryDXGISharedHandleDescriptor),
     (''WGPUSharedTextureMemoryEGLImageDescriptor'', struct_WGPUSharedTextureMemoryEGLImageDescriptor),
     (''WGPUSharedTextureMemoryIOSurfaceDescriptor'', struct_WGPUSharedTextureMemoryIOSurfaceDescriptor),
     (''WGPUSharedTextureMemoryAHardwareBufferDescriptor'', struct_WGPUSharedTextureMemoryAHardwareBufferDescriptor),
     (''WGPUSharedTextureMemoryBeginAccessDescriptor'', struct_WGPUSharedTextureMemoryBeginAccessDescriptor),
     (''WGPUSharedTextureMemoryDescriptor'', struct_WGPUSharedTextureMemoryDescriptor),
     (''WGPUSharedTextureMemoryDmaBufPlane'', struct_WGPUSharedTextureMemoryDmaBufPlane),
     (''WGPUSharedTextureMemoryEndAccessState'', struct_WGPUSharedTextureMemoryEndAccessState),
     (''WGPUSharedTextureMemoryOpaqueFDDescriptor'', struct_WGPUSharedTextureMemoryOpaqueFDDescriptor),
     (''WGPUSharedTextureMemoryVkDedicatedAllocationDescriptor'', struct_WGPUSharedTextureMemoryVkDedicatedAllocationDescriptor),
     (''WGPUSharedTextureMemoryVkImageLayoutBeginState'', struct_WGPUSharedTextureMemoryVkImageLayoutBeginState),
     (''WGPUSharedTextureMemoryVkImageLayoutEndState'', struct_WGPUSharedTextureMemoryVkImageLayoutEndState),
     (''WGPUSharedTextureMemoryZirconHandleDescriptor'', struct_WGPUSharedTextureMemoryZirconHandleDescriptor),
     (''WGPUStaticSamplerBindingLayout'', struct_WGPUStaticSamplerBindingLayout),
     (''WGPUStencilFaceState'', struct_WGPUStencilFaceState),
     (''WGPUStorageTextureBindingLayout'', struct_WGPUStorageTextureBindingLayout),
     (''WGPUSurfaceDescriptor'', struct_WGPUSurfaceDescriptor),
     (''WGPUSurfaceDescriptorFromAndroidNativeWindow'', struct_WGPUSurfaceDescriptorFromAndroidNativeWindow),
     (''WGPUSurfaceDescriptorFromCanvasHTMLSelector'', struct_WGPUSurfaceDescriptorFromCanvasHTMLSelector),
     (''WGPUSurfaceDescriptorFromMetalLayer'', struct_WGPUSurfaceDescriptorFromMetalLayer),
     (''WGPUSurfaceDescriptorFromWaylandSurface'', struct_WGPUSurfaceDescriptorFromWaylandSurface),
     (''WGPUSurfaceDescriptorFromWindowsHWND'', struct_WGPUSurfaceDescriptorFromWindowsHWND),
     (''WGPUSurfaceDescriptorFromWindowsCoreWindow'', struct_WGPUSurfaceDescriptorFromWindowsCoreWindow),
     (''WGPUSurfaceDescriptorFromWindowsSwapChainPanel'', struct_WGPUSurfaceDescriptorFromWindowsSwapChainPanel),
     (''WGPUSurfaceDescriptorFromXlibWindow'', struct_WGPUSurfaceDescriptorFromXlibWindow),
     (''WGPUSwapChainDescriptor'', struct_WGPUSwapChainDescriptor),
     (''WGPUTextureBindingLayout'', struct_WGPUTextureBindingLayout),
     (''WGPUTextureBindingViewDimensionDescriptor'', struct_WGPUTextureBindingViewDimensionDescriptor),
     (''WGPUTextureDataLayout'', struct_WGPUTextureDataLayout),
     (''WGPUTextureViewDescriptor'', struct_WGPUTextureViewDescriptor),
     (''WGPUVertexAttribute'', struct_WGPUVertexAttribute),
     (''WGPUAdapterPropertiesMemoryHeaps'', struct_WGPUAdapterPropertiesMemoryHeaps),
     (''WGPUBindGroupDescriptor'', struct_WGPUBindGroupDescriptor),
     (''WGPUBindGroupLayoutEntry'', struct_WGPUBindGroupLayoutEntry),
     (''WGPUBlendState'', struct_WGPUBlendState),
     (''WGPUCompilationInfo'', struct_WGPUCompilationInfo),
     (''WGPUComputePassDescriptor'', struct_WGPUComputePassDescriptor),
     (''WGPUDepthStencilState'', struct_WGPUDepthStencilState),
     (''WGPUDrmFormatCapabilities'', struct_WGPUDrmFormatCapabilities),
     (''WGPUExternalTextureDescriptor'', struct_WGPUExternalTextureDescriptor),
     (''WGPUFutureWaitInfo'', struct_WGPUFutureWaitInfo),
     (''WGPUImageCopyBuffer'', struct_WGPUImageCopyBuffer),
     (''WGPUImageCopyExternalTexture'', struct_WGPUImageCopyExternalTexture),
     (''WGPUImageCopyTexture'', struct_WGPUImageCopyTexture),
     (''WGPUInstanceDescriptor'', struct_WGPUInstanceDescriptor),
     (''WGPUPipelineLayoutPixelLocalStorage'', struct_WGPUPipelineLayoutPixelLocalStorage),
     (''WGPUProgrammableStageDescriptor'', struct_WGPUProgrammableStageDescriptor),
     (''WGPURenderPassColorAttachment'', struct_WGPURenderPassColorAttachment),
     (''WGPURenderPassStorageAttachment'', struct_WGPURenderPassStorageAttachment),
     (''WGPURequiredLimits'', struct_WGPURequiredLimits),
     (''WGPUSharedTextureMemoryDmaBufDescriptor'', struct_WGPUSharedTextureMemoryDmaBufDescriptor),
     (''WGPUSharedTextureMemoryProperties'', struct_WGPUSharedTextureMemoryProperties),
     (''WGPUSharedTextureMemoryVkImageDescriptor'', struct_WGPUSharedTextureMemoryVkImageDescriptor),
     (''WGPUSupportedLimits'', struct_WGPUSupportedLimits),
     (''WGPUTextureDescriptor'', struct_WGPUTextureDescriptor),
     (''WGPUVertexBufferLayout'', struct_WGPUVertexBufferLayout),
     (''WGPUBindGroupLayoutDescriptor'', struct_WGPUBindGroupLayoutDescriptor),
     (''WGPUColorTargetState'', struct_WGPUColorTargetState),
     (''WGPUComputePipelineDescriptor'', struct_WGPUComputePipelineDescriptor),
     (''WGPUDeviceDescriptor'', struct_WGPUDeviceDescriptor),
     (''WGPURenderPassDescriptor'', struct_WGPURenderPassDescriptor),
     (''WGPURenderPassPixelLocalStorage'', struct_WGPURenderPassPixelLocalStorage),
     (''WGPUVertexState'', struct_WGPUVertexState),
     (''WGPUFragmentState'', struct_WGPUFragmentState),
     (''WGPURenderPipelineDescriptor'', struct_WGPURenderPipelineDescriptor)]"

lemmas struct_defs =
  struct_WGPUChainedStruct_def
  struct_WGPUChainedStructOut_def
  struct_WGPUAdapterProperties_def
  struct_WGPUAdapterPropertiesD3D_def
  struct_WGPUAdapterPropertiesVk_def
  struct_WGPUBindGroupEntry_def
  struct_WGPUBlendComponent_def
  struct_WGPUBufferBindingLayout_def
  struct_WGPUBufferDescriptor_def
  struct_WGPUBufferHostMappedPointer_def
  struct_WGPUBufferMapCallbackInfo_def
  struct_WGPUColor_def
  struct_WGPUCommandBufferDescriptor_def
  struct_WGPUCommandEncoderDescriptor_def
  struct_WGPUCompilationInfoCallbackInfo_def
  struct_WGPUCompilationMessage_def
  struct_WGPUComputePassTimestampWrites_def
  struct_WGPUConstantEntry_def
  struct_WGPUCopyTextureForBrowserOptions_def
  struct_WGPUCreateComputePipelineAsyncCallbackInfo_def
  struct_WGPUCreateRenderPipelineAsyncCallbackInfo_def
  struct_WGPUDawnWGSLBlocklist_def
  struct_WGPUDawnAdapterPropertiesPowerPreference_def
  struct_WGPUDawnBufferDescriptorErrorInfoFromWireClient_def
  struct_WGPUDawnCacheDeviceDescriptor_def
  struct_WGPUDawnComputePipelineFullSubgroups_def
  struct_WGPUDawnEncoderInternalUsageDescriptor_def
  struct_WGPUDawnExperimentalSubgroupLimits_def
  struct_WGPUDawnMultisampleStateRenderToSingleSampled_def
  struct_WGPUDawnRenderPassColorAttachmentRenderToSingleSampled_def
  struct_WGPUDawnShaderModuleSPIRVOptionsDescriptor_def
  struct_WGPUDawnTextureInternalUsageDescriptor_def
  struct_WGPUDawnTogglesDescriptor_def
  struct_WGPUDawnWireWGSLControl_def
  struct_WGPUDepthStencilStateDepthWriteDefinedDawn_def
  struct_WGPUDrmFormatProperties_def
  struct_WGPUExtent2D_def
  struct_WGPUExtent3D_def
  struct_WGPUExternalTextureBindingEntry_def
  struct_WGPUExternalTextureBindingLayout_def
  struct_WGPUFormatCapabilities_def
  struct_WGPUFuture_def
  struct_WGPUInstanceFeatures_def
  struct_WGPULimits_def
  struct_WGPUMemoryHeapInfo_def
  struct_WGPUMultisampleState_def
  struct_WGPUOrigin2D_def
  struct_WGPUOrigin3D_def
  struct_WGPUPipelineLayoutDescriptor_def
  struct_WGPUPipelineLayoutStorageAttachment_def
  struct_WGPUPopErrorScopeCallbackInfo_def
  struct_WGPUPrimitiveDepthClipControl_def
  struct_WGPUPrimitiveState_def
  struct_WGPUQuerySetDescriptor_def
  struct_WGPUQueueDescriptor_def
  struct_WGPUQueueWorkDoneCallbackInfo_def
  struct_WGPURenderBundleDescriptor_def
  struct_WGPURenderBundleEncoderDescriptor_def
  struct_WGPURenderPassDepthStencilAttachment_def
  struct_WGPURenderPassDescriptorMaxDrawCount_def
  struct_WGPURenderPassTimestampWrites_def
  struct_WGPURequestAdapterCallbackInfo_def
  struct_WGPURequestAdapterOptions_def
  struct_WGPURequestDeviceCallbackInfo_def
  struct_WGPUSamplerBindingLayout_def
  struct_WGPUSamplerDescriptor_def
  struct_WGPUShaderModuleSPIRVDescriptor_def
  struct_WGPUShaderModuleWGSLDescriptor_def
  struct_WGPUShaderModuleDescriptor_def
  struct_WGPUSharedBufferMemoryBeginAccessDescriptor_def
  struct_WGPUSharedBufferMemoryDescriptor_def
  struct_WGPUSharedBufferMemoryEndAccessState_def
  struct_WGPUSharedBufferMemoryProperties_def
  struct_WGPUSharedFenceDXGISharedHandleDescriptor_def
  struct_WGPUSharedFenceDXGISharedHandleExportInfo_def
  struct_WGPUSharedFenceMTLSharedEventDescriptor_def
  struct_WGPUSharedFenceMTLSharedEventExportInfo_def
  struct_WGPUSharedFenceDescriptor_def
  struct_WGPUSharedFenceExportInfo_def
  struct_WGPUSharedFenceVkSemaphoreOpaqueFDDescriptor_def
  struct_WGPUSharedFenceVkSemaphoreOpaqueFDExportInfo_def
  struct_WGPUSharedFenceVkSemaphoreSyncFDDescriptor_def
  struct_WGPUSharedFenceVkSemaphoreSyncFDExportInfo_def
  struct_WGPUSharedFenceVkSemaphoreZirconHandleDescriptor_def
  struct_WGPUSharedFenceVkSemaphoreZirconHandleExportInfo_def
  struct_WGPUSharedTextureMemoryDXGISharedHandleDescriptor_def
  struct_WGPUSharedTextureMemoryEGLImageDescriptor_def
  struct_WGPUSharedTextureMemoryIOSurfaceDescriptor_def
  struct_WGPUSharedTextureMemoryAHardwareBufferDescriptor_def
  struct_WGPUSharedTextureMemoryBeginAccessDescriptor_def
  struct_WGPUSharedTextureMemoryDescriptor_def
  struct_WGPUSharedTextureMemoryDmaBufPlane_def
  struct_WGPUSharedTextureMemoryEndAccessState_def
  struct_WGPUSharedTextureMemoryOpaqueFDDescriptor_def
  struct_WGPUSharedTextureMemoryVkDedicatedAllocationDescriptor_def
  struct_WGPUSharedTextureMemoryVkImageLayoutBeginState_def
  struct_WGPUSharedTextureMemoryVkImageLayoutEndState_def
  struct_WGPUSharedTextureMemoryZirconHandleDescriptor_def
  struct_WGPUStaticSamplerBindingLayout_def
  struct_WGPUStencilFaceState_def
  struct_WGPUStorageTextureBindingLayout_def
  struct_WGPUSurfaceDescriptor_def
  struct_WGPUSurfaceDescriptorFromAndroidNativeWindow_def
  struct_WGPUSurfaceDescriptorFromCanvasHTMLSelector_def
  struct_WGPUSurfaceDescriptorFromMetalLayer_def
  struct_WGPUSurfaceDescriptorFromWaylandSurface_def
  struct_WGPUSurfaceDescriptorFromWindowsHWND_def
  struct_WGPUSurfaceDescriptorFromWindowsCoreWindow_def
  struct_WGPUSurfaceDescriptorFromWindowsSwapChainPanel_def
  struct_WGPUSurfaceDescriptorFromXlibWindow_def
  struct_WGPUSwapChainDescriptor_def
  struct_WGPUTextureBindingLayout_def
  struct_WGPUTextureBindingViewDimensionDescriptor_def
  struct_WGPUTextureDataLayout_def
  struct_WGPUTextureViewDescriptor_def
  struct_WGPUVertexAttribute_def
  struct_WGPUAdapterPropertiesMemoryHeaps_def
  struct_WGPUBindGroupDescriptor_def
  struct_WGPUBindGroupLayoutEntry_def
  struct_WGPUBlendState_def
  struct_WGPUCompilationInfo_def
  struct_WGPUComputePassDescriptor_def
  struct_WGPUDepthStencilState_def
  struct_WGPUDrmFormatCapabilities_def
  struct_WGPUExternalTextureDescriptor_def
  struct_WGPUFutureWaitInfo_def
  struct_WGPUImageCopyBuffer_def
  struct_WGPUImageCopyExternalTexture_def
  struct_WGPUImageCopyTexture_def
  struct_WGPUInstanceDescriptor_def
  struct_WGPUPipelineLayoutPixelLocalStorage_def
  struct_WGPUProgrammableStageDescriptor_def
  struct_WGPURenderPassColorAttachment_def
  struct_WGPURenderPassStorageAttachment_def
  struct_WGPURequiredLimits_def
  struct_WGPUSharedTextureMemoryDmaBufDescriptor_def
  struct_WGPUSharedTextureMemoryProperties_def
  struct_WGPUSharedTextureMemoryVkImageDescriptor_def
  struct_WGPUSupportedLimits_def
  struct_WGPUTextureDescriptor_def
  struct_WGPUVertexBufferLayout_def
  struct_WGPUBindGroupLayoutDescriptor_def
  struct_WGPUColorTargetState_def
  struct_WGPUComputePipelineDescriptor_def
  struct_WGPUDeviceDescriptor_def
  struct_WGPURenderPassDescriptor_def
  struct_WGPURenderPassPixelLocalStorage_def
  struct_WGPUVertexState_def
  struct_WGPUFragmentState_def
  struct_WGPURenderPipelineDescriptor_def

section \<open>Reading and writing members\<close>

text \<open>The members of a structure at \<open>base\<close> are set to values, given as bytes.\<close>

fun store_fields :: "block \<Rightarrow> nat \<Rightarrow> (string \<times> nat \<times> nat) list \<Rightarrow> byte list list \<Rightarrow> block result" where
  "store_fields b base ((n, p, s) # fs) (v # vs) =
     rbind (store_bytes b (base + p) v) (\<lambda>b'. store_fields b' base fs vs)"
| "store_fields b base fs vs = Inr b"

definition fits :: "(string \<times> nat \<times> nat) list \<Rightarrow> byte list list \<Rightarrow> bool" where
  "fits fs vs \<longleftrightarrow> map (snd \<circ> snd) fs = map length vs"

lemma in_block_part: "in_block b base n \<Longrightarrow> p + s \<le> n \<Longrightarrow> in_block b (base + p) s"
  by (simp add: in_block_def)

lemma peek_cong: "(\<And>j. i \<le> j \<Longrightarrow> j < i + n \<Longrightarrow> bdata b j = bdata b' j) \<Longrightarrow> peek b i n = peek b' i n"
  by (simp add: peek_def)

lemma store_fields_ok:
  assumes "in_block b base sz" "fits fs vs" "\<forall>(n, p, s) \<in> set fs. p + s \<le> sz"
    and "sorted_wrt (\<lambda>(n, p, s) (n', p', s'). p + s \<le> p') fs"
  shows "\<exists>b'. store_fields b base fs vs = Inr b' \<and> (\<forall>j n. in_block b' j n = in_block b j n)
    \<and> (\<forall>j. (\<forall>(n, p, s) \<in> set fs. j < base + p \<or> base + p + s \<le> j) \<longrightarrow> bdata b' j = bdata b j)
    \<and> list_all2 (\<lambda>(n, p, s) v. peek b' (base + p) s = v) fs vs"
  using assms
proof (induction b base fs vs rule: store_fields.induct)
  case (1 b base n p s fs v vs)
  have len: "length v = s" and f: "fits fs vs" using 1(3) by (simp_all add: fits_def)
  have blk: "in_block b (base + p) (length v)" using 1(2,4) len by (auto intro: in_block_part)
  let ?b = "poke b (base + p) v"
  from 1(1) [of ?b] 1(2,4,5) f obtain b' where b': "store_fields ?b base fs vs = Inr b'"
      "\<forall>j n. in_block b' j n = in_block ?b j n"
      "\<forall>j. (\<forall>(n, p, s) \<in> set fs. j < base + p \<or> base + p + s \<le> j) \<longrightarrow> bdata b' j = bdata ?b j"
      "list_all2 (\<lambda>(n, p, s) v. peek b' (base + p) s = v) fs vs"
    by (auto simp: store_bytes_in [OF blk])
  have "peek b' (base + p) s = peek ?b (base + p) s"
  proof (rule peek_cong)
    fix j
    assume "base + p \<le> j" "j < base + p + s"
    moreover have "\<forall>(n', p', s') \<in> set fs. p + s \<le> p'" using 1(5) by simp
    ultimately have "\<forall>(n, p, s) \<in> set fs. j < base + p \<or> base + p + s \<le> j" by fastforce
    with b'(3) show "bdata b' j = bdata ?b j" by blast
  qed
  then have "peek b' (base + p) s = v" by (simp add: peek_poke_same len)
  moreover have "bdata b' j = bdata b j" if "\<forall>(n, p, s) \<in> set ((n, p, s) # fs). j < base + p \<or> base + p + s \<le> j" for j
  proof -
    have "bdata b' j = bdata ?b j" using b'(3) that by simp
    also have "\<dots> = bdata b j" using that len by (auto simp: poke_def)
    finally show ?thesis .
  qed
  ultimately show ?case using b' by (simp add: store_bytes_in [OF blk])
qed (auto simp: fits_def)

lemma structs_complete: "list_all (\<lambda>(name, ms). complete (Inline ms)) webgpu_structs"
  by (simp add: webgpu_structs_def struct_defs)

lemma structs_distinct: "list_all (\<lambda>(name, ms). distinct (map fst ms)) webgpu_structs"
  by (simp add: webgpu_structs_def struct_defs)

text \<open>A descriptor of a buffer, 40 bytes with padding after \<open>usage\<close> and \<open>mappedAtCreation\<close>.\<close>

lemma BufferDescriptor_layout:
  "layout struct_WGPUBufferDescriptor
     = [(''nextInChain'', 0, 8), (''label'', 8, 8), (''usage'', 16, 4), (''size'', 24, 8), (''mappedAtCreation'', 32, 4)]"
  "sizeof struct_WGPUBufferDescriptor = 40" "alignof struct_WGPUBufferDescriptor = 8"
  by (simp_all add: layout_def sizeof_def alignof_def struct_WGPUBufferDescriptor_def align_up_def alignment_def Let_def)

section \<open>Chained structures\<close>

text \<open>
  A structure with the member \<open>nextInChain\<close> can be extended by others: \<open>nextInChain\<close> points to their member
  \<open>chain\<close>, which says by its \<open>sType\<close> what it belongs to. The extensions with their types, and
  the structures that the comments of the header say they can be chained in.
\<close>

definition chainable :: "(WGPUSType \<times> members \<times> members list) list" where
  "chainable =
    [(WGPUSType_SurfaceDescriptorFromMetalLayer, struct_WGPUSurfaceDescriptorFromMetalLayer, [struct_WGPUSurfaceDescriptor]),
     (WGPUSType_SurfaceDescriptorFromWindowsHWND, struct_WGPUSurfaceDescriptorFromWindowsHWND, [struct_WGPUSurfaceDescriptor]),
     (WGPUSType_SurfaceDescriptorFromXlibWindow, struct_WGPUSurfaceDescriptorFromXlibWindow, [struct_WGPUSurfaceDescriptor]),
     (WGPUSType_SurfaceDescriptorFromCanvasHTMLSelector, struct_WGPUSurfaceDescriptorFromCanvasHTMLSelector, [struct_WGPUSurfaceDescriptor]),
     (WGPUSType_ShaderModuleSPIRVDescriptor, struct_WGPUShaderModuleSPIRVDescriptor, [struct_WGPUShaderModuleDescriptor]),
     (WGPUSType_ShaderModuleWGSLDescriptor, struct_WGPUShaderModuleWGSLDescriptor, [struct_WGPUShaderModuleDescriptor]),
     (WGPUSType_PrimitiveDepthClipControl, struct_WGPUPrimitiveDepthClipControl, [struct_WGPUPrimitiveState]),
     (WGPUSType_SurfaceDescriptorFromWaylandSurface, struct_WGPUSurfaceDescriptorFromWaylandSurface, [struct_WGPUSurfaceDescriptor]),
     (WGPUSType_SurfaceDescriptorFromAndroidNativeWindow, struct_WGPUSurfaceDescriptorFromAndroidNativeWindow, [struct_WGPUSurfaceDescriptor]),
     (WGPUSType_SurfaceDescriptorFromWindowsCoreWindow, struct_WGPUSurfaceDescriptorFromWindowsCoreWindow, [struct_WGPUSurfaceDescriptor]),
     (WGPUSType_ExternalTextureBindingEntry, struct_WGPUExternalTextureBindingEntry, [struct_WGPUBindGroupEntry]),
     (WGPUSType_ExternalTextureBindingLayout, struct_WGPUExternalTextureBindingLayout, [struct_WGPUBindGroupLayoutEntry]),
     (WGPUSType_SurfaceDescriptorFromWindowsSwapChainPanel, struct_WGPUSurfaceDescriptorFromWindowsSwapChainPanel, [struct_WGPUSurfaceDescriptor]),
     (WGPUSType_RenderPassDescriptorMaxDrawCount, struct_WGPURenderPassDescriptorMaxDrawCount, [struct_WGPURenderPassDescriptor]),
     (WGPUSType_DepthStencilStateDepthWriteDefinedDawn, struct_WGPUDepthStencilStateDepthWriteDefinedDawn, [struct_WGPUDepthStencilState]),
     (WGPUSType_TextureBindingViewDimensionDescriptor, struct_WGPUTextureBindingViewDimensionDescriptor, [struct_WGPUTextureDescriptor]),
     (WGPUSType_DawnTextureInternalUsageDescriptor, struct_WGPUDawnTextureInternalUsageDescriptor, [struct_WGPUTextureDescriptor]),
     (WGPUSType_DawnEncoderInternalUsageDescriptor, struct_WGPUDawnEncoderInternalUsageDescriptor, [struct_WGPUCommandEncoderDescriptor]),
     (WGPUSType_DawnCacheDeviceDescriptor, struct_WGPUDawnCacheDeviceDescriptor, [struct_WGPUDeviceDescriptor]),
     (WGPUSType_DawnAdapterPropertiesPowerPreference, struct_WGPUDawnAdapterPropertiesPowerPreference, [struct_WGPUAdapterProperties]),
     (WGPUSType_DawnBufferDescriptorErrorInfoFromWireClient, struct_WGPUDawnBufferDescriptorErrorInfoFromWireClient, [struct_WGPUBufferDescriptor]),
     (WGPUSType_DawnTogglesDescriptor, struct_WGPUDawnTogglesDescriptor, [struct_WGPUDeviceDescriptor, struct_WGPURequestAdapterOptions, struct_WGPUInstanceDescriptor]),
     (WGPUSType_DawnShaderModuleSPIRVOptionsDescriptor, struct_WGPUDawnShaderModuleSPIRVOptionsDescriptor, [struct_WGPUShaderModuleDescriptor]),
     (WGPUSType_DawnMultisampleStateRenderToSingleSampled, struct_WGPUDawnMultisampleStateRenderToSingleSampled, [struct_WGPUMultisampleState]),
     (WGPUSType_DawnRenderPassColorAttachmentRenderToSingleSampled, struct_WGPUDawnRenderPassColorAttachmentRenderToSingleSampled, [struct_WGPURenderPassColorAttachment]),
     (WGPUSType_RenderPassPixelLocalStorage, struct_WGPURenderPassPixelLocalStorage, [struct_WGPURenderPassDescriptor]),
     (WGPUSType_PipelineLayoutPixelLocalStorage, struct_WGPUPipelineLayoutPixelLocalStorage, [struct_WGPUPipelineLayoutDescriptor]),
     (WGPUSType_BufferHostMappedPointer, struct_WGPUBufferHostMappedPointer, [struct_WGPUBufferDescriptor]),
     (WGPUSType_DawnExperimentalSubgroupLimits, struct_WGPUDawnExperimentalSubgroupLimits, [struct_WGPUSupportedLimits]),
     (WGPUSType_AdapterPropertiesMemoryHeaps, struct_WGPUAdapterPropertiesMemoryHeaps, [struct_WGPUAdapterProperties]),
     (WGPUSType_AdapterPropertiesD3D, struct_WGPUAdapterPropertiesD3D, [struct_WGPUAdapterProperties]),
     (WGPUSType_AdapterPropertiesVk, struct_WGPUAdapterPropertiesVk, [struct_WGPUAdapterProperties]),
     (WGPUSType_DawnComputePipelineFullSubgroups, struct_WGPUDawnComputePipelineFullSubgroups, [struct_WGPUComputePipelineDescriptor]),
     (WGPUSType_DawnWireWGSLControl, struct_WGPUDawnWireWGSLControl, [struct_WGPUInstanceDescriptor]),
     (WGPUSType_DawnWGSLBlocklist, struct_WGPUDawnWGSLBlocklist, [struct_WGPUInstanceDescriptor]),
     (WGPUSType_DrmFormatCapabilities, struct_WGPUDrmFormatCapabilities, [struct_WGPUFormatCapabilities]),
     (WGPUSType_SharedTextureMemoryVkImageDescriptor, struct_WGPUSharedTextureMemoryVkImageDescriptor, [struct_WGPUSharedTextureMemoryDescriptor]),
     (WGPUSType_SharedTextureMemoryVkDedicatedAllocationDescriptor, struct_WGPUSharedTextureMemoryVkDedicatedAllocationDescriptor, [struct_WGPUSharedTextureMemoryDescriptor]),
     (WGPUSType_SharedTextureMemoryAHardwareBufferDescriptor, struct_WGPUSharedTextureMemoryAHardwareBufferDescriptor, [struct_WGPUSharedTextureMemoryDescriptor]),
     (WGPUSType_SharedTextureMemoryDmaBufDescriptor, struct_WGPUSharedTextureMemoryDmaBufDescriptor, [struct_WGPUSharedTextureMemoryDescriptor]),
     (WGPUSType_SharedTextureMemoryOpaqueFDDescriptor, struct_WGPUSharedTextureMemoryOpaqueFDDescriptor, [struct_WGPUSharedTextureMemoryDescriptor]),
     (WGPUSType_SharedTextureMemoryZirconHandleDescriptor, struct_WGPUSharedTextureMemoryZirconHandleDescriptor, [struct_WGPUSharedTextureMemoryDescriptor]),
     (WGPUSType_SharedTextureMemoryDXGISharedHandleDescriptor, struct_WGPUSharedTextureMemoryDXGISharedHandleDescriptor, [struct_WGPUSharedTextureMemoryDescriptor]),
     (WGPUSType_SharedTextureMemoryIOSurfaceDescriptor, struct_WGPUSharedTextureMemoryIOSurfaceDescriptor, [struct_WGPUSharedTextureMemoryDescriptor]),
     (WGPUSType_SharedTextureMemoryEGLImageDescriptor, struct_WGPUSharedTextureMemoryEGLImageDescriptor, [struct_WGPUSharedTextureMemoryDescriptor]),
     (WGPUSType_SharedTextureMemoryVkImageLayoutBeginState, struct_WGPUSharedTextureMemoryVkImageLayoutBeginState, [struct_WGPUSharedTextureMemoryBeginAccessDescriptor]),
     (WGPUSType_SharedTextureMemoryVkImageLayoutEndState, struct_WGPUSharedTextureMemoryVkImageLayoutEndState, [struct_WGPUSharedTextureMemoryEndAccessState]),
     (WGPUSType_SharedFenceVkSemaphoreOpaqueFDDescriptor, struct_WGPUSharedFenceVkSemaphoreOpaqueFDDescriptor, [struct_WGPUSharedFenceDescriptor]),
     (WGPUSType_SharedFenceVkSemaphoreOpaqueFDExportInfo, struct_WGPUSharedFenceVkSemaphoreOpaqueFDExportInfo, [struct_WGPUSharedFenceExportInfo]),
     (WGPUSType_SharedFenceVkSemaphoreSyncFDDescriptor, struct_WGPUSharedFenceVkSemaphoreSyncFDDescriptor, [struct_WGPUSharedFenceDescriptor]),
     (WGPUSType_SharedFenceVkSemaphoreSyncFDExportInfo, struct_WGPUSharedFenceVkSemaphoreSyncFDExportInfo, [struct_WGPUSharedFenceExportInfo]),
     (WGPUSType_SharedFenceVkSemaphoreZirconHandleDescriptor, struct_WGPUSharedFenceVkSemaphoreZirconHandleDescriptor, [struct_WGPUSharedFenceDescriptor]),
     (WGPUSType_SharedFenceVkSemaphoreZirconHandleExportInfo, struct_WGPUSharedFenceVkSemaphoreZirconHandleExportInfo, [struct_WGPUSharedFenceExportInfo]),
     (WGPUSType_SharedFenceDXGISharedHandleDescriptor, struct_WGPUSharedFenceDXGISharedHandleDescriptor, [struct_WGPUSharedFenceDescriptor]),
     (WGPUSType_SharedFenceDXGISharedHandleExportInfo, struct_WGPUSharedFenceDXGISharedHandleExportInfo, [struct_WGPUSharedFenceExportInfo]),
     (WGPUSType_SharedFenceMTLSharedEventDescriptor, struct_WGPUSharedFenceMTLSharedEventDescriptor, [struct_WGPUSharedFenceDescriptor]),
     (WGPUSType_SharedFenceMTLSharedEventExportInfo, struct_WGPUSharedFenceMTLSharedEventExportInfo, [struct_WGPUSharedFenceExportInfo]),
     (WGPUSType_StaticSamplerBindingLayout, struct_WGPUStaticSamplerBindingLayout, [struct_WGPUBindGroupLayoutEntry])]"

lemma chain_layout:
  "layout struct_WGPUChainedStruct = [(''next'', 0, 8), (''sType'', 8, 4)]" "sizeof struct_WGPUChainedStruct = 16"
  "layout struct_WGPUChainedStructOut = [(''next'', 0, 8), (''sType'', 8, 4)]" "sizeof struct_WGPUChainedStructOut = 16"
  by (simp_all add: layout_def sizeof_def struct_WGPUChainedStruct_def struct_WGPUChainedStructOut_def
      align_up_def alignment_def Let_def)

definition constants_of :: "(WGPUSType \<times> members \<times> members list) list \<Rightarrow> int list" where
  "constants_of cs = map (\<lambda>(t, ext, bases). WGPUSType_value t) cs"

text \<open>An extension fits a structure: the pointer and the member are both for input, or both for output.\<close>

definition extends :: "members \<Rightarrow> members \<Rightarrow> bool" where
  "extends ext base \<longleftrightarrow>
     hd ext = (''chain'', Inline struct_WGPUChainedStruct) \<and> hd base = (''nextInChain'', Plain (Pointer ''WGPUChainedStruct const''))
   \<or> hd ext = (''chain'', Inline struct_WGPUChainedStructOut) \<and> hd base = (''nextInChain'', Plain (Pointer ''WGPUChainedStructOut''))"

lemma chainable_extends: "list_all (\<lambda>(t, ext, bases). ext \<noteq> [] \<and> list_all (extends ext) bases) chainable"
  by (simp add: chainable_def extends_def struct_defs)

lemma chainable_types: "increasing (constants_of chainable)"
  by (simp add: chainable_def constants_of_def)

lemma chain_first:
  assumes "ext \<noteq> []" "extends ext base"
  shows "\<exists>fs. layout ext = (''chain'', 0, 16) # fs"
proof -
  obtain t ext' where e: "ext = (''chain'', t) # ext'" using assms by (cases ext) (auto simp: extends_def)
  then have "fst (size_align t) = 16"
    using assms(2) chain_layout by (auto simp: extends_def sizeof_def)
  moreover have "align_up 0 (snd (size_align t)) = 0" by (simp add: align_up_def size_align_positive)
  ultimately show ?thesis by (cases "size_align t") (simp add: e layout_def Let_def case_prod_unfold)
qed

text \<open>
  C24: Extensions of the structures: an extension is recognised through the pointer \<open>nextInChain\<close> of the
  structure it is chained in, whatever it is. Its chain is of the kind the pointer is for and comes first,
  so that at the address of the extension, read as a chained structure, are the next pointer and the type it was given;
  and the type says which extension it is. This is what the examples rely on when they cast the address
  of the shader source to \<open>WGPUChainedStruct*\<close>.
\<close>

theorem Extension_recognised:
  assumes "(t, ext, bases) \<in> set chainable" "base' \<in> set bases"
    and "in_block b a (sizeof ext)" "fits (layout ext) ((next @ stype @ pad) # vs)" "length next = 8" "length stype = 4"
  shows "extends ext base' \<and> layout struct_WGPUChainedStruct = [(''next'', 0, 8), (''sType'', 8, 4)]
    \<and> (\<exists>b'. store_fields b a (layout ext) ((next @ stype @ pad) # vs) = Inr b'
          \<and> load_bytes b' a 8 = Inr next \<and> load_bytes b' (a + 8) 4 = Inr stype)
    \<and> (\<forall>ext' bases'. (t, ext', bases') \<in> set chainable \<longrightarrow> ext' = ext)"
proof -
  have ext: "ext \<noteq> []" "extends ext base'"
    using chainable_extends assms(1,2) by (auto simp: list_all_iff)
  obtain fs where fs: "layout ext = (''chain'', 0, 16) # fs" using chain_first [OF ext] by blast
  note l = layout_sound [of ext]
  obtain b' where b': "store_fields b a (layout ext) ((next @ stype @ pad) # vs) = Inr b'" "\<forall>j n. in_block b' j n = in_block b j n"
      "list_all2 (\<lambda>(n, p, s) v. peek b' (a + p) s = v) (layout ext) ((next @ stype @ pad) # vs)"
    using store_fields_ok [OF assms(3,4) l(5,4)] by blast
  have "peek b' a (8 + (4 + 4)) = next @ stype @ pad" using b'(3) by (simp add: fs)
  then have "peek b' a 8 @ peek b' (a + 8) 4 @ peek b' (a + 8 + 4) 4 = next @ stype @ pad"
    by (simp only: peek_append)
  then have "peek b' a 8 = next" "peek b' (a + 8) 4 = stype" using assms(5,6) by simp_all
  moreover have "16 \<le> sizeof ext" using l(5) by (simp add: fs)
  then have "in_block b' a 8" "in_block b' (a + 8) 4"
    using in_block_part [OF assms(3), of 0 8] in_block_part [OF assms(3), of 8 4] by (simp_all add: b'(2))
  moreover have "ext' = ext" if "(t, ext', bases') \<in> set chainable" for ext' bases'
  proof -
    have "inj_on (\<lambda>(t, ext, bases). WGPUSType_value t) (set chainable)"
      using increasing_distinct [OF chainable_types] by (simp add: constants_of_def distinct_map)
    from inj_onD [OF this _ that assms(1)] show ?thesis by simp
  qed
  ultimately show ?thesis
    using ext(2) b'(1) chain_layout(1) by (auto simp: load_bytes_def)
qed

text \<open>The source of a shader, which the examples chain into the descriptor of a shader module.\<close>

lemma WGSLDescriptor_layout:
  "layout struct_WGPUShaderModuleWGSLDescriptor = [(''chain'', 0, 16), (''code'', 16, 8)]"
  "sizeof struct_WGPUShaderModuleWGSLDescriptor = 24"
  by (simp_all add: layout_def sizeof_def struct_WGPUShaderModuleWGSLDescriptor_def struct_WGPUChainedStruct_def
      align_up_def alignment_def Let_def)

lemma Extension_recognised_witness:
  "\<exists>b'. store_fields \<lparr>bsize = 24, bdata = \<lambda>_. 7\<rparr> 0 (layout struct_WGPUShaderModuleWGSLDescriptor)
         [replicate 8 0 @ [6, 0, 0, 0] @ replicate 4 0, replicate 8 3] = Inr b'
     \<and> load_bytes b' 8 4 = Inr [6, 0, 0, 0] \<and> WGPUSType_value WGPUSType_ShaderModuleWGSLDescriptor = 6
     \<and> extends struct_WGPUShaderModuleWGSLDescriptor struct_WGPUShaderModuleDescriptor"
proof -
  have "(WGPUSType_ShaderModuleWGSLDescriptor, struct_WGPUShaderModuleWGSLDescriptor, [struct_WGPUShaderModuleDescriptor])
      \<in> set chainable"
    unfolding chainable_def by (simp only: list.set insert_iff simp_thms)
  from Extension_recognised [OF this, of struct_WGPUShaderModuleDescriptor "\<lparr>bsize = 24, bdata = \<lambda>_. 7\<rparr>" 0
      "replicate 8 0" "[6, 0, 0, 0]" "replicate 4 0" "[replicate 8 3]"]
  show ?thesis by (auto simp: WGSLDescriptor_layout in_block_def fits_def PTRDIFF_MAX_def)
qed

end
