(* ===== verification/Parallel_Cells.thy ===== *)
theory Parallel_Cells
  imports DD_Prelude
begin

text \<open>
  Threads that work on a shared array: a pool of instruction lists, each with a local state, whose
  instructions interleave in any order. When every instruction uses at most one cell of the
  array and no two threads use the same cell, the schedule does not matter: each thread leaves
  in its cells what it would have left had it run alone. Used by the theories \<open>Matmul_Cpu\<close> and
  \<open>Matmul_Shader\<close>.
\<close>

section \<open>Running\<close>

type_synonym ('i, 'l, 'v) exec = "'i \<Rightarrow> 'l \<times> 'v list \<Rightarrow> ('l \<times> 'v list) result"

text \<open>A thread alone.\<close>

fun run_thread :: "('i, 'l, 'v) exec \<Rightarrow> 'i list \<Rightarrow> 'l \<times> 'v list \<Rightarrow> ('l \<times> 'v list) result" where
  "run_thread ex [] s = Inr s"
| "run_thread ex (i # is) s = rbind (ex i s) (run_thread ex is)"

lemma run_thread_append:
  "run_thread ex (is @ js) s = rbind (run_thread ex is s) (run_thread ex js)"
  by (induction "is" arbitrary: s) (simp_all add: rbind_def split: sum.split)

text \<open>
  The pool: the threads in the order in which they are created, how many have been created so
  far, and the shared array. A step creates the next thread, or runs the next instruction of a
  thread that has been created; a fault of an instruction ends everything.
\<close>

record ('i, 'l, 'v) pool =
  started :: nat
  threads :: "('i list \<times> 'l) list"
  cells :: "'v list"

inductive pool_step :: "('i, 'l, 'v) exec \<Rightarrow> ('i, 'l, 'v) pool \<Rightarrow> ('i, 'l, 'v) pool result \<Rightarrow> bool" for ex where
  create: "started p < length (threads p) \<Longrightarrow> pool_step ex p (Inr (p\<lparr>started := Suc (started p)\<rparr>))"
| exec: "t < started p \<Longrightarrow> t < length (threads p) \<Longrightarrow> threads p ! t = (i # is, l) \<Longrightarrow>
    ex i (l, cells p) = Inr (l', cs) \<Longrightarrow>
    pool_step ex p (Inr (p\<lparr>threads := (threads p)[t := (is, l')], cells := cs\<rparr>))"
| crash: "t < started p \<Longrightarrow> t < length (threads p) \<Longrightarrow> threads p ! t = (i # is, l) \<Longrightarrow>
    ex i (l, cells p) = Inl f \<Longrightarrow> pool_step ex p (Inl f)"

inductive pool_reach :: "('i, 'l, 'v) exec \<Rightarrow> ('i, 'l, 'v) pool \<Rightarrow> ('i, 'l, 'v) pool result \<Rightarrow> bool" for ex p where
  none: "pool_reach ex p (Inr p)"
| onward: "pool_reach ex p (Inr q) \<Longrightarrow> pool_step ex q r \<Longrightarrow> pool_reach ex p r"

definition pool_of :: "'l \<Rightarrow> 'v list \<Rightarrow> 'i list list \<Rightarrow> ('i, 'l, 'v) pool" where
  "pool_of l0 cs ps = \<lparr>started = 0, threads = map (\<lambda>c. (c, l0)) ps, cells = cs\<rparr>"

definition finished :: "('i, 'l, 'v) pool \<Rightarrow> bool" where
  "finished p \<longleftrightarrow> started p = length (threads p) \<and> (\<forall>th \<in> set (threads p). fst th = [])"

section \<open>Every schedule ends\<close>

definition work :: "('i, 'l, 'v) pool \<Rightarrow> nat" where
  "work p = (length (threads p) - started p) + (\<Sum>th\<leftarrow>threads p. length (fst th))"

lemma work_sum_update:
  "t < length ths \<Longrightarrow> ths ! t = (i # is, l) \<Longrightarrow>
   (\<Sum>th\<leftarrow>ths. length (fst th)) = Suc (\<Sum>th\<leftarrow>ths[t := (is, l')]. length (fst th))"
proof (induction ths arbitrary: t)
  case (Cons th ths)
  then show ?case by (cases t) auto
qed simp

lemma pool_step_work:
  assumes "pool_step ex p (Inr q)"
  shows "work p = Suc (work q)"
  using assms
proof (cases rule: pool_step.cases)
  case (exec t i "is" l l' cs)
  with work_sum_update [of t "threads p" i "is" l l'] show ?thesis
    by (simp add: work_def)
qed (auto simp: work_def)

lemma pool_progress:
  assumes "\<not> finished p" "started p \<le> length (threads p)"
  shows "\<exists>r. pool_step ex p r"
proof (cases "started p < length (threads p)")
  case True
  then show ?thesis by (blast intro: pool_step.create)
next
  case False
  then have st: "started p = length (threads p)" using assms(2) by simp
  then obtain t where t: "t < length (threads p)" "fst (threads p ! t) \<noteq> []"
    using assms(1) by (auto simp: finished_def in_set_conv_nth)
  then obtain i "is" l where th: "threads p ! t = (i # is, l)"
    by (metis list.exhaust prod.collapse)
  show ?thesis
  proof (cases "ex i (l, cells p)")
    case (Inl f)
    then show ?thesis using t th st by (metis pool_step.crash)
  next
    case (Inr r)
    then show ?thesis using t th st by (metis pool_step.exec surj_pair)
  qed
qed

text \<open>A schedule cannot go on for more steps than there are threads and instructions.\<close>

lemma schedule_work:
  "(\<And>k. k < n \<Longrightarrow> pool_step ex (run k) (Inr (run (Suc k)))) \<Longrightarrow> work (run 0) = n + work (run n)"
proof (induction n)
  case (Suc n)
  then show ?case using pool_step_work [of ex "run n" "run (Suc n)"] by simp
qed simp

lemma finished_work: "finished p \<Longrightarrow> work p = 0"
  by (simp add: finished_def work_def sum_list_eq_0_iff)

lemma work_pool_of: "work (pool_of l0 cs ps) = length ps + (\<Sum>c\<leftarrow>ps. length c)"
  by (simp add: work_def pool_of_def comp_def)

section \<open>Threads with cells of their own\<close>

text \<open>
  An instruction uses at most one cell: it changes no other, and what it does depends on no
  other (it may depend on how long the array is).
\<close>

locale cell_threads =
  fixes ex :: "('i, 'l, 'v) exec" and cell :: "'i \<Rightarrow> nat option"
  assumes writes_cell: "ex i (l, cs) = Inr (l', cs') \<Longrightarrow>
        length cs' = length cs \<and> (\<forall>x < length cs. cell i \<noteq> Some x \<longrightarrow> cs' ! x = cs ! x)"
    and reads_cell: "ex i (l, cs) = Inr (l', cs') \<Longrightarrow> length ds = length cs \<Longrightarrow>
        (\<And>x. cell i = Some x \<Longrightarrow> x < length cs \<Longrightarrow> ds ! x = cs ! x) \<Longrightarrow>
        \<exists>ds'. ex i (l, ds) = Inr (l', ds') \<and> (\<forall>x < length cs. cell i = Some x \<longrightarrow> ds' ! x = cs' ! x)"
    and cell_in_range: "ex i (l, cs) = Inr (l', cs') \<Longrightarrow> cell i = Some x \<Longrightarrow> x < length cs"
begin

definition footprint :: "'i list \<Rightarrow> nat set" where
  "footprint is = {x. \<exists>i \<in> set is. cell i = Some x}"

definition disjoint_footprints :: "'i list list \<Rightarrow> bool" where
  "disjoint_footprints ps \<longleftrightarrow>
     (\<forall>t < length ps. \<forall>u < length ps. t \<noteq> u \<longrightarrow> footprint (ps ! t) \<inter> footprint (ps ! u) = {})"

text \<open>
  A thread that has run the part \<open>ran\<close> of its code and has its own cells as if it had run alone.
\<close>

definition as_alone :: "'l \<Rightarrow> 'v list \<Rightarrow> 'i list \<Rightarrow> 'i list \<times> 'l \<Rightarrow> 'v list \<Rightarrow> bool" where
  "as_alone l0 cs0 code th cs \<longleftrightarrow>
     (\<exists>ran as. code = ran @ fst th \<and> run_thread ex ran (l0, cs0) = Inr (snd th, as) \<and> length as = length cs0
        \<and> (\<forall>x < length cs0. x \<in> footprint code \<longrightarrow> cs ! x = as ! x))"

definition pool_inv :: "'l \<Rightarrow> 'v list \<Rightarrow> 'i list list \<Rightarrow> ('i, 'l, 'v) pool \<Rightarrow> bool" where
  "pool_inv l0 cs0 ps p \<longleftrightarrow>
     started p \<le> length (threads p) \<and> length (threads p) = length ps \<and> length (cells p) = length cs0
     \<and> (\<forall>t < length ps. as_alone l0 cs0 (ps ! t) (threads p ! t) (cells p))
     \<and> (\<forall>x < length cs0. (\<forall>t < length ps. x \<notin> footprint (ps ! t)) \<longrightarrow> cells p ! x = cs0 ! x)"

lemma pool_inv_start: "pool_inv l0 cs0 ps (pool_of l0 cs0 ps)"
  by (auto simp: pool_inv_def pool_of_def as_alone_def)

lemma as_alone_other:
  assumes "as_alone l0 cs0 code th cs" "\<And>x. x < length cs0 \<Longrightarrow> x \<in> footprint code \<Longrightarrow> cs' ! x = cs ! x"
  shows "as_alone l0 cs0 code th cs'"
  using assms by (force simp: as_alone_def)

lemma as_alone_step:
  assumes "as_alone l0 cs0 code (i # is, l) cs" "length cs = length cs0"
    and "ex i (l, cs) = Inr (l', cs')"
  shows "as_alone l0 cs0 code (is, l') cs'"
proof -
  obtain ran as where a: "code = ran @ i # is" "run_thread ex ran (l0, cs0) = Inr (l, as)" "length as = length cs0"
      "\<And>x. x < length cs0 \<Longrightarrow> x \<in> footprint code \<Longrightarrow> cs ! x = as ! x"
    using assms(1) by (auto simp: as_alone_def)
  have own: "cell i = Some x \<Longrightarrow> x \<in> footprint code" for x
    by (auto simp: a(1) footprint_def)
  obtain as' where as': "ex i (l, as) = Inr (l', as')" "\<And>x. x < length cs \<Longrightarrow> cell i = Some x \<Longrightarrow> as' ! x = cs' ! x"
    using reads_cell [OF assms(3), of as] a(3,4) own assms(2) by force
  have "cs' ! x = as' ! x" if x: "x < length cs0" "x \<in> footprint code" for x
    using writes_cell [OF assms(3)] writes_cell [OF as'(1)] as'(2) [of x] a(3) a(4) [OF x] assms(2) x(1)
    by (cases "cell i = Some x") auto
  moreover have "run_thread ex (ran @ [i]) (l0, cs0) = Inr (l', as')"
    by (simp add: run_thread_append a(2) as'(1))
  moreover have "length as' = length cs0" using writes_cell [OF as'(1)] a(3) by simp
  ultimately show ?thesis
    unfolding as_alone_def by (intro exI [of _ "ran @ [i]"] exI [of _ as']) (simp add: a(1))
qed

text \<open>A thread that faults in the pool faults alone.\<close>

lemma as_alone_crash:
  assumes "as_alone l0 cs0 code (i # is, l) cs" "length cs = length cs0" "ex i (l, cs) = Inl f"
  shows "\<exists>g. run_thread ex code (l0, cs0) = Inl g"
proof -
  obtain ran as where a: "code = ran @ i # is" "run_thread ex ran (l0, cs0) = Inr (l, as)" "length as = length cs0"
      "\<And>x. x < length cs0 \<Longrightarrow> x \<in> footprint code \<Longrightarrow> cs ! x = as ! x"
    using assms(1) by (auto simp: as_alone_def)
  have own: "cell i = Some x \<Longrightarrow> x \<in> footprint code" for x
    by (auto simp: a(1) footprint_def)
  show ?thesis
  proof (cases "ex i (l, as)")
    case (Inl g)
    then show ?thesis by (simp add: a(1,2) run_thread_append)
  next
    case (Inr r)
    obtain l' as' where "r = (l', as')" by fastforce
    with Inr reads_cell [of i l as l' as' cs] a(3,4) own assms(2,3) show ?thesis by auto
  qed
qed

lemma pool_inv_step:
  assumes "disjoint_footprints ps" "pool_inv l0 cs0 ps p" "pool_step ex p (Inr q)"
  shows "pool_inv l0 cs0 ps q"
  using assms(3)
proof (cases rule: pool_step.cases)
  case create
  with assms(2) show ?thesis by (auto simp: pool_inv_def)
next
  case (exec t i "is" l l' cs)
  have t: "t < length ps" and len: "length (threads p) = length ps" "length (cells p) = length cs0"
    using assms(2) exec by (simp_all add: pool_inv_def)
  have alone: "as_alone l0 cs0 (ps ! u) (threads p ! u) (cells p)" if "u < length ps" for u
    using assms(2) that by (simp add: pool_inv_def)
  have own: "cell i = Some x \<Longrightarrow> x \<in> footprint (ps ! t)" for x
    using alone [OF t] exec(4) by (force simp: as_alone_def footprint_def)
  have same: "cs ! x = cells p ! x" if "x < length cs0" "x \<notin> footprint (ps ! t)" for x
    using writes_cell [OF exec(5)] that own [of x] len by auto
  have "as_alone l0 cs0 (ps ! u) ((threads p)[t := (is, l')] ! u) cs" if u: "u < length ps" for u
  proof (cases "u = t")
    case True
    then show ?thesis using as_alone_step [OF alone [OF t, unfolded exec(4)] len(2) exec(5)] t len by simp
  next
    case False
    then have "x \<notin> footprint (ps ! t)" if "x \<in> footprint (ps ! u)" for x
      using assms(1) t u that unfolding disjoint_footprints_def by blast
    then show ?thesis using as_alone_other [OF alone [OF u], of cs] same False by simp
  qed
  moreover have "length cs = length cs0" using writes_cell [OF exec(5)] len by simp
  ultimately show ?thesis
    using assms(2) exec same t by (auto simp: pool_inv_def)
qed

lemma pool_reach_inv:
  assumes "disjoint_footprints ps" "pool_reach ex (pool_of l0 cs0 ps) r"
    and "\<And>t. t < length ps \<Longrightarrow> \<exists>s. run_thread ex (ps ! t) (l0, cs0) = Inr s"
  shows "\<exists>p. r = Inr p \<and> pool_inv l0 cs0 ps p"
  using assms(2)
proof induction
  case none
  show ?case using pool_inv_start by blast
next
  case (onward q r)
  then have inv: "pool_inv l0 cs0 ps q" by simp
  have "r \<noteq> Inl f" for f
  proof
    assume r: "r = Inl f"
    from onward(2) [unfolded r] show False
    proof (cases rule: pool_step.cases)
      case (crash t i "is" l)
      with inv have "as_alone l0 cs0 (ps ! t) (i # is, l) (cells q)" "length (cells q) = length cs0" "t < length ps"
        by (auto simp: pool_inv_def dest!: spec [of _ t])
      from as_alone_crash [OF this(1,2) crash(4)] assms(3) [OF this(3)] show False by auto
    qed
  qed
  then obtain p where "r = Inr p" by (cases r) auto
  with pool_inv_step [OF assms(1) inv] onward(2) show ?case by blast
qed

text \<open>The result of every schedule that ends, in terms of the threads alone.\<close>

lemma pool_result:
  assumes "disjoint_footprints ps" "pool_reach ex (pool_of l0 cs0 ps) (Inr p)" "finished p"
    and alone: "\<And>t. t < length ps \<Longrightarrow> run_thread ex (ps ! t) (l0, cs0) = Inr (lf t, cf t)"
  shows "length (cells p) = length cs0"
    and "t < length ps \<Longrightarrow> x < length cs0 \<Longrightarrow> x \<in> footprint (ps ! t) \<Longrightarrow> cells p ! x = cf t ! x"
    and "x < length cs0 \<Longrightarrow> (\<And>t. t < length ps \<Longrightarrow> x \<notin> footprint (ps ! t)) \<Longrightarrow> cells p ! x = cs0 ! x"
proof -
  have inv: "pool_inv l0 cs0 ps p"
    using pool_reach_inv [OF assms(1,2)] alone by blast
  then show "length (cells p) = length cs0"
    and "x < length cs0 \<Longrightarrow> (\<And>t. t < length ps \<Longrightarrow> x \<notin> footprint (ps ! t)) \<Longrightarrow> cells p ! x = cs0 ! x"
    by (auto simp: pool_inv_def)
  assume t: "t < length ps" "x < length cs0" "x \<in> footprint (ps ! t)"
  with inv have "as_alone l0 cs0 (ps ! t) (threads p ! t) (cells p)" "t < length (threads p)"
    by (auto simp: pool_inv_def)
  moreover from this(2) assms(3) have "fst (threads p ! t) = []" by (auto simp: finished_def)
  ultimately show "cells p ! x = cf t ! x"
    using alone [OF t(1)] t by (auto simp: as_alone_def)
qed

text \<open>No schedule gets past an instruction whose cell is not in the array.\<close>

lemma pool_reach_length:
  "pool_reach ex p r \<Longrightarrow> r = Inr q \<Longrightarrow>
   length (threads q) = length (threads p) \<and> length (cells q) = length (cells p)"
proof (induction arbitrary: q rule: pool_reach.induct)
  case (onward q' r)
  from onward.hyps(2) onward.IH [OF refl] onward.prems show ?case
    by (cases rule: pool_step.cases) (auto dest: writes_cell)
qed simp

lemma pool_reach_in_range:
  "pool_reach ex p r \<Longrightarrow> r = Inr q \<Longrightarrow> t < length (threads p) \<Longrightarrow>
   footprint (fst (threads p ! t)) \<subseteq> footprint (fst (threads q ! t)) \<union> {..<length (cells p)}"
proof (induction arbitrary: q rule: pool_reach.induct)
  case (onward q' r)
  have len: "length (threads q') = length (threads p)" "length (cells q') = length (cells p)"
    using pool_reach_length [OF onward.hyps(1) refl] by simp_all
  have IH: "footprint (fst (threads p ! t)) \<subseteq> footprint (fst (threads q' ! t)) \<union> {..<length (cells p)}"
    using onward.IH [OF refl onward.prems(2)] .
  from onward.hyps(2) [unfolded onward.prems(1)] show ?case
  proof (cases rule: pool_step.cases)
    case create
    with IH show ?thesis by simp
  next
    case (exec u i "is" l l' cs)
    have "footprint (i # is) \<subseteq> footprint is \<union> {..<length (cells p)}"
      using cell_in_range [OF exec(5)] len by (auto simp: footprint_def)
    with IH exec len onward.prems(2) show ?thesis by (cases "u = t") auto
  qed
qed simp

lemma finished_in_range:
  assumes "pool_reach ex (pool_of l0 cs0 ps) (Inr p)" "finished p" "t < length ps"
  shows "footprint (ps ! t) \<subseteq> {..<length cs0}"
proof -
  have "length (threads p) = length ps"
    using pool_reach_length [OF assms(1) refl] by (simp add: pool_of_def)
  with assms(2,3) have "fst (threads p ! t) = []" by (simp add: finished_def)
  with pool_reach_in_range [OF assms(1) refl, of t] assms(3) show ?thesis
    by (simp add: pool_of_def footprint_def)
qed

text \<open>Where a schedule stops, everything is done.\<close>

lemma pool_stuck:
  assumes "disjoint_footprints ps" "pool_reach ex (pool_of l0 cs0 ps) r"
    and "\<And>t. t < length ps \<Longrightarrow> \<exists>s. run_thread ex (ps ! t) (l0, cs0) = Inr s"
  shows "\<exists>p. r = Inr p \<and> (finished p \<or> (\<exists>q. pool_step ex p (Inr q)))"
proof -
  obtain p where p: "r = Inr p" "pool_inv l0 cs0 ps p"
    using pool_reach_inv [OF assms] by blast
  have "\<exists>q. pool_step ex p (Inr q)" if nf: "\<not> finished p"
  proof -
    obtain s where s: "pool_step ex p s"
      using pool_progress [OF nf, of ex] p(2) by (auto simp: pool_inv_def)
    then have "pool_reach ex (pool_of l0 cs0 ps) s"
      using pool_reach.onward assms(2) p(1) by blast
    from pool_reach_inv [OF assms(1) this assms(3)] s show ?thesis by blast
  qed
  with p(1) show ?thesis by blast
qed

text \<open>So there is a schedule that finishes.\<close>

lemma pool_finishes:
  assumes "disjoint_footprints ps"
    and "\<And>t. t < length ps \<Longrightarrow> \<exists>s. run_thread ex (ps ! t) (l0, cs0) = Inr s"
  shows "\<exists>p. pool_reach ex (pool_of l0 cs0 ps) (Inr p) \<and> finished p"
proof -
  have "pool_reach ex (pool_of l0 cs0 ps) (Inr p) \<Longrightarrow> \<exists>q. pool_reach ex (pool_of l0 cs0 ps) (Inr q) \<and> finished q" for p
  proof (induction "work p" arbitrary: p rule: less_induct)
    case less
    show ?case
    proof (cases "finished p")
      case False
      then obtain q where "pool_step ex p (Inr q)"
        using pool_stuck [OF assms(1) less.prems assms(2)] by auto
      with less.hyps [of q] pool_step_work [of ex p q] pool_reach.onward [OF less.prems] show ?thesis by simp
    qed (use less.prems in blast)
  qed
  then show ?thesis using pool_reach.none by blast
qed

end

section \<open>Loops over 32-bit counters\<close>

text \<open>
  \<open>for (uint32_t x = lo; x < hi; x += step)\<close>, collecting what the body produces: \<open>None\<close> if the loop
  does not end, which happens when the counter wraps around below \<open>hi\<close>.
\<close>

partial_function (option) u32_for ::
  "32 word \<Rightarrow> 32 word \<Rightarrow> 32 word \<Rightarrow> (32 word \<Rightarrow> 'a list option) \<Rightarrow> 'a list option" where
  "u32_for lo hi step body =
     (if lo < hi
      then Option.bind (body lo) (\<lambda>xs. Option.bind (u32_for (lo + step) hi step body) (\<lambda>ys. Some (xs @ ys)))
      else Some [])"

definition counter_values :: "nat \<Rightarrow> nat \<Rightarrow> nat \<Rightarrow> nat list" where
  "counter_values lo hi s = map (\<lambda>m. lo + s * m) [0..<(hi - lo + s - 1) div s]"

lemma counter_values_step:
  assumes "lo < hi" "0 < s"
  shows "counter_values lo hi s = lo # counter_values (lo + s) hi s"
proof -
  have "hi - lo + s - 1 = (hi - lo - 1) + s" using assms by simp
  then have "(hi - lo + s - 1) div s = (hi - lo - 1) div s + 1"
    using assms(2) by (simp only: div_add_self2)
  moreover have "(hi - (lo + s) + s - 1) div s = (hi - lo - 1) div s"
  proof (cases "lo + s \<le> hi")
    case True
    then have "hi - (lo + s) + s - 1 = hi - lo - 1" by simp
    then show ?thesis by simp
  next
    case False
    then show ?thesis using assms by simp
  qed
  ultimately have "(hi - lo + s - 1) div s = Suc ((hi - (lo + s) + s - 1) div s)" by simp
  then show ?thesis
    by (simp add: counter_values_def upt_conv_Cons map_Suc_upt [symmetric] del: upt_Suc map_Suc_upt)
qed

lemma counter_values_done: "hi \<le> lo \<Longrightarrow> 0 < s \<Longrightarrow> counter_values lo hi s = []"
  by (simp add: counter_values_def)

lemma counter_values_one: "counter_values lo hi 1 = [lo..<hi]"
  by (rule nth_equalityI) (simp_all add: counter_values_def)

lemma u32_for_terminates:
  assumes "0 < unat step" "unat hi + unat step \<le> 2 ^ 32"
    and "\<And>x. unat lo \<le> unat x \<Longrightarrow> unat x < unat hi \<Longrightarrow> body x = Some (f x)"
  shows "u32_for lo hi step body = Some (concat (map (\<lambda>x. f (of_nat x)) (counter_values (unat lo) (unat hi) (unat step))))"
  using assms(3)
proof (induction "unat hi - unat lo" arbitrary: lo rule: less_induct)
  case less
  show ?case
  proof (cases "lo < hi")
    case False
    then show ?thesis
      using assms(1) by (simp add: u32_for.simps [of lo] counter_values_done word_less_nat_alt)
  next
    case True
    then have lt: "unat lo < unat hi" by (simp add: word_less_nat_alt)
    have add: "unat (lo + step) = unat lo + unat step"
      using lt assms(2) by (simp add: unat_word_ariths)
    have "u32_for (lo + step) hi step body
        = Some (concat (map (\<lambda>x. f (of_nat x)) (counter_values (unat lo + unat step) (unat hi) (unat step))))"
      using less.hyps [of "lo + step"] less.prems lt assms(1) add by simp
    with True less.prems [of lo] lt show ?thesis
      by (simp add: u32_for.simps [of lo] counter_values_step [OF lt assms(1)])
  qed
qed

lemma u32_for_one:
  assumes "\<And>x. unat lo \<le> unat x \<Longrightarrow> unat x < unat hi \<Longrightarrow> body x = Some (f x)"
  shows "u32_for lo hi 1 body = Some (concat (map (\<lambda>x. f (of_nat x)) [unat lo..<unat hi]))"
proof -
  have "unat hi < 2 ^ 32" using unsigned_less [where ?'a = nat, of hi] by simp
  then have "u32_for lo hi 1 body = Some (concat (map (\<lambda>x. f (of_nat x)) (counter_values (unat lo) (unat hi) (unat (1 :: 32 word)))))"
    using assms by (intro u32_for_terminates) simp_all
  then show ?thesis by (simp only: unsigned_1 counter_values_one)
qed

end
