(* ===== verification/Matmul_Cpu.thy ===== *)
theory Matmul_Cpu
  imports Parallel_Cells
begin

text \<open>
  \<open>multiplyMatrices\<close> of \<open>src/examples/matmul_cpu.hpp\<close>, the multiplication that the example program
  runs on the CPU: one thread for each block of 64 by 64 cells of the result, all running at the
  same time.
\<close>

type_synonym u32 = "32 word"

section \<open>A thread\<close>

text \<open>
  The accesses of a thread to the three arrays, one at a time: \<open>res[x] = 0\<close> is a store, and
  \<open>res[x] += a[y] * b[z]\<close> three loads and a store, with the loaded values in the thread's local
  state in between. The order of the three loads is not specified; the arrays \<open>a\<close> and \<open>b\<close> are not
  written by anyone and do not overlap \<open>res\<close>. The loop variables and the captured pointers and
  dimension are the threads' own or constant.
\<close>

record mm_local =
  v_a :: u32
  v_b :: u32
  v_res :: u32

datatype mm_instr = Clear u32 | Load_a u32 | Load_b u32 | Load_res u32 | Put_sum u32

fun mm_exec :: "u32 list \<Rightarrow> u32 list \<Rightarrow> (mm_instr, mm_local, u32) exec" where
  "mm_exec a b (Clear x) (l, res) =
     (if unat x < length res then Inr (l, res[unat x := 0]) else Inl OutOfBounds)"
| "mm_exec a b (Load_a y) (l, res) =
     (if unat y < length a then Inr (l\<lparr>v_a := a ! unat y\<rparr>, res) else Inl OutOfBounds)"
| "mm_exec a b (Load_b z) (l, res) =
     (if unat z < length b then Inr (l\<lparr>v_b := b ! unat z\<rparr>, res) else Inl OutOfBounds)"
| "mm_exec a b (Load_res x) (l, res) =
     (if unat x < length res then Inr (l\<lparr>v_res := res ! unat x\<rparr>, res) else Inl OutOfBounds)"
| "mm_exec a b (Put_sum x) (l, res) =
     (if unat x < length res then Inr (l, res[unat x := v_res l + v_a l * v_b l]) else Inl OutOfBounds)"

definition batchsz :: u32 where
  "batchsz = 64"

definition cell_code :: "u32 \<Rightarrow> u32 \<Rightarrow> u32 \<Rightarrow> mm_instr list option" where
  "cell_code dim i j =
     Option.bind
       (u32_for 0 dim 1 (\<lambda>k. Some [Load_a (k + dim * i), Load_b (j + dim * k), Load_res (j + dim * i), Put_sum (j + dim * i)]))
       (\<lambda>sums. Some (Clear (j + dim * i) # sums))"

definition thread_code :: "u32 \<Rightarrow> u32 \<Rightarrow> u32 \<Rightarrow> mm_instr list option" where
  "thread_code dim by bx =
     u32_for by (by + batchsz) 1 (\<lambda>i. u32_for bx (bx + batchsz) 1 (\<lambda>j. cell_code dim i j))"

text \<open>
  The threads in the order in which they are created. They may start while others are still to be
  created; \<open>multiplyMatrices\<close> returns when the last one has ended.
\<close>

definition thread_codes :: "u32 \<Rightarrow> mm_instr list list option" where
  "thread_codes dim =
     u32_for 0 dim batchsz (\<lambda>by. u32_for 0 dim batchsz (\<lambda>bx. Option.bind (thread_code dim by bx) (\<lambda>c. Some [c])))"

definition multiplyMatrices :: "mm_local \<Rightarrow> u32 \<Rightarrow> u32 list \<Rightarrow> (mm_instr, mm_local, u32) pool option" where
  "multiplyMatrices l0 dim res = map_option (pool_of l0 res) (thread_codes dim)"

section \<open>The threads keep to cells of their own\<close>

fun mm_cell :: "mm_instr \<Rightarrow> nat option" where
  "mm_cell (Clear x) = Some (unat x)"
| "mm_cell (Load_a y) = None"
| "mm_cell (Load_b z) = None"
| "mm_cell (Load_res x) = Some (unat x)"
| "mm_cell (Put_sum x) = Some (unat x)"

interpretation mm: cell_threads "mm_exec a b" mm_cell for a b
proof
  fix i l cs l' cs'
  assume "mm_exec a b i (l, cs) = Inr (l', cs')"
  then show "length cs' = length cs \<and> (\<forall>x < length cs. mm_cell i \<noteq> Some x \<longrightarrow> cs' ! x = cs ! x)"
    by (cases i) (auto split: if_splits)
next
  fix i l cs l' cs' and ds :: "u32 list"
  assume "mm_exec a b i (l, cs) = Inr (l', cs')" "length ds = length cs"
    and "\<And>x. mm_cell i = Some x \<Longrightarrow> x < length cs \<Longrightarrow> ds ! x = cs ! x"
  then show "\<exists>ds'. mm_exec a b i (l, ds) = Inr (l', ds') \<and> (\<forall>x < length cs. mm_cell i = Some x \<longrightarrow> ds' ! x = cs' ! x)"
    by (cases i) (auto split: if_splits)
next
  fix i l cs l' cs' x
  assume "mm_exec a b i (l, cs) = Inr (l', cs')" "mm_cell i = Some x"
  then show "x < length cs" by (cases i) (auto split: if_splits)
qed

section \<open>The product\<close>

text \<open>The reference: square matrices of dimension \<open>n\<close> in row-major order, arithmetic modulo 2^32.\<close>

definition product_at :: "nat \<Rightarrow> u32 list \<Rightarrow> u32 list \<Rightarrow> nat \<Rightarrow> nat \<Rightarrow> u32" where
  "product_at n a b i j = (\<Sum>k<n. a ! (k + n * i) * b ! (j + n * k))"

definition matrix_product :: "nat \<Rightarrow> u32 list \<Rightarrow> u32 list \<Rightarrow> u32 list" where
  "matrix_product n a b = map (\<lambda>x. product_at n a b (x div n) (x mod n)) [0..<n * n]"

text \<open>Positions in the array: no index of a matrix of dimension up to 65536 wraps.\<close>

lemma index_div_mod: "j < n \<Longrightarrow> (j + n * i) div n = i \<and> (j + n * i) mod n = (j :: nat)"
  by simp

lemma index_less:
  assumes "i < n" "j < n"
  shows "j + n * i < n * (n :: nat)"
proof -
  have "j + n * i < n * Suc i" using assms(2) by simp
  also have "\<dots> \<le> n * n" using assms(1) by (intro mult_le_mono2) simp
  finally show ?thesis .
qed

lemma unat_index:
  assumes "unat dim \<le> 65536" "i < unat dim" "j < unat dim"
  shows "unat (of_nat j + dim * of_nat i :: u32) = j + unat dim * i"
proof -
  have "j + unat dim * i < unat dim * unat dim" using assms(2,3) by (rule index_less)
  also have "\<dots> \<le> 65536 * 65536" using assms(1) by (intro mult_le_mono)
  finally have "j + unat dim * i < 2 ^ 32" by simp
  moreover have "of_nat j + dim * of_nat i = (of_nat (j + unat dim * i) :: u32)" by simp
  ultimately show ?thesis by (metis unat_of_nat_32)
qed

section \<open>A thread alone\<close>

text \<open>One turn of the innermost loop.\<close>

definition add_code :: "u32 \<Rightarrow> u32 \<Rightarrow> u32 \<Rightarrow> mm_instr list" where
  "add_code x y z = [Load_a y, Load_b z, Load_res x, Put_sum x]"

lemma run_add:
  assumes "unat x < length res" "unat y < length a" "unat z < length b"
  shows "\<exists>l'. run_thread (mm_exec a b) (add_code x y z) (l, res)
    = Inr (l', res[unat x := res ! unat x + a ! unat y * b ! unat z])"
  using assms by (simp add: add_code_def)

lemma run_sums:
  assumes "x < length res" "\<And>k. k < m \<Longrightarrow> unat (y k) < length a \<and> unat (z k) < length b"
    and "unat X = x"
  shows "\<exists>l'. run_thread (mm_exec a b) (concat (map (\<lambda>k. add_code X (y k) (z k)) [0..<m])) (l, res)
    = Inr (l', res[x := res ! x + (\<Sum>k<m. a ! unat (y k) * b ! unat (z k))])"
  using assms(2)
proof (induction m)
  case 0
  then show ?case by simp
next
  case (Suc m)
  then obtain l1 where l1: "run_thread (mm_exec a b) (concat (map (\<lambda>k. add_code X (y k) (z k)) [0..<m])) (l, res)
      = Inr (l1, res[x := res ! x + (\<Sum>k<m. a ! unat (y k) * b ! unat (z k))])"
    by auto
  obtain l2 where "run_thread (mm_exec a b) (add_code X (y m) (z m))
        (l1, res[x := res ! x + (\<Sum>k<m. a ! unat (y k) * b ! unat (z k))])
      = Inr (l2, res[x := res ! x + (\<Sum>k<m. a ! unat (y k) * b ! unat (z k)) + a ! unat (y m) * b ! unat (z m)])"
    using run_add [of X "res[x := res ! x + (\<Sum>k<m. a ! unat (y k) * b ! unat (z k))]" "y m" a "z m" b l1]
      assms(1,3) Suc.prems [of m] by auto
  with l1 show ?case
    by (simp add: run_thread_append add.assoc)
qed

definition cell_prog :: "u32 \<Rightarrow> nat \<times> nat \<Rightarrow> mm_instr list" where
  "cell_prog dim = (\<lambda>(i, j). let x = of_nat j + dim * of_nat i in
     Clear x # concat (map (\<lambda>k. add_code x (of_nat k + dim * of_nat i) (of_nat j + dim * of_nat k)) [0..<unat dim]))"

definition block_cells :: "nat \<times> nat \<Rightarrow> (nat \<times> nat) list" where
  "block_cells = (\<lambda>(by, bx). List.product [by..<by + 64] [bx..<bx + 64])"

definition block_prog :: "u32 \<Rightarrow> nat \<times> nat \<Rightarrow> mm_instr list" where
  "block_prog dim b = concat (map (cell_prog dim) (block_cells b))"

definition position :: "nat \<Rightarrow> nat \<times> nat \<Rightarrow> nat" where
  "position n = (\<lambda>(i, j). j + n * i)"

lemma cell_code_prog: "cell_code dim (of_nat i) (of_nat j) = Some (cell_prog dim (i, j))"
  by (simp add: cell_code_def u32_for_one [OF refl] cell_prog_def Let_def add_code_def)

lemma concat_product:
  "concat (map (\<lambda>x. concat (map (\<lambda>y. f (x, y)) ys)) xs) = concat (map f (List.product xs ys))"
  by (induction xs) (simp_all add: comp_def)

lemma u32_for_64:
  assumes "s + 64 < 2 ^ 32" "\<And>x. body x = Some (f (unat x))"
  shows "u32_for (of_nat s) (of_nat s + batchsz) 1 body = Some (concat (map f [s..<s + 64]))"
proof -
  have "of_nat s + batchsz = (of_nat (s + 64) :: u32)"
    by (simp add: batchsz_def)
  then have b: "unat (of_nat s + batchsz :: u32) = s + 64" "unat (of_nat s :: u32) = s"
    using assms(1) unat_of_nat_32 [of "s + 64"] unat_of_nat_32 [of s] by (metis, metis add_lessD1)
  have "u32_for (of_nat s) (of_nat s + batchsz) 1 body = Some (concat (map (\<lambda>x. f (unat (of_nat x :: u32))) [s..<s + 64]))"
    using u32_for_one [of "of_nat s" "of_nat s + batchsz" body "\<lambda>x. f (unat x)"] assms(2)
    unfolding b by blast
  moreover have "map (\<lambda>x. f (unat (of_nat x :: u32))) [s..<s + 64] = map f [s..<s + 64]"
    using assms(1) by (intro map_cong [OF HOL.refl] arg_cong [where f = f] unat_of_nat_32) auto
  ultimately show ?thesis by metis
qed

lemma thread_code_prog:
  assumes "y + 64 < 2 ^ 32" "x + 64 < 2 ^ 32"
  shows "thread_code dim (of_nat y) (of_nat x) = Some (block_prog dim (y, x))"
proof -
  have cell: "cell_code dim i j = Some (cell_prog dim (unat i, unat j))" for i j
    using cell_code_prog [of dim "unat i" "unat j"] by simp
  have row: "u32_for (of_nat x) (of_nat x + batchsz) 1 (cell_code dim i)
      = Some (concat (map (\<lambda>j. cell_prog dim (unat i, j)) [x..<x + 64]))" for i
    using u32_for_64 [OF assms(2), of "cell_code dim i" "\<lambda>j. cell_prog dim (unat i, j)"] cell by blast
  have "thread_code dim (of_nat y) (of_nat x)
      = Some (concat (map (\<lambda>i. concat (map (\<lambda>j. cell_prog dim (i, j)) [x..<x + 64])) [y..<y + 64]))"
    using u32_for_64 [OF assms(1), of "\<lambda>i. u32_for (of_nat x) (of_nat x + batchsz) 1 (cell_code dim i)"
        "\<lambda>i. concat (map (\<lambda>j. cell_prog dim (i, j)) [x..<x + 64])"] row
    unfolding thread_code_def by blast
  then show ?thesis by (simp add: block_prog_def block_cells_def concat_product)
qed

text \<open>The blocks by their first row and column, in the order in which their threads are created.\<close>

definition block_starts :: "nat \<Rightarrow> nat list" where
  "block_starts n = map ((*) 64) [0..<(n + 63) div 64]"

definition blocks :: "nat \<Rightarrow> (nat \<times> nat) list" where
  "blocks n = List.product (block_starts n) (block_starts n)"

lemma block_starts_below: "s \<in> set (block_starts n) \<Longrightarrow> s < n"
  by (auto simp: block_starts_def)

lemma u32_for_blocks:
  assumes "unat dim \<le> 65536" "\<And>x. x < dim \<Longrightarrow> body x = Some (f (unat x))"
  shows "u32_for 0 dim batchsz body = Some (concat (map f (block_starts (unat dim))))"
proof -
  have "unat batchsz = 64" by (simp add: batchsz_def)
  then have "counter_values (unat (0 :: u32)) (unat dim) (unat batchsz) = block_starts (unat dim)"
    by (simp add: counter_values_def block_starts_def add.commute)
  moreover have "u32_for 0 dim batchsz body
      = Some (concat (map (\<lambda>x. f (unat (of_nat x :: u32))) (counter_values (unat (0 :: u32)) (unat dim) (unat batchsz))))"
    using assms by (intro u32_for_terminates) (simp_all add: batchsz_def word_less_nat_alt)
  moreover have "map (\<lambda>x. f (unat (of_nat x :: u32))) (block_starts (unat dim)) = map f (block_starts (unat dim))"
  proof (intro map_cong [OF HOL.refl] arg_cong [where f = f] unat_of_nat_32)
    fix x
    assume "x \<in> set (block_starts (unat dim))"
    then have "x < unat dim" by (rule block_starts_below)
    with assms(1) show "x < 2 ^ 32" by simp
  qed
  ultimately show ?thesis by simp
qed

lemma thread_codes_progs:
  assumes "unat dim \<le> 65536"
  shows "thread_codes dim = Some (map (block_prog dim) (blocks (unat dim)))"
proof -
  have thr: "thread_code dim by bx = Some (block_prog dim (unat by, unat bx))" if "by < dim" "bx < dim" for "by" bx
    using thread_code_prog [of "unat by" "unat bx" dim] assms that by (simp add: word_less_nat_alt)
  have row: "u32_for 0 dim batchsz (\<lambda>bx. Option.bind (thread_code dim by bx) (\<lambda>c. Some [c]))
      = Some (concat (map (\<lambda>x. [block_prog dim (unat by, x)]) (block_starts (unat dim))))" if "by < dim" for "by"
    by (rule u32_for_blocks [OF assms]) (simp add: thr that)
  have "thread_codes dim
      = Some (concat (map (\<lambda>y. concat (map (\<lambda>x. [block_prog dim (y, x)]) (block_starts (unat dim)))) (block_starts (unat dim))))"
    unfolding thread_codes_def by (rule u32_for_blocks [OF assms]) (rule row)
  then show ?thesis by (simp add: blocks_def product_concat_map map_concat comp_def)
qed

text \<open>What a thread alone leaves: the product in its cells, the rest as it was.\<close>

lemma run_cell:
  assumes "unat dim \<le> 65536" "i < unat dim" "j < unat dim"
    and "length a = unat dim * unat dim" "length b = unat dim * unat dim" "length res = unat dim * unat dim"
  shows "\<exists>l'. run_thread (mm_exec a b) (cell_prog dim (i, j)) (l, res)
    = Inr (l', res[position (unat dim) (i, j) := product_at (unat dim) a b i j])"
proof -
  let ?x = "of_nat j + dim * of_nat i" and ?p = "j + unat dim * i"
  have x: "unat ?x = ?p" "?p < length res"
    using unat_index [OF assms(1-3)] index_less [OF assms(2,3)] assms(6) by simp_all
  have k: "unat (of_nat k + dim * of_nat i) = k + unat dim * i" "unat (of_nat j + dim * of_nat k) = j + unat dim * k"
      "k + unat dim * i < length a" "j + unat dim * k < length b" if "k < unat dim" for k
    using unat_index [OF assms(1)] index_less assms that by simp_all
  from run_sums [of ?p "res[?p := 0]" "unat dim" "\<lambda>k. of_nat k + dim * of_nat i" a "\<lambda>k. of_nat j + dim * of_nat k" b ?x l]
    x k
  obtain l' where "run_thread (mm_exec a b) (cell_prog dim (i, j)) (l, res)
      = Inr (l', res[?p := \<Sum>k<unat dim. a ! unat (of_nat k + dim * of_nat i) * b ! unat (of_nat j + dim * of_nat k)])"
    by (auto simp: cell_prog_def Let_def)
  moreover have "(\<Sum>k<unat dim. a ! unat (of_nat k + dim * of_nat i) * b ! unat (of_nat j + dim * of_nat k))
      = product_at (unat dim) a b i j"
    unfolding product_at_def by (rule sum.cong) (simp_all add: k)
  ultimately show ?thesis by (simp add: position_def)
qed

lemma run_cells:
  assumes "unat dim \<le> 65536" "length a = unat dim * unat dim" "length b = unat dim * unat dim"
    and "length res = unat dim * unat dim" "\<forall>(i, j) \<in> set cs. i < unat dim \<and> j < unat dim"
  shows "\<exists>l' res'. run_thread (mm_exec a b) (concat (map (cell_prog dim) cs)) (l, res) = Inr (l', res')
    \<and> length res' = length res
    \<and> (\<forall>x < length res. res' ! x = (if x \<in> position (unat dim) ` set cs
         then product_at (unat dim) a b (x div unat dim) (x mod unat dim) else res ! x))"
  using assms(4,5)
proof (induction cs arbitrary: l res)
  case (Cons c cs)
  obtain i j where c: "c = (i, j)" "i < unat dim" "j < unat dim" using Cons.prems(2) by (cases c) auto
  let ?p = "position (unat dim) c" and ?v = "product_at (unat dim) a b i j"
  obtain l1 where l1: "run_thread (mm_exec a b) (cell_prog dim c) (l, res) = Inr (l1, res[?p := ?v])"
    using run_cell [OF assms(1) c(2,3) assms(2,3) Cons.prems(1), of l] c(1) by auto
  obtain l' res' where r: "run_thread (mm_exec a b) (concat (map (cell_prog dim) cs)) (l1, res[?p := ?v]) = Inr (l', res')"
      "length res' = length res"
      "\<forall>x < length res. res' ! x = (if x \<in> position (unat dim) ` set cs
         then product_at (unat dim) a b (x div unat dim) (x mod unat dim) else res[?p := ?v] ! x)"
    using Cons.IH [of "res[?p := ?v]" l1] Cons.prems by auto
  have "?p div unat dim = i" "?p mod unat dim = j"
    using index_div_mod [OF c(3), of i] c(1) by (simp_all add: position_def)
  then have "\<forall>x < length res. res' ! x = (if x \<in> position (unat dim) ` set (c # cs)
         then product_at (unat dim) a b (x div unat dim) (x mod unat dim) else res ! x)"
    using r(3) by (auto simp: nth_list_update)
  with l1 r(1,2) show ?case by (simp add: run_thread_append)
qed simp

section \<open>The cells of a thread\<close>

lemma footprint_concat: "mm.footprint (concat pss) = (\<Union>ps \<in> set pss. mm.footprint ps)"
  by (auto simp: mm.footprint_def)

lemma cell_prog_footprint: "mm.footprint (cell_prog dim (i, j)) = {unat (of_nat j + dim * of_nat i :: u32)}"
  by (auto simp: mm.footprint_def cell_prog_def Let_def add_code_def)

lemma block_footprint: "mm.footprint (block_prog dim b) = (\<lambda>(i, j). unat (of_nat j + dim * of_nat i :: u32)) ` set (block_cells b)"
  by (auto simp: block_prog_def footprint_concat cell_prog_footprint)

text \<open>A dimension that the blocks divide, and whose indices do not wrap.\<close>

definition dim_ok :: "u32 \<Rightarrow> bool" where
  "dim_ok dim \<longleftrightarrow> 64 dvd unat dim \<and> unat dim \<le> 65536"

lemma block_starts_dvd:
  assumes "64 dvd n"
  shows "set (block_starts n) = {s. 64 dvd s \<and> s < n}"
proof -
  obtain m where m: "n = 64 * m" using assms by blast
  then have "(n + 63) div 64 = m" by simp
  with m show ?thesis by (auto simp: block_starts_def)
qed

lemma block_inside:
  assumes "dim_ok dim" "b \<in> set (blocks (unat dim))" "(i, j) \<in> set (block_cells b)"
  shows "i < unat dim \<and> j < unat dim"
proof -
  have "64 dvd unat dim" using assms(1) by (simp add: dim_ok_def)
  then obtain m where m: "unat dim = 64 * m" by blast
  have "s + 64 \<le> 64 * m" if s: "64 dvd s" "s < 64 * m" for s
  proof -
    obtain k where k: "s = 64 * k" using s(1) by blast
    with s(2) have "Suc k \<le> m" by simp
    with k show ?thesis by simp
  qed
  note room = this
  obtain y x where b: "b = (y, x)" "64 dvd y" "y < 64 * m" "64 dvd x" "x < 64 * m"
    using assms(2) m by (cases b rule: prod.exhaust) (simp add: blocks_def block_starts_dvd)
  then have "i < y + 64" "j < x + 64" using assms(3) by (simp_all add: block_cells_def)
  with room [OF b(2,3)] room [OF b(4,5)] show ?thesis unfolding m by linarith
qed

lemma block_positions:
  assumes "dim_ok dim" "b \<in> set (blocks (unat dim))"
  shows "mm.footprint (block_prog dim b) = position (unat dim) ` set (block_cells b)"
proof -
  have "unat (of_nat j + dim * of_nat i :: u32) = position (unat dim) (i, j)" if "(i, j) \<in> set (block_cells b)" for i j
    using unat_index [of dim i j] block_inside [OF assms that] assms(1) by (simp add: position_def dim_ok_def)
  then show ?thesis unfolding block_footprint by (force intro!: image_cong)
qed

text \<open>The block of a cell.\<close>

lemma block_of_cell:
  assumes "64 dvd y" "64 dvd x" "(i, j) \<in> set (block_cells (y, x))"
  shows "y = 64 * (i div 64) \<and> x = 64 * (j div 64)"
  using assms by (auto simp: block_cells_def elim!: dvdE)

lemma blocks_disjoint:
  assumes "dim_ok dim" "b \<in> set (blocks (unat dim))" "b' \<in> set (blocks (unat dim))" "b \<noteq> b'"
  shows "mm.footprint (block_prog dim b) \<inter> mm.footprint (block_prog dim b') = {}"
proof (rule ccontr)
  assume "\<not> ?thesis"
  then obtain i j i' j' where c: "(i, j) \<in> set (block_cells b)" "(i', j') \<in> set (block_cells b')"
      "position (unat dim) (i, j) = position (unat dim) (i', j')"
    unfolding block_positions [OF assms(1,2)] block_positions [OF assms(1,3)] by auto
  have "j < unat dim" "j' < unat dim"
    using block_inside [OF assms(1,2) c(1)] block_inside [OF assms(1,3) c(2)] by simp_all
  moreover have "j + unat dim * i = j' + unat dim * i'" using c(3) by (simp add: position_def)
  ultimately have "i = i' \<and> j = j'" by (metis index_div_mod)
  moreover have "64 dvd fst b \<and> 64 dvd snd b" "64 dvd fst b' \<and> 64 dvd snd b'"
    using assms(2,3) by (auto simp: blocks_def block_starts_def)
  ultimately show False
    using block_of_cell [of "fst b" "snd b" i j] block_of_cell [of "fst b'" "snd b'" i' j'] c(1,2) assms(4)
    by (auto simp: prod_eq_iff)
qed

lemma blocks_cover:
  assumes "dim_ok dim" "x < unat dim * unat dim"
  shows "\<exists>b \<in> set (blocks (unat dim)). x \<in> mm.footprint (block_prog dim b)"
proof -
  let ?n = "unat dim" and ?i = "x div unat dim" and ?j = "x mod unat dim"
  have n: "0 < ?n" using assms(2) by (cases "?n = 0") auto
  have ij: "?i < ?n" "?j < ?n" using assms(2) n by (simp_all add: less_mult_imp_div_less)
  let ?b = "(64 * (?i div 64), 64 * (?j div 64))"
  have "64 * (k div 64) \<le> k \<and> k < 64 * (k div 64) + 64" for k :: nat by presburger
  then have "(?i, ?j) \<in> set (block_cells ?b)" by (simp add: block_cells_def)
  moreover have "64 * (k div 64) < ?n" if "k < ?n" for k using that by (meson le_less_trans times_div_less_eq_dividend)
  then have b: "?b \<in> set (blocks ?n)"
    using assms(1) ij by (auto simp: blocks_def block_starts_dvd dim_ok_def)
  moreover have "position ?n (?i, ?j) = x" using n by (simp add: position_def add.commute)
  ultimately show ?thesis
    unfolding block_positions [OF assms(1) b]
    by (metis (no_types, lifting) block_positions [OF assms(1)] image_eqI)
qed

lemma distinct_blocks: "distinct (blocks n)"
  unfolding blocks_def block_starts_def by (intro distinct_product) (simp_all add: distinct_map inj_on_def)

text \<open>What the library of \<open>Parallel_Cells\<close> needs to know of the threads.\<close>

lemma threads_alone:
  assumes "dim_ok dim" "length a = unat dim * unat dim" "length b = unat dim * unat dim"
    and "length res = unat dim * unat dim" "t < length (blocks (unat dim))"
  shows "\<exists>l' res'. run_thread (mm_exec a b) (map (block_prog dim) (blocks (unat dim)) ! t) (l0, res) = Inr (l', res')
    \<and> (\<forall>x \<in> mm.footprint (block_prog dim (blocks (unat dim) ! t)). x < length res \<longrightarrow>
         res' ! x = product_at (unat dim) a b (x div unat dim) (x mod unat dim))"
proof -
  let ?b = "blocks (unat dim) ! t"
  have b: "?b \<in> set (blocks (unat dim))" using assms(5) by simp
  then have "\<forall>(i, j) \<in> set (block_cells ?b). i < unat dim \<and> j < unat dim"
    using block_inside [OF assms(1) b] by auto
  moreover have "unat dim \<le> 65536" using assms(1) by (simp add: dim_ok_def)
  ultimately obtain l' res' where "run_thread (mm_exec a b) (block_prog dim ?b) (l0, res) = Inr (l', res')"
      "\<forall>x < length res. res' ! x = (if x \<in> position (unat dim) ` set (block_cells ?b)
         then product_at (unat dim) a b (x div unat dim) (x mod unat dim) else res ! x)"
    using run_cells [of dim a b res "block_cells ?b" l0] assms(2-4) unfolding block_prog_def by auto
  then show ?thesis
    using assms(5) by (auto simp: block_positions [OF assms(1) b])
qed

lemma threads_disjoint:
  assumes "dim_ok dim"
  shows "mm.disjoint_footprints (map (block_prog dim) (blocks (unat dim)))"
proof -
  have "blocks (unat dim) ! t \<noteq> blocks (unat dim) ! u" if "t < length (blocks (unat dim))" "u < length (blocks (unat dim))" "t \<noteq> u" for t u
    using nth_eq_iff_index_eq [OF distinct_blocks that(1,2)] that(3) by simp
  then show ?thesis
    using blocks_disjoint [OF assms] by (simp add: mm.disjoint_footprints_def)
qed

lemma multiplyMatrices_pool:
  "unat dim \<le> 65536 \<Longrightarrow> multiplyMatrices l0 dim res = Some (pool_of l0 res (map (block_prog dim) (blocks (unat dim))))"
  by (simp add: multiplyMatrices_def thread_codes_progs)

lemma length_cell_prog: "length (cell_prog dim c) = 4 * unat dim + 1"
  by (cases c) (simp add: cell_prog_def add_code_def Let_def length_concat comp_def sum_list_triv)

lemma threads_work:
  assumes "unat dim = 64 * m"
  shows "work (pool_of l0 res (map (block_prog dim) (blocks (unat dim)))) = m * m + unat dim * unat dim * (4 * unat dim + 1)"
proof -
  have "(64 * m + 63) div 64 = m" by simp
  then have "length (blocks (unat dim)) = m * m"
    by (simp add: blocks_def block_starts_def assms)
  moreover have "length (block_prog dim b) = 4096 * (4 * unat dim + 1)" for b
    by (cases b) (simp add: block_prog_def block_cells_def length_concat comp_def length_cell_prog sum_list_triv)
  ultimately show ?thesis
    by (simp add: work_pool_of comp_def sum_list_triv assms algebra_simps)
qed

lemma cpu_result:
  assumes "64 dvd unat dim" "unat dim \<le> 65536" "length a = unat dim * unat dim" "length b = unat dim * unat dim"
    and "length res = unat dim * unat dim" "multiplyMatrices l0 dim res = Some p0" "pool_reach (mm_exec a b) p0 r"
  shows "\<exists>p. r = Inr p \<and> (finished p \<or> (\<exists>q. pool_step (mm_exec a b) p (Inr q)))
    \<and> (finished p \<longrightarrow> cells p = matrix_product (unat dim) a b)"
proof -
  let ?ps = "map (block_prog dim) (blocks (unat dim))"
  have ok: "dim_ok dim" using assms(1,2) by (simp add: dim_ok_def)
  note alone = threads_alone [OF ok assms(3-5), of _ l0]
  have disj: "mm.disjoint_footprints ?ps" by (rule threads_disjoint [OF ok])
  have live: "\<exists>s. run_thread (mm_exec a b) (?ps ! t) (l0, res) = Inr s" if "t < length ?ps" for t
    using alone [of t] that by (metis length_map)
  have "cells p = matrix_product (unat dim) a b"
    if r: "pool_reach (mm_exec a b) (pool_of l0 res ?ps) (Inr p)" "finished p" for p
  proof (rule nth_equalityI)
    define out where "out t = projr (run_thread (mm_exec a b) (?ps ! t) (l0, res))" for t
    define lf cf where "lf t = fst (out t)" and "cf t = snd (out t)" for t
    have f: "run_thread (mm_exec a b) (?ps ! t) (l0, res) = Inr (lf t, cf t)" if "t < length ?ps" for t
      using live [OF that] by (auto simp: lf_def cf_def out_def)
    show len: "length (cells p) = length (matrix_product (unat dim) a b)"
      using mm.pool_result(1) [OF disj r f] assms(5) by (simp add: matrix_product_def)
    fix x
    assume "x < length (cells p)"
    then have x: "x < unat dim * unat dim" using len by (simp add: matrix_product_def)
    then obtain t where t: "t < length ?ps" "x \<in> mm.footprint (?ps ! t)"
      using blocks_cover [OF ok x] by (auto simp: in_set_conv_nth)
    have "cells p ! x = cf t ! x"
      using mm.pool_result(2) [OF disj r f t(1) _ t(2)] x assms(5) by simp
    also have "\<dots> = product_at (unat dim) a b (x div unat dim) (x mod unat dim)"
      using alone [of t] f [OF t(1)] t x assms(5) by auto
    finally show "cells p ! x = matrix_product (unat dim) a b ! x"
      using x by (simp add: matrix_product_def)
  qed
  moreover have "\<exists>p. r = Inr p \<and> (finished p \<or> (\<exists>q. pool_step (mm_exec a b) p (Inr q)))"
    if "pool_reach (mm_exec a b) (pool_of l0 res ?ps) r" for r
    using mm.pool_stuck [OF disj that live] .
  ultimately show ?thesis
    using multiplyMatrices_pool [OF assms(2), of l0 res] assms(6,7) by (metis option.inject)
qed

section \<open>Properties\<close>

text \<open>
  C30: The CPU multiplication is correct under every schedule. For a dimension that is a multiple of
  64 (and at most 65536, so that no index wraps) the threads are created, no interleaving of
  their memory accesses leaves the arrays, an interleaving that has not finished can go on, and
  one that has finished leaves the matrix product modulo 2^32 in \<open>res\<close>.
\<close>

theorem multiplyMatrices_computes_product:
  assumes "64 dvd unat dim" "unat dim \<le> 65536" "length a = unat dim * unat dim" "length b = unat dim * unat dim"
    and "length res = unat dim * unat dim"
  shows "\<exists>p0. multiplyMatrices l0 dim res = Some p0
    \<and> (\<forall>r. pool_reach (mm_exec a b) p0 r \<longrightarrow>
         (\<exists>p. r = Inr p \<and> (finished p \<or> (\<exists>q. pool_step (mm_exec a b) p (Inr q)))
            \<and> (finished p \<longrightarrow> cells p = matrix_product (unat dim) a b)))"
  using cpu_result [OF assms] multiplyMatrices_pool [OF assms(2)] by blast

lemma run_reach:
  "(\<And>k. k < n \<Longrightarrow> pool_step ex (run k) (Inr (run (Suc k)))) \<Longrightarrow> pool_reach ex (run 0) (Inr (run n))"
  by (induction n) (auto intro: pool_reach.intros)

text \<open>
  C31: It ends, whatever the schedule. For a dimension \<open>n = 64 m\<close> of at most 65536 and matrices of that
  size, \<open>multiplyMatrices\<close> is \<open>m^2\<close> creations of threads and \<open>n^2 (4 n + 1)\<close> accesses to the arrays
  (for each cell a store of 0 and, for each of the \<open>n\<close> products, three loads and a store): no
  schedule is longer, one that is shorter can go on, and it has finished exactly when it is that
  long.
\<close>

theorem multiplyMatrices_ends:
  assumes "unat dim = 64 * m" "unat dim \<le> 65536" "length a = unat dim * unat dim" "length b = unat dim * unat dim"
    and "length res = unat dim * unat dim" "multiplyMatrices l0 dim res = Some (run 0)"
    and "\<And>k. k < steps \<Longrightarrow> pool_step (mm_exec a b) (run k) (Inr (run (Suc k)))"
  defines "all_steps \<equiv> m * m + unat dim * unat dim * (4 * unat dim + 1)"
  shows "steps \<le> all_steps \<and> (finished (run steps) \<longleftrightarrow> steps = all_steps)
    \<and> (steps < all_steps \<longrightarrow> (\<exists>q. pool_step (mm_exec a b) (run steps) (Inr q)))"
proof -
  have "run 0 = pool_of l0 res (map (block_prog dim) (blocks (unat dim)))"
    using multiplyMatrices_pool [OF assms(2), of l0 res] assms(6) by simp
  then have "work (run 0) = all_steps"
    by (simp add: threads_work [OF assms(1)] all_steps_def)
  then have w: "all_steps = steps + work (run steps)"
    using schedule_work [of steps "mm_exec a b" run, OF assms(7)] by simp
  have d: "64 dvd unat dim" using assms(1) by simp
  have next1: "finished (run steps) \<or> (\<exists>q. pool_step (mm_exec a b) (run steps) (Inr q))"
    using cpu_result [OF d assms(2-6), of "Inr (run steps)"] run_reach [of steps "mm_exec a b" run] assms(7) by auto
  have "finished (run steps)" if "work (run steps) = 0"
    using next1 that pool_step_work by fastforce
  then show ?thesis
    using w next1 finished_work [of "run steps"] by auto
qed

text \<open>
  C32: The blocks must divide the dimension: for any other dimension below 65536 a thread of the last
  row of blocks works on rows that the matrices do not have, so no schedule ever finishes
  without leaving the array \<open>res\<close>.
\<close>

theorem multiplyMatrices_needs_multiple_of_64:
  assumes "\<not> 64 dvd unat dim" "unat dim < 65536" "length res = unat dim * unat dim"
    and "multiplyMatrices l0 dim res = Some p0" "pool_reach (mm_exec a b) p0 (Inr p)"
  shows "\<not> finished p"
proof
  assume fin: "finished p"
  let ?n = "unat dim" and ?s = "64 * (unat dim div 64)"
  have "?n \<noteq> 0" using assms(1) by (intro notI) simp
  moreover have "?s < ?n \<and> ?n < ?s + 64" using assms(1) by presburger
  ultimately have n: "0 < ?n" "?s < ?n" "?n < ?s + 64" by simp_all
  have b: "(?s, 0) \<in> set (blocks ?n)"
    using n by (auto simp: blocks_def block_starts_def)
  have p0: "p0 = pool_of l0 res (map (block_prog dim) (blocks ?n))"
    using multiplyMatrices_pool [of dim l0 res] assms(2,4) by simp
  obtain t where t: "t < length (blocks ?n)" "blocks ?n ! t = (?s, 0)"
    using b by (auto simp: in_set_conv_nth)
  have "(?n, 0) \<in> set (block_cells (?s, 0))" using n by (simp add: block_cells_def)
  then have "unat (of_nat 0 + dim * of_nat ?n :: u32) \<in> mm.footprint (block_prog dim (?s, 0))"
    unfolding block_footprint by force
  moreover have "unat (of_nat 0 + dim * of_nat ?n :: u32) = ?n * ?n"
  proof -
    have "?n * ?n < 2 ^ 32" using mult_strict_mono [OF assms(2) assms(2)] by simp
    then show ?thesis using unat_of_nat_32 [of "?n * ?n"] by simp
  qed
  ultimately have "?n * ?n < length res"
    using mm.finished_in_range [OF assms(5) [unfolded p0] fin, of t] t by auto
  with assms(3) show False by simp
qed

section \<open>Witnesses\<close>

definition mm_zero :: mm_local where "mm_zero = \<lparr>v_a = 0, v_b = 0, v_res = 0\<rparr>"

definition mm_nines :: mm_local where "mm_nines = \<lparr>v_a = 9, v_b = 9, v_res = 9\<rparr>"

lemma cpu_finishes:
  assumes "64 dvd unat dim" "unat dim \<le> 65536" "length a = unat dim * unat dim" "length b = unat dim * unat dim"
    and "length res = unat dim * unat dim"
  shows "\<exists>p0 p. multiplyMatrices l0 dim res = Some p0 \<and> pool_reach (mm_exec a b) p0 (Inr p) \<and> finished p"
proof -
  have ok: "dim_ok dim" using assms(1,2) by (simp add: dim_ok_def)
  have "\<exists>s. run_thread (mm_exec a b) (map (block_prog dim) (blocks (unat dim)) ! t) (l0, res) = Inr s"
    if "t < length (map (block_prog dim) (blocks (unat dim)))" for t
    using threads_alone [OF ok assms(3-5), of t l0] that by (metis length_map)
  from mm.pool_finishes [OF threads_disjoint [OF ok] this] show ?thesis
    using multiplyMatrices_pool [OF assms(2)] by blast
qed

text \<open>Matrices of dimension 64 filled with 2s and 3s, as in the example program.\<close>

lemma matrix_product_constant:
  "matrix_product n (replicate (n * n) u) (replicate (n * n) v) = replicate (n * n) (of_nat n * (u * v))"
proof (rule nth_equalityI)
  fix x
  assume "x < length (matrix_product n (replicate (n * n) u) (replicate (n * n) v))"
  then have x: "x < n * n" by (simp add: matrix_product_def)
  then have n: "0 < n" by (cases n) auto
  have "x div n < n" "x mod n < n" using x n by (simp_all add: less_mult_imp_div_less)
  then have "product_at n (replicate (n * n) u) (replicate (n * n) v) (x div n) (x mod n) = (\<Sum>k<n. u * v)"
    unfolding product_at_def by (intro sum.cong) (simp_all add: index_less)
  with x show "matrix_product n (replicate (n * n) u) (replicate (n * n) v) ! x = replicate (n * n) (of_nat n * (u * v)) ! x"
    by (simp add: matrix_product_def)
qed (simp add: matrix_product_def)

lemma multiplyMatrices_computes_product_witness:
  "\<exists>p0. multiplyMatrices mm_nines 64 (replicate 4096 7) = Some p0
     \<and> {cells p |p. pool_reach (mm_exec (replicate 4096 2) (replicate 4096 3)) p0 (Inr p) \<and> finished p}
         \<subseteq> {replicate 4096 384}"
  using multiplyMatrices_computes_product [of 64 "replicate 4096 2" "replicate 4096 3" "replicate 4096 7" "mm_nines"]
    matrix_product_constant [of 64 2 3]
  by fastforce

lemma multiplyMatrices_ends_witness:
  "\<exists>p0. multiplyMatrices mm_zero 64 (replicate 4096 7) = Some p0
     \<and> pool_step (mm_exec (replicate 4096 2) (replicate 4096 3)) p0 (Inr (p0\<lparr>started := 1\<rparr>))
     \<and> \<not> finished (p0\<lparr>started := 1\<rparr>)
     \<and> (\<exists>q. pool_step (mm_exec (replicate 4096 2) (replicate 4096 3)) (p0\<lparr>started := 1\<rparr>) (Inr q))"
proof -
  let ?a = "replicate 4096 2 :: u32 list" and ?b = "replicate 4096 3 :: u32 list" and ?r = "replicate 4096 7 :: u32 list"
  let ?p0 = "pool_of mm_zero ?r (map (block_prog 64) (blocks 64))"
    and ?run = "\<lambda>p0 k. if k = 0 then p0 else p0\<lparr>started := 1\<rparr>"
  have d: "unat (64 :: u32) = 64 * 1" "unat (64 :: u32) \<le> 65536" "length ?a = unat (64 :: u32) * unat (64 :: u32)"
      "length ?b = unat (64 :: u32) * unat (64 :: u32)" "length ?r = unat (64 :: u32) * unat (64 :: u32)" by simp_all
  have p0: "multiplyMatrices mm_zero 64 ?r = Some ?p0" using multiplyMatrices_pool [of 64 "mm_zero" ?r] by simp
  have "blocks 64 \<noteq> []" by (simp add: blocks_def block_starts_def)
  then have s: "pool_step (mm_exec ?a ?b) ?p0 (Inr (?p0\<lparr>started := 1\<rparr>))"
    using pool_step.create [of ?p0 "mm_exec ?a ?b"] by (simp add: pool_of_def)
  have "\<And>k. k < 1 \<Longrightarrow> pool_step (mm_exec ?a ?b) (?run ?p0 k) (Inr (?run ?p0 (Suc k)))" using s by simp
  from multiplyMatrices_ends [OF d, of "mm_zero" "?run ?p0" 1, OF _ this] p0 s show ?thesis by auto
qed

lemma multiplyMatrices_needs_multiple_of_64_witness:
  "\<exists>p0. multiplyMatrices mm_zero 100 (replicate 10000 0) = Some p0
     \<and> {p. pool_reach (mm_exec (replicate 10000 2) (replicate 10000 3)) p0 (Inr p) \<and> finished p} = {}"
  using multiplyMatrices_needs_multiple_of_64 [of 100 "replicate 10000 0" "mm_zero"] multiplyMatrices_pool [of 100 "mm_zero" "replicate 10000 0"]
  by fastforce

end
