(* ===== verification/Matmul_Shader.thy ===== *)
theory Matmul_Shader
  imports Matmul_Cpu
begin

text \<open>
  The compute shader of \<open>src/examples/matmul_gpu.hpp\<close>, which multiplies matrices on the GPU: one
  invocation for each cell of the result, in workgroups of 16 by 16, in any order. Compared with
  the CPU version of the theory \<open>Matmul_Cpu\<close>.
\<close>

section \<open>An invocation\<close>

text \<open>
  The statements of \<open>main\<close>; the local state is \<open>sum\<close>. An access outside a storage buffer is a fault
  (WGSL calls it a dynamic error and leaves the result open).
\<close>

datatype shader_instr = Zero_sum | Accumulate u32 u32 | Write_result u32

fun shader_exec :: "u32 list \<Rightarrow> u32 list \<Rightarrow> (shader_instr, u32, u32) exec" where
  "shader_exec a b Zero_sum (l, results) = Inr (0, results)"
| "shader_exec a b (Accumulate y z) (l, results) =
     (if unat y < length a \<and> unat z < length b
      then Inr (l + a ! unat y * b ! unat z, results) else Inl OutOfBounds)"
| "shader_exec a b (Write_result x) (l, results) =
     (if unat x < length results then Inr (l, results[unat x := l]) else Inl OutOfBounds)"

type_synonym global_id = "u32 \<times> u32 \<times> u32"

definition shader_main :: "u32 \<Rightarrow> global_id \<Rightarrow> shader_instr list option" where
  "shader_main dimension = (\<lambda>(x, y, z).
     let batch = z; row = x + batch * 16; col = y + batch * 16
     in Option.bind (u32_for 0 dimension 1 (\<lambda>i. Some [Accumulate (i + dimension * row) (col + dimension * i)]))
          (\<lambda>sums. Some (Zero_sum # sums @ [Write_result (row * dimension + col)])))"

text \<open>
  The global ids of a dispatch of \<open>(gx, gy, gz)\<close> workgroups of size \<open>(16, 16, 1)\<close>, and the
  invocations that \<open>multiplyMatricesGPU\<close> dispatches.
\<close>

definition global_ids :: "u32 \<Rightarrow> u32 \<Rightarrow> u32 \<Rightarrow> global_id list" where
  "global_ids gx gy gz =
     [(of_nat x, of_nat y, of_nat z). x \<leftarrow> [0..<16 * unat gx], y \<leftarrow> [0..<16 * unat gy], z \<leftarrow> [0..<unat gz]]"

definition dispatched :: "u32 \<Rightarrow> shader_instr list list option" where
  "dispatched dim = those (map (shader_main dim) (global_ids (dim div 16) (dim div 16) 1))"

definition shader_run :: "u32 \<Rightarrow> u32 \<Rightarrow> u32 list \<Rightarrow> (shader_instr, u32, u32) pool option" where
  "shader_run l0 dim results = map_option (pool_of l0 results) (dispatched dim)"

fun shader_cell :: "shader_instr \<Rightarrow> nat option" where
  "shader_cell Zero_sum = None"
| "shader_cell (Accumulate y z) = None"
| "shader_cell (Write_result x) = Some (unat x)"

interpretation sh: cell_threads "shader_exec a b" shader_cell for a b
proof
  fix i l cs l' cs'
  assume "shader_exec a b i (l, cs) = Inr (l', cs')"
  then show "length cs' = length cs \<and> (\<forall>x < length cs. shader_cell i \<noteq> Some x \<longrightarrow> cs' ! x = cs ! x)"
    by (cases i) (auto split: if_splits)
next
  fix i l cs l' cs' and ds :: "u32 list"
  assume "shader_exec a b i (l, cs) = Inr (l', cs')" "length ds = length cs"
    and "\<And>x. shader_cell i = Some x \<Longrightarrow> x < length cs \<Longrightarrow> ds ! x = cs ! x"
  then show "\<exists>ds'. shader_exec a b i (l, ds) = Inr (l', ds') \<and> (\<forall>x < length cs. shader_cell i = Some x \<longrightarrow> ds' ! x = cs' ! x)"
    by (cases i) (auto split: if_splits)
next
  fix i l cs l' cs' x
  assume "shader_exec a b i (l, cs) = Inr (l', cs')" "shader_cell i = Some x"
  then show "x < length cs" by (cases i) (auto split: if_splits)
qed

section \<open>The invocations alone\<close>

text \<open>How far the workgroups reach: the multiples of 16 below the dimension.\<close>

definition covered :: "u32 \<Rightarrow> nat" where
  "covered dim = 16 * (unat dim div 16)"

definition invocation :: "u32 \<Rightarrow> nat \<times> nat \<Rightarrow> shader_instr list" where
  "invocation dim = (\<lambda>(i, j). Zero_sum # concat (map (\<lambda>k. [Accumulate (of_nat k + dim * of_nat i) (of_nat j + dim * of_nat k)])
     [0..<unat dim]) @ [Write_result (of_nat i * dim + of_nat j)])"

lemma shader_main_invocation: "shader_main dim (of_nat i, of_nat j, 0) = Some (invocation dim (i, j))"
  by (simp add: shader_main_def u32_for_one [OF HOL.refl] invocation_def Let_def)

lemma those_map_Some: "(\<And>x. x \<in> set xs \<Longrightarrow> f x = Some (g x)) \<Longrightarrow> those (map f xs) = Some (map g xs)"
  by (induction xs) simp_all

definition invocation_cells :: "u32 \<Rightarrow> (nat \<times> nat) list" where
  "invocation_cells dim = List.product [0..<covered dim] [0..<covered dim]"

lemma those_comp: "those (map (\<lambda>x. f (g x)) xs) = those (map f (map g xs))"
  by (simp add: comp_def)

lemma dispatched_invocations: "dispatched dim = Some (map (invocation dim) (invocation_cells dim))"
proof -
  have n: "16 * unat (dim div 16) = covered dim"
    by (simp add: covered_def unat_div)
  have "global_ids (dim div 16) (dim div 16) 1 = map (\<lambda>(i, j). (of_nat i, of_nat j, 0)) (invocation_cells dim)"
    by (simp add: global_ids_def n invocation_cells_def product_concat_map map_concat comp_def)
  then have "map (shader_main dim) (global_ids (dim div 16) (dim div 16) 1)
      = map (\<lambda>c. Some (invocation dim c)) (invocation_cells dim)"
    by (simp add: shader_main_invocation comp_def case_prod_unfold)
  then show ?thesis
    unfolding dispatched_def by (simp add: those_map_Some)
qed

lemma run_accumulate:
  assumes "\<And>k. k < m \<Longrightarrow> unat (y k) < length a \<and> unat (z k) < length b"
  shows "run_thread (shader_exec a b) (concat (map (\<lambda>k. [Accumulate (y k) (z k)]) [0..<m])) (l, res)
    = Inr (l + (\<Sum>k<m. a ! unat (y k) * b ! unat (z k)), res)"
  using assms by (induction m) (simp_all add: run_thread_append add.assoc)

lemma covered_le: "covered dim \<le> unat dim"
  by (simp add: covered_def)

lemma run_invocation:
  assumes "unat dim \<le> 65536" "i < unat dim" "j < unat dim"
    and "length a = unat dim * unat dim" "length b = unat dim * unat dim" "length res = unat dim * unat dim"
  shows "run_thread (shader_exec a b) (invocation dim (i, j)) (l, res)
    = Inr (product_at (unat dim) a b i j, res[j + unat dim * i := product_at (unat dim) a b i j])"
proof -
  have k: "unat (of_nat k + dim * of_nat i) = k + unat dim * i" "unat (of_nat j + dim * of_nat k) = j + unat dim * k"
      "k + unat dim * i < length a" "j + unat dim * k < length b" if "k < unat dim" for k
    using unat_index [OF assms(1)] index_less assms that by simp_all
  have "(\<Sum>k<unat dim. a ! unat (of_nat k + dim * of_nat i) * b ! unat (of_nat j + dim * of_nat k))
      = product_at (unat dim) a b i j"
    unfolding product_at_def by (rule sum.cong) (simp_all add: k)
  moreover have "unat (of_nat i * dim + of_nat j) = j + unat dim * i" "j + unat dim * i < length res"
    using unat_index [OF assms(1-3)] index_less [OF assms(2,3)] assms(6) by (simp_all add: algebra_simps)
  ultimately show ?thesis
    using run_accumulate [of "unat dim" "\<lambda>k. of_nat k + dim * of_nat i" a "\<lambda>k. of_nat j + dim * of_nat k" b 0 res] k
    by (simp add: invocation_def run_thread_append)
qed

lemma invocation_footprint:
  assumes "unat dim \<le> 65536" "i < unat dim" "j < unat dim"
  shows "sh.footprint (invocation dim (i, j)) = {j + unat dim * i}"
  using unat_index [OF assms] by (auto simp: sh.footprint_def invocation_def algebra_simps)

lemma invocation_cells_below: "(i, j) \<in> set (invocation_cells dim) \<longleftrightarrow> i < covered dim \<and> j < covered dim"
  by (auto simp: invocation_cells_def)

lemma invocations_disjoint:
  assumes "unat dim \<le> 65536"
  shows "sh.disjoint_footprints (map (invocation dim) (invocation_cells dim))"
proof -
  let ?cs = "invocation_cells dim"
  have "distinct ?cs" unfolding invocation_cells_def by (intro distinct_product) simp_all
  have "sh.footprint (invocation dim (?cs ! t)) \<inter> sh.footprint (invocation dim (?cs ! u)) = {}"
    if t: "t < length ?cs" "u < length ?cs" "t \<noteq> u" for t u
  proof -
    obtain i j i' j' where c: "?cs ! t = (i, j)" "?cs ! u = (i', j')" by fastforce
    then have "i < unat dim" "j < unat dim" "i' < unat dim" "j' < unat dim"
      using nth_mem [OF t(1)] nth_mem [OF t(2)] covered_le [of dim] by (auto simp: invocation_cells_below)
    moreover have "(i, j) \<noteq> (i', j')" using nth_eq_iff_index_eq [OF \<open>distinct ?cs\<close> t(1,2)] t(3) c by simp
    ultimately show ?thesis
      unfolding c using invocation_footprint [OF assms] by simp (metis index_div_mod)
  qed
  then show ?thesis by (simp add: sh.disjoint_footprints_def)
qed

section \<open>The result of a dispatch\<close>

text \<open>The cells the workgroups reach hold the product, the others what was there before.\<close>

definition dispatch_result :: "u32 \<Rightarrow> u32 list \<Rightarrow> u32 list \<Rightarrow> u32 list \<Rightarrow> u32 list" where
  "dispatch_result dim a b res = map (\<lambda>x. if x div unat dim < covered dim \<and> x mod unat dim < covered dim
     then product_at (unat dim) a b (x div unat dim) (x mod unat dim) else res ! x) [0..<length res]"

lemma dispatch_result_full:
  assumes "16 dvd unat dim" "length res = unat dim * unat dim"
  shows "dispatch_result dim a b res = matrix_product (unat dim) a b"
proof -
  have "covered dim = unat dim" using assms(1) by (simp add: covered_def)
  moreover have "x div unat dim < unat dim \<and> x mod unat dim < unat dim" if "x < unat dim * unat dim" for x
    using that by (cases "unat dim = 0") (simp_all add: less_mult_imp_div_less)
  ultimately show ?thesis
    using assms(2) by (simp add: dispatch_result_def matrix_product_def)
qed

lemma shader_run_pool: "shader_run l0 dim res = Some (pool_of l0 res (map (invocation dim) (invocation_cells dim)))"
  by (simp add: shader_run_def dispatched_invocations)

lemma shader_result:
  assumes "unat dim \<le> 65536" "length a = unat dim * unat dim" "length b = unat dim * unat dim"
    and "length res = unat dim * unat dim"
    and "pool_reach (shader_exec a b) (pool_of l0 res (map (invocation dim) (invocation_cells dim))) r"
  shows "\<exists>p. r = Inr p \<and> (finished p \<or> (\<exists>q. pool_step (shader_exec a b) p (Inr q)))
    \<and> (finished p \<longrightarrow> cells p = dispatch_result dim a b res)"
proof -
  let ?cs = "invocation_cells dim" and ?ps = "map (invocation dim) (invocation_cells dim)"
  let ?v = "\<lambda>t. case ?cs ! t of (i, j) \<Rightarrow> product_at (unat dim) a b i j"
  let ?out = "\<lambda>t. case ?cs ! t of (i, j) \<Rightarrow> res[j + unat dim * i := product_at (unat dim) a b i j]"
  have disj: "sh.disjoint_footprints ?ps" by (rule invocations_disjoint [OF assms(1)])
  have below: "i < unat dim \<and> j < unat dim" if "(i, j) \<in> set ?cs" for i j
    using that covered_le [of dim] by (auto simp: invocation_cells_below)
  have alone: "run_thread (shader_exec a b) (?ps ! t) (l0, res) = Inr (?v t, ?out t)" if "t < length ?ps" for t
  proof -
    obtain i j where c: "?cs ! t = (i, j)" by fastforce
    then have "i < unat dim" "j < unat dim" using that below nth_mem [of t ?cs] by auto
    from run_invocation [OF assms(1) this assms(2-4)] that c show ?thesis by simp
  qed
  obtain p where p: "r = Inr p" "finished p \<or> (\<exists>q. pool_step (shader_exec a b) p (Inr q))"
    using sh.pool_stuck [OF disj assms(5)] alone by blast
  have "cells p = dispatch_result dim a b res" if fin: "finished p"
  proof (rule nth_equalityI)
    note reach = assms(5) [unfolded p(1)]
    show len: "length (cells p) = length (dispatch_result dim a b res)"
      using sh.pool_result(1) [OF disj reach fin alone] by (simp add: dispatch_result_def)
    fix x
    assume "x < length (cells p)"
    then have x: "x < length res" using len by (simp add: dispatch_result_def)
    let ?i = "x div unat dim" and ?j = "x mod unat dim"
    have n: "0 < unat dim" using x assms(4) by (cases "unat dim = 0") auto
    have pos: "?j + unat dim * ?i = x" by simp
    show "cells p ! x = dispatch_result dim a b res ! x"
    proof (cases "(?i, ?j) \<in> set ?cs")
      case True
      then obtain t where t: "t < length ?ps" "?cs ! t = (?i, ?j)" by (auto simp: in_set_conv_nth)
      then have "x \<in> sh.footprint (?ps ! t)"
        using invocation_footprint [OF assms(1)] below [OF True] pos by simp
      from sh.pool_result(2) [OF disj reach fin alone t(1) x this] t x pos True show ?thesis
        by (simp add: dispatch_result_def invocation_cells_below)
    next
      case False
      have "x \<notin> sh.footprint (?ps ! t)" if t: "t < length ?ps" for t
      proof
        assume f: "x \<in> sh.footprint (?ps ! t)"
        obtain i j where c: "?cs ! t = (i, j)" by fastforce
        then have ij: "(i, j) \<in> set ?cs" using t nth_mem [of t ?cs] by simp
        with f t c have "x = j + unat dim * i"
          using invocation_footprint [OF assms(1)] below [OF ij] by simp
        with ij below [OF ij] index_div_mod [of j "unat dim" i] False show False by simp
      qed
      from sh.pool_result(3) [OF disj reach fin alone x this] x False show ?thesis
        by (auto simp: dispatch_result_def invocation_cells_below)
    qed
  qed
  with p show ?thesis by blast
qed

section \<open>Properties\<close>

text \<open>
  C33: What the shader computes under every order of its invocations, for every dimension up to 65536:
  no access leaves the buffers, an interleaving that has not finished can go on, and one that
  has finished leaves the matrix product in the rows and columns below the last multiple of 16
  and the old contents elsewhere.
\<close>

theorem shader_computes_product:
  assumes "unat dim \<le> 65536" "length a = unat dim * unat dim" "length b = unat dim * unat dim"
    and "length res = unat dim * unat dim"
  shows "\<exists>p0. shader_run l0 dim res = Some p0
    \<and> (\<forall>r. pool_reach (shader_exec a b) p0 r \<longrightarrow>
         (\<exists>p. r = Inr p \<and> (finished p \<or> (\<exists>q. pool_step (shader_exec a b) p (Inr q)))
            \<and> (finished p \<longrightarrow> cells p = dispatch_result dim a b res)))"
  using shader_result [OF assms] by (auto simp: shader_run_pool)

text \<open>
  The CPU and the GPU agree: for a dimension that both can handle, whatever the schedules, the
  threads of \<open>multiplyMatrices\<close> and the invocations of the shader end with the same result.
\<close>

theorem Cpu_and_shader_agree:
  assumes "64 dvd unat dim" "unat dim \<le> 65536" "length a = unat dim * unat dim" "length b = unat dim * unat dim"
    and "length res = unat dim * unat dim" "length res' = unat dim * unat dim"
    and "multiplyMatrices l0 dim res = Some p0" "pool_reach (mm_exec a b) p0 (Inr p)" "finished p"
    and "shader_run l1 dim res' = Some q0" "pool_reach (shader_exec a b) q0 (Inr q)" "finished q"
  shows "cells p = cells q"
proof -
  have "cells p = matrix_product (unat dim) a b"
    using cpu_result [OF assms(1-5,7,8)] assms(9) by blast
  moreover have "cells q = dispatch_result dim a b res'"
    using shader_result [OF assms(2-4,6)] assms(10-12) by (simp add: shader_run_pool) blast
  moreover have "16 dvd unat dim" using assms(1) by (rule dvd_trans [rotated]) simp
  ultimately show ?thesis using dispatch_result_full [OF _ assms(6)] by simp
qed

section \<open>Witnesses\<close>

lemma shader_computes_product_witness:
  "\<exists>p0. shader_run 9 16 (replicate 256 7) = Some p0
     \<and> {cells p |p. pool_reach (shader_exec (replicate 256 2) (replicate 256 3)) p0 (Inr p) \<and> finished p}
         \<subseteq> {replicate 256 96}"
  using shader_computes_product [of 16 "replicate 256 2" "replicate 256 3" "replicate 256 7" 9]
    dispatch_result_full [of 16 "replicate 256 7" "replicate 256 2" "replicate 256 3"] matrix_product_constant [of 16 2 3]
  by fastforce

lemma shader_finishes:
  assumes "unat dim \<le> 65536" "length a = unat dim * unat dim" "length b = unat dim * unat dim"
    and "length res = unat dim * unat dim"
  shows "\<exists>q0 q. shader_run l0 dim res = Some q0 \<and> pool_reach (shader_exec a b) q0 (Inr q) \<and> finished q"
proof -
  have "\<exists>s. run_thread (shader_exec a b) (map (invocation dim) (invocation_cells dim) ! t) (l0, res) = Inr s"
    if t: "t < length (map (invocation dim) (invocation_cells dim))" for t
  proof -
    obtain i j where c: "invocation_cells dim ! t = (i, j)" by fastforce
    then have "i < unat dim" "j < unat dim"
      using t nth_mem [of t "invocation_cells dim"] covered_le [of dim] by (auto simp: invocation_cells_below)
    from run_invocation [OF assms(1) this assms(2-4)] t c show ?thesis by simp
  qed
  from sh.pool_finishes [OF invocations_disjoint [OF assms(1)] this] show ?thesis
    by (auto simp: shader_run_pool)
qed

lemma Cpu_and_shader_agree_witness:
  "\<exists>p0 p q0 q. multiplyMatrices mm_zero 64 (replicate 4096 7) = Some p0
     \<and> pool_reach (mm_exec (replicate 4096 2) (replicate 4096 3)) p0 (Inr p) \<and> finished p
     \<and> shader_run 0 64 (replicate 4096 5) = Some q0
     \<and> pool_reach (shader_exec (replicate 4096 2) (replicate 4096 3)) q0 (Inr q) \<and> finished q
     \<and> cells p = cells q"
proof -
  let ?a = "replicate 4096 2 :: u32 list" and ?b = "replicate 4096 3 :: u32 list"
  have d: "64 dvd unat (64 :: u32)" "unat (64 :: u32) \<le> 65536" "length ?a = unat (64 :: u32) * unat (64 :: u32)"
      "length ?b = unat (64 :: u32) * unat (64 :: u32)"
      "length (replicate 4096 7 :: u32 list) = unat (64 :: u32) * unat (64 :: u32)"
      "length (replicate 4096 5 :: u32 list) = unat (64 :: u32) * unat (64 :: u32)" by simp_all
  obtain p0 p where p: "multiplyMatrices mm_zero 64 (replicate 4096 7) = Some p0" "pool_reach (mm_exec ?a ?b) p0 (Inr p)" "finished p"
    using cpu_finishes [OF d(1-5)] by blast
  obtain q0 q where q: "shader_run 0 64 (replicate 4096 5) = Some q0" "pool_reach (shader_exec ?a ?b) q0 (Inr q)" "finished q"
    using shader_finishes [OF d(2-4,6)] by blast
  from Cpu_and_shader_agree [OF d p q] p q show ?thesis by blast
qed

end
