(* ===== verification/Gpu_Calls.thy ===== *)
theory Gpu_Calls
  imports Proc_Values Api_Enums
begin

text \<open>
  The calls of the WebGPU API by which the example programs have a compute shader run, and what the
  WebGPU standard promises for them: an effect on the buffers of the device. Whether an
  implementation accepts a call (its usages, limits and the like) is not judged here: what it
  answers is a parameter. Used by the theories \<open>Matmul_Host\<close> and \<open>Collatz_Client\<close>.
\<close>

section \<open>Calls of the API\<close>

text \<open>The fields of the descriptors that the program sets; the other fields are zero.\<close>

record WGPUBufferDescriptor =
  bd_label :: string
  bd_usage :: uint32
  bd_size :: uint64
  bd_mappedAtCreation :: bool

record WGPUBindGroupEntry =
  be_binding :: uint32
  be_buffer :: ptr
  be_offset :: uint64
  be_size :: uint64

text \<open>Where the API has a set of flags, C converts a constant of the enumeration to \<open>uint32_t\<close>.\<close>

definition usage_bit :: "WGPUBufferUsage \<Rightarrow> uint32" where
  "usage_bit u = of_int (WGPUBufferUsage_value u)"

definition mode_bit :: "WGPUMapMode \<Rightarrow> uint32" where
  "mode_bit m = of_int (WGPUMapMode_value m)"

lemma usage_defs:
  "usage_bit WGPUBufferUsage_MapRead = 1" "usage_bit WGPUBufferUsage_CopySrc = 4" "usage_bit WGPUBufferUsage_CopyDst = 8"
  "usage_bit WGPUBufferUsage_Storage = 128" "mode_bit WGPUMapMode_Read = 1"
  by (simp_all add: usage_bit_def mode_bit_def)

text \<open>
  A call with its arguments; data that is passed by address is here by value. The source of a
  shader module is left out: every program has one shader.
\<close>

datatype gpu_call =
    CreateShaderModule ptr string
  | CreateComputePipeline ptr string ptr string
  | GetBindGroupLayout ptr uint32
  | CreateBuffer ptr WGPUBufferDescriptor
  | CreateBindGroup ptr string ptr "WGPUBindGroupEntry list"
  | WriteBuffer ptr ptr uint64 "uint32 list"
  | CreateCommandEncoder ptr string
  | BeginComputePass ptr string
  | SetPipeline ptr ptr
  | SetBindGroup ptr uint32 ptr
  | DispatchWorkgroups ptr uint32 uint32 uint32
  | EndPass ptr
  | CopyBufferToBuffer ptr ptr uint64 ptr uint64 uint64
  | Finish ptr string
  | Submit ptr "ptr list"
  | MapAsync ptr uint32 size_t size_t
  | ProcessEvents ptr
  | GetConstMappedRange ptr size_t size_t
  | DeviceTick ptr

type_synonym trace = "(gpu_call \<times> ptr) list"

fun wait_done :: "bool list \<Rightarrow> nat option" where
  "wait_done [] = None"
| "wait_done (d # ds) = (if d then Some 0 else map_option Suc (wait_done ds))"

lemma unat_ucast_64: "unat (ucast (x :: uint32) :: uint64) = unat x"
  using unsigned_less [where ?'a = nat, of x] by (simp add: unsigned_ucast_eq take_bit_nat_eq_self)

section \<open>What WebGPU promises for the calls\<close>

text \<open>
  The effect that the standard gives the calls on the buffers. The queue performs its operations in
  order: a write replaces words, a submission performs the recorded commands of its command
  buffers; a new buffer is zero. A dispatch may end with the result of any finished schedule of its
  invocations, so that the effect is a set of devices. A call outside of a buffer has no effect.
\<close>

record device =
  contents :: "ptr \<Rightarrow> uint32 list option"
  groups :: "ptr \<Rightarrow> WGPUBindGroupEntry list option"
  pass_encoder :: "ptr \<Rightarrow> ptr option"
  recorded :: "ptr \<Rightarrow> gpu_call list"
  command_buffers :: "ptr \<Rightarrow> gpu_call list option"

definition no_device :: device where
  "no_device = \<lparr>contents = (\<lambda>_. None), groups = (\<lambda>_. None), pass_encoder = (\<lambda>_. None),
     recorded = (\<lambda>_. []), command_buffers = (\<lambda>_. None)\<rparr>"

definition overwrite :: "nat \<Rightarrow> uint32 list \<Rightarrow> uint32 list \<Rightarrow> uint32 list" where
  "overwrite off ns ws = (if off + length ns \<le> length ws then take off ws @ ns @ drop (off + length ns) ws else ws)"

definition bound_buffer :: "device \<Rightarrow> ptr \<Rightarrow> nat \<Rightarrow> (ptr \<times> uint32 list) option" where
  "bound_buffer d grp i = (case groups d grp of
       None \<Rightarrow> None
     | Some es \<Rightarrow> if i < length es
         then map_option (Pair (be_buffer (es ! i))) (contents d (be_buffer (es ! i))) else None)"

text \<open>
  The commands of a command buffer, with the bind group that is set. What a dispatch does with the
  buffers of the bind group depends on the shader.
\<close>

type_synonym dispatcher = "ptr \<Rightarrow> uint32 \<times> uint32 \<times> uint32 \<Rightarrow> device \<Rightarrow> device set"

fun commands_effect :: "dispatcher \<Rightarrow> ptr \<Rightarrow> gpu_call list \<Rightarrow> device \<Rightarrow> device set" where
  "commands_effect disp grp [] d = {d}"
| "commands_effect disp grp (SetBindGroup p i grp' # cs) d = commands_effect disp grp' cs d"
| "commands_effect disp grp (DispatchWorkgroups p gx gy gz # cs) d =
     \<Union> (commands_effect disp grp cs ` disp grp (gx, gy, gz) d)"
| "commands_effect disp grp (CopyBufferToBuffer e src so dst do sz # cs) d =
     (case (contents d src, contents d dst) of
        (Some xs, Some ys) \<Rightarrow> commands_effect disp grp cs (d\<lparr>contents := (contents d)(dst \<mapsto>
            overwrite (unat do div 4) (take (unat sz div 4) (drop (unat so div 4) xs)) ys)\<rparr>)
      | _ \<Rightarrow> commands_effect disp grp cs d)"
| "commands_effect disp grp (c # cs) d = commands_effect disp grp cs d"

definition record_command :: "ptr \<Rightarrow> gpu_call \<Rightarrow> device \<Rightarrow> device" where
  "record_command e c d = d\<lparr>recorded := (recorded d)(e := recorded d e @ [c])\<rparr>"

fun call_effect :: "dispatcher \<Rightarrow> gpu_call \<times> ptr \<Rightarrow> device \<Rightarrow> device set" where
  "call_effect disp (CreateBuffer dev desc, h) d =
     {d\<lparr>contents := (contents d)(h \<mapsto> replicate (unat (bd_size desc) div 4) 0)\<rparr>}"
| "call_effect disp (CreateBindGroup dev l lay es, h) d = {d\<lparr>groups := (groups d)(h \<mapsto> es)\<rparr>}"
| "call_effect disp (WriteBuffer q b off ns, h) d =
     {d\<lparr>contents := (contents d)(b := map_option (overwrite (unat off div 4) ns) (contents d b))\<rparr>}"
| "call_effect disp (CreateCommandEncoder dev l, h) d = {d\<lparr>recorded := (recorded d)(h := [])\<rparr>}"
| "call_effect disp (BeginComputePass e l, h) d = {d\<lparr>pass_encoder := (pass_encoder d)(h \<mapsto> e)\<rparr>}"
| "call_effect disp (SetBindGroup p i grp, h) d =
     {case pass_encoder d p of None \<Rightarrow> d | Some e \<Rightarrow> record_command e (SetBindGroup p i grp) d}"
| "call_effect disp (DispatchWorkgroups p gx gy gz, h) d =
     {case pass_encoder d p of None \<Rightarrow> d | Some e \<Rightarrow> record_command e (DispatchWorkgroups p gx gy gz) d}"
| "call_effect disp (CopyBufferToBuffer e src so dst do sz, h) d =
     {record_command e (CopyBufferToBuffer e src so dst do sz) d}"
| "call_effect disp (Finish e l, h) d = {d\<lparr>command_buffers := (command_buffers d)(h \<mapsto> recorded d e)\<rparr>}"
| "call_effect disp (Submit q cbs, h) d =
     commands_effect disp 0 (concat (map (\<lambda>cb. case command_buffers d cb of None \<Rightarrow> [] | Some cs \<Rightarrow> cs) cbs)) d"
| "call_effect disp (c, h) d = {d}"

fun trace_effect :: "dispatcher \<Rightarrow> trace \<Rightarrow> device \<Rightarrow> device set" where
  "trace_effect disp [] d = {d}"
| "trace_effect disp (c # cs) d = \<Union> (trace_effect disp cs ` call_effect disp c d)"

lemma trace_effect_append: "trace_effect disp (t @ u) d = \<Union> (trace_effect disp u ` trace_effect disp t d)"
  by (induction t arbitrary: d) simp_all

lemma events_effect: "trace_effect disp (replicate k (ProcessEvents inst, h)) d = {d}"
  by (induction k) simp_all

lemma overwrite_all: "length ns = length ws \<Longrightarrow> overwrite 0 ns ws = ns"
  by (simp add: overwrite_def)

end
