(* ===== verification/Matmul_Host.thy ===== *)
theory Matmul_Host
  imports Matmul_Shader Gpu_Calls
begin

text \<open>
  \<open>multiplyMatricesGPU\<close> of \<open>src/examples/matmul_gpu.hpp\<close>: the calls of the WebGPU API by which the
  example program has the shader of \<open>Matmul_Shader\<close> run, their order and arguments, and what it
  returns. The implementation of WebGPU is a parameter: what it answers to the calls. What the
  WebGPU standard promises for the calls is in \<open>Gpu_Calls\<close>.
\<close>

section \<open>The function\<close>

text \<open>
  What the implementation answers: the handles it returns, whether the callback of
  \<open>wgpuBufferMapAsync\<close> has run before each check of \<open>done\<close> (the list ends when the program is still
  waiting), and the range.
\<close>

record gpu_answers =
  ga_smod :: ptr
  ga_pipeline :: ptr
  ga_layout :: ptr
  ga_res_staging :: ptr
  ga_res_storage :: ptr
  ga_ma_storage :: ptr
  ga_mb_storage :: ptr
  ga_dim_storage :: ptr
  ga_bind_group :: ptr
  ga_cenc :: ptr
  ga_pass :: ptr
  ga_command_buffer :: ptr
  ga_done :: "bool list"
  ga_range :: "u32 list option"

text \<open>
  The outcome: the value returned, the calls with the handles they returned, and the line printed
  (dimension, \<open>a[0]\<close>, \<open>b[0]\<close>, \<open>buf[0]\<close>).
\<close>

datatype host_outcome =
    Host_returns int trace "(u32 \<times> u32 \<times> u32 \<times> u32) option"
  | Host_waits trace
  | Host_faults fault

text \<open>The words behind a pointer to \<open>uint32_t\<close> and a size in bytes.\<close>

definition words_at :: "u32 list \<Rightarrow> u32 \<Rightarrow> u32 list result" where
  "words_at xs bytes = (let n = unat bytes div 4 in if n \<le> length xs then Inr (take n xs) else Inl OutOfBounds)"

definition msize :: "u32 \<Rightarrow> u32" where
  "msize dim = (let mlen = dim * dim in mlen * 4)"

definition storage_desc :: "string \<Rightarrow> uint64 \<Rightarrow> WGPUBufferDescriptor" where
  "storage_desc l sz = \<lparr>bd_label = l,
     bd_usage = or (or (usage_bit WGPUBufferUsage_Storage) (usage_bit WGPUBufferUsage_CopyDst)) (usage_bit WGPUBufferUsage_CopySrc),
     bd_size = sz, bd_mappedAtCreation = False\<rparr>"

definition setup_calls :: "gpu_answers \<Rightarrow> ptr \<Rightarrow> u32 \<Rightarrow> trace" where
  "setup_calls g device dim =
     (let sz = ucast (msize dim)
      in [(CreateComputePipeline device ''compute_pipeline'' (ga_smod g) ''main'', ga_pipeline g),
          (GetBindGroupLayout (ga_pipeline g) 0, ga_layout g),
          (CreateBuffer device \<lparr>bd_label = ''result_staging_buffer'',
             bd_usage = or (usage_bit WGPUBufferUsage_MapRead) (usage_bit WGPUBufferUsage_CopyDst), bd_size = sz,
             bd_mappedAtCreation = False\<rparr>, ga_res_staging g),
          (CreateBuffer device (storage_desc ''result_storage_buffer'' sz), ga_res_storage g),
          (CreateBuffer device (storage_desc ''input_a_storage_buffer'' sz), ga_ma_storage g),
          (CreateBuffer device (storage_desc ''input_a_storage_buffer'' sz), ga_mb_storage g),
          (CreateBuffer device (storage_desc ''dim_storage_buffer'' 4), ga_dim_storage g),
          (CreateBindGroup device ''bind_group'' (ga_layout g)
             [\<lparr>be_binding = 0, be_buffer = ga_res_storage g, be_offset = 0, be_size = sz\<rparr>,
              \<lparr>be_binding = 1, be_buffer = ga_ma_storage g, be_offset = 0, be_size = sz\<rparr>,
              \<lparr>be_binding = 2, be_buffer = ga_mb_storage g, be_offset = 0, be_size = sz\<rparr>,
              \<lparr>be_binding = 3, be_buffer = ga_dim_storage g, be_offset = 0, be_size = 4\<rparr>], ga_bind_group g)])"

definition write_calls :: "gpu_answers \<Rightarrow> ptr \<Rightarrow> u32 list \<Rightarrow> u32 list \<Rightarrow> u32 list \<Rightarrow> u32 \<Rightarrow> trace" where
  "write_calls g queue wres wa wb dim =
     [(WriteBuffer queue (ga_res_storage g) 0 wres, 0), (WriteBuffer queue (ga_ma_storage g) 0 wa, 0),
      (WriteBuffer queue (ga_mb_storage g) 0 wb, 0), (WriteBuffer queue (ga_dim_storage g) 0 [dim], 0)]"

definition run_calls :: "gpu_answers \<Rightarrow> ptr \<Rightarrow> u32 \<Rightarrow> trace" where
  "run_calls g queue dim =
     [(BeginComputePass (ga_cenc g) ''compute_pass'', ga_pass g),
      (SetPipeline (ga_pass g) (ga_pipeline g), 0),
      (SetBindGroup (ga_pass g) 0 (ga_bind_group g), 0),
      (DispatchWorkgroups (ga_pass g) (dim div 16) (dim div 16) 1, 0),
      (EndPass (ga_pass g), 0),
      (CopyBufferToBuffer (ga_cenc g) (ga_res_storage g) 0 (ga_res_staging g) 0 (ucast (msize dim)), 0),
      (Finish (ga_cenc g) ''command_buffer'', ga_command_buffer g),
      (Submit queue [ga_command_buffer g], 0),
      (MapAsync (ga_res_staging g) (mode_bit WGPUMapMode_Read) 0 (ucast (msize dim)), 0)]"

definition multiplyMatricesGPU ::
  "gpu_answers \<Rightarrow> ptr \<Rightarrow> ptr \<Rightarrow> ptr \<Rightarrow> u32 list \<Rightarrow> u32 list \<Rightarrow> u32 list \<Rightarrow> u32 \<Rightarrow> host_outcome" where
  "multiplyMatricesGPU g instance1 device queue a b res dim =
     (let t0 = [(CreateShaderModule device ''compute_shader'', ga_smod g)]
      in if ga_smod g = 0 then Host_returns (- 1) t0 None
         else case (words_at res (msize dim), words_at a (msize dim), words_at b (msize dim)) of
             (Inr wres, Inr wa, Inr wb) \<Rightarrow>
               (let t1 = t0 @ setup_calls g device dim @ write_calls g queue wres wa wb dim
                       @ [(CreateCommandEncoder device ''command_encoder'', ga_cenc g)]
                in if ga_cenc g = 0 then Host_returns (- 1) t1 None
                   else let t2 = t1 @ run_calls g queue dim
                        in case wait_done (ga_done g) of
                             None \<Rightarrow> Host_waits (t2 @ replicate (length (ga_done g)) (ProcessEvents instance1, 0))
                           | Some k \<Rightarrow>
                               (let t3 = t2 @ replicate k (ProcessEvents instance1, 0)
                                       @ [(GetConstMappedRange (ga_res_staging g) 0 (ucast (msize dim)), 0)]
                                in case ga_range g of
                                     None \<Rightarrow> Host_returns (- 1) t3 None
                                   | Some buf \<Rightarrow>
                                       (case (a, b, buf) of
                                          (x # xs, y # ys, z # zs) \<Rightarrow> Host_returns 0 t3 (Some (dim, x, y, z))
                                        | _ \<Rightarrow> Host_faults OutOfBounds)))
           | _ \<Rightarrow> Host_faults OutOfBounds)"

fun host_trace :: "host_outcome \<Rightarrow> trace" where
  "host_trace (Host_returns r t p) = t"
| "host_trace (Host_waits t) = t"
| "host_trace (Host_faults f) = []"

definition buffer_handles :: "gpu_answers \<Rightarrow> ptr list" where
  "buffer_handles g = [ga_res_staging g, ga_res_storage g, ga_ma_storage g, ga_mb_storage g, ga_dim_storage g]"

lemma unat_msize:
  assumes "unat dim < 32768"
  shows "unat (msize dim) = 4 * (unat dim * unat dim)"
proof -
  have "unat dim * unat dim \<le> 32767 * 32767" using assms by (intro mult_le_mono) simp_all
  then have "4 * (unat dim * unat dim) < 2 ^ 32" by simp
  moreover have "msize dim = of_nat (4 * (unat dim * unat dim))" by (simp add: msize_def)
  ultimately show ?thesis by (metis unat_of_nat_32)
qed

lemma words_at_msize:
  assumes "unat dim < 32768" "length xs = unat dim * unat dim"
  shows "words_at xs (msize dim) = Inr xs"
  using assms by (simp add: words_at_def unat_msize)

text \<open>The calls up to the command encoder, up to the wait, and to the end.\<close>

definition encoder_trace :: "gpu_answers \<Rightarrow> ptr \<Rightarrow> ptr \<Rightarrow> u32 list \<Rightarrow> u32 list \<Rightarrow> u32 list \<Rightarrow> u32 \<Rightarrow> trace" where
  "encoder_trace g device queue a b res dim =
     (CreateShaderModule device ''compute_shader'', ga_smod g) # setup_calls g device dim
       @ write_calls g queue res a b dim @ [(CreateCommandEncoder device ''command_encoder'', ga_cenc g)]"

definition waiting_trace :: "gpu_answers \<Rightarrow> ptr \<Rightarrow> ptr \<Rightarrow> ptr \<Rightarrow> u32 list \<Rightarrow> u32 list \<Rightarrow> u32 list \<Rightarrow> u32 \<Rightarrow> nat \<Rightarrow> trace" where
  "waiting_trace g inst device queue a b res dim k =
     encoder_trace g device queue a b res dim @ run_calls g queue dim @ replicate k (ProcessEvents inst, 0)"

definition full_trace :: "gpu_answers \<Rightarrow> ptr \<Rightarrow> ptr \<Rightarrow> ptr \<Rightarrow> u32 list \<Rightarrow> u32 list \<Rightarrow> u32 list \<Rightarrow> u32 \<Rightarrow> nat \<Rightarrow> trace" where
  "full_trace g inst device queue a b res dim k = waiting_trace g inst device queue a b res dim k
     @ [(GetConstMappedRange (ga_res_staging g) 0 (ucast (msize dim)), 0)]"

text \<open>The outcome in every case, for arrays of the size the dimension asks for.\<close>

lemma multiplyMatricesGPU_outcome:
  fixes inst device queue :: ptr and g :: gpu_answers
  assumes "unat dim < 32768" "length a = unat dim * unat dim"
    and "length b = unat dim * unat dim" "length res = unat dim * unat dim"
  shows "multiplyMatricesGPU g inst device queue a b res dim =
   (if ga_smod g = 0 then Host_returns (- 1) [(CreateShaderModule device ''compute_shader'', 0)] None
    else if ga_cenc g = 0 then Host_returns (- 1) (encoder_trace g device queue a b res dim) None
    else case wait_done (ga_done g) of
        None \<Rightarrow> Host_waits (waiting_trace g inst device queue a b res dim (length (ga_done g)))
      | Some k \<Rightarrow> (case ga_range g of
            None \<Rightarrow> Host_returns (- 1) (full_trace g inst device queue a b res dim k) None
          | Some buf \<Rightarrow> (case (a, b, buf) of
                (x # xs, y # ys, z # zs) \<Rightarrow>
                  Host_returns 0 (full_trace g inst device queue a b res dim k) (Some (dim, x, y, z))
              | _ \<Rightarrow> Host_faults OutOfBounds)))"
  using words_at_msize [OF assms(1)] assms(2-4)
  by (simp add: multiplyMatricesGPU_def full_trace_def waiting_trace_def encoder_trace_def Let_def split: option.split list.split)

section \<open>What the calls do\<close>

text \<open>The dispatch: the shader reads the dimension from its fourth binding.\<close>

definition dispatch_effect :: dispatcher where
  "dispatch_effect grp = (\<lambda>(gx, gy, gz) d.
     case (bound_buffer d grp 0, bound_buffer d grp 1, bound_buffer d grp 2, bound_buffer d grp 3) of
       (Some (h, results), Some (_, input_a), Some (_, input_b), Some (_, dimension # _)) \<Rightarrow>
         {d\<lparr>contents := (contents d)(h \<mapsto> cells p)\<rparr> |p. \<exists>l0 ps. those (map (shader_main dimension) (global_ids gx gy gz)) = Some ps
            \<and> pool_reach (shader_exec input_a input_b) (pool_of l0 results ps) (Inr p) \<and> finished p}
     | _ \<Rightarrow> {d})"

text \<open>The device after the set-up, and after the writes.\<close>

definition setup_device :: "gpu_answers \<Rightarrow> u32 \<Rightarrow> device" where
  "setup_device g dim = no_device\<lparr>
     contents := [ga_res_staging g \<mapsto> replicate (unat (msize dim) div 4) 0, ga_res_storage g \<mapsto> replicate (unat (msize dim) div 4) 0,
        ga_ma_storage g \<mapsto> replicate (unat (msize dim) div 4) 0, ga_mb_storage g \<mapsto> replicate (unat (msize dim) div 4) 0,
        ga_dim_storage g \<mapsto> [0]],
     groups := [ga_bind_group g \<mapsto>
             [\<lparr>be_binding = 0, be_buffer = ga_res_storage g, be_offset = 0, be_size = ucast (msize dim)\<rparr>,
              \<lparr>be_binding = 1, be_buffer = ga_ma_storage g, be_offset = 0, be_size = ucast (msize dim)\<rparr>,
              \<lparr>be_binding = 2, be_buffer = ga_mb_storage g, be_offset = 0, be_size = ucast (msize dim)\<rparr>,
              \<lparr>be_binding = 3, be_buffer = ga_dim_storage g, be_offset = 0, be_size = 4\<rparr>]]\<rparr>"

lemma setup_effect: "trace_effect dispatch_effect (setup_calls g device dim) no_device = {setup_device g dim}"
  by (simp add: setup_calls_def Let_def setup_device_def no_device_def storage_desc_def unat_ucast_64)

definition written_device :: "gpu_answers \<Rightarrow> u32 list \<Rightarrow> u32 list \<Rightarrow> u32 list \<Rightarrow> u32 \<Rightarrow> device" where
  "written_device g a b res dim = (setup_device g dim)\<lparr>
     contents := (contents (setup_device g dim))(ga_res_storage g \<mapsto> res, ga_ma_storage g \<mapsto> a, ga_mb_storage g \<mapsto> b,
        ga_dim_storage g \<mapsto> [dim])\<rparr>"

lemma write_effect: "contents d b = Some ws \<Longrightarrow> length ns = length ws \<Longrightarrow>
    call_effect dispatch_effect (WriteBuffer q b 0 ns, h) d = {d\<lparr>contents := (contents d)(b \<mapsto> ns)\<rparr>}"
  by (simp add: overwrite_all)

lemma setup_contents:
  assumes "distinct (buffer_handles g)" "unat dim < 32768"
  shows "contents (setup_device g dim) (ga_res_staging g) = Some (replicate (unat dim * unat dim) 0)"
    "contents (setup_device g dim) (ga_res_storage g) = Some (replicate (unat dim * unat dim) 0)"
    "contents (setup_device g dim) (ga_ma_storage g) = Some (replicate (unat dim * unat dim) 0)"
    "contents (setup_device g dim) (ga_mb_storage g) = Some (replicate (unat dim * unat dim) 0)"
    "contents (setup_device g dim) (ga_dim_storage g) = Some [0]"
  using assms(1) unat_msize [OF assms(2)] by (simp_all add: setup_device_def buffer_handles_def)

lemma handles_differ:
  assumes "distinct (buffer_handles g)"
  shows "ga_res_staging g \<noteq> ga_res_storage g" "ga_res_staging g \<noteq> ga_ma_storage g" "ga_res_staging g \<noteq> ga_mb_storage g"
    "ga_res_staging g \<noteq> ga_dim_storage g" "ga_res_storage g \<noteq> ga_ma_storage g" "ga_res_storage g \<noteq> ga_mb_storage g"
    "ga_res_storage g \<noteq> ga_dim_storage g" "ga_ma_storage g \<noteq> ga_mb_storage g" "ga_ma_storage g \<noteq> ga_dim_storage g"
    "ga_mb_storage g \<noteq> ga_dim_storage g"
  using assms by (simp_all add: buffer_handles_def)

lemma written_effect:
  assumes "distinct (buffer_handles g)" "unat dim < 32768" "length a = unat dim * unat dim"
    and "length b = unat dim * unat dim" "length res = unat dim * unat dim"
  shows "trace_effect dispatch_effect (write_calls g queue res a b dim) (setup_device g dim) = {written_device g a b res dim}"
  using assms(3-5) handles_differ [OF assms(1)] handles_differ [OF assms(1), symmetric]
  by (simp add: write_calls_def written_device_def setup_contents [OF assms(1,2)] overwrite_all)

lemma written_contents:
  fixes a b res :: "u32 list" and g :: gpu_answers and dim :: u32
  assumes "distinct (buffer_handles g)" "unat dim < 32768"
  defines "d \<equiv> written_device g a b res dim"
  shows "contents d (ga_res_staging g) = Some (replicate (unat dim * unat dim) 0)"
    "contents d (ga_res_storage g) = Some res" "contents d (ga_ma_storage g) = Some a"
    "contents d (ga_mb_storage g) = Some b" "contents d (ga_dim_storage g) = Some [dim]"
  using handles_differ [OF assms(1)] setup_contents(1) [OF assms(1,2)] by (simp_all add: d_def written_device_def)

lemma written_recorded: "recorded (written_device g a b res dim) = (\<lambda>_. [])"
  by (simp add: written_device_def setup_device_def no_device_def)

lemma encoder_effect:
  assumes "distinct (buffer_handles g)" "unat dim < 32768" "length a = unat dim * unat dim"
    and "length b = unat dim * unat dim" "length res = unat dim * unat dim"
  shows "trace_effect dispatch_effect (encoder_trace g device queue a b res dim) no_device = {written_device g a b res dim}"
  by (simp add: encoder_trace_def trace_effect_append setup_effect written_effect [OF assms] written_recorded fun_upd_idem)

text \<open>The recorded commands, and what they do to the buffers.\<close>

definition recorded_commands :: "gpu_answers \<Rightarrow> u32 \<Rightarrow> gpu_call list" where
  "recorded_commands g dim =
     [SetBindGroup (ga_pass g) 0 (ga_bind_group g), DispatchWorkgroups (ga_pass g) (dim div 16) (dim div 16) 1,
      CopyBufferToBuffer (ga_cenc g) (ga_res_storage g) 0 (ga_res_staging g) 0 (ucast (msize dim))]"

definition finished_device :: "gpu_answers \<Rightarrow> u32 \<Rightarrow> device \<Rightarrow> device" where
  "finished_device g dim d = d\<lparr>pass_encoder := (pass_encoder d)(ga_pass g \<mapsto> ga_cenc g),
     recorded := (recorded d)(ga_cenc g := recorded_commands g dim),
     command_buffers := (command_buffers d)(ga_command_buffer g \<mapsto> recorded_commands g dim)\<rparr>"

lemma run_effect:
  assumes "recorded d (ga_cenc g) = []"
  shows "trace_effect dispatch_effect (run_calls g queue dim) d = commands_effect dispatch_effect 0 (recorded_commands g dim) (finished_device g dim d)"
  using assms by (simp add: run_calls_def record_command_def finished_device_def recorded_commands_def)

lemma bound_buffers:
  fixes a b res :: "u32 list" and g :: gpu_answers and dim :: u32
  assumes "distinct (buffer_handles g)" "unat dim < 32768"
  defines "d \<equiv> finished_device g dim (written_device g a b res dim)"
  shows "bound_buffer d (ga_bind_group g) 0 = Some (ga_res_storage g, res)"
    "bound_buffer d (ga_bind_group g) 1 = Some (ga_ma_storage g, a)"
    "bound_buffer d (ga_bind_group g) 2 = Some (ga_mb_storage g, b)"
    "bound_buffer d (ga_bind_group g) 3 = Some (ga_dim_storage g, [dim])"
proof -
  have "groups d = groups (setup_device g dim)" by (simp add: d_def finished_device_def written_device_def)
  then show "bound_buffer d (ga_bind_group g) 0 = Some (ga_res_storage g, res)"
    "bound_buffer d (ga_bind_group g) 1 = Some (ga_ma_storage g, a)"
    "bound_buffer d (ga_bind_group g) 2 = Some (ga_mb_storage g, b)"
    "bound_buffer d (ga_bind_group g) 3 = Some (ga_dim_storage g, [dim])"
    using written_contents [OF assms(1,2), of a b res]
    by (simp_all add: d_def finished_device_def bound_buffer_def setup_device_def)
qed

lemma shader_run_dispatch:
  "shader_run l0 dim res = map_option (pool_of l0 res) (those (map (shader_main dim) (global_ids (dim div 16) (dim div 16) 1)))"
  by (simp add: shader_run_def dispatched_def)

definition shader_results :: "u32 \<Rightarrow> u32 list \<Rightarrow> u32 list \<Rightarrow> u32 list \<Rightarrow> u32 list set" where
  "shader_results dim a b res = {cells p |p. \<exists>l0 p0. shader_run l0 dim res = Some p0
     \<and> pool_reach (shader_exec a b) p0 (Inr p) \<and> finished p}"

lemma shader_results_dispatch:
  assumes "unat dim \<le> 65536" "length a = unat dim * unat dim" "length b = unat dim * unat dim"
    and "length res = unat dim * unat dim"
  shows "shader_results dim a b res = {dispatch_result dim a b res}"
proof -
  have r: "cells p = dispatch_result dim a b res"
    if "shader_run l0 dim res = Some p0" "pool_reach (shader_exec a b) p0 (Inr p)" "finished p" for l0 p0 p
    using shader_result [OF assms, of l0 "Inr p"] that by (simp add: shader_run_pool)
  show ?thesis
  proof
    show "shader_results dim a b res \<subseteq> {dispatch_result dim a b res}"
      unfolding shader_results_def using r by blast
    obtain q0 q where q: "shader_run 0 dim res = Some q0" "pool_reach (shader_exec a b) q0 (Inr q)" "finished q"
      using shader_finishes [OF assms, of 0] by blast
    then have "cells q \<in> shader_results dim a b res" unfolding shader_results_def by blast
    then show "{dispatch_result dim a b res} \<subseteq> shader_results dim a b res" using r [OF q] by simp
  qed
qed

lemma commands_result:
  fixes a b res :: "u32 list" and g :: gpu_answers and dim :: u32
  assumes "distinct (buffer_handles g)" "unat dim < 32768" "length a = unat dim * unat dim"
    and "length b = unat dim * unat dim" "length res = unat dim * unat dim"
  defines "d \<equiv> finished_device g dim (written_device g a b res dim)"
  shows "(\<lambda>d. contents d (ga_res_staging g)) ` commands_effect dispatch_effect 0 (recorded_commands g dim) d = {Some (dispatch_result dim a b res)}"
proof -
  let ?st = "ga_res_storage g"
  have c: "contents d = contents (written_device g a b res dim)" by (simp add: d_def finished_device_def)
  have len: "length (dispatch_result dim a b res) = unat dim * unat dim" by (simp add: dispatch_result_def assms(5))
  have "dispatch_effect (ga_bind_group g) (dim div 16, dim div 16, 1) d
      = {d\<lparr>contents := (contents d)(?st \<mapsto> cells p)\<rparr> |p. \<exists>l0 ps.
           those (map (shader_main dim) (global_ids (dim div 16) (dim div 16) 1)) = Some ps
             \<and> pool_reach (shader_exec a b) (pool_of l0 res ps) (Inr p) \<and> finished p}"
    unfolding dispatch_effect_def d_def by (simp add: bound_buffers [OF assms(1,2)] del: One_nat_def)
  also have "\<dots> = (\<lambda>xs. d\<lparr>contents := (contents d)(?st \<mapsto> xs)\<rparr>) ` shader_results dim a b res"
    unfolding shader_results_def shader_run_dispatch by auto blast
  also have "\<dots> = {d\<lparr>contents := (contents d)(?st \<mapsto> dispatch_result dim a b res)\<rparr>}"
    using assms(2) by (simp add: shader_results_dispatch assms(3-5))
  finally have e: "dispatch_effect (ga_bind_group g) (dim div 16, dim div 16, 1) d = \<dots>" .
  show ?thesis
    using e c handles_differ(1) [OF assms(1)] written_contents(1) [OF assms(1,2)] unat_msize [OF assms(2)] len
    by (simp add: recorded_commands_def unat_ucast_64 overwrite_all)
qed

text \<open>The staging buffer after all calls.\<close>

lemma full_trace_effect:
  assumes "distinct (buffer_handles g)" "unat dim < 32768" "length a = unat dim * unat dim"
    and "length b = unat dim * unat dim" "length res = unat dim * unat dim"
  shows "(\<lambda>d. contents d (ga_res_staging g)) ` trace_effect dispatch_effect (full_trace g inst device queue a b res dim k) no_device
    = {Some (dispatch_result dim a b res)}"
  using commands_result [OF assms]
  by (simp add: full_trace_def waiting_trace_def trace_effect_append encoder_effect [OF assms] run_effect
      written_recorded events_effect image_UN)

lemma gpu_result:
  assumes "0 < unat dim" "unat dim < 32768" "16 dvd unat dim" "length a = unat dim * unat dim"
    and "length b = unat dim * unat dim" "length res = unat dim * unat dim"
    and "distinct (buffer_handles g)" "ga_smod g \<noteq> 0" "ga_cenc g \<noteq> 0" "wait_done (ga_done g) = Some k"
    and "ga_range g \<in> (\<lambda>d. contents d (ga_res_staging g)) ` trace_effect dispatch_effect (full_trace g inst device queue a b res dim k) no_device"
  shows "ga_range g = Some (matrix_product (unat dim) a b)
    \<and> multiplyMatricesGPU g inst device queue a b res dim
      = Host_returns 0 (full_trace g inst device queue a b res dim k) (Some (dim, a ! 0, b ! 0, product_at (unat dim) a b 0 0))"
proof -
  have r: "ga_range g = Some (matrix_product (unat dim) a b)"
    using assms(11) full_trace_effect [OF assms(7,2,4-6), of inst device queue k]
    by (simp add: dispatch_result_full [OF assms(3,6)])
  have n: "0 < unat dim * unat dim" using assms(1) by simp
  then obtain x xs y ys where ab: "a = x # xs" "b = y # ys"
    using assms(4,5) by (cases a; cases b) simp_all
  have m: "matrix_product (unat dim) a b = product_at (unat dim) a b 0 0 # map (\<lambda>x. product_at (unat dim) a b (x div unat dim) (x mod unat dim)) [1..<unat dim * unat dim]"
    unfolding matrix_product_def upt_conv_Cons [OF n] by simp
  show ?thesis
    unfolding multiplyMatricesGPU_outcome [OF assms(2,4-6)] using r m assms(8-10) ab by simp
qed

section \<open>Properties\<close>

text \<open>
  C34: \<open>multiplyMatricesGPU\<close> computes the product: when the implementation creates the module, the
  encoder and five different buffers, runs the callback, and the mapped range holds what the
  calls leave in the staging buffer, then the function returns 0, reports the first cells of the
  inputs and of the product, and the range is the matrix product, whatever the order of the
  invocations. The dimension is a multiple of 16, at least 16 and below 32768: the dispatch leaves
  out the cells beyond the last multiple of 16, and at 32768 the size in bytes wraps to 0.
\<close>

theorem multiplyMatricesGPU_computes_product:
  assumes "0 < unat dim" "unat dim < 32768" "16 dvd unat dim" "length a = unat dim * unat dim"
    and "length b = unat dim * unat dim" "length res = unat dim * unat dim"
    and "distinct (buffer_handles g)" "ga_smod g \<noteq> 0" "ga_cenc g \<noteq> 0" "wait_done (ga_done g) = Some k"
    and "ga_range g \<in> (\<lambda>d. contents d (ga_res_staging g)) ` trace_effect dispatch_effect (full_trace g inst device queue a b res dim k) no_device"
  shows "ga_range g = Some (matrix_product (unat dim) a b)
    \<and> multiplyMatricesGPU g inst device queue a b res dim
      = Host_returns 0 (full_trace g inst device queue a b res dim k) (Some (dim, a ! 0, b ! 0, product_at (unat dim) a b 0 0))"
  using gpu_result [OF assms] .

text \<open>
  A dimension of 32768 is too big: the size in bytes wraps to 0, so that the buffer of the result
  and its binding are empty and the writes of the matrices carry no data, whatever the
  implementation answers after it has created the module.
\<close>

theorem GPU_size_wraps:
  fixes inst device queue :: ptr and x y :: u32 and a b res :: "u32 list"
  assumes "ga_smod g \<noteq> 0" "ga_range g \<noteq> Some []"
  defines "t \<equiv> set (host_trace (multiplyMatricesGPU g inst device queue (x # a) (y # b) res 32768))"
  shows "(CreateBuffer device (storage_desc ''result_storage_buffer'' 0), ga_res_storage g) \<in> t"
    and "(WriteBuffer queue (ga_ma_storage g) 0 [], 0) \<in> t"
proof -
  have z: "msize 32768 = 0" by (simp add: msize_def)
  have w: "words_at xs 0 = Inr []" for xs by (simp add: words_at_def)
  show "(CreateBuffer device (storage_desc ''result_storage_buffer'' 0), ga_res_storage g) \<in> t"
    "(WriteBuffer queue (ga_ma_storage g) 0 [], 0) \<in> t"
    using assms(1,2) unfolding t_def multiplyMatricesGPU_def z
    by (auto simp: w z setup_calls_def write_calls_def Let_def split: option.split list.split)
qed

section \<open>Witnesses\<close>

definition demo_answers :: "u32 list option \<Rightarrow> gpu_answers" where
  "demo_answers rng = \<lparr>ga_smod = 10, ga_pipeline = 11, ga_layout = 12, ga_res_staging = 13, ga_res_storage = 14,
     ga_ma_storage = 15, ga_mb_storage = 16, ga_dim_storage = 17, ga_bind_group = 18, ga_cenc = 19, ga_pass = 20,
     ga_command_buffer = 21, ga_done = [False, True], ga_range = rng\<rparr>"

lemma demo_answers_ok: "distinct (buffer_handles (demo_answers r))" "ga_smod (demo_answers r) \<noteq> 0"
    "ga_cenc (demo_answers r) \<noteq> 0" "wait_done (ga_done (demo_answers r)) = Some 1" "ga_range (demo_answers r) = r"
  by (simp_all add: demo_answers_def buffer_handles_def)

lemma multiplyMatricesGPU_computes_product_witness:
  "let g = demo_answers (Some (replicate 256 96))
   in multiplyMatricesGPU g 1 2 3 (replicate 256 2) (replicate 256 3) (replicate 256 7) 16
      = Host_returns 0 (full_trace g 1 2 3 (replicate 256 2) (replicate 256 3) (replicate 256 7) 16 1) (Some (16, 2, 3, 96))"
proof -
  let ?a = "replicate 256 2 :: u32 list" and ?b = "replicate 256 3 :: u32 list" and ?res = "replicate 256 7 :: u32 list"
    and ?g = "demo_answers (Some (replicate 256 96))"
  have m: "matrix_product 16 ?a ?b = replicate 256 96" using matrix_product_constant [of 16 2 3] by simp
  have d: "0 < unat (16 :: u32)" "unat (16 :: u32) < 32768" "16 dvd unat (16 :: u32)"
      "length ?a = unat (16 :: u32) * unat (16 :: u32)" "length ?b = unat (16 :: u32) * unat (16 :: u32)"
      "length ?res = unat (16 :: u32) * unat (16 :: u32)" by simp_all
  have "ga_range ?g \<in> (\<lambda>d. contents d (ga_res_staging ?g)) ` trace_effect dispatch_effect (full_trace ?g 1 2 3 ?a ?b ?res 16 1) no_device"
    using full_trace_effect [OF demo_answers_ok(1) d(2,4-6)] dispatch_result_full [OF d(3,6)] m
    by (simp add: demo_answers_ok)
  from multiplyMatricesGPU_computes_product [OF d demo_answers_ok(1-4) this]
  have "multiplyMatricesGPU ?g 1 2 3 ?a ?b ?res 16
      = Host_returns 0 (full_trace ?g 1 2 3 ?a ?b ?res 16 1) (Some (16, ?a ! 0, ?b ! 0, product_at 16 ?a ?b 0 0))" by simp
  moreover have "product_at 16 ?a ?b 0 0 = 96"
  proof -
    have "matrix_product 16 ?a ?b ! 0 = product_at 16 ?a ?b 0 0" by (simp add: matrix_product_def)
    then show ?thesis unfolding m by simp
  qed
  ultimately show ?thesis by (simp add: Let_def)
qed

lemma GPU_size_wraps_witness:
  "(WriteBuffer 3 15 0 [], 0) \<in> set (host_trace (multiplyMatricesGPU (demo_answers (Some [6])) 1 2 3 [2] [3] [0] 32768))"
  using GPU_size_wraps(2) [of "demo_answers (Some [6])" 3] by (simp add: demo_answers_def)

end
