(* ===== verification/Wgpu_Setup.thy ===== *)
theory Wgpu_Setup
  imports Proc_Values Api_Enums
begin

text \<open>
  \<open>src/examples/wgpu_util.hpp\<close>: how the example programs get an instance, an adapter, a device and a
  queue, and what their callbacks do. The implementation of WebGPU is a parameter: the handles it
  returns and the responses with which it calls the callbacks.
\<close>

section \<open>Callbacks\<close>

text \<open>
  A response to a request: status, handle and message. A callback stores the handle where the
  waiting thread looks for it and prints the message, if there is one; it does not read the
  status.
\<close>

type_synonym response = "uint32 \<times> ptr \<times> string option"
type_synonym stderr = "string list"

definition adapterRequestCb :: "response \<Rightarrow> ptr \<times> stderr" where
  "adapterRequestCb = (\<lambda>(status, adapter, message).
     (adapter, case message of None \<Rightarrow> [] | Some s \<Rightarrow> [''adapter request message: '' @ s]))"

definition deviceRequestCb :: "response \<Rightarrow> ptr \<times> stderr" where
  "deviceRequestCb = (\<lambda>(status, device, message).
     (device, case message of None \<Rightarrow> [] | Some s \<Rightarrow> [''device request message: '' @ s]))"

definition handle_buffer_map :: "uint32 \<Rightarrow> bool \<Rightarrow> bool" where
  "handle_buffer_map status done_flag = True"

definition PrintDeviceError :: "WGPUErrorType \<Rightarrow> string \<Rightarrow> stderr" where
  "PrintDeviceError errorType message =
     (let line = (\<lambda>errorTypeName. [errorTypeName @ '' error: '' @ message])
      in case errorType of
          WGPUErrorType_Validation \<Rightarrow> line ''Validation''
        | WGPUErrorType_OutOfMemory \<Rightarrow> line ''Out of memory''
        | WGPUErrorType_Unknown \<Rightarrow> line ''Unknown''
        | WGPUErrorType_DeviceLost \<Rightarrow> line ''Device lost''
        | _ \<Rightarrow> [])"

definition DeviceLogCallback :: "string \<Rightarrow> stderr" where
  "DeviceLogCallback message = [''Device log: '' @ message]"

section \<open>Set-up\<close>

text \<open>
  \<open>cv.wait(lk, ...)\<close>: the variable is looked at before the first response and after every response;
  the wait ends when it is not null. The result is \<open>None\<close> while the thread is still waiting after
  the given responses.
\<close>

fun wait_nonnull :: "(response \<Rightarrow> ptr \<times> stderr) \<Rightarrow> ptr \<Rightarrow> response list \<Rightarrow> ptr option \<times> stderr" where
  "wait_nonnull cb h [] = (if h \<noteq> 0 then Some h else None, [])"
| "wait_nonnull cb h (r # rs) = (if h \<noteq> 0 then (Some h, [])
     else let (h', out) = cb r; (res, out') = wait_nonnull cb h' rs in (res, out @ out'))"

datatype (plugins only: code size) setup_call =
    CreateInstance
  | RequestAdapter ptr
  | RequestDevice ptr
  | SetUncapturedErrorCallback ptr
  | SetLoggingCallback ptr
  | GetQueue ptr

record setup_answers =
  sa_instance :: ptr
  sa_adapter :: "response list"
  sa_device :: "response list"
  sa_queue :: ptr

text \<open>With \<open>BACKEND_DAWN_NATIVE\<close>, \<open>getWGPUInstance\<close> first installs the table of the native implementation.\<close>

definition getWGPUInstance :: "setup_answers \<Rightarrow> ptr \<times> setup_call list" where
  "getWGPUInstance s = (sa_instance s, [CreateInstance])"

definition getWGPUAdapter :: "setup_answers \<Rightarrow> ptr \<Rightarrow> ptr option \<times> setup_call list \<times> stderr" where
  "getWGPUAdapter s inst =
     (let (adapter, out) = wait_nonnull adapterRequestCb 0 (sa_adapter s) in (adapter, [RequestAdapter inst], out))"

definition getWGPUDevice :: "setup_answers \<Rightarrow> ptr \<Rightarrow> ptr option \<times> setup_call list \<times> stderr" where
  "getWGPUDevice s adapter =
     (case wait_nonnull deviceRequestCb 0 (sa_device s) of
        (None, out) \<Rightarrow> (None, [RequestDevice adapter], out)
      | (Some device, out) \<Rightarrow>
          (Some device, [RequestDevice adapter, SetUncapturedErrorCallback device, SetLoggingCallback device], out))"

record WGPUContext =
  ctx_instance :: ptr
  ctx_adapter :: ptr
  ctx_device :: ptr
  ctx_queue :: ptr

datatype (plugins only: code size) setup_outcome = Setup_returns int "WGPUContext option" | Setup_waits

definition setUpWGPU :: "setup_answers \<Rightarrow> setup_outcome \<times> setup_call list \<times> stderr" where
  "setUpWGPU s =
     (let (inst, is) = getWGPUInstance s
      in if inst = 0
         then (Setup_returns (- 1) None, is, [''Failed to create a WebGPU instance''])
         else case getWGPUAdapter s inst of
           (None, cs, out) \<Rightarrow> (Setup_waits, is @ cs, out)
         | (Some adapter, cs, out) \<Rightarrow>
             if adapter = 0
             then (Setup_returns (- 1) None, is @ cs, out @ [''Failed to get a WebGPU adapter''])
             else case getWGPUDevice s adapter of
               (None, ds, out') \<Rightarrow> (Setup_waits, is @ cs @ ds, out @ out')
             | (Some device, ds, out') \<Rightarrow>
                 if device = 0
                 then (Setup_returns (- 1) None, is @ cs @ ds, out @ out' @ [''Failed to get a WebGPU device''])
                 else let queue = sa_queue s; es = is @ cs @ ds @ [GetQueue device]
                      in if queue = 0
                         then (Setup_returns (- 1) None, es, out @ out' @ [''Failed to obtain device queue''])
                         else (Setup_returns 0 (Some \<lparr>ctx_instance = inst, ctx_adapter = adapter,
                                 ctx_device = device, ctx_queue = queue\<rparr>), es, out @ out'))"

section \<open>Properties\<close>

text \<open>The handle the wait ends with is the first one that is not null.\<close>

definition first_handle :: "response list \<Rightarrow> ptr option" where
  "first_handle rs = List.find (\<lambda>h. h \<noteq> 0) (map (fst \<circ> snd) rs)"

lemma wait_nonnull_Cons: "fst (wait_nonnull cb h (r # rs)) = (if h \<noteq> 0 then Some h else fst (wait_nonnull cb (fst (cb r)) rs))"
  by (simp split: prod.split)

lemma first_handle_simps: "first_handle [] = None"
    "first_handle (r # rs) = (if fst (snd r) \<noteq> 0 then Some (fst (snd r)) else first_handle rs)"
  by (simp_all add: first_handle_def)

lemma wait_nonnull_first:
  assumes "\<And>r. fst (cb r) = fst (snd r)"
  shows "fst (wait_nonnull cb 0 rs) = first_handle rs"
proof -
  have "fst (wait_nonnull cb h rs) = (if h \<noteq> 0 then Some h else first_handle rs)" for h
  proof (induction rs arbitrary: h)
    case (Cons r rs)
    show ?case unfolding wait_nonnull_Cons Cons.IH first_handle_simps assms by simp
  qed (simp add: first_handle_simps)
  from this [of 0] show ?thesis by simp
qed

lemma callbacks_store: "fst (adapterRequestCb r) = fst (snd r)" "fst (deviceRequestCb r) = fst (snd r)"
  by (simp_all add: adapterRequestCb_def deviceRequestCb_def split: prod.split)

lemma wait_handles:
  "fst (wait_nonnull adapterRequestCb 0 rs) = first_handle rs" "fst (wait_nonnull deviceRequestCb 0 rs) = first_handle rs"
  by (rule wait_nonnull_first, rule callbacks_store)+

lemma first_handle_nonnull: "first_handle rs = Some h \<Longrightarrow> h \<noteq> 0"
  by (auto simp: first_handle_def find_Some_iff)

lemma first_handle_none: "first_handle rs = None \<longleftrightarrow> (\<forall>r \<in> set rs. fst (snd r) = 0)"
  by (auto simp: first_handle_def find_None_iff)

lemma setUpWGPU_outcome:
  "fst (setUpWGPU s) =
    (if sa_instance s = 0 then Setup_returns (- 1) None
     else case (first_handle (sa_adapter s), first_handle (sa_device s)) of
       (Some adapter, Some device) \<Rightarrow>
          (if sa_queue s = 0 then Setup_returns (- 1) None
           else Setup_returns 0 (Some \<lparr>ctx_instance = sa_instance s, ctx_adapter = adapter,
                   ctx_device = device, ctx_queue = sa_queue s\<rparr>))
     | _ \<Rightarrow> Setup_waits)"
  using wait_handles [of "sa_adapter s"] wait_handles [of "sa_device s"]
    first_handle_nonnull [of "sa_adapter s"] first_handle_nonnull [of "sa_device s"]
  by (auto simp: setUpWGPU_def getWGPUInstance_def getWGPUAdapter_def getWGPUDevice_def Let_def split: prod.splits option.splits)

text \<open>What is printed while waiting are messages of the implementation.\<close>

lemma wait_nonnull_prints:
  assumes "l \<in> set (snd (wait_nonnull cb h rs))" "\<And>r. l \<in> set (snd (cb r)) \<Longrightarrow> P"
  shows P
  using assms(1)
proof (induction rs arbitrary: h)
  case (Cons r rs)
  from Cons.prems Cons.IH [of "fst (cb r)"] assms(2) [of r] show ?case
    by (auto split: prod.splits if_splits)
qed simp

lemma callback_prints:
  "l \<in> set (snd (adapterRequestCb r)) \<Longrightarrow> hd l = CHR ''a''" "l \<in> set (snd (deviceRequestCb r)) \<Longrightarrow> hd l = CHR ''d''"
  by (auto simp: adapterRequestCb_def deviceRequestCb_def split: prod.splits option.splits)

lemma wait_prints:
  "wait_nonnull adapterRequestCb h rs = (res, out) \<Longrightarrow> l \<in> set out \<Longrightarrow> hd l = CHR ''a''"
  "wait_nonnull deviceRequestCb h rs = (res, out) \<Longrightarrow> l \<in> set out \<Longrightarrow> hd l = CHR ''d''"
  by (metis wait_nonnull_prints callback_prints snd_conv)+

lemma setup_waits_prints:
  assumes "fst (setUpWGPU s) = Setup_waits" "l \<in> set (snd (snd (setUpWGPU s)))"
  shows "hd l = CHR ''a'' \<or> hd l = CHR ''d''"
  using assms
  by (auto simp: setUpWGPU_def getWGPUInstance_def getWGPUAdapter_def getWGPUDevice_def Let_def dest: wait_prints
      split: prod.splits option.splits if_splits)

text \<open>
  When \<open>setUpWGPU\<close> succeeds: exactly when the instance and the queue are not null and both
  requests are answered, sooner or later, with a handle that is not null; the context then holds
  the first such handles. The status of a response does not matter.
\<close>

theorem Setup_succeeds_iff:
  "fst (setUpWGPU s) = Setup_returns 0 (Some ctx) \<longleftrightarrow>
     sa_instance s \<noteq> 0 \<and> sa_queue s \<noteq> 0 \<and> first_handle (sa_adapter s) = Some (ctx_adapter ctx)
     \<and> first_handle (sa_device s) = Some (ctx_device ctx)
     \<and> ctx_instance ctx = sa_instance s \<and> ctx_queue ctx = sa_queue s"
  by (cases ctx) (auto simp: setUpWGPU_outcome split: option.split)

text \<open>
  C35: A refused request is never reported: when an adapter or a device is refused, all responses to
  the request being null, \<open>setUpWGPU\<close> does not return -1 but is still waiting, and the messages that
  it has for these two cases are not printed.
\<close>

theorem Refused_request_waits:
  assumes "sa_instance s \<noteq> 0" "first_handle (sa_adapter s) = None \<or> first_handle (sa_device s) = None"
  shows "fst (setUpWGPU s) = Setup_waits
    \<and> ''Failed to get a WebGPU adapter'' \<notin> set (snd (snd (setUpWGPU s)))
    \<and> ''Failed to get a WebGPU device'' \<notin> set (snd (snd (setUpWGPU s)))"
proof -
  have w: "fst (setUpWGPU s) = Setup_waits"
    unfolding setUpWGPU_outcome using assms by (auto split: option.split)
  from setup_waits_prints [OF this] show ?thesis using w by fastforce
qed

text \<open>
  Internal errors of the device are not printed, errors of the other kinds are.
\<close>

lemma PrintDeviceError_prints:
  "PrintDeviceError k message = [] \<longleftrightarrow> k \<in> {WGPUErrorType_NoError, WGPUErrorType_Internal, WGPUErrorType_Force32}"
  by (cases k) (simp_all add: PrintDeviceError_def Let_def)

section \<open>Witnesses\<close>

lemma Refused_request_waits_witness:
  "setUpWGPU \<lparr>sa_instance = 5, sa_adapter = [(1, 0, Some ''unavailable'')], sa_device = [], sa_queue = 9\<rparr>
     = (Setup_waits, [CreateInstance, RequestAdapter 5], [''adapter request message: unavailable''])
   \<and> fst (setUpWGPU \<lparr>sa_instance = 5, sa_adapter = [(1, 0, Some ''unavailable'')], sa_device = [], sa_queue = 9\<rparr>) = Setup_waits"
proof
  let ?s = "\<lparr>sa_instance = 5, sa_adapter = [(1, 0, Some ''unavailable'')], sa_device = [], sa_queue = 9\<rparr>"
  show "setUpWGPU ?s = (Setup_waits, [CreateInstance, RequestAdapter 5], [''adapter request message: unavailable''])"
    by (simp add: setUpWGPU_def getWGPUInstance_def getWGPUAdapter_def adapterRequestCb_def)
  show "fst (setUpWGPU ?s) = Setup_waits"
    using Refused_request_waits [of ?s] by (simp add: first_handle_simps)
qed

end
