(* ===== verification/Matmul_Main.thy ===== *)
theory Matmul_Main
  imports Matmul_Host Wgpu_Setup
begin

text \<open>
  \<open>src/examples/matmul.cpp\<close>: the example program, which multiplies two matrices of dimension 1024 as
  often as its second argument says, on the CPU (\<open>Matmul_Cpu\<close>) or through WebGPU (\<open>Wgpu_Setup\<close>,
  \<open>Matmul_Host\<close>), and prints a cell of the result each time. The time it prints is left out.
\<close>

section \<open>Arguments\<close>

text \<open>
  \<open>atoi\<close> of the C library: white space, a sign, digits up to the first other character. It is not
  defined for a number that is not an \<open>int\<close>: then \<open>None\<close>.
\<close>

definition is_space :: "char \<Rightarrow> bool" where
  "is_space c \<longleftrightarrow> of_char c = (32 :: nat) \<or> 9 \<le> (of_char c :: nat) \<and> (of_char c :: nat) \<le> 13"

definition is_digit :: "char \<Rightarrow> bool" where
  "is_digit c \<longleftrightarrow> 48 \<le> (of_char c :: nat) \<and> (of_char c :: nat) \<le> 57"

definition digits_value :: "string \<Rightarrow> int" where
  "digits_value s = foldl (\<lambda>n c. 10 * n + (of_char c - 48)) 0 (takeWhile is_digit s)"

fun signed_value :: "string \<Rightarrow> int" where
  "signed_value (c # s) = (if c = CHR ''-'' then - digits_value s else if c = CHR ''+'' then digits_value s
     else digits_value (c # s))"
| "signed_value [] = 0"

definition atoi :: "string \<Rightarrow> int option" where
  "atoi s = (let v = signed_value (dropWhile is_space s) in if - (2 ^ 31) \<le> v \<and> v < 2 ^ 31 then Some v else None)"

datatype BackendType = CPU | GPU

record Config =
  backend :: BackendType
  repetitions :: int

definition EINVAL :: int where "EINVAL = 22"
definition ENOMEM :: int where "ENOMEM = 12"

text \<open>
  \<open>configure\<close>: the exit code or the configuration; \<open>None\<close> if \<open>atoi\<close> is not defined. The program can
  be built without the GPU backend (\<open>BACKEND_GPU\<close> is not defined). A program is called with its own
  name first.
\<close>

definition configure :: "bool \<Rightarrow> string list \<Rightarrow> (int + Config) option" where
  "configure BACKEND_GPU argv =
     (if length argv \<noteq> 3 then Some (Inl (- EINVAL))
      else case atoi (argv ! 2) of
          None \<Rightarrow> None
        | Some n \<Rightarrow> Some (
            if n < 1 then Inl (- EINVAL)
            else if BACKEND_GPU \<and> argv ! 1 = ''gpu'' then Inr \<lparr>backend = GPU, repetitions = n\<rparr>
            else if argv ! 1 = ''cpu'' then Inr \<lparr>backend = CPU, repetitions = n\<rparr>
            else Inl (- 1)))"

section \<open>Matrices\<close>

record SquareMatrix =
  mData :: "u32 list option"
  mDimension :: u32

definition SquareMatrix :: "int \<Rightarrow> SquareMatrix" where
  "SquareMatrix dimension = \<lparr>mData = None, mDimension = of_int dimension\<rparr>"

text \<open>
  \<open>malloc\<close> returns the words of the block it allocates, whatever they are, or nothing.
\<close>

type_synonym allocator = "size_t \<Rightarrow> u32 list option"

definition SquareMatrix_init :: "allocator \<Rightarrow> SquareMatrix \<Rightarrow> int \<times> SquareMatrix" where
  "SquareMatrix_init malloc mt =
     (case malloc (ucast (mDimension mt * mDimension mt) * 4) of
        None \<Rightarrow> (- ENOMEM, mt)
      | Some xs \<Rightarrow> (0, mt\<lparr>mData := Some xs\<rparr>))"

definition store :: "u32 \<Rightarrow> u32 \<Rightarrow> u32 list \<Rightarrow> u32 list result" where
  "store n i xs = (if unat i < length xs then Inr (xs[unat i := n]) else Inl OutOfBounds)"

fun store_all :: "u32 \<Rightarrow> u32 list \<Rightarrow> u32 list \<Rightarrow> u32 list result" where
  "store_all n [] xs = Inr xs"
| "store_all n (i # is) xs = rbind (store n i xs) (store_all n is)"

text \<open>The loop that fills a matrix; \<open>NullPointer\<close> if there is no data, which \<open>init\<close> excludes.\<close>

definition SquareMatrix_init_value :: "allocator \<Rightarrow> u32 \<Rightarrow> SquareMatrix \<Rightarrow> (int \<times> SquareMatrix) result" where
  "SquareMatrix_init_value malloc n mt =
     (let (r, mt1) = SquareMatrix_init malloc mt
      in if r \<noteq> 0 then Inr (- ENOMEM, mt1)
         else case (mData mt1, u32_for 0 (mDimension mt1 * mDimension mt1) 1 (\<lambda>i. Some [i])) of
             (Some xs, Some is) \<Rightarrow> rbind (store_all n is xs) (\<lambda>ys. Inr (0, mt1\<lparr>mData := Some ys\<rparr>))
           | _ \<Rightarrow> Inl NullPointer)"

section \<open>The program\<close>

text \<open>
  What is printed for a repetition: the dimension and the first cells of the inputs and of the
  result. The program exits, waits for an answer that does not come, or does something that C
  does not define.
\<close>

type_synonym line = "u32 \<times> u32 \<times> u32 \<times> u32"

datatype main_outcome =
    Main_exits int "line list"
  | Main_waits "line list"
  | Main_faults fault
  | Main_undefined

fun after_lines :: "line list \<Rightarrow> main_outcome \<Rightarrow> main_outcome" where
  "after_lines ls (Main_exits r ks) = Main_exits r (ls @ ks)"
| "after_lines ls (Main_waits ks) = Main_waits (ls @ ks)"
| "after_lines ls (Main_faults f) = Main_faults f"
| "after_lines ls Main_undefined = Main_undefined"

text \<open>
  What \<open>multiplyMatrices\<close> may leave in the result, over all schedules, or how it may fault. (That
  every schedule ends is \<open>multiplyMatrices_ends\<close>.)
\<close>

definition cpu_results :: "u32 \<Rightarrow> u32 list \<Rightarrow> u32 list \<Rightarrow> u32 list \<Rightarrow> u32 list result set" where
  "cpu_results dim a b res =
     {r. \<exists>l0 p0. multiplyMatrices l0 dim res = Some p0
        \<and> ((\<exists>f. pool_reach (mm_exec a b) p0 (Inl f) \<and> r = Inl f)
         \<or> (\<exists>p. pool_reach (mm_exec a b) p0 (Inr p) \<and> finished p \<and> r = Inr (cells p)))}"

definition first_cells :: "u32 \<Rightarrow> u32 list \<Rightarrow> u32 list \<Rightarrow> u32 list \<Rightarrow> line option" where
  "first_cells dim a b res = (case (a, b, res) of (x # _, y # _, z # _) \<Rightarrow> Some (dim, x, y, z) | _ \<Rightarrow> None)"

text \<open>\<open>while (cfg.repetitions--)\<close> on the CPU: the matrix \<open>res\<close> is used again.\<close>

fun cpu_loop :: "nat \<Rightarrow> u32 \<Rightarrow> u32 list \<Rightarrow> u32 list \<Rightarrow> u32 list \<Rightarrow> main_outcome set" where
  "cpu_loop 0 dim a b res = {Main_exits 0 []}"
| "cpu_loop (Suc n) dim a b res =
     (\<Union>r \<in> cpu_results dim a b res. case r of
         Inl f \<Rightarrow> {Main_faults f}
       | Inr res' \<Rightarrow> (case first_cells dim a b res' of
             None \<Rightarrow> {Main_faults OutOfBounds}
           | Some line \<Rightarrow> after_lines [line] ` cpu_loop n dim a b res'))"

text \<open>On the GPU: the answers of the implementation for each repetition.\<close>

fun gpu_loop :: "nat \<Rightarrow> (nat \<Rightarrow> gpu_answers) \<Rightarrow> nat \<Rightarrow> WGPUContext \<Rightarrow> u32 \<Rightarrow> u32 list \<Rightarrow> u32 list \<Rightarrow> u32 list \<Rightarrow> main_outcome" where
  "gpu_loop 0 ga k ctx dim a b res = Main_exits 0 []"
| "gpu_loop (Suc n) ga k ctx dim a b res =
     (case multiplyMatricesGPU (ga k) (ctx_instance ctx) (ctx_device ctx) (ctx_queue ctx) a b res dim of
        Host_returns r t p \<Rightarrow>
          (let ls = (case p of None \<Rightarrow> [] | Some l \<Rightarrow> [l])
           in if r \<noteq> 0 then Main_exits r ls else after_lines ls (gpu_loop n ga (Suc k) ctx dim a b res))
      | Host_waits t \<Rightarrow> Main_waits []
      | Host_faults f \<Rightarrow> Main_faults f)"

record surroundings =
  su_malloc_res :: allocator
  su_malloc_ma :: allocator
  su_malloc_mb :: allocator
  su_setup :: setup_answers
  su_gpu :: "nat \<Rightarrow> gpu_answers"

definition dimension :: u32 where "dimension = 1024"

text \<open>
  The clean-up is left out: the release of the instance after the last repetition on the GPU, a call
  whose result is not used, and the destructors of the matrices, which free their data.
\<close>

definition matmul_main :: "bool \<Rightarrow> surroundings \<Rightarrow> string list \<Rightarrow> main_outcome set" where
  "matmul_main BACKEND_GPU env argv =
     (case configure BACKEND_GPU argv of
        None \<Rightarrow> {Main_undefined}
      | Some (Inl ret) \<Rightarrow> {Main_exits ret []}
      | Some (Inr cfg) \<Rightarrow>
          (let (r1, res) = SquareMatrix_init (su_malloc_res env) (SquareMatrix (uint dimension))
           in if r1 \<noteq> 0 then {Main_exits (- 1) []}
              else case SquareMatrix_init_value (su_malloc_ma env) 2 (SquareMatrix (uint dimension)) of
                Inl f \<Rightarrow> {Main_faults f}
              | Inr (r2, ma) \<Rightarrow>
                  if r2 \<noteq> 0 then {Main_exits (- 1) []}
                  else case SquareMatrix_init_value (su_malloc_mb env) 3 (SquareMatrix (uint dimension)) of
                    Inl f \<Rightarrow> {Main_faults f}
                  | Inr (r3, mb) \<Rightarrow>
                      if r3 \<noteq> 0 then {Main_exits (- 1) []}
                      else case (mData ma, mData mb, mData res) of
                        (Some a, Some b, Some c) \<Rightarrow>
                          (case backend cfg of
                             GPU \<Rightarrow>
                               (case fst (setUpWGPU (su_setup env)) of
                                  Setup_waits \<Rightarrow> {Main_waits []}
                                | Setup_returns ret None \<Rightarrow> {Main_exits ret []}
                                | Setup_returns ret (Some ctx) \<Rightarrow>
                                    if ret \<noteq> 0 then {Main_exits ret []}
                                    else {gpu_loop (nat (repetitions cfg)) (su_gpu env) 0 ctx dimension a b c})
                           | CPU \<Rightarrow> cpu_loop (nat (repetitions cfg)) dimension a b c)
                      | _ \<Rightarrow> {Main_faults NullPointer}))"

section \<open>Filling a matrix\<close>

lemma store_all_range:
  "m \<le> length xs \<Longrightarrow> m < 2 ^ 32 \<Longrightarrow>
   store_all n (map of_nat [0..<m]) xs = Inr (replicate m n @ drop m xs)"
proof -
  have app: "store_all n (is @ js) ys = rbind (store_all n is ys) (store_all n js)" for "is" js ys
    by (induction "is" arbitrary: ys) (simp_all add: rbind_def split: sum.split)
  show "m \<le> length xs \<Longrightarrow> m < 2 ^ 32 \<Longrightarrow> ?thesis"
  proof (induction m)
    case (Suc m)
    then have "unat (of_nat m :: u32) = m" by (intro unat_of_nat_32) simp
    moreover have "(replicate m n @ drop m xs)[m := n] = replicate (Suc m) n @ drop (Suc m) xs"
      using Suc.prems by (simp add: list_update_append Cons_nth_drop_Suc [symmetric] replicate_append_same)
    ultimately show ?case using Suc by (simp add: app store_def)
  qed simp
qed

lemma SquareMatrix_init_value_fills:
  fixes d :: u32 and dd :: nat
  assumes "unat d < 65536" "dd = unat d * unat d" "mDimension mt = d" "malloc (ucast (d * d) * 4) = Some xs" "length xs = dd"
  shows "SquareMatrix_init_value malloc n mt = Inr (0, mt\<lparr>mData := Some (replicate dd n)\<rparr>)"
proof -
  have "unat d * unat d \<le> 65535 * 65535" using assms(1) by (intro mult_le_mono) simp_all
  then have b: "dd < 2 ^ 32" using assms(2) by simp
  moreover have "d * d = of_nat dd" by (simp add: assms(2))
  ultimately have u: "unat (d * d) = dd" by (simp only: unat_of_nat_32)
  have "u32_for 0 (d * d) 1 (\<lambda>i. Some [i]) = Some (map of_nat [0..<dd])"
    using u32_for_one [of 0 "d * d" "\<lambda>i. Some [i]" "\<lambda>i. [i]"] by (simp add: u)
  then show ?thesis
    using assms store_all_range [of dd xs n] b
    by (simp add: SquareMatrix_init_value_def SquareMatrix_init_def)
qed

section \<open>The loops\<close>

lemma cpu_results_product:
  assumes "64 dvd unat dim" "unat dim \<le> 65536" "length a = unat dim * unat dim" "length b = unat dim * unat dim"
    and "length res = unat dim * unat dim"
  shows "cpu_results dim a b res = {Inr (matrix_product (unat dim) a b)}"
proof -
  note r = cpu_result [OF assms]
  obtain p0 p where p: "multiplyMatrices mm_zero dim res = Some p0" "pool_reach (mm_exec a b) p0 (Inr p)" "finished p"
    using cpu_finishes [OF assms, of mm_zero] by blast
  have "cells p = matrix_product (unat dim) a b" using r [OF p(1,2)] p(3) by simp
  with p have "Inr (matrix_product (unat dim) a b) \<in> cpu_results dim a b res" unfolding cpu_results_def by fastforce
  moreover have "x = Inr (matrix_product (unat dim) a b)" if x: "x \<in> cpu_results dim a b res" for x
  proof -
    obtain l0 q0 where q: "multiplyMatrices l0 dim res = Some q0"
      "(\<exists>f. pool_reach (mm_exec a b) q0 (Inl f) \<and> x = Inl f)
         \<or> (\<exists>p. pool_reach (mm_exec a b) q0 (Inr p) \<and> finished p \<and> x = Inr (cells p))"
      using x unfolding cpu_results_def by blast
    from q(2) show ?thesis
    proof (elim disjE exE conjE)
      fix f
      assume "pool_reach (mm_exec a b) q0 (Inl f)"
      from r [OF q(1) this] show ?thesis by simp
    next
      fix p'
      assume "pool_reach (mm_exec a b) q0 (Inr p')" "finished p'" "x = Inr (cells p')"
      with r [OF q(1) this(1)] show ?thesis by simp
    qed
  qed
  ultimately show ?thesis by blast
qed

lemma cpu_loop_constant:
  assumes "64 dvd unat dim" "0 < unat dim" "unat dim \<le> 65536" "length res = unat dim * unat dim"
  defines "m \<equiv> unat dim * unat dim"
  shows "cpu_loop n dim (replicate m u) (replicate m v) res = {Main_exits 0 (replicate n (dim, u, v, of_nat (unat dim) * (u * v)))}"
  using assms(4)
proof (induction n arbitrary: res)
  case (Suc n)
  have c: "cpu_results dim (replicate m u) (replicate m v) res = {Inr (replicate m (of_nat (unat dim) * (u * v)))}"
    using cpu_results_product [OF assms(1,3) _ _ Suc.prems, of "replicate m u" "replicate m v"]
      matrix_product_constant [of "unat dim" u v] by (simp add: m_def)
  obtain j where j: "m = Suc j" using assms(2) by (cases m) (simp_all add: m_def)
  then have "first_cells dim (replicate m u) (replicate m v) (replicate m w) = Some (dim, u, v, w)" for w
    by (simp add: first_cells_def)
  moreover have "cpu_loop n dim (replicate m u) (replicate m v) (replicate m w)
      = {Main_exits 0 (replicate n (dim, u, v, of_nat (unat dim) * (u * v)))}" for w
    by (rule Suc.IH) (simp add: m_def)
  ultimately show ?case by (simp add: c)
qed simp

text \<open>The answers of a good implementation to one call of \<open>multiplyMatricesGPU\<close>.\<close>

definition good_answers :: "gpu_answers \<Rightarrow> WGPUContext \<Rightarrow> u32 list \<Rightarrow> u32 list \<Rightarrow> u32 list \<Rightarrow> u32 \<Rightarrow> bool" where
  "good_answers g ctx a b res dim \<longleftrightarrow> distinct (buffer_handles g) \<and> ga_smod g \<noteq> 0 \<and> ga_cenc g \<noteq> 0
     \<and> (\<exists>k. wait_done (ga_done g) = Some k
         \<and> ga_range g \<in> (\<lambda>d. contents d (ga_res_staging g))
             ` trace_effect dispatch_effect (full_trace g (ctx_instance ctx) (ctx_device ctx) (ctx_queue ctx) a b res dim k) no_device)"

lemma gpu_loop_constant:
  assumes "16 dvd unat dim" "0 < unat dim" "unat dim < 32768" "length res = unat dim * unat dim"
    and "\<And>j. k \<le> j \<Longrightarrow> j < k + n \<Longrightarrow> good_answers (ga j) ctx (replicate m u) (replicate m v) res dim"
    and "m = unat dim * unat dim"
  shows "gpu_loop n ga k ctx dim (replicate m u) (replicate m v) res
    = Main_exits 0 (replicate n (dim, u, v, of_nat (unat dim) * (u * v)))"
  using assms(5)
proof (induction n arbitrary: k)
  case (Suc n)
  have "\<exists>t. multiplyMatricesGPU (ga k) (ctx_instance ctx) (ctx_device ctx) (ctx_queue ctx) (replicate m u) (replicate m v) res dim
      = Host_returns 0 t (Some (dim, u, v, of_nat (unat dim) * (u * v)))"
  proof -
    have l: "length (replicate m u) = unat dim * unat dim" "length (replicate m v) = unat dim * unat dim"
      by (simp_all add: assms(6))
    have p: "0 < unat dim * unat dim" using assms(2) by simp
    have "product_at (unat dim) (replicate m u) (replicate m v) 0 0 = matrix_product (unat dim) (replicate m u) (replicate m v) ! 0"
      using p by (simp add: matrix_product_def)
    also have "\<dots> = of_nat (unat dim) * (u * v)"
      using p by (simp add: assms(6) matrix_product_constant)
    finally show ?thesis
      using Suc.prems [of k] gpu_result [OF assms(2,3,1) l assms(4), of "ga k"] p
      by (auto simp: good_answers_def assms(6))
  qed
  moreover have "gpu_loop n ga (Suc k) ctx dim (replicate m u) (replicate m v) res
      = Main_exits 0 (replicate n (dim, u, v, of_nat (unat dim) * (u * v)))"
    by (rule Suc.IH) (simp add: Suc.prems)
  ultimately show ?case by auto
qed simp

section \<open>The matrices of the program\<close>

lemma dimension_simps: "unat dimension = 1024" "SquareMatrix (uint dimension) = \<lparr>mData = None, mDimension = dimension\<rparr>"
  by (simp_all add: dimension_def SquareMatrix_def)

definition matrix_bytes :: size_t where
  "matrix_bytes = ucast (dimension * dimension) * 4"

definition allocations :: "surroundings \<Rightarrow> u32 list \<Rightarrow> bool" where
  "allocations env c \<longleftrightarrow> su_malloc_res env matrix_bytes = Some c \<and> length c = unat dimension * unat dimension
     \<and> (\<exists>xs. su_malloc_ma env matrix_bytes = Some xs \<and> length xs = unat dimension * unat dimension)
     \<and> (\<exists>xs. su_malloc_mb env matrix_bytes = Some xs \<and> length xs = unat dimension * unat dimension)"

definition filled :: "u32 \<Rightarrow> u32 list" where
  "filled n = replicate (unat dimension * unat dimension) n"

lemma main_matrices:
  assumes "allocations env c"
  shows "SquareMatrix_init (su_malloc_res env) (SquareMatrix (uint dimension)) = (0, \<lparr>mData = Some c, mDimension = dimension\<rparr>)"
    "SquareMatrix_init_value (su_malloc_ma env) n (SquareMatrix (uint dimension)) = Inr (0, \<lparr>mData = Some (filled n), mDimension = dimension\<rparr>)"
    "SquareMatrix_init_value (su_malloc_mb env) n (SquareMatrix (uint dimension)) = Inr (0, \<lparr>mData = Some (filled n), mDimension = dimension\<rparr>)"
proof -
  have d: "unat dimension < 65536" unfolding dimension_simps by simp
  show "SquareMatrix_init (su_malloc_res env) (SquareMatrix (uint dimension)) = (0, \<lparr>mData = Some c, mDimension = dimension\<rparr>)"
    using assms by (simp add: allocations_def SquareMatrix_init_def dimension_simps(2) matrix_bytes_def)
  have f: "SquareMatrix_init_value malloc n (SquareMatrix (uint dimension)) = Inr (0, \<lparr>mData = Some (filled n), mDimension = dimension\<rparr>)"
    if m: "\<exists>xs. malloc matrix_bytes = Some xs \<and> length xs = unat dimension * unat dimension" for malloc
  proof -
    obtain xs where "malloc matrix_bytes = Some xs" "length xs = unat dimension * unat dimension" using m by blast
    from SquareMatrix_init_value_fills [OF d HOL.refl, of "\<lparr>mData = None, mDimension = dimension\<rparr>" malloc xs n] this
    show ?thesis by (simp add: matrix_bytes_def dimension_simps(2) filled_def)
  qed
  show "SquareMatrix_init_value (su_malloc_ma env) n (SquareMatrix (uint dimension)) = Inr (0, \<lparr>mData = Some (filled n), mDimension = dimension\<rparr>)"
    "SquareMatrix_init_value (su_malloc_mb env) n (SquareMatrix (uint dimension)) = Inr (0, \<lparr>mData = Some (filled n), mDimension = dimension\<rparr>)"
    using assms by (auto intro!: f simp: allocations_def)
qed

lemma matmul_main_runs:
  assumes "configure B argv = Some (Inr cfg)" "allocations env c"
  shows "matmul_main B env argv = (case backend cfg of
      GPU \<Rightarrow> (case fst (setUpWGPU (su_setup env)) of
          Setup_waits \<Rightarrow> {Main_waits []}
        | Setup_returns ret None \<Rightarrow> {Main_exits ret []}
        | Setup_returns ret (Some ctx) \<Rightarrow> if ret \<noteq> 0 then {Main_exits ret []}
            else {gpu_loop (nat (repetitions cfg)) (su_gpu env) 0 ctx dimension (filled 2) (filled 3) c})
    | CPU \<Rightarrow> cpu_loop (nat (repetitions cfg)) dimension (filled 2) (filled 3) c)"
  unfolding matmul_main_def main_matrices [OF assms(2)] assms(1) by simp

lemma sixes: "of_nat (unat dimension) * (2 * 3) = (6144 :: u32)"
  unfolding dimension_simps by simp

section \<open>Properties\<close>

text \<open>
  C36: The program on the CPU: with \<open>cpu\<close> and a number of repetitions of at least 1, and memory for
  the matrices, every schedule of the threads leads to the same outcome: it prints for each
  repetition that the product of 2s and 3s consists of 6144s, and exits with 0.
\<close>

theorem Main_on_cpu:
  assumes "atoi arg = Some n" "1 \<le> n" "allocations env c"
  shows "matmul_main B env [prog, ''cpu'', arg] = {Main_exits 0 (replicate (nat n) (1024, 2, 3, 6144))}"
proof -
  have cfg: "configure B [prog, ''cpu'', arg] = Some (Inr \<lparr>backend = CPU, repetitions = n\<rparr>)"
    using assms(1,2) by (simp add: configure_def)
  have c: "length c = unat dimension * unat dimension" using assms(3) by (simp add: allocations_def)
  have d: "64 dvd unat dimension" "0 < unat dimension" "unat dimension \<le> 65536" unfolding dimension_simps by simp_all
  show ?thesis
    unfolding matmul_main_runs [OF cfg assms(3)] filled_def using cpu_loop_constant [OF d c, of "nat n" 2 3]
    by (simp add: sixes [unfolded dimension_simps] dimension_simps dimension_def)
qed

text \<open>
  C37: The program on the GPU prints the same lines and exits with 0 as well, when the set-up
  succeeds and the implementation answers each repetition as WebGPU promises.
\<close>

theorem Main_on_gpu:
  assumes "atoi arg = Some n" "1 \<le> n" "allocations env c" "fst (setUpWGPU (su_setup env)) = Setup_returns 0 (Some ctx)"
    and "\<And>k. k < nat n \<Longrightarrow> good_answers (su_gpu env k) ctx (filled 2) (filled 3) c dimension"
  shows "matmul_main True env [prog, ''gpu'', arg] = {Main_exits 0 (replicate (nat n) (1024, 2, 3, 6144))}"
proof -
  have cfg: "configure True [prog, ''gpu'', arg] = Some (Inr \<lparr>backend = GPU, repetitions = n\<rparr>)"
    using assms(1,2) by (simp add: configure_def)
  have c: "length c = unat dimension * unat dimension" using assms(3) by (simp add: allocations_def)
  have d: "16 dvd unat dimension" "0 < unat dimension" "unat dimension < 32768" unfolding dimension_simps by simp_all
  show ?thesis
    unfolding matmul_main_runs [OF cfg assms(3)] filled_def assms(4)
    using gpu_loop_constant [OF d c, of 0 "nat n" "su_gpu env" ctx _ 2 3, OF _ HOL.refl] assms(5)
    by (simp add: sixes [unfolded dimension_simps] dimension_simps dimension_def filled_def)
qed

text \<open>
  The exit codes of the parts.
\<close>

lemma cpu_loop_exits:
  "Main_exits r ls \<in> cpu_loop n dim a b res \<Longrightarrow> r = 0 \<and> length ls = n"
proof (induction n arbitrary: res ls)
  case (Suc n)
  then obtain x where x: "x \<in> cpu_results dim a b res" "Main_exits r ls \<in> (case x of Inl f \<Rightarrow> {Main_faults f}
       | Inr res' \<Rightarrow> (case first_cells dim a b res' of None \<Rightarrow> {Main_faults OutOfBounds}
           | Some line \<Rightarrow> after_lines [line] ` cpu_loop n dim a b res'))" by auto
  then obtain res' line out where o: "out \<in> cpu_loop n dim a b res'" "Main_exits r ls = after_lines [line] out"
    by (auto split: sum.splits option.splits)
  then obtain ks where "out = Main_exits r ks" "ls = line # ks" by (cases out) auto
  with Suc.IH o(1) show ?case by auto
qed simp

lemma multiplyMatricesGPU_code:
  "multiplyMatricesGPU g i d q a b res dim = Host_returns r t p \<Longrightarrow> (r = 0 \<and> p \<noteq> None) \<or> (r = - 1 \<and> p = None)"
  by (auto simp: multiplyMatricesGPU_def Let_def split: if_splits sum.splits option.splits list.splits)

lemma gpu_loop_exits:
  "gpu_loop n ga k ctx dim a b res = Main_exits r ls \<Longrightarrow> r = 0 \<and> length ls = n \<or> r = - 1 \<and> length ls < n"
proof (induction n arbitrary: k r ls)
  case (Suc n)
  obtain r1 t p where h: "multiplyMatricesGPU (ga k) (ctx_instance ctx) (ctx_device ctx) (ctx_queue ctx) a b res dim = Host_returns r1 t p"
    using Suc.prems by (auto split: host_outcome.splits)
  from multiplyMatricesGPU_code [OF h] show ?case
  proof
    assume "r1 = - 1 \<and> p = None"
    with h Suc.prems show ?thesis by simp
  next
    assume "r1 = 0 \<and> p \<noteq> None"
    with h Suc.prems obtain l ks where "gpu_loop n ga (Suc k) ctx dim a b res = Main_exits r ks" "ls = l # ks"
      by (cases "gpu_loop n ga (Suc k) ctx dim a b res") auto
    with Suc.IH show ?thesis by fastforce
  qed
qed simp

lemma configure_codes:
  "configure B argv = Some (Inl r) \<Longrightarrow> r = - 22 \<or> r = - 1"
  "configure B argv = Some (Inr cfg) \<Longrightarrow> length argv = 3 \<and> atoi (argv ! 2) = Some (repetitions cfg) \<and> 1 \<le> repetitions cfg
     \<and> argv ! 1 = (if backend cfg = GPU then ''gpu'' else ''cpu'')"
  by (auto simp: configure_def EINVAL_def split: if_splits option.splits)

lemma setup_codes: "fst (setUpWGPU s) = Setup_returns r c \<Longrightarrow> r = 0 \<and> c \<noteq> None \<or> r = - 1 \<and> c = None"
  by (auto simp: setUpWGPU_outcome split: if_splits option.splits)

text \<open>
  C38: The exit code of the program, whatever the arguments, the memory, the implementation of
  WebGPU and the schedules: it is 0, -1 or -22, and it is 0 only if the program had three
  arguments, the third a number of at least 1, and has printed a line for each repetition.
\<close>

theorem Main_exit_codes:
  assumes "Main_exits r ls \<in> matmul_main B env argv"
  shows "r \<in> {0, - 1, - 22} \<and> (r = 0 \<longrightarrow> length argv = 3 \<and> (\<exists>n \<ge> 1. atoi (argv ! 2) = Some n \<and> length ls = nat n))"
proof (cases "configure B argv")
  case None
  with assms show ?thesis by (simp add: matmul_main_def)
next
  case (Some ret)
  show ?thesis
  proof (cases ret)
    case (Inl code)
    with assms Some configure_codes(1) [of B argv code] show ?thesis by (auto simp: matmul_main_def)
  next
    case (Inr cfg)
    note c = configure_codes(2) [OF Some [unfolded Inr]]
    have "r = - 1 \<or> r = 0 \<and> length ls = nat (repetitions cfg)"
      using assms Some Inr setup_codes [of "su_setup env"]
      by (auto simp: matmul_main_def Let_def dest: cpu_loop_exits gpu_loop_exits [OF sym] split: prod.splits if_splits sum.splits option.splits BackendType.splits setup_outcome.splits)
    with c show ?thesis by auto
  qed
qed

section \<open>Witnesses\<close>

definition demo_setup :: setup_answers where
  "demo_setup = \<lparr>sa_instance = 1, sa_adapter = [(1, 0, Some ''busy''), (0, 2, None)], sa_device = [(0, 3, None)], sa_queue = 4\<rparr>"

definition demo_surroundings :: "(size_t \<Rightarrow> u32 list option) \<Rightarrow> surroundings" where
  "demo_surroundings malloc = \<lparr>su_malloc_res = malloc, su_malloc_ma = malloc, su_malloc_mb = malloc, su_setup = demo_setup,
     su_gpu = (\<lambda>_. demo_answers (Some (filled 6144)))\<rparr>"

lemma demo_atoi: "atoi '' 2x'' = Some 2"
  by (simp add: atoi_def is_space_def digits_value_def is_digit_def)

lemma demo_allocations: "allocations (demo_surroundings (\<lambda>_. Some (filled 7))) (filled 7)"
  by (simp add: allocations_def demo_surroundings_def filled_def)

lemma Main_on_cpu_witness:
  "matmul_main False (demo_surroundings (\<lambda>_. Some (filled 7))) [''matmul'', ''cpu'', '' 2x'']
     = {Main_exits 0 [(1024, 2, 3, 6144), (1024, 2, 3, 6144)]}"
  using Main_on_cpu [OF demo_atoi _ demo_allocations, of False "''matmul''"] by (simp add: numeral_2_eq_2)

lemma Main_on_gpu_witness:
  "matmul_main True (demo_surroundings (\<lambda>_. Some (filled 7))) [''matmul'', ''gpu'', '' 2x'']
     = {Main_exits 0 [(1024, 2, 3, 6144), (1024, 2, 3, 6144)]}"
proof -
  let ?env = "demo_surroundings (\<lambda>_. Some (filled 7))" and ?ctx = "\<lparr>ctx_instance = 1, ctx_adapter = 2, ctx_device = 3, ctx_queue = 4\<rparr>"
  have s: "fst (setUpWGPU (su_setup ?env)) = Setup_returns 0 (Some ?ctx)"
    by (simp add: setUpWGPU_outcome first_handle_simps demo_setup_def demo_surroundings_def)
  have d: "unat dimension < 32768" "16 dvd unat dimension" unfolding dimension_simps by simp_all
  have l: "length (filled n) = unat dimension * unat dimension" for n by (simp add: filled_def)
  have "dispatch_result dimension (filled 2) (filled 3) (filled 7) = filled 6144"
    unfolding dispatch_result_full [OF d(2) l] unfolding filled_def matrix_product_constant sixes ..
  then have g: "good_answers (su_gpu ?env k) ?ctx (filled 2) (filled 3) (filled 7) dimension" for k
    using full_trace_effect [OF demo_answers_ok(1) d(1) l l l]
    by (simp add: good_answers_def demo_surroundings_def demo_answers_ok)
  from Main_on_gpu [OF demo_atoi _ demo_allocations s g, of "''matmul''"] show ?thesis by (simp add: numeral_2_eq_2)
qed

lemma Main_exit_codes_witness:
  "Main_exits (- 22) [] \<in> matmul_main False (demo_surroundings (\<lambda>_. None)) [''matmul'', ''gpu'', ''0'']
   \<and> (- 22 :: int) \<in> {0, - 1, - 22}"
proof -
  have "Main_exits (- 22) [] \<in> matmul_main False (demo_surroundings (\<lambda>_. None)) [''matmul'', ''gpu'', ''0'']"
    by (simp add: matmul_main_def configure_def EINVAL_def atoi_def is_space_def digits_value_def is_digit_def)
  with Main_exit_codes [OF this] show ?thesis by blast
qed

end
