(* ===== verification/Collatz_Shader.thy ===== *)
theory Collatz_Shader
  imports DD_Prelude "HOL-Library.Multiset"
begin

text \<open>
  The compute shader of \<open>src/examples/client.cpp\<close>: for each number of a buffer, how many steps the
  Collatz iteration takes from it to 1. Compared with the iteration on unbounded numbers.
\<close>

section \<open>The function\<close>

text \<open>
  \<open>collatz_iterations\<close> on \<open>u32\<close>, whose arithmetic wraps around; \<open>None\<close> if the loop does not end.
\<close>

partial_function (option) collatz_loop :: "32 word \<Rightarrow> 32 word \<Rightarrow> 32 word option" where
  "collatz_loop n i =
     (if n \<le> 1 then Some i
      else if n mod 2 = 0 then collatz_loop (n div 2) (i + 1)
      else if n \<ge> 1431655765 then Some 4294967295
      else collatz_loop (3 * n + 1) (i + 1))"

definition collatz_iterations :: "32 word \<Rightarrow> 32 word option" where
  "collatz_iterations n_base = collatz_loop n_base 0"

section \<open>The reference\<close>

definition collatz :: "nat \<Rightarrow> nat" where
  "collatz n = (if even n then n div 2 else 3 * n + 1)"

text \<open>The iteration reaches 1, or 0 from 0, after \<open>k\<close> steps and not before.\<close>

definition collatz_takes :: "nat \<Rightarrow> nat \<Rightarrow> bool" where
  "collatz_takes n k \<longleftrightarrow> (collatz ^^ k) n \<le> 1 \<and> (\<forall>j < k. 1 < (collatz ^^ j) n)"

text \<open>The first \<open>k\<close> steps stay within 32 bits.\<close>

definition collatz_fits :: "nat \<Rightarrow> nat \<Rightarrow> bool" where
  "collatz_fits n k \<longleftrightarrow> (\<forall>j \<le> k. (collatz ^^ j) n < 2 ^ 32)"

lemma collatz_takes_0: "collatz_takes n 0 \<longleftrightarrow> n \<le> 1"
  by (simp add: collatz_takes_def)

lemma collatz_takes_Suc: "collatz_takes n (Suc k) \<longleftrightarrow> 1 < n \<and> collatz_takes (collatz n) k"
  unfolding collatz_takes_def by (auto simp: funpow_swap1 less_Suc_eq_0_disj simp del: funpow.simps(2) simp: funpow_Suc_right)

lemma collatz_fits_Suc: "collatz_fits n (Suc k) \<longleftrightarrow> n < 2 ^ 32 \<and> collatz_fits (collatz n) k"
proof -
  have "(\<forall>j \<le> Suc k. P j) \<longleftrightarrow> P 0 \<and> (\<forall>j \<le> k. P (Suc j))" for P
    by (metis Suc_le_mono le0 not0_implies_Suc)
  then show ?thesis unfolding collatz_fits_def by (simp add: funpow_Suc_right del: funpow.simps(2))
qed

section \<open>One step on words\<close>

text \<open>The guard of the overflow is exact: below it a step does not wrap, from it on it leaves 32 bits.\<close>

lemma word_step:
  fixes n :: "32 word"
  shows "n mod 2 = 0 \<longleftrightarrow> even (unat n)" "n \<le> 1 \<longleftrightarrow> unat n \<le> 1"
    "even (unat n) \<Longrightarrow> unat (n div 2) = collatz (unat n)"
    "odd (unat n) \<Longrightarrow> n < 1431655765 \<Longrightarrow> unat (3 * n + 1) = collatz (unat n)"
    "odd (unat n) \<Longrightarrow> \<not> n < 1431655765 \<Longrightarrow> 2 ^ 32 \<le> collatz (unat n)"
proof -
  show "n mod 2 = 0 \<longleftrightarrow> even (unat n)"
    by (simp add: unat_eq_zero [symmetric] unat_mod even_iff_mod_2_eq_zero)
  show "n \<le> 1 \<longleftrightarrow> unat n \<le> 1" by (simp add: word_le_nat_alt)
  show "even (unat n) \<Longrightarrow> unat (n div 2) = collatz (unat n)"
    by (simp add: unat_div collatz_def)
  show "unat (3 * n + 1) = collatz (unat n)" if "odd (unat n)" "n < 1431655765"
  proof -
    have "3 * unat n + 1 < 2 ^ 32" using that by (simp add: word_less_nat_alt)
    then have "unat (of_nat (3 * unat n + 1) :: 32 word) = 3 * unat n + 1" by (rule unat_of_nat_32)
    moreover have "of_nat (3 * unat n + 1) = 3 * n + 1" by simp
    ultimately show ?thesis using that by (simp only: collatz_def if_False)
  qed
  show "2 ^ 32 \<le> collatz (unat n)" if "odd (unat n)" "\<not> n < 1431655765"
    using that by (simp add: word_less_nat_alt collatz_def)
qed

lemma collatz_loop_cases:
  "n \<le> 1 \<Longrightarrow> collatz_loop n i = Some i"
  "\<not> n \<le> 1 \<Longrightarrow> even (unat n) \<Longrightarrow> collatz_loop n i = collatz_loop (n div 2) (i + 1)"
  "\<not> n \<le> 1 \<Longrightarrow> odd (unat n) \<Longrightarrow> n < 1431655765 \<Longrightarrow> collatz_loop n i = collatz_loop (3 * n + 1) (i + 1)"
  "\<not> n \<le> 1 \<Longrightarrow> odd (unat n) \<Longrightarrow> \<not> n < 1431655765 \<Longrightarrow> collatz_loop n i = Some 4294967295"
  unfolding collatz_loop.simps [of n] word_step(1) by (simp_all add: word_le_nat_alt word_less_nat_alt)

lemma collatz_loop_takes:
  "collatz_takes (unat n) k \<Longrightarrow>
   collatz_loop n i = Some (if collatz_fits (unat n) k then i + of_nat k else 4294967295)"
proof (induction k arbitrary: n i)
  case 0
  moreover have "unat n < 2 ^ 32" using unsigned_less [where ?'a = nat, of n] by simp
  ultimately show ?case
    by (simp add: collatz_takes_0 collatz_loop.simps [of n] word_step(2) collatz_fits_def)
next
  case (Suc k)
  then have n: "\<not> n \<le> 1" "collatz_takes (collatz (unat n)) k" by (simp_all add: collatz_takes_Suc word_step(2))
  have b: "unat n < 2 ^ 32" using unsigned_less [where ?'a = nat, of n] by simp
  have fits: "collatz_fits (unat n) (Suc k) \<longleftrightarrow> collatz_fits (collatz (unat n)) k"
    using b by (simp add: collatz_fits_Suc)
  consider (even) "even (unat n)" | (small) "odd (unat n)" "n < 1431655765" | (big) "odd (unat n)" "\<not> n < 1431655765" by blast
  then show ?case
  proof cases
    case even
    from collatz_loop_cases(2) [OF n(1) even] Suc.IH [of "n div 2" "i + 1"] n(2) fits show ?thesis
      by (simp add: word_step(3) [OF even] add.assoc)
  next
    case small
    from collatz_loop_cases(3) [OF n(1) small] Suc.IH [of "3 * n + 1" "i + 1"] n(2) fits show ?thesis
      by (simp only: word_step(4) [OF small]) (simp add: add.assoc)
  next
    case big
    then have "\<not> collatz_fits (collatz (unat n)) k"
      using word_step(5) [of n] unfolding collatz_fits_def by (auto intro!: exI [of _ 0])
    with collatz_loop_cases(4) [OF n(1) big] fits show ?thesis by simp
  qed
qed

text \<open>Conversely, the loop ends only when the iteration reaches 1 or leaves 32 bits.\<close>

lemma collatz_loop_ends:
  assumes "collatz_loop n i = Some r"
  shows "\<exists>k. (collatz ^^ k) (unat n) \<le> 1 \<or> 2 ^ 32 \<le> (collatz ^^ k) (unat n)"
proof (rule collatz_loop.raw_induct [where P = "\<lambda>n i r. \<exists>k. (collatz ^^ k) (unat n) \<le> 1 \<or> 2 ^ 32 \<le> (collatz ^^ k) (unat n)", OF _ assms])
  fix loop and n i r :: "32 word"
  assume IH: "\<And>n i r. loop n i = Some r \<Longrightarrow> \<exists>k. (collatz ^^ k) (unat n) \<le> 1 \<or> 2 ^ 32 \<le> (collatz ^^ k) (unat n)"
    and body: "(if n \<le> 1 then Some i else if n mod 2 = 0 then loop (n div 2) (i + 1)
      else if n \<ge> 1431655765 then Some 4294967295 else loop (3 * n + 1) (i + 1)) = Some r"
  have step: "\<exists>k. (collatz ^^ k) (unat n) \<le> 1 \<or> 2 ^ 32 \<le> (collatz ^^ k) (unat n)"
    if "\<exists>k. (collatz ^^ k) (collatz (unat n)) \<le> 1 \<or> 2 ^ 32 \<le> (collatz ^^ k) (collatz (unat n))"
    using that by (metis funpow_simps_right(2) comp_apply)
  consider "n \<le> 1" | (even) "even (unat n)" "\<not> n \<le> 1" | (small) "odd (unat n)" "n < 1431655765" "\<not> n \<le> 1"
    | (big) "odd (unat n)" "\<not> n < 1431655765" by blast
  then show "\<exists>k. (collatz ^^ k) (unat n) \<le> 1 \<or> 2 ^ 32 \<le> (collatz ^^ k) (unat n)"
  proof cases
    case 1
    then show ?thesis by (intro exI [of _ 0]) (simp add: word_step(2))
  next
    case even
    with body have "loop (n div 2) (i + 1) = Some r" by (simp add: word_step(1))
    from IH [OF this] step show ?thesis unfolding word_step(3) [OF even(1)] by blast
  next
    case small
    then have "\<not> n \<ge> 1431655765" by simp
    with small body have "loop (3 * n + 1) (i + 1) = Some r" by (simp only: word_step(1) if_False)
    from IH [OF this] step show ?thesis unfolding word_step(4) [OF small(1,2)] by blast
  next
    case big
    with word_step(5) [of n] step show ?thesis by (metis funpow_0)
  qed
qed

lemma collatz_takes_least:
  assumes "(collatz ^^ k) n \<le> 1"
  obtains j where "collatz_takes n j" "j \<le> k"
proof -
  let ?j = "LEAST j. (collatz ^^ j) n \<le> 1"
  have "(collatz ^^ ?j) n \<le> 1" by (rule LeastI [of _ k]) (rule assms)
  moreover have "\<forall>j < ?j. 1 < (collatz ^^ j) n" using not_less_Least [of _ "\<lambda>j. (collatz ^^ j) n \<le> 1"] by (auto simp: not_le)
  moreover have "?j \<le> k" by (rule Least_le) (rule assms)
  ultimately show ?thesis using that by (simp add: collatz_takes_def)
qed

lemma collatz_loop_overflows:
  "2 ^ 32 \<le> (collatz ^^ k) (unat n) \<Longrightarrow> \<forall>j < k. 1 < (collatz ^^ j) (unat n) \<Longrightarrow> collatz_loop n i \<noteq> None"
proof (induction k arbitrary: n i)
  case 0
  then show ?case using unsigned_less [where ?'a = nat, of n] by simp
next
  case (Suc k)
  have n: "\<not> n \<le> 1" using Suc.prems(2) by (simp add: word_step(2)) (metis funpow_0 not_less zero_less_Suc One_nat_def)
  have s: "2 ^ 32 \<le> (collatz ^^ k) (collatz (unat n))" "\<forall>j < k. 1 < (collatz ^^ j) (collatz (unat n))"
    using Suc.prems by (simp_all add: funpow_Suc_right del: funpow.simps(2)) (metis Suc_less_eq comp_apply funpow_Suc_right)
  consider (even) "even (unat n)" | (small) "odd (unat n)" "n < 1431655765" | (big) "odd (unat n)" "\<not> n < 1431655765" by blast
  then show ?case
  proof cases
    case even
    from collatz_loop_cases(2) [OF n even] Suc.IH [of "n div 2" "i + 1"] s show ?thesis by (simp add: word_step(3) [OF even])
  next
    case small
    from collatz_loop_cases(3) [OF n small] Suc.IH [of "3 * n + 1" "i + 1"] s show ?thesis unfolding word_step(4) [OF small] by simp
  next
    case big
    then show ?thesis using collatz_loop_cases(4) [OF n big] by simp
  qed
qed

lemma collatz_counts:
  "collatz_takes (unat n) k \<Longrightarrow> collatz_iterations n = Some (if collatz_fits (unat n) k then of_nat k else 4294967295)"
  using collatz_loop_takes [of n k 0] by (simp add: collatz_iterations_def)

text \<open>Evaluation on concrete numbers.\<close>

lemma collatz_fits_0: "collatz_fits n 0 \<longleftrightarrow> n < 2 ^ 32"
  by (simp add: collatz_fits_def)

lemma collatz_numeral:
  "collatz_takes n (numeral k) \<longleftrightarrow> 1 < n \<and> collatz_takes (collatz n) (pred_numeral k)"
  "collatz_fits n (numeral k) \<longleftrightarrow> n < 2 ^ 32 \<and> collatz_fits (collatz n) (pred_numeral k)"
  by (simp_all only: numeral_eq_Suc [of k] collatz_takes_Suc collatz_fits_Suc)

lemmas collatz_eval = collatz_numeral collatz_takes_0 collatz_fits_0 collatz_takes_Suc [of _ 0] collatz_fits_Suc [of _ 0] collatz_def

lemma collatz_examples:
  "collatz_iterations 1 = Some 0" "collatz_iterations 690234923 = Some 133"
  "collatz_iterations 32234234 = Some 219" "collatz_iterations 4234234 = Some 198"
  using collatz_counts [of 1 0] collatz_counts [of 690234923 133] collatz_counts [of 32234234 219] collatz_counts [of 4234234 198]
  by (simp_all add: collatz_eval)

section \<open>The shader\<close>

text \<open>
  An invocation of \<open>main\<close>, for \<open>global_id.x\<close>; \<open>None\<close> if it does not end or leaves the buffer. The
  invocations work on cells of their own, so they are run as a whole, in any order.
\<close>

definition collatz_main :: "nat \<Rightarrow> 32 word list \<Rightarrow> 32 word list option" where
  "collatz_main x v_indices =
     (if x < length v_indices
      then map_option (\<lambda>r. v_indices[x := r]) (collatz_iterations (v_indices ! x)) else None)"

definition collatz_ids :: "32 word \<Rightarrow> 32 word \<Rightarrow> 32 word \<Rightarrow> nat list" where
  "collatz_ids gx gy gz = [x. x \<leftarrow> [0..<unat gx], y \<leftarrow> [0..<unat gy], z \<leftarrow> [0..<unat gz]]"

fun collatz_invocations :: "nat list \<Rightarrow> 32 word list \<Rightarrow> 32 word list option" where
  "collatz_invocations [] v = Some v"
| "collatz_invocations (x # xs) v = Option.bind (collatz_main x v) (collatz_invocations xs)"

definition collatz_results :: "32 word \<times> 32 word \<times> 32 word \<Rightarrow> 32 word list \<Rightarrow> 32 word list set" where
  "collatz_results = (\<lambda>(gx, gy, gz) v. {v'. \<exists>order. mset order = mset (collatz_ids gx gy gz) \<and> collatz_invocations order v = Some v'})"

lemma collatz_ids_line: "collatz_ids gx 1 1 = [0..<unat gx]"
  by (simp add: collatz_ids_def) 

lemma invocations_result:
  assumes "distinct xs" "\<forall>x \<in> set xs. x < length v \<and> collatz_iterations (v ! x) = Some (f (v ! x))"
  shows "collatz_invocations xs v = Some (map (\<lambda>x. if x \<in> set xs then f (v ! x) else v ! x) [0..<length v])"
  using assms
proof (induction xs arbitrary: v)
  case Nil
  then show ?case by (simp add: map_nth)
next
  case (Cons x xs)
  let ?v = "v[x := f (v ! x)]"
  have m: "collatz_main x v = Some ?v" using Cons.prems(2) by (simp add: collatz_main_def)
  have "collatz_invocations xs ?v = Some (map (\<lambda>y. if y \<in> set xs then f (?v ! y) else ?v ! y) [0..<length ?v])"
    using Cons.prems by (intro Cons.IH) (auto simp: nth_list_update)
  also have "map (\<lambda>y. if y \<in> set xs then f (?v ! y) else ?v ! y) [0..<length ?v]
      = map (\<lambda>y. if y \<in> set (x # xs) then f (v ! y) else v ! y) [0..<length v]"
    using Cons.prems by (auto simp: nth_list_update)
  finally show ?case by (simp add: m)
qed

text \<open>The result of a dispatch with one invocation for each number.\<close>

lemma collatz_dispatch_result:
  assumes "unat gx = length v" "\<forall>n \<in> set v. collatz_iterations n = Some (f n)"
  shows "collatz_results (gx, 1, 1) v = {map f v}"
proof -
  have r: "collatz_invocations order v = Some (map f v)" if o: "mset order = mset [0..<length v]" for order
  proof -
    have d: "distinct order" "set order = {0..<length v}"
      using o mset_eq_imp_distinct_iff [OF o] mset_eq_setD [OF o] by simp_all
    then have "collatz_invocations order v = Some (map (\<lambda>x. if x \<in> set order then f (v ! x) else v ! x) [0..<length v])"
      using assms(2) by (intro invocations_result) auto
    also have "map (\<lambda>x. if x \<in> set order then f (v ! x) else v ! x) [0..<length v] = map f v"
      by (rule nth_equalityI) (simp_all add: d)
    finally show ?thesis .
  qed
  have e: "collatz_results (gx, 1, 1) v
      = {v'. \<exists>order. mset order = mset [0..<length v] \<and> collatz_invocations order v = Some v'}"
    unfolding collatz_results_def split_conv collatz_ids_line assms(1) ..
  show ?thesis
  proof
    show "collatz_results (gx, 1, 1) v \<subseteq> {map f v}"
    proof
      fix v'
      assume "v' \<in> collatz_results (gx, 1, 1) v"
      then obtain order where "mset order = mset [0..<length v]" "collatz_invocations order v = Some v'"
        unfolding e by blast
      then show "v' \<in> {map f v}" using r by simp
    qed
    have "map f v \<in> collatz_results (gx, 1, 1) v"
      unfolding e mem_Collect_eq by (intro exI [of _ "[0..<length v]"] conjI HOL.refl r)
    then show "{map f v} \<subseteq> collatz_results (gx, 1, 1) v" by blast
  qed
qed

section \<open>Properties\<close>

text \<open>
  C39: What the shader counts: if the iteration reaches 1 from a number after exactly \<open>k\<close> steps, the
  function returns \<open>k\<close> when all numbers on the way fit into 32 bits, and the largest number when one
  does not: the guard against overflow is exact, no arithmetic wraps.
\<close>

theorem Collatz_counts_steps:
  "collatz_takes (unat n) k \<Longrightarrow> collatz_iterations n = Some (if collatz_fits (unat n) k then of_nat k else 4294967295)"
  by (rule collatz_counts)

text \<open>
  The loop ends exactly for the numbers from which the iteration reaches 1 (or 0) or leaves 32
  bits; that this is so for all numbers is the open conjecture, which the program relies on.
\<close>

theorem Collatz_ends_iff:
  "collatz_iterations n \<noteq> None \<longleftrightarrow> (\<exists>k. (collatz ^^ k) (unat n) \<le> 1 \<or> 2 ^ 32 \<le> (collatz ^^ k) (unat n))"
proof
  assume "collatz_iterations n \<noteq> None"
  then show "\<exists>k. (collatz ^^ k) (unat n) \<le> 1 \<or> 2 ^ 32 \<le> (collatz ^^ k) (unat n)"
    using collatz_loop_ends [of n 0] by (auto simp: collatz_iterations_def)
next
  assume "\<exists>k. (collatz ^^ k) (unat n) \<le> 1 \<or> 2 ^ 32 \<le> (collatz ^^ k) (unat n)"
  then obtain k where k: "(collatz ^^ k) (unat n) \<le> 1 \<or> 2 ^ 32 \<le> (collatz ^^ k) (unat n)" ..
  show "collatz_iterations n \<noteq> None"
  proof (cases "\<exists>j. (collatz ^^ j) (unat n) \<le> 1")
    case True
    then obtain j where "collatz_takes (unat n) j" by (blast elim: collatz_takes_least)
    from collatz_counts [OF this] show ?thesis by simp
  next
    case False
    then have "2 ^ 32 \<le> (collatz ^^ k) (unat n)" "\<forall>j < k. 1 < (collatz ^^ j) (unat n)"
      using k by (meson not_le)+
    from collatz_loop_overflows [OF this] show ?thesis by (simp add: collatz_iterations_def)
  qed
qed

section \<open>Witnesses\<close>

lemma Collatz_counts_steps_witness:
  "collatz_iterations 27 = Some 111 \<and> collatz_iterations 1431655765 = Some 4294967295"
  using Collatz_counts_steps [of 27 111] Collatz_counts_steps [of 1431655765 33]
  by (simp add: collatz_eval)

end
