(* ===== verification/Collatz_Client.thy ===== *)
theory Collatz_Client
  imports Gpu_Calls Wgpu_Setup Collatz_Shader
begin

text \<open>
  \<open>src/examples/client.cpp\<close>, an example program that works with the serializers and Dawn's wire
  client directly, without the client library: it connects, reserves an instance and a device,
  and then has the Collatz shader run on four numbers, again and again. It flushes after almost
  every call. The connection (a class that is not in the repository), the wire client and what the
  server answers are parameters.
\<close>

section \<open>Callbacks\<close>

text \<open>They run on the receive thread; what they print is their second component.\<close>

definition client_adapterRequestCb :: "response \<Rightarrow> ptr \<times> string list" where
  "client_adapterRequestCb = (\<lambda>(status, adapter, message).
     (adapter, (case message of None \<Rightarrow> [] | Some s \<Rightarrow> [''adapter request message: '' @ s]) @ [''assigining adapter handle'']))"

text \<open>The new value of the flag that the main thread waits for, and the status that is printed.\<close>

definition client_handle_buffer_map :: "uint32 \<Rightarrow> bool \<times> string \<times> uint32" where
  "client_handle_buffer_map status = (True, ''buffer_map status='', status)"

definition client_handle_queue_done :: "uint32 \<Rightarrow> bool \<times> string \<times> uint32" where
  "client_handle_queue_done status = (True, ''queue done status='', status)"

definition client_PrintDeviceError :: "WGPUErrorType \<Rightarrow> string \<Rightarrow> string list" where
  "client_PrintDeviceError errorType message =
     (let line = (\<lambda>errorTypeName. [errorTypeName @ '' error: '' @ message])
      in case errorType of
          WGPUErrorType_Validation \<Rightarrow> line ''Validation''
        | WGPUErrorType_OutOfMemory \<Rightarrow> line ''Out of memory''
        | WGPUErrorType_Unknown \<Rightarrow> line ''Unknown''
        | WGPUErrorType_DeviceLost \<Rightarrow> line ''Device lost''
        | _ \<Rightarrow> [])"

definition client_DeviceLogCallback :: "string \<Rightarrow> string list" where
  "client_DeviceLogCallback message = [''Device log: '' @ message]"

section \<open>What the program does\<close>

text \<open>What it prints, its calls with the handles they return, and the flushes of \<open>c2sBuf\<close>.\<close>

datatype (plugins only: code size) client_line =
    Text string
  | Adapter_line string string
  | Instance_line uint32 uint32
  | Device_line uint32 uint32
  | Features_line nat
  | Feature_line uint32
  | Result_line uint32 uint32 uint32 uint32

datatype (plugins only: code size) client_event =
    Says client_line
  | Set_handler
  | Set_transport
  | Set_procs
  | Start_receiving
  | Reserve_instance
  | Request_adapter ptr
  | Get_properties ptr
  | Reserve_device
  | Set_error_callback ptr
  | Set_logging_callback ptr
  | Enumerate_features ptr
  | Get_queue ptr
  | Gpu gpu_call ptr
  | Flush_c2s

record client_answers =
  ca_init :: int
  ca_instance :: "ptr \<times> uint32 \<times> uint32"
  ca_adapter :: "response list"
  ca_properties :: "string \<times> string"
  ca_device :: "ptr \<times> uint32 \<times> uint32"
  ca_features :: "uint32 list"
  ca_uninitialised :: "nat \<Rightarrow> uint32"
  ca_queue :: ptr
  ca_smod :: ptr

record round_answers =
  ra_staging :: ptr
  ra_storage :: ptr
  ra_pipeline :: ptr
  ra_layout :: ptr
  ra_bind_group :: ptr
  ra_cenc :: ptr
  ra_pass :: ptr
  ra_command_buffer :: ptr
  ra_done :: "bool list"
  ra_range :: "uint32 list option"

datatype (plugins only: code size) client_outcome =
    Client_returns int
  | Client_waits "client_event list"
  | Client_runs "client_event list"
  | Client_faults fault

text \<open>A call that is followed by a flush.\<close>

definition flushed :: "gpu_call \<Rightarrow> ptr \<Rightarrow> client_event list" where
  "flushed c h = [Gpu c h, Flush_c2s]"

definition null_or_not :: "string \<Rightarrow> ptr \<Rightarrow> client_event" where
  "null_or_not what h = Says (Text (what @ (if h = 0 then '' is null'' else '' is not null'')))"

text \<open>
  The list of features: an array of 100 of which \<open>wgpuDeviceEnumerateFeatures\<close> fills the beginning; the
  loop prints the element behind the last one, as often as there are features.
\<close>

definition feature_lines :: "uint32 list \<Rightarrow> (nat \<Rightarrow> uint32) \<Rightarrow> client_event list result" where
  "feature_lines feats junk =
     (let nfeatures = length feats; features = feats @ map junk [nfeatures..<100]
      in if nfeatures > 100 then Inl OutOfBounds
         else if nfeatures = 0 then Inr []
         else if nfeatures < 100 then Inr (replicate nfeatures (Says (Feature_line (features ! nfeatures))))
         else Inl OutOfBounds)"

section \<open>A round\<close>

definition numbers :: "uint32 list" where
  "numbers = [1, 690234923, 32234234, 4234234]"

definition numbers_size :: uint32 where "numbers_size = of_nat (4 * length numbers)"
definition numbers_length :: uint32 where "numbers_length = numbers_size div 4"

definition round_setup :: "round_answers \<Rightarrow> ptr \<Rightarrow> ptr \<Rightarrow> client_event list" where
  "round_setup r device smod =
     [Says (Text ''DEBUG: numbers''), Says (Text ''DEBUG: numbers done''), Says (Text ''DEBUG: creating buffer'')]
     @ flushed (CreateBuffer device \<lparr>bd_label = ''staging_buffer'',
         bd_usage = or (usage_bit WGPUBufferUsage_MapRead) (usage_bit WGPUBufferUsage_CopyDst), bd_size = ucast numbers_size,
         bd_mappedAtCreation = False\<rparr>) (ra_staging r)
     @ [Says (Text ''DEBUG: creating buffer 2'')]
     @ flushed (CreateBuffer device \<lparr>bd_label = ''storage_buffer'',
         bd_usage = or (or (usage_bit WGPUBufferUsage_Storage) (usage_bit WGPUBufferUsage_CopyDst)) (usage_bit WGPUBufferUsage_CopySrc),
         bd_size = ucast numbers_size, bd_mappedAtCreation = False\<rparr>) (ra_storage r)
     @ flushed (CreateComputePipeline device ''compute_pipeline'' smod ''main'') (ra_pipeline r)
     @ [Says (Text ''DEBUG: getting bind group layout'')]
     @ flushed (GetBindGroupLayout (ra_pipeline r) 0) (ra_layout r)
     @ [Says (Text ''DEBUG: creating bind group'')]
     @ flushed (CreateBindGroup device ''bind_group'' (ra_layout r)
         [\<lparr>be_binding = 0, be_buffer = ra_storage r, be_offset = 0, be_size = ucast numbers_size\<rparr>]) (ra_bind_group r)"

definition round_commands :: "round_answers \<Rightarrow> ptr \<Rightarrow> ptr \<Rightarrow> client_event list" where
  "round_commands r device queue =
     flushed (CreateCommandEncoder device ''command_encoder'') (ra_cenc r)
     @ [null_or_not ''encoder'' (ra_cenc r)]
     @ flushed (BeginComputePass (ra_cenc r) ''compute_pass'') (ra_pass r)
     @ flushed (SetPipeline (ra_pass r) (ra_pipeline r)) 0
     @ flushed (SetBindGroup (ra_pass r) 0 (ra_bind_group r)) 0
     @ flushed (DispatchWorkgroups (ra_pass r) numbers_length 1 1) 0
     @ flushed (EndPass (ra_pass r)) 0
     @ flushed (CopyBufferToBuffer (ra_cenc r) (ra_storage r) 0 (ra_staging r) 0 (ucast numbers_size)) 0
     @ flushed (Finish (ra_cenc r) ''command_buffer'') (ra_command_buffer r)
     @ flushed (WriteBuffer queue (ra_storage r) 0 numbers) 0
     @ flushed (Submit queue [ra_command_buffer r]) 0
     @ flushed (MapAsync (ra_staging r) (mode_bit WGPUMapMode_Read) 0 (ucast numbers_size)) 0
     @ flushed (DeviceTick device) 0
     @ [Says (Text ''DEBUG: will wait for buffer'')]"

text \<open>The result of a round: its events, and whether it has ended; the ticks of the wait are not flushed.\<close>

definition round_result :: "round_answers \<Rightarrow> (client_event list) result" where
  "round_result r = (case ra_range r of
       None \<Rightarrow> Inr [Says (Text ''RESULT IS NULL'')]
     | Some buf \<Rightarrow> if length buf < 4 then Inl OutOfBounds
         else Inr [Says (Result_line (buf ! 0) (buf ! 1) (buf ! 2) (buf ! 3))])"

definition client_round :: "round_answers \<Rightarrow> ptr \<Rightarrow> ptr \<Rightarrow> ptr \<Rightarrow> (bool \<times> client_event list) result" where
  "client_round r device queue smod =
     (let es = round_setup r device smod @ round_commands r device queue
      in case wait_done (ra_done r) of
           None \<Rightarrow> Inr (False, es @ replicate (length (ra_done r)) (Gpu (DeviceTick device) 0))
         | Some k \<Rightarrow> rbind (round_result r) (\<lambda>out. Inr (True, es @ replicate k (Gpu (DeviceTick device) 0)
               @ [Says (Text ''DEBUG: about to get result'')]
               @ flushed (GetConstMappedRange (ra_staging r) 0 (ucast numbers_size)) 0 @ out)))"

text \<open>\<open>while (1)\<close>: the rounds so far, up to the one that is still waiting.\<close>

fun client_rounds :: "round_answers list \<Rightarrow> ptr \<Rightarrow> ptr \<Rightarrow> ptr \<Rightarrow> client_event list result" where
  "client_rounds [] device queue smod = Inr []"
| "client_rounds (r # rs) device queue smod = rbind (client_round r device queue smod) (\<lambda>(ended, es).
     if ended then rbind (client_rounds rs device queue smod) (\<lambda>es'. Inr (es @ es')) else Inr es)"

section \<open>main\<close>

definition client_main :: "client_answers \<Rightarrow> round_answers list \<Rightarrow> client_outcome" where
  "client_main s rounds =
     (if ca_init s < 0 then Client_returns (ca_init s)
      else let (inst, i, g) = ca_instance s;
               es1 = [Set_handler, Set_transport, Set_procs, Start_receiving, Says (Text ''creating instance''),
                      Reserve_instance, Says (Instance_line i g),
                      Says (Text ''requesting adapter''), Request_adapter inst, Flush_c2s]
           in case fst (wait_nonnull client_adapterRequestCb 0 (ca_adapter s)) of
                None \<Rightarrow> Client_waits es1
              | Some adapter \<Rightarrow>
                  (let (device, di, dg) = ca_device s; queue = ca_queue s; smod = ca_smod s;
                       (vendor, arch) = ca_properties s;
                       es2 = es1 @ [Says (Text ''adapter received''), Get_properties adapter, Says (Adapter_line vendor arch),
                                    Reserve_device, Says (Device_line di dg), Set_error_callback device,
                                    Set_logging_callback device, Enumerate_features device, Flush_c2s,
                                    Says (Features_line (length (ca_features s)))]
                   in case feature_lines (ca_features s) (ca_uninitialised s) of
                        Inl f \<Rightarrow> Client_faults f
                      | Inr fs \<Rightarrow>
                          (let es3 = es2 @ fs @ [Get_queue device, Flush_c2s, null_or_not ''queue'' queue]
                                     @ flushed (CreateShaderModule device ''compute_shader'') smod
                                     @ [null_or_not ''shader module'' smod]
                           in case client_rounds rounds device queue smod of
                                Inl f \<Rightarrow> Client_faults f
                              | Inr es \<Rightarrow> Client_runs (es3 @ es))))"

section \<open>The calls\<close>

fun calls_of :: "client_event list \<Rightarrow> trace" where
  "calls_of [] = []"
| "calls_of (Gpu c h # es) = (c, h) # calls_of es"
| "calls_of (e # es) = calls_of es"

lemma calls_of_append: "calls_of (es @ fs) = calls_of es @ calls_of fs"
  by (induction es rule: calls_of.induct) simp_all

lemma calls_of_says: "calls_of (map Says ls) = []" "calls_of (replicate n (Says l)) = []"
  by (induction ls; simp) (induction n; simp)

lemma calls_of_ticks: "calls_of (replicate k (Gpu (DeviceTick device) h)) = replicate k (DeviceTick device, h)"
  by (induction k) simp_all

lemma calls_of_flushed: "calls_of (flushed c h) = [(c, h)]"
  by (simp add: flushed_def)

lemma numbers_sizes: "numbers_size = 16" "numbers_length = 4" "length numbers = 4"
  by (simp_all add: numbers_size_def numbers_length_def numbers_def)

text \<open>The calls of a round, up to the wait.\<close>

definition round_calls :: "round_answers \<Rightarrow> ptr \<Rightarrow> ptr \<Rightarrow> ptr \<Rightarrow> trace" where
  "round_calls r device queue smod = calls_of (round_setup r device smod @ round_commands r device queue)"

lemma round_calls_list:
  "round_calls r device queue smod =
     [(CreateBuffer device \<lparr>bd_label = ''staging_buffer'', bd_usage = or (usage_bit WGPUBufferUsage_MapRead) (usage_bit WGPUBufferUsage_CopyDst),
         bd_size = 16, bd_mappedAtCreation = False\<rparr>, ra_staging r),
      (CreateBuffer device \<lparr>bd_label = ''storage_buffer'',
         bd_usage = or (or (usage_bit WGPUBufferUsage_Storage) (usage_bit WGPUBufferUsage_CopyDst)) (usage_bit WGPUBufferUsage_CopySrc),
         bd_size = 16, bd_mappedAtCreation = False\<rparr>, ra_storage r),
      (CreateComputePipeline device ''compute_pipeline'' smod ''main'', ra_pipeline r),
      (GetBindGroupLayout (ra_pipeline r) 0, ra_layout r),
      (CreateBindGroup device ''bind_group'' (ra_layout r)
         [\<lparr>be_binding = 0, be_buffer = ra_storage r, be_offset = 0, be_size = 16\<rparr>], ra_bind_group r),
      (CreateCommandEncoder device ''command_encoder'', ra_cenc r),
      (BeginComputePass (ra_cenc r) ''compute_pass'', ra_pass r),
      (SetPipeline (ra_pass r) (ra_pipeline r), 0), (SetBindGroup (ra_pass r) 0 (ra_bind_group r), 0),
      (DispatchWorkgroups (ra_pass r) 4 1 1, 0), (EndPass (ra_pass r), 0),
      (CopyBufferToBuffer (ra_cenc r) (ra_storage r) 0 (ra_staging r) 0 16, 0),
      (Finish (ra_cenc r) ''command_buffer'', ra_command_buffer r),
      (WriteBuffer queue (ra_storage r) 0 numbers, 0), (Submit queue [ra_command_buffer r], 0),
      (MapAsync (ra_staging r) (mode_bit WGPUMapMode_Read) 0 16, 0), (DeviceTick device, 0)]"
  by (simp add: round_calls_def round_setup_def round_commands_def flushed_def null_or_not_def numbers_sizes)

section \<open>The result of a round\<close>

text \<open>What the dispatch of the shader does.\<close>

definition collatz_effect :: dispatcher where
  "collatz_effect grp dims d = (case bound_buffer d grp 0 of
       None \<Rightarrow> {d}
     | Some (h, v_indices) \<Rightarrow> {d\<lparr>contents := (contents d)(h \<mapsto> v)\<rparr> |v. v \<in> collatz_results dims v_indices})"

definition collatz_answer :: "uint32 list" where
  "collatz_answer = [0, 133, 219, 198]"

lemma collatz_results_numbers: "collatz_results (4, 1, 1) numbers = {collatz_answer}"
  using collatz_dispatch_result [of 4 numbers "\<lambda>n. the (collatz_iterations n)"] collatz_examples
  by (simp add: numbers_def collatz_answer_def)

lemma ticks_effect: "trace_effect disp (replicate k (DeviceTick device, h)) d = {d}"
  by (induction k) simp_all

lemma round_effect:
  assumes "ra_staging r \<noteq> ra_storage r"
  shows "(\<lambda>d. contents d (ra_staging r)) ` trace_effect collatz_effect (round_calls r device queue smod
     @ replicate k (DeviceTick device, 0)) d = {Some collatz_answer}"
  using assms
  by (simp add: round_calls_list trace_effect_append ticks_effect record_command_def collatz_effect_def bound_buffer_def
      overwrite_def numbers_sizes collatz_results_numbers) (simp add: collatz_answer_def)

text \<open>
  A round whose answers are those that WebGPU promises, from some state of the device.
\<close>

definition good_round :: "round_answers \<Rightarrow> ptr \<Rightarrow> ptr \<Rightarrow> ptr \<Rightarrow> bool" where
  "good_round r device queue smod \<longleftrightarrow> ra_staging r \<noteq> ra_storage r
     \<and> (\<exists>k d. wait_done (ra_done r) = Some k
          \<and> ra_range r \<in> (\<lambda>d. contents d (ra_staging r)) ` trace_effect collatz_effect
              (round_calls r device queue smod @ replicate k (DeviceTick device, 0)) d)"

fun results_of :: "client_event list \<Rightarrow> (uint32 \<times> uint32 \<times> uint32 \<times> uint32) list" where
  "results_of [] = []"
| "results_of (Says (Result_line a b c d) # es) = (a, b, c, d) # results_of es"
| "results_of (e # es) = results_of es"

lemma results_of_append: "results_of (es @ fs) = results_of es @ results_of fs"
  by (induction es rule: results_of.induct) simp_all

lemma results_of_ticks: "results_of (replicate k (Gpu c h)) = []"
  by (induction k) simp_all

lemma results_of_round: "results_of (round_setup r device smod) = []" "results_of (round_commands r device queue) = []"
  by (simp_all add: round_setup_def round_commands_def flushed_def null_or_not_def)

lemma good_round_result:
  assumes "good_round r device queue smod"
  shows "\<exists>es. client_round r device queue smod = Inr (True, es) \<and> results_of es = [(0, 133, 219, 198)]"
proof -
  obtain k d where k: "wait_done (ra_done r) = Some k" and ne: "ra_staging r \<noteq> ra_storage r"
    and "ra_range r \<in> (\<lambda>d. contents d (ra_staging r)) ` trace_effect collatz_effect
              (round_calls r device queue smod @ replicate k (DeviceTick device, 0)) d"
    using assms unfolding good_round_def by blast
  then have "ra_range r = Some collatz_answer" unfolding round_effect [OF ne] by simp
  with k show ?thesis
    by (simp add: client_round_def round_result_def collatz_answer_def results_of_append results_of_round results_of_ticks flushed_def)
qed

lemma good_rounds_results:
  "\<forall>r \<in> set rs. good_round r device queue smod \<Longrightarrow>
   \<exists>es. client_rounds rs device queue smod = Inr es \<and> results_of es = replicate (length rs) (0, 133, 219, 198)"
proof (induction rs)
  case (Cons r rs)
  then obtain es es' where "client_round r device queue smod = Inr (True, es)" "results_of es = [(0, 133, 219, 198)]"
      "client_rounds rs device queue smod = Inr es'" "results_of es' = replicate (length rs) (0, 133, 219, 198)"
    using good_round_result [of r device queue smod] by auto
  then show ?case by (simp add: results_of_append)
qed simp

section \<open>The program\<close>

lemma client_wait:
  "fst (wait_nonnull client_adapterRequestCb 0 rs) = first_handle rs"
  by (rule wait_nonnull_first) (simp add: client_adapterRequestCb_def split: prod.split)

text \<open>The loop over the features never prints a feature: all lines show the element behind the last.\<close>

lemma feature_lines_cases:
  "feature_lines feats junk =
     (if feats = [] then Inr []
      else if length feats < 100 then Inr (replicate (length feats) (Says (Feature_line (junk (length feats)))))
      else Inl OutOfBounds)"
proof (cases "length feats < 100")
  case True
  then have "(feats @ map junk [length feats..<100]) ! length feats = junk (length feats)"
    by (simp add: nth_append)
  with True show ?thesis by (simp add: feature_lines_def Let_def)
next
  case False
  then have "feats \<noteq> []" by auto
  with False show ?thesis by (simp add: feature_lines_def Let_def)
qed

lemma client_main_returns: "client_main s rs = Client_returns e \<longleftrightarrow> ca_init s < 0 \<and> e = ca_init s"
  by (auto simp: client_main_def Let_def split: prod.splits option.splits sum.splits)

definition client_start_events :: "client_answers \<Rightarrow> ptr \<Rightarrow> client_event list \<Rightarrow> client_event list" where
  "client_start_events s adapter fs =
     [Set_handler, Set_transport, Set_procs, Start_receiving, Says (Text ''creating instance''), Reserve_instance,
      Says (Instance_line (fst (snd (ca_instance s))) (snd (snd (ca_instance s)))),
      Says (Text ''requesting adapter''), Request_adapter (fst (ca_instance s)), Flush_c2s,
      Says (Text ''adapter received''), Get_properties adapter,
      Says (Adapter_line (fst (ca_properties s)) (snd (ca_properties s))), Reserve_device,
      Says (Device_line (fst (snd (ca_device s))) (snd (snd (ca_device s)))),
      Set_error_callback (fst (ca_device s)), Set_logging_callback (fst (ca_device s)),
      Enumerate_features (fst (ca_device s)), Flush_c2s, Says (Features_line (length (ca_features s)))]
     @ fs @ [Get_queue (fst (ca_device s)), Flush_c2s, null_or_not ''queue'' (ca_queue s)]
     @ flushed (CreateShaderModule (fst (ca_device s)) ''compute_shader'') (ca_smod s)
     @ [null_or_not ''shader module'' (ca_smod s)]"

lemma client_main_runs:
  assumes "0 \<le> ca_init s" "first_handle (ca_adapter s) = Some adapter"
    and "feature_lines (ca_features s) (ca_uninitialised s) = Inr fs"
  shows "client_main s rs = (case client_rounds rs (fst (ca_device s)) (ca_queue s) (ca_smod s) of
      Inl f \<Rightarrow> Client_faults f | Inr es \<Rightarrow> Client_runs (client_start_events s adapter fs @ es))"
  using assms by (simp add: client_main_def client_wait client_start_events_def Let_def case_prod_unfold split: sum.split)

lemma start_events:
  assumes "feature_lines (ca_features s) (ca_uninitialised s) = Inr fs"
  shows "calls_of (client_start_events s adapter fs) = [(CreateShaderModule (fst (ca_device s)) ''compute_shader'', ca_smod s)]"
    "results_of (client_start_events s adapter fs) = []"
proof -
  have "results_of (replicate n (Says (Feature_line f))) = []" for n f by (induction n) simp_all
  then have fs: "calls_of fs = []" "results_of fs = []"
    using assms by (auto simp: feature_lines_cases calls_of_says split: if_splits)
  show "calls_of (client_start_events s adapter fs) = [(CreateShaderModule (fst (ca_device s)) ''compute_shader'', ca_smod s)]"
    "results_of (client_start_events s adapter fs) = []"
    by (simp_all add: client_start_events_def calls_of_append results_of_append fs flushed_def null_or_not_def)
qed

section \<open>Properties\<close>

text \<open>
  C40: What the program prints: connected, with an adapter, at most 99 features and an
  implementation that does what WebGPU promises, it never ends, and every round prints the numbers
  of Collatz steps of its four numbers, 0, 133, 219 and 198, in whatever order the invocations of
  the shader run.
\<close>

theorem Collatz_client_results:
  assumes "0 \<le> ca_init s" "first_handle (ca_adapter s) = Some adapter" "length (ca_features s) < 100"
    and "\<forall>r \<in> set rs. good_round r (fst (ca_device s)) (ca_queue s) (ca_smod s)"
  shows "\<exists>es. client_main s rs = Client_runs es \<and> results_of es = replicate (length rs) (0, 133, 219, 198)"
proof -
  obtain fs where fs: "feature_lines (ca_features s) (ca_uninitialised s) = Inr fs"
    using assms(3) unfolding feature_lines_cases by (cases "ca_features s = []") auto
  from good_rounds_results [OF assms(4)] show ?thesis
    by (auto simp: client_main_runs [OF assms(1,2) fs] results_of_append start_events [OF fs])
qed

section \<open>Witnesses\<close>

definition demo_client :: client_answers where
  "demo_client = \<lparr>ca_init = 0, ca_instance = (1, 1, 0), ca_adapter = [(0, 2, None)], ca_properties = (''v'', ''a''),
     ca_device = (3, 1, 0), ca_features = [5, 6], ca_uninitialised = (\<lambda>_. 77), ca_queue = 4, ca_smod = 5\<rparr>"

definition demo_round :: round_answers where
  "demo_round = \<lparr>ra_staging = 10, ra_storage = 11, ra_pipeline = 12, ra_layout = 13, ra_bind_group = 14, ra_cenc = 15,
     ra_pass = 16, ra_command_buffer = 17, ra_done = [False, True], ra_range = Some collatz_answer\<rparr>"

lemma demo_round_good: "good_round demo_round device queue smod"
proof -
  have ne: "ra_staging demo_round \<noteq> ra_storage demo_round" by (simp add: demo_round_def)
  have "wait_done (ra_done demo_round) = Some 1" by (simp add: demo_round_def)
  moreover have "ra_range demo_round \<in> (\<lambda>d. contents d (ra_staging demo_round)) ` trace_effect collatz_effect
      (round_calls demo_round device queue smod @ replicate 1 (DeviceTick device, 0)) no_device"
    unfolding round_effect [OF ne] by (simp add: demo_round_def)
  ultimately show ?thesis using ne unfolding good_round_def by blast
qed

lemma Collatz_client_results_witness:
  "\<exists>es. client_main demo_client [demo_round, demo_round] = Client_runs es
     \<and> results_of es = [(0, 133, 219, 198), (0, 133, 219, 198)]"
  using Collatz_client_results [of demo_client 2 "[demo_round, demo_round]"] demo_round_good
  by (simp add: demo_client_def first_handle_simps)

end
